(* ===== verification/Prelude.thy ===== *)
theory Prelude
  imports Main "HOL-Library.Word" "HOL-Library.Monad_Syntax" "HOL-Library.Sublist"
begin

text \<open>
  Shared vocabulary of the development: the machine integer types of the C++ sources, the
  exceptions the sources throw, reads that are undefined behaviour out of range, the
  \<open>std::search\<close> and number-formatting functions of the standard library that several
  components use, and the generic list lemmas the component proofs rest on.

  \<^item> A C++ function that may throw returns \<open>exn + 'a\<close> (\<open>Inl\<close> is the exception).
  \<^item> A C++ expression whose evaluation may be undefined behaviour (an unchecked
    \<open>span\<close> or \<open>vector\<close> access) returns \<open>'a option\<close>; \<open>None\<close> is undefined
    behaviour. "The function never runs into undefined behaviour" is then a theorem.
\<close>

unbundle bit_operations_syntax

named_theorems wire_simps \<open>sizes and offsets of the wire formats\<close>

named_theorems codec_simps \<open>equations that evaluate encoders and decoders\<close>

section \<open>Types\<close>

type_synonym u8 = "8 word"
type_synonym u16 = "16 word"
type_synonym u32 = "32 word"
type_synonym u64 = "64 word"
type_synonym ByteVector = "u8 list"

datatype exn = invalid_argument string | runtime_error string | system_error string

type_synonym 'a result = "exn + 'a"

section \<open>Unchecked accesses\<close>

text \<open>\<open>at_ub xs i\<close> is \<open>xs[i]\<close> of a \<open>std::span\<close> or \<open>std::vector\<close>: undefined
  behaviour (\<open>None\<close>) out of range. \<open>range_ub xs a b\<close> is the range
  \<open>[begin + a, begin + b)\<close>.\<close>

definition at_ub :: "'a list \<Rightarrow> nat \<Rightarrow> 'a option" where
  "at_ub xs i = (if i < length xs then Some (xs ! i) else None)"

definition range_ub :: "'a list \<Rightarrow> nat \<Rightarrow> nat \<Rightarrow> 'a list option" where
  "range_ub xs a b = (if a \<le> b \<and> b \<le> length xs then Some (take (b - a) (drop a xs)) else None)"

lemma at_ub_in [simp]: "i < length xs \<Longrightarrow> at_ub xs i = Some (xs ! i)"
  by (simp add: at_ub_def)

lemma at_ub_append1: "i < length xs \<Longrightarrow> at_ub (xs @ ys) i = at_ub xs i"
  by (simp add: at_ub_def nth_append)

lemma at_ub_append2: "length xs \<le> i \<Longrightarrow> at_ub (xs @ ys) i = at_ub ys (i - length xs)"
  by (auto simp: at_ub_def nth_append)

lemma drop_at_ub: "at_ub xs i = Some x \<Longrightarrow> drop i xs = x # drop (Suc i) xs"
  by (auto simp: at_ub_def Cons_nth_drop_Suc split: if_splits)

lemma at_ub_SomeD: "at_ub xs i = Some x \<Longrightarrow> i < length xs"
  by (simp add: at_ub_def split: if_splits)

lemma range_ub_in [simp]:
  "a \<le> b \<Longrightarrow> b \<le> length xs \<Longrightarrow> range_ub xs a b = Some (take (b - a) (drop a xs))"
  by (simp add: range_ub_def)

section \<open>\<open>std::search\<close>\<close>

text \<open>Position of the first occurrence of a pattern; \<open>None\<close> is the end iterator.\<close>

fun search :: "'a list \<Rightarrow> 'a list \<Rightarrow> nat option" where
  "search p [] = (if p = [] then Some 0 else None)"
| "search p (x # xs) =
     (if take (length p) (x # xs) = p then Some 0 else map_option Suc (search p xs))"

lemma search_SomeD:
  "search p xs = Some i \<Longrightarrow> i + length p \<le> length xs \<and> take (length p) (drop i xs) = p"
proof (induction xs arbitrary: i)
  case (Cons x xs)
  show ?case
  proof (cases "take (length p) (x # xs) = p")
    case True
    then have "length p \<le> length (x # xs)"
      by (metis length_take min.cobounded1)
    with True Cons.prems show ?thesis by simp
  next
    case False
    with Cons.prems obtain j where "i = Suc j" "search p xs = Some j" by auto
    with Cons.IH show ?thesis by fastforce
  qed
qed (auto split: if_splits)

lemma search_least:
  "search p xs = Some i \<Longrightarrow> j < i \<Longrightarrow> take (length p) (drop j xs) \<noteq> p"
proof (induction xs arbitrary: i j)
  case (Cons x xs)
  then show ?case by (cases j) (auto split: if_splits)
qed (auto split: if_splits)

lemma search_NoneD:
  "search p xs = None \<Longrightarrow> j \<le> length xs \<Longrightarrow> take (length p) (drop j xs) \<noteq> p"
proof (induction xs arbitrary: j)
  case (Cons x xs)
  then show ?case by (cases j) (auto split: if_splits)
qed (auto split: if_splits)

lemma search_SomeI:
  assumes "take (length p) (drop i xs) = p" and "i \<le> length xs"
    and "\<And>j. j < i \<Longrightarrow> take (length p) (drop j xs) \<noteq> p"
  shows "search p xs = Some i"
proof (cases "search p xs")
  case None
  with assms search_NoneD show ?thesis by blast
next
  case (Some k)
  then have "take (length p) (drop k xs) = p" by (simp add: search_SomeD)
  with assms(3) have "\<not> k < i" by blast
  moreover from Some assms(1) search_least have "\<not> i < k" by blast
  ultimately show ?thesis using Some by simp
qed

lemma search_prefix: "search p (p @ xs) = Some 0"
  by (rule search_SomeI) auto

lemma search_append_Some:
  assumes "search p xs = Some i"
  shows "search p (xs @ ys) = Some i"
proof (rule search_SomeI)
  from assms have len: "i + length p \<le> length xs" and at: "take (length p) (drop i xs) = p"
    using search_SomeD by auto
  from len at show "take (length p) (drop i (xs @ ys)) = p" by simp
  from len show "i \<le> length (xs @ ys)" by simp
  fix j assume "j < i"
  with len assms search_least [of p xs i j] show "take (length p) (drop j (xs @ ys)) \<noteq> p"
    by simp
qed

text \<open>Dropping a prefix that cannot hold the start of an occurrence only shifts the search.\<close>

lemma search_drop:
  assumes "\<And>j. j < n \<Longrightarrow> take (length p) (drop j xs) \<noteq> p" and "n \<le> length xs"
  shows "search p xs = map_option ((+) n) (search p (drop n xs))"
proof (cases "search p (drop n xs)")
  case None
  have "search p xs = None"
  proof (rule ccontr)
    assume "search p xs \<noteq> None"
    then obtain i where i: "search p xs = Some i" by blast
    then have occ: "take (length p) (drop i xs) = p" and len: "i + length p \<le> length xs"
      using search_SomeD by auto
    with assms(1) have "n \<le> i" by (meson not_le)
    with occ have "take (length p) (drop (i - n) (drop n xs)) = p" by simp
    moreover from len \<open>n \<le> i\<close> have "i - n \<le> length (drop n xs)" by simp
    ultimately show False using search_NoneD [OF None] by blast
  qed
  with None show ?thesis by simp
next
  case (Some k)
  have "search p xs = Some (n + k)"
  proof (rule search_SomeI)
    from Some show "take (length p) (drop (n + k) xs) = p"
      by (auto dest: search_SomeD simp: add.commute)
    from Some show "n + k \<le> length xs"
      using assms(2) by (auto dest: search_SomeD)
    fix j assume j: "j < n + k"
    show "take (length p) (drop j xs) \<noteq> p"
    proof (cases "j < n")
      case True
      then show ?thesis by (rule assms(1))
    next
      case False
      with j have "j - n < k" by simp
      from search_least [OF Some this] False show ?thesis by simp
    qed
  qed
  with Some show ?thesis by simp
qed

section \<open>Words\<close>

lemma xor_right_cancel: "x XOR z = y XOR z \<longleftrightarrow> x = (y :: 'a::len word)"
  by (metis xor.assoc xor_self_eq xor.right_neutral)

lemma xor_left_cancel: "z XOR x = z XOR y \<longleftrightarrow> x = (y :: 'a::len word)"
  by (simp add: xor.commute [of z] xor_right_cancel)

lemma ucast_8_32_inject: "(ucast (a :: u8) :: u32) = ucast b \<longleftrightarrow> a = b"
proof -
  have "(ucast (ucast c :: u32) :: u8) = c" for c :: u8
    by (rule bit_word_eqI) (auto simp: bit_simps)
  then show ?thesis by metis
qed

section \<open>Number formatting of \<open>std::ostream\<close>\<close>

text \<open>Decimal and lower-case hexadecimal output, and \<open>setw\<close>/\<open>setfill('0')\<close> padding.\<close>

definition digit_char :: "nat \<Rightarrow> char" where
  "digit_char d = char_of (if d < 10 then 48 + d else 87 + d)"

fun show_base :: "nat \<Rightarrow> nat \<Rightarrow> string" where
  "show_base b n =
     (if b < 2 \<or> n < b then [digit_char n] else show_base b (n div b) @ [digit_char (n mod b)])"

declare show_base.simps [simp del]

abbreviation show_nat :: "nat \<Rightarrow> string" where
  "show_nat \<equiv> show_base 10"

abbreviation show_hex :: "nat \<Rightarrow> string" where
  "show_hex \<equiv> show_base 16"

text \<open>Decimal digits and the value they denote; decimal output is read back.\<close>

definition is_digit :: "char \<Rightarrow> bool" where
  "is_digit c \<longleftrightarrow> 48 \<le> (of_char c :: nat) \<and> (of_char c :: nat) \<le> 57"

definition digit_value :: "char \<Rightarrow> nat" where
  "digit_value c = of_char c - 48"

definition decimal_value :: "string \<Rightarrow> nat" where
  "decimal_value s = foldl (\<lambda>v c. 10 * v + digit_value c) 0 s"

lemma is_digit_char: "d < 10 \<Longrightarrow> is_digit (digit_char d) \<and> digit_value (digit_char d) = d"
  by (simp add: is_digit_def digit_value_def digit_char_def of_char_of)

lemma decimal_value_snoc: "decimal_value (s @ [c]) = 10 * decimal_value s + digit_value c"
  by (simp add: decimal_value_def)

lemma show_nat_decimal: "list_all is_digit (show_nat n) \<and> decimal_value (show_nat n) = n \<and> show_nat n \<noteq> []"
proof (induction n rule: less_induct)
  case (less n)
  show ?case
  proof (cases "n < 10")
    case True
    then show ?thesis using is_digit_char [of n] by (simp add: show_base.simps decimal_value_def)
  next
    case False
    then have "show_nat n = show_nat (n div 10) @ [digit_char (n mod 10)]" by (subst show_base.simps) simp
    with less.IH [of "n div 10"] False is_digit_char [of "n mod 10"] show ?thesis
      by (simp add: decimal_value_snoc)
  qed
qed

lemma show_nat_inject: "show_nat a = show_nat b \<longleftrightarrow> a = b"
  using show_nat_decimal by metis

definition pad_left :: "nat \<Rightarrow> char \<Rightarrow> string \<Rightarrow> string" where
  "pad_left w c s = replicate (w - length s) c @ s"

section \<open>Bytes and characters\<close>

definition byte_of_char :: "char \<Rightarrow> u8" where
  "byte_of_char c = of_nat (of_char c)"

definition char_of_byte :: "u8 \<Rightarrow> char" where
  "char_of_byte b = char_of (unat b)"

lemma char_of_byte_of_char [simp]: "char_of_byte (byte_of_char c) = c"
proof -
  have "of_char c < (256 :: nat)"
    using of_char_of [of "of_char c :: nat"] by (metis char_of_char mod_less_divisor zero_less_numeral)
  then show ?thesis by (simp add: byte_of_char_def char_of_byte_def unat_of_nat)
qed

lemma byte_of_char_of_byte [simp]: "byte_of_char (char_of_byte b) = b"
proof -
  have "unat b < 256" using unsigned_less [of b] by simp
  then show ?thesis by (simp add: byte_of_char_def char_of_byte_def of_char_of)
qed

end
