(* ===== verification/Byte_Utils.thy ===== *)
theory Byte_Utils
  imports Prelude
begin

text \<open>
  Model of \<open>include/stgs/ByteUtils.hpp\<close>: big-endian writers and readers. A writer appends
  to a byte vector; a reader is unchecked in the source (the caller guarantees the bounds),
  so it returns \<open>None\<close> when it would read outside the buffer. A \<open>float\<close> is carried as
  its IEEE-754 bit pattern (a \<open>u32\<close>), so \<open>std::bit_cast\<close> is the identity.

  The lemmas give, for every width, the length a writer adds and that a reader at that
  offset returns the value written, wherever the field stands in a buffer. The locale
  \<open>wire_field\<close> is the contract the codecs rely on.
\<close>

unbundle bit_operations_syntax

type_synonym float32 = u32

section \<open>Writers\<close>

definition ByteMask :: u64 where
  "ByteMask = 0xFF"

definition appendU8 :: "ByteVector \<Rightarrow> u8 \<Rightarrow> ByteVector" where
  "appendU8 out v = out @ [v]"

definition appendU16BE :: "ByteVector \<Rightarrow> u16 \<Rightarrow> ByteVector" where
  "appendU16BE out v =
     (out @ [ucast ((ucast (drop_bit 8 v) :: u64) AND ByteMask)])
       @ [ucast ((ucast v :: u64) AND ByteMask)]"

definition appendU32BE :: "ByteVector \<Rightarrow> u32 \<Rightarrow> ByteVector" where
  "appendU32BE out v =
     out @ [ucast ((ucast (drop_bit 24 v) :: u64) AND ByteMask)]
         @ [ucast ((ucast (drop_bit 16 v) :: u64) AND ByteMask)]
         @ [ucast ((ucast (drop_bit 8 v) :: u64) AND ByteMask)]
         @ [ucast ((ucast v :: u64) AND ByteMask)]"

text \<open>The loop \<open>for (int shift = 56; shift >= 0; shift -= 8)\<close>.\<close>

function appendU64BE_loop :: "ByteVector \<Rightarrow> u64 \<Rightarrow> int \<Rightarrow> ByteVector" where
  "appendU64BE_loop out v shift =
     (if 0 \<le> shift
      then appendU64BE_loop (out @ [ucast (drop_bit (nat shift) v AND ByteMask)]) v (shift - 8)
      else out)"
  by pat_completeness auto
termination
  by (relation "measure (\<lambda>(out, v, shift). nat (shift + 8))") auto

declare appendU64BE_loop.simps [simp del]

definition appendU64BE :: "ByteVector \<Rightarrow> u64 \<Rightarrow> ByteVector" where
  "appendU64BE out v = appendU64BE_loop out v 56"

definition appendFloatBE :: "ByteVector \<Rightarrow> float32 \<Rightarrow> ByteVector" where
  "appendFloatBE out v = appendU32BE out v"

section \<open>Readers\<close>

definition readU16BE :: "ByteVector \<Rightarrow> nat \<Rightarrow> u16 option" where
  "readU16BE bytes offset = do {
     b0 \<leftarrow> at_ub bytes offset;
     b1 \<leftarrow> at_ub bytes (offset + 1);
     Some (push_bit 8 (ucast b0) OR ucast b1)
   }"

definition readU32BE :: "ByteVector \<Rightarrow> nat \<Rightarrow> u32 option" where
  "readU32BE bytes offset = do {
     b0 \<leftarrow> at_ub bytes offset;
     b1 \<leftarrow> at_ub bytes (offset + 1);
     b2 \<leftarrow> at_ub bytes (offset + 2);
     b3 \<leftarrow> at_ub bytes (offset + 3);
     Some (push_bit 24 (ucast b0) OR push_bit 16 (ucast b1) OR push_bit 8 (ucast b2) OR ucast b3)
   }"

text \<open>The loop \<open>for (i = 0; i < 8; ++i) value = (value << 8) | bytes[offset + i]\<close>.\<close>

function readU64BE_loop :: "ByteVector \<Rightarrow> nat \<Rightarrow> u64 \<Rightarrow> nat \<Rightarrow> u64 option" where
  "readU64BE_loop bytes offset v i =
     (if i < 8
      then case at_ub bytes (offset + i) of
             None \<Rightarrow> None
           | Some b \<Rightarrow> readU64BE_loop bytes offset (push_bit 8 v OR ucast b) (Suc i)
      else Some v)"
  by pat_completeness auto
termination
  by (relation "measure (\<lambda>(bytes, offset, v, i). 8 - i)") auto

declare readU64BE_loop.simps [simp del]

definition readU64BE :: "ByteVector \<Rightarrow> nat \<Rightarrow> u64 option" where
  "readU64BE bytes offset = readU64BE_loop bytes offset 0 0"

definition readFloatBE :: "ByteVector \<Rightarrow> nat \<Rightarrow> float32 option" where
  "readFloatBE bytes offset = readU32BE bytes offset"

section \<open>Byte lists of the fields\<close>

text \<open>The bytes a writer adds, independent of the buffer.\<close>

definition be16 :: "u16 \<Rightarrow> ByteVector" where
  "be16 v = [ucast (drop_bit 8 v), ucast v]"

definition be32 :: "u32 \<Rightarrow> ByteVector" where
  "be32 v = [ucast (drop_bit 24 v), ucast (drop_bit 16 v), ucast (drop_bit 8 v), ucast v]"

definition be64 :: "u64 \<Rightarrow> ByteVector" where
  "be64 v = map (\<lambda>k. ucast (drop_bit k v)) [56, 48, 40, 32, 24, 16, 8, 0]"

lemma ByteMask_mask: "ByteMask = mask 8"
  by (simp add: ByteMask_def mask_eq_exp_minus_1)

lemma ucast_mask16: "(ucast ((ucast (w :: u16) :: u64) AND ByteMask) :: u8) = ucast w"
  by (rule bit_word_eqI) (auto simp: bit_simps ByteMask_mask)

lemma ucast_mask32: "(ucast ((ucast (w :: u32) :: u64) AND ByteMask) :: u8) = ucast w"
  by (rule bit_word_eqI) (auto simp: bit_simps ByteMask_mask)

lemma ucast_mask64: "(ucast ((w :: u64) AND ByteMask) :: u8) = ucast w"
  by (rule bit_word_eqI) (auto simp: bit_simps ByteMask_mask)

lemma appendU8_eq [codec_simps]: "appendU8 out v = out @ [v]"
  by (simp add: appendU8_def)

lemma appendU16BE_eq [codec_simps]: "appendU16BE out v = out @ be16 v"
  by (simp add: appendU16BE_def be16_def ucast_mask16)

lemma appendU32BE_eq [codec_simps]: "appendU32BE out v = out @ be32 v"
  by (simp add: appendU32BE_def be32_def ucast_mask32)

lemma appendU64BE_eq [codec_simps]: "appendU64BE out v = out @ be64 v"
  by (simp add: appendU64BE_def be64_def appendU64BE_loop.simps ucast_mask64)

lemma appendFloatBE_eq [codec_simps]: "appendFloatBE out v = out @ be32 v"
  by (simp add: appendFloatBE_def appendU32BE_eq)

lemma length_be16 [simp]: "length (be16 v) = 2"
  by (simp add: be16_def)

lemma length_be32 [simp]: "length (be32 v) = 4"
  by (simp add: be32_def)

lemma length_be64 [simp]: "length (be64 v) = 8"
  by (simp add: be64_def)

section \<open>Reading back\<close>

lemma join16: "push_bit 8 (ucast (ucast (drop_bit 8 (v :: u16)) :: u8)) OR ucast (ucast v :: u8) = v"
  by (rule bit_word_eqI) (auto simp: bit_simps)

lemma join32:
  "push_bit 24 (ucast (ucast (drop_bit 24 (v :: u32)) :: u8)) OR
   push_bit 16 (ucast (ucast (drop_bit 16 v) :: u8)) OR
   push_bit 8 (ucast (ucast (drop_bit 8 v) :: u8)) OR ucast (ucast v :: u8) = v"
proof (rule bit_word_eqI)
  fix n assume "n < LENGTH(32)"
  then consider "n < 8" | "8 \<le> n" "n < 16" | "16 \<le> n" "n < 24" | "24 \<le> n" "n < 32"
    by (auto simp: not_le) linarith
  then show "bit ((push_bit 24 (ucast (ucast (drop_bit 24 v) :: u8)) OR
      push_bit 16 (ucast (ucast (drop_bit 16 v) :: u8)) OR
      push_bit 8 (ucast (ucast (drop_bit 8 v) :: u8)) OR ucast (ucast v :: u8)) :: u32) n = bit v n"
    by cases (auto simp: bit_simps)
qed

text \<open>One step of \<open>readU64BE\<close> extends the top \<open>n\<close> bits of the value by eight bits.\<close>

lemma join64_step:
  "8 \<le> n \<Longrightarrow> n \<le> 64 \<Longrightarrow>
   push_bit 8 (drop_bit n (v :: u64)) OR ucast (ucast (drop_bit (n - 8) v) :: u8)
     = drop_bit (n - 8) v"
  by (rule bit_word_eqI) (auto simp: bit_simps not_le)

lemma readU16BE_in:
  "offset + 2 \<le> length bytes \<Longrightarrow>
   readU16BE bytes offset = Some (push_bit 8 (ucast (bytes ! offset)) OR ucast (bytes ! (offset + 1)))"
  by (simp add: readU16BE_def)

lemma readU32BE_in:
  "offset + 4 \<le> length bytes \<Longrightarrow>
   readU32BE bytes offset =
     Some (push_bit 24 (ucast (bytes ! offset)) OR push_bit 16 (ucast (bytes ! (offset + 1))) OR
           push_bit 8 (ucast (bytes ! (offset + 2))) OR ucast (bytes ! (offset + 3)))"
  by (simp add: readU32BE_def)

lemma readU64BE_loop_total:
  "offset + 8 \<le> length bytes \<Longrightarrow> \<exists>v. readU64BE_loop bytes offset w i = Some v"
proof (induction bytes offset w i rule: readU64BE_loop.induct)
  case (1 bytes offset w i)
  then show ?case by (cases "i < 8") (auto simp: readU64BE_loop.simps [of bytes offset w i])
qed

lemma readU64BE_in: "offset + 8 \<le> length bytes \<Longrightarrow> \<exists>v. readU64BE bytes offset = Some v"
  by (simp add: readU64BE_def readU64BE_loop_total)

text \<open>A field that stands at its offset, with anything before and after it, is read back.\<close>

lemma readU16BE_field: "length pre = n \<Longrightarrow> readU16BE (pre @ be16 v @ post) n = Some v"
  by (simp add: readU16BE_def at_ub_append2 at_ub_append1 be16_def at_ub_def nth_append join16)

lemma readU32BE_field: "length pre = n \<Longrightarrow> readU32BE (pre @ be32 v @ post) n = Some v"
  by (simp add: readU32BE_def be32_def at_ub_def nth_append nth_Cons' join32)

lemma readU64BE_loop_field:
  assumes "length pre = n" and "i \<le> 8" and "w = (if i = 0 then 0 else drop_bit (64 - 8 * i) v)"
  shows "readU64BE_loop (pre @ be64 v @ post) n w i = Some v"
  using assms
proof (induction "8 - i" arbitrary: i w)
  case 0
  then show ?case by (simp add: readU64BE_loop.simps)
next
  case (Suc k)
  then have i: "i < 8" by simp
  have byte: "at_ub (pre @ be64 v @ post) (n + i) = Some (ucast (drop_bit (56 - 8 * i) v))"
  proof -
    have "at_ub (pre @ be64 v @ post) (n + i) = Some (be64 v ! i)"
      using i Suc.prems(1) by (simp add: at_ub_def nth_append)
    moreover have "i = 0 \<or> i = 1 \<or> i = 2 \<or> i = 3 \<or> i = 4 \<or> i = 5 \<or> i = 6 \<or> i = 7"
      using i by linarith
    then have "be64 v ! i = ucast (drop_bit (56 - 8 * i) v)"
      by (elim disjE) (simp_all add: be64_def)
    ultimately show ?thesis by simp
  qed
  have top: "drop_bit 64 v = 0"
    by (rule bit_word_eqI) (auto simp: bit_simps)
  have "w = drop_bit (64 - 8 * i) v"
    using Suc.prems(3) top by (cases "i = 0") auto
  then have "push_bit 8 w OR ucast (ucast (drop_bit (56 - 8 * i) v) :: u8) = drop_bit (56 - 8 * i) v"
    using join64_step [of "64 - 8 * i" v] i by simp
  moreover have "readU64BE_loop (pre @ be64 v @ post) n (drop_bit (56 - 8 * i) v) (Suc i) = Some v"
  proof (rule Suc.hyps(1))
    show "k = 8 - Suc i" using Suc.hyps(2) by simp
  qed (use Suc.prems i in \<open>auto simp: diff_mult_distrib2\<close>)
  ultimately show ?case
    using i byte by (subst readU64BE_loop.simps) simp
qed

lemma readU64BE_field: "length pre = n \<Longrightarrow> readU64BE (pre @ be64 v @ post) n = Some v"
  by (simp add: readU64BE_def readU64BE_loop_field)

section \<open>Writing what was read\<close>

lemma split16:
  "(ucast (drop_bit 8 ((push_bit 8 (ucast (a :: u8)) OR ucast (b :: u8)) :: u16)) :: u8) = a"
  "(ucast ((push_bit 8 (ucast (a :: u8)) OR ucast (b :: u8)) :: u16) :: u8) = b"
  by (rule bit_word_eqI, auto simp: bit_simps dest: bit_imp_le_length)+

lemma be16_join: "be16 (push_bit 8 (ucast a) OR ucast b) = [a, b]"
  by (simp only: be16_def split16)

lemma split32:
  fixes a b c d :: u8
  defines "w \<equiv> (push_bit 24 (ucast a) OR push_bit 16 (ucast b) OR push_bit 8 (ucast c) OR ucast d) :: u32"
  shows "ucast (drop_bit 24 w) = a" "ucast (drop_bit 16 w) = b" "ucast (drop_bit 8 w) = c" "ucast w = d"
  unfolding w_def by (rule bit_word_eqI, auto simp: bit_simps dest: bit_imp_le_length)+

lemma be32_join:
  "be32 (push_bit 24 (ucast a) OR push_bit 16 (ucast b) OR push_bit 8 (ucast c) OR ucast d) = [a, b, c, d]"
  by (simp only: be32_def split32)

lemma two_bytes:
  "offset + 2 \<le> length bytes \<Longrightarrow>
   take 2 (drop offset bytes) = [bytes ! offset, bytes ! (offset + 1)]"
  by (rule nth_equalityI) (auto simp: less_2_cases_iff)

lemma four_bytes:
  "offset + 4 \<le> length bytes \<Longrightarrow>
   take 4 (drop offset bytes) =
     [bytes ! offset, bytes ! (offset + 1), bytes ! (offset + 2), bytes ! (offset + 3)]"
  by (rule nth_equalityI)
    (auto simp: nth_Cons' less_Suc_eq eval_nat_numeral)

lemma readU16BE_enc:
  "readU16BE bytes offset = Some v \<Longrightarrow> be16 v = take 2 (drop offset bytes) \<and> offset + 2 \<le> length bytes"
  by (auto simp: readU16BE_def at_ub_def two_bytes be16_join split: if_splits Option.bind_splits)

lemma readU32BE_enc:
  "readU32BE bytes offset = Some v \<Longrightarrow> be32 v = take 4 (drop offset bytes) \<and> offset + 4 \<le> length bytes"
  by (auto simp: readU32BE_def at_ub_def four_bytes be32_join numeral_2_eq_2 numeral_3_eq_3
      split: if_splits Option.bind_splits)

text \<open>A 64-bit field is two 32-bit fields, so every eight bytes are the encoding of a value.\<close>

lemma be64_join: "be64 (push_bit 32 (ucast (a :: u32)) OR ucast (b :: u32)) = be32 a @ be32 b"
  unfolding be64_def be32_def
  by (simp del: drop_bit_or,
      intro conjI; rule bit_word_eqI; auto simp: bit_simps dest: bit_imp_le_length)

lemma be32_surj: "length bs = 4 \<Longrightarrow> \<exists>v. be32 v = bs"
  by (auto simp: length_Suc_conv eval_nat_numeral intro: be32_join)

lemma be64_surj:
  assumes "length bs = 8"
  shows "\<exists>v. be64 v = bs"
proof -
  from assms be32_surj obtain a b where "be32 a = take 4 bs" and "be32 b = drop 4 bs"
    by (metis add_diff_cancel_left' length_drop length_take min.absorb2 numeral_Bit0
        le_add1)
  then have "be64 (push_bit 32 (ucast a) OR ucast b) = take 4 bs @ drop 4 bs"
    by (simp only: be64_join)
  then show ?thesis by auto
qed

lemma readU64BE_enc:
  assumes "readU64BE bytes offset = Some v"
  shows "offset + 8 \<le> length bytes \<Longrightarrow> be64 v = take 8 (drop offset bytes)"
proof -
  assume len: "offset + 8 \<le> length bytes"
  then have "length (take 8 (drop offset bytes)) = 8" by simp
  then obtain w where w: "be64 w = take 8 (drop offset bytes)" using be64_surj by blast
  have "bytes = take offset bytes @ be64 w @ drop 8 (drop offset bytes)"
    by (simp add: w append_take_drop_id del: drop_drop)
  moreover have "readU64BE (take offset bytes @ be64 w @ drop 8 (drop offset bytes)) offset = Some w"
    using len by (intro readU64BE_field) simp
  ultimately have "readU64BE bytes offset = Some w" by simp
  with assms w show ?thesis by simp
qed

lemma readU64BE_loop_ub:
  "i < 8 \<Longrightarrow> length bytes < offset + 8 \<Longrightarrow> readU64BE_loop bytes offset w i = None"
proof (induction bytes offset w i rule: readU64BE_loop.induct)
  case (1 bytes offset w i)
  show ?case
  proof (cases "i = 7")
    case True
    with "1.prems" have "at_ub bytes (offset + i) = None" by (simp add: at_ub_def)
    with True show ?thesis by (subst readU64BE_loop.simps) simp
  next
    case False
    with "1" show ?thesis
      by (auto simp: readU64BE_loop.simps [of bytes offset w i] split: option.split)
  qed
qed

section \<open>The contract of a wire field\<close>

text \<open>
  What the codecs rely on for every fixed-width field: the writer appends the encoding, the
  encoding has the field's width, a reader standing on an encoding returns the value, a read
  inside the buffer is defined and returns the value whose encoding stands there, and a read
  that leaves the buffer is undefined behaviour.
\<close>

locale wire_field =
  fixes append_field :: "ByteVector \<Rightarrow> 'a \<Rightarrow> ByteVector"
    and read_field :: "ByteVector \<Rightarrow> nat \<Rightarrow> 'a option"
    and enc :: "'a \<Rightarrow> ByteVector"
    and width :: nat
  assumes append_enc: "append_field out v = out @ enc v"
    and length_enc: "length (enc v) = width"
    and read_enc: "read_field (pre @ enc v @ post) (length pre) = Some v"
    and read_within: "offset + width \<le> length bytes \<Longrightarrow>
      \<exists>v. read_field bytes offset = Some v \<and> enc v = take width (drop offset bytes)"
    and read_outside: "length bytes < offset + width \<Longrightarrow> read_field bytes offset = None"
begin

lemma read_append: "read_field (append_field out v @ rest) (length out) = Some v"
  by (simp add: append_enc read_enc)

lemma length_append: "length (append_field out v) = length out + width"
  by (simp add: append_enc length_enc)

lemma read_defined_iff: "read_field bytes offset \<noteq> None \<longleftrightarrow> offset + width \<le> length bytes"
  using read_within read_outside by (metis not_le option.distinct(1))

lemma read_SomeD:
  "read_field bytes offset = Some v \<Longrightarrow>
   offset + width \<le> length bytes \<and> enc v = take width (drop offset bytes)"
  using read_within read_defined_iff by (metis option.distinct(1) option.inject)

lemma read_defined: "offset + width \<le> length bytes \<Longrightarrow> \<exists>v. read_field bytes offset = Some v"
  using read_within by blast

lemma enc_inject: "enc v = enc w \<Longrightarrow> v = w"
  using read_enc [of "[]" v "[]"] read_enc [of "[]" w "[]"] by simp

lemma read_eqI:
  "offset + width \<le> length bytes \<Longrightarrow> take width (drop offset bytes) = enc v \<Longrightarrow>
   read_field bytes offset = Some v"
  using read_within enc_inject by metis

text \<open>What stands in the buffer from a field that was read.\<close>

lemma drop_read:
  "read_field bytes offset = Some v \<Longrightarrow> drop offset bytes = enc v @ drop (offset + width) bytes"
  using read_SomeD [of bytes offset v]
  by (metis add.commute append_take_drop_id drop_drop)

text \<open>A read that stays inside a prefix does not see what follows.\<close>

lemma read_prefix:
  "offset + width \<le> length pre \<Longrightarrow> read_field (pre @ post) offset = read_field pre offset"
  using read_within [of offset pre] read_within [of offset "pre @ post"] enc_inject by fastforce

end

interpretation u16: wire_field appendU16BE readU16BE be16 2
proof
  show "readU16BE bytes offset = None" if "length bytes < offset + 2" for bytes offset
    using that by (auto simp: readU16BE_def at_ub_def split: Option.bind_splits)
  show "\<exists>v. readU16BE bytes offset = Some v \<and> be16 v = take 2 (drop offset bytes)"
    if "offset + 2 \<le> length bytes" for bytes offset
    using that readU16BE_in readU16BE_enc by blast
qed (simp_all add: appendU16BE_eq readU16BE_field)

interpretation u32: wire_field appendU32BE readU32BE be32 4
proof
  show "readU32BE bytes offset = None" if "length bytes < offset + 4" for bytes offset
    using that by (auto simp: readU32BE_def at_ub_def split: Option.bind_splits)
  show "\<exists>v. readU32BE bytes offset = Some v \<and> be32 v = take 4 (drop offset bytes)"
    if "offset + 4 \<le> length bytes" for bytes offset
    using that readU32BE_in readU32BE_enc by blast
qed (simp_all add: appendU32BE_eq readU32BE_field)

interpretation u64: wire_field appendU64BE readU64BE be64 8
proof
  show "readU64BE bytes offset = None" if "length bytes < offset + 8" for bytes offset
    using that by (simp add: readU64BE_def readU64BE_loop_ub)
  show "\<exists>v. readU64BE bytes offset = Some v \<and> be64 v = take 8 (drop offset bytes)"
    if "offset + 8 \<le> length bytes" for bytes offset
    using that readU64BE_in readU64BE_enc by blast
qed (simp_all add: appendU64BE_eq readU64BE_field)

lemma readFloatBE_eq: "readFloatBE = readU32BE"
  by (simp add: fun_eq_iff readFloatBE_def)

lemma appendFloatBE_eq32: "appendFloatBE = appendU32BE"
  by (simp add: fun_eq_iff appendFloatBE_def)

interpretation f32: wire_field appendFloatBE readFloatBE be32 4
  unfolding readFloatBE_eq appendFloatBE_eq32 by (rule u32.wire_field_axioms)

end
