(* ===== verification/Crc32.thy ===== *)
theory Crc32
  imports Byte_Utils
begin

text \<open>
  Model of \<open>include/stgs/Crc32.hpp\<close> and \<open>src/Crc32.cpp\<close>: the table built by
  \<open>makeTable\<close> and the table-driven \<open>crc32\<close>. The reference definition is the
  bit-serial CRC with the parameters the header documents (width 32, polynomial
  \<open>0x04C11DB7\<close>, init and xorout \<open>0xFFFFFFFF\<close>, refin and refout). The lemmas show that
  the table-driven function computes it, that one step of the register is a bijection, and
  hence that the checksum changes whenever exactly one byte of the input changes.
\<close>

unbundle bit_operations_syntax

section \<open>The implementation\<close>

definition Crc32Polynomial :: u32 where
  "Crc32Polynomial = 0x04C11DB7"

definition Crc32ReflectedPolynomial :: u32 where
  "Crc32ReflectedPolynomial = 0xEDB88320"

definition Crc32InitialValue :: u32 where
  "Crc32InitialValue = 0xFFFFFFFF"

definition Crc32FinalXor :: u32 where
  "Crc32FinalXor = 0xFFFFFFFF"

definition Crc32Check123456789 :: u32 where
  "Crc32Check123456789 = 0xCBF43926"

definition makeTable_bit :: "u32 \<Rightarrow> u32" where
  "makeTable_bit crc =
     (if crc AND 1 \<noteq> 0 then drop_bit 1 crc XOR Crc32ReflectedPolynomial else drop_bit 1 crc)"

definition makeTable :: "u32 list" where
  "makeTable = map (\<lambda>i. (makeTable_bit ^^ 8) (of_nat i)) [0..<256]"

definition CrcTable :: "u32 list" where
  "CrcTable = makeTable"

definition crc32_step :: "u32 \<Rightarrow> u8 \<Rightarrow> u32" where
  "crc32_step crc byte =
     (let index = (ucast ((crc XOR ucast byte) AND 0xFF) :: u8)
      in drop_bit 8 crc XOR CrcTable ! unat index)"

definition crc32 :: "ByteVector \<Rightarrow> u32" where
  "crc32 bytes = foldl crc32_step Crc32InitialValue bytes XOR Crc32FinalXor"

definition crc32_text :: "string \<Rightarrow> u32" where
  "crc32_text text = crc32 (map byte_of_char text)"

section \<open>The bit-serial reference\<close>

text \<open>The register of the canonical, most-significant-bit-first definition.\<close>

definition msb_step :: "u32 \<Rightarrow> bool \<Rightarrow> u32" where
  "msb_step reg b =
     (if bit reg 31 \<noteq> b then push_bit 1 reg XOR Crc32Polynomial else push_bit 1 reg)"

text \<open>\<open>refin\<close>: each byte enters least significant bit first.\<close>

definition byte_bits :: "u8 \<Rightarrow> bool list" where
  "byte_bits b = map (bit b) [0..<8]"

definition crc32_reference :: "ByteVector \<Rightarrow> u32" where
  "crc32_reference bytes =
     word_reverse (foldl msb_step Crc32InitialValue (concat (map byte_bits bytes))) XOR Crc32FinalXor"

section \<open>The table step is eight bit steps\<close>

lemma and_one_bit: "(x AND 1 \<noteq> 0) = bit (x :: u32) 0"
  by (simp add: and_one_eq odd_iff_mod_2_eq_one bit_0 flip: odd_iff_mod_2_eq_one)

lemma makeTable_bit_bit:
  "makeTable_bit c = drop_bit 1 c XOR (if bit c 0 then Crc32ReflectedPolynomial else 0)"
  by (simp add: makeTable_bit_def and_one_bit)

lemma makeTable_bit_xor: "makeTable_bit (x XOR y) = makeTable_bit x XOR makeTable_bit y"
  by (auto simp: makeTable_bit_bit bit_xor_iff drop_bit_xor ac_simps xor.left_commute)

lemma makeTable_bits_xor: "(makeTable_bit ^^ n) (x XOR y) = (makeTable_bit ^^ n) x XOR (makeTable_bit ^^ n) y"
  by (induction n) (simp_all add: makeTable_bit_xor)

text \<open>Bits above the steps taken are only shifted.\<close>

lemma makeTable_bits_high:
  "(\<And>k. k < n \<Longrightarrow> \<not> bit x k) \<Longrightarrow> (makeTable_bit ^^ n) x = drop_bit n x"
proof (induction n)
  case (Suc n)
  then have "(makeTable_bit ^^ Suc n) x = makeTable_bit (drop_bit n x)"
    by simp
  also have "\<dots> = drop_bit 1 (drop_bit n x)"
    using Suc.prems by (simp add: makeTable_bit_bit bit_drop_bit_eq)
  finally show ?case by (simp add: drop_bit_drop_bit)
qed simp

lemma length_CrcTable: "length CrcTable = 256"
  by (simp add: CrcTable_def makeTable_def)

lemma CrcTable_nth: "CrcTable ! unat (i :: u8) = (makeTable_bit ^^ 8) (ucast i)"
proof -
  have "unat i < 256" using unsigned_less [of i] by simp
  then show ?thesis by (simp add: CrcTable_def makeTable_def)
qed

lemma crc32_step_bits: "crc32_step c b = (makeTable_bit ^^ 8) (c XOR ucast b)"
proof -
  define x where "x = c XOR ucast b"
  define lo where "lo = (ucast (ucast (x AND 0xFF) :: u8) :: u32)"
  define hi where "hi = push_bit 8 (drop_bit 8 x)"
  have mask: "(0xFF :: u32) = mask 8" by (simp add: mask_eq_exp_minus_1)
  have split: "x = lo XOR hi"
    unfolding lo_def hi_def mask by (rule bit_word_eqI) (auto simp: bit_simps)
  have high: "(makeTable_bit ^^ 8) hi = drop_bit 8 hi"
    by (rule makeTable_bits_high) (simp add: hi_def bit_simps)
  have shift: "drop_bit 8 hi = drop_bit 8 c"
    unfolding hi_def x_def by (rule bit_word_eqI) (auto simp: bit_simps dest: bit_imp_le_length)
  have "(makeTable_bit ^^ 8) x = (makeTable_bit ^^ 8) lo XOR drop_bit 8 c"
    by (subst split) (simp only: makeTable_bits_xor high shift)
  moreover have "crc32_step c b = drop_bit 8 c XOR (makeTable_bit ^^ 8) lo"
    unfolding crc32_step_def Let_def CrcTable_nth lo_def x_def ..
  ultimately show ?thesis by (simp add: x_def xor.commute)
qed

section \<open>Equivalence with the reference\<close>

text \<open>The register of the reference, reflected.\<close>

definition lsb_step :: "u32 \<Rightarrow> bool \<Rightarrow> u32" where
  "lsb_step reg b = drop_bit 1 reg XOR (if bit reg 0 \<noteq> b then Crc32ReflectedPolynomial else 0)"

lemma reflected_polynomial: "word_reverse Crc32Polynomial = Crc32ReflectedPolynomial"
  unfolding Crc32Polynomial_def Crc32ReflectedPolynomial_def by code_simp

lemma word_reverse_xor: "word_reverse (x XOR y) = word_reverse x XOR word_reverse (y :: u32)"
  by (rule bit_word_eqI) (auto simp: bit_simps)

lemma word_reverse_push: "word_reverse (push_bit n x) = drop_bit n (word_reverse (x :: u32))"
  by (rule bit_word_eqI) (auto simp: bit_simps add.commute dest: bit_imp_le_length)

lemma reverse_msb_step: "word_reverse (msb_step reg b) = lsb_step (word_reverse reg) b"
proof -
  have low: "bit (word_reverse reg) 0 = bit reg 31" by (simp add: bit_word_reverse_iff)
  show ?thesis
    unfolding msb_step_def lsb_step_def low
    by (cases "bit reg 31 \<noteq> b")
      (simp_all only: if_True if_False not_False_eq_True word_reverse_xor word_reverse_push
        reflected_polynomial xor.right_neutral)
qed

lemma reverse_msb_fold:
  "word_reverse (foldl msb_step reg bs) = foldl lsb_step (word_reverse reg) bs"
  by (induction bs arbitrary: reg) (simp_all add: reverse_msb_step)

lemma lsb_step_xor: "makeTable_bit (c XOR w) = lsb_step c (bit w 0) XOR drop_bit 1 w"
  by (auto simp: makeTable_bit_bit lsb_step_def bit_xor_iff drop_bit_xor ac_simps xor.left_commute)

lemma makeTable_bits_lsb:
  "(makeTable_bit ^^ n) (c XOR w) = foldl lsb_step c (map (bit w) [0..<n]) XOR drop_bit n w"
proof (induction n)
  case (Suc n)
  have "(makeTable_bit ^^ Suc n) (c XOR w)
      = makeTable_bit (foldl lsb_step c (map (bit w) [0..<n]) XOR drop_bit n w)"
    by (simp add: Suc.IH)
  also have "\<dots> = lsb_step (foldl lsb_step c (map (bit w) [0..<n])) (bit w n) XOR drop_bit (Suc n) w"
    by (simp add: lsb_step_xor bit_drop_bit_eq drop_bit_drop_bit)
  finally show ?case by simp
qed simp

lemma crc32_step_lsb: "crc32_step c b = foldl lsb_step c (byte_bits b)"
proof -
  have "drop_bit 8 (ucast b :: u32) = 0"
    by (rule bit_word_eqI) (auto simp: bit_simps dest: bit_imp_le_length)
  moreover have "map (bit (ucast b :: u32)) [0..<8] = byte_bits b"
    by (auto simp: byte_bits_def bit_simps)
  ultimately show ?thesis
    using makeTable_bits_lsb [of 8 c "ucast b"] by (simp add: crc32_step_bits)
qed

lemma crc32_fold_lsb:
  "foldl crc32_step c bytes = foldl lsb_step c (concat (map byte_bits bytes))"
  by (induction bytes arbitrary: c) (simp_all add: crc32_step_lsb)

lemma reverse_initial: "word_reverse Crc32InitialValue = Crc32InitialValue"
  unfolding Crc32InitialValue_def by code_simp

lemma crc32_is_reference: "crc32 bytes = crc32_reference bytes"
  by (simp add: crc32_def crc32_reference_def reverse_msb_fold reverse_initial crc32_fold_lsb)

section \<open>Error detection\<close>

lemma Crc32ReflectedPolynomial_top: "bit Crc32ReflectedPolynomial 31"
  by (simp add: Crc32ReflectedPolynomial_def bit_numeral_rec)

lemma makeTable_bit_inject: "makeTable_bit x = makeTable_bit y \<Longrightarrow> x = y"
proof -
  assume eq: "makeTable_bit x = makeTable_bit y"
  have top: "bit (makeTable_bit w) 31 = bit w 0" for w
    by (simp add: makeTable_bit_bit bit_xor_iff bit_drop_bit_eq Crc32ReflectedPolynomial_top
        impossible_bit)
  then have low: "bit x 0 = bit y 0" using eq by metis
  then have "drop_bit 1 x = drop_bit 1 y"
    using eq by (simp add: makeTable_bit_bit xor_right_cancel split: if_splits)
  then have high: "bit x (Suc n) = bit y (Suc n)" for n
    by (metis bit_drop_bit_eq plus_1_eq_Suc comp_apply)
  show "x = y"
  proof (rule bit_word_eqI)
    fix n show "bit x n = bit y n" by (cases n) (simp_all add: low high)
  qed
qed

lemma makeTable_bits_inject: "(makeTable_bit ^^ n) x = (makeTable_bit ^^ n) y \<Longrightarrow> x = y"
  by (induction n) (auto dest: makeTable_bit_inject)

lemma crc32_step_inject_state: "crc32_step c b = crc32_step d b \<longleftrightarrow> c = d"
  by (auto simp: crc32_step_bits xor_right_cancel dest!: makeTable_bits_inject)

lemma crc32_step_inject_byte: "crc32_step c a = crc32_step c b \<longleftrightarrow> a = b"
  by (auto simp: crc32_step_bits xor_left_cancel ucast_8_32_inject dest!: makeTable_bits_inject)

lemma crc32_fold_inject: "foldl crc32_step c bytes = foldl crc32_step d bytes \<longleftrightarrow> c = d"
  by (induction bytes arbitrary: c d) (simp_all add: crc32_step_inject_state)

text \<open>Two messages that differ in exactly one byte have different checksums.\<close>

lemma crc32_single_byte:
  assumes "a \<noteq> b"
  shows "crc32 (pre @ [a] @ post) \<noteq> crc32 (pre @ [b] @ post)"
proof
  assume "crc32 (pre @ [a] @ post) = crc32 (pre @ [b] @ post)"
  then have "foldl crc32_step Crc32InitialValue (pre @ [a] @ post)
      = foldl crc32_step Crc32InitialValue (pre @ [b] @ post)"
    by (simp only: crc32_def xor_right_cancel)
  with assms show False by (simp add: crc32_fold_inject crc32_step_inject_byte)
qed

section \<open>Properties\<close>

lemma crc32_step_unrolled:
  "crc32_step c b = makeTable_bit (makeTable_bit (makeTable_bit (makeTable_bit (makeTable_bit
     (makeTable_bit (makeTable_bit (makeTable_bit (c XOR ucast b))))))))"
  by (simp add: crc32_step_bits eval_nat_numeral)

lemma digits_bytes: "map byte_of_char ''123456789'' = [0x31, 0x32, 0x33, 0x34, 0x35, 0x36, 0x37, 0x38, 0x39]"
  by (simp add: byte_of_char_def)

lemma crc32_check_value: "crc32 (map byte_of_char ''123456789'') = Crc32Check123456789"
  unfolding digits_bytes
  by (simp add: crc32_def crc32_step_unrolled makeTable_bit_def Crc32InitialValue_def
      Crc32FinalXor_def Crc32ReflectedPolynomial_def Crc32Check123456789_def)

text \<open>C11: for every input the table-driven \<open>crc32\<close> computes the CRC-32/ISO-HDLC checksum
  documented in \<open>Crc32.hpp\<close>: the bit-serial register with polynomial \<open>0x04C11DB7\<close>, bytes
  fed least significant bit first, the register reflected at the end; and on the digits
  \<open>123456789\<close> it gives the check value published in the header.\<close>

theorem crc32_correct:
  "crc32 bytes = crc32_reference bytes \<and>
   crc32_text ''123456789'' = Crc32Check123456789"
  by (simp only: crc32_is_reference [symmetric] crc32_check_value crc32_text_def)

end
