(* ===== verification/Float32.thy ===== *)
theory Float32
  imports Byte_Utils
begin

text \<open>
  IEEE-754 single precision values by their bit pattern: classification, the exact value
  (scaled by \<open>2 ^ 150\<close>, which makes every finite float an integer), the comparisons the
  sources use, and \<open>std::fixed\<close> output. A comparison with a NaN is false, as in C++.
\<close>

unbundle bit_operations_syntax

definition f32_negative :: "float32 \<Rightarrow> bool" where
  "f32_negative w \<longleftrightarrow> bit w 31"

definition f32_exponent :: "float32 \<Rightarrow> nat" where
  "f32_exponent w = unat (drop_bit 23 w AND 0xFF)"

definition f32_fraction :: "float32 \<Rightarrow> nat" where
  "f32_fraction w = unat (w AND 0x7FFFFF)"

definition isfinite :: "float32 \<Rightarrow> bool" where
  "isfinite w \<longleftrightarrow> f32_exponent w \<noteq> 255"

definition isnan :: "float32 \<Rightarrow> bool" where
  "isnan w \<longleftrightarrow> f32_exponent w = 255 \<and> f32_fraction w \<noteq> 0"

text \<open>Magnitude in units of \<open>2 ^ -150\<close>; an infinity exceeds every finite magnitude.\<close>

definition f32_magnitude :: "float32 \<Rightarrow> nat" where
  "f32_magnitude w =
     (if f32_exponent w = 0 then 2 * f32_fraction w
      else (2 ^ 23 + f32_fraction w) * 2 ^ f32_exponent w)"

definition f32_scaled :: "float32 \<Rightarrow> int" where
  "f32_scaled w = (if f32_negative w then - int (f32_magnitude w) else int (f32_magnitude w))"

text \<open>\<open>w < q\<close>, \<open>w > q\<close> and \<open>w >= q\<close> for an exactly representable \<open>q\<close> given in the
  same units.\<close>

definition f32_less :: "float32 \<Rightarrow> int \<Rightarrow> bool" where
  "f32_less w q \<longleftrightarrow> \<not> isnan w \<and> f32_scaled w < q"

definition f32_greater :: "float32 \<Rightarrow> int \<Rightarrow> bool" where
  "f32_greater w q \<longleftrightarrow> \<not> isnan w \<and> f32_scaled w > q"

definition f32_ge :: "float32 \<Rightarrow> int \<Rightarrow> bool" where
  "f32_ge w q \<longleftrightarrow> \<not> isnan w \<and> f32_scaled w \<ge> q"

definition f32_le :: "float32 \<Rightarrow> int \<Rightarrow> bool" where
  "f32_le w q \<longleftrightarrow> \<not> isnan w \<and> f32_scaled w \<le> q"

lemma isfinite_not_nan: "isfinite w \<Longrightarrow> \<not> isnan w"
  by (simp add: isfinite_def isnan_def)

lemma f32_trichotomy: "isfinite w \<Longrightarrow> \<not> f32_less w q \<longleftrightarrow> f32_ge w q"
  by (auto simp: f32_less_def f32_ge_def isfinite_not_nan)

section \<open>\<open>std::fixed << std::setprecision(p)\<close>\<close>

text \<open>Division rounded to the nearest integer, ties to even.\<close>

definition round_half_even :: "nat \<Rightarrow> nat \<Rightarrow> nat" where
  "round_half_even n d =
     (let q = n div d; r = n mod d
      in if 2 * r < d \<or> (2 * r = d \<and> even q) then q else q + 1)"

definition show_fixed :: "nat \<Rightarrow> float32 \<Rightarrow> string" where
  "show_fixed p w =
     (if f32_negative w then ''-'' else '''') @
     (if isnan w then ''nan''
      else if \<not> isfinite w then ''inf''
      else let n = round_half_even (f32_magnitude w * 10 ^ p) (2 ^ 150)
           in show_nat (n div 10 ^ p) @
              (if p = 0 then '''' else ''.'' @ pad_left p (CHR ''0'') (show_nat (n mod 10 ^ p))))"

text \<open>Rounding is off by at most half a unit.\<close>

lemma round_half_even_bounds:
  assumes "0 < d"
  shows "2 * n \<le> (2 * round_half_even n d + 1) * d \<and> 2 * round_half_even n d * d \<le> 2 * n + d"
proof -
  obtain q r where q: "q = n div d" and r: "r = n mod d" by simp
  have n: "n = q * d + r" by (simp add: q r)
  have "r < d" using assms by (simp add: r)
  then have bounds: "2 * n \<le> (2 * k + 1) * d \<and> 2 * k * d \<le> 2 * n + d"
    if "k = (if 2 * r < d \<or> (2 * r = d \<and> even q) then q else q + 1)" for k
    using that by (auto simp: n algebra_simps split: if_splits)
  show ?thesis by (rule bounds) (simp add: round_half_even_def Let_def q r)
qed

end
