(* ===== verification/Frame_Codec.thy ===== *)
theory Frame_Codec
  imports Crc32 Float32
begin

text \<open>
  Model of \<open>include/stgs/TelemetryFrame.hpp\<close> and of the codec half of
  \<open>include/stgs/FrameCodec.hpp\<close> and \<open>src/FrameCodec.cpp\<close>: the wire layout of an STGS v1
  frame, \<open>encodeFrame\<close>, \<open>decodeFrame\<close> and the diagnostic strings. \<open>decodeFrame\<close> returns
  \<open>None\<close> for undefined behaviour and otherwise the C++ variant as \<open>FrameError + TelemetryFrame\<close>.

  The lemmas show that decoding never leaves its buffer, that encoding and decoding are
  mutually inverse, which values a decoded frame can have, the order in which the checks
  report errors, and that a frame with one changed byte is rejected.
\<close>

unbundle bit_operations_syntax

section \<open>Wire layout\<close>

definition FrameMagic :: u32 where
  "FrameMagic = 0x53544753"

definition ProtocolVersion :: u8 where
  "ProtocolVersion = 1"

definition U8WireSize :: nat where [wire_simps]: "U8WireSize = 1"
definition U16WireSize :: nat where [wire_simps]: "U16WireSize = 2"
definition U32WireSize :: nat where [wire_simps]: "U32WireSize = 4"
definition U64WireSize :: nat where [wire_simps]: "U64WireSize = 8"
definition Float32WireSize :: nat where [wire_simps]: "Float32WireSize = 4"

definition MagicSize :: nat where [wire_simps]: "MagicSize = U32WireSize"
definition MagicOffset :: nat where [wire_simps]: "MagicOffset = 0"
definition VersionOffset :: nat where [wire_simps]: "VersionOffset = MagicOffset + U32WireSize"
definition SatelliteIdOffset :: nat where [wire_simps]: "SatelliteIdOffset = VersionOffset + U8WireSize"
definition TimestampOffset :: nat where [wire_simps]: "TimestampOffset = SatelliteIdOffset + U16WireSize"
definition TemperatureOffset :: nat where [wire_simps]: "TemperatureOffset = TimestampOffset + U64WireSize"
definition BatteryOffset :: nat where [wire_simps]: "BatteryOffset = TemperatureOffset + Float32WireSize"
definition StatusOffset :: nat where [wire_simps]: "StatusOffset = BatteryOffset + U8WireSize"
definition PayloadLengthOffset :: nat where [wire_simps]: "PayloadLengthOffset = StatusOffset + U8WireSize"
definition HeaderSize :: nat where [wire_simps]: "HeaderSize = PayloadLengthOffset + U16WireSize"
definition CrcSize :: nat where [wire_simps]: "CrcSize = U32WireSize"
definition MinFrameSize :: nat where [wire_simps]: "MinFrameSize = HeaderSize + CrcSize"
definition MaxPayloadSize :: nat where [wire_simps]: "MaxPayloadSize = 4096"
definition MaxFrameSize :: nat where [wire_simps]: "MaxFrameSize = HeaderSize + MaxPayloadSize + CrcSize"

definition MaxBatteryPercent :: u8 where
  "MaxBatteryPercent = 100"

definition DefaultPayloadPreviewBytes :: nat where
  "DefaultPayloadPreviewBytes = 32"

text \<open>The \<open>static_assert\<close> on the header size.\<close>

lemma HeaderSize_23: "HeaderSize = 23"
  by (simp add: wire_simps)

section \<open>Frames and errors\<close>

text \<open>\<open>enum class Status : std::uint8_t\<close> may hold any byte, named or not.\<close>

type_synonym Status = u8

definition Status_Nominal :: Status where "Status_Nominal = 0"
definition Status_Warning :: Status where "Status_Warning = 1"
definition Status_Critical :: Status where "Status_Critical = 2"
definition Status_SafeMode :: Status where "Status_SafeMode = 3"

record TelemetryFrame =
  version :: u8
  satelliteId :: u16
  timestampMs :: u64
  temperatureC :: float32
  batteryPercent :: u8
  status :: Status
  payload :: ByteVector

datatype FrameErrorCode = TooShort | BadMagic | UnsupportedVersion | PayloadTooLarge
  | LengthMismatch | BadCrc | InvalidTemperature | InvalidBattery | InvalidStatus

record FrameError =
  code :: FrameErrorCode
  message :: string

type_synonym FrameParseResult = "FrameError + TelemetryFrame"

definition makeError :: "FrameErrorCode \<Rightarrow> string \<Rightarrow> FrameError" where
  "makeError c m = \<lparr>code = c, message = m\<rparr>"

definition magicBytes :: ByteVector where
  "magicBytes = appendU32BE [] FrameMagic"

section \<open>Diagnostics\<close>

definition statusToString :: "Status \<Rightarrow> string" where
  "statusToString s =
     (if s = Status_Nominal then ''NOMINAL''
      else if s = Status_Warning then ''WARNING''
      else if s = Status_Critical then ''CRITICAL''
      else if s = Status_SafeMode then ''SAFE_MODE''
      else ''UNKNOWN'')"

text \<open>The loop of \<open>payloadToHex\<close> over the first \<open>displayed\<close> bytes.\<close>

fun payloadToHex_loop :: "ByteVector \<Rightarrow> nat \<Rightarrow> string" where
  "payloadToHex_loop [] i = ''''"
| "payloadToHex_loop (b # bs) i =
     (if 0 < i then '' '' else '''') @ pad_left 2 (CHR ''0'') (show_hex (unat b))
       @ payloadToHex_loop bs (Suc i)"

definition payloadToHex :: "ByteVector \<Rightarrow> nat \<Rightarrow> string" where
  "payloadToHex pl maxBytes =
     (let displayed = min (length pl) maxBytes
      in payloadToHex_loop (take displayed pl) 0 @
         (if displayed < length pl then '' ...('' @ show_nat (length pl) @ '' bytes)'' else ''''))"

definition toString :: "TelemetryFrame \<Rightarrow> string" where
  "toString frame =
     ''sat='' @ show_nat (unat (satelliteId frame)) @
     '' ts_ms='' @ show_nat (unat (timestampMs frame)) @
     '' temp_c='' @ show_fixed 2 (temperatureC frame) @
     '' battery='' @ show_nat (unat (batteryPercent frame)) @ ''%'' @
     '' status='' @ statusToString (status frame) @
     '' payload_len='' @ show_nat (length (payload frame))"

fun errorCodeToString :: "FrameErrorCode \<Rightarrow> string" where
  "errorCodeToString TooShort = ''TooShort''"
| "errorCodeToString BadMagic = ''BadMagic''"
| "errorCodeToString UnsupportedVersion = ''UnsupportedVersion''"
| "errorCodeToString PayloadTooLarge = ''PayloadTooLarge''"
| "errorCodeToString LengthMismatch = ''LengthMismatch''"
| "errorCodeToString BadCrc = ''BadCrc''"
| "errorCodeToString InvalidTemperature = ''InvalidTemperature''"
| "errorCodeToString InvalidBattery = ''InvalidBattery''"
| "errorCodeToString InvalidStatus = ''InvalidStatus''"

section \<open>Encoding\<close>

definition encodeFrame :: "TelemetryFrame \<Rightarrow> ByteVector result" where
  "encodeFrame frame =
     (if length (payload frame) > MaxPayloadSize then
        Inl (invalid_argument ''payload exceeds MaxPayloadSize'')
      else if version frame \<noteq> ProtocolVersion then
        Inl (invalid_argument ''unsupported protocol version'')
      else if \<not> isfinite (temperatureC frame) then
        Inl (invalid_argument ''temperature must be finite'')
      else if batteryPercent frame > MaxBatteryPercent then
        Inl (invalid_argument ''battery percent must be between 0 and 100'')
      else
        let statusByte = status frame in
        if statusByte > Status_SafeMode then
          Inl (invalid_argument ''invalid status value'')
        else
          let bytes = appendU32BE [] FrameMagic;
              bytes = appendU8 bytes (version frame);
              bytes = appendU16BE bytes (satelliteId frame);
              bytes = appendU64BE bytes (timestampMs frame);
              bytes = appendFloatBE bytes (temperatureC frame);
              bytes = appendU8 bytes (batteryPercent frame);
              bytes = appendU8 bytes statusByte;
              bytes = appendU16BE bytes (of_nat (length (payload frame)));
              bytes = bytes @ payload frame;
              crc = crc32 bytes
          in Inr (appendU32BE bytes crc))"

section \<open>Decoding\<close>

definition decodeFrame :: "ByteVector \<Rightarrow> FrameParseResult option" where
  "decodeFrame bytes =
     (if length bytes < MinFrameSize then
        Some (Inl (makeError TooShort ''frame is shorter than the minimum header + CRC size''))
      else do {
        magic \<leftarrow> readU32BE bytes MagicOffset;
        if magic \<noteq> FrameMagic then
          Some (Inl (makeError BadMagic ''invalid frame magic; expected ASCII STGS''))
        else do {
        ver \<leftarrow> at_ub bytes VersionOffset;
        if ver \<noteq> ProtocolVersion then
          Some (Inl (makeError UnsupportedVersion ''unsupported protocol version''))
        else do {
        payloadLength \<leftarrow> readU16BE bytes PayloadLengthOffset;
        if unat payloadLength > MaxPayloadSize then
          Some (Inl (makeError PayloadTooLarge ''payload length exceeds configured maximum''))
        else
        let expectedSize = HeaderSize + unat payloadLength + CrcSize in
        if length bytes \<noteq> expectedSize then
          Some (Inl (makeError LengthMismatch
            (''frame length mismatch: expected '' @ show_nat expectedSize @ '' bytes, got '' @
             show_nat (length bytes))))
        else do {
        expectedCrc \<leftarrow> readU32BE bytes (length bytes - CrcSize);
        covered \<leftarrow> range_ub bytes 0 (length bytes - CrcSize);
        let calculatedCrc = crc32 covered in
        if expectedCrc \<noteq> calculatedCrc then
          Some (Inl (makeError BadCrc
            (''CRC mismatch: expected 0x'' @ pad_left 8 (CHR ''0'') (show_hex (unat expectedCrc)) @
             '', calculated 0x'' @ pad_left 8 (CHR ''0'') (show_hex (unat calculatedCrc)))))
        else do {
        temperature \<leftarrow> readFloatBE bytes TemperatureOffset;
        if \<not> isfinite temperature then
          Some (Inl (makeError InvalidTemperature ''temperature field must be finite''))
        else do {
        battery \<leftarrow> at_ub bytes BatteryOffset;
        if battery > MaxBatteryPercent then
          Some (Inl (makeError InvalidBattery ''battery percent is outside the 0..100 range''))
        else do {
        statusByte \<leftarrow> at_ub bytes StatusOffset;
        if statusByte > Status_SafeMode then
          Some (Inl (makeError InvalidStatus ''status field contains an unknown value''))
        else do {
        sat \<leftarrow> readU16BE bytes SatelliteIdOffset;
        ts \<leftarrow> readU64BE bytes TimestampOffset;
        pl \<leftarrow> range_ub bytes HeaderSize (HeaderSize + unat payloadLength);
        Some (Inr \<lparr>version = ver, satelliteId = sat, timestampMs = ts, temperatureC = temperature,
                   batteryPercent = battery, status = statusByte, payload = pl\<rparr>)
      }}}}}}}})"

section \<open>The layout of an encoded frame\<close>

definition frame_valid :: "TelemetryFrame \<Rightarrow> bool" where
  "frame_valid f \<longleftrightarrow>
     length (payload f) \<le> MaxPayloadSize \<and> version f = ProtocolVersion \<and>
     isfinite (temperatureC f) \<and> batteryPercent f \<le> MaxBatteryPercent \<and> status f \<le> Status_SafeMode"

definition frame_header :: "TelemetryFrame \<Rightarrow> ByteVector" where
  "frame_header f =
     be32 FrameMagic @ [version f] @ be16 (satelliteId f) @ be64 (timestampMs f) @
     be32 (temperatureC f) @ [batteryPercent f] @ [status f] @ be16 (of_nat (length (payload f)))"

definition frame_body :: "TelemetryFrame \<Rightarrow> ByteVector" where
  "frame_body f = frame_header f @ payload f"

definition frame_bytes :: "TelemetryFrame \<Rightarrow> ByteVector" where
  "frame_bytes f = frame_body f @ be32 (crc32 (frame_body f))"

lemma length_frame_header [simp]: "length (frame_header f) = 23"
  by (simp add: frame_header_def)

lemma length_frame_body: "length (frame_body f) = 23 + length (payload f)"
  by (simp add: frame_body_def)

lemma length_frame_bytes: "length (frame_bytes f) = 27 + length (payload f)"
  by (simp add: frame_bytes_def length_frame_body)

lemma encodeFrame_eq:
  "encodeFrame f = Inr bs \<longleftrightarrow> frame_valid f \<and> bs = frame_bytes f"
  by (auto simp: encodeFrame_def frame_valid_def frame_bytes_def frame_body_def frame_header_def
      codec_simps Let_def not_less)

lemma encodeFrame_cases: "(\<exists>bs. encodeFrame f = Inr bs) \<or> (\<exists>m. encodeFrame f = Inl (invalid_argument m))"
  by (simp add: encodeFrame_def Let_def)

lemma frame_length_field:
  "length (payload f) \<le> MaxPayloadSize \<Longrightarrow> unat (of_nat (length (payload f)) :: u16) = length (payload f)"
  by (simp add: unat_of_nat wire_simps)

section \<open>Decoding an encoded frame\<close>

lemma magic_field: "readU32BE (frame_bytes f) MagicOffset = Some FrameMagic"
  using readU32BE_field [of "[]" MagicOffset FrameMagic]
  by (simp add: frame_bytes_def frame_body_def frame_header_def wire_simps)

lemma version_field: "at_ub (frame_bytes f) VersionOffset = Some (version f)"
  by (simp add: frame_bytes_def frame_body_def frame_header_def wire_simps at_ub_def nth_append)

lemma satelliteId_field: "readU16BE (frame_bytes f) SatelliteIdOffset = Some (satelliteId f)"
  using readU16BE_field [of "be32 FrameMagic @ [version f]" SatelliteIdOffset]
  by (simp add: frame_bytes_def frame_body_def frame_header_def wire_simps)

lemma timestamp_field: "readU64BE (frame_bytes f) TimestampOffset = Some (timestampMs f)"
  using readU64BE_field [of "be32 FrameMagic @ [version f] @ be16 (satelliteId f)" TimestampOffset]
  by (simp add: frame_bytes_def frame_body_def frame_header_def wire_simps)

lemma temperature_field: "readFloatBE (frame_bytes f) TemperatureOffset = Some (temperatureC f)"
  using readU32BE_field [of "be32 FrameMagic @ [version f] @ be16 (satelliteId f) @ be64 (timestampMs f)"
      TemperatureOffset]
  by (simp add: frame_bytes_def frame_body_def frame_header_def wire_simps readFloatBE_eq)

lemma battery_field: "at_ub (frame_bytes f) BatteryOffset = Some (batteryPercent f)"
  by (simp add: frame_bytes_def frame_body_def frame_header_def wire_simps at_ub_def nth_append)

lemma status_field: "at_ub (frame_bytes f) StatusOffset = Some (status f)"
  by (simp add: frame_bytes_def frame_body_def frame_header_def wire_simps at_ub_def nth_append)

lemma length_field:
  "readU16BE (frame_bytes f) PayloadLengthOffset = Some (of_nat (length (payload f)))"
  using readU16BE_field [of "be32 FrameMagic @ [version f] @ be16 (satelliteId f) @ be64 (timestampMs f)
      @ be32 (temperatureC f) @ [batteryPercent f] @ [status f]" PayloadLengthOffset]
  by (simp add: frame_bytes_def frame_body_def frame_header_def wire_simps)

lemma frame_size: "length (frame_bytes f) = HeaderSize + length (payload f) + CrcSize"
  by (simp add: length_frame_bytes wire_simps)

lemma crc_field:
  "readU32BE (frame_bytes f) (HeaderSize + length (payload f)) = Some (crc32 (frame_body f))"
  using readU32BE_field [of "frame_body f" _ "crc32 (frame_body f)" "[]"]
  by (simp add: frame_bytes_def length_frame_body HeaderSize_23)

lemma covered_field:
  "range_ub (frame_bytes f) 0 (HeaderSize + length (payload f)) = Some (frame_body f)"
  by (simp add: range_ub_def frame_bytes_def length_frame_body HeaderSize_23)

lemma payload_field:
  "range_ub (frame_bytes f) HeaderSize (HeaderSize + length (payload f)) = Some (payload f)"
  by (simp add: range_ub_def frame_bytes_def frame_body_def wire_simps)

lemmas frame_fields = magic_field version_field satelliteId_field timestamp_field temperature_field
  battery_field status_field length_field crc_field covered_field payload_field frame_size

lemma decode_encode: "frame_valid f \<Longrightarrow> decodeFrame (frame_bytes f) = Some (Inr f)"
  by (simp add: decodeFrame_def frame_fields frame_valid_def frame_length_field MinFrameSize_def not_less)

section \<open>Decoding any input\<close>

text \<open>Every header field is readable once the minimum length has been checked.\<close>

lemma header_reads:
  assumes "MinFrameSize \<le> length bytes"
  shows "\<exists>v. readU32BE bytes MagicOffset = Some v" "\<exists>v. at_ub bytes VersionOffset = Some v"
    "\<exists>v. readU16BE bytes SatelliteIdOffset = Some v" "\<exists>v. readU64BE bytes TimestampOffset = Some v"
    "\<exists>v. readFloatBE bytes TemperatureOffset = Some v" "\<exists>v. at_ub bytes BatteryOffset = Some v"
    "\<exists>v. at_ub bytes StatusOffset = Some v" "\<exists>v. readU16BE bytes PayloadLengthOffset = Some v"
    "\<exists>v. readU32BE bytes (length bytes - CrcSize) = Some v"
  using assms
  by (simp_all add: wire_simps u16.read_defined u32.read_defined u64.read_defined f32.read_defined)

lemma decodeFrame_defined: "\<exists>r. decodeFrame bytes = Some r"
proof (cases "length bytes < MinFrameSize")
  case True
  then show ?thesis by (simp add: decodeFrame_def)
next
  case False
  then have len: "MinFrameSize \<le> length bytes" by simp
  from header_reads [OF len] obtain m v s t te b st pl c where
    "readU32BE bytes MagicOffset = Some m" "at_ub bytes VersionOffset = Some v"
    "readU16BE bytes SatelliteIdOffset = Some s" "readU64BE bytes TimestampOffset = Some t"
    "readFloatBE bytes TemperatureOffset = Some te" "at_ub bytes BatteryOffset = Some b"
    "at_ub bytes StatusOffset = Some st" "readU16BE bytes PayloadLengthOffset = Some pl"
    "readU32BE bytes (length bytes - CrcSize) = Some c" by blast
  then have "decodeFrame bytes \<noteq> None"
    using len
    by (auto simp: decodeFrame_def Let_def range_ub_def not_less MinFrameSize_def
        split: if_splits Option.bind_splits)
  then show ?thesis by blast
qed

text \<open>What acceptance says about the buffer, field by field.\<close>

lemma decodeFrame_InrD:
  assumes "decodeFrame bytes = Some (Inr f)"
  shows "readU32BE bytes 0 = Some FrameMagic" "at_ub bytes 4 = Some (version f)"
    "readU16BE bytes 5 = Some (satelliteId f)" "readU64BE bytes 7 = Some (timestampMs f)"
    "readFloatBE bytes 15 = Some (temperatureC f)" "at_ub bytes 19 = Some (batteryPercent f)"
    "at_ub bytes 20 = Some (status f)"
    "readU16BE bytes 21 = Some (of_nat (length (payload f)))"
    "payload f = take (length (payload f)) (drop 23 bytes)"
    "length bytes = 27 + length (payload f)"
    "readU32BE bytes (length bytes - 4) = Some (crc32 (take (length bytes - 4) bytes))"
    "frame_valid f"
  using assms
  by (auto simp: decodeFrame_def Let_def frame_valid_def wire_simps range_ub_def not_less
      split: if_splits Option.bind_splits)

lemma decode_layout:
  assumes "decodeFrame bytes = Some (Inr f)"
  shows "bytes = frame_bytes f"
proof -
  note D = decodeFrame_InrD [OF assms]
  have "drop 0 bytes = be32 FrameMagic @ drop 4 bytes"
    using u32.drop_read [OF D(1)] by simp
  moreover have "drop 4 bytes = version f # drop 5 bytes"
    using drop_at_ub [OF D(2)] by simp
  moreover have "drop 5 bytes = be16 (satelliteId f) @ drop 7 bytes"
    using u16.drop_read [OF D(3)] by simp
  moreover have "drop 7 bytes = be64 (timestampMs f) @ drop 15 bytes"
    using u64.drop_read [OF D(4)] by simp
  moreover have "drop 15 bytes = be32 (temperatureC f) @ drop 19 bytes"
    using f32.drop_read [OF D(5)] by simp
  moreover have "drop 19 bytes = batteryPercent f # drop 20 bytes"
    using drop_at_ub [OF D(6)] by simp
  moreover have "drop 20 bytes = status f # drop 21 bytes"
    using drop_at_ub [OF D(7)] by simp
  moreover have "drop 21 bytes = be16 (of_nat (length (payload f))) @ drop 23 bytes"
    using u16.drop_read [OF D(8)] by simp
  ultimately have hdr: "bytes = frame_header f @ drop 23 bytes"
    by (simp add: frame_header_def)
  define n where "n = length (payload f)"
  have "drop 23 bytes = payload f @ drop (23 + n) bytes"
    using D(9) by (metis append_take_drop_id drop_drop add.commute n_def)
  with hdr have body: "bytes = frame_body f @ drop (23 + n) bytes"
    by (simp add: frame_body_def)
  have len: "length bytes - 4 = 23 + n" using D(10) by (simp add: n_def)
  have take: "take (23 + n) bytes = frame_body f"
    by (subst body) (simp add: length_frame_body n_def)
  have "drop (23 + n) bytes = be32 (crc32 (frame_body f)) @ drop (27 + n) bytes"
    using u32.drop_read [OF D(11)] by (simp add: len take)
  moreover have "drop (27 + n) bytes = []" using D(10) by (simp add: n_def)
  ultimately show ?thesis using body by (simp add: frame_bytes_def)
qed

text \<open>Decoding and encoding are inverse to each other: the codec is a bijection between the
  frames that pass the encoder's checks and the byte sequences the decoder accepts.\<close>

lemma decode_iff_encode: "decodeFrame bytes = Some (Inr f) \<longleftrightarrow> encodeFrame f = Inr bytes"
  using decode_encode decode_layout decodeFrame_InrD(12) encodeFrame_eq by metis

lemma frame_bytes_inject:
  "frame_valid f \<Longrightarrow> frame_valid g \<Longrightarrow> frame_bytes f = frame_bytes g \<Longrightarrow> f = g"
  by (metis decode_encode option.inject sum.inject(2))

section \<open>Corruption of one byte\<close>

lemma decode_single_corruption:
  assumes valid: "frame_valid f" and i: "i < length (frame_bytes f)"
    and x: "x \<noteq> frame_bytes f ! i"
  shows "\<exists>e. decodeFrame ((frame_bytes f)[i := x]) = Some (Inl e)"
proof (rule ccontr)
  let ?bs = "(frame_bytes f)[i := x]"
  assume "\<nexists>e. decodeFrame ?bs = Some (Inl e)"
  moreover obtain r where "decodeFrame ?bs = Some r" using decodeFrame_defined by blast
  ultimately obtain g where "decodeFrame ?bs = Some (Inr g)" by (cases r) auto
  then have g: "?bs = frame_bytes g" by (rule decode_layout)
  let ?h = "frame_body f" and ?k = "frame_body g"
  have len: "length ?h = length ?k"
    using arg_cong [OF g, of length] by (simp add: frame_bytes_def)
  show False
  proof (cases "i < length ?h")
    case True
    then have "?h[i := x] @ be32 (crc32 ?h) = ?k @ be32 (crc32 ?k)"
      using g by (simp add: frame_bytes_def list_update_append)
    then have k: "?h[i := x] = ?k" and c: "crc32 ?h = crc32 ?k"
      using len by (auto dest: u32.enc_inject)
    have "?h = take i ?h @ [?h ! i] @ drop (Suc i) ?h"
      using True by (simp add: id_take_nth_drop)
    moreover have "?h[i := x] = take i ?h @ [x] @ drop (Suc i) ?h"
      using True by (simp add: upd_conv_take_nth_drop)
    moreover have "x \<noteq> ?h ! i" using x True by (simp add: frame_bytes_def nth_append)
    ultimately show False using c k crc32_single_byte by metis
  next
    case False
    then have "?h = ?k"
      using g len by (simp add: frame_bytes_def list_update_append)
    then have "frame_bytes g = frame_bytes f" by (simp only: frame_bytes_def)
    with g have "?bs = frame_bytes f" by simp
    then show False using x i by (metis nth_list_update_eq)
  qed
qed

section \<open>Properties\<close>

text \<open>C1: \<open>decodeFrame\<close> accepts a byte sequence as the frame \<open>f\<close> exactly when
  \<open>encodeFrame\<close> produces that byte sequence from \<open>f\<close>: every encoded frame decodes to
  itself, every accepted sequence is the unique encoding of what it decodes to, and no
  frame the encoder refuses can come out of the decoder.\<close>

theorem codec_bijection: "decodeFrame bytes = Some (Inr f) \<longleftrightarrow> encodeFrame f = Inr bytes"
  by (rule decode_iff_encode)

text \<open>\<open>decodeFrame\<close> returns a frame or an error on every input whatsoever: no
  unchecked access of the function can leave the buffer.\<close>

theorem decodeFrame_total: "\<exists>r. decodeFrame bytes = Some r"
  by (rule decodeFrame_defined)

text \<open>C9: whichever single byte of an encoded frame is replaced by whichever other value
  (the magic, the length field and the CRC included), the decoder reports an error.\<close>

theorem single_byte_corruption_rejected:
  assumes "encodeFrame f = Inr bs" and "i < length bs" and "x \<noteq> bs ! i"
  shows "\<exists>e. decodeFrame (bs[i := x]) = Some (Inl e)"
  using assms decode_single_corruption [of f i x] encodeFrame_eq [of f bs] by blast

definition sample_frame :: TelemetryFrame where
  "sample_frame = \<lparr>version = 1, satelliteId = 42, timestampMs = 1000, temperatureC = 0x41A80000,
     batteryPercent = 88, status = Status_Nominal, payload = [0x48, 0x69]\<rparr>"

lemma sample_frame_valid: "frame_valid sample_frame"
  by (simp add: frame_valid_def sample_frame_def wire_simps ProtocolVersion_def isfinite_def
      f32_exponent_def MaxBatteryPercent_def Status_SafeMode_def Status_Nominal_def)

theorem single_byte_corruption_rejected_witness:
  "\<exists>e. decodeFrame ((frame_bytes sample_frame)[7 := frame_bytes sample_frame ! 7 XOR 0x5A]) = Some (Inl e)"
proof (rule single_byte_corruption_rejected)
  show "encodeFrame sample_frame = Inr (frame_bytes sample_frame)"
    by (simp add: encodeFrame_eq sample_frame_valid)
  show "7 < length (frame_bytes sample_frame)" by (simp add: length_frame_bytes)
  show "frame_bytes sample_frame ! 7 XOR 0x5A \<noteq> frame_bytes sample_frame ! 7"
    using xor_left_cancel [of "frame_bytes sample_frame ! 7" "0x5A" 0] by simp
qed

end
