(* ===== verification/Stream_Extractor.thy ===== *)
theory Stream_Extractor
  imports Frame_Codec
begin

text \<open>
  Model of \<open>StreamFrameExtractor\<close> (\<open>include/stgs/FrameCodec.hpp\<close>,
  \<open>src/FrameCodec.cpp\<close>): the per-connection buffer that turns an arbitrarily fragmented TCP
  byte stream back into frame candidates. The \<open>while (true)\<close> loop of \<open>feed\<close> is a
  recursive function with a termination proof (every iteration that continues shortens the
  buffer); \<open>None\<close> is undefined behaviour.

  The lemmas show that the loop never leaves the buffer, that the way the stream is cut into
  fragments does not matter, which candidates can be produced, that the retained buffer is
  bounded, and that a stream of encoded frames is recovered exactly.
\<close>

record StreamFrameExtractor =
  buffer :: ByteVector

function feed_loop :: "ByteVector \<Rightarrow> ByteVector list \<Rightarrow> (ByteVector \<times> ByteVector list) option" where
  "feed_loop buf frames =
     (case search magicBytes buf of
        None \<Rightarrow>
          Some (if MagicSize - 1 < length buf then drop (length buf - (MagicSize - 1)) buf else buf,
                frames)
      | Some it \<Rightarrow>
          let buf = (if it \<noteq> 0 then drop it buf else buf) in
          if length buf < HeaderSize then Some (buf, frames)
          else
            case readU16BE buf PayloadLengthOffset of
              None \<Rightarrow> None
            | Some payloadLength \<Rightarrow>
                if unat payloadLength > MaxPayloadSize then feed_loop (drop 1 buf) frames
                else
                  let frameSize = HeaderSize + unat payloadLength + CrcSize in
                  if length buf < frameSize then Some (buf, frames)
                  else feed_loop (drop frameSize buf) (frames @ [take frameSize buf]))"
  by pat_completeness auto
termination
  by (relation "measure (\<lambda>(buf, frames). length buf)") (auto simp: wire_simps split: if_splits)

declare feed_loop.simps [simp del]

definition feed ::
    "StreamFrameExtractor \<Rightarrow> ByteVector \<Rightarrow> (StreamFrameExtractor \<times> ByteVector list) option" where
  "feed e bytes = do {
     (buf, frames) \<leftarrow> feed_loop (buffer e @ bytes) [];
     Some (e\<lparr>buffer := buf\<rparr>, frames)
   }"

definition clear :: "StreamFrameExtractor \<Rightarrow> StreamFrameExtractor" where
  "clear e = e\<lparr>buffer := []\<rparr>"

definition bufferedBytes :: "StreamFrameExtractor \<Rightarrow> nat" where
  "bufferedBytes e = length (buffer e)"

definition empty_extractor :: StreamFrameExtractor where
  "empty_extractor = \<lparr>buffer = []\<rparr>"

text \<open>A connection: the fragments of the stream are fed one after the other.\<close>

fun feed_all ::
    "StreamFrameExtractor \<Rightarrow> ByteVector list \<Rightarrow> (StreamFrameExtractor \<times> ByteVector list) option" where
  "feed_all e [] = Some (e, [])"
| "feed_all e (chunk # chunks) = do {
     (e', frames) \<leftarrow> feed e chunk;
     (e'', rest) \<leftarrow> feed_all e' chunks;
     Some (e'', frames @ rest)
   }"

section \<open>One iteration\<close>

lemma length_magicBytes [simp]: "length magicBytes = 4"
  by (simp add: magicBytes_def appendU32BE_eq)

lemma magicBytes_eq: "magicBytes = be32 FrameMagic"
  by (simp add: magicBytes_def appendU32BE_eq)

lemma feed_loop_None:
  "search magicBytes buf = None \<Longrightarrow>
   feed_loop buf frames = Some (if 3 < length buf then drop (length buf - 3) buf else buf, frames)"
  by (simp add: feed_loop.simps [of buf] wire_simps)

text \<open>The loop first moves to the magic, so it may as well start there.\<close>

lemma search_at_found:
  "search p xs = Some i \<Longrightarrow> search p (drop i xs) = Some 0"
  by (rule search_SomeI) (auto dest: search_SomeD)

lemma feed_loop_resync:
  "search magicBytes buf = Some i \<Longrightarrow> feed_loop buf frames = feed_loop (drop i buf) frames"
  by (subst (1 2) feed_loop.simps) (simp add: search_at_found)

text \<open>One iteration from a buffer that starts with the magic.\<close>

lemma feed_loop_short:
  "search magicBytes buf = Some 0 \<Longrightarrow> length buf < 23 \<Longrightarrow> feed_loop buf frames = Some (buf, frames)"
  by (simp add: feed_loop.simps [of buf] HeaderSize_23)

lemma feed_loop_reads:
  "search magicBytes buf = Some 0 \<Longrightarrow> 23 \<le> length buf \<Longrightarrow> readU16BE buf 21 = Some n \<Longrightarrow>
   feed_loop buf frames =
     (if 4096 < unat n then feed_loop (drop 1 buf) frames
      else if length buf < 27 + unat n then Some (buf, frames)
      else feed_loop (drop (27 + unat n) buf) (frames @ [take (27 + unat n) buf]))"
  by (subst feed_loop.simps) (simp add: wire_simps Let_def add.commute add.left_commute)

text \<open>The five ways an iteration from an arbitrary buffer can go.\<close>

lemma feed_loop_short_step:
  "search magicBytes buf = Some i \<Longrightarrow> length (drop i buf) < 23 \<Longrightarrow>
   feed_loop buf frames = Some (drop i buf, frames)"
  using feed_loop_short [OF search_at_found] feed_loop_resync by metis

lemma feed_loop_oversized_step:
  "search magicBytes buf = Some i \<Longrightarrow> 23 \<le> length (drop i buf) \<Longrightarrow>
   readU16BE (drop i buf) 21 = Some n \<Longrightarrow> 4096 < unat n \<Longrightarrow>
   feed_loop buf frames = feed_loop (drop 1 (drop i buf)) frames"
  using feed_loop_reads [OF search_at_found] feed_loop_resync by metis

lemma feed_loop_partial_step:
  "search magicBytes buf = Some i \<Longrightarrow> 23 \<le> length (drop i buf) \<Longrightarrow>
   readU16BE (drop i buf) 21 = Some n \<Longrightarrow> unat n \<le> 4096 \<Longrightarrow> length (drop i buf) < 27 + unat n \<Longrightarrow>
   feed_loop buf frames = Some (drop i buf, frames)"
  using feed_loop_reads [OF search_at_found] feed_loop_resync by (metis not_less)

lemma feed_loop_complete_step:
  "search magicBytes buf = Some i \<Longrightarrow> 23 \<le> length (drop i buf) \<Longrightarrow>
   readU16BE (drop i buf) 21 = Some n \<Longrightarrow> unat n \<le> 4096 \<Longrightarrow> 27 + unat n \<le> length (drop i buf) \<Longrightarrow>
   feed_loop buf frames =
     feed_loop (drop (27 + unat n) (drop i buf)) (frames @ [take (27 + unat n) (drop i buf)])"
  using feed_loop_reads [OF search_at_found] feed_loop_resync by (metis not_less)

lemma feed_loop_cases:
  obtains (no_magic) "search magicBytes buf = None"
  | (magic) i n where "search magicBytes buf = Some i" "23 \<le> length (drop i buf)"
      "readU16BE (drop i buf) 21 = Some n"
  | (short) i where "search magicBytes buf = Some i" "length (drop i buf) < 23"
proof (cases "search magicBytes buf")
  case (Some i)
  show ?thesis
  proof (cases "length (drop i buf) < 23")
    case False
    then have "21 + 2 \<le> length (drop i buf)" by simp
    from u16.read_defined [OF this] show ?thesis
      using Some False magic by (metis not_less)
  qed (use Some short in blast)
qed (use no_magic in blast)

text \<open>Induction over the loop with one case per kind of iteration.\<close>

lemma feed_loop_induct [case_names no_magic short oversized partial complete]:
  assumes "\<And>buf. search magicBytes buf = None \<Longrightarrow> P buf"
    and "\<And>buf i. search magicBytes buf = Some i \<Longrightarrow> length (drop i buf) < 23 \<Longrightarrow> P buf"
    and "\<And>buf i n. search magicBytes buf = Some i \<Longrightarrow> 23 \<le> length (drop i buf) \<Longrightarrow>
      readU16BE (drop i buf) 21 = Some n \<Longrightarrow> 4096 < unat n \<Longrightarrow> P (drop 1 (drop i buf)) \<Longrightarrow> P buf"
    and "\<And>buf i n. search magicBytes buf = Some i \<Longrightarrow> 23 \<le> length (drop i buf) \<Longrightarrow>
      readU16BE (drop i buf) 21 = Some n \<Longrightarrow> unat n \<le> 4096 \<Longrightarrow> length (drop i buf) < 27 + unat n \<Longrightarrow> P buf"
    and "\<And>buf i n. search magicBytes buf = Some i \<Longrightarrow> 23 \<le> length (drop i buf) \<Longrightarrow>
      readU16BE (drop i buf) 21 = Some n \<Longrightarrow> unat n \<le> 4096 \<Longrightarrow> 27 + unat n \<le> length (drop i buf) \<Longrightarrow>
      P (drop (27 + unat n) (drop i buf)) \<Longrightarrow> P buf"
  shows "P buf"
proof (induction "length buf" arbitrary: buf rule: less_induct)
  case less
  show ?case
  proof (cases buf rule: feed_loop_cases)
    case (magic i n)
    have d1: "length (drop 1 (drop i buf)) < length buf" using magic by simp
    have d2: "length (drop (27 + unat n) (drop i buf)) < length buf" using magic by simp
    show ?thesis
      using magic less(1) [OF d1] less(1) [OF d2] assms(3-5) by (meson not_le)
  qed (use assms in blast)+
qed

lemma feed_loop_acc:
  "feed_loop buf frames = map_option (\<lambda>(b, fs). (b, frames @ fs)) (feed_loop buf [])"
proof (induction buf arbitrary: frames rule: feed_loop_induct)
  case (no_magic buf)
  then show ?case by (simp add: feed_loop_None)
next
  case (short buf i)
  show ?case by (simp add: feed_loop_short_step [OF short])
next
  case (oversized buf i n)
  show ?case by (simp only: feed_loop_oversized_step [OF oversized(1-4)] oversized.IH [of frames])
next
  case (partial buf i n)
  show ?case by (simp add: feed_loop_partial_step [OF partial])
next
  case (complete buf i n)
  note step = feed_loop_complete_step [OF complete(1-5)]
  show ?case
    by (subst (1 2) step, subst (1 2) complete.IH)
      (simp add: option.map_comp comp_def case_prod_beta')
qed

lemma feed_loop_complete_cons:
  "search magicBytes buf = Some i \<Longrightarrow> 23 \<le> length (drop i buf) \<Longrightarrow>
   readU16BE (drop i buf) 21 = Some n \<Longrightarrow> unat n \<le> 4096 \<Longrightarrow> 27 + unat n \<le> length (drop i buf) \<Longrightarrow>
   feed_loop buf [] = map_option (\<lambda>(b, fs). (b, take (27 + unat n) (drop i buf) # fs))
     (feed_loop (drop (27 + unat n) (drop i buf)) [])"
  using feed_loop_complete_step [of buf i n "[]"]
    feed_loop_acc [of "drop (27 + unat n) (drop i buf)" "[take (27 + unat n) (drop i buf)]"]
  by simp

text \<open>The loop returns: no read leaves the buffer.\<close>

lemma feed_loop_defined: "\<exists>r. feed_loop buf frames = Some r"
proof (induction buf arbitrary: frames rule: feed_loop_induct)
  case (no_magic buf)
  then show ?case by (simp add: feed_loop_None)
next
  case (short buf i)
  show ?case by (simp add: feed_loop_short_step [OF short])
next
  case (oversized buf i n)
  show ?case by (simp only: feed_loop_oversized_step [OF oversized(1-4)] oversized.IH)
next
  case (partial buf i n)
  show ?case by (simp add: feed_loop_partial_step [OF partial])
next
  case (complete buf i n)
  show ?case by (simp only: feed_loop_complete_step [OF complete(1-5)] complete.IH)
qed

section \<open>Fragmentation does not matter\<close>

lemma search_no_early:
  assumes "search p xs = None" and "j + length p \<le> length xs"
  shows "take (length p) (drop j (xs @ ys)) \<noteq> p"
  using search_NoneD [OF assms(1), of j] assms(2) by simp

text \<open>When no magic is found only the last three bytes matter for what follows.\<close>

lemma feed_loop_trim:
  assumes none: "search magicBytes buf = None" and n: "n = length buf - 3"
  shows "feed_loop (buf @ ys) [] = feed_loop (drop n buf @ ys) []"
proof -
  have early: "take (length magicBytes) (drop j (buf @ ys)) \<noteq> magicBytes" if "j < n" for j
    using search_no_early [OF none, of j ys] that n by simp
  have app: "drop n (buf @ ys) = drop n buf @ ys" using n by simp
  have shift: "search magicBytes (buf @ ys) = map_option ((+) n) (search magicBytes (drop n buf @ ys))"
    using search_drop [of n magicBytes "buf @ ys"] early n app by simp
  show ?thesis
  proof (cases "search magicBytes (drop n buf @ ys)")
    case None
    with shift have "search magicBytes (buf @ ys) = None" by simp
    with None n show ?thesis
      by (cases "3 < length buf") (auto simp: feed_loop_None add.commute)
  next
    case (Some k)
    with shift have "search magicBytes (buf @ ys) = Some (n + k)" by simp
    from feed_loop_resync [OF this] feed_loop_resync [OF Some] app show ?thesis
      by (metis add.commute drop_drop)
  qed
qed

lemma prepend_no_frames: "map_option (\<lambda>(b, gs). (b, [] @ gs)) r = r"
  by (cases r) auto

lemma feed_loop_append:
  "feed_loop (buf @ ys) [] =
     (case feed_loop buf [] of
        None \<Rightarrow> None
      | Some (b, fs) \<Rightarrow> map_option (\<lambda>(b', gs). (b', fs @ gs)) (feed_loop (b @ ys) []))"
proof (induction buf rule: feed_loop_induct)
  case (no_magic buf)
  have "feed_loop buf [] = Some (drop (length buf - 3) buf, [])"
    by (simp add: feed_loop_None [OF no_magic])
  then show ?case
    by (simp only: feed_loop_trim [OF no_magic refl] prepend_no_frames option.case prod.case)
next
  case (short buf i)
  have i: "i \<le> length buf" using search_SomeD [OF short(1)] by simp
  have "feed_loop (buf @ ys) [] = feed_loop (drop i buf @ ys) []"
    using feed_loop_resync [OF search_append_Some [OF short(1)], of ys] i by simp
  then show ?case
    by (simp only: feed_loop_short_step [OF short] prepend_no_frames option.case prod.case)
next
  case (oversized buf i n)
  have i: "i \<le> length buf" using search_SomeD [OF oversized(1)] by simp
  have rd: "readU16BE (drop i (buf @ ys)) 21 = Some n"
    using oversized(2,3) i u16.read_prefix [of 21 "drop i buf" ys] by simp
  have "feed_loop (buf @ ys) [] = feed_loop (drop 1 (drop i buf) @ ys) []"
    using feed_loop_oversized_step [OF search_append_Some [OF oversized(1)] _ rd oversized(4)]
      oversized(2) i by simp
  then show ?case by (simp only: oversized.IH feed_loop_oversized_step [OF oversized(1-4)])
next
  case (partial buf i n)
  have i: "i \<le> length buf" using search_SomeD [OF partial(1)] by simp
  have "feed_loop (buf @ ys) [] = feed_loop (drop i buf @ ys) []"
    using feed_loop_resync [OF search_append_Some [OF partial(1)], of ys] i by simp
  then show ?case
    by (simp only: feed_loop_partial_step [OF partial] prepend_no_frames option.case prod.case)
next
  case (complete buf i n)
  have i: "i \<le> length buf" using search_SomeD [OF complete(1)] by simp
  let ?b = "drop i buf" and ?k = "27 + unat n"
  have rd: "readU16BE (drop i (buf @ ys)) 21 = Some n"
    using complete(2,3) i u16.read_prefix [of 21 "drop i buf" ys] by simp
  have "feed_loop (buf @ ys) [] = feed_loop (drop ?k ?b @ ys) [take ?k ?b]"
    using feed_loop_complete_step [OF search_append_Some [OF complete(1)] _ rd complete(4)]
      complete(2,5) i by simp
  also have "\<dots> = map_option (\<lambda>(b, fs). (b, [take ?k ?b] @ fs)) (feed_loop (drop ?k ?b @ ys) [])"
    by (rule feed_loop_acc)
  also have "\<dots> = (case map_option (\<lambda>(b, fs). (b, [take ?k ?b] @ fs)) (feed_loop (drop ?k ?b) []) of
        None \<Rightarrow> None
      | Some (b, fs) \<Rightarrow> map_option (\<lambda>(b', gs). (b', fs @ gs)) (feed_loop (b @ ys) []))"
    unfolding complete.IH
    by (auto simp: option.map_comp comp_def case_prod_beta' split: option.split)
  also have "map_option (\<lambda>(b, fs). (b, [take ?k ?b] @ fs)) (feed_loop (drop ?k ?b) []) = feed_loop buf []"
    using feed_loop_complete_cons [OF complete(1-5)] by simp
  finally show ?case .
qed

lemma feed_append:
  "feed e (xs @ ys) = do {
     (e', fs) \<leftarrow> feed e xs;
     (e'', gs) \<leftarrow> feed e' ys;
     Some (e'', fs @ gs)
   }"
  using feed_loop_append [of "buffer e @ xs" ys] feed_loop_defined [of "buffer e @ xs" "[]"]
  by (auto simp: feed_def map_option_case split: option.split)

lemma feed_all_concat: "chunks \<noteq> [] \<Longrightarrow> feed_all e chunks = feed e (concat chunks)"
proof (induction chunks arbitrary: e)
  case (Cons c cs)
  show ?case
  proof (cases "cs = []")
    case True
    then show ?thesis by (cases "feed e c") auto
  next
    case False
    then show ?thesis by (simp add: Cons.IH feed_append)
  qed
qed simp

section \<open>Candidates and the retained buffer\<close>

definition frame_candidate :: "ByteVector \<Rightarrow> bool" where
  "frame_candidate fr \<longleftrightarrow>
     MinFrameSize \<le> length fr \<and> length fr \<le> MaxFrameSize \<and> readU32BE fr MagicOffset = Some FrameMagic \<and>
     map_option unat (readU16BE fr PayloadLengthOffset) = Some (length fr - MinFrameSize)"

lemma magic_at_found:
  "search magicBytes buf = Some i \<Longrightarrow> readU32BE (drop i buf) 0 = Some FrameMagic"
  by (rule u32.read_eqI) (auto simp: magicBytes_eq [symmetric] dest!: search_SomeD)

lemma take_candidate:
  assumes "search magicBytes buf = Some i" and "readU16BE (drop i buf) 21 = Some n"
    and "unat n \<le> 4096" and len: "27 + unat n \<le> length (drop i buf)"
  shows "frame_candidate (take (27 + unat n) (drop i buf))"
proof -
  let ?fr = "take (27 + unat n) (drop i buf)"
  have app: "drop i buf = ?fr @ drop (27 + unat n) (drop i buf)"
    by (rule append_take_drop_id [symmetric])
  have "readU32BE ?fr 0 = Some FrameMagic" "readU16BE ?fr 21 = Some n"
    using magic_at_found [OF assms(1)] assms(2) len
      u32.read_prefix [of 0 ?fr "drop (27 + unat n) (drop i buf)"]
      u16.read_prefix [of 21 ?fr "drop (27 + unat n) (drop i buf)"] app by auto
  then show ?thesis using assms(3) len by (simp add: frame_candidate_def wire_simps)
qed

lemma feed_loop_candidates:
  "feed_loop buf [] = Some (b, fs) \<Longrightarrow> list_all frame_candidate fs \<and> length b < MaxFrameSize"
proof (induction buf arbitrary: b fs rule: feed_loop_induct)
  case (no_magic buf)
  then show ?case by (auto simp: feed_loop_None wire_simps split: if_splits)
next
  case (short buf i)
  then show ?case using feed_loop_short_step [OF short(1,2)] by (auto simp: wire_simps)
next
  case (oversized buf i n)
  then show ?case using feed_loop_oversized_step [OF oversized(1-4)] by simp
next
  case (partial buf i n)
  then show ?case using feed_loop_partial_step [OF partial(1-5)] by (auto simp: wire_simps)
next
  case (complete buf i n)
  let ?fr = "take (27 + unat n) (drop i buf)"
  from complete.prems obtain gs where
    "feed_loop (drop (27 + unat n) (drop i buf)) [] = Some (b, gs)" and "fs = ?fr # gs"
    by (auto simp only: feed_loop_complete_cons [OF complete(1-5)] map_option_eq_Some prod.inject
        split: prod.splits)
  with complete.IH take_candidate [OF complete(1,3,4,5)] show ?case by simp
qed

section \<open>A stream of encoded frames\<close>

lemma candidate_frame_bytes:
  assumes "frame_valid f"
  shows "feed_loop (frame_bytes f @ rest) [] =
     map_option (\<lambda>(b, fs). (b, frame_bytes f # fs)) (feed_loop rest [])"
proof -
  let ?buf = "frame_bytes f @ rest" and ?n = "of_nat (length (payload f)) :: u16"
  have "?buf = magicBytes @ drop 4 ?buf"
    by (simp add: frame_bytes_def frame_body_def frame_header_def magicBytes_eq)
  then have found: "search magicBytes ?buf = Some 0"
    by (metis search_prefix)
  have rd: "readU16BE (drop 0 ?buf) 21 = Some ?n"
    using length_field [of f] u16.read_prefix [of 21 "frame_bytes f" rest]
    by (simp add: wire_simps length_frame_bytes)
  have n: "unat ?n = length (payload f)" "unat ?n \<le> 4096"
    using assms frame_length_field [of f] by (simp_all add: frame_valid_def wire_simps)
  have "feed_loop ?buf [] = feed_loop rest [frame_bytes f]"
    using feed_loop_complete_step [OF found _ rd n(2), of "[]"] n(1)
    by (simp add: length_frame_bytes)
  then show ?thesis using feed_loop_acc [of rest "[frame_bytes f]"] by simp
qed

lemma feed_loop_frames:
  "list_all frame_valid fs \<Longrightarrow> feed_loop (concat (map frame_bytes fs)) [] = Some ([], map frame_bytes fs)"
proof (induction fs)
  case Nil
  have "search magicBytes [] = None" by (simp add: magicBytes_eq be32_def)
  then show ?case by (simp add: feed_loop_None)
next
  case (Cons f fs)
  then show ?case by (simp add: candidate_frame_bytes)
qed

text \<open>Noise in which the magic does not start is skipped.\<close>

lemma feed_loop_noise:
  assumes "search magicBytes (noise @ magicBytes) = Some (length noise)" and "frame_valid f"
  shows "feed_loop (noise @ frame_bytes f @ rest) [] = feed_loop (frame_bytes f @ rest) []"
proof -
  have "frame_bytes f = magicBytes @ drop 4 (frame_bytes f)"
    by (simp add: frame_bytes_def frame_body_def frame_header_def magicBytes_eq)
  then have "noise @ frame_bytes f @ rest = (noise @ magicBytes) @ drop 4 (frame_bytes f) @ rest"
    by (metis append_assoc)
  with search_append_Some [OF assms(1)]
  have "search magicBytes (noise @ frame_bytes f @ rest) = Some (length noise)" by metis
  from feed_loop_resync [OF this] show ?thesis by simp
qed

section \<open>Properties\<close>

lemma feed_all_empty: "feed_all empty_extractor chunks = feed empty_extractor (concat chunks)"
proof (cases "chunks = []")
  case True
  have "search magicBytes [] = None" by (simp add: magicBytes_eq be32_def)
  with True show ?thesis by (simp add: feed_def empty_extractor_def feed_loop_None)
qed (simp add: feed_all_concat)

lemma encoded_frame_bytes:
  "list_all2 (\<lambda>f bs. encodeFrame f = Inr bs) fs bss \<longleftrightarrow> list_all frame_valid fs \<and> bss = map frame_bytes fs"
  by (induction fs arbitrary: bss) (auto simp: list_all2_Cons1 encodeFrame_eq)

lemma feed_all_encoded:
  assumes "list_all2 (\<lambda>f bs. encodeFrame f = Inr bs) fs bss" and "concat chunks = concat bss"
  shows "feed_all empty_extractor chunks = Some (empty_extractor, bss) \<and>
    map decodeFrame bss = map (\<lambda>f. Some (Inr f)) fs"
proof -
  from assms(1) have valid: "list_all frame_valid fs" and bss: "bss = map frame_bytes fs"
    by (simp_all add: encoded_frame_bytes)
  have "feed_all empty_extractor chunks = Some (empty_extractor, bss)"
    unfolding feed_all_empty
    using feed_loop_frames [OF valid] by (simp add: assms(2) bss feed_def empty_extractor_def)
  moreover have "map decodeFrame bss = map (\<lambda>f. Some (Inr f)) fs"
    using valid by (simp add: bss decode_encode list_all_iff)
  ultimately show ?thesis by blast
qed

text \<open>C3: however TCP cuts the concatenation of encoded frames into chunks (inside headers,
  with empty chunks, several frames in one chunk), the extractor returns exactly the encoded
  frames, in order, keeps nothing back, and every one of them decodes to the frame that was
  sent.\<close>

theorem stream_recovers_frames:
  assumes "list_all2 (\<lambda>f bs. encodeFrame f = Inr bs) fs bss" and "concat chunks = concat bss"
  shows "feed_all empty_extractor chunks = Some (empty_extractor, bss) \<and>
    map decodeFrame bss = map (\<lambda>f. Some (Inr f)) fs"
  using feed_all_encoded [OF assms] .

theorem stream_recovers_frames_witness:
  "feed_all empty_extractor [take 5 (frame_bytes sample_frame), [], drop 5 (frame_bytes sample_frame)]
     = Some (empty_extractor, [frame_bytes sample_frame]) \<and>
   map decodeFrame [frame_bytes sample_frame] = map (\<lambda>f. Some (Inr f)) [sample_frame]"
  by (rule stream_recovers_frames) (simp_all add: encodeFrame_eq sample_frame_valid)

text \<open>The extractor's output and its retained buffer depend only on the bytes received,
  for arbitrary, also hostile, streams: feeding the chunks one by one is feeding their
  concatenation at once.\<close>

theorem fragmentation_irrelevant:
  "feed_all empty_extractor chunks = feed empty_extractor (concat chunks)"
  by (rule feed_all_empty)

text \<open>C12: on any sequence of chunks the extractor returns (no access leaves the buffer, the
  loop terminates), every candidate it emits starts with the magic and has exactly the length
  its own length field announces, within the protocol limits, and fewer than
  \<open>MaxFrameSize\<close> bytes stay buffered, so a peer cannot make the station hoard memory.\<close>

theorem extractor_bounded:
  "\<exists>e frames. feed_all empty_extractor chunks = Some (e, frames) \<and>
     list_all frame_candidate frames \<and> bufferedBytes e < MaxFrameSize"
proof -
  obtain b frames where r: "feed_loop (concat chunks) [] = Some (b, frames)"
    using feed_loop_defined [of "concat chunks" "[]"] by auto
  then have "feed_all empty_extractor chunks = Some (\<lparr>buffer = b\<rparr>, frames)"
    unfolding feed_all_empty by (simp add: feed_def empty_extractor_def)
  with feed_loop_candidates [OF r] show ?thesis by (auto simp: bufferedBytes_def)
qed

text \<open>Noise that the extractor skips: neither in it nor across its end, where a frame follows, does
  the magic begin.\<close>

definition no_false_magic :: "ByteVector \<Rightarrow> bool" where
  "no_false_magic noise \<longleftrightarrow> (\<forall>i < length noise. take 4 (drop i (noise @ magicBytes)) \<noteq> magicBytes)"

lemma no_false_magic_search: "no_false_magic noise \<Longrightarrow> search magicBytes (noise @ magicBytes) = Some (length noise)"
  by (rule search_SomeI) (simp_all add: no_false_magic_def magicBytes_eq length_be32)

lemma feed_loop_noisy_frames:
  assumes "\<forall>(noise, f, bs) \<in> set parts. no_false_magic noise \<and> encodeFrame f = Inr bs"
  shows "feed_loop (concat (map (\<lambda>(noise, f, bs). noise @ bs) parts) @ rest) [] =
    map_option (\<lambda>(b, fs). (b, map (\<lambda>(noise, f, bs). bs) parts @ fs)) (feed_loop rest [])"
  using assms
proof (induction parts)
  case (Cons part parts)
  obtain noise f bs where part: "part = (noise, f, bs)" by (cases part)
  with Cons.prems have "no_false_magic noise" "frame_valid f" and bs: "bs = frame_bytes f" by (simp_all add: encodeFrame_eq split: if_splits)
  note skip = feed_loop_noise [OF no_false_magic_search [OF this(1)] this(2)] and frame = candidate_frame_bytes [OF this(2)]
  from Cons show ?case by (cases "feed_loop rest []") (auto simp: part bs skip frame)
qed (simp add: option.map_ident case_prod_unfold)

text \<open>C19: Noise before and between frames: let every piece of it be such that the magic does not begin in it, also not
  across its end. Then, however the stream is cut, the extractor hands over every frame sent, each one
  intact and in order, and what follows the last frame is treated as if it came first. (The condition is needed:
  a false header in the noise takes the bytes that its length field asks for, see
  \<open>false_header_swallows_frame\<close>.)\<close>

theorem resynchronises_after_noise:
  assumes "\<forall>(noise, f, bs) \<in> set parts. no_false_magic noise \<and> encodeFrame f = Inr bs"
    and "concat chunks = concat (map (\<lambda>(noise, f, bs). noise @ bs) parts) @ rest"
  shows "feed_all empty_extractor chunks =
      map_option (\<lambda>(e, frames). (e, map (\<lambda>(noise, f, bs). bs) parts @ frames)) (feed_all empty_extractor [rest]) \<and>
    (\<forall>(noise, f, bs) \<in> set parts. decodeFrame bs = Some (Inr f))"
proof -
  have "feed_all empty_extractor chunks =
      map_option (\<lambda>(e, frames). (e, map (\<lambda>(noise, f, bs). bs) parts @ frames)) (feed_all empty_extractor [rest])"
    unfolding feed_all_empty assms(2) feed_def
    by (cases "feed_loop rest []") (auto simp: empty_extractor_def feed_loop_noisy_frames [OF assms(1)])
  moreover have "\<forall>(noise, f, bs) \<in> set parts. decodeFrame bs = Some (Inr f)"
    using assms(1) by (auto simp: encodeFrame_eq decode_encode split: if_splits)
  ultimately show ?thesis by blast
qed

theorem resynchronises_after_noise_witness:
  "feed_all empty_extractor [[0x53, 0x54], 0x53 # take 9 (frame_bytes sample_frame), drop 9 (frame_bytes sample_frame) @ [0x47], frame_bytes sample_frame] =
    map_option (\<lambda>(e, frames). (e, [frame_bytes sample_frame, frame_bytes sample_frame] @ frames)) (feed_all empty_extractor [[]])"
proof -
  have "no_false_magic [0x53, 0x54, 0x53]" "no_false_magic [0x47]" by code_simp+
  then have "\<forall>(noise, f, bs) \<in> set [([0x53, 0x54, 0x53], sample_frame, frame_bytes sample_frame), ([0x47], sample_frame, frame_bytes sample_frame)].
      no_false_magic noise \<and> encodeFrame f = Inr bs" by (simp add: encodeFrame_eq sample_frame_valid)
  from resynchronises_after_noise [OF this, where rest = "[]" and
      chunks = "[[0x53, 0x54], 0x53 # take 9 (frame_bytes sample_frame), drop 9 (frame_bytes sample_frame) @ [0x47], frame_bytes sample_frame]"]
  show ?thesis by simp
qed

text \<open>A false header: 23 bytes of noise that look like the header of a frame with 25 bytes of payload take a whole
  frame with them.\<close>

definition false_header :: ByteVector where
  "false_header = magicBytes @ replicate 17 0 @ [0, 25]"

lemma false_header_swallows_frame:
  "feed_all empty_extractor [false_header @ frame_bytes sample_frame] =
     Some (empty_extractor, [false_header @ frame_bytes sample_frame])"
proof -
  let ?buf = "false_header @ frame_bytes sample_frame"
  have len: "length ?buf = 52" by (simp add: false_header_def magicBytes_eq length_be32 length_frame_bytes sample_frame_def)
  have found: "search magicBytes ?buf = Some 0" unfolding false_header_def append_assoc by (rule search_prefix)
  have "readU16BE false_header 21 = Some 25" by code_simp
  then have "readU16BE ?buf 21 = Some 25" using u16.read_prefix [of 21 false_header "frame_bytes sample_frame"] by (simp add: false_header_def magicBytes_eq length_be32)
  from feed_loop_reads [OF found _ this] len have "feed_loop ?buf [] = feed_loop [] [?buf]" by simp
  also have "\<dots> = Some ([], [?buf])" by (simp add: feed_loop_None magicBytes_eq be32_def)
  finally show ?thesis by (simp add: feed_def empty_extractor_def)
qed

end
