(* ===== verification/App_Payload.thy ===== *)
theory App_Payload
  imports Stream_Extractor
begin

text \<open>
  Model of \<open>include/stgs/ApplicationPayload.hpp\<close> and \<open>src/ApplicationPayload.cpp\<close>: the
  STGA envelope that a telemetry payload may carry (text message or signal block). The C++
  variant \<open>ApplicationPayloadParseResult\<close> is a datatype; \<open>None\<close> is undefined behaviour.

  The lemmas show that the two encoders and the decoder are inverse to each other on payloads
  that fit a frame, that decoding is defined on every input, and when a payload stays opaque.
\<close>

section \<open>Wire layout\<close>

definition ApplicationPayloadMagic :: u32 where
  "ApplicationPayloadMagic = 0x53544741"

definition ApplicationPayloadVersion :: u8 where
  "ApplicationPayloadVersion = 1"

definition ApplicationCommonHeaderSize :: nat where [wire_simps]:
  "ApplicationCommonHeaderSize = U32WireSize + U8WireSize + U8WireSize"

definition TextMessageFixedWireSize :: nat where [wire_simps]:
  "TextMessageFixedWireSize = ApplicationCommonHeaderSize + U32WireSize"

definition SignalBlockFixedWireSize :: nat where [wire_simps]:
  "SignalBlockFixedWireSize = ApplicationCommonHeaderSize + U16WireSize + Float32WireSize +
     Float32WireSize + U32WireSize + U16WireSize"

definition SignalSampleWireSize :: nat where [wire_simps]:
  "SignalSampleWireSize = Float32WireSize"

definition MaxTextMessageBytes :: nat where [wire_simps]:
  "MaxTextMessageBytes = MaxPayloadSize - TextMessageFixedWireSize"

definition MaxSignalSamplesPerPayload :: nat where [wire_simps]:
  "MaxSignalSamplesPerPayload = (MaxPayloadSize - SignalBlockFixedWireSize) div SignalSampleWireSize"

definition AppMagicOffset :: nat where [wire_simps]: "AppMagicOffset = 0"
definition AppVersionOffset :: nat where [wire_simps]: "AppVersionOffset = AppMagicOffset + U32WireSize"
definition AppKindOffset :: nat where [wire_simps]: "AppKindOffset = AppVersionOffset + U8WireSize"

definition TextSequenceOffset :: nat where [wire_simps]: "TextSequenceOffset = ApplicationCommonHeaderSize"
definition TextBodyOffset :: nat where [wire_simps]: "TextBodyOffset = TextSequenceOffset + U32WireSize"

definition SignalSampleRateOffset :: nat where [wire_simps]: "SignalSampleRateOffset = ApplicationCommonHeaderSize"
definition SignalFrequencyOffset :: nat where [wire_simps]: "SignalFrequencyOffset = SignalSampleRateOffset + U16WireSize"
definition SignalAmplitudeOffset :: nat where [wire_simps]: "SignalAmplitudeOffset = SignalFrequencyOffset + Float32WireSize"
definition SignalStartIndexOffset :: nat where [wire_simps]: "SignalStartIndexOffset = SignalAmplitudeOffset + Float32WireSize"
definition SignalSampleCountOffset :: nat where [wire_simps]: "SignalSampleCountOffset = SignalStartIndexOffset + U32WireSize"
definition SignalSamplesOffset :: nat where [wire_simps]: "SignalSamplesOffset = SignalSampleCountOffset + U16WireSize"

text \<open>The four \<open>static_assert\<close>s.\<close>

lemma app_static_asserts:
  "ApplicationCommonHeaderSize = 6" "SignalBlockFixedWireSize = 22"
  "TextBodyOffset = TextMessageFixedWireSize" "SignalSamplesOffset = SignalBlockFixedWireSize"
  by (simp_all add: wire_simps)

section \<open>Data\<close>

type_synonym ApplicationPayloadKind = u8

definition Kind_TextMessage :: ApplicationPayloadKind where "Kind_TextMessage = 1"
definition Kind_SignalBlock :: ApplicationPayloadKind where "Kind_SignalBlock = 2"

record TextMessagePayload =
  sequence :: u32
  message_text :: string

record SignalBlockPayload =
  sampleRateHz :: u16
  frequencyHz :: float32
  nominalAmplitude :: float32
  startSampleIndex :: u32
  samples :: "float32 list"

datatype ApplicationPayloadErrorCode = App_TruncatedHeader | App_UnsupportedVersion | App_UnknownKind
  | App_InvalidLength | App_InvalidSignalMetadata

record ApplicationPayloadError =
  app_code :: ApplicationPayloadErrorCode
  app_message :: string

datatype ApplicationPayloadParseResult = Opaque_payload | Text_payload TextMessagePayload
  | Signal_payload SignalBlockPayload | Payload_error ApplicationPayloadError

definition app_makeError :: "ApplicationPayloadErrorCode \<Rightarrow> string \<Rightarrow> ApplicationPayloadError" where
  "app_makeError c m = \<lparr>app_code = c, app_message = m\<rparr>"

definition applicationPayloadKindToString :: "ApplicationPayloadKind \<Rightarrow> string" where
  "applicationPayloadKindToString kind =
     (if kind = Kind_TextMessage then ''TEXT_MESSAGE''
      else if kind = Kind_SignalBlock then ''SIGNAL_BLOCK''
      else ''UNKNOWN'')"

fun applicationPayloadErrorToString :: "ApplicationPayloadErrorCode \<Rightarrow> string" where
  "applicationPayloadErrorToString App_TruncatedHeader = ''TruncatedHeader''"
| "applicationPayloadErrorToString App_UnsupportedVersion = ''UnsupportedVersion''"
| "applicationPayloadErrorToString App_UnknownKind = ''UnknownKind''"
| "applicationPayloadErrorToString App_InvalidLength = ''InvalidLength''"
| "applicationPayloadErrorToString App_InvalidSignalMetadata = ''InvalidSignalMetadata''"

section \<open>Encoding\<close>

definition appendCommonHeader :: "ByteVector \<Rightarrow> ApplicationPayloadKind \<Rightarrow> ByteVector" where
  "appendCommonHeader out kind =
     appendU8 (appendU8 (appendU32BE out ApplicationPayloadMagic) ApplicationPayloadVersion) kind"

text \<open>The Nyquist frequency \<open>sampleRateHz / 2.0F\<close> is exact in single precision; in units of
  \<open>2 ^ -150\<close> it is \<open>sampleRateHz * 2 ^ 149\<close>.\<close>

definition validSignalMetadata :: "u16 \<Rightarrow> float32 \<Rightarrow> float32 \<Rightarrow> bool" where
  "validSignalMetadata rate freq amp =
     (if rate = 0 \<or> \<not> isfinite freq \<or> \<not> isfinite amp then False
      else let nyquistHz = int (unat rate) * 2 ^ 149
           in f32_greater freq 0 \<and> f32_less freq nyquistHz \<and> f32_ge amp 0)"

definition encodeTextMessagePayload :: "TextMessagePayload \<Rightarrow> ByteVector result" where
  "encodeTextMessagePayload m =
     (if length (message_text m) > MaxTextMessageBytes then
        Inl (invalid_argument ''text message exceeds STGS application payload capacity'')
      else
        let pl = appendCommonHeader [] Kind_TextMessage;
            pl = appendU32BE pl (sequence m)
        in Inr (pl @ map byte_of_char (message_text m)))"

definition encodeSignalBlockPayload :: "SignalBlockPayload \<Rightarrow> ByteVector result" where
  "encodeSignalBlockPayload s =
     (if \<not> validSignalMetadata (sampleRateHz s) (frequencyHz s) (nominalAmplitude s) then
        Inl (invalid_argument
          ''signal metadata requires finite amplitude, sampleRate > 0 and 0 < frequency < Nyquist'')
      else if length (samples s) > MaxSignalSamplesPerPayload \<or> length (samples s) > 65535 then
        Inl (invalid_argument ''signal block contains too many samples for one STGS payload'')
      else if list_ex (\<lambda>x. \<not> isfinite x) (samples s) then
        Inl (invalid_argument ''signal samples must all be finite'')
      else
        let pl = appendCommonHeader [] Kind_SignalBlock;
            pl = appendU16BE pl (sampleRateHz s);
            pl = appendFloatBE pl (frequencyHz s);
            pl = appendFloatBE pl (nominalAmplitude s);
            pl = appendU32BE pl (startSampleIndex s);
            pl = appendU16BE pl (of_nat (length (samples s)))
        in Inr (foldl appendFloatBE pl (samples s)))"

section \<open>Decoding\<close>

definition hasApplicationMagic :: "ByteVector \<Rightarrow> bool option" where
  "hasApplicationMagic pl =
     (if length pl \<ge> U32WireSize
      then map_option (\<lambda>m. m = ApplicationPayloadMagic) (readU32BE pl AppMagicOffset)
      else Some False)"

text \<open>The loop over the samples, from index \<open>i\<close>.\<close>

function decode_samples ::
    "ByteVector \<Rightarrow> nat \<Rightarrow> nat \<Rightarrow> float32 list \<Rightarrow> (ApplicationPayloadError + float32 list) option" where
  "decode_samples pl sampleCount i acc =
     (if i < sampleCount then
        case readFloatBE pl (SignalSamplesOffset + i * SignalSampleWireSize) of
          None \<Rightarrow> None
        | Some sample \<Rightarrow>
            if \<not> isfinite sample then
              Some (Inl (app_makeError App_InvalidSignalMetadata ''signal payload contains a non-finite sample''))
            else decode_samples pl sampleCount (Suc i) (acc @ [sample])
      else Some (Inr acc))"
  by pat_completeness auto
termination
  by (relation "measure (\<lambda>(pl, sampleCount, i, acc). sampleCount - i)") auto

declare decode_samples.simps [simp del]

definition decodeApplicationPayload :: "ByteVector \<Rightarrow> ApplicationPayloadParseResult option" where
  "decodeApplicationPayload pl = do {
     magic \<leftarrow> hasApplicationMagic pl;
     if \<not> magic then Some Opaque_payload
     else if length pl < ApplicationCommonHeaderSize then
       Some (Payload_error (app_makeError App_TruncatedHeader
         ''STGA signature is present but the common header is truncated''))
     else do {
     ver \<leftarrow> at_ub pl AppVersionOffset;
     if ver \<noteq> ApplicationPayloadVersion then
       Some (Payload_error (app_makeError App_UnsupportedVersion ''unsupported STGA application payload version''))
     else do {
     rawKind \<leftarrow> at_ub pl AppKindOffset;
     if rawKind = Kind_TextMessage then
       if length pl < TextBodyOffset then
         Some (Payload_error (app_makeError App_InvalidLength ''text message payload is shorter than its fixed header''))
       else do {
         sq \<leftarrow> readU32BE pl TextSequenceOffset;
         body \<leftarrow> range_ub pl TextBodyOffset (TextBodyOffset + (length pl - TextBodyOffset));
         Some (Text_payload \<lparr>sequence = sq, message_text = map char_of_byte body\<rparr>)
       }
     else if rawKind = Kind_SignalBlock then
       if length pl < SignalSamplesOffset then
         Some (Payload_error (app_makeError App_InvalidLength ''signal payload is shorter than its fixed header''))
       else do {
         rate \<leftarrow> readU16BE pl SignalSampleRateOffset;
         freq \<leftarrow> readFloatBE pl SignalFrequencyOffset;
         amp \<leftarrow> readFloatBE pl SignalAmplitudeOffset;
         start \<leftarrow> readU32BE pl SignalStartIndexOffset;
         sampleCount \<leftarrow> readU16BE pl SignalSampleCountOffset;
         let expectedSize = SignalSamplesOffset + unat sampleCount * SignalSampleWireSize in
         if length pl \<noteq> expectedSize then
           Some (Payload_error (app_makeError App_InvalidLength ''signal sample count does not match the payload length''))
         else if \<not> validSignalMetadata rate freq amp then
           Some (Payload_error (app_makeError App_InvalidSignalMetadata
             ''signal metadata requires finite amplitude, sampleRate > 0 and 0 < frequency < Nyquist''))
         else do {
           r \<leftarrow> decode_samples pl (unat sampleCount) 0 [];
           (case r of
              Inl e \<Rightarrow> Some (Payload_error e)
            | Inr xs \<Rightarrow> Some (Signal_payload \<lparr>sampleRateHz = rate, frequencyHz = freq,
                nominalAmplitude = amp, startSampleIndex = start, samples = xs\<rparr>))
         }
       }
     else Some (Payload_error (app_makeError App_UnknownKind ''unknown STGA application payload kind''))
   }}}"

section \<open>Layout of the encodings\<close>

definition app_header :: "ApplicationPayloadKind \<Rightarrow> ByteVector" where
  "app_header kind = be32 ApplicationPayloadMagic @ [ApplicationPayloadVersion, kind]"

definition text_bytes :: "TextMessagePayload \<Rightarrow> ByteVector" where
  "text_bytes m = app_header Kind_TextMessage @ be32 (sequence m) @ map byte_of_char (message_text m)"

definition signal_header :: "SignalBlockPayload \<Rightarrow> ByteVector" where
  "signal_header s =
     app_header Kind_SignalBlock @ be16 (sampleRateHz s) @ be32 (frequencyHz s) @
     be32 (nominalAmplitude s) @ be32 (startSampleIndex s) @ be16 (of_nat (length (samples s)))"

definition signal_bytes :: "SignalBlockPayload \<Rightarrow> ByteVector" where
  "signal_bytes s = signal_header s @ concat (map be32 (samples s))"

definition signal_valid :: "SignalBlockPayload \<Rightarrow> bool" where
  "signal_valid s \<longleftrightarrow> validSignalMetadata (sampleRateHz s) (frequencyHz s) (nominalAmplitude s) \<and>
     length (samples s) \<le> 1018 \<and> list_all isfinite (samples s)"

lemma length_app_header [simp]: "length (app_header k) = 6"
  by (simp add: app_header_def)

lemma length_signal_header [simp]: "length (signal_header s) = 22"
  by (simp add: signal_header_def)

lemma length_concat_be32 [simp]: "length (concat (map be32 xs)) = 4 * length xs"
  by (induction xs) auto

lemma foldl_appendFloatBE: "foldl appendFloatBE pl xs = pl @ concat (map be32 xs)"
  by (induction xs arbitrary: pl) (simp_all add: codec_simps)

lemma encodeText_eq:
  "encodeTextMessagePayload m = Inr pl \<longleftrightarrow> length (message_text m) \<le> 4086 \<and> pl = text_bytes m"
  by (auto simp: encodeTextMessagePayload_def appendCommonHeader_def text_bytes_def app_header_def
      codec_simps wire_simps Let_def)

lemma encodeSignal_eq:
  "encodeSignalBlockPayload s = Inr pl \<longleftrightarrow> signal_valid s \<and> pl = signal_bytes s"
  by (auto simp: encodeSignalBlockPayload_def appendCommonHeader_def signal_bytes_def signal_header_def
      signal_valid_def app_header_def codec_simps wire_simps Let_def foldl_appendFloatBE
      list_ex_iff list_all_iff)

section \<open>The sample loop\<close>

lemma concat_be32_inject:
  "length xs = length ys \<Longrightarrow> concat (map be32 xs) = concat (map be32 ys) \<Longrightarrow> xs = ys"
proof (induction xs ys rule: list_induct2)
  case (Cons x xs y ys)
  then have "be32 x = be32 y" "concat (map be32 xs) = concat (map be32 ys)" by simp_all
  with Cons.IH show ?case by (auto dest: u32.enc_inject)
qed simp

text \<open>A buffer that holds exactly the announced samples is read to the end, or to the first
  sample that is not finite.\<close>

lemma decode_samples_spec:
  assumes "length pl = 22 + 4 * n" and "i \<le> n"
  shows "\<exists>xs. length xs = n - i \<and> drop (22 + 4 * i) pl = concat (map be32 xs) \<and>
    decode_samples pl n i acc =
      Some (if list_all isfinite xs then Inr (acc @ xs)
            else Inl (app_makeError App_InvalidSignalMetadata ''signal payload contains a non-finite sample''))"
  using assms
proof (induction "n - i" arbitrary: i acc)
  case 0
  then show ?case by (intro exI [of _ "[]"]) (simp add: decode_samples.simps)
next
  case (Suc k)
  then have i: "i < n" and k: "k = n - Suc i" by simp_all
  then have within: "22 + 4 * i + 4 \<le> length pl" using Suc.prems by simp
  then obtain x where x: "readFloatBE pl (22 + 4 * i) = Some x" using f32.read_defined by blast
  have front: "drop (22 + 4 * i) pl = be32 x @ drop (22 + 4 * Suc i) pl"
    using f32.drop_read [OF x] by (simp add: algebra_simps)
  obtain xs where xs: "length xs = n - Suc i" "drop (22 + 4 * Suc i) pl = concat (map be32 xs)"
    "decode_samples pl n (Suc i) (acc @ [x]) =
      Some (if list_all isfinite xs then Inr ((acc @ [x]) @ xs)
            else Inl (app_makeError App_InvalidSignalMetadata ''signal payload contains a non-finite sample''))"
    using Suc.hyps(1) [OF k Suc.prems(1), of "acc @ [x]"] i by auto
  have "decode_samples pl n i acc =
    (if \<not> isfinite x
     then Some (Inl (app_makeError App_InvalidSignalMetadata ''signal payload contains a non-finite sample''))
     else decode_samples pl n (Suc i) (acc @ [x]))"
    using i x by (subst decode_samples.simps) (simp add: wire_simps mult.commute)
  with front xs i show ?case by (intro exI [of _ "x # xs"]) auto
qed

section \<open>Decoding and encoding are inverse\<close>

lemma magic_app_header: "hasApplicationMagic (app_header k @ rest) = Some True"
  using u32.read_enc [of "[]" ApplicationPayloadMagic]
  by (simp add: hasApplicationMagic_def app_header_def wire_simps)

lemma hasApplicationMagic_eq:
  "hasApplicationMagic pl = Some (take 4 pl = be32 ApplicationPayloadMagic)"
proof (cases "4 \<le> length pl")
  case True
  then obtain v where "readU32BE pl 0 = Some v" "be32 v = take 4 pl"
    using u32.read_within [of 0 pl] by auto
  moreover from this have "(v = ApplicationPayloadMagic) = (take 4 pl = be32 ApplicationPayloadMagic)"
    using u32.enc_inject [of v ApplicationPayloadMagic] by auto
  ultimately show ?thesis using True by (simp add: hasApplicationMagic_def wire_simps)
next
  case False
  then have "length (take 4 pl) \<noteq> length (be32 ApplicationPayloadMagic)" by simp
  with False show ?thesis by (auto simp: hasApplicationMagic_def wire_simps)
qed

lemma app_header_reads:
  "(app_header k @ rest) ! 4 = ApplicationPayloadVersion" "(app_header k @ rest) ! 5 = k"
  by (simp_all add: app_header_def nth_append)

text \<open>Which payloads are neither opaque nor rejected for their header.\<close>

lemma app_header_split:
  assumes "take 4 pl = be32 ApplicationPayloadMagic" and "6 \<le> length pl"
    and "at_ub pl AppVersionOffset = Some ApplicationPayloadVersion" and "at_ub pl AppKindOffset = Some k"
  shows "pl = app_header k @ drop 6 pl"
proof -
  have "pl = take 4 pl @ drop 4 pl" by simp
  moreover have "drop 4 pl = ApplicationPayloadVersion # drop 5 pl"
    using drop_at_ub [OF assms(3)] by (simp add: wire_simps)
  moreover have "drop 5 pl = k # drop 6 pl"
    using drop_at_ub [OF assms(4)] by (simp add: wire_simps)
  ultimately show ?thesis using assms(1) by (simp add: app_header_def)
qed

lemma decode_header_cases:
  obtains (no_header) "decodeApplicationPayload pl = Some Opaque_payload" "take 4 pl \<noteq> be32 ApplicationPayloadMagic"
  | (bad_header) e where "decodeApplicationPayload pl = Some (Payload_error e)" "take 4 pl = be32 ApplicationPayloadMagic"
  | (header) k rest where "pl = app_header k @ rest"
proof (cases "take 4 pl = be32 ApplicationPayloadMagic \<and> 6 \<le> length pl \<and>
    at_ub pl AppVersionOffset = Some ApplicationPayloadVersion")
  case True
  then obtain k where "at_ub pl AppKindOffset = Some k" by (simp add: at_ub_def wire_simps)
  with True app_header_split header show ?thesis by blast
next
  case False
  then show ?thesis
    using no_header bad_header
    by (cases "take 4 pl = be32 ApplicationPayloadMagic"; cases "6 \<le> length pl")
      (auto simp: decodeApplicationPayload_def hasApplicationMagic_eq at_ub_def wire_simps)
qed

lemma decode_text_short:
  "length rest < 4 \<Longrightarrow> \<exists>e. decodeApplicationPayload (app_header Kind_TextMessage @ rest) = Some (Payload_error e)"
  by (simp add: decodeApplicationPayload_def magic_app_header app_header_reads wire_simps)

lemma decode_text_body:
  "decodeApplicationPayload (app_header Kind_TextMessage @ be32 sq @ body) =
     Some (Text_payload \<lparr>sequence = sq, message_text = map char_of_byte body\<rparr>)"
  using u32.read_enc [of "app_header Kind_TextMessage" sq body]
  by (simp add: decodeApplicationPayload_def magic_app_header app_header_reads wire_simps)

lemma split_be32: "4 \<le> length rest \<Longrightarrow> \<exists>v body. rest = be32 v @ body"
  using u32.read_defined [of 0 rest] u32.drop_read [of rest 0] by auto

lemma split_be16: "2 \<le> length rest \<Longrightarrow> \<exists>v body. rest = be16 v @ body"
  using u16.read_defined [of 0 rest] u16.drop_read [of rest 0] by auto

definition signal_fields :: "u16 \<Rightarrow> float32 \<Rightarrow> float32 \<Rightarrow> u32 \<Rightarrow> u16 \<Rightarrow> ByteVector" where
  "signal_fields rate freq amp start count =
     be16 rate @ be32 freq @ be32 amp @ be32 start @ be16 count"

lemma split_signal_fields:
  assumes "16 \<le> length rest"
  shows "\<exists>rate freq amp start count body. rest = signal_fields rate freq amp start count @ body"
proof -
  from assms split_be16 obtain rate r1 where r1: "rest = be16 rate @ r1" by fastforce
  with assms split_be32 obtain freq r2 where r2: "r1 = be32 freq @ r2" by fastforce
  with r1 assms split_be32 obtain amp r3 where r3: "r2 = be32 amp @ r3" by fastforce
  with r1 r2 assms split_be32 obtain start r4 where r4: "r3 = be32 start @ r4" by fastforce
  with r1 r2 r3 assms split_be16 obtain count body where "r4 = be16 count @ body" by fastforce
  with r1 r2 r3 r4 show ?thesis by (auto simp: signal_fields_def)
qed

lemma signal_fields_reads:
  fixes rate freq amp start count body
  defines "pl \<equiv> app_header Kind_SignalBlock @ signal_fields rate freq amp start count @ body"
  shows "readU16BE pl 6 = Some rate" "readFloatBE pl 8 = Some freq" "readFloatBE pl 12 = Some amp"
    "readU32BE pl 16 = Some start" "readU16BE pl 20 = Some count"
proof -
  let ?h = "app_header Kind_SignalBlock"
  show "readU16BE pl 6 = Some rate"
    using u16.read_enc [of ?h rate] by (simp add: pl_def signal_fields_def)
  show "readFloatBE pl 8 = Some freq"
    using f32.read_enc [of "?h @ be16 rate" freq] by (simp add: pl_def signal_fields_def)
  show "readFloatBE pl 12 = Some amp"
    using f32.read_enc [of "?h @ be16 rate @ be32 freq" amp] by (simp add: pl_def signal_fields_def)
  show "readU32BE pl 16 = Some start"
    using u32.read_enc [of "?h @ be16 rate @ be32 freq @ be32 amp" start]
    by (simp add: pl_def signal_fields_def)
  show "readU16BE pl 20 = Some count"
    using u16.read_enc [of "?h @ be16 rate @ be32 freq @ be32 amp @ be32 start" count]
    by (simp add: pl_def signal_fields_def)
qed

lemma length_signal_fields [simp]: "length (signal_fields rate freq amp start count) = 16"
  by (simp add: signal_fields_def)

lemma decode_signal_short:
  "length rest < 16 \<Longrightarrow> \<exists>e. decodeApplicationPayload (app_header Kind_SignalBlock @ rest) = Some (Payload_error e)"
  by (simp add: decodeApplicationPayload_def magic_app_header app_header_reads wire_simps
      Kind_TextMessage_def Kind_SignalBlock_def)

lemma decode_signal_body:
  "decodeApplicationPayload (app_header Kind_SignalBlock @ signal_fields rate freq amp start count @ body) =
     (if length body \<noteq> 4 * unat count then
        Some (Payload_error (app_makeError App_InvalidLength ''signal sample count does not match the payload length''))
      else if \<not> validSignalMetadata rate freq amp then
        Some (Payload_error (app_makeError App_InvalidSignalMetadata
          ''signal metadata requires finite amplitude, sampleRate > 0 and 0 < frequency < Nyquist''))
      else map_option (\<lambda>r. case r of Inl e \<Rightarrow> Payload_error e
          | Inr xs \<Rightarrow> Signal_payload \<lparr>sampleRateHz = rate, frequencyHz = freq,
              nominalAmplitude = amp, startSampleIndex = start, samples = xs\<rparr>)
        (decode_samples (app_header Kind_SignalBlock @ signal_fields rate freq amp start count @ body)
          (unat count) 0 []))"
  using signal_fields_reads [of rate freq amp start count body]
  by (simp add: decodeApplicationPayload_def magic_app_header app_header_reads wire_simps Let_def
      Kind_TextMessage_def Kind_SignalBlock_def map_option_case mult.commute
      split: option.split sum.split)

lemma decode_text_iff: "decodeApplicationPayload pl = Some (Text_payload m) \<longleftrightarrow> pl = text_bytes m"
proof
  assume "pl = text_bytes m"
  then show "decodeApplicationPayload pl = Some (Text_payload m)"
    by (simp add: text_bytes_def decode_text_body comp_def)
next
  assume dec: "decodeApplicationPayload pl = Some (Text_payload m)"
  then obtain k rest where pl: "pl = app_header k @ rest"
    by (cases pl rule: decode_header_cases) auto
  have k: "k = Kind_TextMessage"
  proof (rule ccontr)
    assume "k \<noteq> Kind_TextMessage"
    with dec show False
      by (auto simp: pl decodeApplicationPayload_def magic_app_header app_header_reads wire_simps Let_def
          split: if_splits Option.bind_splits sum.splits)
  qed
  have "4 \<le> length rest" using dec decode_text_short [of rest] by (fastforce simp: pl k not_le [symmetric])
  then obtain sq body where "rest = be32 sq @ body" using split_be32 by blast
  with dec show "pl = text_bytes m"
    by (auto simp: pl k decode_text_body text_bytes_def comp_def)
qed

lemma decode_signal_count:
  assumes "length body = 4 * unat count"
  shows "\<exists>xs. length xs = unat count \<and> body = concat (map be32 xs) \<and>
    decode_samples (app_header Kind_SignalBlock @ signal_fields rate freq amp start count @ body) (unat count) 0 [] =
      Some (if list_all isfinite xs then Inr xs
            else Inl (app_makeError App_InvalidSignalMetadata ''signal payload contains a non-finite sample''))"
  using decode_samples_spec [of "app_header Kind_SignalBlock @ signal_fields rate freq amp start count @ body"
      "unat count" 0 "[]"] assms by (simp cong: if_cong split del: if_split)

lemma signal_bytes_fields:
  "signal_bytes s = app_header Kind_SignalBlock @ signal_fields (sampleRateHz s) (frequencyHz s)
     (nominalAmplitude s) (startSampleIndex s) (of_nat (length (samples s))) @ concat (map be32 (samples s))"
  by (simp add: signal_bytes_def signal_header_def signal_fields_def)

lemma decode_signal_bytes:
  assumes "validSignalMetadata (sampleRateHz s) (frequencyHz s) (nominalAmplitude s)"
    and "length (samples s) < 65536" and "list_all isfinite (samples s)"
  shows "decodeApplicationPayload (signal_bytes s) = Some (Signal_payload s)"
proof -
  let ?n = "of_nat (length (samples s)) :: u16" and ?body = "concat (map be32 (samples s))"
  have n: "unat ?n = length (samples s)" using assms(2) by (simp add: unat_of_nat)
  then have len: "length ?body = 4 * unat ?n" by simp
  from decode_signal_count [OF len] obtain xs where xs: "length xs = unat ?n" "?body = concat (map be32 xs)"
    "decode_samples (signal_bytes s) (unat ?n) 0 [] =
      Some (if list_all isfinite xs then Inr xs
            else Inl (app_makeError App_InvalidSignalMetadata ''signal payload contains a non-finite sample''))"
    unfolding signal_bytes_fields by blast
  then have "xs = samples s" using concat_be32_inject [of xs "samples s"] n by simp
  with xs assms len show ?thesis
    unfolding signal_bytes_fields decode_signal_body by (simp add: n)
qed

lemma decode_signal_iff:
  "decodeApplicationPayload pl = Some (Signal_payload s) \<longleftrightarrow>
     pl = signal_bytes s \<and> validSignalMetadata (sampleRateHz s) (frequencyHz s) (nominalAmplitude s) \<and>
     length (samples s) < 65536 \<and> list_all isfinite (samples s)"
proof
  assume dec: "decodeApplicationPayload pl = Some (Signal_payload s)"
  then obtain k rest where pl: "pl = app_header k @ rest"
    by (cases pl rule: decode_header_cases) auto
  have k: "k = Kind_SignalBlock"
  proof (rule ccontr)
    assume "k \<noteq> Kind_SignalBlock"
    with dec show False
      by (auto simp: pl decodeApplicationPayload_def magic_app_header app_header_reads wire_simps Let_def
          split: if_splits Option.bind_splits sum.splits)
  qed
  have "16 \<le> length rest" using dec decode_signal_short [of rest] by (fastforce simp: pl k not_le [symmetric])
  then obtain rate freq amp start count body where
    rest: "rest = signal_fields rate freq amp start count @ body" using split_signal_fields by blast
  have len: "length body = 4 * unat count" and meta: "validSignalMetadata rate freq amp"
    using dec unfolding pl k rest decode_signal_body by (auto split: if_splits)
  from decode_signal_count [OF len] obtain xs where xs: "length xs = unat count" "body = concat (map be32 xs)"
    "decode_samples (app_header Kind_SignalBlock @ signal_fields rate freq amp start count @ body) (unat count) 0 [] =
      Some (if list_all isfinite xs then Inr xs
            else Inl (app_makeError App_InvalidSignalMetadata ''signal payload contains a non-finite sample''))"
    by blast
  have s: "s = \<lparr>sampleRateHz = rate, frequencyHz = freq, nominalAmplitude = amp,
      startSampleIndex = start, samples = xs\<rparr>" and fin: "list_all isfinite xs"
    using dec len meta unfolding pl k rest decode_signal_body xs(3) by (auto split: if_splits)
  have "count = of_nat (length xs)" "length xs < 65536"
    using unsigned_less [of count] xs(1) by simp_all
  with s fin meta show "pl = signal_bytes s \<and> validSignalMetadata (sampleRateHz s) (frequencyHz s) (nominalAmplitude s) \<and>
     length (samples s) < 65536 \<and> list_all isfinite (samples s)"
    by (simp add: pl k rest signal_bytes_fields xs(2))
qed (use decode_signal_bytes in blast)

lemma decode_app_defined: "\<exists>r. decodeApplicationPayload pl = Some r"
proof (cases pl rule: decode_header_cases)
  case (header k rest)
  consider "k = Kind_TextMessage" | "k = Kind_SignalBlock" | "k \<noteq> Kind_TextMessage" "k \<noteq> Kind_SignalBlock"
    by blast
  then show ?thesis
  proof cases
    case 1
    then show ?thesis
      using header decode_text_short [of rest] split_be32 [of rest] decode_text_body by (metis not_less)
  next
    case 2
    show ?thesis
    proof (cases "length rest < 16")
      case True
      with 2 header decode_signal_short show ?thesis by blast
    next
      case False
      then obtain rate freq amp start count body where
        "rest = signal_fields rate freq amp start count @ body" using split_signal_fields [of rest] by auto
      moreover have "\<exists>r. decode_samples (app_header Kind_SignalBlock @ signal_fields rate freq amp start count @ body)
          (unat count) 0 [] = Some r" if "length body = 4 * unat count"
        using decode_signal_count [OF that] by blast
      ultimately show ?thesis
        unfolding header 2 by (auto simp: decode_signal_body)
    qed
  next
    case 3
    then show ?thesis
      by (simp add: header decodeApplicationPayload_def magic_app_header app_header_reads wire_simps)
  qed
qed blast+

lemma decode_opaque_iff:
  "decodeApplicationPayload pl = Some Opaque_payload \<longleftrightarrow> take 4 pl \<noteq> be32 ApplicationPayloadMagic"
  by (auto simp: decodeApplicationPayload_def hasApplicationMagic_eq Let_def
      split: if_splits Option.bind_splits sum.splits)

lemma length_text_bytes: "length (text_bytes m) = 10 + length (message_text m)"
  by (simp add: text_bytes_def)

lemma length_signal_bytes: "length (signal_bytes s) = 22 + 4 * length (samples s)"
  by (simp add: signal_bytes_def)

section \<open>Properties\<close>

text \<open>C15: for a payload that fits a frame, \<open>decodeApplicationPayload\<close> returns the text
  message \<open>m\<close> exactly when \<open>encodeTextMessagePayload m\<close> produces that payload, and the
  signal block \<open>s\<close> exactly when \<open>encodeSignalBlockPayload s\<close> produces it.\<close>

theorem app_payload_bijection:
  assumes "length pl \<le> MaxPayloadSize"
  shows "(decodeApplicationPayload pl = Some (Text_payload m) \<longleftrightarrow> encodeTextMessagePayload m = Inr pl) \<and>
    (decodeApplicationPayload pl = Some (Signal_payload s) \<longleftrightarrow> encodeSignalBlockPayload s = Inr pl)"
  using assms length_text_bytes [of m] length_signal_bytes [of s]
  by (auto simp: decode_text_iff encodeText_eq decode_signal_iff encodeSignal_eq signal_valid_def wire_simps)

theorem app_payload_bijection_witness:
  "(decodeApplicationPayload [0x53, 0x54, 0x47, 0x41, 1, 1, 0, 0, 0, 7, 0x41] = Some (Text_payload \<lparr>sequence = 7, message_text = ''A''\<rparr>)
     \<longleftrightarrow> encodeTextMessagePayload \<lparr>sequence = 7, message_text = ''A''\<rparr> = Inr [0x53, 0x54, 0x47, 0x41, 1, 1, 0, 0, 0, 7, 0x41]) \<and>
   (decodeApplicationPayload [0x53, 0x54, 0x47, 0x41, 1, 1, 0, 0, 0, 7, 0x41] = Some (Signal_payload
       \<lparr>sampleRateHz = 8, frequencyHz = 0, nominalAmplitude = 0, startSampleIndex = 0, samples = []\<rparr>)
     \<longleftrightarrow> encodeSignalBlockPayload \<lparr>sampleRateHz = 8, frequencyHz = 0, nominalAmplitude = 0, startSampleIndex = 0, samples = []\<rparr>
       = Inr [0x53, 0x54, 0x47, 0x41, 1, 1, 0, 0, 0, 7, 0x41])"
  by (rule app_payload_bijection) (simp add: wire_simps)

text \<open>\<open>decodeApplicationPayload\<close> returns on every payload without leaving the buffer, and
  it calls a payload opaque (\<open>std::monostate\<close>) exactly when it does not start with the STGA
  magic: a payload with the magic is either decoded or reported as an error, never silently
  treated as opaque.\<close>

theorem app_payload_classification:
  "(\<exists>r. decodeApplicationPayload pl = Some r) \<and>
   (decodeApplicationPayload pl = Some Opaque_payload \<longleftrightarrow> take 4 pl \<noteq> be32 ApplicationPayloadMagic)"
  by (simp add: decode_app_defined decode_opaque_iff)

end
