(* ===== verification/Float64.thy ===== *)
theory Float64
  imports Complex_Main Float32
begin

text \<open>
  The \<open>double\<close> values the station computes with: NaN, the infinities and finite values as
  rationals, the C++ comparisons (false on NaN), the correctly rounded quotient of two counts,
  and the default \<open>std::ostream\<close> output (six significant digits).
\<close>

datatype double = NaN | PosInf | NegInf | Fin rat

fun d_less :: "double \<Rightarrow> double \<Rightarrow> bool" where
  "d_less NaN y = False"
| "d_less x NaN = False"
| "d_less PosInf y = False"
| "d_less x NegInf = False"
| "d_less NegInf y = True"
| "d_less x PosInf = True"
| "d_less (Fin x) (Fin y) = (x < y)"

definition d_le :: "double \<Rightarrow> double \<Rightarrow> bool" where
  "d_le x y \<longleftrightarrow> d_less x y \<or> (x = y \<and> x \<noteq> NaN)"

definition d_finite :: "double \<Rightarrow> bool" where
  "d_finite x = (case x of Fin _ \<Rightarrow> True | _ \<Rightarrow> False)"

lemma d_le_Fin [simp]: "d_le (Fin x) (Fin y) \<longleftrightarrow> x \<le> y"
  by (auto simp: d_le_def)

text \<open>\<open>\<not> x \<le> y\<close> is \<open>y < x\<close> except for NaN.\<close>

lemma d_le_less_trans: "d_le x y \<Longrightarrow> d_less y z \<Longrightarrow> d_less x z"
  by (cases x; cases y; cases z) (auto simp: d_le_def)

lemma d_less_le_trans: "d_less x y \<Longrightarrow> d_le y z \<Longrightarrow> d_less x z"
  by (cases x; cases y; cases z) (auto simp: d_le_def)

lemma d_less_irrefl: "\<not> d_less x x"
  by (cases x) auto

text \<open>The exponent that gives \<open>n / d\<close> (at most \<open>2 ^ 53\<close>) a 53-bit significand.\<close>

function norm_exp :: "nat \<Rightarrow> nat \<Rightarrow> nat \<Rightarrow> nat" where
  "norm_exp n d e = (if n = 0 \<or> 2 ^ 52 * d \<le> n * 2 ^ e then e else norm_exp n d (Suc e))"
  by pat_completeness auto
termination
  by (relation "measure (\<lambda>(n, d, e). 2 ^ 52 * d - n * 2 ^ e)") (auto simp: not_le intro!: diff_less_mono2)

declare norm_exp.simps [simp del]

text \<open>\<open>static_cast<double>(n) / static_cast<double>(d)\<close> for counts below \<open>2 ^ 53\<close>, rounded to
  nearest, ties to even.\<close>

definition ratio :: "nat \<Rightarrow> nat \<Rightarrow> rat" where
  "ratio n d =
     (if n = 0 then 0
      else let e = norm_exp n d 0 in of_nat (round_half_even (n * 2 ^ e) d) / of_nat (2 ^ e))"

lemma round_half_even_le: "n \<le> d * k \<Longrightarrow> 0 < d \<Longrightarrow> round_half_even n d \<le> k"
proof -
  assume n: "n \<le> d * k" and d: "0 < d"
  show ?thesis
  proof (cases "n div d = k")
    case True
    with n d have "n = d * k" by (metis div_mult_self1_is_m le_antisym mult_div_mod_eq le_add1)
    with d show ?thesis by (simp add: round_half_even_def)
  next
    case False
    with n d have "n div d < k" by (metis div_le_mono div_mult_self1_is_m le_neq_implies_less)
    then show ?thesis by (auto simp: round_half_even_def Let_def)
  qed
qed

lemma ratio_bounds: "n \<le> d \<Longrightarrow> 0 \<le> ratio n d \<and> ratio n d \<le> 1"
proof -
  assume n: "n \<le> d"
  show ?thesis
  proof (cases "n = 0")
    case False
    with n have d: "0 < d" by simp
    let ?e = "norm_exp n d 0"
    have "round_half_even (n * 2 ^ ?e) d \<le> 2 ^ ?e"
      using n d by (intro round_half_even_le) simp_all
    then have "(of_nat (round_half_even (n * 2 ^ ?e) d) :: rat) \<le> of_nat (2 ^ ?e)"
      by (rule of_nat_mono)
    then show ?thesis using False by (simp add: ratio_def Let_def)
  qed (simp add: ratio_def)
qed

section \<open>Default output of a \<open>double\<close>\<close>

text \<open>\<open>printf\<close>'s \<open>%g\<close> with precision \<open>p\<close> (at least one) for a non-negative rational \<open>q\<close>: the
  decimal exponent \<open>x\<close> of \<open>q\<close> rounded to \<open>p\<close> digits, found by stepping from a start value.\<close>

definition round_rat :: "rat \<Rightarrow> nat" where
  "round_rat q = (let (n, d) = quotient_of q in round_half_even (nat n) (nat d))"

fun strip_zeros :: "string \<Rightarrow> string" where
  "strip_zeros s = rev (dropWhile (\<lambda>c. c = CHR ''0'') (rev s))"

definition with_point :: "string \<Rightarrow> string \<Rightarrow> string" where
  "with_point a b = (let b = strip_zeros b in if b = [] then a else a @ ''.'' @ b)"

text \<open>Decimal exponent: the largest \<open>x \<ge> -k\<close> with \<open>10 ^ x \<le> q\<close> among the candidates.\<close>

fun dec_exp_down :: "nat \<Rightarrow> rat \<Rightarrow> int \<Rightarrow> int" where
  "dec_exp_down 0 q x = x"
| "dec_exp_down (Suc k) q x = (if q < 1 then dec_exp_down k (q * 10) (x - 1) else x)"

fun dec_exp_up :: "nat \<Rightarrow> rat \<Rightarrow> int \<Rightarrow> int" where
  "dec_exp_up 0 q x = x"
| "dec_exp_up (Suc k) q x = (if 10 \<le> q then dec_exp_up k (q / 10) (x + 1) else x)"

definition pow10 :: "int \<Rightarrow> rat" where
  "pow10 x = (if 0 \<le> x then 10 ^ nat x else 1 / 10 ^ nat (- x))"

definition show_g_pos :: "nat \<Rightarrow> rat \<Rightarrow> string" where
  "show_g_pos p q =
     (if q = 0 then ''0''
      else
        let l = int p - 1;
            x0 = (if q < 1 then dec_exp_down 400 q 0 else dec_exp_up 400 q 0);
            m0 = round_rat (q * pow10 (l - x0));
            x = (if m0 = 10 ^ p then x0 + 1 else x0);
            m = (if m0 = 10 ^ p then 10 ^ nat l else m0)
        in if -4 \<le> x \<and> x < int p then
             (if 0 \<le> x then
                with_point (show_nat (m div 10 ^ nat (l - x)))
                  (if x = l then '''' else pad_left (nat (l - x)) (CHR ''0'') (show_nat (m mod 10 ^ nat (l - x))))
              else with_point ''0'' (replicate (nat (- x - 1)) (CHR ''0'') @ show_nat m))
           else with_point (show_nat (m div 10 ^ nat l)) (pad_left (nat l) (CHR ''0'') (show_nat (m mod 10 ^ nat l))) @ ''e'' @
                (if x < 0 then ''-'' else ''+'') @ pad_left 2 (CHR ''0'') (show_nat (nat \<bar>x\<bar>)))"

definition show_g6_pos :: "rat \<Rightarrow> string" where
  "show_g6_pos q = show_g_pos 6 q"

text \<open>\<open>out << std::setprecision(p) << w\<close> for a \<open>float\<close> \<open>w\<close>.\<close>

definition show_f32_g :: "nat \<Rightarrow> float32 \<Rightarrow> string" where
  "show_f32_g p w =
     (if f32_negative w then ''-'' else '''') @
     (if isnan w then ''nan'' else if \<not> isfinite w then ''inf''
      else show_g_pos p (of_nat (f32_magnitude w) / 2 ^ 150))"

definition show_double :: "double \<Rightarrow> string" where
  "show_double v =
     (case v of
        NaN \<Rightarrow> ''nan''
      | PosInf \<Rightarrow> ''inf''
      | NegInf \<Rightarrow> ''-inf''
      | Fin q \<Rightarrow> (if q < 0 then ''-'' @ show_g6_pos (- q) else show_g6_pos q))"

end
