(* ===== verification/Station_Health.thy ===== *)
theory Station_Health
  imports Frame_Codec Float64
begin

text \<open>
  Model of \<open>include/stgs/StationHealth.hpp\<close> and \<open>src/StationHealth.cpp\<close>: the sliding
  window of decoded and rejected frames and the NOMINAL/DEGRADED automaton on top of it. The
  mutex makes every operation atomic, so an operation is a function on the monitor's state.

  The lemmas show that the constructor accepts exactly the consistent configurations, that the
  window always holds the most recent samples, when a transition fires, that with a gap between
  the thresholds no snapshot satisfies both rules, and how many samples a recovery needs.
\<close>

section \<open>Configuration and state\<close>

datatype StationState = Nominal | Degraded

record StationHealthConfig =
  enabled :: bool
  windowSize :: nat
  minSamples :: nat
  degradedRejectionRate :: double
  recoveryRejectionRate :: double
  criticalFramesForDegraded :: nat
  criticalFramesForRecovery :: nat

definition default_StationHealthConfig :: StationHealthConfig where
  "default_StationHealthConfig =
     \<lparr>enabled = True, windowSize = 100, minSamples = 20, degradedRejectionRate = Fin (ratio 10 100),
      recoveryRejectionRate = Fin (ratio 3 100), criticalFramesForDegraded = 8,
      criticalFramesForRecovery = 3\<rparr>"

record StationHealthSnapshot =
  snap_state :: StationState
  snap_samples :: nat
  snap_rejected :: nat
  snap_critical :: nat
  snap_rejectionRate :: double

record StationStateTransition =
  trans_from :: StationState
  trans_to :: StationState
  trans_snapshot :: StationHealthSnapshot
  trans_reason :: string

record Sample =
  rejected :: bool
  critical :: bool

record StationHealthMonitor =
  config :: StationHealthConfig
  window :: "Sample list"
  state :: StationState

section \<open>Operations\<close>

definition isCriticalTelemetry :: "TelemetryFrame \<Rightarrow> bool" where
  "isCriticalTelemetry frame \<longleftrightarrow> status frame = Status_Critical \<or> status frame = Status_SafeMode"

definition StationHealthMonitor_ctor :: "StationHealthConfig \<Rightarrow> StationHealthMonitor result" where
  "StationHealthMonitor_ctor c =
     (if windowSize c = 0 then
        Inl (invalid_argument ''station health window size must be greater than zero'')
      else if minSamples c = 0 then
        Inl (invalid_argument ''station health minimum sample count must be greater than zero'')
      else if minSamples c > windowSize c then
        Inl (invalid_argument ''station health minimum sample count cannot exceed window size'')
      else if d_less (degradedRejectionRate c) (Fin 0) \<or> d_less (Fin 1) (degradedRejectionRate c) then
        Inl (invalid_argument ''degraded rejection rate must be between 0 and 1'')
      else if d_less (recoveryRejectionRate c) (Fin 0) \<or> d_less (Fin 1) (recoveryRejectionRate c) then
        Inl (invalid_argument ''recovery rejection rate must be between 0 and 1'')
      else if d_less (degradedRejectionRate c) (recoveryRejectionRate c) then
        Inl (invalid_argument ''recovery rejection rate cannot exceed degraded rejection rate'')
      else if criticalFramesForDegraded c = 0 then
        Inl (invalid_argument ''critical frame degradation threshold must be greater than zero'')
      else if criticalFramesForDegraded c > windowSize c then
        Inl (invalid_argument ''critical frame degradation threshold cannot exceed window size'')
      else if criticalFramesForRecovery c \<ge> criticalFramesForDegraded c then
        Inl (invalid_argument ''critical frame recovery threshold must be lower than degradation threshold'')
      else Inr \<lparr>config = c, window = [], state = Nominal\<rparr>)"

text \<open>The counting loop of \<open>makeSnapshotLocked\<close>.\<close>

fun count_samples :: "Sample list \<Rightarrow> nat \<times> nat \<Rightarrow> nat \<times> nat" where
  "count_samples [] (r, c) = (r, c)"
| "count_samples (s # ss) (r, c) =
     count_samples ss (if rejected s then r + 1 else r, if critical s then c + 1 else c)"

definition makeSnapshotLocked :: "StationHealthMonitor \<Rightarrow> StationHealthSnapshot" where
  "makeSnapshotLocked m =
     (let n = length (window m);
          (r, c) = count_samples (window m) (0, 0)
      in \<lparr>snap_state = state m, snap_samples = n, snap_rejected = r, snap_critical = c,
          snap_rejectionRate = (if 0 < n then Fin (ratio r n) else Fin 0)\<rparr>)"

definition transitionReasonLocked :: "StationHealthConfig \<Rightarrow> StationHealthSnapshot \<Rightarrow> StationState \<Rightarrow> string" where
  "transitionReasonLocked c snap target =
     (if target = Degraded then
        if d_le (degradedRejectionRate c) (snap_rejectionRate snap) then
          ''rejection rate '' @ show_double (snap_rejectionRate snap) @
          '' exceeded threshold '' @ show_double (degradedRejectionRate c)
        else
          ''critical telemetry count '' @ show_nat (snap_critical snap) @
          '' reached threshold '' @ show_nat (criticalFramesForDegraded c)
      else
        ''rejection rate '' @ show_double (snap_rejectionRate snap) @
        '' <= recovery threshold '' @ show_double (recoveryRejectionRate c) @
        '' and critical count '' @ show_nat (snap_critical snap) @
        '' <= recovery threshold '' @ show_nat (criticalFramesForRecovery c))"

text \<open>The loop \<open>while (samples_.size() > windowSize) samples_.pop_front()\<close>.\<close>

fun trim_window :: "nat \<Rightarrow> Sample list \<Rightarrow> Sample list" where
  "trim_window w [] = []"
| "trim_window w (s # ss) = (if w < length (s # ss) then trim_window w ss else s # ss)"

definition recordSample ::
    "StationHealthMonitor \<Rightarrow> Sample \<Rightarrow> StationHealthMonitor \<times> StationStateTransition option" where
  "recordSample m sample =
     (let c = config m in
      if \<not> enabled c then (m, None)
      else
        let m = m\<lparr>window := trim_window (windowSize c) (window m @ [sample])\<rparr>;
            snap = makeSnapshotLocked m
        in if snap_samples snap < minSamples c then (m, None)
           else
             let target =
               (if state m = Nominal then
                  if d_le (degradedRejectionRate c) (snap_rejectionRate snap) \<or>
                     snap_critical snap \<ge> criticalFramesForDegraded c
                  then Degraded else state m
                else
                  if d_le (snap_rejectionRate snap) (recoveryRejectionRate c) \<and>
                     snap_critical snap \<le> criticalFramesForRecovery c
                  then Nominal else state m)
             in if target = state m then (m, None)
                else
                  (m\<lparr>state := target\<rparr>,
                   Some \<lparr>trans_from = state m, trans_to = target,
                         trans_snapshot = snap\<lparr>snap_state := target\<rparr>,
                         trans_reason = transitionReasonLocked c snap target\<rparr>))"

definition recordDecoded ::
    "StationHealthMonitor \<Rightarrow> TelemetryFrame \<Rightarrow> StationHealthMonitor \<times> StationStateTransition option" where
  "recordDecoded m frame = recordSample m \<lparr>rejected = False, critical = isCriticalTelemetry frame\<rparr>"

definition recordRejected ::
    "StationHealthMonitor \<Rightarrow> StationHealthMonitor \<times> StationStateTransition option" where
  "recordRejected m = recordSample m \<lparr>rejected = True, critical = False\<rparr>"

definition snapshot :: "StationHealthMonitor \<Rightarrow> StationHealthSnapshot" where
  "snapshot m = makeSnapshotLocked m"

fun stationStateToString :: "StationState \<Rightarrow> string" where
  "stationStateToString Nominal = ''NOMINAL''"
| "stationStateToString Degraded = ''DEGRADED''"

text \<open>A run of the monitor over a history of samples, with the transitions it reports.\<close>

fun record_all ::
    "StationHealthMonitor \<Rightarrow> Sample list \<Rightarrow> StationHealthMonitor \<times> StationStateTransition option list" where
  "record_all m [] = (m, [])"
| "record_all m (s # ss) =
     (let (m, t) = recordSample m s; (m, ts) = record_all m ss in (m, t # ts))"

section \<open>The window\<close>

definition rejected_count :: "Sample list \<Rightarrow> nat" where
  "rejected_count ss = length (filter rejected ss)"

definition critical_count :: "Sample list \<Rightarrow> nat" where
  "critical_count ss = length (filter critical ss)"

lemma count_samples_eq: "count_samples ss (r, c) = (r + rejected_count ss, c + critical_count ss)"
  by (induction ss arbitrary: r c) (simp_all add: rejected_count_def critical_count_def)

lemma trim_window_eq: "trim_window w ss = drop (length ss - w) ss"
  by (induction ss) (auto simp: Suc_diff_le not_less less_Suc_eq_le)

definition last_n :: "nat \<Rightarrow> 'a list \<Rightarrow> 'a list" where
  "last_n n xs = drop (length xs - n) xs"

lemma last_n_snoc: "last_n n (last_n n xs @ [x]) = last_n n (xs @ [x])"
  by (cases "length xs < n") (auto simp: last_n_def Suc_diff_le)

lemma makeSnapshot_eq:
  "makeSnapshotLocked m =
     \<lparr>snap_state = state m, snap_samples = length (window m), snap_rejected = rejected_count (window m),
      snap_critical = critical_count (window m),
      snap_rejectionRate = (if window m = [] then Fin 0 else Fin (ratio (rejected_count (window m)) (length (window m))))\<rparr>"
  by (simp add: makeSnapshotLocked_def count_samples_eq Let_def)

definition rate_of :: "Sample list \<Rightarrow> double" where
  "rate_of ss = (if ss = [] then Fin 0 else Fin (ratio (rejected_count ss) (length ss)))"

definition degrade_rule :: "StationHealthConfig \<Rightarrow> Sample list \<Rightarrow> bool" where
  "degrade_rule c ss \<longleftrightarrow>
     d_le (degradedRejectionRate c) (rate_of ss) \<or> criticalFramesForDegraded c \<le> critical_count ss"

definition recover_rule :: "StationHealthConfig \<Rightarrow> Sample list \<Rightarrow> bool" where
  "recover_rule c ss \<longleftrightarrow>
     d_le (rate_of ss) (recoveryRejectionRate c) \<and> critical_count ss \<le> criticalFramesForRecovery c"

text \<open>The specification of one step: the window is the last \<open>windowSize\<close> samples, and the
  state moves by the rule that belongs to it.\<close>

definition health_step :: "StationHealthConfig \<Rightarrow> Sample list \<Rightarrow> StationState \<Rightarrow> StationState" where
  "health_step c ss st =
     (if length ss < minSamples c then st
      else case st of
          Nominal \<Rightarrow> if degrade_rule c ss then Degraded else Nominal
        | Degraded \<Rightarrow> if recover_rule c ss then Nominal else Degraded)"

lemma recordSample_eq:
  fixes m :: StationHealthMonitor and s :: Sample
  assumes "enabled (config m)"
  defines "w \<equiv> last_n (windowSize (config m)) (window m @ [s])"
  defines "st \<equiv> health_step (config m) w (state m)"
  defines "m' \<equiv> m\<lparr>window := w, state := st\<rparr>"
  shows "recordSample m s =
    (m', if st = state m then None
         else Some \<lparr>trans_from = state m, trans_to = st, trans_snapshot = makeSnapshotLocked m',
                trans_reason = transitionReasonLocked (config m) (makeSnapshotLocked (m\<lparr>window := w\<rparr>)) st\<rparr>)"
proof -
  have trim: "trim_window (windowSize (config m)) (window m @ [s]) = w"
    by (simp add: trim_window_eq w_def last_n_def)
  have rate: "snap_rejectionRate (makeSnapshotLocked (m\<lparr>window := w\<rparr>)) = rate_of w"
    by (simp add: makeSnapshot_eq rate_of_def)
  have other: "snap_samples (makeSnapshotLocked (m\<lparr>window := w\<rparr>)) = length w"
    "snap_critical (makeSnapshotLocked (m\<lparr>window := w\<rparr>)) = critical_count w"
    by (simp_all add: makeSnapshot_eq)
  have snap: "(makeSnapshotLocked (m\<lparr>window := w\<rparr>))\<lparr>snap_state := x\<rparr> = makeSnapshotLocked (m\<lparr>window := w, state := x\<rparr>)" for x
    by (simp add: makeSnapshot_eq)
  consider "length w < minSamples (config m)" | "\<not> length w < minSamples (config m)" "state m = Nominal"
    | "\<not> length w < minSamples (config m)" "state m = Degraded"
    by (cases "state m") auto
  then show ?thesis
    by cases (simp_all add: recordSample_def Let_def trim rate other snap assms(1) st_def m'_def
        health_step_def degrade_rule_def recover_rule_def)
qed

lemma recordSample_step:
  fixes m :: StationHealthMonitor and s :: Sample
  assumes "enabled (config m)"
  defines "w \<equiv> last_n (windowSize (config m)) (window m @ [s])"
  shows "config (fst (recordSample m s)) = config m" "window (fst (recordSample m s)) = w"
    "state (fst (recordSample m s)) = health_step (config m) w (state m)"
    "snd (recordSample m s) \<noteq> None \<longleftrightarrow> state (fst (recordSample m s)) \<noteq> state m"
  using recordSample_eq [OF assms(1), of s] by (simp_all add: w_def)

lemma recordSample_disabled: "\<not> enabled (config m) \<Longrightarrow> recordSample m s = (m, None)"
  by (simp add: recordSample_def)

lemma recordSample_transition:
  assumes "snd (recordSample m s) = Some t"
  shows "trans_from t = state m" "trans_to t = state (fst (recordSample m s))"
    "trans_snapshot t = snapshot (fst (recordSample m s))"
proof -
  have "enabled (config m)" using assms recordSample_disabled [of m s] by fastforce
  from recordSample_eq [OF this, of s] assms
  show "trans_from t = state m" "trans_to t = state (fst (recordSample m s))"
    "trans_snapshot t = snapshot (fst (recordSample m s))"
    by (auto simp: snapshot_def split: if_splits)
qed

section \<open>Runs\<close>

fun states_after :: "StationHealthConfig \<Rightarrow> Sample list \<Rightarrow> StationState \<Rightarrow> Sample list \<Rightarrow> StationState" where
  "states_after c hist st [] = st"
| "states_after c hist st (s # ss) =
     states_after c (hist @ [s]) (health_step c (last_n (windowSize c) (hist @ [s])) st) ss"

lemma record_all_refines:
  assumes "enabled (config m)" and "window m = last_n (windowSize (config m)) hist"
  shows "window (fst (record_all m ss)) = last_n (windowSize (config m)) (hist @ ss) \<and>
    config (fst (record_all m ss)) = config m \<and>
    state (fst (record_all m ss)) = states_after (config m) hist (state m) ss"
  using assms
proof (induction ss arbitrary: m hist)
  case (Cons s ss)
  let ?m = "fst (recordSample m s)"
  note step = recordSample_step [OF Cons.prems(1), of s]
  have w: "window ?m = last_n (windowSize (config m)) (hist @ [s])"
    using step(2) Cons.prems(2) by (simp add: last_n_snoc)
  have "enabled (config ?m)" using Cons.prems(1) step(1) by simp
  from Cons.IH [OF this, of "hist @ [s]"] w step(1,3) Cons.prems(2) show ?case
    by (simp add: case_prod_beta Let_def last_n_snoc)
qed simp

lemma ctor_InrD:
  assumes "StationHealthMonitor_ctor c = Inr m"
  shows "m = \<lparr>config = c, window = [], state = Nominal\<rparr>" "0 < windowSize c" "0 < minSamples c"
    "minSamples c \<le> windowSize c" "\<not> d_less (degradedRejectionRate c) (recoveryRejectionRate c)"
    "0 < criticalFramesForDegraded c" "criticalFramesForDegraded c \<le> windowSize c"
    "criticalFramesForRecovery c < criticalFramesForDegraded c"
  using assms by (auto simp: StationHealthMonitor_ctor_def split: if_splits)

lemma fresh_run:
  assumes "StationHealthMonitor_ctor c = Inr m0" and "enabled c" and "record_all m0 hist = (m, ts)"
  shows "window m = last_n (windowSize c) hist" "config m = c" "state m = states_after c [] Nominal hist"
proof -
  have m0: "m0 = \<lparr>config = c, window = [], state = Nominal\<rparr>" using ctor_InrD(1) [OF assms(1)] .
  then have "enabled (config m0)" "window m0 = last_n (windowSize (config m0)) []"
    using assms(2) by (simp_all add: last_n_def)
  from record_all_refines [OF this, of hist] assms(3)
  show "window m = last_n (windowSize c) hist" "config m = c" "state m = states_after c [] Nominal hist"
    by (auto simp: m0)
qed

section \<open>Hysteresis\<close>

text \<open>With a gap between the two rejection thresholds, no window satisfies both rules.\<close>

lemma rules_exclusive:
  assumes "d_less (recoveryRejectionRate c) (degradedRejectionRate c)"
    and "criticalFramesForRecovery c < criticalFramesForDegraded c"
  shows "\<not> (degrade_rule c ss \<and> recover_rule c ss)"
proof
  assume r: "degrade_rule c ss \<and> recover_rule c ss"
  then have "d_le (rate_of ss) (recoveryRejectionRate c)" "critical_count ss \<le> criticalFramesForRecovery c"
    by (simp_all add: recover_rule_def)
  with assms r have "d_le (degradedRejectionRate c) (rate_of ss)" by (simp add: degrade_rule_def)
  with \<open>d_le (rate_of ss) (recoveryRejectionRate c)\<close> have "d_less (degradedRejectionRate c) (degradedRejectionRate c)"
    using assms(1) d_le_less_trans by blast
  then show False by (simp add: d_less_irrefl)
qed

text \<open>One sample changes the number of critical frames in the window by at most one.\<close>

lemma critical_count_snoc_ge: "critical_count ss \<le> Suc (critical_count (last_n n (ss @ [s])))"
  if "length ss \<le> n" "0 < n"
proof (cases "length ss < n")
  case True
  then show ?thesis by (simp add: last_n_def critical_count_def)
next
  case False
  with that obtain x xs where "ss = x # xs" by (cases ss) auto
  with False that show ?thesis by (auto simp: last_n_def critical_count_def)
qed

lemma length_last_n: "length (last_n n xs) \<le> n"
  by (simp add: last_n_def)

lemma critical_count_run:
  "0 < n \<Longrightarrow> critical_count (last_n n hist) \<le> critical_count (last_n n (hist @ ss)) + length ss"
proof (induction ss arbitrary: hist)
  case (Cons s ss)
  have "critical_count (last_n n hist) \<le> Suc (critical_count (last_n n (hist @ [s])))"
    using critical_count_snoc_ge [of "last_n n hist" n s] length_last_n [of n hist] Cons.prems
    by (simp add: last_n_snoc)
  also have "critical_count (last_n n (hist @ [s])) \<le> critical_count (last_n n (hist @ s # ss)) + length ss"
    using Cons.IH [of "hist @ [s]"] Cons.prems by simp
  finally show ?case by simp
qed simp

text \<open>As long as the recovery rule fails on every window seen, the station stays degraded.\<close>

lemma stays_degraded:
  "(\<And>k. k \<le> length ss \<Longrightarrow> 0 < k \<Longrightarrow> \<not> recover_rule c (last_n (windowSize c) (hist @ take k ss))) \<Longrightarrow>
   states_after c hist Degraded ss = Degraded"
proof (induction ss arbitrary: hist)
  case (Cons s ss)
  have "\<not> recover_rule c (last_n (windowSize c) (hist @ [s]))" using Cons.prems [of 1] by simp
  then have "health_step c (last_n (windowSize c) (hist @ [s])) Degraded = Degraded"
    by (simp add: health_step_def)
  moreover have "states_after c (hist @ [s]) Degraded ss = Degraded"
    by (rule Cons.IH) (use Cons.prems [of "Suc _"] in auto)
  ultimately show ?case by simp
qed simp

lemma slow_recovery_states:
  assumes "0 < windowSize c" and "criticalFramesForRecovery c + length ss < critical_count (last_n (windowSize c) hist)"
  shows "states_after c hist Degraded ss = Degraded"
proof (rule stays_degraded)
  fix k assume k: "k \<le> length ss" "0 < k"
  have "critical_count (last_n (windowSize c) hist)
      \<le> critical_count (last_n (windowSize c) (hist @ take k ss)) + k"
    using critical_count_run [OF assms(1), of hist "take k ss"] k by simp
  with assms(2) k show "\<not> recover_rule c (last_n (windowSize c) (hist @ take k ss))"
    by (simp add: recover_rule_def)
qed

lemma record_all_append:
  "record_all m (xs @ ys) =
     (let (m, ts) = record_all m xs; (m, us) = record_all m ys in (m, ts @ us))"
  by (induction xs arbitrary: m) (simp_all add: case_prod_beta Let_def)

section \<open>Properties\<close>

text \<open>C18: from an accepted configuration, after any history of samples the monitor's window is
  exactly the last \<open>windowSize\<close> samples, its counters are those of that window, and its state is
  the one the two-state specification automaton reaches on the history.\<close>

theorem health_monitor_refines:
  assumes "StationHealthMonitor_ctor c = Inr m0" and "enabled c" and "record_all m0 hist = (m, ts)"
  shows "window m = last_n (windowSize c) hist \<and> state m = states_after c [] Nominal hist \<and>
    snap_samples (snapshot m) = min (windowSize c) (length hist) \<and>
    snap_rejected (snapshot m) = rejected_count (last_n (windowSize c) hist) \<and>
    snap_critical (snapshot m) = critical_count (last_n (windowSize c) hist)"
  using fresh_run [OF assms] by (simp add: snapshot_def makeSnapshot_eq) (simp add: last_n_def min_def)

definition small_config :: StationHealthConfig where
  "small_config = \<lparr>enabled = True, windowSize = 3, minSamples = 1, degradedRejectionRate = Fin 1,
     recoveryRejectionRate = Fin 0, criticalFramesForDegraded = 2, criticalFramesForRecovery = 0\<rparr>"

lemma small_config_ok: "StationHealthMonitor_ctor small_config = Inr \<lparr>config = small_config, window = [], state = Nominal\<rparr>"
  by (simp add: StationHealthMonitor_ctor_def small_config_def)

theorem health_monitor_refines_witness:
  "let m = fst (record_all \<lparr>config = small_config, window = [], state = Nominal\<rparr>
       (replicate 4 \<lparr>rejected = True, critical = False\<rparr>))
   in window m = last_n (windowSize small_config) (replicate 4 \<lparr>rejected = True, critical = False\<rparr>) \<and>
      state m = states_after small_config [] Nominal (replicate 4 \<lparr>rejected = True, critical = False\<rparr>) \<and>
      snap_samples (snapshot m) = min (windowSize small_config) 4"
  using health_monitor_refines [OF small_config_ok, of "replicate 4 \<lparr>rejected = True, critical = False\<rparr>"
      "fst (record_all \<lparr>config = small_config, window = [], state = Nominal\<rparr>
       (replicate 4 \<lparr>rejected = True, critical = False\<rparr>))"
      "snd (record_all \<lparr>config = small_config, window = [], state = Nominal\<rparr>
       (replicate 4 \<lparr>rejected = True, critical = False\<rparr>))"]
  by (simp add: Let_def) (simp add: small_config_def)

text \<open>Hysteresis on the critical count: once the window holds at least
  \<open>criticalFramesForDegraded\<close> critical frames in the DEGRADED state, no sequence of fewer than
  \<open>criticalFramesForDegraded - criticalFramesForRecovery\<close> further samples can bring the station
  back to NOMINAL.\<close>

theorem critical_recovery_is_slow:
  assumes "StationHealthMonitor_ctor c = Inr m0" and "enabled c" and "record_all m0 hist = (m, ts)"
    and "state m = Degraded" and "criticalFramesForDegraded c \<le> snap_critical (snapshot m)"
    and "length ss < criticalFramesForDegraded c - criticalFramesForRecovery c"
  shows "state (fst (record_all m ss)) = Degraded"
proof -
  note m = fresh_run(1,2) [OF assms(1-3)]
  with assms(2) record_all_refines [of m hist ss]
  have "state (fst (record_all m ss)) = states_after c hist Degraded ss" by (simp add: assms(4))
  also have "\<dots> = Degraded"
    using assms(5,6) ctor_InrD(2) [OF assms(1)]
    by (intro slow_recovery_states) (simp_all add: snapshot_def makeSnapshot_eq m)
  finally show ?thesis .
qed

theorem critical_recovery_is_slow_witness:
  "state (fst (record_all \<lparr>config = small_config, window = replicate 2 \<lparr>rejected = False, critical = True\<rparr>, state = Degraded\<rparr>
     [\<lparr>rejected = False, critical = False\<rparr>])) = Degraded"
proof (rule critical_recovery_is_slow [OF small_config_ok,
      where hist = "replicate 2 \<lparr>rejected = False, critical = True\<rparr>" and
        ts = "snd (record_all \<lparr>config = small_config, window = [], state = Nominal\<rparr>
          (replicate 2 \<lparr>rejected = False, critical = True\<rparr>))"])
  let ?m = "fst (record_all \<lparr>config = small_config, window = [], state = Nominal\<rparr>
          (replicate 2 \<lparr>rejected = False, critical = True\<rparr>))"
  have "?m = \<lparr>config = small_config, window = replicate 2 \<lparr>rejected = False, critical = True\<rparr>, state = Degraded\<rparr>"
    by (simp add: small_config_def recordSample_def Let_def makeSnapshotLocked_def eval_nat_numeral ratio_def)
  then show "record_all \<lparr>config = small_config, window = [], state = Nominal\<rparr>
      (replicate 2 \<lparr>rejected = False, critical = True\<rparr>) =
    (\<lparr>config = small_config, window = replicate 2 \<lparr>rejected = False, critical = True\<rparr>, state = Degraded\<rparr>,
     snd (record_all \<lparr>config = small_config, window = [], state = Nominal\<rparr>
          (replicate 2 \<lparr>rejected = False, critical = True\<rparr>)))"
    by (metis prod.collapse)
qed (simp_all add: small_config_def snapshot_def makeSnapshot_eq critical_count_def eval_nat_numeral)

text \<open>With a gap between the rejection thresholds the monitor cannot flap on an unchanged
  picture: the window on which a transition fires never satisfies the rule of the opposite
  transition, and the reported transition carries the old state, the new state and the snapshot
  of exactly that window.\<close>

theorem transition_is_stable:
  assumes "StationHealthMonitor_ctor c = Inr m0" and "d_less (recoveryRejectionRate c) (degradedRejectionRate c)"
    and "config m = c" and "recordSample m s = (m', Some t)"
  shows "trans_from t = state m \<and> trans_to t = state m' \<and> trans_to t \<noteq> trans_from t \<and>
    trans_snapshot t = snapshot m' \<and>
    (case trans_to t of
       Degraded \<Rightarrow> degrade_rule c (window m') \<and> \<not> recover_rule c (window m')
     | Nominal \<Rightarrow> recover_rule c (window m') \<and> \<not> degrade_rule c (window m'))"
proof -
  have en: "enabled (config m)" using assms(4) recordSample_disabled [of m s] by fastforce
  note step = recordSample_step [OF en, of s]
  have ex: "\<not> (degrade_rule c (window m') \<and> recover_rule c (window m'))"
    using rules_exclusive [OF assms(2)] ctor_InrD(8) [OF assms(1)] by blast
  have "state m' = health_step c (window m') (state m)" "state m' \<noteq> state m"
    using step assms(3,4) by auto
  then have "case state m' of Degraded \<Rightarrow> degrade_rule c (window m') | Nominal \<Rightarrow> recover_rule c (window m')"
    by (auto simp: health_step_def split: StationState.splits if_splits)
  with ex recordSample_transition [of m s t] \<open>state m' \<noteq> state m\<close> assms(4) show ?thesis
    by (auto split: StationState.splits)
qed

theorem transition_is_stable_witness:
  "let (m', t) = recordSample \<lparr>config = small_config, window = [], state = Nominal\<rparr> \<lparr>rejected = True, critical = False\<rparr>
   in state m' = Degraded \<and> degrade_rule small_config (window m') \<and> \<not> recover_rule small_config (window m')"
proof -
  let ?m = "\<lparr>config = small_config, window = [], state = Nominal\<rparr>" and ?s = "\<lparr>rejected = True, critical = False\<rparr>"
  have one: "ratio (Suc 0) (Suc 0) = 1" by (simp add: ratio_def norm_exp.simps round_half_even_def)
  obtain m' t where r: "recordSample ?m ?s = (m', Some t)" and d: "trans_to t = Degraded"
    by (simp add: small_config_def recordSample_def Let_def makeSnapshotLocked_def one)
  have gap: "d_less (recoveryRejectionRate small_config) (degradedRejectionRate small_config)"
    by (simp add: small_config_def)
  from transition_is_stable [OF small_config_ok gap _ r] d r show ?thesis by simp
qed

section \<open>Equal thresholds\<close>

text \<open>The constructor also accepts equal rejection thresholds. Then a constant rejection rate can
  satisfy both rules, and the station changes its state on every single sample.\<close>

definition equal_config :: StationHealthConfig where
  "equal_config = \<lparr>enabled = True, windowSize = 1, minSamples = 1, degradedRejectionRate = Fin 0,
     recoveryRejectionRate = Fin 0, criticalFramesForDegraded = 1, criticalFramesForRecovery = 0\<rparr>"

lemma equal_config_step:
  "length w \<le> 1 \<Longrightarrow>
   \<exists>w' st t. recordSample \<lparr>config = equal_config, window = w, state = st0\<rparr> \<lparr>rejected = False, critical = False\<rparr> =
     (\<lparr>config = equal_config, window = w', state = st\<rparr>, Some t) \<and> length w' \<le> 1"
  by (cases st0; cases w)
    (auto simp: recordSample_def equal_config_def Let_def makeSnapshotLocked_def ratio_def)

theorem equal_thresholds_flap:
  "StationHealthMonitor_ctor equal_config = Inr \<lparr>config = equal_config, window = [], state = Nominal\<rparr> \<and>
   list_all (\<lambda>t. t \<noteq> None)
     (snd (record_all \<lparr>config = equal_config, window = [], state = Nominal\<rparr>
       (replicate n \<lparr>rejected = False, critical = False\<rparr>)))"
proof -
  have "list_all (\<lambda>t. t \<noteq> None) (snd (record_all \<lparr>config = equal_config, window = w, state = st\<rparr>
       (replicate n \<lparr>rejected = False, critical = False\<rparr>)))" if "length w \<le> 1" for w st
    using that
  proof (induction n arbitrary: w st)
    case (Suc n)
    obtain w' st' t where
      "recordSample \<lparr>config = equal_config, window = w, state = st\<rparr> \<lparr>rejected = False, critical = False\<rparr> =
       (\<lparr>config = equal_config, window = w', state = st'\<rparr>, Some t)" "length w' \<le> 1"
      using equal_config_step [OF Suc.prems] by blast
    with Suc.IH show ?case by (simp add: case_prod_beta Let_def)
  qed simp
  then show ?thesis by (simp add: StationHealthMonitor_ctor_def equal_config_def)
qed

end
