(* ===== verification/Float_Arith.thy ===== *)
theory Float_Arith
  imports Float64 "HOL-Library.Log_Nat"
begin

text \<open>
  Correctly rounded binary floating point: rounding a rational to \<open>p\<close> significant bits with a
  least exponent, and with it the \<open>double\<close> operations and the conversions between
  \<open>float\<close> and \<open>double\<close>. Zeros carry no sign.
\<close>

section \<open>Rounding\<close>

text \<open>The exponent of the leading bit of a positive rational.\<close>

definition ilog2 :: "rat \<Rightarrow> int" where
  "ilog2 q = (let (n, d) = quotient_of q; e = int (floorlog 2 (nat n)) - int (floorlog 2 (nat d))
     in if 2 powi e \<le> q then e else e - 1)"

definition round_bin :: "nat \<Rightarrow> int \<Rightarrow> rat \<Rightarrow> rat" where
  "round_bin p emin q =
     (if q = 0 then 0
      else let k = max (ilog2 q - int p + 1) emin in of_nat (round_rat (q / 2 powi k)) * 2 powi k)"

definition round_double :: "rat \<Rightarrow> double" where
  "round_double q =
     (let r = round_bin 53 (- 1074) \<bar>q\<bar>
      in if 2 ^ 1024 \<le> r then (if q < 0 then NegInf else PosInf) else Fin (if q < 0 then - r else r))"

section \<open>Operations\<close>

fun d_neg :: "double \<Rightarrow> double" where
  "d_neg NaN = NaN"
| "d_neg PosInf = NegInf"
| "d_neg NegInf = PosInf"
| "d_neg (Fin x) = Fin (- x)"

fun d_add :: "double \<Rightarrow> double \<Rightarrow> double" where
  "d_add NaN y = NaN"
| "d_add x NaN = NaN"
| "d_add PosInf NegInf = NaN"
| "d_add NegInf PosInf = NaN"
| "d_add PosInf y = PosInf"
| "d_add x PosInf = PosInf"
| "d_add NegInf y = NegInf"
| "d_add x NegInf = NegInf"
| "d_add (Fin x) (Fin y) = round_double (x + y)"

definition d_sub :: "double \<Rightarrow> double \<Rightarrow> double" where
  "d_sub x y = d_add x (d_neg y)"

text \<open>An infinity with the sign of \<open>x\<close> times that of \<open>y\<close>.\<close>

definition d_sign :: "double \<Rightarrow> int" where
  "d_sign x = (case x of PosInf \<Rightarrow> 1 | NegInf \<Rightarrow> - 1 | NaN \<Rightarrow> 0 | Fin q \<Rightarrow> if q < 0 then - 1 else if q = 0 then 0 else 1)"

definition inf_of :: "int \<Rightarrow> double" where
  "inf_of s = (if s < 0 then NegInf else if s = 0 then NaN else PosInf)"

fun d_mul :: "double \<Rightarrow> double \<Rightarrow> double" where
  "d_mul NaN y = NaN"
| "d_mul x NaN = NaN"
| "d_mul (Fin x) (Fin y) = round_double (x * y)"
| "d_mul x y = inf_of (d_sign x * d_sign y)"

fun d_div :: "double \<Rightarrow> double \<Rightarrow> double" where
  "d_div NaN y = NaN"
| "d_div x NaN = NaN"
| "d_div (Fin x) (Fin y) = (if y = 0 then inf_of (d_sign (Fin x)) else round_double (x / y))"
| "d_div (Fin x) y = Fin 0"
| "d_div x (Fin y) = inf_of (d_sign x * (if y < 0 then - 1 else 1))"
| "d_div x y = NaN"

definition d_of_nat :: "nat \<Rightarrow> double" where
  "d_of_nat n = round_double (of_nat n)"

section \<open>Conversions\<close>

definition f32_to_double :: "float32 \<Rightarrow> double" where
  "f32_to_double w =
     (if isnan w then NaN
      else if \<not> isfinite w then (if f32_negative w then NegInf else PosInf)
      else Fin (of_int (f32_scaled w) / 2 ^ 150))"

definition f32_infinity :: float32 where
  "f32_infinity = 0x7F800000"

definition f32_pack :: "bool \<Rightarrow> float32 \<Rightarrow> float32" where
  "f32_pack neg w = (if neg then w OR 0x80000000 else w)"

text \<open>The pattern of a value that is exactly a non-negative finite \<open>float\<close>.\<close>

definition f32_encode :: "rat \<Rightarrow> float32" where
  "f32_encode r =
     (if r = 0 then 0
      else let e = max (ilog2 r) (- 126); m = round_rat (r / 2 powi (e - 23))
           in if m < 2 ^ 23 then of_nat m
              else of_nat (nat (e + 127) * 2 ^ 23 + (m - 2 ^ 23)))"

text \<open>\<open>static_cast<float>\<close> of a \<open>double\<close>; values too large become infinite.\<close>

definition double_to_f32 :: "double \<Rightarrow> float32" where
  "double_to_f32 x =
     (case x of NaN \<Rightarrow> 0x7FC00000 | PosInf \<Rightarrow> f32_infinity | NegInf \<Rightarrow> f32_pack True f32_infinity
      | Fin q \<Rightarrow> let r = round_bin 24 (- 149) \<bar>q\<bar>
                 in f32_pack (q < 0) (if 2 ^ 128 \<le> r then f32_infinity else f32_encode r))"

end
