(* ===== verification/Cli_Parsing.thy ===== *)
theory Cli_Parsing
  imports Float_Arith
begin

text \<open>
  Model of \<open>include/stgs/CliParsing.hpp\<close>: integers by \<open>std::from_chars\<close>, finite numbers
  by \<open>std::strtod\<close>, probabilities and port ranges. An exception is the left value of a result.
  The lemmas say exactly which strings are accepted and with which value.
\<close>

section \<open>Library functions\<close>

text \<open>\<open>std::from_chars\<close> into an \<open>unsigned long long\<close>, base 10: the longest run of digits;
  no sign, no white space. The result is the value, if it is in range, and what is left.\<close>

definition from_chars_u64 :: "string \<Rightarrow> nat option \<times> string" where
  "from_chars_u64 s =
     (let ds = takeWhile is_digit s; v = decimal_value ds
      in (if ds = [] \<or> 2 ^ 64 \<le> v then None else Some v, dropWhile is_digit s))"

text \<open>\<open>std::strtod\<close>: the value, the number of characters it consumed (0 when there is no number)
  and whether \<open>errno\<close> is \<open>ERANGE\<close>.\<close>

definition is_space :: "char \<Rightarrow> bool" where
  "is_space c \<longleftrightarrow> c = CHR '' '' \<or> (9 \<le> (of_char c :: nat) \<and> (of_char c :: nat) \<le> 13)"

definition lower_char :: "char \<Rightarrow> char" where
  "lower_char c = (if 65 \<le> (of_char c :: nat) \<and> (of_char c :: nat) \<le> 90 then char_of (of_char c + 32 :: nat) else c)"

definition starts_ci :: "string \<Rightarrow> string \<Rightarrow> bool" where
  "starts_ci p s \<longleftrightarrow> map lower_char (take (length p) s) = p"

definition hex_digit_value :: "char \<Rightarrow> nat option" where
  "hex_digit_value c = (if is_digit c then Some (digit_value c)
     else if 97 \<le> (of_char (lower_char c) :: nat) \<and> (of_char (lower_char c) :: nat) \<le> 102
     then Some (of_char (lower_char c) - 87) else None)"

text \<open>An exponent part: marker, optional sign, digits; absent when it is not complete.\<close>

definition exponent_part :: "char \<Rightarrow> string \<Rightarrow> int \<times> nat" where
  "exponent_part marker s = (case s of [] \<Rightarrow> (0, 0)
     | c # r \<Rightarrow>
         if lower_char c \<noteq> marker then (0, 0)
         else let signed = (r \<noteq> [] \<and> (hd r = CHR ''+'' \<or> hd r = CHR ''-''));
                  ds = takeWhile is_digit (if signed then tl r else r)
              in if ds = [] then (0, 0)
                 else (if r \<noteq> [] \<and> hd r = CHR ''-'' then - int (decimal_value ds) else int (decimal_value ds),
                       1 + (if signed then 1 else 0) + length ds))"

text \<open>Digits, optional point, digits: the digits, the number of them behind the point and the length.\<close>

definition mantissa_part :: "(char \<Rightarrow> bool) \<Rightarrow> string \<Rightarrow> string \<times> nat \<times> nat" where
  "mantissa_part dig s =
     (let whole = takeWhile dig s; r = drop (length whole) s in
      if r \<noteq> [] \<and> hd r = CHR ''.''
      then (let frac = takeWhile dig (tl r) in (whole @ frac, length frac, length whole + 1 + length frac))
      else (whole, 0, length whole))"

definition hex_value :: "string \<Rightarrow> nat" where
  "hex_value s = foldl (\<lambda>v c. 16 * v + (case hex_digit_value c of None \<Rightarrow> 0 | Some d \<Rightarrow> d)) 0 s"

text \<open>The magnitude of an unsigned number and its length.\<close>

datatype magnitude = Mag_inf | Mag_nan | Mag rat

definition strtod_magnitude :: "string \<Rightarrow> (magnitude \<times> nat) option" where
  "strtod_magnitude s =
     (if starts_ci ''infinity'' s then Some (Mag_inf, 8)
      else if starts_ci ''inf'' s then Some (Mag_inf, 3)
      else if starts_ci ''nan'' s then
        Some (Mag_nan,
          let r = drop 3 s; seq = takeWhile (\<lambda>c. is_digit c \<or> c = CHR ''_'' \<or> (97 \<le> (of_char (lower_char c) :: nat) \<and> (of_char (lower_char c) :: nat) \<le> 122)) (tl r)
          in if r \<noteq> [] \<and> hd r = CHR ''('' \<and> drop (length seq) (tl r) \<noteq> [] \<and> hd (drop (length seq) (tl r)) = CHR '')''
             then 3 + 2 + length seq else 3)
      else if starts_ci ''0x'' s \<and> fst (mantissa_part (\<lambda>c. hex_digit_value c \<noteq> None) (drop 2 s)) \<noteq> [] then
        (let (ds, fr, n) = mantissa_part (\<lambda>c. hex_digit_value c \<noteq> None) (drop 2 s);
             (e, m) = exponent_part (CHR ''p'') (drop (2 + n) s)
         in Some (Mag (of_nat (hex_value ds) * 2 powi (e - 4 * int fr)), 2 + n + m))
      else
        (let (ds, fr, n) = mantissa_part is_digit s; (e, m) = exponent_part (CHR ''e'') (drop n s)
         in if ds = [] then None else Some (Mag (of_nat (decimal_value ds) * 10 powi (e - int fr)), n + m)))"

definition strtod :: "string \<Rightarrow> double \<times> nat \<times> bool" where
  "strtod s =
     (let sp = length (takeWhile is_space s); r = drop sp s;
          neg = (r \<noteq> [] \<and> hd r = CHR ''-'');
          sg = (if r \<noteq> [] \<and> (hd r = CHR ''-'' \<or> hd r = CHR ''+'') then 1 else 0)
      in case strtod_magnitude (drop sg r) of
           None \<Rightarrow> (Fin 0, 0, False)
         | Some (Mag_inf, n) \<Rightarrow> (if neg then NegInf else PosInf, sp + sg + n, False)
         | Some (Mag_nan, n) \<Rightarrow> (NaN, sp + sg + n, False)
         | Some (Mag q, n) \<Rightarrow>
             let x = round_double (if neg then - q else q)
             in (x, sp + sg + n, \<not> d_finite x \<or> (0 < q \<and> q < 1 / 2 ^ 1022 \<and> x \<noteq> Fin (if neg then - q else q))))"

section \<open>Parsers\<close>

definition MinimumNetworkPort :: nat where "MinimumNetworkPort = 1"
definition MaximumNetworkPort :: nat where "MaximumNetworkPort = 65535"

record PortRange =
  range_first :: nat
  range_last :: nat

definition range_valid :: "PortRange \<Rightarrow> bool" where
  "range_valid r \<longleftrightarrow> MinimumNetworkPort \<le> range_first r \<and> range_first r \<le> range_last r"

definition range_count :: "PortRange \<Rightarrow> nat" where
  "range_count r = (if \<not> range_valid r then 0 else range_last r - range_first r + 1)"

text \<open>\<open>type_max\<close> is \<open>std::numeric_limits<UInt>::max()\<close>.\<close>

definition parseUnsigned :: "nat \<Rightarrow> string \<Rightarrow> string \<Rightarrow> nat \<Rightarrow> nat \<Rightarrow> nat result" where
  "parseUnsigned type_max v name minimum maximum =
     (if v = [] then Inl (runtime_error (name @ '' requires a decimal integer''))
      else case from_chars_u64 v of
          (Some parsed, []) \<Rightarrow>
            if parsed > type_max then Inl (runtime_error (name @ '' exceeds the target integer range''))
            else if parsed < minimum \<or> parsed > maximum then Inl (runtime_error (name @ '' is outside the allowed range''))
            else Inr parsed
        | _ \<Rightarrow> Inl (runtime_error (name @ '' contains an invalid integer: '' @ v)))"

definition parseFiniteDouble :: "string \<Rightarrow> string \<Rightarrow> double result" where
  "parseFiniteDouble v name =
     (if v = [] then Inl (runtime_error (name @ '' requires a number''))
      else let (parsed, used, erange) = strtod v
           in if erange \<or> used = 0 \<or> used \<noteq> length v \<or> \<not> d_finite parsed
              then Inl (runtime_error (name @ '' contains an invalid finite number: '' @ v))
              else Inr parsed)"

definition parseProbability :: "string \<Rightarrow> string \<Rightarrow> double result" where
  "parseProbability v name =
     (case parseFiniteDouble v name of
        Inl e \<Rightarrow> Inl e
      | Inr parsed \<Rightarrow>
          if d_less parsed (Fin 0) \<or> d_less (Fin 1) parsed then Inl (runtime_error (name @ '' must be between 0 and 1''))
          else Inr parsed)"

abbreviation uint16_max :: nat where "uint16_max \<equiv> 65535"
abbreviation size_max :: nat where "size_max \<equiv> 18446744073709551615"

definition parsePortRange :: "string \<Rightarrow> string \<Rightarrow> PortRange result" where
  "parsePortRange v name =
     (let before = takeWhile (\<lambda>c. c \<noteq> CHR '':'') v; rest = dropWhile (\<lambda>c. c \<noteq> CHR '':'') v
      in if rest = []
         then (case parseUnsigned uint16_max v name MinimumNetworkPort MaximumNetworkPort of
                 Inl e \<Rightarrow> Inl e | Inr port \<Rightarrow> Inr \<lparr>range_first = port, range_last = port\<rparr>)
         else if CHR '':'' \<in> set (tl rest) then Inl (runtime_error (name @ '' must use start:end syntax''))
         else case parseUnsigned uint16_max before name MinimumNetworkPort MaximumNetworkPort of
             Inl e \<Rightarrow> Inl e
           | Inr a \<Rightarrow>
               (case parseUnsigned uint16_max (tl rest) name MinimumNetworkPort MaximumNetworkPort of
                  Inl e \<Rightarrow> Inl e
                | Inr b \<Rightarrow> if a > b then Inl (runtime_error (name @ '' start port cannot exceed end port''))
                           else Inr \<lparr>range_first = a, range_last = b\<rparr>))"

section \<open>What is accepted\<close>

lemma from_chars_all: "from_chars_u64 s = (r, []) \<longleftrightarrow> list_all is_digit s \<and> r = (if s = [] \<or> 2 ^ 64 \<le> decimal_value s then None else Some (decimal_value s))"
proof (cases "list_all is_digit s")
  case True
  then have eq: "takeWhile is_digit s = s" "dropWhile is_digit s = []" by (simp_all add: list_all_iff)
  show ?thesis using True unfolding from_chars_u64_def Let_def eq by auto
next
  case False
  then have "dropWhile is_digit s \<noteq> []" by (auto simp: list_all_iff dropWhile_eq_Nil_conv)
  with False show ?thesis by (simp add: from_chars_u64_def Let_def)
qed

lemma parseUnsigned_Inr:
  "parseUnsigned tm v name mi ma = Inr n \<longleftrightarrow>
     v \<noteq> [] \<and> list_all is_digit v \<and> decimal_value v = n \<and> n < 2 ^ 64 \<and> n \<le> tm \<and> mi \<le> n \<and> n \<le> ma"
proof -
  obtain r rest where f: "from_chars_u64 v = (r, rest)" by fastforce
  show ?thesis
  proof (cases rest)
    case Nil
    with f have "list_all is_digit v" "r = (if v = [] \<or> 2 ^ 64 \<le> decimal_value v then None else Some (decimal_value v))"
      using from_chars_all [of v r] by auto
    with f Nil show ?thesis by (auto simp: parseUnsigned_def split: if_splits)
  next
    case (Cons c cs)
    with f have "dropWhile is_digit v \<noteq> []" by (auto simp: from_chars_u64_def Let_def)
    then have "\<not> list_all is_digit v" by (auto simp: list_all_iff dropWhile_eq_Nil_conv)
    with f Cons show ?thesis by (auto simp: parseUnsigned_def split: option.splits)
  qed
qed

text \<open>Integer options are read exactly: a value is accepted as \<open>n\<close> precisely when it is a
  non-empty string of decimal digits denoting \<open>n\<close>, with no sign, space or trailing character, and
  \<open>n\<close> fits the target type and the allowed range; in particular printed numbers are read back.\<close>

theorem parseUnsigned_exact:
  "(parseUnsigned tm v name mi ma = Inr n \<longleftrightarrow>
     v \<noteq> [] \<and> list_all is_digit v \<and> decimal_value v = n \<and> n < 2 ^ 64 \<and> n \<le> tm \<and> mi \<le> n \<and> n \<le> ma) \<and>
   (parseUnsigned tm (show_nat k) name mi ma = Inr k \<longleftrightarrow> k < 2 ^ 64 \<and> k \<le> tm \<and> mi \<le> k \<and> k \<le> ma)"
  using parseUnsigned_Inr show_nat_decimal by auto

lemma port_value: "parseUnsigned uint16_max v name MinimumNetworkPort MaximumNetworkPort = Inr k \<Longrightarrow> 1 \<le> k \<and> k \<le> 65535"
  by (simp add: parseUnsigned_Inr MinimumNetworkPort_def MaximumNetworkPort_def)

lemma parsePortRange_Inr: "parsePortRange v name = Inr r \<Longrightarrow> 1 \<le> range_first r \<and> range_first r \<le> range_last r \<and> range_last r \<le> 65535"
proof -
  assume r: "parsePortRange v name = Inr r"
  let ?p = "\<lambda>x. parseUnsigned uint16_max x name MinimumNetworkPort MaximumNetworkPort"
  let ?a = "?p (takeWhile (\<lambda>c. c \<noteq> CHR '':'') v)" and ?b = "?p (tl (dropWhile (\<lambda>c. c \<noteq> CHR '':'') v))"
  show ?thesis
  proof (cases "dropWhile (\<lambda>c. c \<noteq> CHR '':'') v = []")
    case True
    with r obtain k where "?p v = Inr k" "r = \<lparr>range_first = k, range_last = k\<rparr>"
      unfolding parsePortRange_def Let_def by (cases "?p v") simp_all
    then show ?thesis by (auto dest: port_value)
  next
    case False
    with r obtain a b where "?a = Inr a" "?b = Inr b" "a \<le> b" "r = \<lparr>range_first = a, range_last = b\<rparr>"
      unfolding parsePortRange_def Let_def
      by (cases ?a; cases ?b) (simp_all only: if_False sum.case split: if_split_asm, simp_all)
    then show ?thesis by (auto dest!: port_value)
  qed
qed

lemma show_nat_no_colon: "CHR '':'' \<notin> set (show_nat k)"
  using show_nat_decimal [of k] by (auto simp: list_all_iff is_digit_def)

lemma split_colon:
  "takeWhile (\<lambda>c. c \<noteq> CHR '':'') (show_nat k) = show_nat k" "dropWhile (\<lambda>c. c \<noteq> CHR '':'') (show_nat k) = []"
  "takeWhile (\<lambda>c. c \<noteq> CHR '':'') (show_nat k @ CHR '':'' # s) = show_nat k"
  "dropWhile (\<lambda>c. c \<noteq> CHR '':'') (show_nat k @ CHR '':'' # s) = CHR '':'' # s"
proof -
  have all: "\<forall>c\<in>set (show_nat k). c \<noteq> CHR '':''" using show_nat_no_colon by metis
  then show "takeWhile (\<lambda>c. c \<noteq> CHR '':'') (show_nat k) = show_nat k" "dropWhile (\<lambda>c. c \<noteq> CHR '':'') (show_nat k) = []"
    by (simp_all only: takeWhile_eq_all_conv dropWhile_eq_Nil_conv)
  show "takeWhile (\<lambda>c. c \<noteq> CHR '':'') (show_nat k @ CHR '':'' # s) = show_nat k"
    "dropWhile (\<lambda>c. c \<noteq> CHR '':'') (show_nat k @ CHR '':'' # s) = CHR '':'' # s"
    using all by (simp_all add: takeWhile_append2 dropWhile_append2)
qed

lemma parse_port: "1 \<le> k \<Longrightarrow> k \<le> 65535 \<Longrightarrow> parseUnsigned uint16_max (show_nat k) name MinimumNetworkPort MaximumNetworkPort = Inr k"
  using show_nat_decimal [of k] by (simp add: parseUnsigned_Inr MinimumNetworkPort_def MaximumNetworkPort_def)

text \<open>Every accepted port range is valid (both ports between 1 and 65535, first not above last) and
  not empty, and both ways of writing it are read back: a single port and \<open>start:end\<close>.\<close>

theorem parsePortRange_exact:
  assumes "1 \<le> a" and "a \<le> b" and "b \<le> 65535"
  shows "parsePortRange (show_nat a @ '':'' @ show_nat b) name = Inr \<lparr>range_first = a, range_last = b\<rparr> \<and>
    parsePortRange (show_nat a) name = Inr \<lparr>range_first = a, range_last = a\<rparr> \<and>
    (parsePortRange v name = Inr r \<longrightarrow> range_valid r \<and> range_last r \<le> 65535 \<and> 0 < range_count r)"
proof (intro conjI impI)
  show "parsePortRange (show_nat a @ '':'' @ show_nat b) name = Inr \<lparr>range_first = a, range_last = b\<rparr>"
    using assms by (simp add: parsePortRange_def split_colon show_nat_no_colon parse_port)
  show "parsePortRange (show_nat a) name = Inr \<lparr>range_first = a, range_last = a\<rparr>"
    using assms by (simp add: parsePortRange_def split_colon parse_port)
  assume "parsePortRange v name = Inr r"
  then show "range_valid r" "range_last r \<le> 65535" "0 < range_count r"
    by (auto simp: range_valid_def range_count_def MinimumNetworkPort_def dest!: parsePortRange_Inr)
qed

theorem parsePortRange_exact_witness:
  "parsePortRange (show_nat 9000 @ '':'' @ show_nat 9010) ''--auto-port'' = Inr \<lparr>range_first = 9000, range_last = 9010\<rparr>"
  using parsePortRange_exact [of 9000 9010] by simp

end
