(* ===== verification/Replay.thy ===== *)
theory Replay
  imports Frame_Codec
begin

text \<open>
  Model of \<open>include/stgs/Replay.hpp\<close> and \<open>src/Replay.cpp\<close>: the STGF capture container.
  An output stream is the bytes the file holds, the bytes that wait in the stream's buffer and the error state. The
  device is a parameter that says how many of the waiting bytes an operation moves to the file and whether it
  succeeds, so that a buffer that is not full yet and a full disk are values of it. An
  input stream is the unread bytes with the \<open>eofbit\<close>, \<open>failbit\<close> and \<open>gcount\<close> of
  \<open>std::istream\<close>. The file system is a parameter (path to contents).

  The lemmas show that a capture is read back exactly once it is flushed, that the reader accepts precisely the
  files the writer can produce, and what a truncated capture yields. What the destructor of a stream in
  an error state does with its buffer is not modelled.
\<close>

section \<open>Streams\<close>

record ofstream =
  out_file :: ByteVector
  out_buffer :: ByteVector
  out_good :: bool

definition fresh_ofstream :: ofstream where
  "fresh_ofstream = \<lparr>out_file = [], out_buffer = [], out_good = True\<rparr>"

text \<open>From what the file holds and the waiting bytes: how many of these are moved, and success.\<close>

type_synonym device = "ByteVector \<Rightarrow> ByteVector \<Rightarrow> nat \<times> bool"

definition move_bytes :: "nat \<Rightarrow> ofstream \<Rightarrow> ofstream" where
  "move_bytes n os = os\<lparr>out_file := out_file os @ take n (out_buffer os), out_buffer := drop n (out_buffer os)\<rparr>"

definition ostream_write :: "device \<Rightarrow> ofstream \<Rightarrow> ByteVector \<Rightarrow> ofstream" where
  "ostream_write dev os bytes =
     (if out_good os then
        let os = os\<lparr>out_buffer := out_buffer os @ bytes\<rparr>;
            (n, success) = dev (out_file os) (out_buffer os)
        in (move_bytes n os)\<lparr>out_good := success\<rparr>
      else os)"

text \<open>A flush empties the buffer; one that fails moves what the device takes.\<close>

definition ostream_flush :: "device \<Rightarrow> bool \<Rightarrow> ofstream \<Rightarrow> ofstream" where
  "ostream_flush dev flush_ok os =
     (if \<not> out_good os then os
      else if flush_ok then move_bytes (length (out_buffer os)) os
      else (move_bytes (fst (dev (out_file os) (out_buffer os))) os)\<lparr>out_good := False\<rparr>)"

text \<open>All bytes the stream has taken.\<close>

definition stream_bytes :: "ofstream \<Rightarrow> ByteVector" where
  "stream_bytes os = out_file os @ out_buffer os"

record ifstream =
  in_rest :: ByteVector
  in_eof :: bool
  in_fail :: bool
  in_gcount :: nat

text \<open>\<open>std::istream::read\<close>: the bytes it stores into the caller's array.\<close>

definition istream_read :: "ifstream \<Rightarrow> nat \<Rightarrow> ifstream \<times> ByteVector" where
  "istream_read s n =
     (if in_eof s \<or> in_fail s then (s\<lparr>in_fail := True, in_gcount := 0\<rparr>, [])
      else let got = take n (in_rest s); short = length got < n
           in (s\<lparr>in_rest := drop n (in_rest s), in_eof := short, in_fail := short, in_gcount := length got\<rparr>, got))"

section \<open>The container\<close>

definition ReplayMagic :: ByteVector where
  "ReplayMagic = map byte_of_char ''STGF''"

definition ReplayFormatVersion :: u32 where
  "ReplayFormatVersion = 1"

definition ReplayLengthFieldSize :: nat where [wire_simps]:
  "ReplayLengthFieldSize = U32WireSize"

definition makeFileHeader :: ByteVector where
  "makeFileHeader = appendU32BE ReplayMagic ReplayFormatVersion"

definition FileHeader :: ByteVector where
  "FileHeader = makeFileHeader"

definition readExact :: "ifstream \<Rightarrow> nat \<Rightarrow> ifstream \<times> ByteVector result" where
  "readExact s n =
     (let (s, data) = istream_read s n
      in (s, if in_gcount s \<noteq> n then Inl (runtime_error ''unexpected end of replay file'') else Inr data))"

section \<open>Writer\<close>

type_synonym FrameFileWriter = ofstream

text \<open>The constructor opens with \<open>trunc\<close>; \<open>can_open\<close> is the file system's answer.\<close>

definition FrameFileWriter_ctor :: "bool \<Rightarrow> device \<Rightarrow> string \<Rightarrow> FrameFileWriter result" where
  "FrameFileWriter_ctor can_open dev path =
     (if \<not> can_open then Inl (runtime_error (''failed to open replay output file: '' @ path))
      else
        let out = ostream_write dev fresh_ofstream FileHeader in
        if \<not> out_good out then Inl (runtime_error ''failed while writing STGF replay header'')
        else Inr out)"

definition writeFrame :: "device \<Rightarrow> FrameFileWriter \<Rightarrow> ByteVector \<Rightarrow> FrameFileWriter \<times> unit result" where
  "writeFrame dev out frameBytes =
     (if length frameBytes < MinFrameSize \<or> length frameBytes > MaxFrameSize then
        (out, Inl (runtime_error ''refusing to write replay frame outside STGS frame size bounds''))
      else
        let len = appendU32BE [] (of_nat (length frameBytes));
            out = ostream_write dev out len;
            out = ostream_write dev out frameBytes
        in (out, if \<not> out_good out then Inl (runtime_error ''failed while writing replay frame'') else Inr ()))"

definition flush :: "device \<Rightarrow> bool \<Rightarrow> FrameFileWriter \<Rightarrow> FrameFileWriter \<times> unit result" where
  "flush dev flush_ok out =
     (let out = ostream_flush dev flush_ok out
      in (out, if \<not> out_good out then Inl (runtime_error ''failed while flushing replay file'') else Inr ()))"

text \<open>The destructor, for a stream without an error.\<close>

definition FrameFileWriter_dtor :: "device \<Rightarrow> bool \<Rightarrow> FrameFileWriter \<Rightarrow> FrameFileWriter" where
  "FrameFileWriter_dtor dev flush_ok out = (if out_good out then ostream_flush dev flush_ok out else out)"

text \<open>A recording session: the frames are written one after the other until a write throws.\<close>

fun write_frames :: "device \<Rightarrow> FrameFileWriter \<Rightarrow> ByteVector list \<Rightarrow> FrameFileWriter \<times> unit result" where
  "write_frames dev out [] = (out, Inr ())"
| "write_frames dev out (fr # frs) =
     (case writeFrame dev out fr of
        (out, Inl e) \<Rightarrow> (out, Inl e)
      | (out, Inr _) \<Rightarrow> write_frames dev out frs)"

section \<open>Reader\<close>

type_synonym FrameFileReader = ifstream

type_synonym file_system = "string \<Rightarrow> ByteVector option"

definition FrameFileReader_ctor :: "file_system \<Rightarrow> string \<Rightarrow> FrameFileReader result" where
  "FrameFileReader_ctor fs path =
     (case fs path of
        None \<Rightarrow> Inl (runtime_error (''failed to open replay input file: '' @ path))
      | Some contents \<Rightarrow>
          (case readExact \<lparr>in_rest = contents, in_eof = False, in_fail = False, in_gcount = 0\<rparr> (length FileHeader) of
             (s, Inl e) \<Rightarrow> Inl e
           | (s, Inr header) \<Rightarrow>
               if header \<noteq> FileHeader then Inl (runtime_error ''invalid or unsupported STGF replay file header'')
               else Inr s))"

text \<open>The reader's state is returned with the result, as the C++ object survives an exception.\<close>

definition readNext :: "FrameFileReader \<Rightarrow> (FrameFileReader \<times> ByteVector option result) option" where
  "readNext s =
     (let (s, lengthBytes) = istream_read s ReplayLengthFieldSize;
          bytesRead = in_gcount s
      in if bytesRead = 0 \<and> in_eof s then Some (s, Inr None)
         else if bytesRead \<noteq> ReplayLengthFieldSize then
           Some (s, Inl (runtime_error ''truncated frame length in replay file''))
         else do {
           len \<leftarrow> readU32BE lengthBytes 0;
           if unat len < MinFrameSize \<or> unat len > MaxFrameSize then
             Some (s, Inl (runtime_error ''invalid replay frame length''))
           else Some (case readExact s (unat len) of
               (s, Inl e) \<Rightarrow> (s, Inl e)
             | (s, Inr frame) \<Rightarrow> (s, Inr (Some frame)))
         })"

text \<open>A session: frames until the end of the file or the first exception. \<open>None\<close> stands for
  undefined behaviour or for a session that does not end within the fuel.\<close>

fun read_frames :: "nat \<Rightarrow> FrameFileReader \<Rightarrow> (ByteVector list \<times> unit result) option" where
  "read_frames 0 s = None"
| "read_frames (Suc k) s = do {
     (s, r) \<leftarrow> readNext s;
     (case r of
        Inl e \<Rightarrow> Some ([], Inl e)
      | Inr None \<Rightarrow> Some ([], Inr ())
      | Inr (Some frame) \<Rightarrow> do {
          (frames, e) \<leftarrow> read_frames k s;
          Some (frame # frames, e)
        })
   }"

definition read_file :: "ByteVector \<Rightarrow> (ByteVector list \<times> unit result) option" where
  "read_file contents =
     (case FrameFileReader_ctor (\<lambda>_. Some contents) '''' of
        Inl e \<Rightarrow> Some ([], Inl e)
      | Inr s \<Rightarrow> read_frames (Suc (length contents)) s)"

section \<open>Entries\<close>

definition frame_size_ok :: "ByteVector \<Rightarrow> bool" where
  "frame_size_ok fr \<longleftrightarrow> MinFrameSize \<le> length fr \<and> length fr \<le> MaxFrameSize"

definition entry :: "ByteVector \<Rightarrow> ByteVector" where
  "entry fr = be32 (of_nat (length fr)) @ fr"

definition capture :: "ByteVector list \<Rightarrow> ByteVector" where
  "capture frs = FileHeader @ concat (map entry frs)"

abbreviation at_rest :: "ByteVector \<Rightarrow> nat \<Rightarrow> ifstream" where
  "at_rest rest g \<equiv> \<lparr>in_rest = rest, in_eof = False, in_fail = False, in_gcount = g\<rparr>"

lemma length_FileHeader [simp]: "length FileHeader = 8"
  by (simp add: FileHeader_def makeFileHeader_def ReplayMagic_def codec_simps)

lemma frame_size_unat: "frame_size_ok fr \<Longrightarrow> unat (of_nat (length fr) :: u32) = length fr"
  by (simp add: frame_size_ok_def wire_simps unat_of_nat)

lemma istream_read_full:
  "n \<le> length rest \<Longrightarrow> istream_read (at_rest rest g) n = (at_rest (drop n rest) n, take n rest)"
  by (simp add: istream_read_def)

lemma istream_read_short:
  "length rest < n \<Longrightarrow>
   istream_read (at_rest rest g) n =
     (\<lparr>in_rest = [], in_eof = True, in_fail = True, in_gcount = length rest\<rparr>, rest)"
  by (simp add: istream_read_def)

lemma readExact_full: "n \<le> length rest \<Longrightarrow> readExact (at_rest rest g) n = (at_rest (drop n rest) n, Inr (take n rest))"
  by (simp add: readExact_def istream_read_full)

lemma readExact_short:
  "length rest < n \<Longrightarrow> \<exists>s. readExact (at_rest rest g) n = (s, Inl (runtime_error ''unexpected end of replay file''))"
  by (simp add: readExact_def istream_read_short)

text \<open>One entry of the file, in each of the ways it can stand there.\<close>

lemma readNext_end: "\<exists>s. readNext (at_rest [] g) = Some (s, Inr None)"
  by (simp add: readNext_def istream_read_short wire_simps)

lemma readNext_truncated_length:
  "rest \<noteq> [] \<Longrightarrow> length rest < 4 \<Longrightarrow>
   \<exists>s. readNext (at_rest rest g) = Some (s, Inl (runtime_error ''truncated frame length in replay file''))"
  by (simp add: readNext_def istream_read_short wire_simps)

lemma readNext_length:
  assumes "unat len = n"
  shows "readNext (at_rest (be32 len @ rest) g) =
    (if n < 27 \<or> 4123 < n then Some (at_rest rest 4, Inl (runtime_error ''invalid replay frame length''))
     else Some (case readExact (at_rest rest 4) n of
               (s, Inl e) \<Rightarrow> (s, Inl e)
             | (s, Inr frame) \<Rightarrow> (s, Inr (Some frame))))"
  using u32.read_enc [of "[]" len "[]"] assms
  by (simp add: readNext_def istream_read_full wire_simps)

lemma readNext_entry:
  "frame_size_ok fr \<Longrightarrow> readNext (at_rest (entry fr @ rest) g) = Some (at_rest rest (length fr), Inr (Some fr))"
  using readNext_length [OF frame_size_unat [of fr], of "fr @ rest" g]
  by (simp add: entry_def frame_size_ok_def wire_simps readExact_full)

text \<open>Every input is an entry, the end, or an error.\<close>

lemma readNext_cases:
  obtains (at_end) "rest = []"
  | (error) s e where "readNext (at_rest rest g) = Some (s, Inl (runtime_error e))" "rest \<noteq> []"
      "\<And>fr later. frame_size_ok fr \<Longrightarrow> rest \<noteq> entry fr @ later"
  | (one) fr later where "rest = entry fr @ later" "frame_size_ok fr"
proof -
  have no_entry: "\<And>fr later. frame_size_ok fr \<Longrightarrow> rest \<noteq> entry fr @ later"
    if "readNext (at_rest rest g) = Some (s, Inl e)" for s e
    using that by (auto simp: readNext_entry)
  consider "rest = []" | "rest \<noteq> []" "length rest < 4" | "4 \<le> length rest" by linarith
  then show ?thesis
  proof cases
    case 2
    then obtain s where "readNext (at_rest rest g) = Some (s, Inl (runtime_error ''truncated frame length in replay file''))"
      using readNext_truncated_length by blast
    with 2 no_entry error show ?thesis by blast
  next
    case 3
    then obtain len where "readU32BE rest 0 = Some len" using u32.read_defined [of 0 rest] by auto
    then have rest: "rest = be32 len @ drop 4 rest" using u32.drop_read [of rest 0] by simp
    define body where "body = drop 4 rest"
    have rest': "rest = be32 len @ body" using rest by (simp add: body_def)
    have nx: "readNext (at_rest rest g) =
      (if unat len < 27 \<or> 4123 < unat len then Some (at_rest body 4, Inl (runtime_error ''invalid replay frame length''))
       else Some (case readExact (at_rest body 4) (unat len) of
               (s, Inl e) \<Rightarrow> (s, Inl e)
             | (s, Inr frame) \<Rightarrow> (s, Inr (Some frame))))"
      using readNext_length [OF refl, of len body g] rest by (simp add: body_def)
    have ne: "rest \<noteq> []" using 3 by auto
    show ?thesis
    proof (cases "unat len < 27 \<or> 4123 < unat len \<or> length body < unat len")
      case True
      then obtain s e where "readNext (at_rest rest g) = Some (s, Inl (runtime_error e))"
        using nx readExact_short [of body "unat len" 4] by fastforce
      with ne no_entry error show ?thesis by blast
    next
      case False
      then have "rest = entry (take (unat len) body) @ drop (unat len) body"
        using rest' by (simp add: entry_def)
      moreover have "frame_size_ok (take (unat len) body)"
        using False by (simp add: frame_size_ok_def wire_simps)
      ultimately show ?thesis using one by blast
    qed
  qed (use at_end in blast)
qed

section \<open>Whole files\<close>

text \<open>The frames the reader delivers are the entries at the front of the file, and it stops
  without an error exactly when nothing but entries is there.\<close>

lemma read_frames_step_end: "read_frames (Suc k) (at_rest [] g) = Some ([], Inr ())"
  using readNext_end [of g] by auto

lemma read_frames_step_entry:
  "frame_size_ok fr \<Longrightarrow> read_frames (Suc k) (at_rest (entry fr @ later) g) =
     map_option (\<lambda>(frs, e). (fr # frs, e)) (read_frames k (at_rest later (length fr)))"
  by (cases "read_frames k (at_rest later (length fr))") (auto simp: readNext_entry)

lemma length_entry [simp]: "length (entry fr) = 4 + length fr"
  by (simp add: entry_def)

lemma read_frames_spec:
  "length rest < k \<Longrightarrow> \<exists>frs r junk. read_frames k (at_rest rest g) = Some (frs, r) \<and>
     list_all frame_size_ok frs \<and> rest = concat (map entry frs) @ junk \<and> (r = Inr () \<longleftrightarrow> junk = []) \<and>
     (\<forall>fr later. frame_size_ok fr \<longrightarrow> junk \<noteq> entry fr @ later) \<and>
     (\<forall>e. r = Inl e \<longrightarrow> (\<exists>m. e = runtime_error m))"
proof (induction k arbitrary: rest g)
  case (Suc k)
  show ?case
  proof (cases rule: readNext_cases [where rest = rest and g = g])
    case at_end
    then show ?thesis
      by (intro exI [of _ "[]"] exI [of _ "Inr ()"]) (simp add: read_frames_step_end entry_def be32_def
          del: read_frames.simps)
  next
    case (error s e)
    then show ?thesis
      by (intro exI [of _ "[]"] exI [of _ "Inl (runtime_error e)"] exI [of _ rest]) auto
  next
    case (one fr later)
    with Suc.prems have "length later < k" by simp
    from Suc.IH [OF this, of "length fr"] obtain frs r junk where
      "read_frames k (at_rest later (length fr)) = Some (frs, r)" "list_all frame_size_ok frs"
      "later = concat (map entry frs) @ junk" "r = Inr () \<longleftrightarrow> junk = []"
      "\<forall>fr later. frame_size_ok fr \<longrightarrow> junk \<noteq> entry fr @ later"
      "\<forall>e. r = Inl e \<longrightarrow> (\<exists>m. e = runtime_error m)" by blast
    with one show ?thesis
      by (intro exI [of _ "fr # frs"] exI [of _ r] exI [of _ junk])
        (simp add: read_frames_step_entry del: read_frames.simps)
  qed
qed simp

lemma entry_inject:
  assumes "frame_size_ok fr" "frame_size_ok gr" "entry fr @ xs = entry gr @ ys"
  shows "fr = gr \<and> xs = ys"
proof -
  from assms(3) have "be32 (of_nat (length fr)) = be32 (of_nat (length gr))" and rest: "fr @ xs = gr @ ys"
    by (simp_all add: entry_def)
  then have "(of_nat (length fr) :: u32) = of_nat (length gr)" by (rule_tac u32.enc_inject)
  then have "length fr = length gr" using frame_size_unat assms(1,2) by metis
  with rest show ?thesis by simp
qed

text \<open>A cut through a sequence of entries falls behind a prefix of them.\<close>

lemma entries_prefix:
  "list_all frame_size_ok frs \<Longrightarrow> list_all frame_size_ok grs \<Longrightarrow>
   concat (map entry frs) @ junk @ later = concat (map entry grs) \<Longrightarrow> prefix frs grs"
proof (induction frs arbitrary: grs)
  case (Cons fr frs)
  then obtain gr grs' where g: "grs = gr # grs'" by (cases grs) (auto simp: entry_def be32_def)
  with Cons.prems have "entry fr @ (concat (map entry frs) @ junk @ later) = entry gr @ concat (map entry grs')"
    by simp
  with Cons.prems g have "fr = gr" "concat (map entry frs) @ junk @ later = concat (map entry grs')"
    using entry_inject by auto
  with Cons.IH Cons.prems g show ?case by simp
qed simp

lemma read_file_header:
  "take 8 contents \<noteq> FileHeader \<Longrightarrow> \<exists>m. read_file contents = Some ([], Inl (runtime_error m))"
proof (cases "length contents < 8")
  case True
  then show ?thesis
    using readExact_short [of contents 8 0] by (auto simp: read_file_def FrameFileReader_ctor_def)
qed (auto simp: read_file_def FrameFileReader_ctor_def readExact_full)

lemma read_file_entries:
  "read_file (FileHeader @ rest) = read_frames (9 + length rest) (at_rest rest 8)"
  by (simp add: read_file_def FrameFileReader_ctor_def readExact_full)

lemma read_file_cases:
  obtains (bad_header) m where "read_file contents = Some ([], Inl (runtime_error m))" "take 8 contents \<noteq> FileHeader"
  | (entries) frs r junk where "read_file contents = Some (frs, r)" "list_all frame_size_ok frs"
      "contents = capture frs @ junk" "r = Inr () \<longleftrightarrow> junk = []"
      "\<forall>fr later. frame_size_ok fr \<longrightarrow> junk \<noteq> entry fr @ later" "\<forall>e. r = Inl e \<longrightarrow> (\<exists>m. e = runtime_error m)"
proof (cases "take 8 contents = FileHeader")
  case True
  then have c: "contents = FileHeader @ drop 8 contents" by (metis append_take_drop_id)
  have "length (drop 8 contents) < 9 + length (drop 8 contents)" by simp
  from read_frames_spec [OF this, of 8] show ?thesis
    using entries c read_file_entries [of "drop 8 contents"]
    by (metis append_assoc capture_def)
qed (use read_file_header bad_header in blast)

lemma read_file_iff:
  "read_file contents = Some (frs, Inr ()) \<longleftrightarrow> contents = capture frs \<and> list_all frame_size_ok frs"
proof
  assume "read_file contents = Some (frs, Inr ())"
  then show "contents = capture frs \<and> list_all frame_size_ok frs"
    by (cases contents rule: read_file_cases) auto
next
  assume c: "contents = capture frs \<and> list_all frame_size_ok frs"
  show "read_file contents = Some (frs, Inr ())"
  proof (cases contents rule: read_file_cases)
    case bad_header
    with c show ?thesis by (simp add: capture_def)
  next
    case (entries gs r junk)
    with c have eq: "concat (map entry gs) @ junk @ [] = concat (map entry frs)"
      by (simp add: capture_def)
    then obtain ms where ms: "frs = gs @ ms" using entries_prefix entries(2) c by (meson prefixE)
    with eq have "junk = concat (map entry ms)" by simp
    with entries(5) c ms have "ms = []" by (cases ms) auto
    with eq ms entries show ?thesis by simp
  qed
qed

section \<open>Recording\<close>

lemma move_bytes_simps [simp]:
  "stream_bytes (move_bytes n os) = stream_bytes os" "out_good (move_bytes n os) = out_good os"
  "stream_bytes (os\<lparr>out_good := g\<rparr>) = stream_bytes os" "stream_bytes fresh_ofstream = []" "out_good fresh_ofstream"
  "out_file (move_bytes (length (out_buffer os)) os) = stream_bytes os"
  by (simp_all add: move_bytes_def stream_bytes_def fresh_ofstream_def)

lemma out_file_prefix: "prefix (out_file os) (stream_bytes os)"
  by (simp add: stream_bytes_def)

text \<open>A stream without an error has taken everything, whether or not it is in the file yet; one with an error takes
  nothing.\<close>

lemma ostream_write_bytes: "out_good os \<Longrightarrow> stream_bytes (ostream_write dev os bytes) = stream_bytes os @ bytes"
  by (simp add: ostream_write_def Let_def split: prod.split) (simp add: stream_bytes_def)

lemma ostream_write_bad: "\<not> out_good os \<Longrightarrow> ostream_write dev os bytes = os"
  by (simp add: ostream_write_def)

lemma ostream_write_goodD:
  "out_good (ostream_write dev os bytes) \<Longrightarrow>
   out_good os \<and> stream_bytes (ostream_write dev os bytes) = stream_bytes os @ bytes"
  using ostream_write_bytes ostream_write_bad by (cases "out_good os") auto

lemma ostream_write_prefix: "prefix (stream_bytes os) (stream_bytes (ostream_write dev os bytes))"
  "prefix (stream_bytes (ostream_write dev os bytes)) (stream_bytes os @ bytes)"
  by (cases "out_good os"; simp add: ostream_write_bytes ostream_write_bad)+

lemma ostream_flush_bytes [simp]: "stream_bytes (ostream_flush dev b os) = stream_bytes os"
  by (simp add: ostream_flush_def)

lemma ostream_flush_good [simp]: "out_good os \<Longrightarrow> out_good (ostream_flush dev True os)"
  by (simp add: ostream_flush_def)

lemma ostream_flush_goodD:
  "out_good (ostream_flush dev b os) \<Longrightarrow> out_good os \<and> out_file (ostream_flush dev b os) = stream_bytes os"
  by (simp add: ostream_flush_def split: if_splits)

lemma writeFrame_okD:
  "writeFrame dev out fr = (out', Inr u) \<Longrightarrow>
   frame_size_ok fr \<and> out_good out' \<and> stream_bytes out' = stream_bytes out @ entry fr"
  by (auto simp: writeFrame_def Let_def frame_size_ok_def entry_def codec_simps
      dest!: ostream_write_goodD split: if_splits)

lemma prefix_longer: "prefix bs (xs @ ys) \<Longrightarrow> prefix bs (xs @ ys @ zs)"
  using prefix_prefix [of bs "xs @ ys" zs] by simp

lemma writeFrame_bytes:
  assumes "writeFrame dev out fr = (out', r)"
  shows "prefix (stream_bytes out') (stream_bytes out @ (if frame_size_ok fr then entry fr else []))"
proof (cases "frame_size_ok fr")
  case True
  let ?len = "appendU32BE [] (of_nat (length fr))"
  let ?o1 = "ostream_write dev out ?len"
  have out': "out' = ostream_write dev ?o1 fr"
    using assms True by (auto simp: writeFrame_def Let_def frame_size_ok_def split: if_splits)
  have e: "entry fr = ?len @ fr" by (simp add: entry_def codec_simps)
  show ?thesis
  proof (cases "out_good ?o1")
    case True
    with ostream_write_goodD [OF True] ostream_write_prefix(2) [of dev ?o1 fr] show ?thesis by (simp add: out' e \<open>frame_size_ok fr\<close>)
  next
    case False
    then have "stream_bytes out' = stream_bytes ?o1" by (simp add: out' ostream_write_bad)
    then have "prefix (stream_bytes out') (stream_bytes out @ ?len)" using ostream_write_prefix(2) by metis
    then show ?thesis using \<open>frame_size_ok fr\<close> prefix_longer by (simp add: e)
  qed
next
  case False
  with assms show ?thesis by (auto simp: writeFrame_def frame_size_ok_def)
qed

lemma write_frames_okD:
  "write_frames dev out frs = (out', Inr u) \<Longrightarrow>
   list_all frame_size_ok frs \<and> stream_bytes out' = stream_bytes out @ concat (map entry frs)"
proof (induction frs arbitrary: out)
  case (Cons fr frs)
  then show ?case by (auto dest!: writeFrame_okD split: prod.splits sum.splits)
qed simp

lemma write_frames_good: "write_frames dev out frs = (out', Inr u) \<Longrightarrow> out_good out \<Longrightarrow> out_good out'"
  by (induction frs arbitrary: out) (auto dest!: writeFrame_okD split: prod.splits sum.splits)

lemma write_frames_bytes:
  "write_frames dev out frs = (out', r) \<Longrightarrow>
   prefix (stream_bytes out') (stream_bytes out @ concat (map entry (takeWhile frame_size_ok frs)))"
proof (induction frs arbitrary: out)
  case (Cons fr frs)
  obtain o1 r1 where w: "writeFrame dev out fr = (o1, r1)" by fastforce
  show ?case
  proof (cases r1)
    case (Inl e)
    with Cons.prems w have "out' = o1" by simp
    with writeFrame_bytes [OF w] prefix_longer show ?thesis by (auto split: if_splits)
  next
    case (Inr x)
    from writeFrame_okD [OF w [unfolded Inr]] have "frame_size_ok fr" "stream_bytes o1 = stream_bytes out @ entry fr" by simp_all
    moreover have "write_frames dev o1 frs = (out', r)" using Cons.prems w Inr by simp
    ultimately show ?thesis using Cons.IH [of o1] by simp
  qed
qed simp

lemma ctor_okD: "FrameFileWriter_ctor ok dev path = Inr out \<Longrightarrow> stream_bytes out = FileHeader \<and> out_good out"
  by (auto simp: FrameFileWriter_ctor_def Let_def dest: ostream_write_goodD split: if_splits)

text \<open>Cutting a capture anywhere never corrupts what the reader delivers: from any prefix of
  the file it hands out a prefix of the recorded frames.\<close>

lemma read_cut_capture:
  assumes "list_all frame_size_ok frames"
  shows "\<exists>got r. read_file (take n (capture frames)) = Some (got, r) \<and> prefix got frames"
proof (cases "take n (capture frames)" rule: read_file_cases)
  case (entries got r junk)
  then have "FileHeader @ concat (map entry got) @ junk @ drop n (capture frames) = capture frames"
    by (metis append_assoc append_take_drop_id capture_def)
  then have "concat (map entry got) @ junk @ drop n (capture frames) = concat (map entry frames)"
    by (simp add: capture_def)
  with entries assms entries_prefix show ?thesis by blast
qed auto

lemma read_capture_prefix:
  assumes "prefix bs (capture (takeWhile frame_size_ok frames))"
  shows "\<exists>got r. read_file bs = Some (got, r) \<and> prefix got frames"
proof -
  let ?frs = "takeWhile frame_size_ok frames"
  have "bs = take (length bs) (capture ?frs)" using assms by (auto elim!: prefixE)
  moreover have "list_all frame_size_ok ?frs" by (auto simp: list_all_iff dest: set_takeWhileD)
  ultimately obtain got r where "read_file bs = Some (got, r)" "prefix got ?frs" using read_cut_capture by metis
  moreover have "prefix ?frs frames" using takeWhile_is_prefix .
  ultimately show ?thesis using prefix_order.trans by blast
qed

section \<open>Properties\<close>

text \<open>C16: whatever the device does, if creating the capture, writing the frames and the flush raised no
  error, then reading the file back delivers exactly those frames, in order, and ends normally. Before the flush,
  and after a write or a flush that failed, the file may lack what is still in the stream's buffer: reading
  it delivers a prefix of the frames. So it does when the writer is destroyed without a flush; then even
  the frames written without an error are all there only if the destructor's own flush, which is not
  reported, succeeded.\<close>

theorem replay_roundtrip:
  assumes "FrameFileWriter_ctor can_open dev path = Inr out"
    and "write_frames dev out frames = (out', r)" and "flush dev flush_ok out' = (out'', r')"
  shows "(r = Inr () \<longrightarrow> r' = Inr () \<longrightarrow> read_file (out_file out'') = Some (frames, Inr ())) \<and>
    (\<exists>got e. read_file (out_file out') = Some (got, e) \<and> prefix got frames) \<and>
    (\<exists>got e. read_file (out_file out'') = Some (got, e) \<and> prefix got frames) \<and>
    (let gone = FrameFileWriter_dtor dev flush_ok out' in
      (\<exists>got e. read_file (out_file gone) = Some (got, e) \<and> prefix got frames) \<and>
      (r = Inr () \<longrightarrow> flush_ok \<longrightarrow> read_file (out_file gone) = Some (frames, Inr ())))"
proof -
  let ?gone = "FrameFileWriter_dtor dev flush_ok out'"
  have gone: "stream_bytes ?gone = stream_bytes out'" by (simp add: FrameFileWriter_dtor_def)
  note start = ctor_okD [OF assms(1)]
  have fl: "out'' = ostream_flush dev flush_ok out'" "r' = Inr () \<longrightarrow> out_good out''"
    using assms(3) by (auto simp: flush_def Let_def split: if_splits)
  have "prefix (stream_bytes out') (capture (takeWhile frame_size_ok frames))"
    using write_frames_bytes [OF assms(2)] start by (simp add: capture_def)
  then have "prefix (out_file out') (capture (takeWhile frame_size_ok frames))"
    "prefix (out_file out'') (capture (takeWhile frame_size_ok frames))"
    "prefix (out_file ?gone) (capture (takeWhile frame_size_ok frames))"
    using out_file_prefix [of out'] out_file_prefix [of out''] out_file_prefix [of ?gone]
    by (auto simp: fl(1) gone intro: prefix_order.trans)
  moreover have "read_file (out_file ?gone) = Some (frames, Inr ())" if "r = Inr ()" flush_ok
  proof -
    note w = write_frames_okD [OF assms(2) [unfolded that(1)]] and good = write_frames_good [OF assms(2) [unfolded that(1)]]
    have "out_good (ostream_flush dev True out')" using good start by simp
    from ostream_flush_goodD [OF this] w good start that(2) show ?thesis
      by (simp add: FrameFileWriter_dtor_def read_file_iff capture_def)
  qed
  moreover have "read_file (out_file out'') = Some (frames, Inr ())" if "r = Inr ()" "r' = Inr ()"
    using write_frames_okD [of dev out frames out' "()"] assms(2) that start ostream_flush_goodD [of dev flush_ok out'] fl
    by (simp add: read_file_iff capture_def)
  ultimately show ?thesis using read_capture_prefix unfolding Let_def by blast
qed

text \<open>A device whose buffer never fills: nothing is in the file before the flush.\<close>

definition lazy_device :: device where
  "lazy_device file pending = (0, True)"

theorem replay_roundtrip_witness:
  "\<exists>out out' out''. FrameFileWriter_ctor True lazy_device ''c.stgf'' = Inr out \<and>
     write_frames lazy_device out [replicate 27 0, replicate 30 1] = (out', Inr ()) \<and>
     flush lazy_device True out' = (out'', Inr ()) \<and> out_file out' = [] \<and>
     read_file (out_file out'') = Some ([replicate 27 0, replicate 30 1], Inr ())"
proof -
  obtain out where out: "FrameFileWriter_ctor True lazy_device ''c.stgf'' = Inr out" "out_good out" "out_file out = []"
    by (simp add: FrameFileWriter_ctor_def ostream_write_def lazy_device_def fresh_ofstream_def move_bytes_def)
  obtain out' where out': "write_frames lazy_device out [replicate 27 0, replicate 30 1] = (out', Inr ())"
    "out_good out'" "out_file out' = []"
    using out(2,3) by (simp add: writeFrame_def ostream_write_def lazy_device_def move_bytes_def wire_simps Let_def)
  obtain out'' where out'': "flush lazy_device True out' = (out'', Inr ())"
    using out'(2) by (simp add: flush_def ostream_flush_def Let_def)
  from replay_roundtrip [OF out(1) out'(1) out''] out(1) out' out'' show ?thesis by blast
qed

text \<open>C17: the reader terminates on every file whatsoever, stops with a \<open>runtime_error\<close> or at
  the end of the file, hands out only frames within the STGS size bounds, and ends normally on a
  file exactly when that file is the capture of the frames it delivered: a truncated, padded or
  otherwise altered container never ends as a normal one.\<close>

theorem replay_reader_exact:
  "\<exists>frames r. read_file contents = Some (frames, r) \<and> list_all frame_size_ok frames \<and>
     (case r of Inl e \<Rightarrow> \<exists>m. e = runtime_error m | Inr _ \<Rightarrow> contents = capture frames) \<and>
     (\<forall>frs. contents = capture frs \<and> list_all frame_size_ok frs \<longleftrightarrow> frs = frames \<and> r = Inr ())"
proof (cases contents rule: read_file_cases)
  case (bad_header m)
  then show ?thesis using read_file_iff [of contents] by auto
next
  case (entries frs r junk)
  have "contents = capture fs \<and> list_all frame_size_ok fs \<longleftrightarrow> fs = frs \<and> r = Inr ()" for fs
    using read_file_iff [of contents fs] entries(1) by auto
  with entries show ?thesis by (intro exI [of _ frs] exI [of _ r]) (auto split: sum.splits)
qed

text \<open>Cutting a capture anywhere never corrupts what the reader delivers: from any prefix of
  the file it hands out a prefix of the recorded frames.\<close>

theorem replay_truncation:
  assumes "list_all frame_size_ok frames"
  shows "\<exists>got r. read_file (take n (capture frames)) = Some (got, r) \<and> prefix got frames"
  using read_cut_capture [OF assms] .

theorem replay_truncation_witness:
  "\<exists>got r. read_file (take 50 (capture [replicate 27 0, replicate 30 1])) = Some (got, r) \<and>
     prefix got [replicate 27 0, replicate 30 1]"
  by (rule replay_truncation) (simp add: frame_size_ok_def wire_simps)

end
