(* ===== verification/Logger.thy ===== *)
theory Logger
  imports Replay
begin

text \<open>
  Model of \<open>include/stgs/Logger.hpp\<close> and \<open>src/Logger.cpp\<close>: the levels, the threshold, and the
  lines that go to stdout, stderr and the optional log file. The mutex makes \<open>log\<close> atomic; the
  time stamp of \<open>nowIso8601\<close> is an argument.
\<close>

datatype LogLevel = Trace | Debug | Info | Warning | Error

definition level_int :: "LogLevel \<Rightarrow> int" where
  "level_int l = (case l of Trace \<Rightarrow> 0 | Debug \<Rightarrow> 1 | Info \<Rightarrow> 2 | Warning \<Rightarrow> 3 | Error \<Rightarrow> 4)"

definition logLevelToString :: "LogLevel \<Rightarrow> string" where
  "logLevelToString l = (case l of Trace \<Rightarrow> ''TRACE'' | Debug \<Rightarrow> ''DEBUG'' | Info \<Rightarrow> ''INFO'' | Warning \<Rightarrow> ''WARN'' | Error \<Rightarrow> ''ERROR'')"

definition parseLogLevel :: "string \<Rightarrow> LogLevel option" where
  "parseLogLevel v =
     (if v = ''trace'' then Some Trace
      else if v = ''debug'' then Some Debug
      else if v = ''info'' then Some Info
      else if v = ''warning'' \<or> v = ''warn'' then Some Warning
      else if v = ''error'' then Some Error
      else None)"

record Logger =
  log_file :: "ofstream option"
  minLevel :: LogLevel
  log_stdout :: "string list"
  log_stderr :: "string list"

text \<open>The constructor; \<open>can_open\<close> is the file system's answer, \<open>old\<close> what the file holds
  (it is opened for appending).\<close>

definition Logger_ctor :: "bool \<Rightarrow> ByteVector \<Rightarrow> string option \<Rightarrow> LogLevel \<Rightarrow> Logger result" where
  "Logger_ctor can_open old path level =
     (case path of
        None \<Rightarrow> Inr \<lparr>log_file = None, minLevel = level, log_stdout = [], log_stderr = []\<rparr>
      | Some p \<Rightarrow>
          if \<not> can_open then Inl (runtime_error (''failed to open log file: '' @ p))
          else Inr \<lparr>log_file = Some \<lparr>out_file = old, out_buffer = [], out_good = True\<rparr>, minLevel = level, log_stdout = [], log_stderr = []\<rparr>)"

definition setMinLevel :: "LogLevel \<Rightarrow> Logger \<Rightarrow> Logger" where
  "setMinLevel level l = l\<lparr>minLevel := level\<rparr>"

definition log_line :: "string \<Rightarrow> LogLevel \<Rightarrow> string \<Rightarrow> string" where
  "log_line now level msg = now @ '' ['' @ logLevelToString level @ ''] '' @ msg"

definition log :: "device \<Rightarrow> string \<Rightarrow> LogLevel \<Rightarrow> string \<Rightarrow> Logger \<Rightarrow> Logger" where
  "log dev now level msg l =
     (if level_int level < level_int (minLevel l) then l
      else
        let line = log_line now level msg;
            l = (if level_int level \<ge> level_int Warning then l\<lparr>log_stderr := log_stderr l @ [line]\<rparr>
                 else l\<lparr>log_stdout := log_stdout l @ [line]\<rparr>)
        in (case log_file l of
              None \<Rightarrow> l
            | Some f \<Rightarrow> if out_good f
                then l\<lparr>log_file := Some (ostream_write dev f (map byte_of_char (line @ [CHR 0x0A])))\<rparr> else l))"

end
