(* ===== verification/Text_Escape.thy ===== *)
theory Text_Escape
  imports Prelude
begin

text \<open>
  The text escapes of the station: \<open>csvEscape\<close> and \<open>jsonEscape\<close> of
  \<open>apps/ground_station/TelemetryOutput.cpp\<close> and \<open>sanitizeRemoteText\<close> of
  \<open>src/TerminalUi.cpp\<close>. The lemmas decode what the escapes produce with readers written
  from the formats (RFC 4180 quoted fields, JSON string bodies), and show that no control byte
  of a remote text reaches the terminal.
\<close>

section \<open>Escapes\<close>

abbreviation dquote :: char where "dquote \<equiv> CHR 0x22"
abbreviation backslash :: char where "backslash \<equiv> CHR 0x5C"

fun csvEscape_loop :: "string \<Rightarrow> string" where
  "csvEscape_loop [] = []"
| "csvEscape_loop (ch # s) = (if ch = dquote then [dquote, dquote] else [ch]) @ csvEscape_loop s"

definition csvEscape :: "string \<Rightarrow> string" where
  "csvEscape v = dquote # csvEscape_loop v @ [dquote]"

definition json_escape_char :: "char \<Rightarrow> string" where
  "json_escape_char ch =
     (if ch = dquote then [backslash, dquote]
      else if ch = backslash then [backslash, backslash]
      else if ch = CHR 0x08 then [backslash, CHR ''b'']
      else if ch = CHR 0x0C then [backslash, CHR ''f'']
      else if ch = CHR 0x0A then [backslash, CHR ''n'']
      else if ch = CHR 0x0D then [backslash, CHR ''r'']
      else if ch = CHR 0x09 then [backslash, CHR ''t'']
      else if of_char ch < (0x20 :: nat)
      then [backslash, CHR ''u''] @ pad_left 4 (CHR ''0'') (show_hex (of_char ch))
      else [ch])"

definition jsonEscape :: "string \<Rightarrow> string" where
  "jsonEscape v = concat (map json_escape_char v)"

text \<open>Upper-case hexadecimal output (\<open>std::uppercase\<close>).\<close>

definition upper_digit :: "char \<Rightarrow> char" where
  "upper_digit c = (if c \<in> set ''abcdef'' then char_of (of_char c - 32 :: nat) else c)"

definition sanitize_char :: "char \<Rightarrow> string" where
  "sanitize_char ch =
     (if ch = CHR 0x0A then [backslash, CHR ''n'']
      else if ch = CHR 0x0D then [backslash, CHR ''r'']
      else if ch = CHR 0x09 then [backslash, CHR ''t'']
      else if ch = CHR 0x1B then backslash # ''x1B''
      else if of_char ch < (0x20 :: nat) \<or> ch = CHR 0x7F
      then [backslash, CHR ''x''] @ pad_left 2 (CHR ''0'') (map upper_digit (show_hex (of_char ch)))
      else [ch])"

definition sanitizeRemoteText :: "string \<Rightarrow> string" where
  "sanitizeRemoteText v = concat (map sanitize_char v)"

section \<open>Readers of the formats\<close>

text \<open>A quoted CSV field: the value and what follows the closing quote.\<close>

fun csv_body :: "string \<Rightarrow> (string \<times> string) option" where
  "csv_body [] = None"
| "csv_body (c # s) =
     (if c = dquote
      then (case s of d # r \<Rightarrow> if d = dquote then map_option (\<lambda>(v, t). (dquote # v, t)) (csv_body r) else Some ([], s)
            | [] \<Rightarrow> Some ([], []))
      else map_option (\<lambda>(v, t). (c # v, t)) (csv_body s))"

fun csv_field :: "string \<Rightarrow> (string \<times> string) option" where
  "csv_field [] = None"
| "csv_field (c # s) = (if c = dquote then csv_body s else None)"

text \<open>The body of a JSON string: no raw control character or quote, the two-character escapes,
  and \<open>\u\<close> with four hexadecimal digits (below 256, a byte).\<close>

definition hex_char_value :: "char \<Rightarrow> nat option" where
  "hex_char_value c = find (\<lambda>d. digit_char d = c) [0..<16]"

definition json_short :: "char \<Rightarrow> char option" where
  "json_short c = map_of [(dquote, dquote), (backslash, backslash), (CHR ''/'', CHR ''/''), (CHR ''b'', CHR 0x08),
     (CHR ''f'', CHR 0x0C), (CHR ''n'', CHR 0x0A), (CHR ''r'', CHR 0x0D), (CHR ''t'', CHR 0x09)] c"

function json_body :: "string \<Rightarrow> string option" where
  "json_body [] = Some []"
| "json_body (c # s) =
     (if of_char c < (0x20 :: nat) \<or> c = dquote then None
      else if c \<noteq> backslash then map_option (Cons c) (json_body s)
      else case s of
          [] \<Rightarrow> None
        | d # r \<Rightarrow>
            if d = CHR ''u''
            then (case (if length r < 4 then [] else map hex_char_value (take 4 r)) of
                    [Some a, Some b, Some x, Some y] \<Rightarrow>
                      if 4096 * a + 256 * b + 16 * x + y < 256
                      then map_option (Cons (char_of (4096 * a + 256 * b + 16 * x + y))) (json_body (drop 4 r)) else None
                  | _ \<Rightarrow> None)
            else (case json_short d of None \<Rightarrow> None | Some e \<Rightarrow> map_option (Cons e) (json_body r)))"
  by pat_completeness auto
termination by (relation "measure length") auto


section \<open>What the readers return\<close>

lemma csv_body_escape: "rest = [] \<or> hd rest \<noteq> dquote \<Longrightarrow> csv_body (csvEscape_loop v @ dquote # rest) = Some (v, rest)"
proof (induction v)
  case Nil
  then show ?case by (cases rest) auto
next
  case (Cons c v)
  then show ?case by auto
qed

lemma hex_char_value_digit: "n < 16 \<Longrightarrow> hex_char_value (digit_char n) = Some n"
proof -
  have inj: "digit_char m = digit_char n \<longleftrightarrow> m = n" if "m < 16" "n < 16" for m n
    using that by (auto simp: digit_char_def char_of_eq_iff take_bit_eq_mod split: if_splits)
  assume n: "n < 16"
  have "find (\<lambda>d. digit_char d = digit_char n) [0..<16] = Some n"
    unfolding find_Some_iff using n by (intro exI [of _ n]) (auto simp: inj)
  then show ?thesis by (simp add: hex_char_value_def)
qed

lemma json_body_escape: "json_body (json_escape_char c @ s) = map_option (Cons c) (json_body s)"
proof -
  have u: "json_body ([backslash, CHR ''u''] @ pad_left 4 (CHR ''0'') (show_hex (of_char c)) @ s) = map_option (Cons c) (json_body s)"
    if c: "of_char c < (0x20 :: nat)"
  proof -
    let ?n = "of_char c :: nat"
    have zero: "digit_char 0 = CHR ''0''" by code_simp
    have "show_hex ?n = (if ?n < 16 then [digit_char ?n] else [digit_char (?n div 16), digit_char (?n mod 16)])"
      using c less_mult_imp_div_less [of ?n 16 16] by (simp add: show_base.simps)
    then have "pad_left 4 (CHR ''0'') (show_hex ?n) = [digit_char 0, digit_char 0, digit_char (?n div 16), digit_char (?n mod 16)]"
      using c zero by (simp add: pad_left_def numeral_3_eq_3 numeral_2_eq_2 del: One_nat_def)
    moreover have "16 * (?n div 16) + ?n mod 16 = ?n" by simp
    moreover have "?n div 16 < 16" using c by simp
    ultimately show ?thesis using c by (simp add: hex_char_value_digit)
  qed
  show ?thesis
    unfolding json_escape_char_def using u by (auto simp: json_short_def)
qed

lemma show_hex_digits: "d \<in> set (show_hex n) \<Longrightarrow> \<exists>k<16. d = digit_char k"
proof (induction n rule: less_induct)
  case (less n)
  show ?case
  proof (cases "n < 16")
    case True
    with less.prems show ?thesis by (auto simp: show_base.simps)
  next
    case False
    then have "d \<in> set (show_hex (n div 16)) \<or> d = digit_char (n mod 16)"
      using less.prems by (subst (asm) show_base.simps) auto
    moreover have "n div 16 < n" "n mod 16 < 16" using False by simp_all
    ultimately show ?thesis using less.IH [of "n div 16"] by blast
  qed
qed

text \<open>Bytes that do nothing on a terminal but show a glyph.\<close>

definition inert :: "char \<Rightarrow> bool" where
  "inert d \<longleftrightarrow> 0x20 \<le> (of_char d :: nat) \<and> d \<noteq> CHR 0x7F"

lemma inert_literals [simp]:
  "inert backslash" "inert CHR ''n''" "inert CHR ''r''" "inert CHR ''t''" "inert CHR ''x''" "inert CHR ''1''" "inert CHR ''B''" "inert CHR ''0''"
  by (simp_all add: inert_def)

lemma inert_upper_digit: "k < 16 \<Longrightarrow> inert (upper_digit (digit_char k))"
proof -
  assume "k < 16"
  then have "k = 0 \<or> k = 1 \<or> k = 2 \<or> k = 3 \<or> k = 4 \<or> k = 5 \<or> k = 6 \<or> k = 7 \<or> k = 8 \<or> k = 9 \<or>
    k = 10 \<or> k = 11 \<or> k = 12 \<or> k = 13 \<or> k = 14 \<or> k = 15" by presburger
  then show ?thesis
    by (elim disjE) (simp_all add: inert_def upper_digit_def digit_char_def char_of_def bit_0)
qed

lemma inert_hex: "list_all inert (pad_left n (CHR ''0'') (map upper_digit (show_hex m)))"
  using inert_upper_digit by (auto simp: pad_left_def list_all_iff dest!: show_hex_digits)

lemma sanitize_char_inert: "list_all inert (sanitize_char c)"
proof (cases "of_char c < (0x20 :: nat) \<or> c = CHR 0x7F")
  case True
  with inert_hex [of 2 "of_char c"] show ?thesis unfolding sanitize_char_def
    by (simp only: if_True list.pred_inject list_all_append inert_literals simp_thms split: if_split)
next
  case False
  then have "inert c" by (simp add: inert_def)
  with False show ?thesis unfolding sanitize_char_def
    by (simp only: if_False list.pred_inject list_all_append inert_literals simp_thms split: if_split)
qed

section \<open>Properties\<close>

text \<open>C31: The exported strings are faithful: a CSV reader recovers every escaped value from its
  quoted field, whatever follows that is not a quote, and a JSON reader recovers every escaped value
  from its string body.\<close>

theorem escapes_roundtrip:
  assumes "rest = [] \<or> hd rest \<noteq> dquote"
  shows "csv_field (csvEscape v @ rest) = Some (v, rest) \<and> json_body (jsonEscape v) = Some v"
proof
  show "csv_field (csvEscape v @ rest) = Some (v, rest)"
    using csv_body_escape [OF assms] by (simp add: csvEscape_def)
  show "json_body (jsonEscape v) = Some v"
    unfolding jsonEscape_def by (induction v) (simp_all add: json_body_escape)
qed

theorem escapes_roundtrip_witness:
  "csv_field (csvEscape (dquote # ''a'') @ '',b'') = Some (dquote # ''a'', '',b'')"
  using escapes_roundtrip [of "'',b''" "dquote # ''a''"] by simp

text \<open>Whatever text a satellite sends, what reaches the operator's terminal contains no control
  character: no byte below 0x20 (so no escape sequence, line feed or carriage return) and no DEL.\<close>

theorem sanitized_text_is_inert: "list_all (\<lambda>d. 0x20 \<le> (of_char d :: nat) \<and> d \<noteq> CHR 0x7F) (sanitizeRemoteText v)"
proof -
  have "list_all inert (sanitizeRemoteText v)"
    unfolding sanitizeRemoteText_def by (induction v) (simp_all add: sanitize_char_inert)
  then show ?thesis by (simp add: inert_def list_all_iff)
qed

end
