(* ===== verification/Telemetry_Output.thy ===== *)
theory Telemetry_Output
  imports Replay Text_Escape Float64
begin

text \<open>
  Model of \<open>apps/ground_station/TelemetryOutput.hpp\<close> and \<open>TelemetryOutput.cpp\<close>: the CSV
  and JSON export. The stream and its device are those of \<open>Replay.thy\<close>: a device says how many
  of the bytes waiting in the buffer reach the file, and whether a flush succeeds. The items a statement
  inserts one after the other are one write; a device may cut it anywhere.
\<close>

section \<open>The export\<close>

datatype OutputFormat = Fmt_Auto | Fmt_Csv | Fmt_Json

record TelemetryOutput =
  out_stream :: ofstream
  out_format :: OutputFormat
  firstJsonFrame :: bool
  finished :: bool

definition put :: "device \<Rightarrow> string \<Rightarrow> TelemetryOutput \<Rightarrow> TelemetryOutput" where
  "put dev s t = t\<lparr>out_stream := ostream_write dev (out_stream t) (map byte_of_char s)\<rparr>"

definition csv_header :: string where
  "csv_header = ''timestamp_ms,satellite_id,temperature_c,battery_percent,status,payload_len,payload_hex'' @ [CHR 0x0A]"

definition writeCsvHeader :: "device \<Rightarrow> TelemetryOutput \<Rightarrow> TelemetryOutput" where
  "writeCsvHeader dev t = put dev csv_header t"

definition writeJsonHeader :: "device \<Rightarrow> TelemetryOutput \<Rightarrow> TelemetryOutput" where
  "writeJsonHeader dev t = put dev (''['' @ [CHR 0x0A]) t"

text \<open>\<open>std::numeric_limits<float>::max_digits10\<close> is 9.\<close>

definition csv_row :: "TelemetryFrame \<Rightarrow> string" where
  "csv_row frame =
     show_nat (unat (timestampMs frame)) @ '','' @
     show_nat (unat (satelliteId frame)) @ '','' @
     show_f32_g 9 (temperatureC frame) @ '','' @
     show_nat (unat (batteryPercent frame)) @ '','' @
     statusToString (status frame) @ '','' @
     show_nat (length (payload frame)) @ '','' @
     csvEscape (payloadToHex (payload frame) (length (payload frame))) @ [CHR 0x0A]"

definition json_row :: "TelemetryFrame \<Rightarrow> string" where
  "json_row frame =
     ''  {'' @
     ''\"timestamp_ms\":'' @ show_nat (unat (timestampMs frame)) @ '','' @
     ''\"satellite_id\":'' @ show_nat (unat (satelliteId frame)) @ '','' @
     ''\"temperature_c\":'' @ show_f32_g 9 (temperatureC frame) @ '','' @
     ''\"battery_percent\":'' @ show_nat (unat (batteryPercent frame)) @ '','' @
     ''\"status\":\"'' @ jsonEscape (statusToString (status frame)) @ ''\",'' @
     ''\"payload_len\":'' @ show_nat (length (payload frame)) @ '','' @
     ''\"payload_hex\":\"'' @ jsonEscape (payloadToHex (payload frame) (length (payload frame))) @ ''\"'' @
     ''}''"

definition writeFrameCsv :: "device \<Rightarrow> TelemetryFrame \<Rightarrow> TelemetryOutput \<Rightarrow> TelemetryOutput" where
  "writeFrameCsv dev frame t = put dev (csv_row frame) t"

definition writeFrameJson :: "device \<Rightarrow> TelemetryFrame \<Rightarrow> TelemetryOutput \<Rightarrow> TelemetryOutput" where
  "writeFrameJson dev frame t =
     (let t = (if \<not> firstJsonFrame t then put dev ('','' @ [CHR 0x0A]) t else t)
      in (put dev (json_row frame) t)\<lparr>firstJsonFrame := False\<rparr>)"

definition TelemetryOutput_ctor :: "bool \<Rightarrow> device \<Rightarrow> string \<Rightarrow> OutputFormat \<Rightarrow> TelemetryOutput result" where
  "TelemetryOutput_ctor can_open dev path fmt =
     (if \<not> can_open then Inl (runtime_error (''failed to open output file: '' @ path))
      else
        let t = \<lparr>out_stream = fresh_ofstream, out_format = fmt, firstJsonFrame = True, finished = False\<rparr>
        in Inr (if fmt = Fmt_Json then writeJsonHeader dev t else writeCsvHeader dev t))"

definition output_write :: "device \<Rightarrow> TelemetryFrame \<Rightarrow> TelemetryOutput \<Rightarrow> TelemetryOutput \<times> exn option" where
  "output_write dev frame t =
     (let t = (if out_format t = Fmt_Json then writeFrameJson dev frame t else writeFrameCsv dev frame t)
      in (t, if \<not> out_good (out_stream t) then Some (runtime_error ''failed while writing telemetry output'') else None))"

definition output_finish :: "device \<Rightarrow> bool \<Rightarrow> TelemetryOutput \<Rightarrow> TelemetryOutput \<times> exn option" where
  "output_finish dev flush_ok t =
     (if finished t then (t, None)
      else
        let t = (if out_format t = Fmt_Json then put dev ([CHR 0x0A] @ '']'' @ [CHR 0x0A]) t else t);
            t = t\<lparr>out_stream := ostream_flush dev flush_ok (out_stream t)\<rparr>
        in if \<not> out_good (out_stream t)
           then (t, Some (runtime_error ''failed while flushing telemetry output''))
           else (t\<lparr>finished := True\<rparr>, None))"

text \<open>The frames of a session, until a write throws.\<close>

fun output_write_all :: "device \<Rightarrow> TelemetryFrame list \<Rightarrow> TelemetryOutput \<Rightarrow> TelemetryOutput \<times> exn option" where
  "output_write_all dev [] t = (t, None)"
| "output_write_all dev (f # fs) t =
     (case output_write dev f t of (t, Some e) \<Rightarrow> (t, Some e) | (t, None) \<Rightarrow> output_write_all dev fs t)"

section \<open>The document\<close>

text \<open>What the file should hold: a header line and one line per frame, or a JSON array of objects
  separated by commas.\<close>

fun json_items :: "TelemetryFrame list \<Rightarrow> string" where
  "json_items [] = []"
| "json_items [f] = json_row f"
| "json_items (f # fs) = json_row f @ '','' @ [CHR 0x0A] @ json_items fs"

definition open_document :: "OutputFormat \<Rightarrow> TelemetryFrame list \<Rightarrow> string" where
  "open_document fmt fs =
     (if fmt = Fmt_Json then ''['' @ [CHR 0x0A] @ json_items fs else csv_header @ concat (map csv_row fs))"

definition document :: "OutputFormat \<Rightarrow> TelemetryFrame list \<Rightarrow> string" where
  "document fmt fs = open_document fmt fs @ (if fmt = Fmt_Json then [CHR 0x0A] @ '']'' @ [CHR 0x0A] else [])"

definition doc_bytes :: "string \<Rightarrow> ByteVector" where
  "doc_bytes s = map byte_of_char s"

lemma doc_bytes_append [simp]: "doc_bytes (s @ t) = doc_bytes s @ doc_bytes t"
  by (simp add: doc_bytes_def)

lemma json_items_snoc: "json_items (fs @ [f]) = json_items fs @ (if fs = [] then [] else '','' @ [CHR 0x0A]) @ json_row f"
  by (induction fs rule: json_items.induct) simp_all

lemma open_document_snoc:
  "open_document fmt (fs @ [f]) = open_document fmt fs @
     (if fmt = Fmt_Json then (if fs = [] then [] else '','' @ [CHR 0x0A]) @ json_row f else csv_row f)"
  by (simp add: open_document_def json_items_snoc)

lemma open_document_prefix: "prefix (open_document fmt fs) (open_document fmt (fs @ gs))"
proof (induction gs rule: rev_induct)
  case (snoc g gs)
  have "prefix (open_document fmt (fs @ gs)) (open_document fmt ((fs @ gs) @ [g]))"
    unfolding open_document_snoc by (rule prefixI) (rule refl)
  with snoc show ?case by (metis append.assoc prefix_order.trans)
qed simp

lemma doc_bytes_prefix: "prefix s t \<Longrightarrow> prefix (doc_bytes s) (doc_bytes t)"
  by (auto elim!: prefixE)

text \<open>The state of the export after some frames: either everything is in the file or in the buffer, or the stream
  is bad and has taken a prefix.\<close>

definition export_inv :: "OutputFormat \<Rightarrow> TelemetryFrame list \<Rightarrow> TelemetryOutput \<Rightarrow> bool" where
  "export_inv fmt fs t \<longleftrightarrow> out_format t = fmt \<and> \<not> finished t \<and> (firstJsonFrame t \<longleftrightarrow> fmt \<noteq> Fmt_Json \<or> fs = []) \<and>
     (if out_good (out_stream t) then stream_bytes (out_stream t) = doc_bytes (open_document fmt fs)
      else prefix (stream_bytes (out_stream t)) (doc_bytes (open_document fmt fs)))"

lemma put_good:
  "out_good (out_stream (put dev s t)) \<Longrightarrow>
   out_good (out_stream t) \<and> stream_bytes (out_stream (put dev s t)) = stream_bytes (out_stream t) @ doc_bytes s"
  using ostream_write_goodD by (auto simp: put_def doc_bytes_def)

lemma put_prefix: "prefix (stream_bytes (out_stream (put dev s t))) (stream_bytes (out_stream t) @ doc_bytes s)"
  unfolding put_def doc_bytes_def using ostream_write_prefix(2) by simp

lemma put_bad: "\<not> out_good (out_stream t) \<Longrightarrow> put dev s t = t"
  by (cases t) (simp add: put_def ostream_write_def)

lemma put_other [simp]: "out_format (put dev s t) = out_format t" "finished (put dev s t) = finished t"
  "firstJsonFrame (put dev s t) = firstJsonFrame t"
  by (simp_all add: put_def)

text \<open>What a sequence of writes leaves: the text so far, cut somewhere if the device failed.\<close>

definition stream_at :: "string \<Rightarrow> TelemetryOutput \<Rightarrow> bool" where
  "stream_at s t \<longleftrightarrow> (if out_good (out_stream t) then stream_bytes (out_stream t) = doc_bytes s
     else prefix (stream_bytes (out_stream t)) (doc_bytes s))"

lemma stream_at_file: "stream_at s t \<Longrightarrow> prefix (out_file (out_stream t)) (doc_bytes s)"
  using out_file_prefix [of "out_stream t"] by (auto simp: stream_at_def split: if_splits intro: prefix_order.trans)

lemma stream_at_put:
  assumes "stream_at s t"
  shows "stream_at (s @ u) (put dev u t)"
proof (cases "out_good (out_stream t)")
  case True
  then have "stream_bytes (out_stream t) = doc_bytes s" using assms by (simp add: stream_at_def)
  then show ?thesis using put_prefix [of dev u t] by (auto simp: stream_at_def dest: put_good)
next
  case False
  then have "prefix (stream_bytes (out_stream t)) (doc_bytes s)" using assms by (simp add: stream_at_def)
  with False show ?thesis by (simp add: stream_at_def put_bad)
qed

lemma export_inv_alt:
  "export_inv fmt fs t \<longleftrightarrow> out_format t = fmt \<and> \<not> finished t \<and> (firstJsonFrame t \<longleftrightarrow> fmt \<noteq> Fmt_Json \<or> fs = []) \<and>
     stream_at (open_document fmt fs) t"
  by (simp add: export_inv_def stream_at_def)

lemma export_inv_ctor:
  assumes "TelemetryOutput_ctor can_open dev path fmt = Inr t"
  shows "export_inv fmt [] t"
proof -
  let ?t0 = "\<lparr>out_stream = fresh_ofstream, out_format = fmt, firstJsonFrame = True, finished = False\<rparr>"
  have "stream_at [] ?t0" by (simp add: stream_at_def doc_bytes_def)
  then have "stream_at ([] @ u) (put dev u ?t0)" for u by (rule stream_at_put)
  with assms show ?thesis
    by (auto simp: TelemetryOutput_ctor_def export_inv_alt writeJsonHeader_def writeCsvHeader_def open_document_def
        Let_def split: if_splits)
qed

lemma export_inv_write:
  assumes "export_inv fmt fs t" and "output_write dev f t = (t', r)"
  shows "export_inv fmt (fs @ [f]) t' \<and> (r = None \<longleftrightarrow> out_good (out_stream t'))"
proof -
  from assms(1) have st: "stream_at (open_document fmt fs) t" and t: "out_format t = fmt" "\<not> finished t"
    "firstJsonFrame t \<longleftrightarrow> fmt \<noteq> Fmt_Json \<or> fs = []" by (simp_all add: export_inv_alt)
  show ?thesis
  proof (cases "fmt = Fmt_Json")
    case False
    with assms(2) t have "t' = put dev (csv_row f) t" "r = None \<longleftrightarrow> out_good (out_stream t')"
      by (auto simp: output_write_def writeFrameCsv_def Let_def split: if_splits)
    with stream_at_put [OF st] t False show ?thesis by (simp add: export_inv_alt open_document_snoc)
  next
    case True
    let ?sep = "if fs = [] then [] else '','' @ [CHR 0x0A]"
    let ?t1 = "if \<not> firstJsonFrame t then put dev ('','' @ [CHR 0x0A]) t else t"
    have "stream_at (open_document fmt fs @ ?sep) ?t1"
      using stream_at_put [OF st] t(3) True st by auto
    from stream_at_put [OF this, of "json_row f"]
    have "stream_at (open_document fmt (fs @ [f])) (put dev (json_row f) ?t1)"
      by (simp add: open_document_snoc True)
    moreover from assms(2) t True have "t' = (put dev (json_row f) ?t1)\<lparr>firstJsonFrame := False\<rparr>"
      "r = None \<longleftrightarrow> out_good (out_stream t')"
      by (auto simp: output_write_def writeFrameJson_def Let_def split: if_splits)
    ultimately show ?thesis using t True by (simp add: export_inv_alt stream_at_def)
  qed
qed

lemma export_inv_write_all:
  assumes "export_inv fmt fs t" and "output_write_all dev gs t = (t', r)"
  shows "\<exists>n \<le> length gs. export_inv fmt (fs @ take n gs) t' \<and> (r = None \<longrightarrow> n = length gs)"
  using assms
proof (induction gs arbitrary: fs t)
  case (Cons g gs)
  obtain t1 r1 where w: "output_write dev g t = (t1, r1)" by fastforce
  note inv = export_inv_write [OF Cons.prems(1) w]
  show ?case
  proof (cases r1)
    case (Some e)
    with w Cons.prems(2) inv show ?thesis by (intro exI [of _ 1]) auto
  next
    case None
    with w Cons.prems(2) have "output_write_all dev gs t1 = (t', r)" by simp
    from Cons.IH [OF _ this, of "fs @ [g]"] inv obtain n where "n \<le> length gs"
      "export_inv fmt (fs @ g # take n gs) t'" "r = None \<longrightarrow> n = length gs" by auto
    then show ?thesis by (intro exI [of _ "Suc n"]) simp
  qed
qed auto

lemma output_finish_stream:
  assumes "stream_at s t" and "out_format t = fmt" and "\<not> finished t" and "output_finish dev flush_ok t = (t', r)"
  shows "stream_at (s @ (if fmt = Fmt_Json then [CHR 0x0A] @ '']'' @ [CHR 0x0A] else [])) t'"
    "r = None \<Longrightarrow> out_file (out_stream t') = doc_bytes (s @ (if fmt = Fmt_Json then [CHR 0x0A] @ '']'' @ [CHR 0x0A] else []))"
proof -
  let ?u = "if fmt = Fmt_Json then [CHR 0x0A] @ '']'' @ [CHR 0x0A] else []"
  let ?t1 = "if out_format t = Fmt_Json then put dev ([CHR 0x0A] @ '']'' @ [CHR 0x0A]) t else t"
  have t1: "stream_at (s @ ?u) ?t1" using stream_at_put [OF assms(1)] assms(1,2) by simp
  have t': "out_stream t' = ostream_flush dev flush_ok (out_stream ?t1)" and r: "r = None \<Longrightarrow> out_good (out_stream t')"
    using assms(3,4) by (auto simp: output_finish_def Let_def split: if_splits)
  have good: "out_good (out_stream t') \<Longrightarrow> out_good (out_stream ?t1) \<and> out_file (out_stream t') = stream_bytes (out_stream ?t1)"
    unfolding t' by (rule ostream_flush_goodD)
  with t1 show "stream_at (s @ ?u) t'" by (auto simp: stream_at_def t' split: if_splits)
  show "out_file (out_stream t') = doc_bytes (s @ ?u)" if "r = None"
    using good r that t1 by (simp add: stream_at_def)
qed

text \<open>C30: An export session that reports no error leaves exactly the document of its frames in the
  file, complete and in order, in either format; and whatever the device does, the file never holds
  anything but a prefix of that document.\<close>

theorem export_is_document:
  assumes "TelemetryOutput_ctor can_open dev path fmt = Inr t0" and "output_write_all dev fs t0 = (t1, r1)"
    and "output_finish dev flush_ok t1 = (t2, r2)"
  shows "(r1 = None \<longrightarrow> r2 = None \<longrightarrow> out_file (out_stream t2) = doc_bytes (document fmt fs)) \<and>
    prefix (out_file (out_stream t1)) (doc_bytes (document fmt fs)) \<and>
    (r1 = None \<longrightarrow> prefix (out_file (out_stream t2)) (doc_bytes (document fmt fs)))"
proof -
  obtain n where n: "export_inv fmt (take n fs) t1" "r1 = None \<longrightarrow> n = length fs"
    using export_inv_write_all [OF export_inv_ctor [OF assms(1)] assms(2)] by auto
  have "prefix (open_document fmt (take n fs)) (open_document fmt fs)"
    using open_document_prefix [of fmt "take n fs" "drop n fs"] by simp
  moreover have "prefix (open_document fmt fs) (document fmt fs)" unfolding document_def by (rule prefixI) (rule refl)
  ultimately have pre: "prefix (doc_bytes (open_document fmt (take n fs))) (doc_bytes (document fmt fs))"
    by (intro doc_bytes_prefix) (rule prefix_order.trans)
  have at1: "stream_at (open_document fmt (take n fs)) t1" and t1: "out_format t1 = fmt" "\<not> finished t1"
    using n(1) by (simp_all add: export_inv_alt)
  have p1: "prefix (out_file (out_stream t1)) (doc_bytes (document fmt fs))"
    using stream_at_file [OF at1] pre by (rule prefix_order.trans)
  note fin = output_finish_stream [OF at1 t1 assms(3), folded document_def]
  from fin n(2) have "r1 = None \<Longrightarrow> stream_at (document fmt fs) t2"
    "r1 = None \<Longrightarrow> r2 = None \<Longrightarrow> out_file (out_stream t2) = doc_bytes (document fmt fs)" by simp_all
  with p1 stream_at_file show ?thesis by blast
qed

text \<open>A device that accepts everything never makes a write fail.\<close>

definition good_device :: device where
  "good_device file pending = (length pending, True)"

lemma good_put: "out_good (out_stream t) \<Longrightarrow> out_good (out_stream (put good_device s t))"
  by (simp add: put_def ostream_write_def good_device_def Let_def)

lemma good_write:
  "out_good (out_stream t) \<Longrightarrow> \<exists>t'. output_write good_device f t = (t', None) \<and> out_good (out_stream t') \<and>
     out_format t' = out_format t \<and> finished t' = finished t"
  by (auto simp: output_write_def writeFrameJson_def writeFrameCsv_def Let_def good_put)

lemma good_write_all:
  "out_good (out_stream t) \<Longrightarrow> \<exists>t'. output_write_all good_device fs t = (t', None) \<and> out_good (out_stream t') \<and>
     out_format t' = out_format t \<and> finished t' = finished t"
proof (induction fs arbitrary: t)
  case (Cons f fs)
  from good_write [OF Cons.prems, of f] obtain t1 where t1: "output_write good_device f t = (t1, None)"
    "out_good (out_stream t1)" "out_format t1 = out_format t" "finished t1 = finished t" by blast
  from Cons.IH [OF t1(2)] t1 show ?case by auto
qed simp

theorem export_is_document_witness:
  "\<exists>t0 t1 t2. TelemetryOutput_ctor True good_device ''t.json'' Fmt_Json = Inr t0 \<and>
     output_write_all good_device [sample_frame, sample_frame] t0 = (t1, None) \<and>
     output_finish good_device True t1 = (t2, None) \<and>
     out_file (out_stream t2) = doc_bytes (document Fmt_Json [sample_frame, sample_frame])"
proof -
  obtain t0 where t0: "TelemetryOutput_ctor True good_device ''t.json'' Fmt_Json = Inr t0"
    and g0: "out_good (out_stream t0)"
    by (simp add: TelemetryOutput_ctor_def writeJsonHeader_def good_put)
  have f0: "out_format t0 = Fmt_Json" "\<not> finished t0" using export_inv_ctor [OF t0] by (simp_all add: export_inv_alt)
  obtain t1 where t1: "output_write_all good_device [sample_frame, sample_frame] t0 = (t1, None)"
    and g1: "out_good (out_stream t1)" "out_format t1 = Fmt_Json" "\<not> finished t1"
    using good_write_all [OF g0, of "[sample_frame, sample_frame]"] f0 by metis
  obtain t2 where t2: "output_finish good_device True t1 = (t2, None)"
    using g1 good_put [of t1] by (simp add: output_finish_def Let_def)
  from export_is_document [OF t0 t1 t2] t0 t1 t2 show ?thesis by blast
qed

end
