(* ===== verification/Float_Rounding.thy ===== *)
theory Float_Rounding
  imports Float_Arith
begin

text \<open>
  Rounding to the nearest representable number never leaves an interval whose ends are
  representable: for integers, for \<open>p\<close>-bit significands, for \<open>double\<close> results and
  for the conversion of a \<open>double\<close> to a \<open>float\<close>, whose bit pattern is shown to denote
  the rounded value. No error analysis is needed for bounds on sums and averages.
\<close>

section \<open>Rounding to an integer\<close>

lemma round_half_even_div:
  "0 < d \<Longrightarrow> n div d \<le> round_half_even n d \<and> round_half_even n d \<le> (if n mod d = 0 then n div d else n div d + 1)"
  by (auto simp: round_half_even_def Let_def)

lemma quotient_of_pos:
  assumes "0 \<le> q" obtains n d where "quotient_of q = (int n, int d)" "0 < d" "q = of_nat n / of_nat d"
proof -
  obtain n d where q: "quotient_of q = (n, d)" by fastforce
  have d: "0 < d" using quotient_of_denom_pos [OF q] .
  have e: "q = of_int n / of_int d" using quotient_of_div [OF q] .
  have n: "0 \<le> n" using assms d unfolding e by (simp add: zero_le_divide_iff)
  have q': "quotient_of q = (int (nat n), int (nat d))" using q n d by simp
  have "0 < nat d" using d by simp
  moreover have "q = of_nat (nat n) / of_nat (nat d)" using e n d by (simp add: of_nat_nat)
  ultimately show ?thesis using that q' by blast
qed

lemma round_rat_le: 
  assumes "0 \<le> q" "q \<le> of_nat N" shows "round_rat q \<le> N"
proof -
  obtain n d where q: "quotient_of q = (int n, int d)" "0 < d" "q = of_nat n / of_nat d"
    using quotient_of_pos [OF assms(1)] .
  have "(of_nat n :: rat) \<le> of_nat (N * d)" using assms(2) q(2,3) by (simp add: pos_divide_le_eq)
  then have le: "n \<le> N * d" unfolding of_nat_le_iff .
  then have "n div d \<le> N" using div_le_mono [OF le, of d] q(2) by simp
  moreover have "n div d < N" if "n mod d \<noteq> 0"
    using that le by (metis calculation le_neq_implies_less less_mult_imp_div_less mod_mult_self2_is_0 mult.commute)
  ultimately show ?thesis using round_half_even_div [OF q(2), of n] q(1) by (auto simp: round_rat_def split: if_splits)
qed

lemma round_rat_ge: 
  assumes "of_nat N \<le> q" shows "N \<le> round_rat q"
proof -
  have "0 \<le> q" using assms by (meson of_nat_0_le_iff order_trans)
  then obtain n d where q: "quotient_of q = (int n, int d)" "0 < d" "q = of_nat n / of_nat d"
    using quotient_of_pos by blast
  have "(of_nat (N * d) :: rat) \<le> of_nat n" using assms q(2,3) by (simp add: pos_le_divide_eq)
  then have le: "N * d \<le> n" unfolding of_nat_le_iff .
  then have "N \<le> n div d" using q(2) by (simp add: less_eq_div_iff_mult_less_eq)
  then show ?thesis using round_half_even_div [OF q(2), of n] q(1) by (simp add: round_rat_def)
qed

lemma round_rat_of_nat [simp]: "round_rat (of_nat N) = N"
  by (intro order.antisym round_rat_le round_rat_ge) simp_all

section \<open>The leading exponent\<close>

lemma two_powi_pos [simp]: "0 < (2 :: rat) powi k" "(2 :: rat) powi k \<noteq> 0"
  by simp_all

lemma two_powi_mono: "j \<le> k \<Longrightarrow> (2 :: rat) powi j \<le> 2 powi k"
  by (rule power_int_increasing) simp_all

lemma two_powi_less: "(2 :: rat) powi j < 2 powi k \<longleftrightarrow> j < k"
  using power_int_strict_increasing [of j k "2 :: rat"] two_powi_mono [of k j] by (meson leI not_le one_less_numeral_iff semiring_norm(76))

lemma two_powi_add: "(2 :: rat) powi (j + k) = 2 powi j * 2 powi k"
  by (simp add: power_int_add)

lemma two_powi_split: "j \<le> k \<Longrightarrow> (2 :: rat) powi k = of_nat (2 ^ nat (k - j)) * 2 powi j"
  using two_powi_add [of "k - j" j] by (simp add: power_int_def)

lemma powi_pred: "0 < a \<Longrightarrow> (2 :: rat) powi (int a - 1) = 2 ^ (a - 1)"
  by (simp flip: power_int_of_nat add: of_nat_diff)

lemma ilog2_bounds:
  assumes "0 < q" shows "2 powi ilog2 q \<le> q" "q < 2 powi (ilog2 q + 1)"
proof -
  obtain n d where q: "quotient_of q = (int n, int d)" "0 < d" "q = of_nat n / of_nat d"
    using quotient_of_pos [of q] assms by auto
  have n: "0 < n" using assms q(2,3) by (simp add: zero_less_divide_iff)
  define a b where "a = floorlog 2 n" and "b = floorlog 2 d"
  have an: "2 ^ (a - 1) \<le> n" "n < 2 ^ a" and bd: "2 ^ (b - 1) \<le> d" "d < 2 ^ b"
    using floorlog_bounds [of n 2] floorlog_bounds [of d 2] n q(2) by (simp_all add: a_def b_def)
  have pos: "0 < a" "0 < b" using an bd n q(2) by (auto intro!: gr0I)
  have anr: "2 powi (int a - 1) \<le> (of_nat n :: rat)" "(of_nat n :: rat) < 2 powi int a"
    and bdr: "2 powi (int b - 1) \<le> (of_nat d :: rat)" "(of_nat d :: rat) < 2 powi int b"
    using an bd powi_pred [OF pos(1)] powi_pred [OF pos(2)] by simp_all
  have up: "q < 2 powi (int a - int b + 1)"
  proof -
    have "q < 2 powi int a / 2 powi (int b - 1)"
      unfolding q(3) using anr bdr q(2) by (intro frac_less) simp_all
    also have "\<dots> = 2 powi (int a - (int b - 1))" by (simp add: power_int_diff)
    finally show ?thesis by (simp add: algebra_simps)
  qed
  have low: "2 powi (int a - int b - 1) \<le> q"
  proof -
    have "2 powi (int a - 1 - int b) = (2 :: rat) powi (int a - 1) / 2 powi int b" by (simp add: power_int_diff)
    also have "\<dots> \<le> q" unfolding q(3) using anr bdr q(2) by (intro frac_le) simp_all
    finally show ?thesis by (simp add: algebra_simps)
  qed
  have il: "ilog2 q = (if 2 powi (int a - int b) \<le> q then int a - int b else int a - int b - 1)"
    using q(1) by (simp add: ilog2_def a_def b_def Let_def)
  show "2 powi ilog2 q \<le> q" "q < 2 powi (ilog2 q + 1)"
    using up low by (auto simp: il)
qed

lemma ilog2_less: "0 < q \<Longrightarrow> q < 2 powi k \<Longrightarrow> ilog2 q < k"
  using ilog2_bounds(1) [of q] two_powi_less [of "ilog2 q" k] by linarith

lemma ilog2_ge: "0 < q \<Longrightarrow> 2 powi k \<le> q \<Longrightarrow> k \<le> ilog2 q"
  using ilog2_bounds(2) [of q] two_powi_less [of k "ilog2 q + 1"] by linarith

section \<open>Representable numbers\<close>

text \<open>Non-negative numbers with \<open>p\<close> significant bits and no bit below \<open>2 ^ emin\<close>.\<close>

definition repr :: "nat \<Rightarrow> int \<Rightarrow> rat \<Rightarrow> bool" where
  "repr p emin b \<longleftrightarrow> (\<exists>m j. b = of_nat m * 2 powi j \<and> m < 2 ^ p \<and> emin \<le> j)"

lemma reprI: "b = of_nat m * 2 powi j \<Longrightarrow> m < 2 ^ p \<Longrightarrow> emin \<le> j \<Longrightarrow> repr p emin b"
  unfolding repr_def by blast

lemma repr_nonneg: "repr p emin b \<Longrightarrow> 0 \<le> b"
  by (auto simp: repr_def)

text \<open>The unit in the last place of \<open>q\<close>.\<close>

definition ulp_exp :: "nat \<Rightarrow> int \<Rightarrow> rat \<Rightarrow> int" where
  "ulp_exp p emin q = max (ilog2 q - int p + 1) emin"

lemma round_bin_alt:
  "0 < q \<Longrightarrow> round_bin p emin q = of_nat (round_rat (q / 2 powi ulp_exp p emin q)) * 2 powi ulp_exp p emin q"
  by (simp add: round_bin_def ulp_exp_def Let_def)

text \<open>A representable number not above \<open>q\<close> is a multiple of the unit of \<open>q\<close> or below half of
  its binade; one not below \<open>q\<close> is a multiple.\<close>

lemma repr_multiple:
  assumes "repr p emin b" and "0 < q" and "2 powi ilog2 q \<le> b"
  obtains N where "b = of_nat N * 2 powi ulp_exp p emin q"
proof -
  from assms(1) obtain m j where b: "b = of_nat m * 2 powi j" "m < 2 ^ p" "emin \<le> j" by (auto simp: repr_def)
  have "ulp_exp p emin q \<le> j"
  proof (rule ccontr)
    assume "\<not> ?thesis"
    with b(3) have "j + int p \<le> ilog2 q" by (auto simp: ulp_exp_def)
    then have "2 powi (j + int p) \<le> (2 :: rat) powi ilog2 q" by (rule two_powi_mono)
    also have "\<dots> \<le> of_nat m * 2 powi j" using assms(3) b(1) by simp
    also have "\<dots> < 2 ^ p * 2 powi j" using b(2) by simp
    also have "\<dots> = 2 powi (j + int p)" by (simp add: two_powi_add)
    finally show False by simp
  qed
  from two_powi_split [OF this] b(1) have "b = of_nat (m * 2 ^ nat (j - ulp_exp p emin q)) * 2 powi ulp_exp p emin q"
    by simp
  with that show ?thesis by blast
qed

lemma round_bin_nonneg: "0 \<le> round_bin p emin q"
  by (simp add: round_bin_def Let_def)

lemma round_bin_le:
  assumes "repr p emin b" and "0 \<le> q" and "q \<le> b"
  shows "round_bin p emin q \<le> b"
proof (cases "q = 0")
  case False
  with assms(2) have q: "0 < q" by simp
  have "2 powi ilog2 q \<le> b" using ilog2_bounds(1) [OF q] assms(3) by simp
  then obtain N where N: "b = of_nat N * 2 powi ulp_exp p emin q" by (rule repr_multiple [OF assms(1) q])
  have "round_rat (q / 2 powi ulp_exp p emin q) \<le> N"
    using assms(3) q by (intro round_rat_le) (simp_all add: N pos_divide_le_eq)
  then show ?thesis unfolding round_bin_alt [OF q] N by simp
qed (use assms in \<open>simp add: round_bin_def\<close>)

lemma round_bin_ge:
  assumes "repr p emin b" and "b \<le> q" and "0 < p"
  shows "b \<le> round_bin p emin q"
proof (cases "q = 0")
  case True
  with assms show ?thesis by (simp add: round_bin_def)
next
  case False
  with assms(1,2) repr_nonneg have q: "0 < q" by force
  let ?k = "ulp_exp p emin q"
  show ?thesis
  proof (cases "2 powi ilog2 q \<le> b")
    case True
    then obtain N where N: "b = of_nat N * 2 powi ?k" by (rule repr_multiple [OF assms(1) q])
    have "N \<le> round_rat (q / 2 powi ?k)"
      using assms(2) by (intro round_rat_ge) (simp add: N pos_le_divide_eq)
    then show ?thesis unfolding round_bin_alt [OF q] N by simp
  next
    case False
    show ?thesis
    proof (cases "?k \<le> ilog2 q")
      case True
      let ?N = "2 ^ nat (ilog2 q - ?k) :: nat"
      have N: "2 powi ilog2 q = of_nat ?N * (2 :: rat) powi ?k" using two_powi_split [OF True] .
      have "?N \<le> round_rat (q / 2 powi ?k)"
        using ilog2_bounds(1) [OF q] N by (intro round_rat_ge) (simp add: pos_le_divide_eq)
      then have "(of_nat ?N :: rat) * 2 powi ?k \<le> of_nat (round_rat (q / 2 powi ?k)) * 2 powi ?k"
        by (intro mult_right_mono) simp_all
      then have "2 powi ilog2 q \<le> round_bin p emin q" unfolding round_bin_alt [OF q] N .
      with False show ?thesis by simp
    next
      case up: False
      with assms(3) have k: "?k = emin" by (auto simp: ulp_exp_def)
      from assms(1) obtain m j where b: "b = of_nat m * 2 powi j" "emin \<le> j" by (auto simp: repr_def)
      have "m = 0"
      proof (rule ccontr)
        assume "m \<noteq> 0"
        then have "2 powi j \<le> b" using b(1) by simp
        moreover have "b < 2 powi ilog2 q" using False by simp
        ultimately have "j < ilog2 q" using two_powi_less by (meson le_less_trans)
        with b(2) up k show False by simp
      qed
      with b(1) round_bin_nonneg q show ?thesis by simp
    qed
  qed
qed

lemma round_bin_exact: "repr p emin q \<Longrightarrow> 0 < p \<Longrightarrow> round_bin p emin q = q"
  using round_bin_le [of p emin q q] round_bin_ge [of p emin q q] repr_nonneg [of p emin q] by simp

lemma repr_round_bin:
  assumes "0 \<le> q" and "0 < p"
  shows "repr p emin (round_bin p emin q)"
proof (cases "q = 0")
  case True
  then show ?thesis by (intro reprI [of _ 0 emin]) (simp_all add: round_bin_def)
next
  case False
  with assms have q: "0 < q" by simp
  let ?k = "ulp_exp p emin q" and ?M = "round_rat (q / 2 powi ulp_exp p emin q)"
  have "q < 2 powi (ilog2 q + 1)" by (rule ilog2_bounds(2) [OF q])
  also have "\<dots> \<le> 2 powi (?k + int p)" by (rule two_powi_mono) (simp add: ulp_exp_def)
  finally have "?M \<le> 2 ^ p" using q by (intro round_rat_le) (simp_all add: pos_divide_le_eq two_powi_add mult.commute)
  show ?thesis
  proof (cases "?M = 2 ^ p")
    case False
    with \<open>?M \<le> 2 ^ p\<close> show ?thesis by (intro reprI [of _ ?M ?k] round_bin_alt q) (simp_all add: ulp_exp_def)
  next
    case True
    have "round_bin p emin q = of_nat (2 ^ (p - 1)) * 2 powi (?k + 1)"
      unfolding round_bin_alt [OF q] True using assms(2) by (cases p) (simp_all add: two_powi_add)
    then show ?thesis using assms(2) by (intro reprI [of _ "2 ^ (p - 1)" "?k + 1"]) (simp_all add: ulp_exp_def)
  qed
qed

section \<open>Doubles\<close>

definition d_repr :: "rat \<Rightarrow> bool" where
  "d_repr b \<longleftrightarrow> repr 53 (- 1074) \<bar>b\<bar> \<and> \<bar>b\<bar> < 2 ^ 1024"

text \<open>Rounding never leaves an interval with representable ends.\<close>

lemma round_double_between:
  assumes "d_repr a" "d_repr b" "a \<le> q" "q \<le> b"
  shows "\<exists>r. round_double q = Fin r \<and> a \<le> r \<and> r \<le> b"
proof -
  have ab: "repr 53 (- 1074) \<bar>a\<bar>" "\<bar>a\<bar> < 2 ^ 1024" "repr 53 (- 1074) \<bar>b\<bar>" "\<bar>b\<bar> < 2 ^ 1024"
    using assms by (auto simp: d_repr_def)
  let ?r = "round_bin 53 (- 1074) \<bar>q\<bar>"
  have r0: "0 \<le> ?r" by (simp add: round_bin_nonneg)
  show ?thesis
  proof (cases "q < 0")
    case True
    have "?r \<le> \<bar>a\<bar>" using True assms(3) by (intro round_bin_le ab) simp_all
    moreover have "- b \<le> ?r"
    proof (cases "b \<le> 0")
      case True
      then have "\<bar>b\<bar> \<le> ?r" using assms(4) by (intro round_bin_ge ab) simp_all
      with True show ?thesis by simp
    qed (use r0 in linarith)
    ultimately show ?thesis using True assms(3) ab by (auto simp: round_double_def Let_def)
  next
    case False
    have "?r \<le> \<bar>b\<bar>" using False assms(4) by (intro round_bin_le ab) simp_all
    moreover have "a \<le> ?r"
    proof (cases "0 \<le> a")
      case True
      then have "\<bar>a\<bar> \<le> ?r" using assms(3) by (intro round_bin_ge ab) simp_all
      with True show ?thesis by simp
    qed (use r0 in linarith)
    ultimately show ?thesis using False assms(4) ab by (auto simp: round_double_def Let_def)
  qed
qed

lemma round_double_exact: "d_repr q \<Longrightarrow> round_double q = Fin q"
  using round_double_between [of q q q] by auto

section \<open>Single precision\<close>

definition f32_value :: "float32 \<Rightarrow> rat" where
  "f32_value w = of_int (f32_scaled w) / 2 ^ 150"

lemma f32_to_double_finite: "isfinite w \<Longrightarrow> f32_to_double w = Fin (f32_value w)"
  by (simp add: f32_to_double_def f32_value_def isfinite_not_nan)

lemma f32_exponent_less: "f32_exponent w < 256"
  using word_and_le1 [of "drop_bit 23 w" "0xFF"]
  by (simp add: f32_exponent_def word_le_nat_alt)

lemma f32_fraction_less: "f32_fraction w < 2 ^ 23"
  using word_and_le1 [of w "0x7FFFFF"] by (simp add: f32_fraction_def word_le_nat_alt)

lemma abs_f32_value: "\<bar>f32_value w\<bar> = of_nat (f32_magnitude w) / 2 ^ 150"
  by (simp add: f32_value_def f32_scaled_def)

lemma f32_magnitude_cases:
  obtains m e where "f32_magnitude w = m * 2 ^ e" "m < 2 ^ 24" "1 \<le> e" "e = max 1 (f32_exponent w)"
proof (cases "f32_exponent w = 0")
  case True
  with that [of "f32_fraction w" 1] f32_fraction_less [of w] show ?thesis by (simp add: f32_magnitude_def)
next
  case False
  with that [of "2 ^ 23 + f32_fraction w" "f32_exponent w"] f32_fraction_less [of w] show ?thesis
    by (simp add: f32_magnitude_def)
qed

lemma powi_150: "(2 :: rat) ^ e / 2 ^ 150 = 2 powi (int e - 150)"
  by (simp add: power_int_diff)

lemma abs_f32_value_cases:
  obtains m e where "\<bar>f32_value w\<bar> = of_nat m * 2 powi (int e - 150)" "m < 2 ^ 24" "1 \<le> e" "e = max 1 (f32_exponent w)"
proof -
  obtain m e where m: "f32_magnitude w = m * 2 ^ e" "m < 2 ^ 24" "1 \<le> e" "e = max 1 (f32_exponent w)"
    by (rule f32_magnitude_cases)
  have "\<bar>f32_value w\<bar> = of_nat m * (2 ^ e / 2 ^ 150)" by (simp add: abs_f32_value m(1))
  then show ?thesis using that [of m e] m(2-) unfolding powi_150 by blast
qed

lemma f32_value_repr: "repr 24 (- 149) \<bar>f32_value w\<bar>"
proof -
  obtain m e where "\<bar>f32_value w\<bar> = of_nat m * 2 powi (int e - 150)" "m < 2 ^ 24" "1 \<le> e"
    by (rule abs_f32_value_cases)
  then show ?thesis by (intro reprI [of _ m "int e - 150"]) simp_all
qed

lemma f32_value_less:
  assumes "isfinite w" shows "\<bar>f32_value w\<bar> < 2 ^ 128"
proof -
  obtain m e where m: "\<bar>f32_value w\<bar> = of_nat m * 2 powi (int e - 150)" "m < 2 ^ 24" "1 \<le> e" "e = max 1 (f32_exponent w)"
    by (rule abs_f32_value_cases)
  have "e \<le> 254" using assms f32_exponent_less [of w] m(4) by (simp add: isfinite_def)
  then have "(2 :: rat) powi (int e - 150) \<le> 2 powi 104" by (intro two_powi_mono) simp
  moreover have "(of_nat m :: rat) < 2 ^ 24" using m(2) by simp
  ultimately have "of_nat m * 2 powi (int e - 150) < (2 :: rat) ^ 24 * 2 powi 104"
    by (intro mult_less_le_imp_less) simp_all
  then show ?thesis by (simp add: m(1))
qed

text \<open>Small multiples of a \<open>float\<close> are exact in \<open>double\<close>.\<close>

lemma d_repr_multiple:
  assumes "isfinite w" and "n < 2 ^ 29"
  shows "d_repr (of_nat n * f32_value w)"
proof -
  obtain m e where m: "\<bar>f32_value w\<bar> = of_nat m * 2 powi (int e - 150)" "m < 2 ^ 24" "1 \<le> e"
    by (rule abs_f32_value_cases)
  have "n * m \<le> 2 ^ 29 * m" using assms(2) by simp
  also have "\<dots> < 2 ^ 53" using m(2) by simp
  finally have "repr 53 (- 1074) \<bar>of_nat n * f32_value w\<bar>"
    using m(1,3) by (intro reprI [of _ "n * m" "int e - 150"]) (simp_all add: abs_mult)
  moreover have "\<bar>of_nat n * f32_value w\<bar> < 2 ^ 29 * 2 ^ 128"
    using f32_value_less [OF assms(1)] assms(2) unfolding abs_mult
    by (intro mult_strict_mono) simp_all
  then have "\<bar>of_nat n * f32_value w\<bar> < 2 ^ 1024" by (rule less_trans) simp
  ultimately show ?thesis by (simp add: d_repr_def)
qed

section \<open>Encoding a float\<close>

lemma f32_word:
  assumes "e < 256" "f < 2 ^ 23"
  shows "f32_exponent (of_nat (e * 2 ^ 23 + f)) = e" "f32_fraction (of_nat (e * 2 ^ 23 + f)) = f"
    "\<not> f32_negative (of_nat (e * 2 ^ 23 + f))"
proof -
  let ?n = "e * 2 ^ 23 + f" let ?w = "of_nat ?n :: float32"
  have n: "?n < 2 ^ 31" using assms by simp
  then have u: "unat ?w = ?n" by (simp only: unat_of_nat) (simp add: take_bit_nat_eq_self)
  have "unat (drop_bit 23 ?w AND 0xFF) = (?n div 2 ^ 23) mod 2 ^ 8"
  proof -
    have "drop_bit 23 ?w AND 0xFF = take_bit 8 (drop_bit 23 ?w)" by (simp add: take_bit_eq_mask mask_eq_exp_minus_1)
    also have "unat \<dots> = take_bit 8 (drop_bit 23 (unat ?w))" by (simp add: unsigned_take_bit_eq unat_drop_bit_eq)
    finally show ?thesis by (simp only: u take_bit_eq_mod drop_bit_eq_div)
  qed
  also have "\<dots> = e" using assms by simp
  finally show "f32_exponent ?w = e" by (simp only: f32_exponent_def)
  have "unat (?w AND 0x7FFFFF) = ?n mod 2 ^ 23"
  proof -
    have "?w AND 0x7FFFFF = take_bit 23 ?w" by (simp add: take_bit_eq_mask mask_eq_exp_minus_1)
    also have "unat \<dots> = take_bit 23 (unat ?w)" by (simp add: unsigned_take_bit_eq)
    finally show ?thesis by (simp only: u take_bit_eq_mod)
  qed
  also have "\<dots> = f" using assms by simp
  finally show "f32_fraction ?w = f" by (simp only: f32_fraction_def)
  have "bit (unat ?w) 31 = bit ?w 31" by (simp add: bit_unsigned_iff)
  moreover have "\<not> bit ?n 31" using n by (simp add: bit_iff_odd)
  ultimately show "\<not> f32_negative ?w" unfolding f32_negative_def u by simp
qed

lemma f32_magnitude_word:
  assumes "e < 256" "f < 2 ^ 23"
  shows "f32_magnitude (of_nat (e * 2 ^ 23 + f)) = (if e = 0 then 2 * f else (2 ^ 23 + f) * 2 ^ e)"
  unfolding f32_magnitude_def f32_word [OF assms] by (rule refl)

lemma f32_value_word:
  assumes "e < 256" "f < 2 ^ 23"
  shows "f32_value (of_nat (e * 2 ^ 23 + f)) =
    (if e = 0 then of_nat f * 2 powi (- 149) else of_nat (2 ^ 23 + f) * 2 powi (int e - 150))"
proof -
  have "f32_value (of_nat (e * 2 ^ 23 + f)) = of_nat (if e = 0 then 2 * f else (2 ^ 23 + f) * 2 ^ e) / 2 ^ 150"
    unfolding f32_value_def f32_scaled_def f32_magnitude_word [OF assms] using f32_word(3) [OF assms] by simp
  also have "\<dots> = (if e = 0 then of_nat f * 2 powi (- 149) else of_nat (2 ^ 23 + f) * 2 powi (int e - 150))"
    by (auto simp: power_int_diff power_int_minus_divide simp del: power_int_numeral_neg_numeral)
  finally show ?thesis .
qed

lemma f32_encode_steps:
  assumes "repr 24 (- 149) r" and "r < 2 ^ 128" and r: "0 < r"
  obtains M e where "r = of_nat M * 2 powi (e - 23)" "M < 2 ^ 24" "- 126 \<le> e" "e \<le> 127"
    "M < 2 ^ 23 \<longrightarrow> e = - 126"
    "f32_encode r = (if M < 2 ^ 23 then of_nat M else of_nat (nat (e + 127) * 2 ^ 23 + (M - 2 ^ 23)))"
proof -
  define e where "e = max (ilog2 r) (- 126)"
  have k: "ulp_exp 24 (- 149) r = e - 23" by (simp add: ulp_exp_def e_def)
  obtain M where M: "r = of_nat M * 2 powi (e - 23)"
    using repr_multiple [OF assms(1) r ilog2_bounds(1) [OF r]] unfolding k .
  have m: "round_rat (r / 2 powi (e - 23)) = M" by (simp add: M)
  have e: "- 126 \<le> e" "e \<le> 127" using ilog2_less [OF r, of 128] assms(2) by (simp_all add: e_def)
  have "r < 2 powi (e + 1)"
    using ilog2_bounds(2) [OF r] two_powi_mono [of "ilog2 r + 1" "e + 1"] by (simp add: e_def)
  also have "\<dots> = 2 ^ 24 * 2 powi (e - 23)" using two_powi_add [of 24 "e - 23"] by (simp add: add.commute)
  finally have M24: "M < 2 ^ 24" unfolding M by simp
  have "e = - 126" if "M < 2 ^ 23"
  proof -
    have "r < 2 ^ 23 * 2 powi (e - 23)" using that unfolding M by simp
    also have "\<dots> = 2 powi e" using two_powi_add [of 23 "e - 23"] by simp
    finally show ?thesis using ilog2_less [OF r, of e] by (auto simp: e_def max_def split: if_splits)
  qed
  moreover have "f32_encode r = (if M < 2 ^ 23 then of_nat M else of_nat (nat (e + 127) * 2 ^ 23 + (M - 2 ^ 23)))"
    unfolding f32_encode_def e_def [symmetric] Let_def m using r by (simp only: less_irrefl if_False split: if_split) simp
  ultimately show ?thesis using that M M24 e by blast
qed

lemma f32_encode_correct:
  assumes "repr 24 (- 149) r" and "r < 2 ^ 128"
  shows "isfinite (f32_encode r) \<and> \<not> f32_negative (f32_encode r) \<and> f32_value (f32_encode r) = r"
proof (cases "r = 0")
  case True
  then show ?thesis
    by (simp add: f32_encode_def isfinite_def f32_exponent_def f32_negative_def f32_value_def f32_scaled_def
        f32_magnitude_def f32_fraction_def)
next
  case False
  with repr_nonneg [OF assms(1)] have r: "0 < r" by simp
  obtain M e where M: "r = of_nat M * 2 powi (e - 23)" "M < 2 ^ 24" and e: "- 126 \<le> e" "e \<le> 127"
    and low: "M < 2 ^ 23 \<longrightarrow> e = - 126"
    and enc: "f32_encode r = (if M < 2 ^ 23 then of_nat M else of_nat (nat (e + 127) * 2 ^ 23 + (M - 2 ^ 23)))"
    by (rule f32_encode_steps [OF assms r])
  show ?thesis
  proof (cases "M < 2 ^ 23")
    case True
    have v: "r = of_nat M * 2 powi (- 149)" using M(1) low True by simp
    have w: "f32_encode r = of_nat (0 * 2 ^ 23 + M)" using enc True by simp
    have "f32_value (f32_encode r) = of_nat M * 2 powi (- 149)" unfolding w using f32_value_word [OF _ True, of 0] by simp
    then have "f32_value (f32_encode r) = r" using v by (rule trans [OF _ sym])
    moreover have "isfinite (f32_encode r)" unfolding w isfinite_def using f32_word(1) [OF _ True, of 0] by simp
    moreover have "\<not> f32_negative (f32_encode r)" unfolding w using f32_word(3) [OF _ True, of 0] by simp
    ultimately show ?thesis by simp
  next
    case False
    define E where "E = nat (e + 127)"
    have E: "0 < E" "E < 255" "e = int E - 127" using e by (auto simp: E_def)
    have w: "f32_encode r = of_nat (E * 2 ^ 23 + (M - 2 ^ 23))" using enc False by (simp only: E_def if_False)
    have f: "E < 256" "M - 2 ^ 23 < 2 ^ 23" "2 ^ 23 + (M - 2 ^ 23) = M" using E M(2) False by auto
    have "f32_value (f32_encode r) = of_nat M * 2 powi (int E - 150)"
      unfolding w f32_value_word [OF f(1,2)] f(3) using E(1) by simp
    also have "\<dots> = r" using M(1) E(3) by (simp add: algebra_simps)
    finally show ?thesis using f32_word [OF f(1,2)] E(2) unfolding w isfinite_def by simp
  qed
qed

lemma f32_pack_negative:
  assumes "\<not> f32_negative w"
  shows "isfinite (f32_pack s w) \<longleftrightarrow> isfinite w" "f32_value (f32_pack s w) = (if s then - f32_value w else f32_value w)"
proof -
  let ?v = "w OR 0x80000000"
  have "drop_bit 23 (0x80000000 :: float32) AND 0xFF = 0" by (simp add: drop_bit_eq_div)
  then have e: "f32_exponent ?v = f32_exponent w"
    by (simp add: f32_exponent_def drop_bit_or bit.conj_disj_distrib2)
  have f: "f32_fraction ?v = f32_fraction w" by (simp add: f32_fraction_def bit.conj_disj_distrib2)
  have "bit (0x80000000 :: float32) 31" by (simp add: bit_iff_odd)
  then have n: "f32_negative ?v" by (simp add: f32_negative_def bit_or_iff)
  show "isfinite (f32_pack s w) \<longleftrightarrow> isfinite w" "f32_value (f32_pack s w) = (if s then - f32_value w else f32_value w)"
    using assms by (simp_all add: f32_pack_def isfinite_def f32_value_def f32_scaled_def f32_magnitude_def e f n)
qed

text \<open>The conversion from \<open>double\<close> never leaves an interval of \<open>float\<close> ends either.\<close>

lemma double_to_f32_between:
  assumes ab: "isfinite a" "isfinite b" "f32_value a \<le> q" "q \<le> f32_value b"
  shows "isfinite (double_to_f32 (Fin q)) \<and> f32_value a \<le> f32_value (double_to_f32 (Fin q)) \<and>
    f32_value (double_to_f32 (Fin q)) \<le> f32_value b"
proof -
  let ?r = "round_bin 24 (- 149) \<bar>q\<bar>"
  have lim: "?r < 2 ^ 128"
  proof (cases "q < 0")
    case True
    then have "?r \<le> \<bar>f32_value a\<bar>" using ab(3) by (intro round_bin_le f32_value_repr) simp_all
    with f32_value_less [OF ab(1)] show ?thesis by linarith
  next
    case False
    then have "?r \<le> \<bar>f32_value b\<bar>" using ab(4) by (intro round_bin_le f32_value_repr) simp_all
    with f32_value_less [OF ab(2)] show ?thesis by linarith
  qed
  have rp: "repr 24 (- 149) ?r" by (rule repr_round_bin) simp_all
  have enc: "isfinite (f32_encode ?r)" "\<not> f32_negative (f32_encode ?r)" "f32_value (f32_encode ?r) = ?r"
    using f32_encode_correct [OF rp lim] by blast+
  note pack = f32_pack_negative [OF enc(2), of "q < 0"]
  have conv: "double_to_f32 (Fin q) = f32_pack (q < 0) (f32_encode ?r)"
    using lim by (simp add: double_to_f32_def Let_def not_le)
  have v: "f32_value (double_to_f32 (Fin q)) = (if q < 0 then - ?r else ?r)"
    unfolding conv pack(2) enc(3) by simp
  have r0: "0 \<le> ?r" by (rule round_bin_nonneg)
  have "f32_value a \<le> (if q < 0 then - ?r else ?r)"
  proof (cases "q < 0")
    case True
    then have "?r \<le> \<bar>f32_value a\<bar>" using ab(3) by (intro round_bin_le f32_value_repr) simp_all
    with True ab(3) show ?thesis by simp
  next
    case False
    have "0 \<le> f32_value a \<Longrightarrow> \<bar>f32_value a\<bar> \<le> ?r" using ab(3) by (intro round_bin_ge f32_value_repr) simp_all
    with False r0 show ?thesis by (cases "0 \<le> f32_value a") simp_all
  qed
  moreover have "(if q < 0 then - ?r else ?r) \<le> f32_value b"
  proof (cases "q < 0")
    case True
    then have "f32_value b \<le> 0 \<Longrightarrow> \<bar>f32_value b\<bar> \<le> ?r" using ab(4) by (intro round_bin_ge f32_value_repr) simp_all
    with True r0 show ?thesis by (cases "f32_value b \<le> 0") simp_all
  next
    case False
    then have "?r \<le> \<bar>f32_value b\<bar>" using ab(4) by (intro round_bin_le f32_value_repr) simp_all
    with False ab(4) show ?thesis by simp
  qed
  ultimately show ?thesis using v pack(1) enc(1) unfolding conv by simp
qed

end
