(* ===== verification/Ground_Options.thy ===== *)
theory Ground_Options
  imports App_Payload Station_Health Cli_Parsing Logger Telemetry_Output Float_Rounding
begin

text \<open>
  Model of \<open>apps/ground_station/GroundStationOptions.hpp\<close> and \<open>GroundStationOptions.cpp\<close>: the
  command line of the ground station. \<open>parseArgs\<close> works on the arguments after the program
  name; \<open>--help\<close> (which exits) is the value \<open>None\<close>. Paths are strings.
\<close>

section \<open>Options\<close>

datatype Transport = Udp | Tcp

datatype SignalFilterMode = Filter_None | Filter_MovingAverage | Filter_SineProjection

fun signalFilterModeToString :: "SignalFilterMode \<Rightarrow> string" where
  "signalFilterModeToString Filter_None = ''none''"
| "signalFilterModeToString Filter_MovingAverage = ''moving-average''"
| "signalFilterModeToString Filter_SineProjection = ''sine-projection''"

definition DefaultTelemetryPort :: nat where "DefaultTelemetryPort = 9000"
definition MaxDiagnosticPortCount :: nat where "MaxDiagnosticPortCount = 256"
definition MaximumDecoderThreads :: nat where "MaximumDecoderThreads = 256"
definition MaximumQueueCapacity :: nat where "MaximumQueueCapacity = 1000000"
definition MaximumHealthWindowSamples :: nat where "MaximumHealthWindowSamples = 1000000"

definition MaximumFilterWindow :: nat where
  "MaximumFilterWindow =
     (if MaxSignalSamplesPerPayload mod 2 = 0 then MaxSignalSamplesPerPayload - 1 else MaxSignalSamplesPerPayload)"

record Options =
  transport :: "Transport option"
  bindAddress :: string
  port :: nat
  autoPortRange :: "PortRange option"
  replayFile :: "string option"
  replayRate :: double
  outputFile :: string
  outputFormat :: OutputFormat
  logFile :: "string option"
  logLevel :: LogLevel
  decoder_threads :: nat
  queueCapacity :: nat
  healthConfig :: StationHealthConfig
  signalFilter :: SignalFilterMode
  movingAverageWindow :: nat
  color :: bool
  verbose :: bool

definition default_Options :: Options where
  "default_Options =
     \<lparr>transport = None, bindAddress = ''0.0.0.0'', port = DefaultTelemetryPort, autoPortRange = None, replayFile = None,
      replayRate = Fin 0, outputFile = ''telemetry.csv'', outputFormat = Fmt_Auto, logFile = None, logLevel = Info,
      decoder_threads = 2, queueCapacity = 1024, healthConfig = default_StationHealthConfig,
      signalFilter = Filter_SineProjection, movingAverageWindow = 5, color = True, verbose = False\<rparr>"

definition edit_health :: "(StationHealthConfig \<Rightarrow> StationHealthConfig) \<Rightarrow> Options \<Rightarrow> Options" where
  "edit_health f o' = o'\<lparr>healthConfig := f (healthConfig o')\<rparr>"

section \<open>Values\<close>

definition selectTransport :: "Options \<Rightarrow> Transport \<Rightarrow> Options result" where
  "selectTransport o' t =
     (if transport o' \<noteq> None \<and> transport o' \<noteq> Some t then Inl (runtime_error ''--udp and --tcp are mutually exclusive'')
      else Inr (o'\<lparr>transport := Some t\<rparr>))"

definition parseOutputFormat :: "string \<Rightarrow> OutputFormat result" where
  "parseOutputFormat v =
     (if v = ''csv'' then Inr Fmt_Csv else if v = ''json'' then Inr Fmt_Json
      else Inl (runtime_error ''--output-format must be csv or json''))"

definition parseSignalFilter :: "string \<Rightarrow> SignalFilterMode result" where
  "parseSignalFilter v =
     (if v = ''none'' then Inr Filter_None
      else if v = ''moving-average'' then Inr Filter_MovingAverage
      else if v = ''sine-projection'' then Inr Filter_SineProjection
      else Inl (runtime_error ''--signal-filter must be none, moving-average or sine-projection''))"

text \<open>\<open>std::filesystem::path::extension\<close>.\<close>

definition path_filename :: "string \<Rightarrow> string" where
  "path_filename p = rev (takeWhile (\<lambda>c. c \<noteq> CHR ''/'') (rev p))"

definition path_extension :: "string \<Rightarrow> string" where
  "path_extension p =
     (let f = path_filename p; ext = rev (takeWhile (\<lambda>c. c \<noteq> CHR ''.'') (rev f))
      in if f = ''.'' \<or> f = ''..'' \<or> CHR ''.'' \<notin> set f \<or> length f = Suc (length ext) then '''' else ''.'' @ ext)"

definition resolveOutputFormat :: "OutputFormat \<Rightarrow> string \<Rightarrow> OutputFormat" where
  "resolveOutputFormat requested output =
     (if requested \<noteq> Fmt_Auto then requested
      else if path_extension output = ''.json'' then Fmt_Json else Fmt_Csv)"

section \<open>The argument loop\<close>

type_synonym parse_state = "Options \<times> bool"

text \<open>\<open>requireValue\<close>: the value after an option and the arguments behind it.\<close>

definition requireValue :: "string \<Rightarrow> string list \<Rightarrow> (string \<times> string list) result" where
  "requireValue arg rest =
     (case rest of [] \<Rightarrow> Inl (runtime_error (''missing value after '' @ arg)) | v # vs \<Rightarrow> Inr (v, vs))"

definition bind_r :: "'a result \<Rightarrow> ('a \<Rightarrow> 'b result) \<Rightarrow> 'b result" where
  "bind_r r f = (case r of Inl e \<Rightarrow> Inl e | Inr x \<Rightarrow> f x)"

text \<open>An option with a value: parse it and store it.\<close>

definition take_value :: "string \<Rightarrow> string list \<Rightarrow> (string \<Rightarrow> 'a result) \<Rightarrow> ('a \<Rightarrow> 's) \<Rightarrow> ('s \<times> string list) result" where
  "take_value arg rest parse store =
     bind_r (requireValue arg rest) (\<lambda>(v, vs). bind_r (parse v) (\<lambda>x. Inr (store x, vs)))"

definition parse_replay_rate :: "string \<Rightarrow> double result" where
  "parse_replay_rate v =
     bind_r (parseFiniteDouble v ''--replay-rate'')
       (\<lambda>x. if d_less x (Fin 0) then Inl (runtime_error ''--replay-rate must be >= 0'') else Inr x)"

definition parse_log_level :: "string \<Rightarrow> LogLevel result" where
  "parse_log_level v = (case parseLogLevel v of None \<Rightarrow> Inl (runtime_error ''unknown log level'') | Some l \<Rightarrow> Inr l)"

definition option_step :: "string \<Rightarrow> string list \<Rightarrow> parse_state \<Rightarrow> (parse_state \<times> string list) result" where
  "option_step arg rest st = (case st of (o', explicit) \<Rightarrow>
     if arg = ''--udp'' then bind_r (selectTransport o' Udp) (\<lambda>p. Inr ((p, explicit), rest))
     else if arg = ''--tcp'' then bind_r (selectTransport o' Tcp) (\<lambda>p. Inr ((p, explicit), rest))
     else if arg = ''--bind'' then take_value arg rest Inr (\<lambda>v. (o'\<lparr>bindAddress := v\<rparr>, explicit))
     else if arg = ''--port''
     then take_value arg rest (\<lambda>v. parseUnsigned uint16_max v arg MinimumNetworkPort MaximumNetworkPort)
            (\<lambda>v. (o'\<lparr>port := v\<rparr>, True))
     else if arg = ''--auto-port''
     then take_value arg rest (\<lambda>v. parsePortRange v arg) (\<lambda>v. (o'\<lparr>autoPortRange := Some v\<rparr>, explicit))
     else if arg = ''--replay'' then take_value arg rest Inr (\<lambda>v. (o'\<lparr>replayFile := Some v\<rparr>, explicit))
     else if arg = ''--replay-rate'' then take_value arg rest parse_replay_rate (\<lambda>v. (o'\<lparr>replayRate := v\<rparr>, explicit))
     else if arg = ''--output'' then take_value arg rest Inr (\<lambda>v. (o'\<lparr>outputFile := v\<rparr>, explicit))
     else if arg = ''--output-format'' then take_value arg rest parseOutputFormat (\<lambda>v. (o'\<lparr>outputFormat := v\<rparr>, explicit))
     else if arg = ''--log'' then take_value arg rest Inr (\<lambda>v. (o'\<lparr>logFile := Some v\<rparr>, explicit))
     else if arg = ''--log-level'' then take_value arg rest parse_log_level (\<lambda>v. (o'\<lparr>logLevel := v\<rparr>, explicit))
     else if arg = ''--verbose'' then Inr ((o'\<lparr>verbose := True, logLevel := Debug\<rparr>, explicit), rest)
     else if arg = ''--decoder-threads''
     then take_value arg rest (\<lambda>v. parseUnsigned size_max v arg 1 MaximumDecoderThreads)
            (\<lambda>v. (o'\<lparr>decoder_threads := v\<rparr>, explicit))
     else if arg = ''--queue-capacity''
     then take_value arg rest (\<lambda>v. parseUnsigned size_max v arg 1 MaximumQueueCapacity)
            (\<lambda>v. (o'\<lparr>queueCapacity := v\<rparr>, explicit))
     else if arg = ''--signal-filter'' then take_value arg rest parseSignalFilter (\<lambda>v. (o'\<lparr>signalFilter := v\<rparr>, explicit))
     else if arg = ''--filter-window''
     then take_value arg rest (\<lambda>v. parseUnsigned size_max v arg 1 MaximumFilterWindow)
            (\<lambda>v. (o'\<lparr>movingAverageWindow := v\<rparr>, explicit))
     else if arg = ''--disable-degraded'' then Inr ((edit_health (\<lambda>h. h\<lparr>enabled := False\<rparr>) o', explicit), rest)
     else if arg = ''--degraded-window''
     then take_value arg rest (\<lambda>v. parseUnsigned size_max v arg 1 MaximumHealthWindowSamples)
            (\<lambda>v. (edit_health (\<lambda>h. h\<lparr>windowSize := v\<rparr>) o', explicit))
     else if arg = ''--degraded-min-samples''
     then take_value arg rest (\<lambda>v. parseUnsigned size_max v arg 1 MaximumHealthWindowSamples)
            (\<lambda>v. (edit_health (\<lambda>h. h\<lparr>minSamples := v\<rparr>) o', explicit))
     else if arg = ''--degraded-rejection-rate''
     then take_value arg rest (\<lambda>v. parseProbability v arg)
            (\<lambda>v. (edit_health (\<lambda>h. h\<lparr>degradedRejectionRate := v\<rparr>) o', explicit))
     else if arg = ''--degraded-recovery-rate''
     then take_value arg rest (\<lambda>v. parseProbability v arg)
            (\<lambda>v. (edit_health (\<lambda>h. h\<lparr>recoveryRejectionRate := v\<rparr>) o', explicit))
     else if arg = ''--degraded-critical-count''
     then take_value arg rest (\<lambda>v. parseUnsigned size_max v arg 1 MaximumHealthWindowSamples)
            (\<lambda>v. (edit_health (\<lambda>h. h\<lparr>criticalFramesForDegraded := v\<rparr>) o', explicit))
     else if arg = ''--recovery-critical-count''
     then take_value arg rest (\<lambda>v. parseUnsigned size_max v arg 0 MaximumHealthWindowSamples)
            (\<lambda>v. (edit_health (\<lambda>h. h\<lparr>criticalFramesForRecovery := v\<rparr>) o', explicit))
     else if arg = ''--no-color'' then Inr ((o'\<lparr>color := False\<rparr>, explicit), rest)
     else Inl (runtime_error (''unknown option: '' @ arg)))"

lemma take_value_shorter: "take_value arg rest parse store = Inr (st, rest') \<Longrightarrow> length rest' < length rest"
  by (auto simp: take_value_def bind_r_def requireValue_def split: list.splits sum.splits)

lemma option_step_shorter: "option_step arg rest st = Inr (st', rest') \<Longrightarrow> length rest' \<le> length rest"
  unfolding option_step_def
  by (simp split: prod.split_asm if_split_asm)
     (auto simp: bind_r_def split: sum.split_asm dest: take_value_shorter less_imp_le)

function args_loop :: "string list \<Rightarrow> parse_state \<Rightarrow> parse_state option result" where
  "args_loop [] st = Inr (Some st)"
| "args_loop (arg # rest) st =
     (if arg = ''--help'' \<or> arg = ''-h'' then Inr None
      else case option_step arg rest st of
          Inl e \<Rightarrow> Inl e
        | Inr (st', rest') \<Rightarrow> args_loop rest' st')"
  by pat_completeness auto
termination
  by (relation "measure (\<lambda>(args, st). length args)") (auto dest: option_step_shorter)

text \<open>The checks behind the loop.\<close>

definition cross_check :: "parse_state \<Rightarrow> Options result" where
  "cross_check st = (case st of (o', explicit) \<Rightarrow>
     if replayFile o' \<noteq> None \<and> transport o' \<noteq> None
     then Inl (runtime_error ''choose either network mode or replay mode, not both'')
     else if replayFile o' = None \<and> transport o' = None
     then Inl (runtime_error ''choose --udp, --tcp, or --replay'')
     else if autoPortRange o' \<noteq> None \<and> transport o' \<noteq> Some Tcp
     then Inl (runtime_error ''--auto-port requires --tcp'')
     else if autoPortRange o' \<noteq> None \<and> explicit
     then Inl (runtime_error ''choose either --port or --auto-port, not both'')
     else if autoPortRange o' \<noteq> None \<and> range_count (the (autoPortRange o')) > MaxDiagnosticPortCount
     then Inl (runtime_error ''--auto-port exceeds MaxDiagnosticPortCount'')
     else if movingAverageWindow o' mod 2 = 0
     then Inl (runtime_error ''--filter-window must be odd for a centered moving average'')
     else if minSamples (healthConfig o') > windowSize (healthConfig o')
     then Inl (runtime_error ''--degraded-min-samples cannot exceed --degraded-window'')
     else if criticalFramesForRecovery (healthConfig o') \<ge> criticalFramesForDegraded (healthConfig o')
     then Inl (runtime_error ''recovery critical threshold must be lower than degradation threshold'')
     else Inr o')"

definition parseArgs :: "string list \<Rightarrow> Options option result" where
  "parseArgs args =
     (case args_loop args (default_Options, False) of
        Inl e \<Rightarrow> Inl e
      | Inr None \<Rightarrow> Inr None
      | Inr (Some st) \<Rightarrow> (case cross_check st of Inl e \<Rightarrow> Inl e | Inr o' \<Rightarrow> Inr (Some o')))"

section \<open>What accepted options satisfy\<close>

definition unit_rate :: "double \<Rightarrow> bool" where
  "unit_rate x \<longleftrightarrow> (\<exists>q. x = Fin q \<and> 0 \<le> q \<and> q \<le> 1)"

text \<open>The ranges of the single values, which every step of the loop keeps.\<close>

definition values_ok :: "Options \<Rightarrow> bool" where
  "values_ok o' \<longleftrightarrow> 1 \<le> port o' \<and> port o' \<le> 65535 \<and>
     (\<forall>r. autoPortRange o' = Some r \<longrightarrow> range_valid r \<and> range_last r \<le> 65535) \<and>
     (\<exists>q. replayRate o' = Fin q \<and> 0 \<le> q) \<and>
     1 \<le> decoder_threads o' \<and> decoder_threads o' \<le> 256 \<and> 1 \<le> queueCapacity o' \<and> queueCapacity o' \<le> 1000000 \<and>
     1 \<le> movingAverageWindow o' \<and> movingAverageWindow o' \<le> MaxSignalSamplesPerPayload"

definition health_values_ok :: "StationHealthConfig \<Rightarrow> bool" where
  "health_values_ok h \<longleftrightarrow> 1 \<le> windowSize h \<and> windowSize h \<le> 1000000 \<and> 1 \<le> minSamples h \<and>
     unit_rate (degradedRejectionRate h) \<and> unit_rate (recoveryRejectionRate h) \<and>
     1 \<le> criticalFramesForDegraded h \<and> criticalFramesForDegraded h \<le> 1000000"

lemma take_value_Inr:
  "take_value arg rest parse store = Inr (st, rest') \<longleftrightarrow> (\<exists>v x. rest = v # rest' \<and> parse v = Inr x \<and> st = store x)"
  by (auto simp: take_value_def bind_r_def requireValue_def split: list.splits sum.splits)

lemma parseFiniteDouble_Inr: "parseFiniteDouble v name = Inr x \<Longrightarrow> \<exists>q. x = Fin q"
  by (auto simp: parseFiniteDouble_def d_finite_def split: if_splits prod.splits double.splits)

lemma parseProbability_Inr: "parseProbability v name = Inr x \<Longrightarrow> unit_rate x"
  by (auto simp: parseProbability_def unit_rate_def split: sum.splits if_splits dest: parseFiniteDouble_Inr)

lemma parse_replay_rate_Inr: "parse_replay_rate v = Inr x \<Longrightarrow> \<exists>q. x = Fin q \<and> 0 \<le> q"
  by (auto simp: parse_replay_rate_def bind_r_def split: sum.splits if_splits dest: parseFiniteDouble_Inr)

lemmas value_facts = parseUnsigned_Inr MinimumNetworkPort_def MaximumNetworkPort_def MaximumDecoderThreads_def
  MaximumQueueCapacity_def MaximumHealthWindowSamples_def

lemma MaximumFilterWindow_le: "MaximumFilterWindow \<le> MaxSignalSamplesPerPayload"
  by (simp add: MaximumFilterWindow_def)

text \<open>What one option may change, with the range of the new value.\<close>

inductive option_edit :: "Options \<Rightarrow> Options \<Rightarrow> bool" where
  edit_transport: "option_edit o' (o'\<lparr>transport := t\<rparr>)"
| edit_bind: "option_edit o' (o'\<lparr>bindAddress := v\<rparr>)"
| edit_port: "1 \<le> v \<Longrightarrow> v \<le> 65535 \<Longrightarrow> option_edit o' (o'\<lparr>port := v\<rparr>)"
| edit_auto: "range_valid r \<Longrightarrow> range_last r \<le> 65535 \<Longrightarrow> option_edit o' (o'\<lparr>autoPortRange := Some r\<rparr>)"
| edit_replay: "option_edit o' (o'\<lparr>replayFile := f\<rparr>)"
| edit_rate: "0 \<le> q \<Longrightarrow> option_edit o' (o'\<lparr>replayRate := Fin q\<rparr>)"
| edit_output: "option_edit o' (o'\<lparr>outputFile := f\<rparr>)"
| edit_format: "option_edit o' (o'\<lparr>outputFormat := fmt\<rparr>)"
| edit_log: "option_edit o' (o'\<lparr>logFile := f\<rparr>)"
| edit_level: "option_edit o' (o'\<lparr>logLevel := l\<rparr>)"
| edit_verbose: "option_edit o' (o'\<lparr>verbose := b, logLevel := l\<rparr>)"
| edit_filter: "option_edit o' (o'\<lparr>signalFilter := m\<rparr>)"
| edit_color: "option_edit o' (o'\<lparr>color := b\<rparr>)"
| edit_threads: "1 \<le> v \<Longrightarrow> v \<le> 256 \<Longrightarrow> option_edit o' (o'\<lparr>decoder_threads := v\<rparr>)"
| edit_capacity: "1 \<le> v \<Longrightarrow> v \<le> 1000000 \<Longrightarrow> option_edit o' (o'\<lparr>queueCapacity := v\<rparr>)"
| edit_average: "1 \<le> v \<Longrightarrow> v \<le> MaxSignalSamplesPerPayload \<Longrightarrow> option_edit o' (o'\<lparr>movingAverageWindow := v\<rparr>)"
| edit_monitor: "(health_values_ok (healthConfig o') \<Longrightarrow> health_values_ok h) \<Longrightarrow> option_edit o' (o'\<lparr>healthConfig := h\<rparr>)"

lemma option_edit_values:
  "option_edit o' p \<Longrightarrow> values_ok o' \<and> health_values_ok (healthConfig o') \<Longrightarrow> values_ok p \<and> health_values_ok (healthConfig p)"
  by (induction rule: option_edit.induct) (simp_all add: values_ok_def)

lemma edit_select: "selectTransport o' t = Inr p \<Longrightarrow> option_edit o' p"
  by (auto simp: selectTransport_def intro: edit_transport split: if_splits)

lemma edit_health_edit: "(\<And>h. health_values_ok h \<Longrightarrow> health_values_ok (f h)) \<Longrightarrow> option_edit o' (edit_health f o')"
  unfolding edit_health_def by (rule edit_monitor) simp

lemmas option_edits = edit_transport edit_bind edit_replay edit_output edit_format edit_log edit_level edit_verbose
  edit_filter edit_color

lemma edit_port_option: "parseUnsigned uint16_max v name MinimumNetworkPort MaximumNetworkPort = Inr n \<Longrightarrow> option_edit o' (o'\<lparr>port := n\<rparr>)"
  using port_value by (auto intro: edit_port)

lemma edit_auto_option: "parsePortRange v name = Inr r \<Longrightarrow> option_edit o' (o'\<lparr>autoPortRange := Some r\<rparr>)"
  using parsePortRange_Inr by (auto intro!: edit_auto simp: range_valid_def MinimumNetworkPort_def)

lemma edit_rate_option: "parse_replay_rate v = Inr x \<Longrightarrow> option_edit o' (o'\<lparr>replayRate := x\<rparr>)"
  using parse_replay_rate_Inr by (auto intro: edit_rate)

lemma edit_number_options:
  "parseUnsigned size_max v name 1 MaximumDecoderThreads = Inr n \<Longrightarrow> option_edit o' (o'\<lparr>decoder_threads := n\<rparr>)"
  "parseUnsigned size_max v name 1 MaximumQueueCapacity = Inr n \<Longrightarrow> option_edit o' (o'\<lparr>queueCapacity := n\<rparr>)"
  "parseUnsigned size_max v name 1 MaximumFilterWindow = Inr n \<Longrightarrow> option_edit o' (o'\<lparr>movingAverageWindow := n\<rparr>)"
  using MaximumFilterWindow_le
  by (auto simp: parseUnsigned_Inr MaximumDecoderThreads_def MaximumQueueCapacity_def intro!: option_edit.intros)

lemma edit_health_options:
  "option_edit o' (edit_health (\<lambda>h. h\<lparr>enabled := b\<rparr>) o')"
  "parseUnsigned size_max v name 1 MaximumHealthWindowSamples = Inr n \<Longrightarrow> option_edit o' (edit_health (\<lambda>h. h\<lparr>windowSize := n\<rparr>) o')"
  "parseUnsigned size_max v name 1 MaximumHealthWindowSamples = Inr n \<Longrightarrow> option_edit o' (edit_health (\<lambda>h. h\<lparr>minSamples := n\<rparr>) o')"
  "parseProbability v name = Inr x \<Longrightarrow> option_edit o' (edit_health (\<lambda>h. h\<lparr>degradedRejectionRate := x\<rparr>) o')"
  "parseProbability v name = Inr x \<Longrightarrow> option_edit o' (edit_health (\<lambda>h. h\<lparr>recoveryRejectionRate := x\<rparr>) o')"
  "parseUnsigned size_max v name 1 MaximumHealthWindowSamples = Inr n \<Longrightarrow> option_edit o' (edit_health (\<lambda>h. h\<lparr>criticalFramesForDegraded := n\<rparr>) o')"
  "option_edit o' (edit_health (\<lambda>h. h\<lparr>criticalFramesForRecovery := n\<rparr>) o')"
  by (auto simp: parseUnsigned_Inr MaximumHealthWindowSamples_def health_values_ok_def dest: parseProbability_Inr intro!: edit_health_edit)

lemma edit_select_option: "bind_r (selectTransport o' t) (\<lambda>p. Inr ((p, ex), rest)) = Inr ((p, ex'), rest') \<Longrightarrow> option_edit o' p"
  by (auto simp: bind_r_def split: sum.split_asm dest: edit_select)

lemma edit_value_option:
  assumes "take_value arg rest parse store = Inr ((p, ex'), rest')" and "\<And>v x. parse v = Inr x \<Longrightarrow> option_edit o' (fst (store x))"
  shows "option_edit o' p"
  using assms by (auto simp: take_value_Inr) (metis fst_conv)

lemma option_step_edit: "option_step arg rest (o', ex) = Inr ((p, ex'), rest') \<Longrightarrow> option_edit o' p"
  unfolding option_step_def prod.case
  by (simp only: split: if_split_asm)
     (auto simp del: One_nat_def dest!: edit_select_option elim!: edit_value_option
        intro: option_edits edit_port_option edit_auto_option edit_rate_option edit_number_options edit_health_options)

lemma args_loop_edits:
  "args_loop args (o', ex) = Inr (Some (p, ex')) \<Longrightarrow> values_ok o' \<and> health_values_ok (healthConfig o') \<Longrightarrow>
   values_ok p \<and> health_values_ok (healthConfig p)"
proof (induction args "(o', ex)" arbitrary: o' ex rule: args_loop.induct)
  case (2 arg rest st)
  then show ?case
    by (cases st) (auto split: if_splits sum.splits dest!: option_edit_values [OF option_step_edit])
qed auto


lemma default_values: "values_ok default_Options" "health_values_ok (healthConfig default_Options)"
proof -
  have "unit_rate (Fin (ratio 10 100))" "unit_rate (Fin (ratio 3 100))"
    using ratio_bounds [of 10 100] ratio_bounds [of 3 100] by (auto simp: unit_rate_def)
  then show "values_ok default_Options" "health_values_ok (healthConfig default_Options)"
    by (simp_all add: values_ok_def health_values_ok_def default_Options_def default_StationHealthConfig_def
        DefaultTelemetryPort_def wire_simps)
qed

lemma parseArgs_facts:
  assumes "parseArgs args = Inr (Some o')"
  shows "values_ok o' \<and> health_values_ok (healthConfig o') \<and> (replayFile o' = None \<longleftrightarrow> transport o' \<noteq> None) \<and>
    (autoPortRange o' \<noteq> None \<longrightarrow> transport o' = Some Tcp \<and> range_count (the (autoPortRange o')) \<le> 256) \<and>
    odd (movingAverageWindow o') \<and> minSamples (healthConfig o') \<le> windowSize (healthConfig o') \<and>
    criticalFramesForRecovery (healthConfig o') < criticalFramesForDegraded (healthConfig o')"
proof -
  from assms obtain p ex where loop: "args_loop args (default_Options, False) = Inr (Some (p, ex))"
    and check: "cross_check (p, ex) = Inr o'"
    by (auto simp: parseArgs_def split: sum.splits option.splits)
  have "p = o'" using check by (auto simp: cross_check_def split: if_splits)
  with args_loop_edits [OF loop] default_values have "values_ok o'" "health_values_ok (healthConfig o')" by simp_all
  moreover have "(replayFile o' = None \<longleftrightarrow> transport o' \<noteq> None) \<and>
    (autoPortRange o' \<noteq> None \<longrightarrow> transport o' = Some Tcp \<and> range_count (the (autoPortRange o')) \<le> 256) \<and>
    odd (movingAverageWindow o') \<and> minSamples (healthConfig o') \<le> windowSize (healthConfig o') \<and>
    criticalFramesForRecovery (healthConfig o') < criticalFramesForDegraded (healthConfig o')"
    using check \<open>p = o'\<close> by (auto simp: cross_check_def MaxDiagnosticPortCount_def odd_iff_mod_2_eq_one split: if_splits)
  ultimately show ?thesis by blast
qed

section \<open>The options given\<close>

text \<open>The options of a command line, without their values.\<close>

definition flag_options :: "string list" where
  "flag_options = [''--udp'', ''--tcp'', ''--verbose'', ''--disable-degraded'', ''--no-color'']"

definition value_options :: "string list" where
  "value_options = [''--bind'', ''--port'', ''--auto-port'', ''--replay'', ''--replay-rate'', ''--output'', ''--output-format'',
     ''--log'', ''--log-level'', ''--decoder-threads'', ''--queue-capacity'', ''--signal-filter'', ''--filter-window'',
     ''--degraded-window'', ''--degraded-min-samples'', ''--degraded-rejection-rate'', ''--degraded-recovery-rate'',
     ''--degraded-critical-count'', ''--recovery-critical-count'']"

fun given :: "string list \<Rightarrow> string list" where
  "given [] = []"
| "given [arg] = [arg]"
| "given (arg # v # rest) = (if arg \<in> set value_options then arg # given rest else arg # given (v # rest))"

lemma given_Cons: "given (arg # rest) = arg # given (if arg \<in> set value_options then drop 1 rest else rest)"
  by (cases rest) simp_all

text \<open>One option and what it leaves in the options.\<close>

definition step_given :: "string \<Rightarrow> parse_state \<Rightarrow> parse_state \<Rightarrow> bool" where
  "step_given arg st st' \<longleftrightarrow>
     snd st' = (snd st \<or> arg = ''--port'') \<and>
     (autoPortRange (fst st') \<noteq> None) = (autoPortRange (fst st) \<noteq> None \<or> arg = ''--auto-port'') \<and>
     (replayFile (fst st') \<noteq> None) = (replayFile (fst st) \<noteq> None \<or> arg = ''--replay'') \<and>
     (transport (fst st') = (if arg = ''--udp'' then Some Udp else if arg = ''--tcp'' then Some Tcp else transport (fst st))) \<and>
     (transport (fst st) \<noteq> None \<longrightarrow> transport (fst st') = transport (fst st))"

lemma option_step_given:
  assumes "option_step arg rest st = Inr (st', rest')"
  shows "step_given arg st st' \<and> (arg \<in> set value_options \<and> rest' = drop 1 rest \<or> arg \<in> set flag_options \<and> rest' = rest)"
proof -
  obtain o' ex where st: "st = (o', ex)" by fastforce
  show ?thesis
    using assms unfolding option_step_def st prod.case
    by (simp only: split: if_split_asm)
       (auto simp: step_given_def edit_health_def value_options_def flag_options_def take_value_Inr bind_r_def selectTransport_def
          split: sum.split_asm if_split_asm)
qed

text \<open>What an accepted command line says about the options it leaves.\<close>

definition options_reflect :: "string set \<Rightarrow> parse_state \<Rightarrow> parse_state \<Rightarrow> bool" where
  "options_reflect G st st' \<longleftrightarrow>
     snd st' = (snd st \<or> ''--port'' \<in> G) \<and>
     (autoPortRange (fst st') \<noteq> None) = (autoPortRange (fst st) \<noteq> None \<or> ''--auto-port'' \<in> G) \<and>
     (replayFile (fst st') \<noteq> None) = (replayFile (fst st) \<noteq> None \<or> ''--replay'' \<in> G) \<and>
     (\<forall>t. transport (fst st') = Some t \<longleftrightarrow>
        transport (fst st) = Some t \<or> ''--udp'' \<in> G \<and> t = Udp \<or> ''--tcp'' \<in> G \<and> t = Tcp)"

lemma transport_step:
  assumes "t1 = (if arg = u then Some Udp else if arg = v then Some Tcp else t0)" and "t0 \<noteq> None \<longrightarrow> t1 = t0"
    and "t2 = Some t \<longleftrightarrow> t1 = Some t \<or> u \<in> G \<and> t = Udp \<or> v \<in> G \<and> t = Tcp" and "u \<noteq> v"
  shows "t2 = Some t \<longleftrightarrow> t0 = Some t \<or> u \<in> insert arg G \<and> t = Udp \<or> v \<in> insert arg G \<and> t = Tcp"
proof (cases t0)
  case None
  with assms(1,3,4) show ?thesis by (cases "arg = u"; cases "arg = v"; cases t) simp_all
next
  case (Some x)
  with assms(2) have "t1 = t0" by simp
  moreover from this Some assms(1) have "arg = u \<Longrightarrow> t0 = Some Udp" "arg \<noteq> u \<Longrightarrow> arg = v \<Longrightarrow> t0 = Some Tcp" by simp_all
  ultimately show ?thesis using assms(3,4) by (cases "arg = u"; cases "arg = v"; cases t) simp_all
qed

lemma flag_step: "a1 = (a0 \<or> x = u) \<Longrightarrow> a2 = (a1 \<or> u \<in> G) \<Longrightarrow> a2 = (a0 \<or> u \<in> insert x G)"
  by auto

lemma options_reflect_step:
  assumes "step_given arg st st1" and "options_reflect G st1 st'"
  shows "options_reflect (insert arg G) st st'"
proof -
  note s = assms(1) [unfolded step_given_def] and r = assms(2) [unfolded options_reflect_def]
  note s2 = s [THEN conjunct2] and r2 = r [THEN conjunct2]
  note s3 = s2 [THEN conjunct2] and r3 = r2 [THEN conjunct2]
  note s4 = s3 [THEN conjunct2] and r4 = r3 [THEN conjunct2]
  have "''--udp'' \<noteq> ''--tcp''" by simp
  note tr = transport_step [OF s4 [THEN conjunct1] s4 [THEN conjunct2] r4 [THEN spec] this]
  show ?thesis
    unfolding options_reflect_def
    by (intro conjI allI flag_step [OF s [THEN conjunct1] r [THEN conjunct1]] flag_step [OF s2 [THEN conjunct1] r2 [THEN conjunct1]]
        flag_step [OF s3 [THEN conjunct1] r3 [THEN conjunct1]] tr)
qed

lemma args_loop_given:
  "args_loop args st = Inr (Some st') \<Longrightarrow>
   set (given args) \<subseteq> set value_options \<union> set flag_options \<and> options_reflect (set (given args)) st st'"
proof (induction args st rule: args_loop.induct)
  case (1 st)
  then show ?case by (simp add: options_reflect_def)
next
  case (2 arg rest st)
  from "2.prems" obtain st1 rest1 where step: "option_step arg rest st = Inr (st1, rest1)"
    and loop: "args_loop rest1 st1 = Inr (Some st')" and no_help: "\<not> (arg = ''--help'' \<or> arg = ''-h'')"
    by (auto split: if_split_asm sum.split_asm)
  from option_step_given [OF step] have one: "step_given arg st st1" "arg \<in> set value_options \<union> set flag_options"
    and rest1: "rest1 = (if arg \<in> set value_options then drop 1 rest else rest)"
    by (auto simp: value_options_def flag_options_def)
  from "2.IH" [OF no_help step refl loop] one show ?case
    unfolding given_Cons rest1 by (auto intro: options_reflect_step)
qed

text \<open>Two accepted command lines, and the exact values of the rates they are compared with.\<close>

lemma sample_args: "parseArgs [''--tcp'', ''--degraded-critical-count'', ''200''] =
   Inr (Some (edit_health (\<lambda>h. h\<lparr>criticalFramesForDegraded := 200\<rparr>) (default_Options\<lparr>transport := Some Tcp\<rparr>)))"
proof -
  have "parseUnsigned size_max ''200'' name 1 MaximumHealthWindowSamples = Inr 200" for name
    by (simp add: parseUnsigned_Inr MaximumHealthWindowSamples_def is_digit_def decimal_value_def digit_value_def)
  then show ?thesis
    by (simp add: parseArgs_def option_step_def take_value_def bind_r_def requireValue_def selectTransport_def
        cross_check_def default_Options_def edit_health_def default_StationHealthConfig_def del: One_nat_def)
qed

lemma strtod_one: "strtod ''1'' = (Fin 1, 1, False)"
proof -
  have "repr 53 (- 1074) 1" by (rule reprI [of _ 1 0]) simp_all
  then have "round_double 1 = Fin 1" by (intro round_double_exact) (simp add: d_repr_def)
  then show ?thesis
    by (simp add: strtod_def strtod_magnitude_def is_space_def starts_ci_def mantissa_part_def exponent_part_def is_digit_def
        lower_char_def decimal_value_def digit_value_def d_finite_def Let_def)
qed

lemma sample_rate_args: "parseArgs [''--tcp'', ''--degraded-recovery-rate'', ''1''] =
   Inr (Some (edit_health (\<lambda>h. h\<lparr>recoveryRejectionRate := Fin 1\<rparr>) (default_Options\<lparr>transport := Some Tcp\<rparr>)))"
proof -
  have "parseProbability ''1'' name = Inr (Fin 1)" for name
    by (simp add: parseProbability_def parseFiniteDouble_def strtod_one d_finite_def)
  then show ?thesis
    by (simp add: parseArgs_def option_step_def take_value_def bind_r_def requireValue_def selectTransport_def
        cross_check_def default_Options_def edit_health_def default_StationHealthConfig_def del: One_nat_def)
qed

lemma norm_exp_eq:
  "0 < n \<Longrightarrow> 2 ^ 52 * d \<le> n * 2 ^ (k + j) \<Longrightarrow> (j = 0 \<or> n * 2 ^ (k + j - 1) < 2 ^ 52 * d) \<Longrightarrow> norm_exp n d k = k + j"
proof (induction j arbitrary: k)
  case (Suc j)
  have "n * 2 ^ k \<le> n * 2 ^ (k + j)" by simp
  moreover have "n * 2 ^ (k + j) < 2 ^ 52 * d" using Suc.prems(3) by (simp del: power_Suc)
  ultimately have "\<not> (n = 0 \<or> 2 ^ 52 * d \<le> n * 2 ^ k)" using Suc.prems(1) by linarith
  then have "norm_exp n d k = norm_exp n d (Suc k)" by (subst norm_exp.simps) (simp del: power_numeral)
  with Suc.IH [of "Suc k"] Suc.prems show ?case by (cases j) simp_all
qed (simp add: norm_exp.simps)

lemma default_rates: "0 \<le> ratio 3 100" "ratio 3 100 \<le> ratio 10 100" "ratio 10 100 < 1"
  using norm_exp_eq [of 10 100 0 56] norm_exp_eq [of 3 100 0 58] by (simp_all add: ratio_def round_half_even_def)

lemma refused_count:
  "StationHealthMonitor_ctor (healthConfig (edit_health (\<lambda>h. h\<lparr>criticalFramesForDegraded := 200\<rparr>) (default_Options\<lparr>transport := Some Tcp\<rparr>))) =
     Inl (invalid_argument ''critical frame degradation threshold cannot exceed window size'')"
  using default_rates by (simp add: StationHealthMonitor_ctor_def edit_health_def default_Options_def default_StationHealthConfig_def)

lemma refused_rate:
  "StationHealthMonitor_ctor (healthConfig (edit_health (\<lambda>h. h\<lparr>recoveryRejectionRate := Fin 1\<rparr>) (default_Options\<lparr>transport := Some Tcp\<rparr>))) =
     Inl (invalid_argument ''recovery rejection rate cannot exceed degraded rejection rate'')"
  using default_rates by (simp add: StationHealthMonitor_ctor_def edit_health_def default_Options_def default_StationHealthConfig_def)

text \<open>C32: The options that \<open>parseArgs\<close> accepts satisfy every constraint that it is there to enforce: all options
  given are known; \<open>--udp\<close> and \<open>--tcp\<close> exclude each other, and so do \<open>--port\<close> and
  \<open>--auto-port\<close>; exactly one of network and replay mode is chosen; automatic ports come only with TCP and within
  the diagnostic limit; every number is inside its documented range, the filter window is odd, and of the
  health thresholds the minimal sample count fits the window and the critical count for recovery lies below
  the one for degradation. (Two further relations between the health thresholds are left to the monitor, see C33.)\<close>

theorem parseArgs_consistent:
  assumes "parseArgs args = Inr (Some o')"
  shows "set (given args) \<subseteq> set value_options \<union> set flag_options \<and>
    \<not> (''--udp'' \<in> set (given args) \<and> ''--tcp'' \<in> set (given args)) \<and>
    \<not> (''--port'' \<in> set (given args) \<and> ''--auto-port'' \<in> set (given args)) \<and>
    (transport o' = Some Udp \<longleftrightarrow> ''--udp'' \<in> set (given args)) \<and> (transport o' = Some Tcp \<longleftrightarrow> ''--tcp'' \<in> set (given args)) \<and>
    (replayFile o' \<noteq> None \<longleftrightarrow> ''--replay'' \<in> set (given args)) \<and> (autoPortRange o' \<noteq> None \<longleftrightarrow> ''--auto-port'' \<in> set (given args)) \<and>
    values_ok o' \<and> health_values_ok (healthConfig o') \<and> (replayFile o' = None \<longleftrightarrow> transport o' \<noteq> None) \<and>
    (autoPortRange o' \<noteq> None \<longrightarrow> transport o' = Some Tcp \<and> range_count (the (autoPortRange o')) \<le> 256) \<and>
    odd (movingAverageWindow o') \<and> minSamples (healthConfig o') \<le> windowSize (healthConfig o') \<and>
    criticalFramesForRecovery (healthConfig o') < criticalFramesForDegraded (healthConfig o')"
proof -
  from assms obtain ex where loop: "args_loop args (default_Options, False) = Inr (Some (o', ex))"
    and ports: "autoPortRange o' \<noteq> None \<longrightarrow> \<not> ex"
    by (auto simp: parseArgs_def cross_check_def split: sum.splits option.splits if_splits)
  from args_loop_given [OF loop] have known: "set (given args) \<subseteq> set value_options \<union> set flag_options"
    and refl: "options_reflect (set (given args)) (default_Options, False) (o', ex)" by simp_all
  from refl have ex: "ex = (''--port'' \<in> set (given args))"
    and opts: "autoPortRange o' \<noteq> None \<longleftrightarrow> ''--auto-port'' \<in> set (given args)" "replayFile o' \<noteq> None \<longleftrightarrow> ''--replay'' \<in> set (given args)"
    and tr: "transport o' = Some t \<longleftrightarrow> ''--udp'' \<in> set (given args) \<and> t = Udp \<or> ''--tcp'' \<in> set (given args) \<and> t = Tcp" for t
    by (simp_all add: options_reflect_def default_Options_def)
  have udp: "transport o' = Some Udp \<longleftrightarrow> ''--udp'' \<in> set (given args)" and tcp: "transport o' = Some Tcp \<longleftrightarrow> ''--tcp'' \<in> set (given args)"
    using tr [of Udp] tr [of Tcp] by simp_all
  have "\<not> (''--udp'' \<in> set (given args) \<and> ''--tcp'' \<in> set (given args))" by (simp add: udp [symmetric] tcp [symmetric])
  moreover have "\<not> (''--port'' \<in> set (given args) \<and> ''--auto-port'' \<in> set (given args))"
    unfolding ex [symmetric] opts(1) [symmetric] using ports by blast
  ultimately show ?thesis using known udp tcp opts parseArgs_facts [OF assms] by (intro conjI) argo+
qed

text \<open>C33: The constraints that \<open>parseArgs\<close> checks are not all that the health monitor requires. There are accepted
  command lines whose options the monitor's constructor refuses, one with a critical count above the window and one
  with a recovery rate above the degradation rate; and among the accepted ones it refuses exactly those
  with one of these two faults.\<close>

theorem parseArgs_leaves_monitor_checks:
  "(\<exists>o'. parseArgs [''--tcp'', ''--degraded-critical-count'', ''200''] = Inr (Some o') \<and> StationHealthMonitor_ctor (healthConfig o') =
      Inl (invalid_argument ''critical frame degradation threshold cannot exceed window size'')) \<and>
   (\<exists>o'. parseArgs [''--tcp'', ''--degraded-recovery-rate'', ''1''] = Inr (Some o') \<and> StationHealthMonitor_ctor (healthConfig o') =
      Inl (invalid_argument ''recovery rejection rate cannot exceed degraded rejection rate'')) \<and>
   (\<forall>args o'. parseArgs args = Inr (Some o') \<longrightarrow>
     ((\<exists>e. StationHealthMonitor_ctor (healthConfig o') = Inl e) \<longleftrightarrow>
      d_less (degradedRejectionRate (healthConfig o')) (recoveryRejectionRate (healthConfig o')) \<or>
      windowSize (healthConfig o') < criticalFramesForDegraded (healthConfig o')))"
proof (intro conjI allI impI)
  show "\<exists>o'. parseArgs [''--tcp'', ''--degraded-critical-count'', ''200''] = Inr (Some o') \<and> StationHealthMonitor_ctor (healthConfig o') =
      Inl (invalid_argument ''critical frame degradation threshold cannot exceed window size'')"
    unfolding sample_args by (simp add: refused_count)
  show "\<exists>o'. parseArgs [''--tcp'', ''--degraded-recovery-rate'', ''1''] = Inr (Some o') \<and> StationHealthMonitor_ctor (healthConfig o') =
      Inl (invalid_argument ''recovery rejection rate cannot exceed degraded rejection rate'')"
    unfolding sample_rate_args by (simp add: refused_rate)
next
  fix args o' assume "parseArgs args = Inr (Some o')"
  let ?h = "healthConfig o'"
  from parseArgs_facts [OF \<open>parseArgs args = Inr (Some o')\<close>] have h: "health_values_ok ?h" "minSamples ?h \<le> windowSize ?h"
    "criticalFramesForRecovery ?h < criticalFramesForDegraded ?h" by simp_all
  then have "\<not> d_less (degradedRejectionRate ?h) (Fin 0)" "\<not> d_less (Fin 1) (degradedRejectionRate ?h)"
    "\<not> d_less (recoveryRejectionRate ?h) (Fin 0)" "\<not> d_less (Fin 1) (recoveryRejectionRate ?h)"
    by (auto simp: health_values_ok_def unit_rate_def)
  with h show "(\<exists>e. StationHealthMonitor_ctor ?h = Inl e) \<longleftrightarrow>
      d_less (degradedRejectionRate ?h) (recoveryRejectionRate ?h) \<or> windowSize ?h < criticalFramesForDegraded ?h"
    by (auto simp: StationHealthMonitor_ctor_def health_values_ok_def)
qed

theorem parseArgs_consistent_witness:
  "odd (movingAverageWindow (edit_health (\<lambda>h. h\<lparr>criticalFramesForDegraded := 200\<rparr>) (default_Options\<lparr>transport := Some Tcp\<rparr>)))"
  using parseArgs_consistent [OF sample_args] by blast

theorem parseArgs_leaves_monitor_checks_witness:
  "\<exists>o'. parseArgs [''--tcp'', ''--degraded-critical-count'', ''200''] = Inr (Some o') \<and>
     (\<exists>e. StationHealthMonitor_ctor (healthConfig o') = Inl e)"
proof -
  let ?o = "edit_health (\<lambda>h. h\<lparr>criticalFramesForDegraded := 200\<rparr>) (default_Options\<lparr>transport := Some Tcp\<rparr>)"
  have "windowSize (healthConfig ?o) < criticalFramesForDegraded (healthConfig ?o)"
    by (simp add: edit_health_def default_Options_def default_StationHealthConfig_def)
  with sample_args parseArgs_leaves_monitor_checks show ?thesis by blast
qed

end
