(* ===== verification/Simulator_Options.thy ===== *)
theory Simulator_Options
  imports Ground_Options Float_Rounding
begin

text \<open>
  Model of \<open>apps/satellite_simulator/SimulatorOptions.hpp\<close> and \<open>SimulatorOptions.cpp\<close>: the command
  line of the satellite simulator. As for the ground station, \<open>--help\<close> is the value \<open>None\<close> and
  the arguments are those after the program name. The address parser \<open>inet_pton\<close> of the system
  (an address in host order, or \<open>None\<close>) and the seed that \<open>std::random_device\<close> proposes are
  parameters.
\<close>

section \<open>Options\<close>

datatype PayloadMode = Mode_RandomBytes | Mode_TextMessage | Mode_Signal

fun payloadModeName :: "PayloadMode \<Rightarrow> string" where
  "payloadModeName Mode_RandomBytes = ''random-bytes''"
| "payloadModeName Mode_TextMessage = ''text-message''"
| "payloadModeName Mode_Signal = ''signal''"

definition DefaultPortProbeTimeout :: nat where "DefaultPortProbeTimeout = 200"
definition MaximumPortProbeTimeout :: nat where "MaximumPortProbeTimeout = 60000"
definition DefaultSignalFrameCount :: nat where "DefaultSignalFrameCount = 5"
definition DefaultMessageFrameCount :: nat where "DefaultMessageFrameCount = 1"
definition MaximumGeneratedFrameCount :: nat where "MaximumGeneratedFrameCount = 10000000"

record SimOptions =
  sim_transport :: "Transport option"
  sim_host :: string
  sim_port :: nat
  discoverPorts :: "PortRange option"
  discoveryTimeout :: nat
  sim_count :: nat
  countExplicit :: bool
  sim_rate :: double
  sim_satelliteId :: u16
  payloadSize :: nat
  lossProbability :: double
  corruptProbability :: double
  sim_seed :: u32
  sim_outputFile :: "string option"
  payloadMode :: PayloadMode
  sim_message :: string
  sim_sampleRateHz :: u16
  signalFrequencyHz :: float32
  signalAmplitude :: float32
  signalSamples :: nat
  noiseStddev :: float32
  sim_color :: bool

text \<open>\<open>5.0F\<close> and \<open>1.0F\<close> by their bits.\<close>

definition default_SimOptions :: "u32 \<Rightarrow> SimOptions" where
  "default_SimOptions random_seed =
     \<lparr>sim_transport = None, sim_host = ''127.0.0.1'', sim_port = DefaultTelemetryPort, discoverPorts = None,
      discoveryTimeout = DefaultPortProbeTimeout, sim_count = 1000, countExplicit = False, sim_rate = Fin 100,
      sim_satelliteId = 42, payloadSize = 32, lossProbability = Fin 0, corruptProbability = Fin 0,
      sim_seed = random_seed, sim_outputFile = None, payloadMode = Mode_RandomBytes, sim_message = '''',
      sim_sampleRateHz = 200, signalFrequencyHz = 0x40A00000, signalAmplitude = 0x3F800000, signalSamples = 256,
      noiseStddev = 0, sim_color = True\<rparr>"

section \<open>Values\<close>

definition sim_selectTransport :: "SimOptions \<Rightarrow> Transport \<Rightarrow> SimOptions result" where
  "sim_selectTransport o' t =
     (if sim_transport o' \<noteq> None \<and> sim_transport o' \<noteq> Some t
      then Inl (runtime_error ''--udp and --tcp are mutually exclusive'')
      else Inr (o'\<lparr>sim_transport := Some t\<rparr>))"

text \<open>\<open>std::numeric_limits<float>::max()\<close>.\<close>

definition FloatMax :: rat where "FloatMax = (2 ^ 24 - 1) * 2 ^ 104"

definition parseFiniteFloat :: "string \<Rightarrow> string \<Rightarrow> float32 result" where
  "parseFiniteFloat v name =
     bind_r (parseFiniteDouble v name)
       (\<lambda>parsed. if d_less parsed (Fin (- FloatMax)) \<or> d_less (Fin FloatMax) parsed
                 then Inl (runtime_error (name @ '' exceeds float range'')) else Inr (double_to_f32 parsed))"

definition parse_rate :: "string \<Rightarrow> double result" where
  "parse_rate v =
     bind_r (parseFiniteDouble v ''--rate'')
       (\<lambda>x. if d_less x (Fin 0) then Inl (runtime_error ''--rate must be >= 0'') else Inr x)"

definition Ipv4LoopbackMask :: u32 where "Ipv4LoopbackMask = 0xFF000000"
definition Ipv4LoopbackPrefix :: u32 where "Ipv4LoopbackPrefix = 0x7F000000"

definition isLoopbackIpv4 :: "(string \<Rightarrow> u32 option) \<Rightarrow> string \<Rightarrow> bool" where
  "isLoopbackIpv4 inet_pton host =
     (if host = ''localhost'' then True
      else case inet_pton host of None \<Rightarrow> False
        | Some hostOrder \<Rightarrow> and hostOrder Ipv4LoopbackMask = Ipv4LoopbackPrefix)"

section \<open>The argument loop\<close>

record sim_parse =
  sim_opts :: SimOptions
  portExplicit :: bool
  payloadSizeExplicit :: bool
  messageSelected :: bool
  signalSelected :: bool

definition edit_opts :: "(SimOptions \<Rightarrow> SimOptions) \<Rightarrow> sim_parse \<Rightarrow> sim_parse" where
  "edit_opts f st = st\<lparr>sim_opts := f (sim_opts st)\<rparr>"

definition sim_option_step :: "string \<Rightarrow> string list \<Rightarrow> sim_parse \<Rightarrow> (sim_parse \<times> string list) result" where
  "sim_option_step arg rest st =
     (if arg = ''--udp'' then bind_r (sim_selectTransport (sim_opts st) Udp) (\<lambda>p. Inr (st\<lparr>sim_opts := p\<rparr>, rest))
     else if arg = ''--tcp'' then bind_r (sim_selectTransport (sim_opts st) Tcp) (\<lambda>p. Inr (st\<lparr>sim_opts := p\<rparr>, rest))
     else if arg = ''--host'' then take_value arg rest Inr (\<lambda>v. edit_opts (\<lambda>p. p\<lparr>sim_host := v\<rparr>) st)
     else if arg = ''--port''
     then take_value arg rest (\<lambda>v. parseUnsigned uint16_max v arg MinimumNetworkPort MaximumNetworkPort)
            (\<lambda>v. (edit_opts (\<lambda>p. p\<lparr>sim_port := v\<rparr>) st)\<lparr>portExplicit := True\<rparr>)
     else if arg = ''--discover-ports''
     then take_value arg rest (\<lambda>v. parsePortRange v arg) (\<lambda>v. edit_opts (\<lambda>p. p\<lparr>discoverPorts := Some v\<rparr>) st)
     else if arg = ''--discovery-timeout-ms''
     then take_value arg rest (\<lambda>v. parseUnsigned 4294967295 v arg 1 MaximumPortProbeTimeout)
            (\<lambda>v. edit_opts (\<lambda>p. p\<lparr>discoveryTimeout := v\<rparr>) st)
     else if arg = ''--count''
     then take_value arg rest (\<lambda>v. parseUnsigned size_max v arg 1 MaximumGeneratedFrameCount)
            (\<lambda>v. edit_opts (\<lambda>p. p\<lparr>sim_count := v, countExplicit := True\<rparr>) st)
     else if arg = ''--rate'' then take_value arg rest parse_rate (\<lambda>v. edit_opts (\<lambda>p. p\<lparr>sim_rate := v\<rparr>) st)
     else if arg = ''--satellite''
     then take_value arg rest (\<lambda>v. parseUnsigned uint16_max v arg 0 uint16_max)
            (\<lambda>v. edit_opts (\<lambda>p. p\<lparr>sim_satelliteId := of_nat v\<rparr>) st)
     else if arg = ''--payload-size''
     then take_value arg rest (\<lambda>v. parseUnsigned size_max v arg 0 MaxPayloadSize)
            (\<lambda>v. (edit_opts (\<lambda>p. p\<lparr>payloadSize := v\<rparr>) st)\<lparr>payloadSizeExplicit := True\<rparr>)
     else if arg = ''--loss''
     then take_value arg rest (\<lambda>v. parseProbability v arg) (\<lambda>v. edit_opts (\<lambda>p. p\<lparr>lossProbability := v\<rparr>) st)
     else if arg = ''--corrupt''
     then take_value arg rest (\<lambda>v. parseProbability v arg) (\<lambda>v. edit_opts (\<lambda>p. p\<lparr>corruptProbability := v\<rparr>) st)
     else if arg = ''--seed''
     then take_value arg rest (\<lambda>v. parseUnsigned 4294967295 v arg 0 4294967295)
            (\<lambda>v. edit_opts (\<lambda>p. p\<lparr>sim_seed := of_nat v\<rparr>) st)
     else if arg = ''--output-file''
     then take_value arg rest Inr (\<lambda>v. edit_opts (\<lambda>p. p\<lparr>sim_outputFile := Some v\<rparr>) st)
     else if arg = ''--message''
     then take_value arg rest Inr
            (\<lambda>v. (edit_opts (\<lambda>p. p\<lparr>payloadMode := Mode_TextMessage, sim_message := v\<rparr>) st)\<lparr>messageSelected := True\<rparr>)
     else if arg = ''--signal''
     then Inr ((edit_opts (\<lambda>p. p\<lparr>payloadMode := Mode_Signal\<rparr>) st)\<lparr>signalSelected := True\<rparr>, rest)
     else if arg = ''--sample-rate''
     then take_value arg rest (\<lambda>v. parseUnsigned uint16_max v arg 1 uint16_max)
            (\<lambda>v. edit_opts (\<lambda>p. p\<lparr>sim_sampleRateHz := of_nat v\<rparr>) st)
     else if arg = ''--signal-frequency''
     then take_value arg rest (\<lambda>v. parseFiniteFloat v arg) (\<lambda>v. edit_opts (\<lambda>p. p\<lparr>signalFrequencyHz := v\<rparr>) st)
     else if arg = ''--signal-amplitude''
     then take_value arg rest (\<lambda>v. parseFiniteFloat v arg) (\<lambda>v. edit_opts (\<lambda>p. p\<lparr>signalAmplitude := v\<rparr>) st)
     else if arg = ''--signal-samples''
     then take_value arg rest (\<lambda>v. parseUnsigned size_max v arg 1 MaxSignalSamplesPerPayload)
            (\<lambda>v. edit_opts (\<lambda>p. p\<lparr>signalSamples := v\<rparr>) st)
     else if arg = ''--noise-stddev''
     then take_value arg rest (\<lambda>v. parseFiniteFloat v arg) (\<lambda>v. edit_opts (\<lambda>p. p\<lparr>noiseStddev := v\<rparr>) st)
     else if arg = ''--no-color'' then Inr (edit_opts (\<lambda>p. p\<lparr>sim_color := False\<rparr>) st, rest)
     else Inl (runtime_error (''unknown option: '' @ arg)))"

lemma sim_option_step_shorter: "sim_option_step arg rest st = Inr (st', rest') \<Longrightarrow> length rest' \<le> length rest"
  unfolding sim_option_step_def
  by (simp split: if_split_asm)
     (auto simp: bind_r_def split: sum.split_asm dest: take_value_shorter less_imp_le)

function sim_args_loop :: "string list \<Rightarrow> sim_parse \<Rightarrow> sim_parse option result" where
  "sim_args_loop [] st = Inr (Some st)"
| "sim_args_loop (arg # rest) st =
     (if arg = ''--help'' \<or> arg = ''-h'' then Inr None
      else case sim_option_step arg rest st of
          Inl e \<Rightarrow> Inl e
        | Inr (st', rest') \<Rightarrow> sim_args_loop rest' st')"
  by pat_completeness auto
termination
  by (relation "measure (\<lambda>(args, st). length args)") (auto dest: sim_option_step_shorter)

section \<open>The checks behind the loop\<close>

definition check_discovery :: "(string \<Rightarrow> u32 option) \<Rightarrow> sim_parse \<Rightarrow> unit result" where
  "check_discovery inet_pton st =
     (case discoverPorts (sim_opts st) of None \<Rightarrow> Inr ()
      | Some r \<Rightarrow>
          if sim_transport (sim_opts st) \<noteq> Some Tcp then Inl (runtime_error ''--discover-ports requires --tcp'')
          else if portExplicit st then Inl (runtime_error ''choose either --port or --discover-ports, not both'')
          else if \<not> isLoopbackIpv4 inet_pton (sim_host (sim_opts st))
          then Inl (runtime_error ''--discover-ports is intentionally restricted to IPv4 loopback'')
          else if range_count r > MaxDiagnosticPortCount
          then Inl (runtime_error ''--discover-ports exceeds MaxDiagnosticPortCount'')
          else Inr ())"

definition check_signal_values :: "SimOptions \<Rightarrow> unit result" where
  "check_signal_values o' =
     (if f32_less (signalAmplitude o') 0 then Inl (runtime_error ''--signal-amplitude must be >= 0'')
      else if f32_less (noiseStddev o') 0 then Inl (runtime_error ''--noise-stddev must be >= 0'')
      else if f32_le (signalFrequencyHz o') 0 \<or> f32_ge (signalFrequencyHz o') (int (unat (sim_sampleRateHz o')) * 2 ^ 149)
      then Inl (runtime_error ''--signal-frequency must be > 0 and strictly below the Nyquist frequency'')
      else Inr ())"

definition default_count :: "SimOptions \<Rightarrow> SimOptions" where
  "default_count o' =
     (if countExplicit o' then o'
      else case payloadMode o' of
          Mode_TextMessage \<Rightarrow> o'\<lparr>sim_count := DefaultMessageFrameCount\<rparr>
        | Mode_Signal \<Rightarrow> o'\<lparr>sim_count := DefaultSignalFrameCount\<rparr>
        | Mode_RandomBytes \<Rightarrow> o')"

definition signal_probe :: "SimOptions \<Rightarrow> SignalBlockPayload" where
  "signal_probe o' =
     \<lparr>sampleRateHz = sim_sampleRateHz o', frequencyHz = signalFrequencyHz o', nominalAmplitude = signalAmplitude o',
      startSampleIndex = 0, samples = replicate (signalSamples o') 0\<rparr>"

definition probe_payload :: "SimOptions \<Rightarrow> unit result" where
  "probe_payload o' =
     (case payloadMode o' of
        Mode_Signal \<Rightarrow>
          bind_r (encodeSignalBlockPayload (signal_probe o'))
            (\<lambda>_. let lastBlockIndex = of_nat (sim_count o' - 1) :: u64;
                     finalBlockStart = lastBlockIndex * of_nat (signalSamples o')
                 in if finalBlockStart > 0xFFFFFFFF
                    then Inl (runtime_error ''signal run exceeds STGA v1 32-bit startSampleIndex; reduce --count or --signal-samples'')
                    else Inr ())
      | Mode_TextMessage \<Rightarrow> bind_r (encodeTextMessagePayload \<lparr>sequence = 0, message_text = sim_message o'\<rparr>) (\<lambda>_. Inr ())
      | Mode_RandomBytes \<Rightarrow> Inr ())"

definition sim_cross_check :: "(string \<Rightarrow> u32 option) \<Rightarrow> sim_parse \<Rightarrow> SimOptions result" where
  "sim_cross_check inet_pton st =
     (let o' = sim_opts st
      in if messageSelected st \<and> signalSelected st
         then Inl (runtime_error ''--message and --signal are mutually exclusive payload modes'')
         else if payloadSizeExplicit st \<and> payloadMode o' \<noteq> Mode_RandomBytes
         then Inl (runtime_error ''--payload-size applies only to the default random payload mode'')
         else if sim_transport o' = None \<and> sim_outputFile o' = None
         then Inl (runtime_error ''choose --udp, --tcp, and/or --output-file'')
         else bind_r (check_discovery inet_pton st) (\<lambda>_.
              bind_r (check_signal_values o') (\<lambda>_.
              bind_r (probe_payload (default_count o')) (\<lambda>_. Inr (default_count o')))))"

definition sim_parseArgs :: "(string \<Rightarrow> u32 option) \<Rightarrow> u32 \<Rightarrow> string list \<Rightarrow> SimOptions option result" where
  "sim_parseArgs inet_pton random_seed args =
     (case sim_args_loop args \<lparr>sim_opts = default_SimOptions random_seed, portExplicit = False, payloadSizeExplicit = False,
             messageSelected = False, signalSelected = False\<rparr> of
        Inl e \<Rightarrow> Inl e
      | Inr None \<Rightarrow> Inr None
      | Inr (Some st) \<Rightarrow> bind_r (sim_cross_check inet_pton st) (\<lambda>o'. Inr (Some o')))"

section \<open>What accepted options satisfy\<close>

definition sim_values_ok :: "SimOptions \<Rightarrow> bool" where
  "sim_values_ok o' \<longleftrightarrow> 1 \<le> sim_port o' \<and> sim_port o' \<le> 65535 \<and>
     (\<forall>r. discoverPorts o' = Some r \<longrightarrow> range_valid r \<and> range_last r \<le> 65535) \<and>
     1 \<le> discoveryTimeout o' \<and> discoveryTimeout o' \<le> 60000 \<and> 1 \<le> sim_count o' \<and> sim_count o' \<le> 10000000 \<and>
     (\<exists>q. sim_rate o' = Fin q \<and> 0 \<le> q) \<and> payloadSize o' \<le> MaxPayloadSize \<and>
     unit_rate (lossProbability o') \<and> unit_rate (corruptProbability o') \<and> sim_sampleRateHz o' \<noteq> 0 \<and>
     isfinite (signalFrequencyHz o') \<and> isfinite (signalAmplitude o') \<and> isfinite (noiseStddev o') \<and>
     1 \<le> signalSamples o' \<and> signalSamples o' \<le> MaxSignalSamplesPerPayload"

lemma float_max:
  "isfinite 0x7F7FFFFF" "f32_value 0x7F7FFFFF = FloatMax" "isfinite 0xFF7FFFFF" "f32_value 0xFF7FFFFF = - FloatMax"
  by (simp_all add: isfinite_def f32_value_def f32_scaled_def f32_magnitude_def f32_exponent_def f32_fraction_def
      f32_negative_def FloatMax_def)

lemma parseFiniteFloat_Inr: "parseFiniteFloat v name = Inr x \<Longrightarrow> isfinite x"
proof -
  assume "parseFiniteFloat v name = Inr x"
  then obtain q where x: "x = double_to_f32 (Fin q)" and q: "- FloatMax \<le> q" "q \<le> FloatMax"
    by (auto simp: parseFiniteFloat_def bind_r_def split: sum.splits if_splits dest: parseFiniteDouble_Inr)
  show ?thesis
    using double_to_f32_between [OF float_max(3,1), of q] q by (simp add: x float_max)
qed

lemma parse_rate_Inr: "parse_rate v = Inr x \<Longrightarrow> \<exists>q. x = Fin q \<and> 0 \<le> q"
  by (auto simp: parse_rate_def bind_r_def split: sum.splits if_splits dest: parseFiniteDouble_Inr)

lemma port_range_ok: "parsePortRange v name = Inr r \<Longrightarrow> range_valid r \<and> range_last r \<le> 65535"
  using parsePortRange_Inr [of v name r] by (auto simp: range_valid_def MinimumNetworkPort_def)

lemma sample_rate_value: "1 \<le> n \<Longrightarrow> n \<le> 65535 \<Longrightarrow> (of_nat n :: u16) \<noteq> 0"
proof -
  assume "1 \<le> n" "n \<le> 65535"
  then have "unat (of_nat n :: u16) = n" by (simp add: unat_of_nat)
  with \<open>1 \<le> n\<close> show ?thesis by auto
qed

lemma edit_opts_opts [simp]: "sim_opts (edit_opts f st) = f (sim_opts st)"
  by (simp add: edit_opts_def)

lemma sim_select_values:
  "bind_r (sim_selectTransport p t) (\<lambda>p. Inr (st\<lparr>sim_opts := p\<rparr>, rest)) = Inr (st', rest') \<Longrightarrow> sim_values_ok p \<Longrightarrow>
   sim_values_ok (sim_opts st')"
  by (auto simp: bind_r_def sim_selectTransport_def sim_values_ok_def split: if_splits)

lemma sim_take_values:
  assumes "take_value arg rest parse store = Inr (st', rest')" and "\<And>v x. parse v = Inr x \<Longrightarrow> sim_values_ok (sim_opts (store x))"
  shows "sim_values_ok (sim_opts st')"
  using assms by (auto simp: take_value_Inr)

text \<open>Each option keeps the ranges.\<close>

lemma free_edits:
  assumes "sim_values_ok p"
  shows "sim_values_ok (p\<lparr>sim_host := h\<rparr>)" "sim_values_ok (p\<lparr>sim_satelliteId := w\<rparr>)" "sim_values_ok (p\<lparr>sim_seed := w'\<rparr>)"
    "sim_values_ok (p\<lparr>sim_outputFile := f\<rparr>)" "sim_values_ok (p\<lparr>payloadMode := m, sim_message := t\<rparr>)"
    "sim_values_ok (p\<lparr>payloadMode := m\<rparr>)" "sim_values_ok (p\<lparr>sim_color := b\<rparr>)"
  using assms by (simp_all add: sim_values_ok_def)

lemma number_edits:
  assumes "sim_values_ok p"
  shows "parseUnsigned uint16_max v a MinimumNetworkPort MaximumNetworkPort = Inr n \<Longrightarrow> sim_values_ok (p\<lparr>sim_port := n\<rparr>)"
    "parseUnsigned 4294967295 v a 1 MaximumPortProbeTimeout = Inr n \<Longrightarrow> sim_values_ok (p\<lparr>discoveryTimeout := n\<rparr>)"
    "parseUnsigned size_max v a 1 MaximumGeneratedFrameCount = Inr n \<Longrightarrow> sim_values_ok (p\<lparr>sim_count := n, countExplicit := True\<rparr>)"
    "parseUnsigned size_max v a 0 MaxPayloadSize = Inr n \<Longrightarrow> sim_values_ok (p\<lparr>payloadSize := n\<rparr>)"
    "parseUnsigned uint16_max v a 1 uint16_max = Inr n \<Longrightarrow> sim_values_ok (p\<lparr>sim_sampleRateHz := of_nat n\<rparr>)"
    "parseUnsigned size_max v a 1 MaxSignalSamplesPerPayload = Inr n \<Longrightarrow> sim_values_ok (p\<lparr>signalSamples := n\<rparr>)"
  using assms sample_rate_value [of n]
  by (simp_all add: sim_values_ok_def parseUnsigned_Inr MinimumNetworkPort_def MaximumNetworkPort_def
      MaximumPortProbeTimeout_def MaximumGeneratedFrameCount_def)

lemma value_edits:
  assumes "sim_values_ok p"
  shows "parsePortRange v a = Inr r \<Longrightarrow> sim_values_ok (p\<lparr>discoverPorts := Some r\<rparr>)"
    "parse_rate v = Inr x \<Longrightarrow> sim_values_ok (p\<lparr>sim_rate := x\<rparr>)"
    "parseProbability v a = Inr x \<Longrightarrow> sim_values_ok (p\<lparr>lossProbability := x\<rparr>)"
    "parseProbability v a = Inr x \<Longrightarrow> sim_values_ok (p\<lparr>corruptProbability := x\<rparr>)"
    "parseFiniteFloat v a = Inr y \<Longrightarrow> sim_values_ok (p\<lparr>signalFrequencyHz := y\<rparr>)"
    "parseFiniteFloat v a = Inr y \<Longrightarrow> sim_values_ok (p\<lparr>signalAmplitude := y\<rparr>)"
    "parseFiniteFloat v a = Inr y \<Longrightarrow> sim_values_ok (p\<lparr>noiseStddev := y\<rparr>)"
  using assms by (simp_all add: sim_values_ok_def parseFiniteFloat_Inr parse_rate_Inr port_range_ok parseProbability_Inr)

lemma sim_option_step_values:
  assumes "sim_option_step arg rest st = Inr (st', rest')" and ok: "sim_values_ok (sim_opts st)"
  shows "sim_values_ok (sim_opts st')"
  using assms(1) unfolding sim_option_step_def
  by (simp only: split: if_split_asm)
     (auto simp del: One_nat_def dest: sim_select_values [OF _ ok] elim!: sim_take_values
       intro: free_edits [OF ok] number_edits [OF ok] value_edits [OF ok])

lemma sim_args_loop_values:
  "sim_args_loop args st = Inr (Some st') \<Longrightarrow> sim_values_ok (sim_opts st) \<Longrightarrow> sim_values_ok (sim_opts st')"
proof (induction args st rule: sim_args_loop.induct)
  case (2 arg rest st)
  then show ?case by (auto split: if_splits sum.splits dest: sim_option_step_values)
qed simp

lemma default_sim_values: "sim_values_ok (default_SimOptions seed)"
  by (simp add: sim_values_ok_def default_SimOptions_def DefaultTelemetryPort_def DefaultPortProbeTimeout_def unit_rate_def
      wire_simps isfinite_def f32_exponent_def)

text \<open>What the two payload modes with their own format may rely on.\<close>

definition payload_ready :: "SimOptions \<Rightarrow> bool" where
  "payload_ready o' \<longleftrightarrow> (case payloadMode o' of
      Mode_RandomBytes \<Rightarrow> True
    | Mode_TextMessage \<Rightarrow> length (sim_message o') \<le> MaxTextMessageBytes
    | Mode_Signal \<Rightarrow> validSignalMetadata (sim_sampleRateHz o') (signalFrequencyHz o') (signalAmplitude o') \<and>
        (sim_count o' - 1) * signalSamples o' < 2 ^ 32)"

lemma probe_ready: "probe_payload o' = Inr u \<Longrightarrow> sim_values_ok o' \<Longrightarrow> payload_ready o'"
proof (cases "payloadMode o'")
  case Mode_Signal
  assume probe: "probe_payload o' = Inr u" and ok: "sim_values_ok o'"
  have "sim_count o' - 1 \<le> 10000000" "signalSamples o' \<le> 65535" using ok by (auto simp: sim_values_ok_def wire_simps)
  then have "(sim_count o' - 1) * signalSamples o' \<le> 10000000 * 65535" by (rule mult_le_mono)
  then have small: "(sim_count o' - 1) * signalSamples o' < 2 ^ 64" by simp
  have "(of_nat (sim_count o' - 1) * of_nat (signalSamples o') :: u64) = of_nat ((sim_count o' - 1) * signalSamples o')" by simp
  then have "\<not> (of_nat ((sim_count o' - 1) * signalSamples o') :: u64) > 0xFFFFFFFF"
    using probe Mode_Signal by (auto simp: probe_payload_def bind_r_def Let_def split: sum.splits if_splits)
  then have "(sim_count o' - 1) * signalSamples o' < 2 ^ 32"
    using small by (simp add: word_less_nat_alt unat_of_nat del: of_nat_mult)
  moreover have "validSignalMetadata (sim_sampleRateHz o') (signalFrequencyHz o') (signalAmplitude o')"
    using probe Mode_Signal by (auto simp: probe_payload_def bind_r_def encodeSignalBlockPayload_def signal_probe_def
        split: sum.splits if_splits)
  ultimately show ?thesis using Mode_Signal by (simp add: payload_ready_def)
next
  case Mode_TextMessage
  assume "probe_payload o' = Inr u"
  with Mode_TextMessage show ?thesis
    by (auto simp: probe_payload_def payload_ready_def bind_r_def encodeTextMessagePayload_def split: sum.splits if_splits)
qed (simp add: payload_ready_def)

lemma default_count_values: "sim_values_ok o' \<Longrightarrow> sim_values_ok (default_count o')"
  by (simp add: default_count_def sim_values_ok_def DefaultMessageFrameCount_def DefaultSignalFrameCount_def
      split: PayloadMode.split)

lemma sim_parseArgs_facts:
  assumes "sim_parseArgs inet_pton random_seed args = Inr (Some o')"
  shows "sim_values_ok o' \<and> payload_ready o' \<and> (sim_transport o' \<noteq> None \<or> sim_outputFile o' \<noteq> None) \<and>
    (\<forall>r. discoverPorts o' = Some r \<longrightarrow>
       sim_transport o' = Some Tcp \<and> isLoopbackIpv4 inet_pton (sim_host o') \<and> range_count r \<le> 256)"
proof -
  from assms obtain st where loop: "sim_args_loop args \<lparr>sim_opts = default_SimOptions random_seed, portExplicit = False,
      payloadSizeExplicit = False, messageSelected = False, signalSelected = False\<rparr> = Inr (Some st)"
    and check: "sim_cross_check inet_pton st = Inr o'"
    by (auto simp: sim_parseArgs_def bind_r_def split: sum.splits option.splits)
  have st: "sim_values_ok (sim_opts st)" using sim_args_loop_values [OF loop] default_sim_values by simp
  from check have o': "o' = default_count (sim_opts st)" and probe: "\<exists>u. probe_payload o' = Inr u"
    and discovery: "check_discovery inet_pton st = Inr ()"
    and dest: "sim_transport (sim_opts st) \<noteq> None \<or> sim_outputFile (sim_opts st) \<noteq> None"
    by (auto simp: sim_cross_check_def bind_r_def Let_def split: if_splits sum.splits)
  have same: "sim_transport o' = sim_transport (sim_opts st)" "sim_outputFile o' = sim_outputFile (sim_opts st)"
    "discoverPorts o' = discoverPorts (sim_opts st)" "sim_host o' = sim_host (sim_opts st)"
    by (simp_all add: o' default_count_def split: PayloadMode.split)
  have ok: "sim_values_ok o'" using default_count_values [OF st] o' by simp
  from probe probe_ready [OF _ ok] have "payload_ready o'" by blast
  with ok dest discovery show ?thesis
    by (auto simp: same check_discovery_def MaxDiagnosticPortCount_def split: if_splits)
qed

end
