(* ===== verification/Signal_Processing.thy ===== *)
theory Signal_Processing
  imports Float_Arith
begin

text \<open>
  Model of \<open>include/stgs/SignalProcessing.hpp\<close> and \<open>src/SignalProcessing.cpp\<close>: the moving
  average, the sine projection and the signal metrics, in rounded \<open>double\<close> arithmetic. The
  functions of the mathematics library (\<open>sin\<close>, \<open>cos\<close>, \<open>sqrt\<close>, \<open>hypot\<close>,
  \<open>log10\<close>) are the parameter \<open>libm\<close>.
\<close>

record libm =
  m_sin :: "double \<Rightarrow> double"
  m_cos :: "double \<Rightarrow> double"
  m_sqrt :: "double \<Rightarrow> double"
  m_hypot :: "double \<Rightarrow> double \<Rightarrow> double"
  m_log10 :: "double \<Rightarrow> double"

text \<open>\<open>2.0 * std::numbers::pi_v<double>\<close>: the significand of the double nearest to pi.\<close>

definition TwoPi :: double where
  "TwoPi = Fin (7074237752028440 / 2 ^ 50)"

definition DecibelsPerAmplitudeDecade :: double where
  "DecibelsPerAmplitudeDecade = Fin 20"

record ProjectionCoefficients =
  dc :: double
  sinCoefficient :: double
  cosCoefficient :: double

record SignalMetrics =
  rawRms :: double
  filteredRms :: double
  residualNoiseRms :: double
  estimatedSnrDb :: double
  estimatedAmplitude :: double

section \<open>Validation\<close>

definition validateFiniteSamples :: "float32 list \<Rightarrow> unit result" where
  "validateFiniteSamples samples =
     (if list_ex (\<lambda>s. \<not> isfinite s) samples
      then Inl (invalid_argument ''signal processing requires finite samples'') else Inr ())"

text \<open>The Nyquist frequency is half the sample rate, exact in \<open>float\<close>.\<close>

definition validateProjectionMetadata :: "u16 \<Rightarrow> float32 \<Rightarrow> unit result" where
  "validateProjectionMetadata sampleRateHz frequencyHz =
     (if sampleRateHz = 0 \<or> \<not> isfinite frequencyHz
      then Inl (invalid_argument ''invalid signal metadata for sine projection'')
      else if f32_le frequencyHz 0 \<or> f32_ge frequencyHz (int (unat sampleRateHz) * 2 ^ 149)
      then Inl (invalid_argument ''sine projection frequency must be strictly between 0 and Nyquist'')
      else Inr ())"

section \<open>Projection\<close>

definition omega_of :: "u16 \<Rightarrow> float32 \<Rightarrow> double" where
  "omega_of sampleRateHz frequencyHz =
     d_div (d_mul TwoPi (f32_to_double frequencyHz)) (d_of_nat (unat sampleRateHz))"

definition phase_at :: "double \<Rightarrow> u32 \<Rightarrow> nat \<Rightarrow> double" where
  "phase_at omega start i = d_mul omega (d_of_nat (unat start + i))"

fun projection_loop ::
    "libm \<Rightarrow> double \<Rightarrow> u32 \<Rightarrow> nat \<Rightarrow> float32 list \<Rightarrow> double \<times> double \<times> double \<Rightarrow> double \<times> double \<times> double" where
  "projection_loop lm omega start i [] acc = acc"
| "projection_loop lm omega start i (s # ss) (sm, sp, cp) =
     (let x = f32_to_double s; phase = phase_at omega start i
      in projection_loop lm omega start (i + 1) ss
           (d_add sm x, d_add sp (d_mul x (m_sin lm phase)), d_add cp (d_mul x (m_cos lm phase))))"

definition estimateProjection :: "libm \<Rightarrow> float32 list \<Rightarrow> u16 \<Rightarrow> float32 \<Rightarrow> u32 \<Rightarrow> ProjectionCoefficients result" where
  "estimateProjection lm samples sampleRateHz frequencyHz start =
     (if samples = [] then Inr \<lparr>dc = Fin 0, sinCoefficient = Fin 0, cosCoefficient = Fin 0\<rparr>
      else case validateProjectionMetadata sampleRateHz frequencyHz of Inl e \<Rightarrow> Inl e | Inr _ \<Rightarrow>
        (case validateFiniteSamples samples of Inl e \<Rightarrow> Inl e | Inr _ \<Rightarrow>
          (let (sm, sp, cp) = projection_loop lm (omega_of sampleRateHz frequencyHz) start 0 samples (Fin 0, Fin 0, Fin 0);
               count = d_of_nat (length samples)
           in Inr \<lparr>dc = d_div sm count, sinCoefficient = d_div (d_mul (Fin 2) sp) count,
                   cosCoefficient = d_div (d_mul (Fin 2) cp) count\<rparr>)))"

definition rootMeanSquare :: "libm \<Rightarrow> float32 list \<Rightarrow> double" where
  "rootMeanSquare lm samples =
     (if samples = [] then Fin 0
      else m_sqrt lm (d_div (foldl (\<lambda>acc s. d_add acc (d_mul (f32_to_double s) (f32_to_double s))) (Fin 0) samples)
                        (d_of_nat (length samples))))"

section \<open>Filters\<close>

text \<open>The average of the samples from \<open>begin\<close> to \<open>end\<close>.\<close>

definition window_average :: "float32 list \<Rightarrow> nat \<Rightarrow> nat \<Rightarrow> float32" where
  "window_average samples from_i to_i =
     double_to_f32 (d_div (foldl (\<lambda>acc s. d_add acc (f32_to_double s)) (Fin 0) (take (to_i - from_i) (drop from_i samples)))
                      (d_of_nat (to_i - from_i)))"

definition movingAverageFilter :: "float32 list \<Rightarrow> nat \<Rightarrow> float32 list result" where
  "movingAverageFilter samples window_size =
     (if window_size = 0 \<or> window_size mod 2 = 0
      then Inl (invalid_argument ''moving-average window must be a positive odd number'')
      else case validateFiniteSamples samples of Inl e \<Rightarrow> Inl e | Inr _ \<Rightarrow>
        if samples = [] \<or> window_size = 1 then Inr samples
        else (let radius = window_size div 2
              in Inr (map (\<lambda>i. window_average samples (if i > radius then i - radius else 0)
                                 (min (length samples) (i + radius + 1))) [0..<length samples])))"

definition sine_value :: "libm \<Rightarrow> ProjectionCoefficients \<Rightarrow> double \<Rightarrow> float32" where
  "sine_value lm c phase =
     double_to_f32 (d_add (d_add (dc c) (d_mul (sinCoefficient c) (m_sin lm phase))) (d_mul (cosCoefficient c) (m_cos lm phase)))"

definition sineProjectionFilter :: "libm \<Rightarrow> float32 list \<Rightarrow> u16 \<Rightarrow> float32 \<Rightarrow> u32 \<Rightarrow> float32 list result" where
  "sineProjectionFilter lm samples sampleRateHz frequencyHz start =
     (case estimateProjection lm samples sampleRateHz frequencyHz start of Inl e \<Rightarrow> Inl e
      | Inr c \<Rightarrow> Inr (map (\<lambda>i. sine_value lm c (phase_at (omega_of sampleRateHz frequencyHz) start i)) [0..<length samples]))"

section \<open>Metrics\<close>

definition NumericalZeroEpsilon :: double where
  "NumericalZeroEpsilon = round_double (1 / 10 ^ 12)"

definition residual_rms :: "libm \<Rightarrow> float32 list \<Rightarrow> float32 list \<Rightarrow> double" where
  "residual_rms lm raw filtered =
     (if raw = [] then Fin 0
      else m_sqrt lm (d_div (foldl (\<lambda>acc (r, f). let d = d_sub (f32_to_double r) (f32_to_double f) in d_add acc (d_mul d d))
                               (Fin 0) (zip raw filtered))
                        (d_of_nat (length raw))))"

definition snr_db :: "libm \<Rightarrow> double \<Rightarrow> double \<Rightarrow> double" where
  "snr_db lm residual filtered =
     (if d_le residual NumericalZeroEpsilon then PosInf
      else if d_le filtered NumericalZeroEpsilon then NegInf
      else d_mul DecibelsPerAmplitudeDecade (m_log10 lm (d_div filtered residual)))"

definition computeSignalMetrics :: "libm \<Rightarrow> float32 list \<Rightarrow> float32 list \<Rightarrow> u16 \<Rightarrow> float32 \<Rightarrow> u32 \<Rightarrow> SignalMetrics result" where
  "computeSignalMetrics lm raw filtered sampleRateHz frequencyHz start =
     (if length raw \<noteq> length filtered then Inl (invalid_argument ''raw and filtered signal sizes must match'')
      else case validateProjectionMetadata sampleRateHz frequencyHz of Inl e \<Rightarrow> Inl e | Inr _ \<Rightarrow>
        (case validateFiniteSamples raw of Inl e \<Rightarrow> Inl e | Inr _ \<Rightarrow>
          (case validateFiniteSamples filtered of Inl e \<Rightarrow> Inl e | Inr _ \<Rightarrow>
            (case estimateProjection lm raw sampleRateHz frequencyHz start of Inl e \<Rightarrow> Inl e | Inr c \<Rightarrow>
              (let f = rootMeanSquare lm filtered; res = residual_rms lm raw filtered
               in Inr \<lparr>rawRms = rootMeanSquare lm raw, filteredRms = f, residualNoiseRms = res,
                       estimatedSnrDb = snr_db lm res f,
                       estimatedAmplitude = m_hypot lm (sinCoefficient c) (cosCoefficient c)\<rparr>)))))"

end
