(* ===== verification/Simulator.thy ===== *)
theory Simulator
  imports Simulator_Options Signal_Processing Replay
begin

text \<open>
  Model of the satellite simulator: the frame factory (\<open>SimulatorFrameFactory.cpp\<close>), the sending of
  bytes (\<open>SimulatorSocket.cpp\<close>) and the transmission loop (\<open>SimulatorApp.cpp\<close>).

  The engine and the distributions of \<open><random>\<close> are the parameter \<open>random_lib\<close>, since the
  language leaves the algorithms of the distributions open: each draw maps the state of the engine
  (and, for the normal distribution, the state of the distribution object) to a value and the next
  state. The clock is a function of the frame number. The answers of the system to \<open>send\<close> and
  \<open>sendto\<close> are a script; a loop that has used up the script is still waiting, the value \<open>None\<close>.
  Port scanning and connecting are parameters too; the terminal output and the pacing are left out.
\<close>

section \<open>Random numbers\<close>

record ('g, 'd) random_lib =
  mt_seed :: "u32 \<Rightarrow> 'g"
  normal_init :: 'd
  normal_draw :: "float32 \<Rightarrow> float32 \<Rightarrow> 'd \<Rightarrow> 'g \<Rightarrow> float32 \<times> 'd \<times> 'g"
  discrete_draw :: "double list \<Rightarrow> 'g \<Rightarrow> nat \<times> 'g"
  uniform_int :: "nat \<Rightarrow> nat \<Rightarrow> 'g \<Rightarrow> nat \<times> 'g"
  uniform_real :: "double \<Rightarrow> double \<Rightarrow> 'g \<Rightarrow> double \<times> 'g"

section \<open>Frame factory\<close>

text \<open>\<open>22.0F\<close> and \<open>4.0F\<close> by their bits.\<close>

definition SimulationTemperatureMeanC :: float32 where "SimulationTemperatureMeanC = 0x41B00000"
definition SimulationTemperatureStddevC :: float32 where "SimulationTemperatureStddevC = 0x40800000"
definition SimulationStatusWeights :: "double list" where "SimulationStatusWeights = [Fin 90, Fin 7, Fin 2, Fin 1]"
definition CorruptionXorMask :: u8 where "CorruptionXorMask = 0x5A"
definition SimulationBatteryCycleLength :: nat where "SimulationBatteryCycleLength = unat MaxBatteryPercent + 1"

definition randomStatus :: "('g, 'd) random_lib \<Rightarrow> 'g \<Rightarrow> Status \<times> 'g" where
  "randomStatus lib g = (let (k, g) = discrete_draw lib SimulationStatusWeights g in (of_nat k, g))"

fun random_bytes :: "('g, 'd) random_lib \<Rightarrow> nat \<Rightarrow> 'g \<Rightarrow> ByteVector \<times> 'g" where
  "random_bytes lib 0 g = ([], g)"
| "random_bytes lib (Suc n) g =
     (let (v, g) = uniform_int lib 0 255 g; (bs, g) = random_bytes lib n g in (of_nat v # bs, g))"

definition makeRandomPayload :: "('g, 'd) random_lib \<Rightarrow> SimOptions \<Rightarrow> 'g \<Rightarrow> ByteVector \<times> 'g" where
  "makeRandomPayload lib o' g = random_bytes lib (payloadSize o') g"

text \<open>Addition of \<open>float\<close>: the exact sum rounded once.\<close>

definition f32_add :: "float32 \<Rightarrow> float32 \<Rightarrow> float32" where
  "f32_add a b =
     (if isfinite a \<and> isfinite b then double_to_f32 (Fin (f32_value a + f32_value b))
      else double_to_f32 (d_add (f32_to_double a) (f32_to_double b)))"

definition clean_sample :: "libm \<Rightarrow> SimOptions \<Rightarrow> double \<Rightarrow> u64 \<Rightarrow> double" where
  "clean_sample lm o' angularStep absoluteIndex =
     d_mul (f32_to_double (signalAmplitude o')) (m_sin lm (d_mul angularStep (d_of_nat (unat absoluteIndex))))"

text \<open>The samples from number \<open>i\<close> on, \<open>n\<close> of them.\<close>

fun signal_samples ::
    "('g, 'd) random_lib \<Rightarrow> libm \<Rightarrow> SimOptions \<Rightarrow> double \<Rightarrow> u64 \<Rightarrow> nat \<Rightarrow> nat \<Rightarrow> 'd \<Rightarrow> 'g \<Rightarrow> float32 list \<times> 'g" where
  "signal_samples lib lm o' step start i 0 d g = ([], g)"
| "signal_samples lib lm o' step start i (Suc n) d g =
     (let clean = clean_sample lm o' step (start + of_nat i);
          (noise, d, g) = normal_draw lib 0 (noiseStddev o') d g;
          (rest, g) = signal_samples lib lm o' step start (i + 1) n d g
      in (f32_add (double_to_f32 clean) noise # rest, g))"

text \<open>Without noise the deviation is 0, for which the standard does not define the distribution: the draw is then
  whatever the library returns.\<close>

definition makeSignalPayload ::
    "('g, 'd) random_lib \<Rightarrow> libm \<Rightarrow> SimOptions \<Rightarrow> nat \<Rightarrow> 'g \<Rightarrow> (ByteVector \<times> 'g) result" where
  "makeSignalPayload lib lm o' blockIndex g =
     (let startIndex64 = (of_nat blockIndex :: u64) * of_nat (signalSamples o')
      in if startIndex64 > 0xFFFFFFFF then Inl (runtime_error ''signal sample index exceeds STGA v1 32-bit range'')
         else
           let angularStep = omega_of (sim_sampleRateHz o') (signalFrequencyHz o');
               (xs, g) = signal_samples lib lm o' angularStep startIndex64 0 (signalSamples o') (normal_init lib) g
           in bind_r (encodeSignalBlockPayload
                \<lparr>sampleRateHz = sim_sampleRateHz o', frequencyHz = signalFrequencyHz o', nominalAmplitude = signalAmplitude o',
                 startSampleIndex = ucast startIndex64, samples = xs\<rparr>) (\<lambda>pl. Inr (pl, g)))"

definition makePayload ::
    "('g, 'd) random_lib \<Rightarrow> libm \<Rightarrow> SimOptions \<Rightarrow> nat \<Rightarrow> 'g \<Rightarrow> (ByteVector \<times> 'g) result" where
  "makePayload lib lm o' seqno g =
     (case payloadMode o' of
        Mode_RandomBytes \<Rightarrow> Inr (makeRandomPayload lib o' g)
      | Mode_TextMessage \<Rightarrow>
          bind_r (encodeTextMessagePayload \<lparr>sequence = of_nat seqno, message_text = sim_message o'\<rparr>) (\<lambda>pl. Inr (pl, g))
      | Mode_Signal \<Rightarrow> makeSignalPayload lib lm o' seqno g)"

definition makeFrame ::
    "('g, 'd) random_lib \<Rightarrow> libm \<Rightarrow> (nat \<Rightarrow> u64) \<Rightarrow> SimOptions \<Rightarrow> nat \<Rightarrow> 'g \<Rightarrow> (TelemetryFrame \<times> 'g) result" where
  "makeFrame lib lm nowMs o' seqno g =
     (let (temperature, d, g) =
            normal_draw lib SimulationTemperatureMeanC SimulationTemperatureStddevC (normal_init lib) g;
          battery = of_nat (unat MaxBatteryPercent - seqno mod SimulationBatteryCycleLength);
          (st, g) = randomStatus lib g
      in bind_r (makePayload lib lm o' seqno g) (\<lambda>(pl, g).
           Inr (\<lparr>version = ProtocolVersion, satelliteId = sim_satelliteId o', timestampMs = nowMs seqno,
                 temperatureC = temperature, batteryPercent = battery, status = st, payload = pl\<rparr>, g)))"

definition maybeCorrupt :: "('g, 'd) random_lib \<Rightarrow> ByteVector \<Rightarrow> 'g \<Rightarrow> ByteVector \<times> 'g" where
  "maybeCorrupt lib bytes g =
     (if bytes = [] then (bytes, g)
      else let (i, g) = uniform_int lib 0 (length bytes - 1) g
           in (bytes[i := xor (bytes ! i) CorruptionXorMask], g))"

section \<open>Sending\<close>

text \<open>An answer of the system to one call: a number of bytes taken over, an interruption
  (\<open>EINTR\<close>), or another error.\<close>

datatype send_answer = Sent nat | Interrupted | Send_failed string

text \<open>The bytes not sent yet, the answers to come and the bytes on the wire.\<close>

fun send_loop :: "ByteVector \<Rightarrow> send_answer list \<Rightarrow> ByteVector \<Rightarrow> (send_answer list \<times> ByteVector \<times> unit result) option" where
  "send_loop [] answers wire = Some (answers, wire, Inr ())"
| "send_loop (b # bs) [] wire = None"
| "send_loop (b # bs) (Interrupted # as) wire = send_loop (b # bs) as wire"
| "send_loop (b # bs) (Send_failed m # as) wire = Some (as, wire, Inl (runtime_error (''send() failed: '' @ m)))"
| "send_loop (b # bs) (Sent n # as) wire =
     (if n = 0 then Some (as, wire, Inl (runtime_error ''send() returned zero before the frame was fully transmitted''))
      else send_loop (drop n (b # bs)) as (wire @ take n (b # bs)))"

record sim_socket =
  answers :: "send_answer list"
  stream_out :: ByteVector
  datagrams :: "ByteVector list"

definition sendAll :: "sim_socket \<Rightarrow> ByteVector \<Rightarrow> (sim_socket \<times> unit result) option" where
  "sendAll s bytes =
     map_option (\<lambda>(as, wire, r). (s\<lparr>answers := as, stream_out := wire\<rparr>, r)) (send_loop bytes (answers s) (stream_out s))"

definition sendUdpFrame :: "sim_socket \<Rightarrow> ByteVector \<Rightarrow> (sim_socket \<times> unit result) option" where
  "sendUdpFrame s bytes =
     (case answers s of
        [] \<Rightarrow> None
      | Interrupted # as \<Rightarrow> Some (s\<lparr>answers := as\<rparr>, Inl (runtime_error ''sendto() failed: Interrupted system call''))
      | Send_failed m # as \<Rightarrow> Some (s\<lparr>answers := as\<rparr>, Inl (runtime_error (''sendto() failed: '' @ m)))
      | Sent n # as \<Rightarrow>
          Some (s\<lparr>answers := as, datagrams := datagrams s @ [take n bytes]\<rparr>,
                if n \<noteq> length bytes then Inl (runtime_error ''UDP datagram was not transmitted atomically'') else Inr ()))"

section \<open>Port discovery\<close>

datatype TcpPortState = Port_Open | Port_Closed | Port_Timeout | Port_Error

type_synonym port_scan = "string \<Rightarrow> PortRange \<Rightarrow> nat \<Rightarrow> (nat \<times> TcpPortState) list result"

definition discoverPort :: "port_scan \<Rightarrow> SimOptions \<Rightarrow> SimOptions result" where
  "discoverPort scanTcpPorts o' =
     (case discoverPorts o' of None \<Rightarrow> Inr o'
      | Some r \<Rightarrow> bind_r (scanTcpPorts (sim_host o') r (discoveryTimeout o'))
          (\<lambda>results. case find (\<lambda>(p, st). st = Port_Open) results of
             None \<Rightarrow> Inl (runtime_error ''no OPEN TCP listener found in --discover-ports range'')
           | Some (p, _) \<Rightarrow> Inr (o'\<lparr>sim_port := p\<rparr>)))"

section \<open>The transmission loop\<close>

text \<open>What the simulator runs in: libraries, clock, capture file, port scanner, what making and
  connecting the socket raises, and the answers to its sends.\<close>

record ('g, 'd) sim_env =
  sim_random :: "('g, 'd) random_lib"
  sim_libm :: libm
  sim_clock :: "nat \<Rightarrow> u64"
  capture_can_open :: bool
  capture_device :: device
  capture_flush :: bool
  sim_scan :: port_scan
  connect_error :: "exn option"
  send_answers :: "send_answer list"

record 'g sim_state =
  rng :: 'g
  produced :: nat
  dropped :: nat
  corrupted :: nat
  sim_out :: "sim_socket option"
  sim_capture :: "FrameFileWriter option"

definition transmit :: "SimOptions \<Rightarrow> ByteVector \<Rightarrow> 'g sim_state \<Rightarrow> ('g sim_state \<times> exn option) option" where
  "transmit o' bytes st =
     (case sim_out st of None \<Rightarrow> Some (st, None)
      | Some s \<Rightarrow>
          map_option (\<lambda>(s, r). (st\<lparr>sim_out := Some s\<rparr>, case r of Inl e \<Rightarrow> Some e | Inr _ \<Rightarrow> None))
            (if sim_transport o' = Some Udp then sendUdpFrame s bytes else sendAll s bytes))"

definition record_frame :: "device \<Rightarrow> ByteVector \<Rightarrow> 'g sim_state \<Rightarrow> 'g sim_state \<times> exn option" where
  "record_frame dev bytes st =
     (case sim_capture st of None \<Rightarrow> (st, None)
      | Some out \<Rightarrow> (let (out, r) = writeFrame dev out bytes
                     in (st\<lparr>sim_capture := Some out\<rparr>, case r of Inl e \<Rightarrow> Some e | Inr _ \<Rightarrow> None)))"

text \<open>One turn of the loop, without the pause.\<close>

definition sim_step :: "('g, 'd) sim_env \<Rightarrow> SimOptions \<Rightarrow> nat \<Rightarrow> 'g sim_state \<Rightarrow> ('g sim_state \<times> exn option) option" where
  "sim_step env o' i st =
     (case makeFrame (sim_random env) (sim_libm env) (sim_clock env) o' i (rng st) of
        Inl e \<Rightarrow> Some (st, Some e)
      | Inr (frame, g) \<Rightarrow>
          (case encodeFrame frame of
             Inl e \<Rightarrow> Some (st, Some e)
           | Inr bytes \<Rightarrow>
               (let (p, g) = uniform_real (sim_random env) (Fin 0) (Fin 1) g
                in if d_less p (lossProbability o') then Some (st\<lparr>rng := g, dropped := dropped st + 1\<rparr>, None)
                   else
                     let (q, g) = uniform_real (sim_random env) (Fin 0) (Fin 1) g;
                         damage = d_less q (corruptProbability o');
                         (bytes, g) = (if damage then maybeCorrupt (sim_random env) bytes g else (bytes, g));
                         st = st\<lparr>rng := g, corrupted := corrupted st + (if damage then 1 else 0)\<rparr>
                     in (case transmit o' bytes st of
                           None \<Rightarrow> None
                         | Some (st, Some e) \<Rightarrow> Some (st, Some e)
                         | Some (st, None) \<Rightarrow>
                             (case record_frame (capture_device env) bytes st of
                                (st, Some e) \<Rightarrow> Some (st, Some e)
                              | (st, None) \<Rightarrow> Some (st\<lparr>produced := produced st + 1\<rparr>, None))))))"

fun sim_loop :: "('g, 'd) sim_env \<Rightarrow> SimOptions \<Rightarrow> nat \<Rightarrow> nat \<Rightarrow> 'g sim_state \<Rightarrow> ('g sim_state \<times> exn option) option" where
  "sim_loop env o' i 0 st = Some (st, None)"
| "sim_loop env o' i (Suc n) st =
     (case sim_step env o' i st of
        None \<Rightarrow> None
      | Some (st, Some e) \<Rightarrow> Some (st, Some e)
      | Some (st, None) \<Rightarrow> sim_loop env o' (i + 1) n st)"

definition open_capture :: "('g, 'd) sim_env \<Rightarrow> SimOptions \<Rightarrow> FrameFileWriter option result" where
  "open_capture env o' =
     (case sim_outputFile o' of None \<Rightarrow> Inr None
      | Some path \<Rightarrow> bind_r (FrameFileWriter_ctor (capture_can_open env) (capture_device env) path) (\<lambda>out. Inr (Some out)))"

definition open_socket :: "('g, 'd) sim_env \<Rightarrow> SimOptions \<Rightarrow> sim_socket option result" where
  "open_socket env o' =
     (if sim_transport o' = None then Inr None
      else case connect_error env of Some e \<Rightarrow> Inl e
        | None \<Rightarrow> Inr (Some \<lparr>answers = send_answers env, stream_out = [], datagrams = []\<rparr>))"

definition finish_capture :: "('g, 'd) sim_env \<Rightarrow> 'g sim_state \<Rightarrow> 'g sim_state \<times> exn option" where
  "finish_capture env st =
     (case sim_capture st of None \<Rightarrow> (st, None)
      | Some out \<Rightarrow> (let (out, r) = flush (capture_device env) (capture_flush env) out
                     in (st\<lparr>sim_capture := Some out\<rparr>, case r of Inl e \<Rightarrow> Some e | Inr _ \<Rightarrow> None)))"

definition sim_run :: "('g, 'd) sim_env \<Rightarrow> SimOptions \<Rightarrow> ('g sim_state result) option" where
  "sim_run env o0 =
     (case discoverPort (sim_scan env) o0 of Inl e \<Rightarrow> Some (Inl e)
      | Inr o' \<Rightarrow>
        (case open_capture env o' of Inl e \<Rightarrow> Some (Inl e)
         | Inr capt \<Rightarrow>
           (case open_socket env o' of Inl e \<Rightarrow> Some (Inl e)
            | Inr sock \<Rightarrow>
              (case sim_loop env o' 0 (sim_count o')
                      \<lparr>rng = mt_seed (sim_random env) (sim_seed o'), produced = 0, dropped = 0, corrupted = 0,
                       sim_out = sock, sim_capture = capt\<rparr> of
                 None \<Rightarrow> None
               | Some (st, Some e) \<Rightarrow> Some (Inl e)
               | Some (st, None) \<Rightarrow>
                   (case finish_capture env st of (st, Some e) \<Rightarrow> Some (Inl e) | (st, None) \<Rightarrow> Some (Inr st))))))"

end
