(* ===== verification/Blocking_Queue.thy ===== *)
theory Blocking_Queue
  imports Prelude
begin

text \<open>
  Model of \<open>include/stgs/BlockingQueue.hpp\<close>: the bounded FIFO between the pipeline stages. The
  mutex makes each operation atomic; an operation returns \<open>None\<close> while its wait predicate is
  false, that is while the calling thread stays blocked on the condition variable.

  The locale \<open>fifo_channel\<close> is the contract the pipeline relies on; it is interpreted on the
  queue's operations, and its lemmas on histories of operations hold for every interleaving of
  the threads that use the queue.
\<close>

record 'a BlockingQueue =
  queue :: "'a list"
  capacity :: nat
  closed :: bool

definition BlockingQueue_ctor :: "nat \<Rightarrow> 'a BlockingQueue" where
  "BlockingQueue_ctor cap = \<lparr>queue = [], capacity = cap, closed = False\<rparr>"

definition push :: "'a BlockingQueue \<Rightarrow> 'a \<Rightarrow> ('a BlockingQueue \<times> bool) option" where
  "push q v =
     (if \<not> (closed q \<or> capacity q = 0 \<or> length (queue q) < capacity q) then None
      else if closed q then Some (q, False)
      else Some (q\<lparr>queue := queue q @ [v]\<rparr>, True))"

definition pop :: "'a BlockingQueue \<Rightarrow> ('a BlockingQueue \<times> 'a option) option" where
  "pop q =
     (if \<not> (closed q \<or> queue q \<noteq> []) then None
      else case queue q of
          [] \<Rightarrow> Some (q, None)
        | v # vs \<Rightarrow> Some (q\<lparr>queue := vs\<rparr>, Some v))"

definition close :: "'a BlockingQueue \<Rightarrow> 'a BlockingQueue" where
  "close q = q\<lparr>closed := True\<rparr>"

definition queue_size :: "'a BlockingQueue \<Rightarrow> nat" where
  "queue_size q = length (queue q)"

section \<open>The contract of a closable bounded FIFO\<close>

locale fifo_channel =
  fixes push_op :: "'q \<Rightarrow> 'a \<Rightarrow> ('q \<times> bool) option"
    and pop_op :: "'q \<Rightarrow> ('q \<times> 'a option) option"
    and close_op :: "'q \<Rightarrow> 'q"
    and contents :: "'q \<Rightarrow> 'a list"
    and bound :: "'q \<Rightarrow> nat"
    and is_closed :: "'q \<Rightarrow> bool"
  assumes push_accept: "push_op q v = Some (q', True) \<Longrightarrow>
      contents q' = contents q @ [v] \<and> \<not> is_closed q \<and> (bound q = 0 \<or> length (contents q) < bound q) \<and>
      bound q' = bound q \<and> is_closed q' = is_closed q"
    and push_refuse: "push_op q v = Some (q', False) \<Longrightarrow> is_closed q \<and> q' = q"
    and push_blocks: "push_op q v = None \<longleftrightarrow>
      \<not> is_closed q \<and> 0 < bound q \<and> bound q \<le> length (contents q)"
    and pop_some: "pop_op q = Some (q', Some v) \<Longrightarrow>
      contents q = v # contents q' \<and> bound q' = bound q \<and> is_closed q' = is_closed q"
    and pop_none: "pop_op q = Some (q', None) \<Longrightarrow> contents q = [] \<and> is_closed q \<and> q' = q"
    and pop_blocks: "pop_op q = None \<longleftrightarrow> contents q = [] \<and> \<not> is_closed q"
    and close_contents: "contents (close_op q) = contents q \<and> bound (close_op q) = bound q \<and> is_closed (close_op q)"
begin

text \<open>One completed call of any thread: what it asked and what it was answered.\<close>

inductive op_step :: "'q \<Rightarrow> 'a list \<Rightarrow> 'a list \<Rightarrow> 'q \<Rightarrow> bool" where
  "push_op q v = Some (q', True) \<Longrightarrow> op_step q [v] [] q'"
| "push_op q v = Some (q', False) \<Longrightarrow> op_step q [] [] q'"
| "pop_op q = Some (q', Some v) \<Longrightarrow> op_step q [] [v] q'"
| "pop_op q = Some (q', None) \<Longrightarrow> op_step q [] [] q'"
| "op_step q [] [] (close_op q)"

inductive op_run :: "'q \<Rightarrow> 'a list \<Rightarrow> 'a list \<Rightarrow> 'q \<Rightarrow> bool" where
  run_nil: "op_run q [] [] q"
| run_step: "op_run q ins outs q' \<Longrightarrow> op_step q' i outp q'' \<Longrightarrow> op_run q (ins @ i) (outs @ outp) q''"

lemma op_step_conserves: "op_step q i outp q' \<Longrightarrow> contents q @ i = outp @ contents q'"
  by (induction rule: op_step.induct)
    (auto dest: push_accept push_refuse pop_some pop_none simp: close_contents)

text \<open>Whatever the threads do, what was taken out followed by what is still inside is what was
  accepted, in the order of acceptance.\<close>

lemma op_run_conserves: "op_run q ins outs q' \<Longrightarrow> contents q @ ins = outs @ contents q'"
proof (induction rule: op_run.induct)
  case (run_step q ins outs q' i outp q'')
  from op_step_conserves [OF run_step.hyps(2)] run_step.IH show ?case
    by (metis append_assoc)
qed simp

lemma op_step_bound:
  "op_step q i outp q' \<Longrightarrow> bound q = 0 \<or> length (contents q) \<le> bound q \<Longrightarrow>
   bound q' = bound q \<and> (bound q = 0 \<or> length (contents q') \<le> bound q)"
proof (induction rule: op_step.induct)
  case (1 q v q')
  then show ?case using push_accept [OF 1(1)] by auto
next
  case (3 q q' v)
  then show ?case using pop_some [OF 3(1)] by auto
qed (auto dest: push_refuse pop_none simp: close_contents)

lemma op_run_bound:
  "op_run q ins outs q' \<Longrightarrow> bound q = 0 \<or> length (contents q) \<le> bound q \<Longrightarrow>
   bound q' = bound q \<and> (bound q = 0 \<or> length (contents q') \<le> bound q)"
  by (induction rule: op_run.induct) (auto dest!: op_step_bound)

lemma op_step_closed: "op_step q i outp q' \<Longrightarrow> is_closed q \<Longrightarrow> is_closed q' \<and> i = []"
  by (induction rule: op_step.induct)
    (auto dest: push_accept push_refuse pop_some pop_none simp: close_contents)

text \<open>After \<open>close\<close> nothing is accepted any more.\<close>

lemma op_run_closed: "op_run q ins outs q' \<Longrightarrow> is_closed q \<Longrightarrow> is_closed q' \<and> ins = []"
  by (induction rule: op_run.induct) (auto dest!: op_step_closed)

end

lemma push_accept_eq:
  "push q v = Some (q', True) \<longleftrightarrow>
     \<not> closed q \<and> (capacity q = 0 \<or> length (queue q) < capacity q) \<and> q' = q\<lparr>queue := queue q @ [v]\<rparr>"
  by (auto simp: push_def)

lemma push_refuse_eq: "push q v = Some (q', False) \<longleftrightarrow> closed q \<and> q' = q"
  by (auto simp: push_def)

lemma pop_some_eq: "pop q = Some (q', Some v) \<longleftrightarrow> (\<exists>vs. queue q = v # vs \<and> q' = q\<lparr>queue := vs\<rparr>)"
  by (auto simp: pop_def split: list.splits)

lemma pop_none_eq: "pop q = Some (q', None) \<longleftrightarrow> queue q = [] \<and> closed q \<and> q' = q"
  by (auto simp: pop_def split: list.splits)

lemma push_blocks_eq:
  "push q v = None \<longleftrightarrow> \<not> closed q \<and> 0 < capacity q \<and> capacity q \<le> length (queue q)"
  by (auto simp: push_def)

lemma pop_blocks_eq: "pop q = None \<longleftrightarrow> queue q = [] \<and> \<not> closed q"
  by (auto simp: pop_def split: list.splits)

lemmas queue_ops = push_accept_eq push_refuse_eq pop_some_eq pop_none_eq push_blocks_eq pop_blocks_eq

lemma close_simps [simp]:
  "queue (close q) = queue q" "capacity (close q) = capacity q" "closed (close q)"
  by (simp_all add: close_def)

interpretation bq: fifo_channel push pop close queue capacity closed
  by unfold_locales (auto simp: queue_ops)

section \<open>Properties\<close>

text \<open>A history of completed calls on the queue, whichever threads made them.\<close>

inductive queue_run :: "'a BlockingQueue \<Rightarrow> 'a list \<Rightarrow> 'a list \<Rightarrow> 'a BlockingQueue \<Rightarrow> bool" where
  start: "queue_run q [] [] q"
| accepted: "queue_run q ins outs q' \<Longrightarrow> push q' v = Some (q'', True) \<Longrightarrow> queue_run q (ins @ [v]) outs q''"
| refused: "queue_run q ins outs q' \<Longrightarrow> push q' v = Some (q'', False) \<Longrightarrow> queue_run q ins outs q''"
| taken: "queue_run q ins outs q' \<Longrightarrow> pop q' = Some (q'', Some v) \<Longrightarrow> queue_run q ins (outs @ [v]) q''"
| drained: "queue_run q ins outs q' \<Longrightarrow> pop q' = Some (q'', None) \<Longrightarrow> queue_run q ins outs q''"
| closing: "queue_run q ins outs q' \<Longrightarrow> queue_run q ins outs (close q')"

lemma queue_run_op_run: "queue_run q ins outs q' \<Longrightarrow> bq.op_run q ins outs q'"
proof (induction rule: queue_run.induct)
  case (start q)
  then show ?case by (rule bq.run_nil)
next
  case (accepted q ins outs q' v q'')
  from bq.run_step [OF accepted.IH bq.op_step.intros(1) [OF accepted.hyps(2)]] show ?case by simp
next
  case (refused q ins outs q' v q'')
  from bq.run_step [OF refused.IH bq.op_step.intros(2) [OF refused.hyps(2)]] show ?case by simp
next
  case (taken q ins outs q' q'' v)
  from bq.run_step [OF taken.IH bq.op_step.intros(3) [OF taken.hyps(2)]] show ?case by simp
next
  case (drained q ins outs q' q'')
  from bq.run_step [OF drained.IH bq.op_step.intros(4) [OF drained.hyps(2)]] show ?case by simp
next
  case (closing q ins outs q')
  from bq.run_step [OF closing.IH bq.op_step.intros(5)] show ?case by simp
qed

text \<open>C14: in every history of calls on a queue, from any threads in any order, the values taken
  out followed by the values still queued are exactly the accepted values in their order of
  acceptance (nothing is lost, duplicated or reordered), the size never exceeds a non-zero
  capacity, and a call stays blocked only in the two documented situations: a producer on a full
  open queue, a consumer on an empty open queue.\<close>

theorem queue_fifo:
  assumes "queue_run (BlockingQueue_ctor cap) ins outs q"
  shows "outs @ queue q = ins \<and> (cap \<noteq> 0 \<longrightarrow> queue_size q \<le> cap) \<and>
    (push q v = None \<longleftrightarrow> \<not> closed q \<and> cap \<noteq> 0 \<and> queue_size q = cap) \<and>
    (pop q = None \<longleftrightarrow> \<not> closed q \<and> outs = ins)"
proof -
  note run = queue_run_op_run [OF assms]
  have cons: "outs @ queue q = ins"
    using bq.op_run_conserves [OF run] by (simp add: BlockingQueue_ctor_def)
  have "capacity q = cap \<and> (cap = 0 \<or> length (queue q) \<le> cap)"
    using bq.op_run_bound [OF run] by (simp add: BlockingQueue_ctor_def)
  with cons show ?thesis by (auto simp: queue_ops queue_size_def)
qed

theorem queue_fifo_witness:
  "[5] @ queue (BlockingQueue_ctor 1 :: nat BlockingQueue) = [5 :: nat]"
proof -
  have 1: "queue_run (BlockingQueue_ctor 1) ([] @ [5]) [] \<lparr>queue = [5 :: nat], capacity = 1, closed = False\<rparr>"
    by (rule accepted [OF start]) (simp add: push_def BlockingQueue_ctor_def)
  have 2: "queue_run (BlockingQueue_ctor 1) ([] @ [5]) ([] @ [5]) (BlockingQueue_ctor 1 :: nat BlockingQueue)"
    by (rule taken [OF 1]) (simp add: pop_def BlockingQueue_ctor_def)
  from queue_fifo [OF 2] show ?thesis by simp
qed

end
