(* ===== verification/Pipeline.thy ===== *)
theory Pipeline
  imports Frame_Codec Blocking_Queue
begin

text \<open>
  Model of the concurrent pipeline (\<open>apps/ground_station/GroundStationPipeline.hpp\<close>,
  \<open>GroundStationPipeline.cpp\<close>, \<open>GroundStationWorkers.cpp\<close>, \<open>GroundStationInput.cpp\<close>):
  the producer (main thread) numbers the frames and pushes them to the raw queue, any number of
  decoders move them to the decoded queue, the writer restores the order and processes them.
  Every thread is a small state machine; \<open>pstep\<close> interleaves them arbitrarily, one atomic
  action (a queue operation, an atomic variable, one failure action) at a time.

  What the writer does with one result is a parameter \<open>process\<close> (it returns the new station
  state and the exception, if any), and so is the final \<open>finish\<close>; \<open>Station.thy\<close> supplies
  the station's own. The periodic progress thread only reads counters and is not modelled.

  \<open>Pipeline_Invariant.thy\<close> shows that the writer sees the frames in the order of submission
  whatever the interleaving, that nothing is lost, that no state is stuck and that every run
  ends.
\<close>

section \<open>Work items and thread states\<close>

record RawWorkItem =
  raw_sequence :: u64
  raw_bytes :: ByteVector

record DecodedWorkItem =
  dec_sequence :: u64
  dec_result :: FrameParseResult

text \<open>The actions of \<open>failPipeline\<close>, in its order.\<close>

datatype fail_action = Capture exn | Stop_running | Close_raw | Close_decoded

definition failPipeline :: "exn \<Rightarrow> fail_action list" where
  "failPipeline e = [Capture e, Stop_running, Close_raw, Close_decoded]"

datatype decoder_state = D_pop | D_push DecodedWorkItem | D_done

type_synonym pending_map = "(u64 \<times> DecodedWorkItem) list"

datatype writer_state = W_loop u64 pending_map | W_fail "fail_action list" | W_done

datatype main_state = M_input | M_push RawWorkItem | M_fail "fail_action list"
  | M_close_raw | M_join_decoders | M_close_decoded | M_join_writer | M_done "exn option"

record 'st GroundStationPipeline =
  todo :: "ByteVector list"
  main_thread :: main_state
  decoderThreads :: "decoder_state list"
  writerThread :: writer_state
  rawQueue :: "RawWorkItem BlockingQueue"
  decodedQueue :: "DecodedWorkItem BlockingQueue"
  nextSequence :: u64
  received :: u64
  running :: bool
  asyncFailure :: "exn option"
  station :: 'st

definition startWorkers :: "nat \<Rightarrow> nat \<Rightarrow> 'st \<Rightarrow> ByteVector list \<Rightarrow> 'st GroundStationPipeline" where
  "startWorkers workers cap st frames =
     \<lparr>todo = frames, main_thread = M_input, decoderThreads = replicate workers D_pop,
      writerThread = W_loop 0 [], rawQueue = BlockingQueue_ctor cap, decodedQueue = BlockingQueue_ctor cap,
      nextSequence = 0, received = 0, running = True, asyncFailure = None, station = st\<rparr>"

text \<open>\<open>AsyncFailure::capture\<close> keeps the first error.\<close>

definition capture :: "exn \<Rightarrow> exn option \<Rightarrow> exn option" where
  "capture e err = (case err of None \<Rightarrow> Some e | Some _ \<Rightarrow> err)"

fun fail_step :: "fail_action \<Rightarrow> 'st GroundStationPipeline \<Rightarrow> 'st GroundStationPipeline" where
  "fail_step (Capture e) s = s\<lparr>asyncFailure := capture e (asyncFailure s)\<rparr>"
| "fail_step Stop_running s = s\<lparr>running := False\<rparr>"
| "fail_step Close_raw s = s\<lparr>rawQueue := close (rawQueue s)\<rparr>"
| "fail_step Close_decoded s = s\<lparr>decodedQueue := close (decodedQueue s)\<rparr>"

section \<open>The writer\<close>

type_synonym 'st processor = "'st \<Rightarrow> u64 \<Rightarrow> FrameParseResult \<Rightarrow> 'st \<times> exn option"

type_synonym 'st finisher = "'st \<Rightarrow> 'st \<times> exn option"

text \<open>The inner loop: process \<open>expectedSequence\<close> as long as it is pending.\<close>

function drain :: "'st processor \<Rightarrow> 'st \<Rightarrow> u64 \<Rightarrow> pending_map \<Rightarrow> 'st \<times> u64 \<times> pending_map \<times> exn option" where
  "drain process st expected pending =
     (case map_of pending expected of
        None \<Rightarrow> (st, expected, pending, None)
      | Some item \<Rightarrow>
          (case process st expected (dec_result item) of
             (st, Some e) \<Rightarrow> (st, expected, pending, Some e)
           | (st, None) \<Rightarrow>
               drain process st (expected + 1) (filter (\<lambda>(k, _). k \<noteq> expected) pending)))"
  by pat_completeness auto
termination
proof (relation "measure (\<lambda>(process, st, expected, pending). length pending)")
  fix process :: "'st processor" and st :: 'st and expected :: u64 and pending :: pending_map
    and item :: DecodedWorkItem
  assume "map_of pending expected = Some item"
  then have "(expected, item) \<in> set pending" by (rule map_of_SomeD)
  then have "length (filter (\<lambda>(k, _). k \<noteq> expected) pending) < length pending"
    by (intro length_filter_less) auto
  then show "((process, x, expected + 1, filter (\<lambda>(k, _). k \<noteq> expected) pending),
      process, st, expected, pending) \<in> measure (\<lambda>(process, st, expected, pending). length pending)" for x
    by simp
qed simp

declare drain.simps [simp del]

text \<open>One turn of the outer loop with an incoming item: insert, refuse duplicates, drain.\<close>

definition writer_take ::
    "'st processor \<Rightarrow> 'st \<Rightarrow> u64 \<Rightarrow> pending_map \<Rightarrow> DecodedWorkItem \<Rightarrow> 'st \<times> writer_state" where
  "writer_take process st expected pending item =
     (if map_of pending (dec_sequence item) \<noteq> None then
        (st, W_fail (failPipeline (runtime_error ''duplicate pipeline sequence detected'')))
      else
        case drain process st expected ((dec_sequence item, item) # pending) of
          (st, expected, pending, None) \<Rightarrow> (st, W_loop expected pending)
        | (st, _, _, Some e) \<Rightarrow> (st, W_fail (failPipeline e)))"

text \<open>The end of the outer loop.\<close>

definition writer_end :: "'st finisher \<Rightarrow> 'st \<Rightarrow> pending_map \<Rightarrow> 'st \<times> writer_state" where
  "writer_end finish st pending =
     (if pending \<noteq> [] then
        (st, W_fail (failPipeline (runtime_error ''pipeline closed with a sequence gap in decoded results'')))
      else
        case finish st of
          (st, None) \<Rightarrow> (st, W_done)
        | (st, Some e) \<Rightarrow> (st, W_fail (failPipeline e)))"

section \<open>Interleaved steps\<close>

text \<open>Who moves; from outside, the input may fail and a signal may ask the station to stop.\<close>

datatype actor = Main | Decoder nat | Writer | Input_failure | Signal

inductive pstep :: "'st processor \<Rightarrow> 'st finisher \<Rightarrow> actor \<Rightarrow> 'st GroundStationPipeline \<Rightarrow> 'st GroundStationPipeline \<Rightarrow> bool"
  for process :: "'st processor" and finish :: "'st finisher" where
  submit_number: "main_thread s = M_input \<Longrightarrow> todo s = bytes # rest \<Longrightarrow>
    pstep process finish Main s (s\<lparr>todo := rest, nextSequence := nextSequence s + 1,
      main_thread := M_push \<lparr>raw_sequence = nextSequence s, raw_bytes = bytes\<rparr>\<rparr>)"
| submit_accepted: "main_thread s = M_push work \<Longrightarrow> push (rawQueue s) work = Some (q, True) \<Longrightarrow>
    pstep process finish Main s (s\<lparr>rawQueue := q, received := received s + 1, main_thread := M_input\<rparr>)"
| submit_refused: "main_thread s = M_push work \<Longrightarrow> push (rawQueue s) work = Some (q, False) \<Longrightarrow>
    pstep process finish Main s (s\<lparr>rawQueue := q, running := False, main_thread := M_input\<rparr>)"
| input_end: "main_thread s = M_input \<Longrightarrow> todo s = [] \<or> \<not> running s \<Longrightarrow>
    pstep process finish Main s (s\<lparr>running := False, main_thread := M_close_raw\<rparr>)"
| input_error: "main_thread s = M_input \<Longrightarrow>
    pstep process finish Input_failure s (s\<lparr>main_thread := M_fail (failPipeline e)\<rparr>)"
| stop_signal: "running s \<Longrightarrow> pstep process finish Signal s (s\<lparr>running := False\<rparr>)"
| main_fail: "main_thread s = M_fail (a # as) \<Longrightarrow>
    pstep process finish Main s ((fail_step a s)\<lparr>main_thread := M_fail as\<rparr>)"
| main_failed: "main_thread s = M_fail [] \<Longrightarrow> pstep process finish Main s (s\<lparr>main_thread := M_close_raw\<rparr>)"
| stop_close_raw: "main_thread s = M_close_raw \<Longrightarrow>
    pstep process finish Main s (s\<lparr>rawQueue := close (rawQueue s), main_thread := M_join_decoders\<rparr>)"
| stop_join_decoders: "main_thread s = M_join_decoders \<Longrightarrow> list_all (\<lambda>d. d = D_done) (decoderThreads s) \<Longrightarrow>
    pstep process finish Main s (s\<lparr>main_thread := M_close_decoded\<rparr>)"
| stop_close_decoded: "main_thread s = M_close_decoded \<Longrightarrow>
    pstep process finish Main s (s\<lparr>decodedQueue := close (decodedQueue s), main_thread := M_join_writer\<rparr>)"
| stop_join_writer: "main_thread s = M_join_writer \<Longrightarrow> writerThread s = W_done \<Longrightarrow>
    pstep process finish Main s (s\<lparr>main_thread := M_done (asyncFailure s)\<rparr>)"
| decoder_take: "i < length (decoderThreads s) \<Longrightarrow> decoderThreads s ! i = D_pop \<Longrightarrow>
    pop (rawQueue s) = Some (q, Some work) \<Longrightarrow> decodeFrame (raw_bytes work) = Some r \<Longrightarrow>
    pstep process finish (Decoder i) s (s\<lparr>rawQueue := q, decoderThreads := (decoderThreads s)
      [i := D_push \<lparr>dec_sequence = raw_sequence work, dec_result = r\<rparr>]\<rparr>)"
| decoder_end: "i < length (decoderThreads s) \<Longrightarrow> decoderThreads s ! i = D_pop \<Longrightarrow>
    pop (rawQueue s) = Some (q, None) \<Longrightarrow>
    pstep process finish (Decoder i) s (s\<lparr>rawQueue := q, decoderThreads := (decoderThreads s)[i := D_done]\<rparr>)"
| decoder_put: "i < length (decoderThreads s) \<Longrightarrow> decoderThreads s ! i = D_push item \<Longrightarrow>
    push (decodedQueue s) item = Some (q, True) \<Longrightarrow>
    pstep process finish (Decoder i) s (s\<lparr>decodedQueue := q, decoderThreads := (decoderThreads s)[i := D_pop]\<rparr>)"
| decoder_refused: "i < length (decoderThreads s) \<Longrightarrow> decoderThreads s ! i = D_push item \<Longrightarrow>
    push (decodedQueue s) item = Some (q, False) \<Longrightarrow>
    pstep process finish (Decoder i) s (s\<lparr>decodedQueue := q, decoderThreads := (decoderThreads s)[i := D_done]\<rparr>)"
| writer_item: "writerThread s = W_loop expected pending \<Longrightarrow> pop (decodedQueue s) = Some (q, Some item) \<Longrightarrow>
    writer_take process (station s) expected pending item = (st, w) \<Longrightarrow>
    pstep process finish Writer s (s\<lparr>decodedQueue := q, station := st, writerThread := w\<rparr>)"
| writer_finish: "writerThread s = W_loop expected pending \<Longrightarrow> pop (decodedQueue s) = Some (q, None) \<Longrightarrow>
    writer_end finish (station s) pending = (st, w) \<Longrightarrow>
    pstep process finish Writer s (s\<lparr>decodedQueue := q, station := st, writerThread := w\<rparr>)"
| writer_fail: "writerThread s = W_fail (a # as) \<Longrightarrow>
    pstep process finish Writer s ((fail_step a s)\<lparr>writerThread := W_fail as\<rparr>)"
| writer_failed: "writerThread s = W_fail [] \<Longrightarrow> pstep process finish Writer s (s\<lparr>writerThread := W_done\<rparr>)"

abbreviation psteps ::
    "'st processor \<Rightarrow> 'st finisher \<Rightarrow> 'st GroundStationPipeline \<Rightarrow> 'st GroundStationPipeline \<Rightarrow> bool" where
  "psteps process finish \<equiv> (\<lambda>s s'. \<exists>act. pstep process finish act s s')\<^sup>*\<^sup>*"

section \<open>Sequential specification\<close>

text \<open>Processing the results one after the other, as a single thread would.\<close>

fun process_all :: "'st processor \<Rightarrow> 'st \<Rightarrow> u64 \<Rightarrow> FrameParseResult list \<Rightarrow> 'st \<times> exn option" where
  "process_all process st i [] = (st, None)"
| "process_all process st i (r # rs) =
     (case process st i r of
        (st, Some e) \<Rightarrow> (st, Some e)
      | (st, None) \<Rightarrow> process_all process st (i + 1) rs)"

definition decoded :: "ByteVector \<Rightarrow> FrameParseResult" where
  "decoded bytes = the (decodeFrame bytes)"

lemma decodeFrame_decoded: "decodeFrame bytes = Some r \<Longrightarrow> r = decoded bytes"
  by (simp add: decoded_def)

lemma process_all_snoc:
  "process_all process st i rs = (st', None) \<Longrightarrow>
   process_all process st i (rs @ [r]) = process st' (i + of_nat (length rs)) r"
proof (induction rs arbitrary: st i)
  case Nil
  then show ?case by (auto split: prod.split option.split)
next
  case (Cons a rs)
  then show ?case by (auto split: prod.splits option.splits simp: add.assoc [symmetric] add.commute)
qed

end
