(* ===== verification/Pipeline_Invariant.thy ===== *)
theory Pipeline_Invariant
  imports Pipeline "HOL-Library.Multiset"
begin

text \<open>
  The invariant of the pipeline of \<open>Pipeline.thy\<close> and what follows from it: the closing
  order of the queues, where every accepted frame is, what the writer has processed, that no
  reachable state is stuck and that every run ends.
\<close>

section \<open>Closing order\<close>

text \<open>Fewest assumptions first: who can be in which state when which queue is closed.\<close>

definition failing :: "fail_action list \<Rightarrow> 'st GroundStationPipeline \<Rightarrow> bool" where
  "failing as s \<longleftrightarrow>
     (\<exists>e. as = failPipeline e) \<or>
     asyncFailure s \<noteq> None \<and>
       (as = [Stop_running, Close_raw, Close_decoded] \<or> as = [Close_raw, Close_decoded] \<or>
        as = [Close_decoded] \<and> closed (rawQueue s) \<or>
        as = [] \<and> closed (rawQueue s) \<and> closed (decodedQueue s))"

definition clean :: "'st GroundStationPipeline \<Rightarrow> bool" where
  "clean s \<longleftrightarrow> asyncFailure s = None \<and> (\<forall>as. main_thread s \<noteq> M_fail as) \<and> (\<forall>as. writerThread s \<noteq> W_fail as)"

definition main_stage :: "main_state \<Rightarrow> nat" where
  "main_stage m =
     (case m of M_input \<Rightarrow> 0 | M_push _ \<Rightarrow> 0 | M_fail _ \<Rightarrow> 0 | M_close_raw \<Rightarrow> 0 | M_join_decoders \<Rightarrow> 1
      | M_close_decoded \<Rightarrow> 2 | M_join_writer \<Rightarrow> 3 | M_done _ \<Rightarrow> 4)"

lemma main_stage_simps [simp]:
  "main_stage M_input = 0" "main_stage (M_push w) = 0" "main_stage (M_fail as) = 0" "main_stage M_close_raw = 0"
  "main_stage M_join_decoders = 1" "main_stage M_close_decoded = 2" "main_stage M_join_writer = 3"
  "main_stage (M_done e) = 4"
  by (simp_all add: main_stage_def)

definition inv_stage :: "'st GroundStationPipeline \<Rightarrow> bool" where
  "inv_stage s \<longleftrightarrow>
     (closed (decodedQueue s) \<longrightarrow> closed (rawQueue s)) \<and>
     (D_done \<in> set (decoderThreads s) \<longrightarrow> closed (rawQueue s)) \<and>
     (writerThread s = W_done \<longrightarrow> closed (decodedQueue s)) \<and>
     (1 \<le> main_stage (main_thread s) \<longrightarrow> closed (rawQueue s)) \<and>
     (2 \<le> main_stage (main_thread s) \<longrightarrow> set (decoderThreads s) \<subseteq> {D_done}) \<and>
     (3 \<le> main_stage (main_thread s) \<longrightarrow> closed (decodedQueue s)) \<and>
     (\<forall>e. main_thread s = M_done e \<longrightarrow> writerThread s = W_done \<and> asyncFailure s = e) \<and>
     (\<forall>as. main_thread s = M_fail as \<longrightarrow> failing as s) \<and>
     (\<forall>as. writerThread s = W_fail as \<longrightarrow> failing as s)"

definition inv_clean :: "'st GroundStationPipeline \<Rightarrow> bool" where
  "inv_clean s \<longleftrightarrow> clean s \<longrightarrow>
     (closed (rawQueue s) \<longrightarrow> 1 \<le> main_stage (main_thread s)) \<and>
     (closed (decodedQueue s) \<longrightarrow> 3 \<le> main_stage (main_thread s)) \<and>
     (D_done \<in> set (decoderThreads s) \<longrightarrow> queue (rawQueue s) = [])"

lemma set_update_cases: "x \<in> set (xs[i := y]) \<Longrightarrow> x = y \<or> x \<in> set xs"
  using set_update_subset_insert [of xs i y] by blast

lemma all_done_nth: "set ds \<subseteq> {D_done} \<Longrightarrow> i < length ds \<Longrightarrow> ds ! i = D_done"
  by (meson nth_mem singletonD subsetD)

lemma set_update_done: "i < length xs \<Longrightarrow> D_done \<in> set (xs[i := D_done])"
  by (rule set_update_memI)

lemma failing_step:
  assumes "failing (a # as) s"
  shows "failing as ((fail_step a s)\<lparr>main_thread := M_fail as\<rparr>)"
    "failing as ((fail_step a s)\<lparr>writerThread := W_fail as\<rparr>)"
  using assms by (auto simp: failing_def failPipeline_def capture_def split: option.splits)

lemma failing_fail_step: "failing as s \<Longrightarrow> failing as (fail_step a s)"
  by (cases a) (auto simp: failing_def capture_def split: option.splits)

lemma failing_update [simp]:
  "failing as (s\<lparr>main_thread := m\<rparr>) = failing as s" "failing as (s\<lparr>writerThread := w\<rparr>) = failing as s"
  "failing as (s\<lparr>todo := td\<rparr>) = failing as s" "failing as (s\<lparr>nextSequence := n\<rparr>) = failing as s"
  "failing as (s\<lparr>received := n\<rparr>) = failing as s" "failing as (s\<lparr>running := b\<rparr>) = failing as s"
  "failing as (s\<lparr>station := st\<rparr>) = failing as s" "failing as (s\<lparr>decoderThreads := ds\<rparr>) = failing as s"
  by (simp_all add: failing_def)

lemma failing_queue [simp]:
  "failing as (s\<lparr>rawQueue := (rawQueue s)\<lparr>queue := xs\<rparr>\<rparr>) = failing as s"
  "failing as (s\<lparr>decodedQueue := (decodedQueue s)\<lparr>queue := ys\<rparr>\<rparr>) = failing as s"
  "failing as s \<Longrightarrow> failing as (s\<lparr>rawQueue := close (rawQueue s)\<rparr>)"
  "failing as s \<Longrightarrow> failing as (s\<lparr>decodedQueue := close (decodedQueue s)\<rparr>)"
  by (auto simp: failing_def)

lemma failing_Nil [simp]:
  "failing [] s \<longleftrightarrow> asyncFailure s \<noteq> None \<and> closed (rawQueue s) \<and> closed (decodedQueue s)"
  by (auto simp: failing_def failPipeline_def)

lemma failing_start [simp]: "failing (failPipeline e) s"
  by (auto simp: failing_def)

lemma fail_step_simps [simp]:
  "todo (fail_step a s) = todo s" "main_thread (fail_step a s) = main_thread s"
  "decoderThreads (fail_step a s) = decoderThreads s" "writerThread (fail_step a s) = writerThread s"
  "queue (rawQueue (fail_step a s)) = queue (rawQueue s)"
  "queue (decodedQueue (fail_step a s)) = queue (decodedQueue s)"
  "nextSequence (fail_step a s) = nextSequence s" "received (fail_step a s) = received s"
  "station (fail_step a s) = station s"
  by (cases a; simp)+

lemma fail_step_mono:
  "closed (rawQueue s) \<Longrightarrow> closed (rawQueue (fail_step a s))"
  "closed (decodedQueue s) \<Longrightarrow> closed (decodedQueue (fail_step a s))"
  "asyncFailure s \<noteq> None \<Longrightarrow> asyncFailure (fail_step a s) = asyncFailure s"
  by (cases a; auto simp: capture_def)+

lemma writer_take_cases:
  "writer_take process st e p item = (st', w) \<Longrightarrow> (\<exists>e' p'. w = W_loop e' p') \<or> (\<exists>x. w = W_fail (failPipeline x))"
  by (auto simp: writer_take_def split: if_splits prod.splits option.splits)

lemma writer_end_cases:
  "writer_end finish st p = (st', w) \<Longrightarrow> w = W_done \<and> p = [] \<and> finish st = (st', None) \<or> (\<exists>x. w = W_fail (failPipeline x))"
  by (auto simp: writer_end_def split: if_splits prod.splits option.splits)

lemma inv_stage_step:
  assumes "pstep process finish act s s'" and "inv_stage s"
  shows "inv_stage s'"
  using assms
proof (cases rule: pstep.cases)
  case (main_fail a as)
  then have f: "failing (a # as) s" using assms(2) by (simp add: inv_stage_def)
  have "\<forall>bs. writerThread s = W_fail bs \<longrightarrow> failing bs s'"
    using assms(2) main_fail failing_fail_step [of _ s a] by (auto simp: inv_stage_def)
  moreover have "closed (decodedQueue s') \<longrightarrow> closed (rawQueue s')"
    using f assms(2) main_fail by (cases a) (auto simp: inv_stage_def failing_def failPipeline_def)
  moreover note failing_step(1) [OF f]
  ultimately show ?thesis
    using assms(2) main_fail fail_step_mono [of s a] by (auto simp: inv_stage_def)
next
  case (writer_fail a as)
  then have f: "failing (a # as) s" using assms(2) by (simp add: inv_stage_def)
  have "\<forall>bs. main_thread s = M_fail bs \<longrightarrow> failing bs s'"
    using assms(2) writer_fail failing_fail_step [of _ s a] by (auto simp: inv_stage_def)
  moreover have "closed (decodedQueue s') \<longrightarrow> closed (rawQueue s')"
    using f assms(2) writer_fail by (cases a) (auto simp: inv_stage_def failing_def failPipeline_def)
  moreover note failing_step(2) [OF f]
  ultimately show ?thesis
    using assms(2) writer_fail fail_step_mono [of s a] by (auto simp: inv_stage_def)
next
  case (writer_item expected pending q item st w)
  then show ?thesis using assms(2) writer_take_cases [OF writer_item(5)]
    by (auto simp: inv_stage_def queue_ops)
next
  case (writer_finish expected pending q st w)
  then show ?thesis using assms(2) writer_end_cases [OF writer_finish(5)]
    by (auto simp: inv_stage_def queue_ops)
qed (auto simp: inv_stage_def queue_ops list_all_iff dest!: set_update_cases dest: all_done_nth)

text \<open>Without a failure the queues are closed by the main thread only, in its order.\<close>

lemma clean_back: "pstep process finish act s s' \<Longrightarrow> inv_stage s \<Longrightarrow> clean s' \<Longrightarrow> clean s"
proof (induction rule: pstep.induct)
  case (main_fail s a as)
  then show ?case by (simp add: clean_def)
next
  case (main_failed s)
  then show ?case by (auto simp: clean_def inv_stage_def)
next
  case (writer_fail s a as)
  then show ?case by (simp add: clean_def)
next
  case (writer_failed s)
  then show ?case by (auto simp: clean_def inv_stage_def)
qed (auto simp: clean_def)

lemma inv_clean_step:
  assumes "pstep process finish act s s'" and "inv_stage s" and "inv_clean s"
  shows "inv_clean s'"
proof -
  have "clean s' \<Longrightarrow> clean s" using clean_back assms by blast
  with assms show ?thesis
  proof (cases rule: pstep.cases)
    case (main_fail a as)
    then show ?thesis by (simp add: inv_clean_def clean_def)
  next
    case (writer_fail a as)
    then show ?thesis by (simp add: inv_clean_def clean_def)
  next
    case (main_failed)
    then show ?thesis using assms(2) by (simp add: inv_clean_def clean_def inv_stage_def)
  next
    case (writer_failed)
    then show ?thesis using assms(2) by (auto simp: inv_clean_def clean_def inv_stage_def)
  next
    case (decoder_refused i item q)
    moreover have False if "clean s"
    proof -
      have "3 \<le> main_stage (main_thread s)"
        using that decoder_refused assms(3) by (simp add: inv_clean_def queue_ops)
      then have "set (decoderThreads s) \<subseteq> {D_done}" using assms(2) by (simp add: inv_stage_def)
      with decoder_refused show False using all_done_nth by fastforce
    qed
    ultimately show ?thesis using \<open>clean s' \<Longrightarrow> clean s\<close> by (auto simp: inv_clean_def)
  next
    case (submit_accepted work q)
    then show ?thesis using assms(2) \<open>clean s' \<Longrightarrow> clean s\<close> assms(3)
      by (auto simp: inv_clean_def queue_ops inv_stage_def)
  qed (auto simp: inv_clean_def queue_ops dest!: set_update_cases)
qed

section \<open>Where the frames are\<close>

fun held :: "decoder_state \<Rightarrow> DecodedWorkItem list" where
  "held (D_push item) = [item]"
| "held D_pop = []"
| "held D_done = []"

definition decoder_items :: "decoder_state list \<Rightarrow> DecodedWorkItem list" where
  "decoder_items ds = concat (map held ds)"

fun writer_indices :: "writer_state \<Rightarrow> nat list" where
  "writer_indices (W_loop expected pending) = map (unat \<circ> fst) pending @ [0..<unat expected]"
| "writer_indices (W_fail as) = []"
| "writer_indices W_done = []"

text \<open>The sequence numbers of all accepted frames that are still somewhere in the pipeline.\<close>

definition flight :: "'st GroundStationPipeline \<Rightarrow> nat list" where
  "flight s =
     map (unat \<circ> raw_sequence) (queue (rawQueue s)) @
     map (unat \<circ> dec_sequence) (decoder_items (decoderThreads s)) @
     map (unat \<circ> dec_sequence) (queue (decodedQueue s)) @ writer_indices (writerThread s)"

definition raw_ok :: "ByteVector list \<Rightarrow> RawWorkItem \<Rightarrow> bool" where
  "raw_ok frames w \<longleftrightarrow> unat (raw_sequence w) < length frames \<and> raw_bytes w = frames ! unat (raw_sequence w)"

definition dec_ok :: "ByteVector list \<Rightarrow> DecodedWorkItem \<Rightarrow> bool" where
  "dec_ok frames w \<longleftrightarrow> unat (dec_sequence w) < length frames \<and>
     dec_result w = decoded (frames ! unat (dec_sequence w))"

lemma decoder_items_update:
  "i < length ds \<Longrightarrow> mset (decoder_items (ds[i := d])) + mset (held (ds ! i)) = mset (decoder_items ds) + mset (held d)"
proof -
  assume i: "i < length ds"
  have "decoder_items ds = decoder_items (take i ds) @ held (ds ! i) @ decoder_items (drop (Suc i) ds)"
    using arg_cong [OF id_take_nth_drop [OF i], of decoder_items] by (simp add: decoder_items_def)
  moreover have "decoder_items (ds[i := d]) = decoder_items (take i ds) @ held d @ decoder_items (drop (Suc i) ds)"
    by (simp add: upd_conv_take_nth_drop [OF i] decoder_items_def)
  ultimately show ?thesis by (simp add: ac_simps)
qed

lemma set_decoder_items_update:
  "w \<in> set (decoder_items (ds[i := d])) \<Longrightarrow> w \<in> set (held d) \<or> w \<in> set (decoder_items ds)"
  unfolding decoder_items_def by (auto dest!: set_update_cases)

lemma held_in_items: "i < length ds \<Longrightarrow> ds ! i = D_push item \<Longrightarrow> item \<in> set (decoder_items ds)"
  unfolding decoder_items_def
  by (metis (no_types, lifting) held.simps(1) list.set_intros(1) nth_mem set_concat UN_I list.set_map imageI)

section \<open>The main thread numbers the frames\<close>

definition pushing :: "main_state \<Rightarrow> nat" where
  "pushing m = (case m of M_push _ \<Rightarrow> 1 | _ \<Rightarrow> 0)"

lemma pushing_simps [simp]:
  "pushing M_input = 0" "pushing (M_push w) = 1" "pushing (M_fail as) = 0" "pushing M_close_raw = 0"
  "pushing M_join_decoders = 0" "pushing M_close_decoded = 0" "pushing M_join_writer = 0" "pushing (M_done e) = 0"
  by (simp_all add: pushing_def)

definition numbered :: "ByteVector list \<Rightarrow> nat \<Rightarrow> 'st GroundStationPipeline \<Rightarrow> bool" where
  "numbered frames n s \<longleftrightarrow>
     n \<le> length frames \<and> todo s = drop n frames \<and> nextSequence s = of_nat n \<and>
     (\<forall>work. main_thread s = M_push work \<longrightarrow>
        0 < n \<and> raw_sequence work = of_nat (n - 1) \<and> raw_bytes work = frames ! (n - 1)) \<and>
     unat (received s) + pushing (main_thread s) \<le> n \<and>
     (\<not> closed (rawQueue s) \<or> clean s \<longrightarrow> unat (received s) + pushing (main_thread s) = n)"

definition inv_input :: "ByteVector list \<Rightarrow> 'st GroundStationPipeline \<Rightarrow> bool" where
  "inv_input frames s \<longleftrightarrow> (\<exists>n. numbered frames n s)"

lemma unat_suc: "unat (w :: u64) < n \<Longrightarrow> n < 2 ^ 64 \<Longrightarrow> unat (w + 1) = unat w + 1"
  by (simp add: unat_word_ariths)

lemma of_nat_unat_64: "n < 2 ^ 64 \<Longrightarrow> unat (of_nat n :: u64) = n"
  by (simp add: unat_of_nat)

lemma drop_Cons_nth: "drop n xs = y # ys \<Longrightarrow> n < length xs \<and> y = xs ! n \<and> ys = drop (Suc n) xs"
  by (metis Cons_nth_drop_Suc drop_eq_Nil2 list.distinct(1) list.inject not_less)

text \<open>Steps that submit nothing.\<close>

lemma numbered_quiet:
  assumes "numbered frames n s" and "todo s' = todo s" "nextSequence s' = nextSequence s" "received s' = received s"
    and "main_thread s' \<noteq> main_thread s \<longrightarrow> pushing (main_thread s) = 0 \<and> pushing (main_thread s') = 0"
    and "closed (rawQueue s) \<longrightarrow> closed (rawQueue s')" and "clean s' \<longrightarrow> clean s"
  shows "inv_input frames s'"
proof -
  have push: "pushing (main_thread s') = pushing (main_thread s)"
    and work: "\<forall>work. main_thread s' = M_push work \<longrightarrow> main_thread s = M_push work"
    using assms(5) by auto
  have "numbered frames n s'"
    unfolding numbered_def assms(2-4) push
  proof (intro conjI)
    note D = assms(1) [unfolded numbered_def]
    from D have quiet: "\<not> closed (rawQueue s) \<or> clean s \<longrightarrow> unat (received s) + pushing (main_thread s) = n"
      by (elim conjE)
    then show "\<not> closed (rawQueue s') \<or> clean s' \<longrightarrow> unat (received s) + pushing (main_thread s) = n"
      using assms(6,7) by argo
    from D have "\<forall>work. main_thread s = M_push work \<longrightarrow>
        0 < n \<and> raw_sequence work = of_nat (n - 1) \<and> raw_bytes work = frames ! (n - 1)"
      by (elim conjE)
    with work show "\<forall>work. main_thread s' = M_push work \<longrightarrow>
        0 < n \<and> raw_sequence work = of_nat (n - 1) \<and> raw_bytes work = frames ! (n - 1)"
      by presburger
  qed (insert assms(1) [unfolded numbered_def], (elim conjE, assumption)+)
  then show ?thesis unfolding inv_input_def ..
qed

lemma numbered_step:
  assumes step: "pstep process finish act s s'" and stage: "inv_stage s" and cl: "inv_clean s"
    and num: "numbered frames n s" and len: "length frames < 2 ^ 64"
  shows "inv_input frames s'"
proof -
  have cb: "clean s' \<longrightarrow> clean s" using clean_back [OF step stage] by blast
  from step show ?thesis
  proof (cases rule: pstep.cases)
    case (submit_number bytes rest)
    with num drop_Cons_nth [of n frames bytes rest] cb
    have "numbered frames (Suc n) s'" by (auto simp: numbered_def add.commute)
    then show ?thesis unfolding inv_input_def ..
  next
    case (submit_accepted work q)
    then have eq: "unat (received s) = n - 1" "0 < n" "n \<le> length frames"
      using num by (auto simp: numbered_def queue_ops)
    then have "unat (received s + 1) = n" using unat_suc [of "received s" n] len by simp
    with submit_accepted num have "numbered frames n s'" by (simp add: numbered_def)
    then show ?thesis unfolding inv_input_def ..
  next
    case (submit_refused work q)
    then have cld: "closed (rawQueue s)" by (simp add: queue_ops)
    with cl submit_refused have "\<not> clean s" by (auto simp: inv_clean_def)
    with submit_refused num cb cld have "numbered frames n s'" by (simp add: numbered_def queue_ops)
    then show ?thesis unfolding inv_input_def ..
  next
    case (main_fail a as)
    with num cb fail_step_mono [of s a] show ?thesis by (intro numbered_quiet [OF num]) simp_all
  next
    case (writer_fail a as)
    with num cb fail_step_mono [of s a] show ?thesis by (intro numbered_quiet [OF num]) simp_all
  qed (use cb in \<open>auto simp: queue_ops intro!: numbered_quiet [OF num]\<close>)
qed

lemma inv_input_step:
  assumes "pstep process finish act s s'" "inv_stage s" "inv_clean s" "inv_input frames s" "length frames < 2 ^ 64"
  shows "inv_input frames s'"
  using assms numbered_step [OF assms(1-3) _ assms(5)] inv_input_def [of frames s] by blast

section \<open>The reorder loop\<close>

definition pending_ok :: "ByteVector list \<Rightarrow> pending_map \<Rightarrow> bool" where
  "pending_ok frames p \<longleftrightarrow> list_all (\<lambda>(k, item). dec_sequence item = k \<and> dec_ok frames item) p"

lemma pending_erase:
  "distinct (map (f \<circ> fst) p) \<Longrightarrow> (k, item) \<in> set p \<Longrightarrow> inj f \<Longrightarrow>
   mset (map (f \<circ> fst) p) = add_mset (f k) (mset (map (f \<circ> fst) (filter (\<lambda>(j, _). j \<noteq> k) p)))"
proof (induction p)
  case (Cons x p)
  obtain j it where x: "x = (j, it)" by (cases x)
  show ?case
  proof (cases "j = k")
    case True
    with Cons.prems x have "\<forall>y\<in>set p. fst y \<noteq> k" by (auto simp: inj_eq rev_image_eqI)
    then have "filter (\<lambda>(j, _). j \<noteq> k) p = p" by (auto simp: filter_id_conv split: prod.splits)
    with True x show ?thesis by simp
  next
    case False
    with Cons x show ?thesis by auto
  qed
qed simp

lemma inj_unat: "inj (unat :: u64 \<Rightarrow> nat)"
  by (rule injI) (metis word_unat_eq_iff)

lemma drain_correct:
  assumes "pending_ok frames p" and "distinct (map (unat \<circ> fst) p @ [0..<unat e])"
    and "process_all process st0 0 (map decoded (take (unat e) frames)) = (st, None)"
    and "length frames < 2 ^ 64" and "drain process st e p = (st', e', p', None)"
  shows "mset (map (unat \<circ> fst) p' @ [0..<unat e']) = mset (map (unat \<circ> fst) p @ [0..<unat e]) \<and>
    map_of p' e' = None \<and> pending_ok frames p' \<and>
    process_all process st0 0 (map decoded (take (unat e') frames)) = (st', None)"
  using assms(1-3,5)
proof (induction process st e p rule: drain.induct)
  case (1 process st e p)
  show ?case
  proof (cases "map_of p e")
    case None
    with "1.prems" show ?thesis by (auto simp: drain.simps [of _ _ e p])
  next
    case (Some item)
    obtain st1 x where pr: "process st e (dec_result item) = (st1, x)" by fastforce
    with Some "1.prems"(4) have x: "x = None"
      by (cases x) (auto simp: drain.simps [of _ _ e p])
    let ?p = "filter (\<lambda>(k, _). k \<noteq> e) p"
    from Some have mem: "(e, item) \<in> set p" by (rule map_of_SomeD)
    with "1.prems"(1) have ok: "dec_sequence item = e" "dec_ok frames item"
      by (auto simp: pending_ok_def list_all_iff)
    then have lt: "unat e < length frames" and res: "dec_result item = decoded (frames ! unat e)"
      by (simp_all add: dec_ok_def)
    have suc: "unat (e + 1) = unat e + 1" using unat_suc [OF lt assms(4)] .
    have ms: "mset (map (unat \<circ> fst) p) = add_mset (unat e) (mset (map (unat \<circ> fst) ?p))"
      using pending_erase [OF _ mem inj_unat] "1.prems"(2) unfolding distinct_append by blast
    have same: "mset (map (unat \<circ> fst) ?p @ [0..<unat (e + 1)]) = mset (map (unat \<circ> fst) p @ [0..<unat e])"
      by (simp only: mset_append suc ms) simp
    have take: "take (unat (e + 1)) frames = take (unat e) frames @ [frames ! unat e]"
      using lt by (simp add: suc take_Suc_conv_app_nth)
    have dr: "drain process st1 (e + 1) ?p = (st', e', p', None)"
      using "1.prems"(4) Some pr x by (simp add: drain.simps [of _ _ e p])
    have pa: "process_all process st0 0 (map decoded (take (unat (e + 1)) frames)) = (st1, None)"
      using process_all_snoc [OF "1.prems"(3), of "decoded (frames ! unat e)"] pr x res take lt
      by (simp add: min_absorb2)
    have po: "pending_ok frames ?p" using "1.prems"(1) by (auto simp: pending_ok_def list_all_iff)
    have di: "distinct (map (unat \<circ> fst) ?p @ [0..<unat (e + 1)])"
      using mset_eq_imp_distinct_iff [OF same] "1.prems"(2) by blast
    from "1.IH" [OF Some pr [symmetric] x po di pa dr] show ?thesis by (simp only: same)
  qed
qed

section \<open>The invariant of the pipeline\<close>

definition inv_items :: "ByteVector list \<Rightarrow> 'st GroundStationPipeline \<Rightarrow> bool" where
  "inv_items frames s \<longleftrightarrow>
     list_all (raw_ok frames) (queue (rawQueue s)) \<and> list_all (dec_ok frames) (decoder_items (decoderThreads s)) \<and>
     list_all (dec_ok frames) (queue (decodedQueue s)) \<and>
     (\<forall>e p. writerThread s = W_loop e p \<longrightarrow> pending_ok frames p)"

definition inv_flight :: "'st GroundStationPipeline \<Rightarrow> bool" where
  "inv_flight s \<longleftrightarrow> distinct (flight s) \<and> set (flight s) \<subseteq> {0..<unat (received s)} \<and>
     (clean s \<and> writerThread s \<noteq> W_done \<longrightarrow> set (flight s) = {0..<unat (received s)})"

definition inv_writer :: "'st processor \<Rightarrow> 'st finisher \<Rightarrow> 'st \<Rightarrow> ByteVector list \<Rightarrow> 'st GroundStationPipeline \<Rightarrow> bool" where
  "inv_writer process finish st0 frames s \<longleftrightarrow>
     (\<forall>e p. writerThread s = W_loop e p \<longrightarrow> map_of p e = None \<and>
        process_all process st0 0 (map decoded (take (unat e) frames)) = (station s, None)) \<and>
     (clean s \<and> writerThread s = W_done \<longrightarrow>
        (\<exists>st. process_all process st0 0 (map decoded (take (unat (received s)) frames)) = (st, None) \<and>
          finish st = (station s, None)))"

lemma inv_flight_same:
  assumes "inv_flight s" and "mset (flight s') = mset (flight s)" and "received s' = received s"
    and "clean s' \<longrightarrow> clean s" and "writerThread s = W_done \<longrightarrow> writerThread s' = W_done"
  shows "inv_flight s'"
proof -
  have "set (flight s') = set (flight s)" "distinct (flight s') = distinct (flight s)"
    using assms(2) mset_eq_setD mset_eq_imp_distinct_iff by blast+
  with assms show ?thesis by (auto simp: inv_flight_def)
qed

lemma distinct_mset_sub:
  assumes "mset xs \<subseteq># mset ys" and "distinct ys"
  shows "distinct xs"
proof -
  have "count (mset xs) a \<le> 1" for a
    using mset_subset_eq_count [OF assms(1), of a] assms(2) distinct_count_atmost_1 [of ys]
    by (metis le_trans zero_le_one order_refl)
  moreover have "a \<in> set xs \<Longrightarrow> 0 < count (mset xs) a" for a by (simp add: count_greater_zero_iff)
  moreover have "a \<notin> set xs \<Longrightarrow> count (mset xs) a = 0" for a by (simp add: count_eq_zero_iff)
  ultimately show ?thesis unfolding distinct_count_atmost_1 by (metis One_nat_def Suc_leI le_antisym)
qed

text \<open>Steps after which the writer is failing or a frame is dropped are not clean.\<close>

lemma inv_flight_drop:
  assumes "inv_flight s" and "mset (flight s') \<subseteq># mset (flight s)" and "received s' = received s"
    and "\<not> (clean s' \<and> writerThread s' \<noteq> W_done)"
  shows "inv_flight s'"
proof -
  have "set (flight s') \<subseteq> set (flight s)" using assms(2) by (metis set_mset_mono set_mset_mset)
  moreover have "distinct (flight s')" using assms(1,2) distinct_mset_sub by (auto simp: inv_flight_def)
  ultimately show ?thesis using assms by (auto simp: inv_flight_def)
qed

lemma flight_decoders:
  assumes "i < length (decoderThreads s)"
  shows "mset (map (unat \<circ> dec_sequence) (decoder_items ((decoderThreads s)[i := d])))
       + mset (map (unat \<circ> dec_sequence) (held (decoderThreads s ! i)))
     = mset (map (unat \<circ> dec_sequence) (decoder_items (decoderThreads s)))
       + mset (map (unat \<circ> dec_sequence) (held d))"
  using arg_cong [OF decoder_items_update [OF assms, of d], of "image_mset (unat \<circ> dec_sequence)"] by simp

lemma flight_cong:
  "queue (rawQueue s') = queue (rawQueue s) \<Longrightarrow> decoderThreads s' = decoderThreads s \<Longrightarrow>
   queue (decodedQueue s') = queue (decodedQueue s) \<Longrightarrow> writerThread s' = writerThread s \<Longrightarrow> flight s' = flight s"
  by (simp add: flight_def)

lemma flight_writer_subset:
  "queue (rawQueue s') = queue (rawQueue s) \<Longrightarrow> decoderThreads s' = decoderThreads s \<Longrightarrow>
   mset (queue (decodedQueue s')) \<subseteq># mset (queue (decodedQueue s)) \<Longrightarrow> writer_indices (writerThread s') = [] \<Longrightarrow>
   mset (flight s') \<subseteq># mset (flight s)"
  by (auto simp: flight_def intro!: subset_mset.add_mono image_mset_subseteq_mono subset_mset.add_increasing2)

text \<open>Inserting the incoming item and draining keeps the set of sequence numbers.\<close>

lemma writer_take_ok:
  assumes "writer_take process st e p item = (st', W_loop e' p')" and "pending_ok frames p" and "dec_ok frames item"
    and "distinct (unat (dec_sequence item) # map (unat \<circ> fst) p @ [0..<unat e])"
    and "process_all process st0 0 (map decoded (take (unat e) frames)) = (st, None)" and "length frames < 2 ^ 64"
  shows "mset (writer_indices (W_loop e' p')) = add_mset (unat (dec_sequence item)) (mset (writer_indices (W_loop e p))) \<and>
    map_of p' e' = None \<and> pending_ok frames p' \<and>
    process_all process st0 0 (map decoded (take (unat e') frames)) = (st', None)"
proof -
  let ?p = "(dec_sequence item, item) # p"
  have dr: "drain process st e ?p = (st', e', p', None)"
    using assms(1) by (auto simp: writer_take_def split: if_splits prod.splits option.splits)
  have "pending_ok frames ?p" using assms(2,3) by (simp add: pending_ok_def)
  moreover have "distinct (map (unat \<circ> fst) ?p @ [0..<unat e])" using assms(4) by simp
  ultimately show ?thesis using drain_correct [OF _ _ assms(5,6) dr] by simp
qed

lemma no_duplicate:
  "distinct (unat (dec_sequence item) # map (unat \<circ> fst) p @ xs) \<Longrightarrow> map_of p (dec_sequence item) = None"
  by (force simp: map_of_eq_None_iff)

lemma submitted_work:
  assumes inp: "inv_input frames s" and m: "main_thread s = M_push work"
    and p: "push (rawQueue s) work = Some (q, True)" and len: "length frames < 2 ^ 64"
  shows "raw_ok frames work" "unat (raw_sequence work) = unat (received s)"
    "unat (received s + 1) = unat (received s) + 1"
proof -
  from inp obtain n where num: "numbered frames n s" by (auto simp: inv_input_def)
  have n: "n \<le> length frames" using num by (simp add: numbered_def)
  from num have q: "\<not> closed (rawQueue s) \<or> clean s \<longrightarrow> unat (received s) + pushing (main_thread s) = n"
    unfolding numbered_def by (elim conjE)
  from num have "\<forall>work. main_thread s = M_push work \<longrightarrow>
      0 < n \<and> raw_sequence work = of_nat (n - 1) \<and> raw_bytes work = frames ! (n - 1)"
    unfolding numbered_def by (elim conjE)
  with m have w: "0 < n" "raw_sequence work = of_nat (n - 1)" "raw_bytes work = frames ! (n - 1)" by blast+
  have "\<not> closed (rawQueue s)" using p by (simp add: queue_ops)
  with q have "unat (received s) + pushing (main_thread s) = n" by blast
  with m have r: "unat (received s) = n - 1" by simp
  have s: "unat (raw_sequence work) = n - 1" unfolding w(2) by (rule of_nat_unat_64) (use n len in linarith)
  with r show "unat (raw_sequence work) = unat (received s)" by simp
  show "raw_ok frames work" using s w n by (simp add: raw_ok_def)
  show "unat (received s + 1) = unat (received s) + 1" using unat_suc [of "received s" n] r w n len by simp
qed

lemma inv_items_step:
  assumes step: "pstep process finish act s s'" and items: "inv_items frames s" and inp: "inv_input frames s"
    and len: "length frames < 2 ^ 64"
    and dr: "\<And>e p q item st e' p'. writerThread s = W_loop e p \<Longrightarrow> pop (decodedQueue s) = Some (q, Some item) \<Longrightarrow>
      writer_take process (station s) e p item = (st, W_loop e' p') \<Longrightarrow> pending_ok frames p'"
  shows "inv_items frames s'"
  using step
proof (cases rule: pstep.cases)
  case (submit_accepted work q)
  have "raw_ok frames work" using submitted_work(1) [OF inp submit_accepted(3,4) len] .
  with submit_accepted items show ?thesis by (simp add: inv_items_def queue_ops)
next
  case (decoder_take i q work r)
  then have "raw_ok frames work" using items by (auto simp: inv_items_def queue_ops)
  then have "dec_ok frames \<lparr>dec_sequence = raw_sequence work, dec_result = r\<rparr>"
    using decodeFrame_decoded [OF decoder_take(6)] by (simp add: raw_ok_def dec_ok_def)
  with decoder_take items show ?thesis
    by (auto simp: inv_items_def queue_ops list_all_iff dest!: set_decoder_items_update)
next
  case (decoder_end i q)
  with items show ?thesis
    by (auto simp: inv_items_def queue_ops list_all_iff dest!: set_decoder_items_update)
next
  case (decoder_put i item q)
  then have "dec_ok frames item" using held_in_items items by (auto simp: inv_items_def list_all_iff)
  with decoder_put items show ?thesis
    by (auto simp: inv_items_def queue_ops list_all_iff dest!: set_decoder_items_update)
next
  case (decoder_refused i item q)
  with items show ?thesis
    by (auto simp: inv_items_def queue_ops list_all_iff dest!: set_decoder_items_update)
next
  case (writer_item e p q item st w)
  have "\<forall>e' p'. w = W_loop e' p' \<longrightarrow> pending_ok frames p'"
    using dr [OF writer_item(3,4)] writer_item(5) by blast
  with writer_item items show ?thesis by (auto simp: inv_items_def queue_ops)
next
  case (writer_finish e p q st w)
  with items writer_end_cases [OF writer_finish(5)] show ?thesis by (auto simp: inv_items_def queue_ops)
qed (use items in \<open>simp_all add: inv_items_def queue_ops\<close>)

text \<open>The facts the writer needs when it takes an item.\<close>

lemma writer_take_facts:
  assumes "inv_items frames s" "inv_flight s" "inv_writer process finish st0 frames s" "length frames < 2 ^ 64"
    and "writerThread s = W_loop e p" "pop (decodedQueue s) = Some (q, Some item)"
    and "writer_take process (station s) e p item = (st, W_loop e' p')"
  shows "mset (writer_indices (W_loop e' p')) = add_mset (unat (dec_sequence item)) (mset (writer_indices (W_loop e p))) \<and>
    map_of p' e' = None \<and> pending_ok frames p' \<and>
    process_all process st0 0 (map decoded (take (unat e') frames)) = (st, None)"
proof (rule writer_take_ok [OF assms(7)])
  show "pending_ok frames p" "dec_ok frames item"
    using assms(1,5,6) by (auto simp: inv_items_def queue_ops)
  show "distinct (unat (dec_sequence item) # map (unat \<circ> fst) p @ [0..<unat e])"
    using assms(2,5,6) by (auto simp: inv_flight_def flight_def queue_ops)
  show "process_all process st0 0 (map decoded (take (unat e) frames)) = (station s, None)"
    using assms(3,5) by (simp add: inv_writer_def)
qed (rule assms(4))

lemma inv_flight_step:
  assumes step: "pstep process finish act s s'" and stage: "inv_stage s" and cl: "inv_clean s"
    and items: "inv_items frames s" and inp: "inv_input frames s" and fl: "inv_flight s"
    and wr: "inv_writer process finish st0 frames s" and len: "length frames < 2 ^ 64"
  shows "inv_flight s'"
proof -
  have cb: "clean s' \<longrightarrow> clean s" using clean_back [OF step stage] by blast
  from step show ?thesis
  proof (cases rule: pstep.cases)
    case (submit_accepted work q)
    note seq = submitted_work(2,3) [OF inp submit_accepted(3,4) len]
    have "mset (flight s') = add_mset (unat (received s)) (mset (flight s))"
      using submit_accepted by (simp add: flight_def queue_ops seq)
    then have "mset (flight s') = mset (unat (received s) # flight s)" by simp
    from mset_eq_setD [OF this] mset_eq_imp_distinct_iff [OF this] fl submit_accepted cb seq show ?thesis
      by (auto simp: inv_flight_def)
  next
    case (decoder_take i q work r)
    then have "mset (flight s') = mset (flight s)"
      using flight_decoders [OF decoder_take(3), of "D_push \<lparr>dec_sequence = raw_sequence work, dec_result = r\<rparr>"]
      by (auto simp: flight_def queue_ops)
    with fl cb decoder_take show ?thesis by (intro inv_flight_same [of s s']) simp_all
  next
    case (decoder_end i q)
    then have "mset (flight s') = mset (flight s)"
      using flight_decoders [OF decoder_end(3), of D_done] by (auto simp: flight_def queue_ops)
    with fl cb decoder_end show ?thesis by (intro inv_flight_same [of s s']) simp_all
  next
    case (decoder_put i item q)
    then have "mset (flight s') = mset (flight s)"
      using flight_decoders [OF decoder_put(3), of D_pop] by (auto simp: flight_def queue_ops)
    with fl cb decoder_put show ?thesis by (intro inv_flight_same [of s s']) simp_all
  next
    case (decoder_refused i item q)
    then have "add_mset (unat (dec_sequence item)) (mset (flight s')) = mset (flight s)"
      using flight_decoders [OF decoder_refused(3), of D_done] by (auto simp: flight_def queue_ops)
    from this [symmetric] have sub: "mset (flight s') \<subseteq># mset (flight s)" by (simp add: subseteq_mset_def)
    have "\<not> clean s"
    proof
      assume "clean s"
      then have "3 \<le> main_stage (main_thread s)"
        using decoder_refused cl by (simp add: inv_clean_def queue_ops)
      then have "set (decoderThreads s) \<subseteq> {D_done}" using stage by (simp add: inv_stage_def)
      with decoder_refused show False using all_done_nth by fastforce
    qed
    with sub fl cb decoder_refused show ?thesis by (intro inv_flight_drop [of s s']) simp_all
  next
    case (writer_item e p q item st w)
    show ?thesis
    proof (cases "\<exists>e' p'. w = W_loop e' p'")
      case True
      then obtain e' p' where w: "w = W_loop e' p'" by blast
      from writer_take_facts [OF items fl wr len writer_item(3,4)] writer_item(5) w
      have "mset (writer_indices w) = add_mset (unat (dec_sequence item)) (mset (writer_indices (W_loop e p)))"
        by blast
      then have "mset (flight s') = mset (flight s)"
        using writer_item by (auto simp: flight_def queue_ops)
      with fl cb writer_item show ?thesis by (intro inv_flight_same [of s s']) simp_all
    next
      case False
      with writer_take_cases [OF writer_item(5)] obtain x where w: "w = W_fail (failPipeline x)" by blast
      have "mset (flight s') \<subseteq># mset (flight s)"
        using writer_item w by (intro flight_writer_subset) (auto simp: queue_ops)
      with fl writer_item w show ?thesis by (intro inv_flight_drop [of s s']) (simp_all add: clean_def)
    qed
  next
    case (writer_finish e p q st w)
    have w: "w = W_done \<or> (\<exists>x. w = W_fail (failPipeline x))" using writer_end_cases [OF writer_finish(5)] by blast
    then have "mset (flight s') \<subseteq># mset (flight s)"
      using writer_finish by (intro flight_writer_subset) (auto simp: queue_ops)
    with fl writer_finish w show ?thesis by (intro inv_flight_drop [of s s']) (auto simp: clean_def)
  next
    case (writer_fail a as)
    then have "mset (flight s') \<subseteq># mset (flight s)" by (intro flight_writer_subset) auto
    with fl writer_fail show ?thesis by (intro inv_flight_drop [of s s']) (simp_all add: clean_def)
  next
    case writer_failed
    then have "mset (flight s') \<subseteq># mset (flight s)" by (intro flight_writer_subset) auto
    with fl writer_failed show ?thesis by (intro inv_flight_drop [of s s']) simp_all
  qed (use fl cb in \<open>auto simp: queue_ops flight_def intro!: inv_flight_same [of s]\<close>)
qed

lemma drained_flight:
  assumes stage: "inv_stage s" and cl: "inv_clean s" and ds: "decoderThreads s \<noteq> []"
    and c: "clean s" and q: "pop (decodedQueue s) = Some (q, None)"
  shows "queue (rawQueue s) = [] \<and> decoder_items (decoderThreads s) = [] \<and> queue (decodedQueue s) = []"
proof -
  have dq: "queue (decodedQueue s) = []" "closed (decodedQueue s)" using q by (auto simp: queue_ops)
  with cl c have "3 \<le> main_stage (main_thread s)" by (simp add: inv_clean_def)
  with stage have done_all: "set (decoderThreads s) \<subseteq> {D_done}" by (simp add: inv_stage_def)
  with ds have "D_done \<in> set (decoderThreads s)" by (cases "decoderThreads s") auto
  with cl c have "queue (rawQueue s) = []" by (simp add: inv_clean_def)
  moreover have "decoder_items (decoderThreads s) = []"
    using done_all by (auto simp: decoder_items_def)
  ultimately show ?thesis using dq by simp
qed

text \<open>When the writer sees the drained queue of a clean run, it has processed every accepted frame.\<close>

lemma clean_end:
  assumes stage: "inv_stage s" and cl: "inv_clean s" and fl: "inv_flight s" and ds: "decoderThreads s \<noteq> []"
    and c: "clean s" and w: "writerThread s = W_loop e p" "p = []" and q: "pop (decodedQueue s) = Some (q, None)"
  shows "unat e = unat (received s)"
proof -
  have "flight s = [0..<unat e]" using drained_flight [OF stage cl ds c q] w by (simp add: flight_def)
  then have "{0..<unat e} = {0..<unat (received s)}" using fl c w by (simp add: inv_flight_def)
  then show ?thesis by (metis card_atLeastLessThan diff_zero)
qed

lemma inv_writer_same:
  assumes "inv_writer process finish st0 frames s" and "writerThread s' = writerThread s" "station s' = station s"
    "received s' = received s" "clean s' \<longrightarrow> clean s"
  shows "inv_writer process finish st0 frames s'"
  using assms by (simp add: inv_writer_def)

lemma inv_writer_step:
  assumes step: "pstep process finish act s s'" and stage: "inv_stage s" and cl: "inv_clean s"
    and items: "inv_items frames s" and fl: "inv_flight s"
    and wr: "inv_writer process finish st0 frames s" and len: "length frames < 2 ^ 64"
    and ds: "decoderThreads s \<noteq> []"
  shows "inv_writer process finish st0 frames s'"
proof -
  have cb: "clean s' \<longrightarrow> clean s" using clean_back [OF step stage] by blast
  from step show ?thesis
  proof (cases rule: pstep.cases)
    case (submit_accepted work q)
    then have "writerThread s \<noteq> W_done" using stage by (auto simp: inv_stage_def queue_ops)
    with wr submit_accepted show ?thesis by (simp add: inv_writer_def)
  next
    case (writer_item e p q item st w)
    from writer_take_cases [OF writer_item(5)] show ?thesis
    proof (elim disjE exE)
      fix e' p' assume w: "w = W_loop e' p'"
      with writer_take_facts [OF items fl wr len writer_item(3,4)] writer_item show ?thesis
        by (simp add: inv_writer_def)
    qed (use writer_item in \<open>simp add: inv_writer_def\<close>)
  next
    case (writer_finish e p q st w)
    from writer_end_cases [OF writer_finish(5)] show ?thesis
    proof (elim disjE exE conjE)
      assume w: "w = W_done" "p = []" "finish (station s) = (st, None)"
      have "\<exists>x. process_all process st0 0 (map decoded (take (unat (received s)) frames)) = (x, None) \<and>
          finish x = (st, None)" if "clean s"
      proof -
        have "unat e = unat (received s)"
          using clean_end [OF stage cl fl ds that writer_finish(3) w(2) writer_finish(4)] .
        moreover have "process_all process st0 0 (map decoded (take (unat e) frames)) = (station s, None)"
          using wr writer_finish(3) by (simp add: inv_writer_def)
        ultimately show ?thesis using w(3) by auto
      qed
      with cb writer_finish w show ?thesis by (simp add: inv_writer_def)
    qed (use writer_finish in \<open>simp add: inv_writer_def\<close>)
  next
    case (writer_fail a as)
    then show ?thesis by (simp add: inv_writer_def)
  next
    case writer_failed
    with stage have "\<not> clean s'" by (auto simp: inv_stage_def clean_def)
    with writer_failed show ?thesis by (simp add: inv_writer_def)
  next
    case (main_fail a as)
    with wr cb show ?thesis by (intro inv_writer_same [OF wr]) simp_all
  qed (use cb in \<open>auto intro!: inv_writer_same [OF wr]\<close>)
qed

definition pinv :: "'st processor \<Rightarrow> 'st finisher \<Rightarrow> 'st \<Rightarrow> ByteVector list \<Rightarrow> 'st GroundStationPipeline \<Rightarrow> bool" where
  "pinv process finish st0 frames s \<longleftrightarrow>
     inv_stage s \<and> inv_clean s \<and> inv_input frames s \<and> inv_items frames s \<and> inv_flight s \<and>
     inv_writer process finish st0 frames s \<and> decoderThreads s \<noteq> []"

lemma decoders_kept: "pstep process finish act s s' \<Longrightarrow> length (decoderThreads s') = length (decoderThreads s)"
  by (induction rule: pstep.induct) simp_all

lemma pinv_step:
  assumes "pstep process finish act s s'" and "pinv process finish st0 frames s" and "length frames < 2 ^ 64"
  shows "pinv process finish st0 frames s'"
proof -
  from assms(2) have i: "inv_stage s" "inv_clean s" "inv_input frames s" "inv_items frames s" "inv_flight s"
    "inv_writer process finish st0 frames s" "decoderThreads s \<noteq> []" by (simp_all add: pinv_def)
  have "inv_items frames s'"
  proof (rule inv_items_step [OF assms(1) i(4,3) assms(3)])
    fix e p q item st e' p'
    assume "writerThread s = W_loop e p" "pop (decodedQueue s) = Some (q, Some item)"
      "writer_take process (station s) e p item = (st, W_loop e' p')"
    from writer_take_facts [OF i(4,5,6) assms(3) this] show "pending_ok frames p'" by blast
  qed
  moreover have "decoderThreads s' \<noteq> []" using decoders_kept [OF assms(1)] i(7) by (metis length_0_conv)
  ultimately show ?thesis
    using inv_stage_step [OF assms(1) i(1)] inv_clean_step [OF assms(1) i(1,2)]
      inv_input_step [OF assms(1) i(1-3) assms(3)] inv_flight_step [OF assms(1) i(1,2,4,3,5,6) assms(3)]
      inv_writer_step [OF assms(1) i(1,2,4,5,6) assms(3) i(7)]
    by (simp add: pinv_def)
qed

lemma pinv_start:
  "0 < workers \<Longrightarrow> pinv process finish st0 frames (startWorkers workers cap st0 frames)"
  by (auto simp: pinv_def startWorkers_def BlockingQueue_ctor_def inv_stage_def inv_clean_def inv_input_def
      numbered_def inv_items_def inv_flight_def inv_writer_def flight_def decoder_items_def pending_ok_def
      intro!: exI [of _ "0 :: nat"])

lemma pinv_reachable:
  assumes "psteps process finish (startWorkers workers cap st0 frames) s" and "0 < workers" and "length frames < 2 ^ 64"
  shows "pinv process finish st0 frames s"
  using assms(1)
proof (induction rule: rtranclp_induct)
  case base
  show ?case by (rule pinv_start [OF assms(2)])
next
  case (step s s')
  then obtain act where "pstep process finish act s s'" by blast
  from pinv_step [OF this step.IH assms(3)] show ?case .
qed

end
