(* ===== verification/Pipeline_Correct.thy ===== *)
theory Pipeline_Correct
  imports Pipeline_Invariant
begin

text \<open>
  What the invariant of \<open>Pipeline_Invariant.thy\<close> gives for whole runs of the pipeline: some
  thread can always move, every step decreases a measure, a clean run leaves no gap, and the
  result of a finished run is that of sequential processing.
\<close>

section \<open>Progress\<close>

lemma writer_moves:
  assumes "writerThread s \<noteq> W_done" and "pop (decodedQueue s) \<noteq> None"
  shows "\<exists>s'. pstep process finish Writer s s'"
proof (cases "writerThread s")
  case (W_loop e p)
  from assms(2) obtain q r where pop: "pop (decodedQueue s) = Some (q, r)" by auto
  show ?thesis
  proof (cases r)
    case None
    obtain st w where "writer_end finish (station s) p = (st, w)" by fastforce
    from writer_finish [OF W_loop pop [unfolded None] this] show ?thesis by (rule exI)
  next
    case (Some item)
    obtain st w where "writer_take process (station s) e p item = (st, w)" by fastforce
    from writer_item [OF W_loop pop [unfolded Some] this] show ?thesis by (rule exI)
  qed
next
  case (W_fail as)
  show ?thesis
  proof (cases as)
    case Nil
    from writer_failed [OF W_fail [unfolded Nil]] show ?thesis by (rule exI)
  next
    case (Cons a bs)
    from writer_fail [OF W_fail [unfolded Cons]] show ?thesis by (rule exI)
  qed
qed (use assms in simp)

lemma decoder_moves:
  assumes stage: "inv_stage s" and i: "i < length (decoderThreads s)" "decoderThreads s ! i \<noteq> D_done"
    and raw: "pop (rawQueue s) \<noteq> None"
  shows "\<exists>s'. pstep process finish (Decoder i) s s' \<or> pstep process finish Writer s s'"
proof (cases "decoderThreads s ! i")
  case D_pop
  from raw obtain q r where pop: "pop (rawQueue s) = Some (q, r)" by auto
  show ?thesis
  proof (cases r)
    case None
    from decoder_end [OF i(1) D_pop pop [unfolded None]] show ?thesis by (intro exI disjI1)
  next
    case (Some work)
    obtain res where "decodeFrame (raw_bytes work) = Some res" using decodeFrame_defined by blast
    from decoder_take [OF i(1) D_pop pop [unfolded Some] this] show ?thesis by (intro exI disjI1)
  qed
next
  case (D_push item)
  show ?thesis
  proof (cases "push (decodedQueue s) item")
    case None
    then have full: "\<not> closed (decodedQueue s)" "0 < length (queue (decodedQueue s))"
      by (auto simp: queue_ops)
    then have "writerThread s \<noteq> W_done" using stage by (auto simp: inv_stage_def)
    moreover have "pop (decodedQueue s) \<noteq> None" using full by (auto simp: queue_ops)
    ultimately obtain s' where "pstep process finish Writer s s'" using writer_moves by blast
    then show ?thesis by (intro exI disjI2)
  next
    case (Some r)
    then obtain q b where p: "push (decodedQueue s) item = Some (q, b)" by (cases r) auto
    show ?thesis
    proof (cases b)
      case True
      with p have "push (decodedQueue s) item = Some (q, True)" by simp
      from decoder_put [OF i(1) D_push this] show ?thesis by (intro exI disjI1)
    next
      case False
      with p have "push (decodedQueue s) item = Some (q, False)" by simp
      from decoder_refused [OF i(1) D_push this] show ?thesis by (intro exI disjI1)
    qed
  qed
qed (use i in simp)

definition thread_moves :: "'st processor \<Rightarrow> 'st finisher \<Rightarrow> 'st GroundStationPipeline \<Rightarrow> bool" where
  "thread_moves process finish s \<longleftrightarrow>
     (\<exists>act s'. act \<noteq> Input_failure \<and> act \<noteq> Signal \<and> pstep process finish act s s')"

lemma thread_movesI:
  "pstep process finish act s s' \<Longrightarrow> act \<noteq> Input_failure \<Longrightarrow> act \<noteq> Signal \<Longrightarrow> thread_moves process finish s"
  unfolding thread_moves_def by blast

lemma worker_moves:
  assumes "inv_stage s" "i < length (decoderThreads s)" "decoderThreads s ! i \<noteq> D_done" "pop (rawQueue s) \<noteq> None"
  shows "thread_moves process finish s"
  using decoder_moves [OF assms, of process finish] by (auto intro: thread_movesI)

lemma main_push_moves:
  assumes stage: "inv_stage s" and ds: "decoderThreads s \<noteq> []" and m: "main_thread s = M_push work"
  shows "thread_moves process finish s"
proof (cases "push (rawQueue s) work")
  case None
  then have full: "\<not> closed (rawQueue s)" "0 < length (queue (rawQueue s))" by (auto simp: queue_ops)
  have "D_done \<notin> set (decoderThreads s)" using stage full(1) by (auto simp: inv_stage_def)
  then have "decoderThreads s ! 0 \<noteq> D_done" using ds by (metis length_greater_0_conv nth_mem)
  moreover have "pop (rawQueue s) \<noteq> None" using full by (auto simp: queue_ops)
  ultimately show ?thesis using worker_moves [OF stage, of 0] ds by blast
next
  case (Some r)
  then obtain q b where p: "push (rawQueue s) work = Some (q, b)" by (cases r) auto
  show ?thesis
  proof (cases b)
    case True
    with p have "push (rawQueue s) work = Some (q, True)" by simp
    from submit_accepted [OF m this] show ?thesis by (rule thread_movesI) simp_all
  next
    case False
    with p have "push (rawQueue s) work = Some (q, False)" by simp
    from submit_refused [OF m this] show ?thesis by (rule thread_movesI) simp_all
  qed
qed

lemma joining_moves:
  assumes stage: "inv_stage s" and m: "main_thread s = M_join_decoders"
  shows "thread_moves process finish s"
proof (cases "list_all (\<lambda>d. d = D_done) (decoderThreads s)")
  case True
  from stop_join_decoders [OF m True] show ?thesis by (rule thread_movesI) simp_all
next
  case False
  then obtain i where "i < length (decoderThreads s)" "decoderThreads s ! i \<noteq> D_done"
    by (auto simp: list_all_length)
  moreover have "pop (rawQueue s) \<noteq> None" using m stage by (auto simp: inv_stage_def queue_ops)
  ultimately show ?thesis using worker_moves [OF stage] by blast
qed

lemma no_deadlock_step:
  assumes stage: "inv_stage s" and ds: "decoderThreads s \<noteq> []" and m: "\<forall>e. main_thread s \<noteq> M_done e"
  shows "thread_moves process finish s"
proof (cases "main_thread s")
  case M_input
  show ?thesis
  proof (cases "todo s")
    case Nil
    have "todo s = [] \<or> \<not> running s" using Nil by simp
    from input_end [OF M_input this] show ?thesis by (rule thread_movesI) simp_all
  next
    case (Cons b bs)
    from submit_number [OF M_input Cons] show ?thesis by (rule thread_movesI) simp_all
  qed
next
  case (M_push work)
  from main_push_moves [OF stage ds M_push] show ?thesis .
next
  case (M_fail as)
  show ?thesis
  proof (cases as)
    case Nil
    from main_failed [OF M_fail [unfolded Nil]] show ?thesis by (rule thread_movesI) simp_all
  next
    case (Cons a bs)
    from main_fail [OF M_fail [unfolded Cons]] show ?thesis by (rule thread_movesI) simp_all
  qed
next
  case M_close_raw
  from stop_close_raw [OF M_close_raw] show ?thesis by (rule thread_movesI) simp_all
next
  case M_join_decoders
  from joining_moves [OF stage M_join_decoders] show ?thesis .
next
  case M_close_decoded
  from stop_close_decoded [OF M_close_decoded] show ?thesis by (rule thread_movesI) simp_all
next
  case M_join_writer
  show ?thesis
  proof (cases "writerThread s = W_done")
    case True
    from stop_join_writer [OF M_join_writer True] show ?thesis by (rule thread_movesI) simp_all
  next
    case False
    moreover have "pop (decodedQueue s) \<noteq> None"
      using M_join_writer stage by (auto simp: inv_stage_def queue_ops)
    ultimately obtain s' where "pstep process finish Writer s s'" using writer_moves by blast
    then show ?thesis by (rule thread_movesI) simp_all
  qed
qed (use m in simp)

section \<open>Termination\<close>

fun main_weight :: "main_state \<Rightarrow> nat" where
  "main_weight M_input = 20"
| "main_weight (M_push _) = 28"
| "main_weight (M_fail as) = 8 + length as"
| "main_weight M_close_raw = 7"
| "main_weight M_join_decoders = 6"
| "main_weight M_close_decoded = 5"
| "main_weight M_join_writer = 4"
| "main_weight (M_done _) = 3"

fun decoder_weight :: "decoder_state \<Rightarrow> nat" where
  "decoder_weight D_pop = 1"
| "decoder_weight (D_push _) = 5"
| "decoder_weight D_done = 0"

fun writer_weight :: "writer_state \<Rightarrow> nat" where
  "writer_weight (W_loop _ _) = 10"
| "writer_weight (W_fail as) = 1 + length as"
| "writer_weight W_done = 0"

definition pmeasure :: "'st GroundStationPipeline \<Rightarrow> nat" where
  "pmeasure s =
     9 * length (todo s) + main_weight (main_thread s) + sum_list (map decoder_weight (decoderThreads s)) +
     6 * length (queue (rawQueue s)) + 2 * length (queue (decodedQueue s)) + writer_weight (writerThread s) +
     (if running s then 1 else 0)"

lemma sum_list_update_nat:
  "i < length ds \<Longrightarrow>
   sum_list (map f (ds[i := d])) + f (ds ! i) = sum_list (map f ds) + (f d :: nat)"
  by (induction ds arbitrary: i) (auto split: nat.split simp: nth_Cons list_update.simps)

lemma fail_step_running: "running (fail_step a s) \<Longrightarrow> running s"
  by (cases a) auto

lemma length_failPipeline [simp]: "length (failPipeline e) = 4"
  by (simp add: failPipeline_def)

lemma pstep_decreases: "pstep process finish act s s' \<Longrightarrow> pmeasure s' < pmeasure s"
proof (induction rule: pstep.induct)
  case (decoder_take i s q work r)
  then show ?case
    using sum_list_update_nat [OF decoder_take(1), of decoder_weight "D_push \<lparr>dec_sequence = raw_sequence work, dec_result = r\<rparr>"]
    by (auto simp: pmeasure_def queue_ops)
next
  case (decoder_end i s q)
  then show ?case
    using sum_list_update_nat [OF decoder_end(1), of decoder_weight D_done] by (auto simp: pmeasure_def queue_ops)
next
  case (decoder_put i s item q)
  then show ?case
    using sum_list_update_nat [OF decoder_put(1), of decoder_weight D_pop] by (auto simp: pmeasure_def queue_ops)
next
  case (decoder_refused i s item q)
  then show ?case
    using sum_list_update_nat [OF decoder_refused(1), of decoder_weight D_done] by (auto simp: pmeasure_def queue_ops)
next
  case (main_fail s a as)
  then show ?case using fail_step_running [of a s] by (auto simp: pmeasure_def)
next
  case (writer_fail s a as)
  then show ?case using fail_step_running [of a s] by (auto simp: pmeasure_def)
next
  case (writer_item s e p q item st w)
  then show ?case using writer_take_cases [OF writer_item(3)] by (auto simp: pmeasure_def queue_ops)
next
  case (writer_finish s e p q st w)
  then show ?case using writer_end_cases [OF writer_finish(3)] by (auto simp: pmeasure_def queue_ops)
qed (auto simp: pmeasure_def queue_ops)

lemma no_infinite_run:
  fixes f :: "nat \<Rightarrow> 'st GroundStationPipeline"
  assumes "\<And>i. \<exists>act. pstep process finish act (f i) (f (Suc i))"
  shows False
proof -
  have "pmeasure (f n) + n \<le> pmeasure (f 0)" for n
  proof (induction n)
    case (Suc n)
    obtain act where "pstep process finish act (f n) (f (Suc n))" using assms by blast
    from pstep_decreases [OF this] Suc show ?case by simp
  qed simp
  from this [of "Suc (pmeasure (f 0))"] show False by simp
qed

section \<open>Internal errors\<close>

lemma writer_distinct:
  assumes "inv_flight s" "writerThread s = W_loop e p" "pop (decodedQueue s) = Some (q, Some item)"
  shows "distinct (unat (dec_sequence item) # map (unat \<circ> fst) p @ [0..<unat e])"
  using assms by (auto simp: inv_flight_def flight_def queue_ops)

text \<open>A clean run leaves no gap: the sequence number the writer waits for is not in the pipeline,
  and the pipeline holds every number below the number of accepted frames.\<close>

lemma no_gap:
  assumes stage: "inv_stage s" and cl: "inv_clean s" and fl: "inv_flight s" and ds: "decoderThreads s \<noteq> []"
    and c: "clean s" and w: "writerThread s = W_loop e p" "map_of p e = None"
    and q: "pop (decodedQueue s) = Some (q, None)"
  shows "p = []"
proof (rule ccontr)
  assume "p \<noteq> []"
  then obtain k where k: "k \<in> fst ` set p" by (cases p) auto
  have "flight s = map (unat \<circ> fst) p @ [0..<unat e]"
    using drained_flight [OF stage cl ds c q] w by (simp add: flight_def)
  then have sets: "(unat \<circ> fst) ` set p \<union> {0..<unat e} = {0..<unat (received s)}"
    and dis: "(unat \<circ> fst) ` set p \<inter> {0..<unat e} = {}"
    using fl c w by (auto simp: inv_flight_def)
  have "e \<notin> fst ` set p" using w(2) by (simp add: map_of_eq_None_iff)
  then have "unat e \<notin> (unat \<circ> fst) ` set p"
    using inj_image_mem_iff [OF inj_unat, of e "fst ` set p"] by (simp add: image_comp)
  moreover have kin: "unat k \<in> (unat \<circ> fst) ` set p" using k by auto
  ultimately have "unat e < unat k"
    using dis by (metis IntI atLeastLessThan_iff empty_iff le0 linorder_neqE_nat)
  moreover from kin have "unat k \<in> {0..<unat (received s)}" using sets by blast
  then have "unat k < unat (received s)" by simp
  ultimately have "unat e \<in> {0..<unat (received s)}" by simp
  with sets \<open>unat e \<notin> (unat \<circ> fst) ` set p\<close> show False by auto
qed

text \<open>Undisturbed runs: no failure of the input and no stop signal.\<close>

definition undisturbed ::
    "'st processor \<Rightarrow> 'st finisher \<Rightarrow> 'st GroundStationPipeline \<Rightarrow> 'st GroundStationPipeline \<Rightarrow> bool" where
  "undisturbed process finish =
     (\<lambda>s s'. \<exists>act. act \<noteq> Input_failure \<and> act \<noteq> Signal \<and> pstep process finish act s s')\<^sup>*\<^sup>*"

definition inv_feed :: "'st GroundStationPipeline \<Rightarrow> bool" where
  "inv_feed s \<longleftrightarrow>
     (if main_thread s = M_input \<or> pushing (main_thread s) = 1 then running s else todo s = [])"

lemma inv_feed_step:
  assumes step: "pstep process finish act s s'" and act: "act \<noteq> Input_failure" "act \<noteq> Signal"
    and cl: "inv_clean s" and c: "clean s" "clean s'" and fd: "inv_feed s"
  shows "inv_feed s'"
  using step
proof (cases rule: pstep.cases)
  case (submit_refused work q)
  then show ?thesis using cl c by (auto simp: inv_clean_def queue_ops)
qed (use act c fd in \<open>auto simp: inv_feed_def clean_def split: if_splits\<close>)

lemma undisturbed_psteps: "undisturbed process finish s s' \<Longrightarrow> psteps process finish s s'"
  unfolding undisturbed_def by (induction rule: rtranclp_induct) (auto intro: rtranclp.rtrancl_into_rtrancl)

text \<open>What a finished run has done.\<close>

lemma done_clean:
  assumes inv: "pinv process finish st0 frames s" and m: "main_thread s = M_done None"
  obtains n st where "n \<le> length frames" "todo s = drop n frames" "unat (received s) = n"
    "process_all process st0 0 (map decoded (take n frames)) = (st, None)" "finish st = (station s, None)"
proof -
  have st: "inv_stage s" "inv_input frames s" "inv_writer process finish st0 frames s"
    using inv by (simp_all add: pinv_def)
  have w: "writerThread s = W_done" "asyncFailure s = None" using st(1) m by (auto simp: inv_stage_def)
  then have c: "clean s" using m by (simp add: clean_def)
  from st(2) obtain n where num: "numbered frames n s" by (auto simp: inv_input_def)
  then have n: "n \<le> length frames" "todo s = drop n frames" "unat (received s) = n"
    using c m by (auto simp: numbered_def)
  from st(3) w c obtain x where
    "process_all process st0 0 (map decoded (take (unat (received s)) frames)) = (x, None)"
    "finish x = (station s, None)" by (auto simp: inv_writer_def)
  with n that show ?thesis by simp
qed

section \<open>Properties\<close>

text \<open>C2: whatever the interleaving of the threads, the number of decoders and the queue capacity, a
  pipeline run that ends without an error has processed exactly the first \<open>received\<close> submitted
  frames, each once, in the order of submission: the station state is the one a single thread
  would reach by decoding and processing them one after the other and finishing the output, and
  nothing submitted is missing.\<close>

theorem pipeline_deterministic:
  assumes "psteps process finish (startWorkers workers cap st0 frames) s" and "0 < workers"
    and "length frames < 2 ^ 64" and "main_thread s = M_done None"
  shows "\<exists>n st. n \<le> length frames \<and> todo s = drop n frames \<and> unat (received s) = n \<and>
    process_all process st0 0 (map decoded (take n frames)) = (st, None) \<and> finish st = (station s, None)"
  using done_clean [OF pinv_reachable [OF assms(1-3)] assms(4)] by metis

text \<open>At every moment of every run, also of one that fails later, the writer has processed a
  prefix of the submitted frames in their order of submission, and the results waiting in the
  reorder map are those of later frames: no interleaving can make the writer act on a frame
  before its predecessors.\<close>

theorem pipeline_in_order:
  assumes "psteps process finish (startWorkers workers cap st0 frames) s" and "0 < workers"
    and "length frames < 2 ^ 64" and "writerThread s = W_loop expected pending"
  shows "process_all process st0 0 (map decoded (take (unat expected) frames)) = (station s, None) \<and>
    (\<forall>k item. (k, item) \<in> set pending \<longrightarrow> unat expected < unat k \<and> dec_result item = decoded (frames ! unat k))"
proof -
  note inv = pinv_reachable [OF assms(1-3)]
  have items: "pending_ok frames pending" and none: "map_of pending expected = None"
    and dist: "distinct (map (unat \<circ> fst) pending @ [0..<unat expected])"
    using inv assms(4) by (auto simp: pinv_def inv_items_def inv_writer_def inv_flight_def flight_def)
  have "unat expected < unat k \<and> dec_result item = decoded (frames ! unat k)" if "(k, item) \<in> set pending" for k item
  proof -
    have "unat k \<notin> {0..<unat expected}" using dist that by force
    moreover have "k \<noteq> expected" using none that by (force simp: map_of_eq_None_iff)
    ultimately show ?thesis
      using items that injD [OF inj_unat, of k expected] by (fastforce simp: pending_ok_def dec_ok_def list_all_iff)
  qed
  with inv assms(4) show ?thesis by (auto simp: pinv_def inv_writer_def)
qed

text \<open>C8: in no reachable state is the pipeline stuck: as long as the main thread has not returned
  from \<open>run\<close>, some thread of the pipeline can take a step by itself, for every queue capacity (full
  queues included), every number of decoders, and also while errors are being handled.\<close>

theorem pipeline_no_deadlock:
  assumes "psteps process finish (startWorkers workers cap st0 frames) s" and "0 < workers"
    and "length frames < 2 ^ 64" and "\<forall>r. main_thread s \<noteq> M_done r"
  shows "\<exists>act s'. act \<noteq> Input_failure \<and> act \<noteq> Signal \<and> pstep process finish act s s'"
  using pinv_reachable [OF assms(1-3)] no_deadlock_step [OF _ _ assms(4)]
  by (simp add: pinv_def thread_moves_def)

text \<open>C13: every run of the pipeline on a finite input ends: there is no infinite sequence of steps,
  whatever the scheduler does.\<close>

theorem pipeline_terminates:
  "\<not> (\<exists>f. f 0 = startWorkers workers cap st0 frames \<and> (\<forall>i. \<exists>act. pstep process finish act (f i) (f (Suc i))))"
  using no_infinite_run [of process finish] by blast

text \<open>A run with one (malformed) frame, one decoder and queues of capacity one.\<close>

definition count_process :: "nat processor" where
  "count_process st i r = (st + 1, None)"

definition count_finish :: "nat finisher" where
  "count_finish st = (st, None)"

lemma undisturbed_step:
  "pstep process finish act s s' \<Longrightarrow> act \<noteq> Input_failure \<Longrightarrow> act \<noteq> Signal \<Longrightarrow>
   undisturbed process finish s' t \<Longrightarrow> undisturbed process finish s t"
  unfolding undisturbed_def by (rule converse_rtranclp_into_rtranclp) blast+

lemma undisturbed_refl: "undisturbed process finish s s"
  unfolding undisturbed_def by simp

lemma decode_empty: "\<exists>e. decodeFrame [] = Some (Inl e)"
  by (simp add: decodeFrame_def wire_simps)

lemma sample_run:
  "\<exists>s. undisturbed count_process count_finish (startWorkers 1 1 0 [[]]) s \<and> main_thread s = M_done None"
proof -
  obtain e where e: "decodeFrame [] = Some (Inl e)" using decode_empty by blast
  let ?item = "\<lparr>dec_sequence = 0, dec_result = Inl e\<rparr>"
  have take: "writer_take count_process 0 0 [] ?item = (1, W_loop 1 [])"
    by (simp add: writer_take_def drain.simps count_process_def)
  have fin: "writer_end count_finish (Suc 0) [] = (Suc 0, W_done)"
    by (simp add: writer_end_def count_finish_def)
  show ?thesis
    apply (rule exI)
    apply (rule conjI)
     apply (rule undisturbed_step [OF submit_number [where bytes = "[]" and rest = "[]"]]; (simp add: startWorkers_def)?)
     apply (rule undisturbed_step [OF submit_accepted]; (simp add: queue_ops BlockingQueue_ctor_def)?)
     apply (rule undisturbed_step [OF decoder_take [where i = 0 and r = "Inl e"]]; (simp add: queue_ops e)?)
      apply (simp add: e)
     apply (rule undisturbed_step [OF decoder_put [where i = 0]]; (simp add: queue_ops)?)
     apply (rule undisturbed_step [OF writer_item [where item = ?item]]; (simp add: queue_ops)?)
      apply (rule take)
     apply (rule undisturbed_step [OF input_end]; simp?)
     apply (rule undisturbed_step [OF stop_close_raw]; simp?)
     apply (rule undisturbed_step [OF decoder_end [where i = 0]]; (simp add: queue_ops)?)
     apply (rule undisturbed_step [OF stop_join_decoders]; simp?)
     apply (rule undisturbed_step [OF stop_close_decoded]; simp?)
     apply (rule undisturbed_step [OF writer_finish]; (simp add: queue_ops)?)
      apply (rule fin)
     apply (rule undisturbed_step [OF stop_join_writer]; simp?)
     apply (rule undisturbed_refl)
    apply simp
    done
qed

theorem pipeline_deterministic_witness:
  "\<exists>s :: nat GroundStationPipeline. main_thread s = M_done None \<and>
    (\<exists>n st. n \<le> length [[] :: ByteVector] \<and> todo s = drop n [[]] \<and> unat (received s) = n \<and>
      process_all count_process 0 0 (map decoded (take n [[]])) = (st, None) \<and> count_finish st = (station s, None))"
proof -
  from sample_run obtain s where s: "undisturbed count_process count_finish (startWorkers 1 1 0 [[]]) s"
    "main_thread s = M_done None" by blast
  from pipeline_deterministic [OF undisturbed_psteps [OF s(1)] _ _ s(2)] s(2) show ?thesis
    by (intro exI [of _ s]) simp
qed

theorem pipeline_in_order_witness:
  "process_all count_process 0 0 (map decoded (take (unat (0 :: u64)) [[]])) = (0, None)"
  using pipeline_in_order [of count_process count_finish 1 1 0 "[[]]" "startWorkers 1 1 0 [[]]" 0 "[]"]
  by (simp add: startWorkers_def)

theorem pipeline_no_deadlock_witness:
  "\<exists>act s'. act \<noteq> Input_failure \<and> act \<noteq> Signal \<and>
     pstep count_process count_finish act (startWorkers 2 1 0 [[], []]) s'"
  by (rule pipeline_no_deadlock [of count_process count_finish 2 1 0 "[[], []]"])
    (simp_all add: startWorkers_def)

end
