(* ===== verification/Station.thy ===== *)
theory Station
  imports Pipeline_Correct Ground_Options Signal_Processing
begin

text \<open>
  Model of \<open>apps/ground_station/GroundStationProcessing.hpp\<close>, \<open>GroundStationProcessing.cpp\<close>, of
  what \<open>writerLoop\<close> does with one result (\<open>GroundStationWorkers.cpp\<close>), of the message line of
  \<open>TerminalUi\<close>, and the composition of \<open>GroundStationApp.cpp\<close>: the state the writer thread
  owns, with which the pipeline of \<open>Pipeline.thy\<close> is instantiated.

  What the terminal shows is a list of events: complete lines for messages, the arguments of
  \<open>receivedSignal\<close> for signal blocks (\<open>Terminal.thy\<close> renders both). The log is the
  list of calls the writer makes to the logger, in order: the decoders share the logger and add
  their own trace lines between them.
\<close>

section \<open>State and environment\<close>

datatype ui_event = Ui_line string
  | Ui_signal u16 u16 float32 float32 "float32 list" "float32 list" SignalMetrics SignalFilterMode

record Station =
  st_health :: StationHealthMonitor
  st_logs :: "(LogLevel \<times> string) list"
  st_output :: TelemetryOutput
  st_ui :: "ui_event list"
  st_decoded :: u64
  st_rejected :: u64
  st_written :: u64
  localApplicationErrors :: u64
  st_applicationErrors :: u64

text \<open>What does not change during a run: options, the device of the output file, the mathematics
  library, the colour capability of the terminal, whether the final flush succeeds.\<close>

record environment =
  env_options :: Options
  env_device :: device
  env_libm :: libm
  env_colors :: bool
  env_flush :: bool

section \<open>Terminal lines\<close>

definition ui_style :: "bool \<Rightarrow> string \<Rightarrow> string \<Rightarrow> string" where
  "ui_style colors txt sgr =
     (if \<not> colors then txt else [CHR 0x1B] @ ''['' @ sgr @ ''m'' @ txt @ [CHR 0x1B] @ ''[0m'')"

definition receivedMessage :: "bool \<Rightarrow> u16 \<Rightarrow> u32 \<Rightarrow> string \<Rightarrow> ui_event" where
  "receivedMessage colors sat sq txt =
     Ui_line (ui_style colors ''[MESSAGE]'' ''35'' @ '' sat='' @ show_nat (unat sat) @ '' seq='' @ show_nat (unat sq) @
       '' text=\"'' @ sanitizeRemoteText txt @ ''\"'' @ [CHR 0x0A])"

section \<open>Processing one result\<close>

definition st_log :: "LogLevel \<Rightarrow> string \<Rightarrow> Station \<Rightarrow> Station" where
  "st_log level msg st = st\<lparr>st_logs := st_logs st @ [(level, msg)]\<rparr>"

definition transition_message :: "StationStateTransition \<Rightarrow> string" where
  "transition_message t =
     ''station state changed: '' @ stationStateToString (trans_from t) @ '' -> '' @ stationStateToString (trans_to t) @
     '', samples='' @ show_nat (snap_samples (trans_snapshot t)) @
     '', rejected='' @ show_nat (snap_rejected (trans_snapshot t)) @
     '', rejection_rate='' @ show_double (snap_rejectionRate (trans_snapshot t)) @
     '', critical='' @ show_nat (snap_critical (trans_snapshot t)) @
     '', reason='' @ trans_reason t"

definition logTransition :: "StationStateTransition option \<Rightarrow> Station \<Rightarrow> Station" where
  "logTransition tr st = (case tr of None \<Rightarrow> st
     | Some t \<Rightarrow> if trans_to t = Degraded then st_log Warning (transition_message t) st
                 else st_log Info (transition_message t) st)"

definition apply_filter :: "environment \<Rightarrow> SignalBlockPayload \<Rightarrow> float32 list result" where
  "apply_filter env sig =
     (case signalFilter (env_options env) of
        Filter_None \<Rightarrow> Inr (samples sig)
      | Filter_MovingAverage \<Rightarrow> movingAverageFilter (samples sig) (movingAverageWindow (env_options env))
      | Filter_SineProjection \<Rightarrow> sineProjectionFilter (env_libm env) (samples sig) (sampleRateHz sig) (frequencyHz sig) (startSampleIndex sig))"

definition process_signal :: "environment \<Rightarrow> TelemetryFrame \<Rightarrow> SignalBlockPayload \<Rightarrow> Station \<Rightarrow> Station \<times> exn option" where
  "process_signal env frame sig st =
     (case apply_filter env sig of Inl e \<Rightarrow> (st, Some e)
      | Inr filtered \<Rightarrow>
          (case computeSignalMetrics (env_libm env) (samples sig) filtered (sampleRateHz sig) (frequencyHz sig) (startSampleIndex sig) of
             Inl e \<Rightarrow> (st, Some e)
           | Inr metrics \<Rightarrow>
               (st\<lparr>st_ui := st_ui st @ [Ui_signal (satelliteId frame) (sampleRateHz sig) (frequencyHz sig) (nominalAmplitude sig)
                    (samples sig) filtered metrics (signalFilter (env_options env))]\<rparr>, None)))"

text \<open>A payload that \<open>decodeApplicationPayload\<close> could not read without leaving its buffer does
  not exist (see the classification of payloads), so the first branch is never taken.\<close>

definition processApplicationPayload :: "environment \<Rightarrow> TelemetryFrame \<Rightarrow> Station \<Rightarrow> Station \<times> exn option" where
  "processApplicationPayload env frame st =
     (case decodeApplicationPayload (payload frame) of
        None \<Rightarrow> (st, None)
      | Some Opaque_payload \<Rightarrow> (st, None)
      | Some (Text_payload m) \<Rightarrow>
          (st\<lparr>st_ui := st_ui st @ [receivedMessage (env_colors env) (satelliteId frame) (sequence m) (message_text m)]\<rparr>, None)
      | Some (Signal_payload sig) \<Rightarrow> process_signal env frame sig st
      | Some (Payload_error e) \<Rightarrow>
          (st_log Warning (''application payload rejected: '' @ applicationPayloadErrorToString (app_code e) @ '' - '' @ app_message e)
            (st\<lparr>localApplicationErrors := localApplicationErrors st + 1\<rparr>), None))"

definition process_decoded :: "environment \<Rightarrow> u64 \<Rightarrow> TelemetryFrame \<Rightarrow> Station \<Rightarrow> Station \<times> exn option" where
  "process_decoded env i frame st =
     (let st = st\<lparr>st_decoded := st_decoded st + 1\<rparr>;
          (h, tr) = recordDecoded (st_health st) frame;
          st = logTransition tr (st\<lparr>st_health := h\<rparr>)
      in case processApplicationPayload env frame st of
           (st, Some e) \<Rightarrow> (st, Some e)
         | (st, None) \<Rightarrow>
             (case output_write (env_device env) frame (st_output st) of
                (t, Some e) \<Rightarrow> (st\<lparr>st_output := t\<rparr>, Some e)
              | (t, None) \<Rightarrow>
                  (let st = st\<lparr>st_output := t, st_written := st_written st + 1\<rparr>
                   in (if verbose (env_options env)
                       then st_log Debug (''decoded seq='' @ show_nat (unat i) @ '' '' @ toString frame) st else st, None))))"

definition process_rejected :: "u64 \<Rightarrow> FrameError \<Rightarrow> Station \<Rightarrow> Station" where
  "process_rejected i err st =
     (let st = st\<lparr>st_rejected := st_rejected st + 1\<rparr>;
          (h, tr) = recordRejected (st_health st);
          st = logTransition tr (st\<lparr>st_health := h\<rparr>)
      in st_log Warning (''rejected seq='' @ show_nat (unat i) @ '': '' @ errorCodeToString (code err) @ '' - '' @ message err) st)"

definition process_item :: "environment \<Rightarrow> Station processor" where
  "process_item env st i r = (case r of Inr frame \<Rightarrow> process_decoded env i frame st
     | Inl err \<Rightarrow> (process_rejected i err st, None))"

definition finish_station :: "environment \<Rightarrow> Station finisher" where
  "finish_station env st =
     (let st = st\<lparr>st_applicationErrors := localApplicationErrors st\<rparr>
      in case output_finish (env_device env) (env_flush env) (st_output st) of (t, e) \<Rightarrow> (st\<lparr>st_output := t\<rparr>, e))"

section \<open>Start of a session\<close>

text \<open>The members \<open>run\<close> of \<open>GroundStationApp.cpp\<close> and the constructor of the pipeline create, in
  their order: the health monitor, then the output. The logger is opened before them.\<close>

definition Station_start :: "environment \<Rightarrow> bool \<Rightarrow> Station result" where
  "Station_start env can_open =
     (let opts = env_options env
      in case StationHealthMonitor_ctor (healthConfig opts) of Inl e \<Rightarrow> Inl e
         | Inr h \<Rightarrow>
             (case TelemetryOutput_ctor can_open (env_device env) (outputFile opts)
                     (resolveOutputFormat (outputFormat opts) (outputFile opts)) of Inl e \<Rightarrow> Inl e
              | Inr t \<Rightarrow> Inr \<lparr>st_health = h, st_logs = [], st_output = t, st_ui = [], st_decoded = 0, st_rejected = 0,
                             st_written = 0, localApplicationErrors = 0, st_applicationErrors = 0\<rparr>))"

text \<open>\<open>GroundStationPipeline::run\<close> on the frames of the input, with the options' threads and queues.\<close>

definition station_pipeline :: "environment \<Rightarrow> Station \<Rightarrow> ByteVector list \<Rightarrow> Station GroundStationPipeline" where
  "station_pipeline env st frames =
     startWorkers (decoder_threads (env_options env)) (queueCapacity (env_options env)) st frames"

end
