(* ===== verification/Pipeline_History.thy ===== *)
theory Pipeline_History
  imports Pipeline_Correct
begin

text \<open>
  What the writer has done so far, in every reachable state of the pipeline and also after a
  failure: the station is the result of processing, in order and without holes, some first frames
  of the input (the last of them possibly ended by its exception), perhaps followed by the final
  \<open>finish\<close>. Nothing is processed after an exception. It follows that the consistency
  exceptions of the writer cannot occur without an external cause, and that a run on an input whose
  sequential processing succeeds succeeds.
\<close>

lemma process_all_stop:
  "process_all process st i rs = (st', Some e) \<Longrightarrow> process_all process st i (rs @ qs) = (st', Some e)"
  by (induction rs arbitrary: st i) (auto split: prod.splits option.splits)

lemma drain_history:
  assumes "pending_ok frames p"
    and "process_all process st0 0 (map decoded (take (unat e) frames)) = (st, None)"
    and "length frames < 2 ^ 64" and "drain process st e p = (st', e', p', r)"
  shows "\<exists>n. process_all process st0 0 (map decoded (take n frames)) = (st', r)"
  using assms(1,2,4)
proof (induction process st e p rule: drain.induct)
  case (1 process st e p)
  show ?case
  proof (cases "map_of p e")
    case None
    with "1.prems" show ?thesis by (auto simp: drain.simps [of _ _ e p])
  next
    case (Some item)
    obtain st1 x where pr: "process st e (dec_result item) = (st1, x)" by fastforce
    let ?p = "filter (\<lambda>(k, _). k \<noteq> e) p"
    from Some have "(e, item) \<in> set p" by (rule map_of_SomeD)
    with "1.prems"(1) have lt: "unat e < length frames" and res: "dec_result item = decoded (frames ! unat e)"
      by (auto simp: pending_ok_def list_all_iff dec_ok_def)
    have suc: "unat (e + 1) = unat e + 1" using unat_suc [OF lt assms(3)] .
    have take: "take (unat (e + 1)) frames = take (unat e) frames @ [frames ! unat e]"
      using lt by (simp add: suc take_Suc_conv_app_nth)
    have pa: "process_all process st0 0 (map decoded (take (unat (e + 1)) frames)) = (st1, x)"
      using process_all_snoc [OF "1.prems"(2), of "decoded (frames ! unat e)"] pr res take lt
      by (simp add: min_absorb2)
    show ?thesis
    proof (cases x)
      case None
      with Some pr "1.prems"(3) have dr: "drain process st1 (e + 1) ?p = (st', e', p', r)"
        by (simp add: drain.simps [of _ _ e p])
      have "pending_ok frames ?p" using "1.prems"(1) by (auto simp: pending_ok_def list_all_iff)
      from "1.IH" [OF Some pr [symmetric] None this pa [unfolded None] dr] show ?thesis .
    next
      case (Some y)
      with \<open>map_of p e = Some item\<close> pr "1.prems"(3) have "st' = st1" "r = x" by (simp_all add: drain.simps [of _ _ e p])
      with pa show ?thesis by blast
    qed
  qed
qed

definition inv_history ::
    "'st processor \<Rightarrow> 'st finisher \<Rightarrow> 'st \<Rightarrow> ByteVector list \<Rightarrow> 'st GroundStationPipeline \<Rightarrow> bool" where
  "inv_history process finish st0 frames s \<longleftrightarrow>
     (\<exists>n x r. process_all process st0 0 (map decoded (take n frames)) = (x, r) \<and>
        (station s = x \<or> r = None \<and> station s = fst (finish x)))"

lemma inv_historyI:
  "process_all process st0 0 (map decoded (take n frames)) = (station s, r) \<Longrightarrow> inv_history process finish st0 frames s"
  unfolding inv_history_def by blast

lemma inv_history_same: "inv_history process finish st0 frames s \<Longrightarrow> station s' = station s \<Longrightarrow>
  inv_history process finish st0 frames s'"
  by (simp add: inv_history_def)

lemma writer_take_history:
  assumes "pending_ok frames p" and "dec_ok frames item" and "length frames < 2 ^ 64"
    and "process_all process st0 0 (map decoded (take (unat e) frames)) = (st, None)"
    and "writer_take process st e p item = (st', w)"
  shows "\<exists>n r. process_all process st0 0 (map decoded (take n frames)) = (st', r)"
proof (cases "map_of p (dec_sequence item)")
  case None
  obtain st1 e1 p1 r where dr: "drain process st e ((dec_sequence item, item) # p) = (st1, e1, p1, r)"
    by (metis prod_cases4)
  with assms(5) None have "st' = st1" by (auto simp: writer_take_def split: option.splits)
  moreover have "pending_ok frames ((dec_sequence item, item) # p)"
    using assms(1,2) by (simp add: pending_ok_def)
  ultimately show ?thesis using drain_history [OF _ assms(4,3) dr] by blast
qed (use assms(4,5) in \<open>auto simp: writer_take_def\<close>)

lemma inv_history_step:
  assumes "pstep process finish act s s'" and "pinv process finish st0 frames s" and "length frames < 2 ^ 64"
    and "inv_history process finish st0 frames s"
  shows "inv_history process finish st0 frames s'"
  using assms(1)
proof (cases rule: pstep.cases)
  case (writer_item e p q item st w)
  have "pending_ok frames p" "dec_ok frames item"
    "process_all process st0 0 (map decoded (take (unat e) frames)) = (station s, None)"
    using assms(2) writer_item by (auto simp: pinv_def inv_items_def inv_writer_def queue_ops list_all_iff)
  from writer_take_history [OF this(1,2) assms(3) this(3) writer_item(5)] writer_item show ?thesis
    by (auto intro: inv_historyI)
next
  case (writer_finish e p q st w)
  have pa: "process_all process st0 0 (map decoded (take (unat e) frames)) = (station s, None)"
    using assms(2) writer_finish by (auto simp: pinv_def inv_writer_def)
  have "st = station s \<or> st = fst (finish (station s))"
    using writer_finish(5) by (auto simp: writer_end_def split: if_splits prod.splits option.splits)
  with pa writer_finish show ?thesis unfolding inv_history_def by fastforce
next
  case (main_fail a as)
  then show ?thesis by (cases a) (auto intro: inv_history_same [OF assms(4)])
next
  case (writer_fail a as)
  then show ?thesis by (cases a) (auto intro: inv_history_same [OF assms(4)])
qed (auto intro: inv_history_same [OF assms(4)])

lemma inv_history_reachable:
  assumes "psteps process finish (startWorkers workers cap st0 frames) s" and "0 < workers"
    and "length frames < 2 ^ 64"
  shows "inv_history process finish st0 frames s"
  using assms(1)
proof (induction rule: rtranclp_induct)
  case base
  show ?case by (rule inv_historyI [where n = 0 and r = None]) (simp add: startWorkers_def)
next
  case (step s s')
  then obtain act where "pstep process finish act s s'" by blast
  from inv_history_step [OF this pinv_reachable [OF step.hyps(1) assms(2,3)] assms(3) step.IH] show ?case .
qed

section \<open>Runs that cannot fail\<close>

text \<open>The input is one a single thread would process without an exception.\<close>

definition succeeds :: "'st processor \<Rightarrow> 'st finisher \<Rightarrow> 'st \<Rightarrow> ByteVector list \<Rightarrow> 'st \<Rightarrow> bool" where
  "succeeds process finish st0 frames st2 \<longleftrightarrow>
     (\<exists>st1. process_all process st0 0 (map decoded frames) = (st1, None) \<and> finish st1 = (st2, None))"

lemma succeeds_prefix:
  assumes "succeeds process finish st0 frames st2" and "process_all process st0 0 (map decoded (take n frames)) = (st, r)"
  shows "r = None"
proof (rule ccontr)
  assume "r \<noteq> None"
  with assms(2) obtain e where "process_all process st0 0 (map decoded (take n frames)) = (st, Some e)" by auto
  from process_all_stop [OF this, of "map decoded (drop n frames)"] assms(1) show False
    by (simp add: succeeds_def flip: map_append)
qed

lemma writer_item_clean:
  assumes inv: "pinv process finish st0 frames s" and len: "length frames < 2 ^ 64"
    and ok: "succeeds process finish st0 frames st2"
    and w: "writerThread s = W_loop e p" "pop (decodedQueue s) = Some (q, Some item)"
    and t: "writer_take process (station s) e p item = (st, w')"
  shows "\<exists>e' p'. w' = W_loop e' p'"
proof -
  have fl: "inv_flight s" and items: "pending_ok frames p" "dec_ok frames item"
    and pa: "process_all process st0 0 (map decoded (take (unat e) frames)) = (station s, None)"
    using inv w by (auto simp: pinv_def inv_items_def inv_writer_def queue_ops list_all_iff)
  have fresh: "map_of p (dec_sequence item) = None" using no_duplicate [OF writer_distinct [OF fl w]] .
  obtain st1 e1 p1 r where dr: "drain process (station s) e ((dec_sequence item, item) # p) = (st1, e1, p1, r)"
    by (metis prod_cases4)
  have "pending_ok frames ((dec_sequence item, item) # p)" using items by (simp add: pending_ok_def)
  from drain_history [OF this pa len dr] succeeds_prefix [OF ok] have "r = None" by blast
  with t fresh dr show ?thesis by (auto simp: writer_take_def)
qed

lemma clean_step:
  assumes step: "pstep process finish act s s'" and act: "act \<noteq> Input_failure"
    and inv: "pinv process finish st0 frames s" and len: "length frames < 2 ^ 64"
    and ok: "succeeds process finish st0 frames st2" and c: "clean s" and fd: "inv_feed s"
  shows "clean s'"
  using step
proof (cases rule: pstep.cases)
  case (writer_item e p q item st w)
  then show ?thesis
    using writer_item_clean [OF inv len ok writer_item(3-5)] c by (auto simp: clean_def)
next
  case (writer_finish e p q st w)
  have i: "inv_stage s" "inv_clean s" "inv_flight s" "inv_input frames s" "decoderThreads s \<noteq> []"
    using inv by (simp_all add: pinv_def)
  have wr: "map_of p e = None" "process_all process st0 0 (map decoded (take (unat e) frames)) = (station s, None)"
    using inv writer_finish by (auto simp: pinv_def inv_writer_def)
  have p: "p = []" using no_gap [OF i(1,2,3,5) c writer_finish(3) wr(1) writer_finish(4)] .
  have e: "unat e = unat (received s)" using clean_end [OF i(1,2,3,5) c writer_finish(3) p writer_finish(4)] .
  have "closed (decodedQueue s)" using writer_finish(4) by (auto simp: queue_ops)
  then have m: "3 \<le> main_stage (main_thread s)" using i(2) c by (auto simp: inv_clean_def)
  have "todo s = []" using fd m by (cases "main_thread s") (simp_all add: inv_feed_def)
  moreover obtain n where "numbered frames n s" using i(4) by (auto simp: inv_input_def)
  then have "unat (received s) = n" "todo s = drop n frames" "n \<le> length frames"
    using c m by (cases "main_thread s"; simp add: numbered_def)+
  ultimately have "take (unat e) frames = frames" using e by simp
  with wr(2) ok have "finish (station s) = (st2, None)" by (simp add: succeeds_def)
  with p have "w = W_done" using writer_finish(5) by (auto simp: writer_end_def)
  with writer_finish c show ?thesis by (simp add: clean_def)
qed (use act c in \<open>simp_all add: clean_def\<close>)

lemma undisturbed_run:
  assumes "undisturbed process finish (startWorkers workers cap st0 frames) s" and "0 < workers"
    and "length frames < 2 ^ 64" and ok: "succeeds process finish st0 frames st2"
  shows "pinv process finish st0 frames s \<and> clean s \<and> inv_feed s"
  using assms(1) unfolding undisturbed_def
proof (induction rule: rtranclp_induct)
  case base
  then show ?case using pinv_start [OF assms(2)]
    by (simp add: clean_def inv_feed_def startWorkers_def)
next
  case (step s s')
  then obtain act where a: "act \<noteq> Input_failure" "act \<noteq> Signal" "pstep process finish act s s'" by blast
  from step.IH have i: "pinv process finish st0 frames s" "clean s" "inv_feed s" by simp_all
  have c: "clean s'" by (rule clean_step [OF a(3,1) i(1) assms(3) ok i(2,3)])
  have "inv_clean s" using i(1) by (simp add: pinv_def)
  from inv_feed_step [OF a(3,1,2) this i(2) c i(3)] pinv_step [OF a(3) i(1) assms(3)] c show ?case by blast
qed

text \<open>An undisturbed run that ends without an error has taken all of its input.\<close>

lemma undisturbed_feed:
  assumes "undisturbed process finish (startWorkers workers cap st0 frames) s" and "0 < workers"
    and "length frames < 2 ^ 64" and "clean s"
  shows "inv_feed s"
  using assms(1,4) unfolding undisturbed_def
proof (induction rule: rtranclp_induct)
  case base
  then show ?case by (simp add: inv_feed_def startWorkers_def)
next
  case (step s s')
  then obtain act where a: "act \<noteq> Input_failure" "act \<noteq> Signal" "pstep process finish act s s'" by blast
  have "undisturbed process finish (startWorkers workers cap st0 frames) s" using step.hyps(1) by (simp add: undisturbed_def)
  from pinv_reachable [OF undisturbed_psteps [OF this] assms(2,3)] have i: "inv_stage s" "inv_clean s"
    by (simp_all add: pinv_def)
  have c: "clean s" using clean_back [OF a(3) i(1) step.prems] .
  from inv_feed_step [OF a(3,1,2) i(2) c step.prems step.IH [OF c]] show ?case .
qed

lemma undisturbed_success:
  assumes "undisturbed process finish (startWorkers workers cap st0 frames) s" and "0 < workers"
    and "length frames < 2 ^ 64" and m: "main_thread s = M_done None"
  obtains st where "unat (received s) = length frames"
    "process_all process st0 0 (map decoded frames) = (st, None)" "finish st = (station s, None)"
proof -
  have inv: "pinv process finish st0 frames s" by (rule pinv_reachable [OF undisturbed_psteps [OF assms(1)] assms(2,3)])
  from done_clean [OF inv m] obtain n st where n: "n \<le> length frames" "todo s = drop n frames" "unat (received s) = n"
    "process_all process st0 0 (map decoded (take n frames)) = (st, None)" "finish st = (station s, None)" .
  have "clean s" using inv m by (auto simp: pinv_def inv_stage_def clean_def)
  from undisturbed_feed [OF assms(1-3) this] m have "todo s = []" by (simp add: inv_feed_def)
  with n that show ?thesis by simp
qed

lemma undisturbed_done:
  assumes "undisturbed process finish (startWorkers workers cap st0 frames) s" and "0 < workers"
    and "length frames < 2 ^ 64" and "succeeds process finish st0 frames st2" and "main_thread s = M_done r"
  shows "r = None \<and> unat (received s) = length frames \<and> station s = st2"
proof -
  from undisturbed_run [OF assms(1-4)] have inv: "pinv process finish st0 frames s" and c: "clean s" by simp_all
  then have r: "r = None" using assms(5) by (auto simp: pinv_def inv_stage_def clean_def)
  with assms(5) have m: "main_thread s = M_done None" by simp
  from undisturbed_success [OF assms(1-3) m] obtain st where st: "unat (received s) = length frames"
    "process_all process st0 0 (map decoded frames) = (st, None)" "finish st = (station s, None)" .
  from assms(4) st(2,3) have "station s = st2" by (simp add: succeeds_def)
  with r st(1) show ?thesis by simp
qed

section \<open>Runs exist\<close>

text \<open>Progress and the decreasing measure together: from every reachable state the threads alone
  can bring the run to its end.\<close>

lemma undisturbed_trans:
  "undisturbed process finish s s' \<Longrightarrow> undisturbed process finish s' s'' \<Longrightarrow> undisturbed process finish s s''"
  unfolding undisturbed_def by (rule rtranclp_trans)

lemma can_finish:
  assumes "pinv process finish st0 frames s" and "length frames < 2 ^ 64"
  shows "\<exists>s' r. undisturbed process finish s s' \<and> main_thread s' = M_done r"
  using assms(1)
proof (induction "pmeasure s" arbitrary: s rule: less_induct)
  case less
  show ?case
  proof (cases "\<forall>r. main_thread s \<noteq> M_done r")
    case True
    from no_deadlock_step [OF _ _ this] less.prems obtain act s1
      where a: "act \<noteq> Input_failure" "act \<noteq> Signal" and st: "pstep process finish act s s1"
      by (fastforce simp: pinv_def thread_moves_def)
    from less.hyps [OF pstep_decreases [OF st] pinv_step [OF st less.prems assms(2)]] undisturbed_step [OF st a]
    show ?thesis by blast
  qed (use undisturbed_refl in blast)
qed

section \<open>Runs that may be stopped\<close>

text \<open>Runs without a failure of the input, in which a stop may be requested at any time.\<close>

definition stoppable ::
    "'st processor \<Rightarrow> 'st finisher \<Rightarrow> 'st GroundStationPipeline \<Rightarrow> 'st GroundStationPipeline \<Rightarrow> bool" where
  "stoppable process finish = (\<lambda>s s'. \<exists>act. act \<noteq> Input_failure \<and> pstep process finish act s s')\<^sup>*\<^sup>*"

lemma undisturbed_stoppable: "undisturbed process finish s s' \<Longrightarrow> stoppable process finish s s'"
  unfolding undisturbed_def stoppable_def by (induction rule: rtranclp_induct) (auto intro: rtranclp.rtrancl_into_rtrancl)

lemma stoppable_clean:
  assumes "stoppable process finish (startWorkers workers cap st0 frames) s" and "0 < workers"
    and len: "length frames < 2 ^ 64" and ok: "\<And>n. \<exists>st2. succeeds process finish st0 (take n frames) st2"
  shows "pinv process finish st0 frames s \<and> clean s"
  using assms(1) unfolding stoppable_def
proof (induction rule: rtranclp_induct)
  case base
  then show ?case using pinv_start [OF assms(2)] by (simp add: clean_def startWorkers_def)
next
  case (step s s')
  then obtain act where act: "act \<noteq> Input_failure" and st: "pstep process finish act s s'" by blast
  from step.IH have inv: "pinv process finish st0 frames s" and c: "clean s" by simp_all
  obtain st2 where all: "succeeds process finish st0 frames st2" using ok [of "length frames"] by auto
  from st have "clean s'"
  proof (cases rule: pstep.cases)
    case (writer_item e p q item st w)
    then show ?thesis using writer_item_clean [OF inv len all writer_item(3-5)] c by (auto simp: clean_def)
  next
    case (writer_finish e p q st w)
    have i: "inv_stage s" "inv_clean s" "inv_flight s" "decoderThreads s \<noteq> []" using inv by (simp_all add: pinv_def)
    have wr: "map_of p e = None" "process_all process st0 0 (map decoded (take (unat e) frames)) = (station s, None)"
      using inv writer_finish by (auto simp: pinv_def inv_writer_def)
    have p: "p = []" using no_gap [OF i c writer_finish(3) wr(1) writer_finish(4)] .
    obtain st2 where "finish (station s) = (st2, None)" using ok [of "unat e"] wr(2) by (auto simp: succeeds_def)
    with p have "w = W_done" using writer_finish(5) by (auto simp: writer_end_def)
    with writer_finish c show ?thesis by (simp add: clean_def)
  qed (use act c in \<open>simp_all add: clean_def\<close>)
  with pinv_step [OF st inv len] show ?case by blast
qed

text \<open>Such a run, once finished, has processed what was submitted to it.\<close>

lemma stoppable_done:
  assumes "stoppable process finish (startWorkers workers cap st0 frames) s" and "0 < workers"
    and "length frames < 2 ^ 64" and "\<And>n. \<exists>st2. succeeds process finish st0 (take n frames) st2"
    and "todo s = []" and "main_thread s = M_done r"
  obtains st where "r = None" "process_all process st0 0 (map decoded frames) = (st, None)" "finish st = (station s, None)"
proof -
  from stoppable_clean [OF assms(1-4)] have inv: "pinv process finish st0 frames s" and "clean s" by simp_all
  then have r: "r = None" using assms(6) by (auto simp: pinv_def inv_stage_def clean_def)
  with assms(6) have "main_thread s = M_done None" by simp
  from done_clean [OF inv this] obtain n st where "n \<le> length frames" "todo s = drop n frames"
    "process_all process st0 0 (map decoded (take n frames)) = (st, None)" "finish st = (station s, None)" by metis
  with assms(5) r that show ?thesis by simp
qed

section \<open>Properties\<close>

text \<open>C10: when neither the input fails nor a stop is requested, and the frames are ones a single
  thread would process without an exception, the pipeline never raises one of its own consistency
  errors (duplicate or missing sequence number): every finished run returns without an exception,
  with every frame received and the station in the state of the sequential specification on the
  whole input.\<close>

theorem pipeline_complete:
  assumes "undisturbed process finish (startWorkers workers cap st0 frames) s" and "0 < workers"
    and "length frames < 2 ^ 64" and "process_all process st0 0 (map decoded frames) = (st1, None)"
    and "finish st1 = (st2, None)" and "main_thread s = M_done r"
  shows "r = None \<and> unat (received s) = length frames \<and> station s = st2"
  using undisturbed_done [OF assms(1-3) _ assms(6)] assms(4,5) by (auto simp: succeeds_def)

theorem pipeline_complete_witness:
  "\<exists>s :: nat GroundStationPipeline. main_thread s = M_done None \<and> unat (received s) = 1 \<and> station s = 1"
proof -
  from sample_run obtain s where s: "undisturbed count_process count_finish (startWorkers 1 1 0 [[]]) s"
    "main_thread s = M_done None" by blast
  have "unat (received s) = length [[] :: ByteVector] \<and> station s = 1"
    using pipeline_complete [OF s(1) _ _ _ _ s(2), of 1 1] by (simp add: count_process_def count_finish_def)
  with s(2) show ?thesis by (intro exI [of _ s]) simp
qed

end
