(* ===== verification/Station_Correct.thy ===== *)
theory Station_Correct
  imports Station Pipeline_History Stream_Extractor
begin

text \<open>
  What a whole session of the ground station does: the pipeline of \<open>Pipeline.thy\<close> with the
  station's own processing. The exported document, the counters and the health state are those of
  the decoded frames in order of reception, for every interleaving of the threads; a session that
  fails leaves a prefix of that document.
\<close>

section \<open>What one result changes\<close>

lemma st_log_frame [simp]:
  "st_output (st_log l m st) = st_output st" "st_health (st_log l m st) = st_health st"
  "st_decoded (st_log l m st) = st_decoded st" "st_rejected (st_log l m st) = st_rejected st"
  "st_written (st_log l m st) = st_written st" "st_ui (st_log l m st) = st_ui st"
  by (simp_all add: st_log_def)

lemma logTransition_frame [simp]:
  "st_output (logTransition t st) = st_output st" "st_health (logTransition t st) = st_health st"
  "st_decoded (logTransition t st) = st_decoded st" "st_rejected (logTransition t st) = st_rejected st"
  "st_written (logTransition t st) = st_written st" "st_ui (logTransition t st) = st_ui st"
  by (simp_all add: logTransition_def split: option.split)

lemma payload_frame:
  assumes "processApplicationPayload env frame st = (st', r)"
  shows "st_output st' = st_output st" "st_health st' = st_health st" "st_decoded st' = st_decoded st"
    "st_rejected st' = st_rejected st" "st_written st' = st_written st"
  using assms by (auto simp: processApplicationPayload_def process_signal_def
      split: option.splits ApplicationPayloadParseResult.splits sum.splits)

lemma process_decoded_effect:
  assumes "process_decoded env i frame st = (st', r)"
  shows "(st_output st' = st_output st \<or> st_output st' = fst (output_write (env_device env) frame (st_output st))) \<and>
    (r = None \<longrightarrow> output_write (env_device env) frame (st_output st) = (st_output st', None) \<and>
       st_health st' = fst (recordDecoded (st_health st) frame) \<and> st_decoded st' = st_decoded st + 1 \<and>
       st_rejected st' = st_rejected st \<and> st_written st' = st_written st + 1)"
proof -
  obtain h tr where h: "recordDecoded (st_health st) frame = (h, tr)" by fastforce
  let ?st1 = "logTransition tr (st\<lparr>st_decoded := st_decoded st + 1, st_health := h\<rparr>)"
  obtain st2 r2 where p: "processApplicationPayload env frame ?st1 = (st2, r2)" by fastforce
  obtain t r3 where w: "output_write (env_device env) frame (st_output st) = (t, r3)" by fastforce
  note fr = payload_frame [OF p]
  show ?thesis
    using assms fr w by (auto simp: process_decoded_def Let_def h p split: option.splits)
qed

lemma process_rejected_effect [simp]:
  "st_output (process_rejected i err st) = st_output st"
  "st_health (process_rejected i err st) = fst (recordRejected (st_health st))"
  "st_decoded (process_rejected i err st) = st_decoded st"
  "st_rejected (process_rejected i err st) = st_rejected st + 1"
  "st_written (process_rejected i err st) = st_written st"
  by (simp_all add: process_rejected_def Let_def split: prod.split)

section \<open>What a sequence of results changes\<close>

fun accepted :: "FrameParseResult list \<Rightarrow> TelemetryFrame list" where
  "accepted [] = []"
| "accepted (Inr f # rs) = f # accepted rs"
| "accepted (Inl e # rs) = accepted rs"

lemma accepted_append: "accepted (rs @ qs) = accepted rs @ accepted qs"
  by (induction rs rule: accepted.induct) simp_all

lemma accepted_Inr [simp]: "accepted (map Inr fs) = fs"
  by (induction fs) simp_all

lemma accepted_prefix: "prefix (accepted rs) (accepted (rs @ qs))"
  by (simp add: accepted_append)

text \<open>What the health monitor sees of a result.\<close>

fun health_sample :: "FrameParseResult \<Rightarrow> Sample" where
  "health_sample (Inr f) = \<lparr>rejected = False, critical = isCriticalTelemetry f\<rparr>"
| "health_sample (Inl e) = \<lparr>rejected = True, critical = False\<rparr>"

lemma process_all_effect:
  assumes "process_all (process_item env) st i rs = (st', None)"
  shows "output_write_all (env_device env) (accepted rs) (st_output st) = (st_output st', None) \<and>
    st_health st' = fst (record_all (st_health st) (map health_sample rs)) \<and>
    st_decoded st' = st_decoded st + of_nat (length (accepted rs)) \<and>
    st_written st' = st_written st + of_nat (length (accepted rs)) \<and>
    st_rejected st' = st_rejected st + of_nat (length rs - length (accepted rs)) \<and>
    length (accepted rs) \<le> length rs"
  using assms
proof (induction rs arbitrary: st i)
  case (Cons r rs)
  obtain st1 x where p: "process_item env st i r = (st1, x)" by fastforce
  with Cons.prems have x: "x = None" and rest: "process_all (process_item env) st1 (i + 1) rs = (st', None)"
    by (auto split: option.splits)
  note IH = Cons.IH [OF rest]
  show ?case
  proof (cases r)
    case (Inl err)
    with p x have "st1 = process_rejected i err st" by (simp add: process_item_def)
    with IH Inl show ?thesis
      by (auto simp: Suc_diff_le recordRejected_def Let_def split: prod.split)
  next
    case (Inr frame)
    with p x have "process_decoded env i frame st = (st1, None)" by (simp add: process_item_def)
    from process_decoded_effect [OF this] IH Inr show ?thesis
      by (auto simp: recordDecoded_def Let_def split: prod.split)
  qed
qed simp

lemma process_all_prefix:
  assumes "process_all (process_item env) st i rs = (st', r)" and "export_inv fmt fs (st_output st)"
  shows "\<exists>gs. prefix gs (accepted rs) \<and> export_inv fmt (fs @ gs) (st_output st')"
  using assms
proof (induction rs arbitrary: st i fs)
  case (Cons a rs)
  obtain st1 x where p: "process_item env st i a = (st1, x)" by fastforce
  show ?case
  proof (cases a)
    case (Inl err)
    with p have st1: "st1 = process_rejected i err st" "x = None" by (simp_all add: process_item_def)
    with Cons.prems p have "process_all (process_item env) st1 (i + 1) rs = (st', r)" by simp
    from Cons.IH [OF this, of fs] Cons.prems(2) st1 Inl show ?thesis by simp
  next
    case (Inr frame)
    with p have d: "process_decoded env i frame st = (st1, x)" by (simp add: process_item_def)
    have one: "export_inv fmt (fs @ [frame]) (fst (output_write (env_device env) frame (st_output st)))"
      using export_inv_write [OF Cons.prems(2), of "env_device env" frame] by (metis prod.collapse)
    show ?thesis
    proof (cases x)
      case None
      with Cons.prems p have rest: "process_all (process_item env) st1 (i + 1) rs = (st', r)" by simp
      from process_decoded_effect [OF d] None one have "export_inv fmt (fs @ [frame]) (st_output st1)" by simp
      from Cons.IH [OF rest this] obtain gs where "prefix gs (accepted rs)" "export_inv fmt (fs @ frame # gs) (st_output st')"
        by auto
      with Inr show ?thesis by (intro exI [of _ "frame # gs"]) simp
    next
      case (Some e)
      with Cons.prems p have st': "st' = st1" by simp
      from process_decoded_effect [OF d] consider "st_output st1 = st_output st"
        | "st_output st1 = fst (output_write (env_device env) frame (st_output st))" by blast
      then show ?thesis
      proof cases
        case 1
        with Cons.prems(2) st' show ?thesis by (intro exI [of _ "[]"]) simp
      next
        case 2
        with one st' Inr show ?thesis by (intro exI [of _ "[frame]"]) simp
      qed
    qed
  qed
qed auto


section \<open>Sessions\<close>

text \<open>The format and the document of a session.\<close>

definition session_format :: "environment \<Rightarrow> OutputFormat" where
  "session_format env = resolveOutputFormat (outputFormat (env_options env)) (outputFile (env_options env))"

lemma Station_start_facts:
  assumes "Station_start env can_open = Inr st0"
  shows "StationHealthMonitor_ctor (healthConfig (env_options env)) = Inr (st_health st0)"
    "export_inv (session_format env) [] (st_output st0)"
    "st_decoded st0 = 0" "st_rejected st0 = 0" "st_written st0 = 0"
  using assms by (auto simp: Station_start_def Let_def session_format_def intro: export_inv_ctor split: sum.splits)

lemma finish_station_effect:
  assumes "finish_station env st = (st', r)"
  shows "output_finish (env_device env) (env_flush env) (st_output st) = (st_output st', r)"
    "st_health st' = st_health st" "st_decoded st' = st_decoded st" "st_rejected st' = st_rejected st"
    "st_written st' = st_written st"
  using assms by (auto simp: finish_station_def Let_def split: prod.splits)

lemma finished_document:
  assumes "export_inv fmt fs t" and "output_finish dev flush_ok t = (t', r)"
  shows "stream_at (document fmt fs) t'" "r = None \<Longrightarrow> out_file (out_stream t') = doc_bytes (document fmt fs)"
proof -
  from assms(1) have "stream_at (open_document fmt fs) t" "out_format t = fmt" "\<not> finished t"
    by (simp_all add: export_inv_alt)
  from output_finish_stream [OF this assms(2), folded document_def]
  show "stream_at (document fmt fs) t'" "r = None \<Longrightarrow> out_file (out_stream t') = doc_bytes (document fmt fs)" .
qed

lemma stream_at_prefix: "stream_at s t \<Longrightarrow> prefix s u \<Longrightarrow> prefix (out_file (out_stream t)) (doc_bytes u)"
  using stream_at_file doc_bytes_prefix prefix_order.trans by blast

lemma session_result:
  assumes start: "Station_start env can_open = Inr st0" and len: "length rs < 2 ^ 64"
    and run: "process_all (process_item env) st0 0 rs = (st, None)" and fin: "finish_station env st = (st', None)"
  shows "out_file (out_stream (st_output st')) = doc_bytes (document (session_format env) (accepted rs))"
    "unat (st_decoded st') = length (accepted rs)" "unat (st_written st') = length (accepted rs)"
    "unat (st_rejected st') = length rs - length (accepted rs)"
    "st_health st' = fst (record_all (st_health st0) (map health_sample rs))"
proof -
  note s0 = Station_start_facts [OF start]
  note pa = process_all_effect [OF run]
  note fe = finish_station_effect [OF fin]
  from export_inv_write_all [OF s0(2)] pa have inv: "export_inv (session_format env) (accepted rs) (st_output st)" by fastforce
  from finished_document(2) [OF inv fe(1)]
  show "out_file (out_stream (st_output st')) = doc_bytes (document (session_format env) (accepted rs))" by simp
  have le: "length (accepted rs) < 2 ^ 64" "length rs - length (accepted rs) < 2 ^ 64" using pa len by linarith+
  show "unat (st_decoded st') = length (accepted rs)" "unat (st_written st') = length (accepted rs)"
    "unat (st_rejected st') = length rs - length (accepted rs)"
    using pa fe s0 by (simp_all add: of_nat_unat_64 [OF le(1)] of_nat_unat_64 [OF le(2)] del: of_nat_diff)
  show "st_health st' = fst (record_all (st_health st0) (map health_sample rs))" using pa fe by simp
qed

section \<open>Properties\<close>

text \<open>C36: a session of the ground station that ends without an error, whatever the interleaving of its
  threads, their number and the queue capacity, has exported exactly the frames that decode, in the
  order of reception: the file is the CSV or JSON document of those frames. The counters
  agree with it, and the station state is that of the health automaton on the results in that
  order.\<close>

theorem station_session:
  assumes "Station_start env can_open = Inr st0"
    and "psteps (process_item env) (finish_station env) (station_pipeline env st0 frames) s"
    and "0 < decoder_threads (env_options env)" and "length frames < 2 ^ 64" and "main_thread s = M_done None"
    and "enabled (healthConfig (env_options env))"
  shows "\<exists>n \<le> length frames. let rs = map decoded (take n frames); fs = accepted rs in
    unat (received s) = n \<and>
    out_file (out_stream (st_output (station s))) = doc_bytes (document (session_format env) fs) \<and>
    unat (st_decoded (station s)) = length fs \<and> unat (st_written (station s)) = length fs \<and>
    unat (st_rejected (station s)) = n - length fs \<and>
    state (st_health (station s)) = states_after (healthConfig (env_options env)) [] Nominal (map health_sample rs)"
proof -
  from done_clean [OF pinv_reachable [OF assms(2) [unfolded station_pipeline_def] assms(3,4)] assms(5)]
  obtain n st where n: "n \<le> length frames" "unat (received s) = n"
    "process_all (process_item env) st0 0 (map decoded (take n frames)) = (st, None)"
    "finish_station env st = (station s, None)" by metis
  let ?rs = "map decoded (take n frames)"
  have "length ?rs = n" "length ?rs < 2 ^ 64" using n(1) assms(4) by simp_all
  note res = session_result [OF assms(1) this(2) n(3,4), unfolded this(1)]
  have "state (st_health (station s)) = states_after (healthConfig (env_options env)) [] Nominal (map health_sample ?rs)"
    unfolding res(5) using fresh_run(3) [OF Station_start_facts(1) [OF assms(1)] assms(6)] by (metis prod.collapse)
  with n res show ?thesis unfolding Let_def by blast
qed

text \<open>C37: in every reachable state of a session, also after any failure (a full disk, an exception in
  the processing, a failing input), the export holds a prefix of the document of the frames
  received so far that decode, in order of reception: never a frame twice, out of order or
  corrupted.\<close>

theorem station_export_prefix:
  assumes "Station_start env can_open = Inr st0"
    and "psteps (process_item env) (finish_station env) (station_pipeline env st0 frames) s"
    and "0 < decoder_threads (env_options env)" and "length frames < 2 ^ 64"
  shows "\<exists>fs. prefix fs (accepted (map decoded frames)) \<and>
    prefix (out_file (out_stream (st_output (station s)))) (doc_bytes (document (session_format env) fs))"
proof -
  from inv_history_reachable [OF assms(2) [unfolded station_pipeline_def] assms(3,4)]
  obtain n x r where pa: "process_all (process_item env) st0 0 (map decoded (take n frames)) = (x, r)"
    and st: "station s = x \<or> station s = fst (finish_station env x)" by (auto simp: inv_history_def)
  from process_all_prefix [OF pa Station_start_facts(2) [OF assms(1)]] obtain fs
    where fs: "prefix fs (accepted (map decoded (take n frames)))" and inv: "export_inv (session_format env) fs (st_output x)"
    by auto
  have "prefix (accepted (map decoded (take n frames))) (accepted (map decoded (take n frames) @ map decoded (drop n frames)))"
    by (rule accepted_prefix)
  then have pre: "prefix fs (accepted (map decoded frames))"
    using fs by (metis append_take_drop_id map_append prefix_order.trans)
  have "stream_at (open_document (session_format env) fs) (st_output x)" using inv by (simp add: export_inv_alt)
  moreover have "prefix (open_document (session_format env) fs) (document (session_format env) fs)"
    unfolding document_def by (rule prefixI) (rule refl)
  ultimately have "prefix (out_file (out_stream (st_output x))) (doc_bytes (document (session_format env) fs))"
    by (rule stream_at_prefix)
  moreover obtain y q where y: "finish_station env x = (y, q)" by fastforce
  have "prefix (out_file (out_stream (st_output y))) (doc_bytes (document (session_format env) fs))"
    using stream_at_prefix [OF finished_document(1) [OF inv finish_station_effect(1) [OF y]]] by blast
  ultimately show ?thesis using st pre y by (intro exI [of _ fs]) auto
qed

text \<open>From the antenna to the file: frames encoded by a transmitter, cut into TCP chunks in any way,
  found again by the stream extractor and run through the concurrent pipeline without a stop
  request, are exported as exactly the document of the transmitted frames.\<close>

theorem tcp_session_exports_sent_frames:
  assumes "Station_start env can_open = Inr st0"
    and "list_all2 (\<lambda>f bs. encodeFrame f = Inr bs) fs bss" and "concat chunks = concat bss"
    and "feed_all empty_extractor chunks = Some (ext, frames)"
    and "undisturbed (process_item env) (finish_station env) (station_pipeline env st0 frames) s"
    and "0 < decoder_threads (env_options env)" and "length frames < 2 ^ 64" and "main_thread s = M_done None"
  shows "out_file (out_stream (st_output (station s))) = doc_bytes (document (session_format env) fs) \<and>
    unat (st_written (station s)) = length fs \<and> unat (st_rejected (station s)) = 0"
proof -
  note enc = feed_all_encoded [OF assms(2,3)]
  with assms(4) have frames: "frames = bss" by simp
  have dec: "map decoded frames = map Inr fs"
    using enc unfolding frames decoded_def by (metis (no_types, lifting) list.map_comp comp_apply map_eq_conv option.sel)
  obtain st where st: "process_all (process_item env) st0 0 (map decoded frames) = (st, None)"
    "finish_station env st = (station s, None)"
    using undisturbed_success [OF assms(5) [unfolded station_pipeline_def] assms(6-8)] .
  have "length (map decoded frames) < 2 ^ 64" using assms(7) by simp
  from session_result [OF assms(1) this st] dec show ?thesis by simp
qed

section \<open>A concrete session\<close>

text \<open>The default options with a window of three samples, a device that accepts everything, and some mathematics library.\<close>

definition sample_libm :: libm where
  "sample_libm = \<lparr>m_sin = (\<lambda>_. Fin 0), m_cos = (\<lambda>_. Fin 1), m_sqrt = (\<lambda>x. x), m_hypot = (\<lambda>x y. y), m_log10 = (\<lambda>_. Fin 0)\<rparr>"

definition sample_env :: environment where
  "sample_env = \<lparr>env_options = default_Options\<lparr>healthConfig := small_config\<rparr>, env_device = good_device, env_libm = sample_libm,
     env_colors = False, env_flush = True\<rparr>"

lemma good_item:
  assumes "env_device env = good_device" and "out_good (out_stream (st_output st))"
    and "\<And>f. r = Inr f \<Longrightarrow> decodeApplicationPayload (payload f) = Some Opaque_payload"
  shows "\<exists>st'. process_item env st i r = (st', None) \<and> out_good (out_stream (st_output st')) \<and>
    finished (st_output st') = finished (st_output st)"
proof (cases r)
  case (Inl e)
  with assms(2) show ?thesis by (simp add: process_item_def)
next
  case (Inr f)
  obtain h tr where h: "recordDecoded (st_health st) f = (h, tr)" by fastforce
  obtain t where t: "output_write good_device f (st_output st) = (t, None)" "out_good (out_stream t)"
    "finished t = finished (st_output st)"
    using good_write [OF assms(2)] by blast
  show ?thesis
    using Inr assms(1,3) t by (simp add: process_item_def process_decoded_def processApplicationPayload_def Let_def h)
qed

lemma good_items:
  assumes "env_device env = good_device" and "out_good (out_stream (st_output st))"
    and "list_all (\<lambda>r. \<forall>f. r = Inr f \<longrightarrow> decodeApplicationPayload (payload f) = Some Opaque_payload) rs"
  shows "\<exists>st'. process_all (process_item env) st i rs = (st', None) \<and> out_good (out_stream (st_output st')) \<and>
    finished (st_output st') = finished (st_output st)"
  using assms(2,3)
proof (induction rs arbitrary: st i)
  case (Cons r rs)
  from good_item [OF assms(1) Cons.prems(1), of r i] Cons.prems(2) obtain st1 where
    st1: "process_item env st i r = (st1, None)" "out_good (out_stream (st_output st1))"
      "finished (st_output st1) = finished (st_output st)" by auto
  from Cons.IH [OF st1(2), of "i + 1"] Cons.prems(2) st1 show ?case by auto
qed simp

lemma good_finish:
  "out_good (out_stream t) \<Longrightarrow> \<not> finished t \<Longrightarrow> \<exists>t'. output_finish good_device True t = (t', None)"
  using good_put [of t] by (simp add: output_finish_def Let_def)

lemma sample_start: "\<exists>st0. Station_start sample_env True = Inr st0 \<and> out_good (out_stream (st_output st0)) \<and>
  \<not> finished (st_output st0)"
  by (simp add: Station_start_def sample_env_def small_config_ok default_Options_def TelemetryOutput_ctor_def
      writeCsvHeader_def writeJsonHeader_def good_put Let_def)

lemma opaque_sample: "decodeApplicationPayload (payload sample_frame) = Some Opaque_payload"
proof -
  have "length (take 4 (payload sample_frame)) \<noteq> length (be32 ApplicationPayloadMagic)"
    by (simp add: sample_frame_def)
  then show ?thesis unfolding decode_opaque_iff by metis
qed

lemma opaque_session:
  assumes opaque: "list_all (\<lambda>r. \<forall>f. r = Inr f \<longrightarrow> decodeApplicationPayload (payload f) = Some Opaque_payload) (map decoded frames)"
    and l: "length frames < 2 ^ 64"
  obtains st0 s where "Station_start sample_env True = Inr st0"
    "undisturbed (process_item sample_env) (finish_station sample_env) (station_pipeline sample_env st0 frames) s"
    "main_thread s = M_done None"
proof -
  obtain st0 where st0: "Station_start sample_env True = Inr st0" "out_good (out_stream (st_output st0))"
    "\<not> finished (st_output st0)" using sample_start by blast
  have dev: "env_device sample_env = good_device" "env_flush sample_env" by (simp_all add: sample_env_def)
  obtain st1 where st1: "process_all (process_item sample_env) st0 0 (map decoded frames) = (st1, None)"
    "out_good (out_stream (st_output st1))" "\<not> finished (st_output st1)"
    using good_items [OF dev(1) st0(2) opaque, of 0] st0(3) by auto
  obtain st2 where "finish_station sample_env st1 = (st2, None)"
    using good_finish [OF st1(2,3)] dev by (auto simp: finish_station_def Let_def)
  with st1 have ok: "succeeds (process_item sample_env) (finish_station sample_env) st0 frames st2"
    by (auto simp: succeeds_def)
  have w: "0 < decoder_threads (env_options sample_env)" by (simp add: sample_env_def default_Options_def)
  obtain s r where s: "undisturbed (process_item sample_env) (finish_station sample_env) (station_pipeline sample_env st0 frames) s"
    "main_thread s = M_done r"
    unfolding station_pipeline_def using can_finish [OF pinv_start [OF w] l] by metis
  from undisturbed_done [OF s(1) [unfolded station_pipeline_def] w l ok s(2)] have "r = None" by simp
  with that st0(1) s show ?thesis by blast
qed

lemma sample_session:
  obtains st0 s where "Station_start sample_env True = Inr st0"
    "undisturbed (process_item sample_env) (finish_station sample_env)
       (station_pipeline sample_env st0 [frame_bytes sample_frame]) s" "main_thread s = M_done None"
proof (rule opaque_session [of "[frame_bytes sample_frame]"])
  show "list_all (\<lambda>r. \<forall>f. r = Inr f \<longrightarrow> decodeApplicationPayload (payload f) = Some Opaque_payload)
      (map decoded [frame_bytes sample_frame])"
    by (simp add: decoded_def decode_encode sample_frame_valid opaque_sample)
qed simp_all

lemma sample_env_simps:
  "0 < decoder_threads (env_options sample_env)" "enabled (healthConfig (env_options sample_env))"
  "session_format sample_env = Fmt_Csv"
  by (simp_all add: sample_env_def default_Options_def small_config_def session_format_def
      resolveOutputFormat_def path_extension_def path_filename_def Let_def)

theorem station_session_witness:
  "\<exists>(s :: Station GroundStationPipeline) n. main_thread s = M_done None \<and> n \<le> 1 \<and> unat (received s) = n \<and>
     out_file (out_stream (st_output (station s))) =
       doc_bytes (document Fmt_Csv (accepted (map decoded (take n [frame_bytes sample_frame]))))"
proof -
  obtain st0 s where s: "Station_start sample_env True = Inr st0"
    "undisturbed (process_item sample_env) (finish_station sample_env) (station_pipeline sample_env st0 [frame_bytes sample_frame]) s"
    "main_thread s = M_done None" by (rule sample_session)
  from station_session [OF s(1) undisturbed_psteps [OF s(2)] sample_env_simps(1) _ s(3) sample_env_simps(2)] s(3)
  show ?thesis unfolding Let_def sample_env_simps(3) by (intro exI [of _ s]) auto
qed

theorem station_export_prefix_witness:
  "\<exists>st0 s fs. Station_start sample_env True = Inr st0 \<and> main_thread s = M_done None \<and> prefix fs [sample_frame] \<and>
     prefix (out_file (out_stream (st_output (station (s :: Station GroundStationPipeline))))) (doc_bytes (document Fmt_Csv fs))"
proof -
  obtain st0 s where s: "Station_start sample_env True = Inr st0"
    "undisturbed (process_item sample_env) (finish_station sample_env) (station_pipeline sample_env st0 [frame_bytes sample_frame]) s"
    "main_thread s = M_done None" by (rule sample_session)
  have "accepted (map decoded [frame_bytes sample_frame]) = [sample_frame]"
    by (simp add: decoded_def decode_encode sample_frame_valid)
  with station_export_prefix [OF s(1) undisturbed_psteps [OF s(2)] sample_env_simps(1)] s(1,3)
  show ?thesis by (auto simp: sample_env_simps(3))
qed

theorem tcp_session_exports_sent_frames_witness:
  "\<exists>s. main_thread s = M_done None \<and>
     out_file (out_stream (st_output (station (s :: Station GroundStationPipeline)))) = doc_bytes (document Fmt_Csv [sample_frame])"
proof -
  obtain st0 s where s: "Station_start sample_env True = Inr st0"
    "undisturbed (process_item sample_env) (finish_station sample_env) (station_pipeline sample_env st0 [frame_bytes sample_frame]) s"
    "main_thread s = M_done None" by (rule sample_session)
  let ?chunks = "[take 7 (frame_bytes sample_frame), drop 7 (frame_bytes sample_frame)]"
  have enc: "list_all2 (\<lambda>f bs. encodeFrame f = Inr bs) [sample_frame] [frame_bytes sample_frame]"
    by (simp add: encodeFrame_eq sample_frame_valid)
  have "feed_all empty_extractor ?chunks = Some (empty_extractor, [frame_bytes sample_frame])"
    using feed_all_encoded [OF enc, of ?chunks] by simp
  from tcp_session_exports_sent_frames [OF s(1) enc _ this s(2) sample_env_simps(1) _ s(3)] s(3) show ?thesis
    by (auto simp: sample_env_simps(3))
qed

end
