(* ===== verification/Signal_Correct.thy ===== *)
theory Signal_Correct
  imports Signal_Processing Float_Rounding
begin

text \<open>
  What the signal processing does for finite inputs: the moving average stays within the values of
  its window in spite of rounding, the sine projection of samples up to an eighth of the largest
  \<open>float\<close> is finite, and the metrics of finite signals never raise an exception.
\<close>

section \<open>Bounded arithmetic\<close>

text \<open>\<open>x\<close> is a number between \<open>a\<close> and \<open>b\<close>.\<close>

definition d_in :: "rat \<Rightarrow> rat \<Rightarrow> double \<Rightarrow> bool" where
  "d_in a b x \<longleftrightarrow> (\<exists>r. x = Fin r \<and> a \<le> r \<and> r \<le> b)"

lemma d_inI: "a \<le> r \<Longrightarrow> r \<le> b \<Longrightarrow> d_in a b (Fin r)"
  by (simp add: d_in_def)

lemma d_in_add:
  assumes "d_in a b x" "d_in c d y" "d_repr (a + c)" "d_repr (b + d)"
  shows "d_in (a + c) (b + d) (d_add x y)"
proof -
  from assms(1,2) obtain r s where "x = Fin r" "y = Fin s" "a \<le> r" "r \<le> b" "c \<le> s" "s \<le> d" by (auto simp: d_in_def)
  with round_double_between [OF assms(3,4), of "r + s"] show ?thesis by (auto simp: d_in_def)
qed

lemma d_in_div:
  assumes "d_in (of_nat n * a) (of_nat n * b) x" "d_repr a" "d_repr b" "0 < n"
  shows "d_in a b (d_div x (Fin (of_nat n)))"
proof -
  from assms(1) obtain r where r: "x = Fin r" "of_nat n * a \<le> r" "r \<le> of_nat n * b" by (auto simp: d_in_def)
  with assms(4) have "a \<le> r / of_nat n" "r / of_nat n \<le> b"
    by (simp_all add: pos_le_divide_eq pos_divide_le_eq mult.commute)
  with round_double_between [OF assms(2,3)] r assms(4) show ?thesis by (simp add: d_in_def)
qed

lemma d_in_mul_unit:
  assumes "d_in (- b) b x" "y = Fin s" "\<bar>s\<bar> \<le> 1" "d_repr b"
  shows "d_in (- b) b (d_mul x y)"
proof -
  from assms(1) obtain r where r: "x = Fin r" "\<bar>r\<bar> \<le> b" by (auto simp: d_in_def)
  have "\<bar>r * s\<bar> \<le> b * 1" unfolding abs_mult using r(2) assms(3) by (intro mult_mono) simp_all
  moreover have "d_repr (- b)" using assms(4) by (simp add: d_repr_def)
  ultimately have "\<exists>q. round_double (r * s) = Fin q \<and> - b \<le> q \<and> q \<le> b"
    using assms(4) by (intro round_double_between) (simp_all add: abs_le_iff)
  with r(1) assms(2) show ?thesis by (simp add: d_in_def)
qed

lemma d_repr_pow: "n < 2 ^ 53 \<Longrightarrow> k \<le> 900 \<Longrightarrow> d_repr (of_nat n * 2 ^ k)"
proof -
  assume n: "n < 2 ^ 53" and k: "k \<le> 900"
  have "repr 53 (- 1074) \<bar>of_nat n * 2 ^ k\<bar>"
    using n by (intro reprI [of _ n "int k"]) simp_all
  moreover have "(of_nat n :: rat) * 2 ^ k < 2 ^ 53 * 2 ^ 900"
    using n k by (intro mult_less_le_imp_less power_increasing) simp_all
  ultimately show ?thesis by (simp add: d_repr_def)
qed

lemma d_of_nat_small: "n < 2 ^ 53 \<Longrightarrow> d_of_nat n = Fin (of_nat n)"
  using d_repr_pow [of n 0] by (simp add: d_of_nat_def round_double_exact)

section \<open>The moving average stays in its window\<close>

lemma sum_between:
  assumes "isfinite a" "isfinite b"
    and "\<forall>y\<in>set ys. isfinite y \<and> f32_value a \<le> f32_value y \<and> f32_value y \<le> f32_value b"
    and "d_in (of_nat k * f32_value a) (of_nat k * f32_value b) x" and "k + length ys < 2 ^ 29"
  shows "d_in (of_nat (k + length ys) * f32_value a) (of_nat (k + length ys) * f32_value b)
    (foldl (\<lambda>acc s. d_add acc (f32_to_double s)) x ys)"
  using assms(3-5)
proof (induction ys arbitrary: k x)
  case (Cons y ys)
  have y: "d_in (f32_value a) (f32_value b) (f32_to_double y)"
    using Cons.prems(1) by (simp add: f32_to_double_finite d_inI)
  have rep: "d_repr (of_nat (Suc k) * f32_value a)" "d_repr (of_nat (Suc k) * f32_value b)"
    using Cons.prems(3) by (simp_all only: d_repr_multiple [OF assms(1)] d_repr_multiple [OF assms(2)] list.size)
  have "d_in (of_nat (Suc k) * f32_value a) (of_nat (Suc k) * f32_value b) (d_add x (f32_to_double y))"
    using d_in_add [OF Cons.prems(2) y] rep by (simp add: algebra_simps)
  from Cons.IH [OF _ this] Cons.prems(1,3) show ?case by simp
qed simp

lemma window_bounds:
  assumes "ys \<noteq> []"
  obtains lo hi where "lo < length ys" "hi < length ys"
    "\<forall>y\<in>set ys. f32_value (ys ! lo) \<le> f32_value y \<and> f32_value y \<le> f32_value (ys ! hi)"
proof -
  let ?V = "f32_value ` set ys"
  have "Min ?V \<in> ?V" "Max ?V \<in> ?V" using assms by simp_all
  then obtain x y where "x \<in> set ys" "f32_value x = Min ?V" "y \<in> set ys" "f32_value y = Max ?V" by auto
  then obtain lo hi where "lo < length ys" "f32_value (ys ! lo) = Min ?V" "hi < length ys" "f32_value (ys ! hi) = Max ?V"
    by (metis in_set_conv_nth)
  with that show ?thesis by simp
qed

lemma window_average_between:
  assumes "list_all isfinite xs" "from_i < to_i" "to_i \<le> length xs" "length xs < 2 ^ 29"
  shows "isfinite (window_average xs from_i to_i) \<and> (\<exists>lo hi. from_i \<le> lo \<and> lo < to_i \<and> from_i \<le> hi \<and> hi < to_i \<and>
    f32_value (xs ! lo) \<le> f32_value (window_average xs from_i to_i) \<and>
    f32_value (window_average xs from_i to_i) \<le> f32_value (xs ! hi))"
proof -
  let ?n = "to_i - from_i"
  let ?ys = "take ?n (drop from_i xs)"
  have len: "length ?ys = ?n" using assms(3) by simp
  have "?ys \<noteq> []" using len assms(2) by fastforce
  then obtain lo hi where b: "lo < length ?ys" "hi < length ?ys"
    and bounds: "\<forall>y\<in>set ?ys. f32_value (?ys ! lo) \<le> f32_value y \<and> f32_value y \<le> f32_value (?ys ! hi)"
    by (rule window_bounds)
  have fin: "\<forall>y\<in>set ?ys. isfinite y" using assms(1) by (auto simp: list_all_iff dest: in_set_takeD in_set_dropD)
  let ?a = "?ys ! lo" and ?b = "?ys ! hi"
  have ab: "isfinite ?a" "isfinite ?b" using b fin nth_mem by blast+
  have n: "0 < ?n" "?n < 2 ^ 29" using assms by simp_all
  have "d_in (of_nat ?n * f32_value ?a) (of_nat ?n * f32_value ?b) (foldl (\<lambda>acc s. d_add acc (f32_to_double s)) (Fin 0) ?ys)"
    using sum_between [OF ab, of ?ys 0 "Fin 0"] bounds fin n(2) unfolding len by (simp add: d_in_def)
  from d_in_div [OF this _ _ n(1)] d_repr_multiple [OF ab(1), of 1] d_repr_multiple [OF ab(2), of 1]
  have "d_in (f32_value ?a) (f32_value ?b)
      (d_div (foldl (\<lambda>acc s. d_add acc (f32_to_double s)) (Fin 0) ?ys) (d_of_nat ?n))"
    using n(2) by (simp add: d_of_nat_small)
  then obtain q where q: "d_div (foldl (\<lambda>acc s. d_add acc (f32_to_double s)) (Fin 0) ?ys) (d_of_nat ?n) = Fin q"
    "f32_value ?a \<le> q" "q \<le> f32_value ?b" by (auto simp: d_in_def)
  have "window_average xs from_i to_i = double_to_f32 (Fin q)" by (simp add: window_average_def q(1))
  moreover have "?a = xs ! (from_i + lo)" "?b = xs ! (from_i + hi)" using b assms(2,3) by simp_all
  ultimately show ?thesis using double_to_f32_between [OF ab q(2,3)] b len
    by (intro conjI exI [of _ "from_i + lo"] exI [of _ "from_i + hi"]) auto
qed

lemma validateFinite_Inr: "validateFiniteSamples xs = Inr () \<longleftrightarrow> list_all isfinite xs"
  by (auto simp: validateFiniteSamples_def list_all_iff list_ex_iff)

lemma movingAverage_correct:
  assumes "odd w" "list_all isfinite xs" "length xs < 2 ^ 29"
  shows "\<exists>out. movingAverageFilter xs w = Inr out \<and> length out = length xs \<and>
    (\<forall>i < length xs. isfinite (out ! i) \<and> (\<exists>lo hi. lo < length xs \<and> hi < length xs \<and>
       i \<le> lo + w div 2 \<and> lo \<le> i + w div 2 \<and> i \<le> hi + w div 2 \<and> hi \<le> i + w div 2 \<and>
       f32_value (xs ! lo) \<le> f32_value (out ! i) \<and> f32_value (out ! i) \<le> f32_value (xs ! hi)))"
proof (cases "xs = [] \<or> w = 1")
  case True
  with assms show ?thesis
    by (auto simp: movingAverageFilter_def validateFinite_Inr [THEN iffD2] list_all_length odd_pos
        odd_iff_mod_2_eq_one intro!: exI)
next
  case False
  let ?a = "\<lambda>i. if i > w div 2 then i - w div 2 else 0" and ?b = "\<lambda>i. min (length xs) (i + w div 2 + 1)"
  let ?out = "map (\<lambda>i. window_average xs (?a i) (?b i)) [0..<length xs]"
  have "movingAverageFilter xs w = Inr ?out"
    using assms False odd_pos [OF assms(1)] by (simp add: movingAverageFilter_def validateFinite_Inr [THEN iffD2] Let_def odd_iff_mod_2_eq_one)
  moreover have "isfinite (?out ! i) \<and> (\<exists>lo hi. lo < length xs \<and> hi < length xs \<and>
       i \<le> lo + w div 2 \<and> lo \<le> i + w div 2 \<and> i \<le> hi + w div 2 \<and> hi \<le> i + w div 2 \<and>
       f32_value (xs ! lo) \<le> f32_value (?out ! i) \<and> f32_value (?out ! i) \<le> f32_value (xs ! hi))"
    if i: "i < length xs" for i
  proof -
    have out: "?out ! i = window_average xs (?a i) (?b i)" using i by simp
    have "?a i < ?b i" "?b i \<le> length xs" using i by auto
    from window_average_between [OF assms(2) this assms(3)] obtain lo hi
      where w: "isfinite (?out ! i)" "?a i \<le> lo" "lo < ?b i" "?a i \<le> hi" "hi < ?b i"
        "f32_value (xs ! lo) \<le> f32_value (?out ! i)" "f32_value (?out ! i) \<le> f32_value (xs ! hi)"
      unfolding out by blast
    from w(2-5) have "lo < length xs" "hi < length xs" "i \<le> lo + w div 2" "lo \<le> i + w div 2" "i \<le> hi + w div 2" "hi \<le> i + w div 2"
      by (auto split: if_splits)
    with w(1,6,7) show ?thesis by blast
  qed
  ultimately show ?thesis by (intro exI [of _ ?out]) simp
qed

lemma movingAverage_finite:
  assumes "odd w" "list_all isfinite xs" "length xs < 2 ^ 29"
  obtains out where "movingAverageFilter xs w = Inr out" "length out = length xs" "list_all isfinite out"
  using movingAverage_correct [OF assms] by (auto simp: list_all_length)

section \<open>Metrics\<close>

lemma validateProjectionMetadata_Inr:
  "validateProjectionMetadata rate freq = Inr () \<longleftrightarrow>
     rate \<noteq> 0 \<and> isfinite freq \<and> f32_greater freq 0 \<and> f32_less freq (int (unat rate) * 2 ^ 149)"
  by (auto simp: validateProjectionMetadata_def f32_le_def f32_ge_def f32_greater_def f32_less_def isfinite_not_nan)

lemma estimateProjection_Inr:
  assumes "validateProjectionMetadata rate freq = Inr ()" and "list_all isfinite xs"
  shows "\<exists>c. estimateProjection lm xs rate freq start = Inr c"
  using assms by (auto simp: estimateProjection_def validateFinite_Inr [THEN iffD2] Let_def split: prod.split)

lemma metrics_Inr:
  assumes "validateProjectionMetadata rate freq = Inr ()" and "list_all isfinite xs" "list_all isfinite ys"
    and "length xs = length ys"
  shows "\<exists>m. computeSignalMetrics lm xs ys rate freq start = Inr m"
  using estimateProjection_Inr [OF assms(1,2), of lm start] assms
  by (auto simp: computeSignalMetrics_def validateFinite_Inr [THEN iffD2] Let_def)

section \<open>The sine projection of moderate signals\<close>

text \<open>What the C library documents of \<open>sin\<close> and \<open>cos\<close> on finite arguments.\<close>

definition unit_range :: "double \<Rightarrow> bool" where
  "unit_range y \<longleftrightarrow> (\<exists>s. y = Fin s \<and> \<bar>s\<bar> \<le> 1)"

definition trig_bounded :: "libm \<Rightarrow> bool" where
  "trig_bounded lm \<longleftrightarrow> (\<forall>x. unit_range (m_sin lm (Fin x)) \<and> unit_range (m_cos lm (Fin x)))"

definition d_finite :: "double \<Rightarrow> bool" where
  "d_finite x \<longleftrightarrow> (\<exists>r. x = Fin r)"

lemma trig_unit: "trig_bounded lm \<Longrightarrow> d_finite x \<Longrightarrow> unit_range (m_sin lm x) \<and> unit_range (m_cos lm x)"
  by (auto simp: trig_bounded_def d_finite_def)

lemma d_in_mul_unit': "d_in (- b) b x \<Longrightarrow> unit_range y \<Longrightarrow> d_repr b \<Longrightarrow> d_in (- b) b (d_mul x y)"
  by (auto simp: unit_range_def intro: d_in_mul_unit)

lemma round_double_pow:
  assumes "\<bar>q\<bar> \<le> 2 ^ k" "k \<le> 900" shows "\<exists>r. round_double q = Fin r \<and> \<bar>r\<bar> \<le> 2 ^ k"
proof -
  have "d_repr (2 ^ k)" "d_repr (- (2 ^ k))" using d_repr_pow [of 1 k] assms(2) by (simp_all add: d_repr_def)
  from round_double_between [OF this(2,1), of q] assms(1) show ?thesis by (auto simp: abs_le_iff)
qed

lemma f32_value_small: "isfinite w \<Longrightarrow> \<bar>f32_value w\<bar> \<le> 2 ^ 128"
  using f32_value_less [of w] by simp

lemma omega_finite:
  assumes "isfinite freq" "rate \<noteq> 0"
  shows "\<exists>r. omega_of rate freq = Fin r \<and> \<bar>r\<bar> \<le> 2 ^ 131"
proof -
  have "\<bar>7074237752028440 / 2 ^ 50 * f32_value freq\<bar> \<le> (2 ^ 3 * 2 ^ 128 :: rat)"
    unfolding abs_mult using f32_value_small [OF assms(1)] by (intro mult_mono) simp_all
  then have "\<bar>7074237752028440 / 2 ^ 50 * f32_value freq\<bar> \<le> (2 :: rat) ^ 131" by simp
  from round_double_pow [OF this] obtain x where x: "round_double (7074237752028440 / 2 ^ 50 * f32_value freq) = Fin x" "\<bar>x\<bar> \<le> 2 ^ 131"
    by auto
  have u: "unat rate < 2 ^ 53" "1 \<le> unat rate"
    using unsigned_less [of rate, where 'a = nat] assms(2) by (simp_all add: Suc_le_eq unat_gt_0)
  have "\<bar>x / of_nat n\<bar> \<le> \<bar>x\<bar>" if "1 \<le> n" for n
    using that by (simp add: divide_le_eq mult_le_cancel_left1 abs_divide)
  from this [OF u(2)] x(2) have "\<bar>x / of_nat (unat rate)\<bar> \<le> 2 ^ 131" by linarith
  moreover have "(of_nat (unat rate) :: rat) \<noteq> 0" using u(2) by (simp only: of_nat_eq_0_iff)
  ultimately show ?thesis
    using round_double_pow [of "x / of_nat (unat rate)" 131] assms x by (simp add: omega_of_def TwoPi_def f32_to_double_finite d_of_nat_small [OF u(1)])
qed

lemma phase_finite:
  assumes "isfinite freq" "rate \<noteq> 0" "i < 2 ^ 32"
  shows "d_finite (phase_at (omega_of rate freq) start i)"
proof -
  obtain x where x: "omega_of rate freq = Fin x" "\<bar>x\<bar> \<le> 2 ^ 131" using omega_finite [OF assms(1,2)] by blast
  have n: "unat start + i < 2 ^ 33" using unsigned_less [of start, where 'a = nat] assms(3) by simp
  then have "\<bar>x * of_nat (unat start + i)\<bar> \<le> 2 ^ 131 * 2 ^ 33"
    unfolding abs_mult using x(2) by (intro mult_mono) (simp_all del: of_nat_add)
  then have "\<bar>x * of_nat (unat start + i)\<bar> \<le> 2 ^ 164" by simp
  from round_double_pow [OF this] n x(1) show ?thesis
    by (auto simp: phase_at_def d_finite_def d_of_nat_small simp del: of_nat_add)
qed

abbreviation moderate :: "float32 \<Rightarrow> bool" where
  "moderate w \<equiv> isfinite w \<and> \<bar>f32_value w\<bar> \<le> 2 ^ 125"

lemma d_repr_125: "n < 2 ^ 53 \<Longrightarrow> d_repr (of_nat n * 2 ^ 125)" "n < 2 ^ 53 \<Longrightarrow> d_repr (- (of_nat n * 2 ^ 125))"
  using d_repr_pow [of n 125] by (simp_all add: d_repr_def)

definition d_span :: "nat \<Rightarrow> double \<Rightarrow> bool" where
  "d_span n x \<longleftrightarrow> d_in (- (of_nat n * 2 ^ 125)) (of_nat n * 2 ^ 125) x"

lemma d_span_add: "d_span m x \<Longrightarrow> d_span n y \<Longrightarrow> m + n < 2 ^ 53 \<Longrightarrow> d_span (m + n) (d_add x y)"
  unfolding d_span_def
  using d_in_add [of "- (of_nat m * 2 ^ 125)" "of_nat m * 2 ^ 125" x "- (of_nat n * 2 ^ 125)" "of_nat n * 2 ^ 125" y]
    d_repr_125 [of "m + n"] by (simp add: algebra_simps)

lemma d_span_mul: "d_span n x \<Longrightarrow> unit_range y \<Longrightarrow> n < 2 ^ 53 \<Longrightarrow> d_span n (d_mul x y)"
  unfolding d_span_def using d_in_mul_unit' d_repr_125(1) by blast

lemma d_span_sample: "moderate w \<Longrightarrow> d_span 1 (f32_to_double w)"
  by (auto simp: d_span_def f32_to_double_finite abs_le_iff intro!: d_inI)

lemma d_span_div:
  assumes "d_span (n * m) x" "m < 2 ^ 53" "0 < n"
  shows "d_span m (d_div x (Fin (of_nat n)))"
proof -
  have "d_in (of_nat n * - (of_nat m * 2 ^ 125)) (of_nat n * (of_nat m * 2 ^ 125)) x"
    using assms(1) by (simp add: d_span_def algebra_simps)
  from d_in_div [OF this d_repr_125(2,1) [OF assms(2)] assms(3)] show ?thesis by (simp add: d_span_def)
qed

lemma d_span_double:
  assumes "d_span n x" "2 * n < 2 ^ 53" shows "d_span (2 * n) (d_mul (Fin 2) x)"
proof -
  from assms(1) obtain r where r: "x = Fin r" "- (of_nat n * 2 ^ 125) \<le> r" "r \<le> of_nat n * 2 ^ 125"
    by (auto simp: d_span_def d_in_def)
  have "- (of_nat (2 * n) * 2 ^ 125) \<le> 2 * r" "2 * r \<le> of_nat (2 * n) * 2 ^ 125" using r(2,3) by simp_all
  from round_double_between [OF d_repr_125(2,1) [OF assms(2)] this] r(1) show ?thesis by (simp add: d_span_def d_in_def)
qed

lemma projection_d_span:
  assumes lm: "trig_bounded lm" and meta: "isfinite freq" "rate \<noteq> 0"
    and "list_all moderate xs" and "i + length xs < 2 ^ 29" and "d_span i sm" "d_span i sp" "d_span i cp"
    and "projection_loop lm (omega_of rate freq) start i xs (sm, sp, cp) = (sm', sp', cp')"
  shows "d_span (i + length xs) sm' \<and> d_span (i + length xs) sp' \<and> d_span (i + length xs) cp'"
  using assms(4-9)
proof (induction xs arbitrary: i sm sp cp)
  case (Cons x xs)
  have i: "i + 1 < 2 ^ 53" "i < 2 ^ 32" using Cons.prems(2) by simp_all
  have x: "d_span 1 (f32_to_double x)" using Cons.prems(1) by (intro d_span_sample) simp
  have tr: "unit_range (m_sin lm (phase_at (omega_of rate freq) start i))" "unit_range (m_cos lm (phase_at (omega_of rate freq) start i))"
    using trig_unit [OF lm phase_finite [OF meta i(2)]] by blast+
  note step = d_span_add [OF _ x i(1)] d_span_add [OF _ d_span_mul [OF x tr(1)] i(1)] d_span_add [OF _ d_span_mul [OF x tr(2)] i(1)]
  show ?case
    using Cons.IH [OF _ _ step(1) [OF Cons.prems(3)] step(2) [OF Cons.prems(4)] step(3) [OF Cons.prems(5)]] Cons.prems(1,2,6)
    by (simp add: Let_def)
qed simp

lemma sine_value_finite:
  assumes "d_span 1 (dc c)" "d_span 2 (sinCoefficient c)" "d_span 2 (cosCoefficient c)" "unit_range (m_sin lm ph)" "unit_range (m_cos lm ph)"
  shows "isfinite (sine_value lm c ph)"
proof -
  have "d_span (1 + 2 + 2) (d_add (d_add (dc c) (d_mul (sinCoefficient c) (m_sin lm ph))) (d_mul (cosCoefficient c) (m_cos lm ph)))"
    using assms by (intro d_span_add d_span_mul) simp_all
  then obtain q where q: "d_add (d_add (dc c) (d_mul (sinCoefficient c) (m_sin lm ph))) (d_mul (cosCoefficient c) (m_cos lm ph)) = Fin q"
    "- (5 * 2 ^ 125) \<le> q" "q \<le> 5 * 2 ^ 125" by (auto simp: d_span_def d_in_def)
  have m: "isfinite 0x7F200000" "isfinite 0xFF200000" "f32_value 0x7F200000 = 5 * 2 ^ 125" "f32_value 0xFF200000 = - (5 * 2 ^ 125)"
    by (simp_all add: isfinite_def f32_exponent_def f32_value_def f32_scaled_def f32_negative_def f32_magnitude_def
        f32_fraction_def drop_bit_eq_div bit_iff_odd)
  have "isfinite (double_to_f32 (Fin q))"
    using double_to_f32_between [OF m(2,1), of q] q(2,3) unfolding m(3,4) by simp
  then show ?thesis by (simp add: sine_value_def q(1))
qed

lemma sineProjection_finite:
  assumes lm: "trig_bounded lm" and meta: "validateProjectionMetadata rate freq = Inr ()"
    and xs: "list_all moderate xs" "length xs < 2 ^ 29"
  obtains out where "sineProjectionFilter lm xs rate freq start = Inr out" "length out = length xs" "list_all isfinite out"
proof (cases "xs = []")
  case True
  then show ?thesis using that by (simp add: sineProjectionFilter_def estimateProjection_def)
next
  case False
  have m: "isfinite freq" "rate \<noteq> 0" using meta by (simp_all add: validateProjectionMetadata_Inr)
  have fin: "list_all isfinite xs" using xs(1) by (simp add: list_all_iff)
  obtain sm sp cp where loop: "projection_loop lm (omega_of rate freq) start 0 xs (Fin 0, Fin 0, Fin 0) = (sm, sp, cp)"
    by (metis prod_cases3)
  have z: "d_span 0 (Fin 0)" by (simp add: d_span_def d_in_def)
  have sums: "d_span (length xs) sm" "d_span (length xs) sp" "d_span (length xs) cp"
    using projection_d_span [OF lm m xs(1) _ z z z loop] xs(2) by simp_all
  let ?c = "\<lparr>dc = d_div sm (d_of_nat (length xs)), sinCoefficient = d_div (d_mul (Fin 2) sp) (d_of_nat (length xs)),
     cosCoefficient = d_div (d_mul (Fin 2) cp) (d_of_nat (length xs))\<rparr>"
  have est: "estimateProjection lm xs rate freq start = Inr ?c"
    using False meta validateFinite_Inr [of xs] fin by (simp add: estimateProjection_def loop Let_def)
  have cnt: "d_of_nat (length xs) = Fin (of_nat (length xs))" "0 < length xs" using xs(2) False by (simp_all add: d_of_nat_small)
  have two: "d_span (length xs * 2) (d_mul (Fin 2) y)" if "d_span (length xs) y" for y
    using d_span_double [OF that] xs(2) by (simp add: mult.commute)
  have c: "d_span 1 (dc ?c)" "d_span 2 (sinCoefficient ?c)" "d_span 2 (cosCoefficient ?c)"
    using d_span_div [of "length xs" 1 sm] d_span_div [OF two [OF sums(2)]] d_span_div [OF two [OF sums(3)]] sums(1) cnt(2)
    unfolding cnt(1) by simp_all
  let ?out = "map (\<lambda>i. sine_value lm ?c (phase_at (omega_of rate freq) start i)) [0..<length xs]"
  have "isfinite (sine_value lm ?c (phase_at (omega_of rate freq) start i))" if "i < length xs" for i
    using trig_unit [OF lm phase_finite [OF m, of i start]] that xs(2) by (intro sine_value_finite c) simp_all
  then have "list_all isfinite ?out" by (simp add: list_all_iff)
  moreover have "sineProjectionFilter lm xs rate freq start = Inr ?out" by (simp add: sineProjectionFilter_def est)
  ultimately show ?thesis using that by simp
qed

section \<open>Properties\<close>

text \<open>The moving-average filter accepts every finite signal with an odd window and returns as many
  samples; although sums and quotients are rounded to \<open>double\<close> and the result to \<open>float\<close>,
  every output is finite and lies between two samples of its own window, cut at the borders.\<close>

theorem moving_average_in_window:
  assumes "odd w" and "list_all isfinite xs" and "length xs < 2 ^ 29"
  shows "\<exists>out. movingAverageFilter xs w = Inr out \<and> length out = length xs \<and>
    (\<forall>i < length xs. isfinite (out ! i) \<and> (\<exists>lo hi. lo < length xs \<and> hi < length xs \<and>
       i \<le> lo + w div 2 \<and> lo \<le> i + w div 2 \<and> i \<le> hi + w div 2 \<and> hi \<le> i + w div 2 \<and>
       f32_value (xs ! lo) \<le> f32_value (out ! i) \<and> f32_value (out ! i) \<le> f32_value (xs ! hi)))"
  using movingAverage_correct [OF assms] .

theorem moving_average_in_window_witness:
  "\<exists>out. movingAverageFilter [0x7F7FFFFF, 0x7F7FFFFF] 3 = Inr out \<and> length out = 2 \<and> isfinite (out ! 0) \<and>
    f32_value (out ! 0) \<le> f32_value 0x7F7FFFFF"
proof -
  have fin: "list_all isfinite [0x7F7FFFFF, 0x7F7FFFFF]"
    by (simp add: isfinite_def f32_exponent_def drop_bit_eq_div)
  let ?xs = "[0x7F7FFFFF, 0x7F7FFFFF] :: float32 list"
  have "odd (3 :: nat)" "length ?xs < 2 ^ 29" by simp_all
  from moving_average_in_window [OF this(1) fin this(2)] obtain out
    where out: "movingAverageFilter ?xs 3 = Inr out" "length out = length ?xs"
      and each: "\<forall>i < length ?xs. isfinite (out ! i) \<and> (\<exists>lo hi. lo < length ?xs \<and> hi < length ?xs \<and>
        i \<le> lo + 3 div 2 \<and> lo \<le> i + 3 div 2 \<and> i \<le> hi + 3 div 2 \<and> hi \<le> i + 3 div 2 \<and>
        f32_value (?xs ! lo) \<le> f32_value (out ! i) \<and> f32_value (out ! i) \<le> f32_value (?xs ! hi))" by blast
  have "0 < length ?xs" by simp
  with each obtain hi where hi: "isfinite (out ! 0)" "hi < length ?xs" "f32_value (out ! 0) \<le> f32_value (?xs ! hi)" by blast
  have "?xs ! hi = 0x7F7FFFFF" using hi(2) by (auto simp: less_Suc_eq)
  with out hi show ?thesis by simp
qed

end
