(* ===== verification/Station_Robust.thy ===== *)
theory Station_Robust
  imports Station_Correct Signal_Correct
begin

text \<open>
  Which inputs can make the writer thread raise an exception, and so stop the station: none but
  signal blocks with enormous samples in sine-projection mode, and one of those in particular.
\<close>

section \<open>Signals that can be processed\<close>

lemma decoded_signal_facts:
  assumes "decodeApplicationPayload pl = Some (Signal_payload sig)"
  shows "validateProjectionMetadata (sampleRateHz sig) (frequencyHz sig) = Inr ()" "list_all isfinite (samples sig)"
    "length (samples sig) < 2 ^ 29"
  using assms unfolding decode_signal_iff validateProjectionMetadata_Inr
  by (auto simp: validSignalMetadata_def Let_def split: if_splits)

lemma apply_filter_finite:
  assumes sig: "decodeApplicationPayload pl = Some (Signal_payload sig)"
    and w: "odd (movingAverageWindow (env_options env))" and lm: "trig_bounded (env_libm env)"
    and mod: "signalFilter (env_options env) = Filter_SineProjection \<Longrightarrow> list_all moderate (samples sig)"
  obtains out where "apply_filter env sig = Inr out" "length out = length (samples sig)" "list_all isfinite out"
proof (cases "signalFilter (env_options env)")
  case Filter_None
  with that decoded_signal_facts [OF sig] show ?thesis by (simp add: apply_filter_def)
next
  case Filter_MovingAverage
  from movingAverage_finite [OF w decoded_signal_facts(2,3) [OF sig]] Filter_MovingAverage that show ?thesis
    by (auto simp: apply_filter_def)
next
  case Filter_SineProjection
  from sineProjection_finite [OF lm decoded_signal_facts(1) [OF sig] mod [OF Filter_SineProjection] decoded_signal_facts(3) [OF sig]]
    Filter_SineProjection that show ?thesis by (auto simp: apply_filter_def)
qed

lemma process_signal_returns:
  assumes "decodeApplicationPayload pl = Some (Signal_payload sig)"
    and "odd (movingAverageWindow (env_options env))" and "trig_bounded (env_libm env)"
    and "signalFilter (env_options env) = Filter_SineProjection \<Longrightarrow> list_all moderate (samples sig)"
  shows "snd (process_signal env frame sig st) = None"
proof -
  obtain out where out: "apply_filter env sig = Inr out" "length out = length (samples sig)" "list_all isfinite out"
    using apply_filter_finite [OF assms] .
  obtain m where "computeSignalMetrics (env_libm env) (samples sig) out (sampleRateHz sig) (frequencyHz sig) (startSampleIndex sig) = Inr m"
    using metrics_Inr [OF decoded_signal_facts(1,2) [OF assms(1)] out(3) out(2) [symmetric]] by blast
  with out(1) show ?thesis by (simp add: process_signal_def)
qed

lemma payload_error_cause:
  assumes "processApplicationPayload env frame st = (st', Some e)"
    and "odd (movingAverageWindow (env_options env))" and "trig_bounded (env_libm env)"
  shows "signalFilter (env_options env) = Filter_SineProjection \<and>
    (\<exists>sig. decodeApplicationPayload (payload frame) = Some (Signal_payload sig) \<and> \<not> list_all moderate (samples sig))"
proof -
  obtain sig where sig: "decodeApplicationPayload (payload frame) = Some (Signal_payload sig)"
    and e: "process_signal env frame sig st = (st', Some e)"
    using assms(1) by (auto simp: processApplicationPayload_def split: option.splits ApplicationPayloadParseResult.splits)
  with process_signal_returns [OF sig assms(2,3), of frame st] show ?thesis by fastforce
qed

section \<open>A signal that cannot\<close>

text \<open>A signal block with one sample, the largest \<open>float\<close>: its projection at the first phase is
  three times that sample.\<close>

definition overflow_signal :: SignalBlockPayload where
  "overflow_signal = \<lparr>sampleRateHz = 1000, frequencyHz = 0x42C80000, nominalAmplitude = 0x3F800000,
     startSampleIndex = 0, samples = [0x7F7FFFFF]\<rparr>"

definition overflow_frame :: TelemetryFrame where
  "overflow_frame = sample_frame\<lparr>payload := signal_bytes overflow_signal\<rparr>"

lemma overflow_metadata:
  "validSignalMetadata 1000 0x42C80000 0x3F800000" "isfinite 0x7F7FFFFF"
  by (simp_all add: validSignalMetadata_def isfinite_def isnan_def f32_exponent_def f32_greater_def f32_less_def f32_ge_def
      f32_scaled_def f32_negative_def f32_magnitude_def f32_fraction_def drop_bit_eq_div bit_iff_odd)

lemma overflow_decodes: "decodeApplicationPayload (payload overflow_frame) = Some (Signal_payload overflow_signal)"
  using overflow_metadata by (simp add: overflow_frame_def overflow_signal_def decode_signal_bytes)

lemma overflow_frame_valid: "frame_valid overflow_frame"
  using sample_frame_valid by (simp add: overflow_frame_def frame_valid_def length_signal_bytes wire_simps overflow_signal_def)

lemma max_float: "f32_value 0x7F7FFFFF = (2 ^ 24 - 1) * 2 ^ 104"
  by (simp add: f32_value_def f32_scaled_def f32_negative_def f32_magnitude_def f32_exponent_def
      f32_fraction_def drop_bit_eq_div bit_iff_odd)

lemma multiple_exact: "n < 2 ^ 29 \<Longrightarrow> round_double (of_nat n * f32_value 0x7F7FFFFF) = Fin (of_nat n * f32_value 0x7F7FFFFF)"
  by (rule round_double_exact [OF d_repr_multiple [OF overflow_metadata(2)]])

lemma round_double_zero [simp]: "round_double 0 = Fin 0"
  by (simp add: round_double_def round_bin_def)

lemma overflow_to_infinity: "double_to_f32 (Fin (3 * f32_value 0x7F7FFFFF)) = f32_infinity"
proof -
  have "repr 24 (- 149) (2 ^ 128)" by (intro reprI [of _ 1 128]) simp_all
  then have "2 ^ 128 \<le> round_bin 24 (- 149) \<bar>3 * f32_value 0x7F7FFFFF\<bar>"
    by (rule round_bin_ge) (simp_all add: max_float)
  then show ?thesis by (simp add: double_to_f32_def Let_def f32_pack_def max_float)
qed

lemma overflow_projection:
  assumes "m_sin lm (Fin 0) = Fin 0" and "m_cos lm (Fin 0) = Fin 1"
  shows "sineProjectionFilter lm [0x7F7FFFFF] 1000 0x42C80000 0 = Inr [f32_infinity]"
proof -
  let ?v = "f32_value 0x7F7FFFFF"
  have meta: "validateProjectionMetadata 1000 0x42C80000 = Inr ()"
    using decoded_signal_facts(1) [OF overflow_decodes] by (simp add: overflow_signal_def)
  have fin: "validateFiniteSamples [0x7F7FFFFF] = Inr ()" using overflow_metadata(2) by (simp add: validateFinite_Inr)
  obtain x where "omega_of 1000 0x42C80000 = Fin x"
    using omega_finite [of "0x42C80000" 1000] meta by (auto simp: validateProjectionMetadata_Inr)
  then have ph: "phase_at (omega_of 1000 0x42C80000) 0 0 = Fin 0" by (simp add: phase_at_def d_of_nat_def)
  have v: "f32_to_double 0x7F7FFFFF = Fin ?v" by (rule f32_to_double_finite [OF overflow_metadata(2)])
  note ex = multiple_exact [of 1, simplified] multiple_exact [of 2, simplified] multiple_exact [of 3, simplified]
  have one: "d_of_nat 1 = Fin 1" using d_of_nat_small [of 1] by simp
  have loop: "projection_loop lm (omega_of 1000 0x42C80000) 0 0 [0x7F7FFFFF] (Fin 0, Fin 0, Fin 0) = (Fin ?v, Fin 0, Fin ?v)"
    by (simp add: Let_def ph assms v ex)
  have "estimateProjection lm [0x7F7FFFFF] 1000 0x42C80000 0 =
      Inr \<lparr>dc = Fin ?v, sinCoefficient = Fin 0, cosCoefficient = Fin (2 * ?v)\<rparr>"
    unfolding estimateProjection_def loop meta fin using one ex by (simp add: Let_def)
  moreover have "sine_value lm \<lparr>dc = Fin ?v, sinCoefficient = Fin 0, cosCoefficient = Fin (2 * ?v)\<rparr> (Fin 0) = f32_infinity"
    using ex overflow_to_infinity by (simp add: sine_value_def assms)
  ultimately show ?thesis by (simp add: sineProjectionFilter_def ph)
qed

lemma overflow_stops:
  assumes "m_sin (env_libm env) (Fin 0) = Fin 0" and "m_cos (env_libm env) (Fin 0) = Fin 1"
    and "signalFilter (env_options env) = Filter_SineProjection"
  shows "\<exists>st'. process_item env st i (Inr overflow_frame) =
    (st', Some (invalid_argument ''signal processing requires finite samples''))"
proof -
  have meta: "validateProjectionMetadata 1000 0x42C80000 = Inr ()"
    using decoded_signal_facts(1) [OF overflow_decodes] by (simp add: overflow_signal_def)
  have raw: "validateFiniteSamples [0x7F7FFFFF] = Inr ()" using overflow_metadata(2) by (simp add: validateFinite_Inr)
  have inf: "validateFiniteSamples [f32_infinity] = Inl (invalid_argument ''signal processing requires finite samples'')"
    by (simp add: validateFiniteSamples_def f32_infinity_def isfinite_def f32_exponent_def drop_bit_eq_div)
  have "process_signal env frame overflow_signal st1 =
      (st1, Some (invalid_argument ''signal processing requires finite samples''))" for frame st1
    using overflow_projection [OF assms(1,2)] assms(3) meta raw inf
    by (simp add: process_signal_def apply_filter_def overflow_signal_def computeSignalMetrics_def)
  then have "processApplicationPayload env overflow_frame st1 =
      (st1, Some (invalid_argument ''signal processing requires finite samples''))" for st1
    by (simp add: processApplicationPayload_def overflow_decodes)
  then show ?thesis by (simp add: process_item_def process_decoded_def Let_def split: prod.split)
qed

section \<open>Properties\<close>


text \<open>C40: and such a signal block does raise one: the frame below is well formed (it is what
  \<open>encodeFrame\<close> produces, and \<open>decodeFrame\<close> accepts it), but in the default sine-projection mode
  the projected sample overflows \<open>float\<close>, \<open>computeSignalMetrics\<close> throws, and the writer thread
  stops the station.\<close>

theorem overflowing_frame_raises:
  assumes "m_sin (env_libm env) (Fin 0) = Fin 0" and "m_cos (env_libm env) (Fin 0) = Fin 1"
    and "signalFilter (env_options env) = Filter_SineProjection"
  shows "encodeFrame overflow_frame = Inr (frame_bytes overflow_frame) \<and>
    decodeFrame (frame_bytes overflow_frame) = Some (Inr overflow_frame) \<and>
    (\<exists>st'. process_item env st i (Inr overflow_frame) =
       (st', Some (invalid_argument ''signal processing requires finite samples'')))"
  using overflow_stops [OF assms] overflow_frame_valid by (simp add: encodeFrame_eq decode_encode)

lemma sample_env_trig:
  "m_sin (env_libm sample_env) (Fin 0) = Fin 0" "m_cos (env_libm sample_env) (Fin 0) = Fin 1"
  "trig_bounded (env_libm sample_env)" "signalFilter (env_options sample_env) = Filter_SineProjection"
  "odd (movingAverageWindow (env_options sample_env))" "env_device sample_env = good_device"
  by (simp_all add: sample_env_def sample_libm_def trig_bounded_def unit_range_def default_Options_def)

theorem overflowing_frame_raises_witness:
  "decodeFrame (frame_bytes overflow_frame) = Some (Inr overflow_frame) \<and>
   (\<forall>st. \<exists>st'. process_item sample_env st 0 (Inr overflow_frame) =
      (st', Some (invalid_argument ''signal processing requires finite samples'')))"
  using overflowing_frame_raises [OF sample_env_trig(1,2,4)] by blast


end
