(* ===== verification/Station_Complete.thy ===== *)
theory Station_Complete
  imports Station_Robust
begin

text \<open>
  Sessions of the ground station that cannot fail: with a device that accepts the data, every session
  on frames without enormous signals ends without an exception.
\<close>

section \<open>Conditions\<close>

text \<open>What a session needs of its surroundings: every write and the flush succeed (bytes may wait in the buffer as long
  as they like), the options are ones that the parser accepts, and \<open>sin\<close> and \<open>cos\<close> of finite
  arguments lie between -1 and 1.\<close>

definition good_environment :: "environment \<Rightarrow> bool" where
  "good_environment env \<longleftrightarrow> (\<forall>file pending. snd (env_device env file pending)) \<and> env_flush env \<and>
     odd (movingAverageWindow (env_options env)) \<and> 0 < decoder_threads (env_options env) \<and> trig_bounded (env_libm env)"

text \<open>A frame that the writer can always process: in sine-projection mode, no sample of a signal is above
  \<open>2 ^ 125\<close>.\<close>

definition tame :: "environment \<Rightarrow> TelemetryFrame \<Rightarrow> bool" where
  "tame env f \<longleftrightarrow> (signalFilter (env_options env) = Filter_SineProjection \<longrightarrow>
     (\<forall>sig. decodeApplicationPayload (payload f) = Some (Signal_payload sig) \<longrightarrow>
        (\<forall>x \<in> set (samples sig). \<bar>f32_value x\<bar> \<le> 2 ^ 125)))"

section \<open>Writing\<close>

lemma works_write: "\<forall>file pending. snd (dev file pending) \<Longrightarrow> out_good os \<Longrightarrow> out_good (ostream_write dev os bytes)"
  by (simp add: ostream_write_def Let_def split: prod.split) (metis snd_conv)

lemma works_put: "\<forall>file pending. snd (dev file pending) \<Longrightarrow> out_good (out_stream t) \<Longrightarrow> out_good (out_stream (put dev s t))"
  by (simp add: put_def works_write)

lemma works_output:
  assumes "\<forall>file pending. snd (dev file pending)" and "out_good (out_stream t)"
  shows "\<exists>t'. output_write dev f t = (t', None) \<and> out_good (out_stream t') \<and> finished t' = finished t"
  using assms by (simp add: output_write_def writeFrameJson_def writeFrameCsv_def Let_def works_put)

lemma works_finish:
  assumes "\<forall>file pending. snd (dev file pending)" and "out_good (out_stream t)" and "\<not> finished t"
  shows "\<exists>t'. output_finish dev True t = (t', None)"
  using assms works_put [OF assms(1), of t] by (simp add: output_finish_def Let_def)

section \<open>Processing\<close>

lemma tame_payload:
  assumes "good_environment env" and "tame env f"
  shows "snd (processApplicationPayload env f st) = None"
proof (rule ccontr)
  assume "snd (processApplicationPayload env f st) \<noteq> None"
  then obtain st' e where "processApplicationPayload env f st = (st', Some e)"
    by (cases "processApplicationPayload env f st") auto
  from payload_error_cause [OF this] assms(1) obtain sig where "signalFilter (env_options env) = Filter_SineProjection"
    "decodeApplicationPayload (payload f) = Some (Signal_payload sig)" "\<not> list_all moderate (samples sig)"
    by (auto simp: good_environment_def)
  with assms(2) decoded_signal_facts(2) [of "payload f" sig] show False by (auto simp: tame_def list_all_iff)
qed

lemma tame_item:
  assumes env: "good_environment env" and good: "out_good (out_stream (st_output st))"
    and f: "\<And>f. r = Inr f \<Longrightarrow> tame env f"
  shows "\<exists>st'. process_item env st i r = (st', None) \<and> out_good (out_stream (st_output st')) \<and>
    finished (st_output st') = finished (st_output st)"
proof (cases r)
  case (Inl e)
  with good show ?thesis by (simp add: process_item_def)
next
  case (Inr f)
  have dev: "\<forall>file pending. snd (env_device env file pending)" using env by (simp add: good_environment_def)
  obtain h tr where h: "recordDecoded (st_health st) f = (h, tr)" by fastforce
  let ?st1 = "logTransition tr (st\<lparr>st_decoded := st_decoded st + 1, st_health := h\<rparr>)"
  obtain st2 where p: "processApplicationPayload env f ?st1 = (st2, None)"
    using tame_payload [OF env assms(3) [OF Inr], of ?st1] by (metis prod.collapse)
  obtain t where t: "output_write (env_device env) f (st_output st) = (t, None)" "out_good (out_stream t)"
    "finished t = finished (st_output st)"
    using works_output [OF dev good] by blast
  show ?thesis
    using Inr t payload_frame(1) [OF p] by (simp add: process_item_def process_decoded_def Let_def h p)
qed

lemma tame_items:
  assumes env: "good_environment env" and good: "out_good (out_stream (st_output st))" and fs: "\<forall>f \<in> set (accepted rs). tame env f"
  shows "\<exists>st'. process_all (process_item env) st i rs = (st', None) \<and> out_good (out_stream (st_output st')) \<and>
    finished (st_output st') = finished (st_output st)"
  using good fs
proof (induction rs arbitrary: st i)
  case (Cons r rs)
  have "\<And>f. r = Inr f \<Longrightarrow> tame env f" and rest: "\<forall>f \<in> set (accepted rs). tame env f" using Cons.prems(2) by (cases r; auto)+
  from tame_item [OF env Cons.prems(1) this(1), where i = i] obtain st1 where
    st1: "process_item env st i r = (st1, None)" "out_good (out_stream (st_output st1))"
      "finished (st_output st1) = finished (st_output st)" by blast
  from Cons.IH [OF st1(2) rest, of "i + 1"] st1 show ?case by auto
qed simp

section \<open>Sessions\<close>

lemma accepted_take: "set (accepted (take n rs)) \<subseteq> set (accepted rs)"
proof (induction rs arbitrary: n)
  case (Cons r rs)
  then show ?case by (cases n; cases r) auto
qed simp

lemma good_start:
  assumes "good_environment env" and "Station_start env can_open = Inr st0"
  shows "out_good (out_stream (st_output st0)) \<and> \<not> finished (st_output st0)"
  using assms works_put [of "env_device env"]
  by (auto simp: Station_start_def Let_def TelemetryOutput_ctor_def writeCsvHeader_def writeJsonHeader_def good_environment_def
      split: sum.splits if_splits)

lemma good_succeeds:
  assumes env: "good_environment env" and start: "Station_start env can_open = Inr st0"
    and fs: "\<forall>f \<in> set (accepted (map decoded frames)). tame env f"
  shows "\<exists>st2. succeeds (process_item env) (finish_station env) st0 frames st2"
proof -
  have dev: "\<forall>file pending. snd (env_device env file pending)" "env_flush env" using env by (simp_all add: good_environment_def)
  from good_start [OF env start] have st0: "out_good (out_stream (st_output st0))" "\<not> finished (st_output st0)" by simp_all
  obtain st1 where st1: "process_all (process_item env) st0 0 (map decoded frames) = (st1, None)"
    "out_good (out_stream (st_output st1))" "\<not> finished (st_output st1)"
    using tame_items [OF env st0(1) fs, of 0] st0(2) by auto
  obtain st2 where "finish_station env st1 = (st2, None)"
    using works_finish [OF dev(1) st1(2,3)] dev(2) by (auto simp: finish_station_def Let_def)
  with st1 show ?thesis by (auto simp: succeeds_def)
qed

text \<open>Every finished session on which the input did not fail is free of errors and has processed all frames submitted to
  it, also when it was stopped.\<close>

lemma session_succeeds:
  assumes env: "good_environment env" and start: "Station_start env can_open = Inr st0"
    and run: "stoppable (process_item env) (finish_station env) (station_pipeline env st0 frames) s"
    and all: "todo s = []"
    and len: "length frames < 2 ^ 64" and fs: "\<forall>f \<in> set (accepted (map decoded frames)). tame env f"
    and ended: "main_thread s = M_done r"
  obtains st where "r = None" "process_all (process_item env) st0 0 (map decoded frames) = (st, None)"
    "finish_station env st = (station s, None)"
proof -
  have w: "0 < decoder_threads (env_options env)" using env by (simp add: good_environment_def)
  have "\<exists>st2. succeeds (process_item env) (finish_station env) st0 (take n frames) st2" for n
    using fs accepted_take [of n "map decoded frames"] by (intro good_succeeds [OF env start]) (auto simp: take_map)
  from stoppable_done [OF run [unfolded station_pipeline_def] w len this all ended] show ?thesis using that by blast
qed

lemma sample_env_good: "good_environment sample_env"
  using sample_env_trig sample_env_simps(1) by (simp add: good_environment_def good_device_def) (simp add: sample_env_def)

text \<open>Frames without a signal are tame.\<close>

lemma opaque_tame: "decodeApplicationPayload (payload f) = Some Opaque_payload \<Longrightarrow> tame env f"
  by (simp add: tame_def)

lemma no_payload_tame: "payload f = [] \<Longrightarrow> tame env f"
proof (rule opaque_tame)
  assume "payload f = []"
  then show "decodeApplicationPayload (payload f) = Some Opaque_payload"
    unfolding decode_opaque_iff by (metis length_be32 list.size(3) take_Nil zero_neq_numeral)
qed

text \<open>A session with the sample options comes to its end and leaves no input.\<close>

lemma sample_session_ends:
  assumes len: "length frames < 2 ^ 64" and fs: "\<forall>f \<in> set (accepted (map decoded frames)). tame sample_env f"
  obtains st0 s r where "Station_start sample_env True = Inr st0"
    "stoppable (process_item sample_env) (finish_station sample_env) (station_pipeline sample_env st0 frames) s"
    "todo s = []" "main_thread s = M_done r"
proof -
  obtain st0 where start: "Station_start sample_env True = Inr st0" using sample_start by blast
  obtain s r where run: "undisturbed (process_item sample_env) (finish_station sample_env) (station_pipeline sample_env st0 frames) s"
    and s: "main_thread s = M_done r"
    unfolding station_pipeline_def using can_finish [OF pinv_start [OF sample_env_simps(1)] len] by metis
  obtain st2 where "succeeds (process_item sample_env) (finish_station sample_env) st0 frames st2"
    using good_succeeds [OF sample_env_good start fs] by blast
  from undisturbed_run [OF run [unfolded station_pipeline_def] sample_env_simps(1) len this] s
  have "todo s = []" by (simp add: inv_feed_def)
  from that [OF start undisturbed_stoppable [OF run] this s] show ?thesis .
qed

end
