(* ===== verification/Simulator_Correct.thy ===== *)
theory Simulator_Correct
  imports Simulator Station_Complete
begin

text \<open>
  The simulator with accepted options fails while it builds frames only when noise drives a sample out of the range
  of \<open>float\<close>, and what it transmits is what the ground station exports, the damaged frames rejected.
\<close>

section \<open>Random numbers\<close>

text \<open>What the distributions promise: values in the given range, indices of the given weights, and
  finite temperatures.\<close>

definition random_ok :: "('g, 'd) random_lib \<Rightarrow> bool" where
  "random_ok lib \<longleftrightarrow>
     (\<forall>lo hi g. lo \<le> hi \<longrightarrow> lo \<le> fst (uniform_int lib lo hi g) \<and> fst (uniform_int lib lo hi g) \<le> hi) \<and>
     (\<forall>ws g. ws \<noteq> [] \<longrightarrow> fst (discrete_draw lib ws g) < length ws) \<and>
     (\<forall>d g. isfinite (fst (normal_draw lib SimulationTemperatureMeanC SimulationTemperatureStddevC d g)))"

lemma random_draws:
  assumes "random_ok lib"
  shows "lo \<le> hi \<Longrightarrow> lo \<le> fst (uniform_int lib lo hi g) \<and> fst (uniform_int lib lo hi g) \<le> hi"
    "ws \<noteq> [] \<Longrightarrow> fst (discrete_draw lib ws g) < length ws"
    "isfinite (fst (normal_draw lib SimulationTemperatureMeanC SimulationTemperatureStddevC d g))"
  using assms by (simp_all add: random_ok_def)

text \<open>The noise values drawn for a block of \<open>n\<close> samples. Nothing is asked of them: they are unbounded in
  principle, and for a deviation of 0, the default, the standard does not even define them.\<close>

fun noise_draws :: "('g, 'd) random_lib \<Rightarrow> float32 \<Rightarrow> nat \<Rightarrow> 'd \<Rightarrow> 'g \<Rightarrow> float32 list" where
  "noise_draws lib stddev 0 d g = []"
| "noise_draws lib stddev (Suc n) d g =
     (let (v, d, g) = normal_draw lib 0 stddev d g in v # noise_draws lib stddev n d g)"

text \<open>The state of the engine when the payload of a frame is made: behind the draws of temperature and status.\<close>

definition payload_rng :: "('g, 'd) random_lib \<Rightarrow> 'g \<Rightarrow> 'g" where
  "payload_rng lib g =
     snd (randomStatus lib (snd (snd (normal_draw lib SimulationTemperatureMeanC SimulationTemperatureStddevC (normal_init lib) g))))"

text \<open>A noise value that keeps every sample within \<open>float\<close>.\<close>

definition noise_fits :: "SimOptions \<Rightarrow> float32 \<Rightarrow> bool" where
  "noise_fits o' v \<longleftrightarrow> isfinite v \<and> f32_value (signalAmplitude o') + \<bar>f32_value v\<bar> \<le> FloatMax"

section \<open>Signals\<close>

lemma negated_float: "isfinite w \<Longrightarrow> 0 \<le> f32_value w \<Longrightarrow> \<exists>v. isfinite v \<and> f32_value v = - f32_value w"
proof (cases "f32_negative w")
  case True
  assume "isfinite w" "0 \<le> f32_value w"
  moreover have "f32_value w \<le> 0" using True by (simp add: f32_value_def f32_scaled_def)
  ultimately show ?thesis by (intro exI [of _ w]) simp
next
  case False
  assume "isfinite w"
  with f32_pack_negative [OF False, of True] show ?thesis by auto
qed

lemma clean_sample_bounded:
  assumes amp: "isfinite (signalAmplitude o')" "0 \<le> f32_value (signalAmplitude o')"
    and lm: "trig_bounded lm" and phase: "Signal_Correct.d_finite (d_mul step (d_of_nat (unat k)))"
  shows "isfinite (double_to_f32 (clean_sample lm o' step k)) \<and>
    \<bar>f32_value (double_to_f32 (clean_sample lm o' step k))\<bar> \<le> f32_value (signalAmplitude o')"
proof -
  let ?A = "f32_value (signalAmplitude o')"
  have "d_in (- ?A) ?A (f32_to_double (signalAmplitude o'))" using amp by (simp add: f32_to_double_finite d_in_def)
  moreover have "d_repr ?A" using d_repr_multiple [OF amp(1), of 1] by simp
  ultimately have "d_in (- ?A) ?A (clean_sample lm o' step k)"
    unfolding clean_sample_def using trig_unit [OF lm phase] by (blast intro: d_in_mul_unit')
  then obtain q where q: "clean_sample lm o' step k = Fin q" "- ?A \<le> q" "q \<le> ?A" by (auto simp: d_in_def)
  obtain v where "isfinite v" "f32_value v = - ?A" using negated_float [OF amp] by blast
  with double_to_f32_between [OF _ amp(1), of v q] q show ?thesis by (simp add: abs_le_iff)
qed

lemma f32_add_finite:
  assumes "isfinite a" "isfinite b" "\<bar>f32_value a\<bar> + \<bar>f32_value b\<bar> \<le> FloatMax"
  shows "isfinite (f32_add a b)"
proof -
  have "\<bar>f32_value a + f32_value b\<bar> \<le> FloatMax" using assms(3) abs_triangle_ineq [of "f32_value a" "f32_value b"] by linarith
  with double_to_f32_between [OF float_max(3,1), of "f32_value a + f32_value b"] assms(1,2) show ?thesis
    by (simp add: f32_add_def float_max abs_le_iff)
qed

lemma phase_of_index:
  assumes "isfinite freq" "rate \<noteq> 0" "start < 2 ^ 32" "i < 2 ^ 32"
  shows "Signal_Correct.d_finite (d_mul (omega_of rate freq) (d_of_nat (unat (of_nat start + of_nat i :: u64))))"
proof -
  have "unat (of_nat start + of_nat i :: u64) = unat (of_nat start :: u32) + i"
    using assms(3,4) by (simp add: unat_of_nat flip: of_nat_add)
  with phase_finite [OF assms(1,2,4), of "of_nat start"] show ?thesis by (simp add: phase_at_def)
qed

lemma signal_samples_finite:
  assumes amp: "isfinite (signalAmplitude o')" "0 \<le> f32_value (signalAmplitude o')" and lm: "trig_bounded lm"
    and meta: "isfinite freq" "rate \<noteq> 0" and start: "start < 2 ^ 32" and i: "i + n < 2 ^ 32"
    and noise: "list_all (noise_fits o') (noise_draws lib (noiseStddev o') n d g)"
    and eq: "signal_samples lib lm o' (omega_of rate freq) (of_nat start) i n d g = (xs, g')"
  shows "length xs = n \<and> list_all isfinite xs"
  using i noise eq
proof (induction n arbitrary: i d g xs g')
  case (Suc n)
  obtain x d1 g1 where x: "normal_draw lib 0 (noiseStddev o') d g = (x, d1, g1)" by (cases "normal_draw lib 0 (noiseStddev o') d g")
  obtain ys where ys: "signal_samples lib lm o' (omega_of rate freq) (of_nat start) (i + 1) n d1 g1 = (ys, g')"
    and xs: "xs = f32_add (double_to_f32 (clean_sample lm o' (omega_of rate freq) (of_nat start + of_nat i))) x # ys"
    using Suc.prems(3) by (auto simp: x Let_def split: prod.splits)
  have fits: "noise_fits o' x" "list_all (noise_fits o') (noise_draws lib (noiseStddev o') n d1 g1)"
    using Suc.prems(2) by (simp_all add: x)
  then have "isfinite x" "f32_value (signalAmplitude o') + \<bar>f32_value x\<bar> \<le> FloatMax" by (simp_all add: noise_fits_def)
  moreover note clean_sample_bounded [OF amp lm phase_of_index [OF meta start, of i]]
  ultimately have "isfinite (f32_add (double_to_f32 (clean_sample lm o' (omega_of rate freq) (of_nat start + of_nat i))) x)"
    using Suc.prems(1) by (intro f32_add_finite) auto
  with Suc.IH [OF _ fits(2) ys] Suc.prems(1) xs show ?case by simp
qed simp

section \<open>Payloads\<close>

text \<open>What a payload of each mode means to the receiver.\<close>

definition payload_of_mode :: "SimOptions \<Rightarrow> nat \<Rightarrow> ByteVector \<Rightarrow> bool" where
  "payload_of_mode o' i pl \<longleftrightarrow> (case payloadMode o' of
      Mode_RandomBytes \<Rightarrow> length pl = payloadSize o'
    | Mode_TextMessage \<Rightarrow>
        decodeApplicationPayload pl = Some (Text_payload \<lparr>sequence = of_nat i, message_text = sim_message o'\<rparr>)
    | Mode_Signal \<Rightarrow> \<exists>xs. length xs = signalSamples o' \<and>
        decodeApplicationPayload pl = Some (Signal_payload
          \<lparr>sampleRateHz = sim_sampleRateHz o', frequencyHz = signalFrequencyHz o', nominalAmplitude = signalAmplitude o',
           startSampleIndex = of_nat (i * signalSamples o'), samples = xs\<rparr>))"

lemma length_random_bytes: "length (fst (random_bytes lib n g)) = n"
  by (induction n arbitrary: g) (simp_all add: Let_def case_prod_unfold)

lemma signal_start:
  assumes "sim_values_ok o'" "payload_ready o'" "payloadMode o' = Mode_Signal" "i < sim_count o'"
  shows "i * signalSamples o' < 2 ^ 32"
proof -
  have "i \<le> sim_count o' - 1" using assms(4) by simp
  then have "i * signalSamples o' \<le> (sim_count o' - 1) * signalSamples o'" by (rule mult_le_mono1)
  also have "\<dots> < 2 ^ 32" using assms(2,3) by (simp add: payload_ready_def)
  finally show ?thesis .
qed

lemma signal_samples_length:
  "length (fst (signal_samples lib lm o' step start i n d g)) = n"
  by (induction n arbitrary: i d g) (simp_all add: Let_def case_prod_unfold)

lemma makeSignalPayload_cases:
  assumes ok: "sim_values_ok o'" "payload_ready o'" "payloadMode o' = Mode_Signal" "i < sim_count o'"
    and lm: "trig_bounded lm"
  obtains (made) pl g' where "makeSignalPayload lib lm o' i g = Inr (pl, g')" "length pl \<le> MaxPayloadSize" "payload_of_mode o' i pl"
  | (overflow) "makeSignalPayload lib lm o' i g = Inl (invalid_argument ''signal samples must all be finite'')"
      "\<not> list_all (noise_fits o') (noise_draws lib (noiseStddev o') (signalSamples o') (normal_init lib) g)"
proof -
  let ?n = "signalSamples o'" and ?start = "i * signalSamples o'"
  note start = signal_start [OF ok]
  have n: "?n \<le> 1018" using ok(1) by (simp add: sim_values_ok_def wire_simps)
  have valid: "validSignalMetadata (sim_sampleRateHz o') (signalFrequencyHz o') (signalAmplitude o')"
    using ok(2,3) by (simp add: payload_ready_def)
  then have amp: "isfinite (signalAmplitude o')" "0 \<le> f32_value (signalAmplitude o')"
    and meta: "isfinite (signalFrequencyHz o')" "sim_sampleRateHz o' \<noteq> 0"
    by (auto simp: validSignalMetadata_def f32_ge_def f32_value_def Let_def split: if_splits)
  obtain xs g' where xs: "signal_samples lib lm o' (omega_of (sim_sampleRateHz o') (signalFrequencyHz o')) (of_nat ?start) 0 ?n
      (normal_init lib) g = (xs, g')" by fastforce
  have len: "length xs = ?n" using signal_samples_length [of lib lm o' _ "of_nat ?start" 0 ?n "normal_init lib" g] by (metis xs fst_conv)
  define s where "s = \<lparr>sampleRateHz = sim_sampleRateHz o', frequencyHz = signalFrequencyHz o',
    nominalAmplitude = signalAmplitude o', startSampleIndex = of_nat ?start, samples = xs\<rparr>"
  have u: "unat (of_nat ?start :: u64) = ?start" using start by (simp add: unat_of_nat del: of_nat_mult)
  then have "\<not> (of_nat ?start :: u64) > 0xFFFFFFFF" "ucast (of_nat ?start :: u64) = (of_nat ?start :: u32)"
    using start by (simp_all add: word_less_nat_alt unsigned_of_nat take_bit_nat_eq_self del: of_nat_mult)
  then have run: "makeSignalPayload lib lm o' i g = bind_r (encodeSignalBlockPayload s) (\<lambda>pl. Inr (pl, g'))"
    using xs by (simp add: makeSignalPayload_def Let_def s_def flip: of_nat_mult)
  show ?thesis
  proof (cases "list_all isfinite xs")
    case True
    have enc: "encodeSignalBlockPayload s = Inr (signal_bytes s)"
      unfolding encodeSignal_eq using valid True len n by (simp add: signal_valid_def s_def)
    have "payload_of_mode o' i (signal_bytes s)"
      unfolding payload_of_mode_def ok(3) PayloadMode.case
      using valid True len n by (intro exI [of _ xs]) (simp add: decode_signal_iff s_def del: of_nat_mult)
    then show ?thesis using made run enc len n by (auto simp: bind_r_def length_signal_bytes s_def wire_simps)
  next
    case False
    then have "encodeSignalBlockPayload s = Inl (invalid_argument ''signal samples must all be finite'')"
      using valid len n by (auto simp: encodeSignalBlockPayload_def s_def wire_simps list_all_iff list_ex_iff)
    moreover have "\<not> list_all (noise_fits o') (noise_draws lib (noiseStddev o') ?n (normal_init lib) g)"
      using signal_samples_finite [OF amp lm meta start _ _ xs] False n by fastforce
    ultimately show ?thesis using overflow run by (simp add: bind_r_def)
  qed
qed

section \<open>Frames\<close>

lemma battery_bounds: "(of_nat (unat MaxBatteryPercent - i mod SimulationBatteryCycleLength) :: u8) \<le> MaxBatteryPercent"
proof -
  have "unat MaxBatteryPercent - i mod SimulationBatteryCycleLength \<le> 100" by (simp add: wire_simps MaxBatteryPercent_def)
  then show ?thesis by (simp add: word_le_nat_alt unat_of_nat MaxBatteryPercent_def)
qed

text \<open>A payload of any mode: it is made, or the noise of a signal does not fit.\<close>

definition noise_overflows :: "('g, 'd) random_lib \<Rightarrow> SimOptions \<Rightarrow> 'g \<Rightarrow> bool" where
  "noise_overflows lib o' g \<longleftrightarrow> payloadMode o' = Mode_Signal \<and>
     \<not> list_all (noise_fits o') (noise_draws lib (noiseStddev o') (signalSamples o') (normal_init lib) g)"

lemma makePayload_cases:
  assumes ok: "sim_values_ok o'" "payload_ready o'" "i < sim_count o'" and lm: "trig_bounded lm"
  obtains (made) pl g' where "makePayload lib lm o' i g = Inr (pl, g')" "length pl \<le> MaxPayloadSize" "payload_of_mode o' i pl"
  | (overflow) "makePayload lib lm o' i g = Inl (invalid_argument ''signal samples must all be finite'')" "noise_overflows lib o' g"
proof (cases "payloadMode o'")
  case Mode_RandomBytes
  obtain pl g' where pl: "random_bytes lib (payloadSize o') g = (pl, g')" by fastforce
  then have "length pl = payloadSize o'" using length_random_bytes [of lib "payloadSize o'" g] by simp
  with Mode_RandomBytes pl ok(1) made show ?thesis
    by (simp add: makePayload_def makeRandomPayload_def payload_of_mode_def sim_values_ok_def)
next
  case Mode_TextMessage
  let ?m = "\<lparr>sequence = of_nat i, message_text = sim_message o'\<rparr> :: TextMessagePayload"
  have "length (sim_message o') \<le> 4086" using ok(2) Mode_TextMessage by (simp add: payload_ready_def wire_simps)
  then have "encodeTextMessagePayload ?m = Inr (text_bytes ?m)" "length (text_bytes ?m) \<le> MaxPayloadSize"
    by (simp_all add: encodeText_eq length_text_bytes wire_simps)
  moreover have "decodeApplicationPayload (text_bytes ?m) = Some (Text_payload ?m)" by (simp add: decode_text_iff)
  ultimately show ?thesis using Mode_TextMessage made by (simp add: makePayload_def bind_r_def payload_of_mode_def)
next
  case Mode_Signal
  show ?thesis
    by (rule makeSignalPayload_cases [OF ok(1,2) Mode_Signal ok(3) lm, of lib g])
      (use Mode_Signal made overflow in \<open>simp_all add: makePayload_def noise_overflows_def\<close>)
qed

lemma makeFrame_cases:
  assumes ok: "sim_values_ok o'" "payload_ready o'" "i < sim_count o'" and lm: "trig_bounded lm" and lib: "random_ok lib"
  obtains (made) f g' where "makeFrame lib lm clock o' i g = Inr (f, g')" "frame_valid f" "satelliteId f = sim_satelliteId o'"
      "timestampMs f = clock i" "payload_of_mode o' i (payload f)"
  | (overflow) "makeFrame lib lm clock o' i g = Inl (invalid_argument ''signal samples must all be finite'')"
      "noise_overflows lib o' (payload_rng lib g)"
proof -
  obtain t d g1 where t: "normal_draw lib SimulationTemperatureMeanC SimulationTemperatureStddevC (normal_init lib) g = (t, d, g1)"
    by (cases "normal_draw lib SimulationTemperatureMeanC SimulationTemperatureStddevC (normal_init lib) g")
  obtain k g2 where k: "discrete_draw lib SimulationStatusWeights g1 = (k, g2)" by fastforce
  have g2: "payload_rng lib g = g2" by (simp add: payload_rng_def t randomStatus_def k)
  have "isfinite t" using random_draws(3) [OF lib, of "normal_init lib" g] t by simp
  moreover have "fst (discrete_draw lib SimulationStatusWeights g1) < length SimulationStatusWeights"
    by (rule random_draws(2) [OF lib]) (simp add: SimulationStatusWeights_def)
  then have "k < 4" by (simp add: k) (simp add: SimulationStatusWeights_def)
  then have st: "(of_nat k :: u8) \<le> Status_SafeMode" by (simp add: word_le_nat_alt unat_of_nat Status_SafeMode_def)
  consider (made) pl g3 where "makePayload lib lm o' i g2 = Inr (pl, g3)" "length pl \<le> MaxPayloadSize" "payload_of_mode o' i pl"
    | (overflow) "makePayload lib lm o' i g2 = Inl (invalid_argument ''signal samples must all be finite'')" "noise_overflows lib o' g2"
    by (rule makePayload_cases [OF ok lm])
  then show ?thesis
  proof cases
    case (made pl g3)
    with that(1) \<open>isfinite t\<close> st battery_bounds [of i] show ?thesis
      by (simp add: makeFrame_def t Let_def randomStatus_def k bind_r_def frame_valid_def)
  next
    case overflow
    with that(2) g2 show ?thesis by (simp add: makeFrame_def t Let_def randomStatus_def k bind_r_def)
  qed
qed

section \<open>Damage\<close>

lemma xor_mask_changes: "xor x CorruptionXorMask \<noteq> (x :: u8)"
proof
  assume "xor x CorruptionXorMask = x"
  then have "xor x (xor x CorruptionXorMask) = xor x x" by simp
  then show False by (simp add: CorruptionXorMask_def)
qed

lemma maybeCorrupt_damages:
  assumes "random_ok lib" "frame_valid f" "maybeCorrupt lib (frame_bytes f) g = (bs, g')"
  shows "(\<exists>e. decodeFrame bs = Some (Inl e)) \<and> length bs = length (frame_bytes f)"
proof -
  let ?bs = "frame_bytes f"
  have ne: "?bs \<noteq> []" using length_frame_bytes [of f] by auto
  obtain i where i: "fst (uniform_int lib 0 (length ?bs - 1) g) = i" by blast
  with random_draws(1) [OF assms(1), of 0 "length ?bs - 1" g] ne have "i < length ?bs"
    by (cases ?bs) auto
  moreover have "bs = ?bs[i := xor (?bs ! i) CorruptionXorMask]"
    using assms(3) ne i by (auto simp: maybeCorrupt_def Let_def split: prod.splits)
  ultimately show ?thesis using decode_single_corruption [OF assms(2) _ xor_mask_changes] by simp
qed

section \<open>What is transmitted\<close>

text \<open>The run without its effects: the frames that are made, each with the bytes that are
  transmitted for it, if any.\<close>

fun sim_events ::
    "('g, 'd) random_lib \<Rightarrow> libm \<Rightarrow> (nat \<Rightarrow> u64) \<Rightarrow> SimOptions \<Rightarrow> nat \<Rightarrow> nat \<Rightarrow> 'g \<Rightarrow> (TelemetryFrame \<times> ByteVector option) list" where
  "sim_events lib lm clock o' i 0 g = []"
| "sim_events lib lm clock o' i (Suc n) g =
     (case makeFrame lib lm clock o' i g of
        Inl e \<Rightarrow> []
      | Inr (f, g) \<Rightarrow>
          (let (p, g) = uniform_real lib (Fin 0) (Fin 1) g
           in if d_less p (lossProbability o') then (f, None) # sim_events lib lm clock o' (i + 1) n g
              else let (q, g) = uniform_real lib (Fin 0) (Fin 1) g;
                       (bs, g) = (if d_less q (corruptProbability o') then maybeCorrupt lib (frame_bytes f) g
                                  else (frame_bytes f, g))
                   in (f, Some bs) # sim_events lib lm clock o' (i + 1) n g))"

definition transmitted :: "(TelemetryFrame \<times> ByteVector option) list \<Rightarrow> ByteVector list" where
  "transmitted evs = List.map_filter snd evs"

definition intact :: "(TelemetryFrame \<times> ByteVector option) list \<Rightarrow> TelemetryFrame list" where
  "intact evs = map fst (filter (\<lambda>(f, b). b = Some (frame_bytes f)) evs)"

lemma transmitted_simps [simp]:
  "transmitted [] = []" "transmitted ((f, None) # evs) = transmitted evs" "transmitted ((f, Some bs) # evs) = bs # transmitted evs"
  by (simp_all add: transmitted_def List.map_filter_simps)

lemma intact_simps [simp]:
  "intact [] = []" "intact ((f, b) # evs) = (if b = Some (frame_bytes f) then f # intact evs else intact evs)"
  by (simp_all add: intact_def)

text \<open>The output of a state and what a transmission adds to it.\<close>

definition capture_adds :: "'g sim_state \<Rightarrow> ByteVector list \<Rightarrow> 'g sim_state \<Rightarrow> bool" where
  "capture_adds st bss st' \<longleftrightarrow> (case sim_capture st of None \<Rightarrow> sim_capture st' = None
     | Some out \<Rightarrow> \<exists>out'. sim_capture st' = Some out' \<and> stream_bytes out' = stream_bytes out @ concat (map entry bss) \<and>
         list_all frame_size_ok bss)"

definition socket_adds :: "SimOptions \<Rightarrow> 'g sim_state \<Rightarrow> ByteVector list \<Rightarrow> 'g sim_state \<Rightarrow> bool" where
  "socket_adds o' st bss st' \<longleftrightarrow> (case sim_out st of None \<Rightarrow> sim_out st' = None
     | Some s \<Rightarrow> \<exists>s'. sim_out st' = Some s' \<and>
         (if sim_transport o' = Some Udp then datagrams s' = datagrams s @ bss
          else stream_out s' = stream_out s @ concat bss))"

lemma send_loop_wire: "send_loop bs as wire = Some (as', wire', r) \<Longrightarrow>
    (\<exists>k. wire' = wire @ take k bs) \<and> (r = Inr () \<longrightarrow> wire' = wire @ bs)"
proof (induction bs as wire rule: send_loop.induct)
  case (5 b bs n as wire)
  show ?case
  proof (cases "n = 0")
    case True
    with 5 show ?thesis by (auto intro: exI [of _ 0])
  next
    case False
    with 5 obtain k where "wire' = wire @ take n (b # bs) @ take k (drop n (b # bs))"
      "r = Inr () \<longrightarrow> wire' = wire @ take n (b # bs) @ drop n (b # bs)" by (auto simp del: take_Cons drop_Cons)
    then show ?thesis by (metis append_take_drop_id take_add)
  qed
qed (auto intro: exI [of _ 0])

lemma sendAll_ok: "sendAll s bs = Some (s', Inr u) \<Longrightarrow> stream_out s' = stream_out s @ bs"
  by (auto simp: sendAll_def dest: send_loop_wire)

lemma sendUdpFrame_ok: "sendUdpFrame s bs = Some (s', Inr u) \<Longrightarrow> datagrams s' = datagrams s @ [bs]"
  by (auto simp: sendUdpFrame_def split: list.splits send_answer.splits if_splits)

lemma transmit_adds:
  assumes "transmit o' bs st = Some (st', None)"
  shows "socket_adds o' st [bs] st' \<and> sim_capture st' = sim_capture st \<and> rng st' = rng st \<and>
   produced st' = produced st \<and> dropped st' = dropped st \<and> corrupted st' = corrupted st"
proof (cases "sim_out st")
  case None
  with assms show ?thesis by (simp add: transmit_def socket_adds_def)
next
  case (Some s)
  with assms obtain s' r where s': "(if sim_transport o' = Some Udp then sendUdpFrame s bs else sendAll s bs) = Some (s', r)"
    and st': "st' = st\<lparr>sim_out := Some s'\<rparr>" and "(case r of Inl e \<Rightarrow> Some e | Inr _ \<Rightarrow> None) = None"
    by (auto simp: transmit_def simp del: if_split)
  then obtain u where "r = Inr u" by (cases r) auto
  with s' have "if sim_transport o' = Some Udp then datagrams s' = datagrams s @ [bs] else stream_out s' = stream_out s @ bs"
    using sendAll_ok sendUdpFrame_ok by (auto split: if_splits)
  with Some st' show ?thesis by (simp add: socket_adds_def)
qed

lemma record_adds:
  "record_frame dev bs st = (st', None) \<Longrightarrow>
   capture_adds st [bs] st' \<and> sim_out st' = sim_out st \<and> rng st' = rng st \<and>
   produced st' = produced st \<and> dropped st' = dropped st \<and> corrupted st' = corrupted st"
  by (auto simp: record_frame_def capture_adds_def Let_def split: option.splits prod.splits sum.splits dest!: writeFrame_okD)

section \<open>The loop\<close>

lemma transmitted_append: "transmitted (evs @ evs') = transmitted evs @ transmitted evs'"
  by (simp add: transmitted_def List.map_filter_def)

lemma intact_append: "intact (evs @ evs') = intact evs @ intact evs'"
  by (simp add: intact_def)

text \<open>A frame that is transmitted arrives as it was made, or is rejected.\<close>

definition event_ok :: "TelemetryFrame \<times> ByteVector option \<Rightarrow> bool" where
  "event_ok ev \<longleftrightarrow> frame_valid (fst ev) \<and>
     (\<forall>bs. snd ev = Some bs \<longrightarrow> bs = frame_bytes (fst ev) \<or> (\<exists>e. decodeFrame bs = Some (Inl e)))"

text \<open>How a sequence of events changes the state.\<close>

definition sim_effect :: "SimOptions \<Rightarrow> 'g sim_state \<Rightarrow> (TelemetryFrame \<times> ByteVector option) list \<Rightarrow> 'g sim_state \<Rightarrow> bool" where
  "sim_effect o' st evs st' \<longleftrightarrow>
     produced st' = produced st + length (transmitted evs) \<and>
     dropped st' + length (transmitted evs) = dropped st + length evs \<and>
     corrupted st' + length (intact evs) = corrupted st + length (transmitted evs) \<and>
     capture_adds st (transmitted evs) st' \<and> socket_adds o' st (transmitted evs) st' \<and> list_all event_ok evs"

lemma sim_effect_refl: "sim_effect o' st [] st"
  by (auto simp: sim_effect_def capture_adds_def socket_adds_def split: option.split)

lemma capture_adds_trans: "capture_adds st bss st' \<Longrightarrow> capture_adds st' bss' st'' \<Longrightarrow> capture_adds st (bss @ bss') st''"
  by (auto simp: capture_adds_def split: option.splits)

lemma socket_adds_trans: "socket_adds o' st bss st' \<Longrightarrow> socket_adds o' st' bss' st'' \<Longrightarrow> socket_adds o' st (bss @ bss') st''"
  by (auto simp: socket_adds_def split: option.splits if_splits)

lemma sim_effect_trans: "sim_effect o' st evs st' \<Longrightarrow> sim_effect o' st' evs' st'' \<Longrightarrow> sim_effect o' st (evs @ evs') st''"
  unfolding sim_effect_def transmitted_append intact_append
  by (auto intro: capture_adds_trans socket_adds_trans)

lemma damaged_event:
  assumes "random_ok lib" "frame_valid f"
    and "(if dmg then maybeCorrupt lib (frame_bytes f) g else (frame_bytes f, g)) = (bs, g')"
  shows "event_ok (f, Some bs)" "bs = frame_bytes f \<longleftrightarrow> \<not> dmg"
proof -
  show "bs = frame_bytes f \<longleftrightarrow> \<not> dmg"
    using assms maybeCorrupt_damages [OF assms(1,2), of g bs g'] decode_encode [OF assms(2)] by (auto split: if_splits)
  with assms maybeCorrupt_damages [OF assms(1,2), of g bs g'] show "event_ok (f, Some bs)"
    by (auto simp: event_ok_def split: if_splits)
qed

text \<open>The part of a turn behind the decision to transmit.\<close>

lemma deliver_effect:
  assumes t: "transmit o' bs (st\<lparr>rng := g, corrupted := corrupted st + (if dmg then 1 else 0)\<rparr>) = Some (st1, None)"
    and r: "record_frame dev bs st1 = (st2, None)"
    and ev: "event_ok (f, Some bs)" "bs = frame_bytes f \<longleftrightarrow> \<not> dmg"
  shows "sim_effect o' st [(f, Some bs)] (st2\<lparr>produced := produced st2 + 1\<rparr>) \<and> rng st2 = g"
proof -
  note t' = transmit_adds [OF t] and r' = record_adds [OF r]
  have "capture_adds st [bs] (st2\<lparr>produced := produced st2 + 1\<rparr>)" using t' r' by (auto simp: capture_adds_def split: option.splits)
  moreover have "socket_adds o' st [bs] (st2\<lparr>produced := produced st2 + 1\<rparr>)" using t' r' by (auto simp: socket_adds_def split: option.splits)
  ultimately show ?thesis using t' r' ev by (simp add: sim_effect_def)
qed

lemma sim_step_effect:
  assumes lib: "random_ok (sim_random env)" and step: "sim_step env o' i st = Some (st', None)"
  shows "\<exists>ev. sim_effect o' st [ev] st' \<and> (\<forall>n. sim_events (sim_random env) (sim_libm env) (sim_clock env) o' i (Suc n) (rng st) =
    ev # sim_events (sim_random env) (sim_libm env) (sim_clock env) o' (i + 1) n (rng st'))"
proof -
  let ?lib = "sim_random env"
  from step obtain f g bytes where f: "makeFrame ?lib (sim_libm env) (sim_clock env) o' i (rng st) = Inr (f, g)"
    and enc: "encodeFrame f = Inr bytes" unfolding sim_step_def by (auto split: sum.split_asm prod.split_asm)
  have valid: "frame_valid f" and bytes: "bytes = frame_bytes f" using enc by (simp_all add: encodeFrame_eq)
  obtain p g1 where p: "uniform_real ?lib (Fin 0) (Fin 1) g = (p, g1)" by fastforce
  show ?thesis
  proof (cases "d_less p (lossProbability o')")
    case True
    then have "st' = st\<lparr>rng := g1, dropped := dropped st + 1\<rparr>" using step f enc p by (simp add: sim_step_def)
    then have "sim_effect o' st [(f, None)] st'" using valid
      by (auto simp: sim_effect_def capture_adds_def socket_adds_def event_ok_def split: option.split)
    with True f p \<open>st' = _\<close> show ?thesis by (intro exI [of _ "(f, None)"]) simp
  next
    case False
    obtain q g2 where q: "uniform_real ?lib (Fin 0) (Fin 1) g1 = (q, g2)" by fastforce
    let ?dmg = "d_less q (corruptProbability o')"
    obtain bs g3 where bs: "(if ?dmg then maybeCorrupt ?lib (frame_bytes f) g2 else (frame_bytes f, g2)) = (bs, g3)" by fastforce
    from step False f enc p q bs obtain st1 st2
      where t: "transmit o' bs (st\<lparr>rng := g3, corrupted := corrupted st + (if ?dmg then 1 else 0)\<rparr>) = Some (st1, None)"
        and r: "record_frame (capture_device env) bs st1 = (st2, None)" and st': "st' = st2\<lparr>produced := produced st2 + 1\<rparr>"
      unfolding sim_step_def bytes
      by (auto simp del: if_split split: option.split_asm prod.split_asm)
    from deliver_effect [OF t r damaged_event [OF lib valid bs]] have "sim_effect o' st [(f, Some bs)] st'" "rng st' = g3"
      by (simp_all add: st')
    moreover have "sim_events ?lib (sim_libm env) (sim_clock env) o' i (Suc n) (rng st) =
        (f, Some bs) # sim_events ?lib (sim_libm env) (sim_clock env) o' (i + 1) n g3" for n
      using False f p q bs by (simp del: if_split)
    ultimately show ?thesis by (intro exI [of _ "(f, Some bs)"]) (simp del: sim_events.simps)
  qed
qed

lemma sim_loop_effect:
  assumes "random_ok (sim_random env)" "sim_loop env o' i n st = Some (st', None)"
  shows "sim_effect o' st (sim_events (sim_random env) (sim_libm env) (sim_clock env) o' i n (rng st)) st' \<and>
    length (sim_events (sim_random env) (sim_libm env) (sim_clock env) o' i n (rng st)) = n"
  using assms(2)
proof (induction n arbitrary: i st)
  case 0
  then show ?case by (simp add: sim_effect_refl)
next
  case (Suc n)
  then obtain st1 where st1: "sim_step env o' i st = Some (st1, None)" "sim_loop env o' (i + 1) n st1 = Some (st', None)"
    by (auto split: option.split_asm prod.split_asm)
  obtain ev where ev: "sim_effect o' st [ev] st1"
    "sim_events (sim_random env) (sim_libm env) (sim_clock env) o' i (Suc n) (rng st) =
     ev # sim_events (sim_random env) (sim_libm env) (sim_clock env) o' (i + 1) n (rng st1)"
    using sim_step_effect [OF assms(1) st1(1)] by blast
  from sim_effect_trans [OF ev(1)] Suc.IH [OF st1(2)] show ?case unfolding ev(2) by simp
qed

section \<open>The run\<close>

text \<open>The port plays no part in the frames.\<close>

lemma clean_sample_port: "clean_sample lm (o'\<lparr>sim_port := p\<rparr>) = clean_sample lm o'"
  by (simp add: clean_sample_def fun_eq_iff)

lemma signal_samples_port:
  "signal_samples lib lm (o'\<lparr>sim_port := p\<rparr>) step start i n d g = signal_samples lib lm o' step start i n d g"
  by (induction n arbitrary: i d g) (simp_all add: clean_sample_port Let_def case_prod_unfold)

lemma makePayload_port: "makePayload lib lm (o'\<lparr>sim_port := p\<rparr>) i g = makePayload lib lm o' i g"
  by (cases "payloadMode o'") (simp_all add: makePayload_def makeRandomPayload_def makeSignalPayload_def signal_samples_port Let_def)

lemma makeFrame_port: "makeFrame lib lm clock (o'\<lparr>sim_port := p\<rparr>) = makeFrame lib lm clock o'"
  by (simp add: fun_eq_iff makeFrame_def makePayload_port)

lemma sim_events_port:
  "sim_events lib lm clock (o'\<lparr>sim_port := p\<rparr>) i n g = sim_events lib lm clock o' i n g"
proof (induction n arbitrary: i g)
  case (Suc n)
  then show ?case by (simp add: makeFrame_port Let_def case_prod_unfold split: sum.split)
qed simp

lemma discoverPort_port: "discoverPort scan o' = Inr o'' \<Longrightarrow> o'' = o' \<or> (\<exists>p. o'' = o'\<lparr>sim_port := p\<rparr>)"
  by (auto simp: discoverPort_def bind_r_def split: option.splits sum.splits)

definition run_events :: "('g, 'd) sim_env \<Rightarrow> SimOptions \<Rightarrow> (TelemetryFrame \<times> ByteVector option) list" where
  "run_events env o' = sim_events (sim_random env) (sim_libm env) (sim_clock env) o' 0 (sim_count o')
     (mt_seed (sim_random env) (sim_seed o'))"

lemma finish_capture_ok:
  "finish_capture env st = (st', None) \<Longrightarrow>
   produced st' = produced st \<and> dropped st' = dropped st \<and> corrupted st' = corrupted st \<and> sim_out st' = sim_out st \<and>
   map_option out_file (sim_capture st') = map_option stream_bytes (sim_capture st)"
  by (auto simp: finish_capture_def flush_def Let_def dest: ostream_flush_goodD split: option.splits sum.splits if_splits)

lemma open_capture_ok:
  "open_capture env o' = Inr capt \<Longrightarrow> map_option stream_bytes capt = map_option (\<lambda>_. FileHeader) (sim_outputFile o')"
  by (auto simp: open_capture_def bind_r_def split: option.splits sum.splits dest: ctor_okD)

lemma sim_run_started:
  assumes "sim_run env o0 = Some (Inr st)"
  obtains o' capt sock st1 where "o' = o0 \<or> (\<exists>p. o' = o0\<lparr>sim_port := p\<rparr>)" "open_capture env o' = Inr capt"
    "open_socket env o' = Inr sock"
    "sim_loop env o' 0 (sim_count o') \<lparr>rng = mt_seed (sim_random env) (sim_seed o'), produced = 0, dropped = 0, corrupted = 0,
       sim_out = sock, sim_capture = capt\<rparr> = Some (st1, None)"
    "finish_capture env st1 = (st, None)"
proof -
  from assms obtain o' where o': "discoverPort (sim_scan env) o0 = Inr o'" by (auto simp: sim_run_def split: sum.split_asm)
  moreover from assms o' obtain capt where capt: "open_capture env o' = Inr capt"
    by (auto simp: sim_run_def split: sum.split_asm)
  moreover from assms o' capt obtain sock where sock: "open_socket env o' = Inr sock"
    by (auto simp: sim_run_def split: sum.split_asm)
  moreover let ?st0 = "\<lparr>rng = mt_seed (sim_random env) (sim_seed o'), produced = 0, dropped = 0, corrupted = 0,
       sim_out = sock, sim_capture = capt\<rparr>"
  from assms o' capt sock obtain st1 where st1: "sim_loop env o' 0 (sim_count o') ?st0 = Some (st1, None)"
    by (auto simp: sim_run_def split: option.split_asm prod.split_asm)
  moreover from assms o' capt sock st1 have "finish_capture env st1 = (st, None)"
    by (auto simp: sim_run_def split: option.split_asm prod.split_asm)
  ultimately show ?thesis using that discoverPort_port [OF o'] by blast
qed

lemma sim_run_effect:
  assumes lib: "random_ok (sim_random env)" and run: "sim_run env o' = Some (Inr st)"
  shows "length (run_events env o') = sim_count o'" "list_all event_ok (run_events env o')"
    "produced st = length (transmitted (run_events env o'))" "dropped st + produced st = sim_count o'"
    "corrupted st + length (intact (run_events env o')) = produced st"
    "sim_outputFile o' \<noteq> None \<Longrightarrow> \<exists>out. sim_capture st = Some out \<and>
       read_file (out_file out) = Some (transmitted (run_events env o'), Inr ())"
    "sim_transport o' = Some Udp \<Longrightarrow> \<exists>s. sim_out st = Some s \<and> datagrams s = transmitted (run_events env o')"
    "sim_transport o' = Some Tcp \<Longrightarrow> \<exists>s. sim_out st = Some s \<and> stream_out s = concat (transmitted (run_events env o'))"
proof -
  from run obtain p capt sock st1 where p: "p = o' \<or> (\<exists>q. p = o'\<lparr>sim_port := q\<rparr>)" and capt: "open_capture env p = Inr capt"
    and sock: "open_socket env p = Inr sock"
    and loop: "sim_loop env p 0 (sim_count p) \<lparr>rng = mt_seed (sim_random env) (sim_seed p), produced = 0, dropped = 0,
       corrupted = 0, sim_out = sock, sim_capture = capt\<rparr> = Some (st1, None)"
    and fin: "finish_capture env st1 = (st, None)" by (rule sim_run_started)
  have same: "sim_transport p = sim_transport o'" "sim_outputFile p = sim_outputFile o'" "sim_count p = sim_count o'"
    "sim_seed p = sim_seed o'" "\<And>lib lm clock i n g. sim_events lib lm clock p i n g = sim_events lib lm clock o' i n g"
    using p by (auto simp: sim_events_port)
  let ?evs = "run_events env o'"
  note eff = sim_loop_effect [OF lib loop, unfolded same sim_state.simps, folded run_events_def]
  note f = finish_capture_ok [OF fin]
  show "length ?evs = sim_count o'" using eff by simp
  from eff f show "list_all event_ok ?evs" "produced st = length (transmitted ?evs)" "dropped st + produced st = sim_count o'"
    "corrupted st + length (intact ?evs) = produced st" by (simp_all add: sim_effect_def)
  show "\<exists>out. sim_capture st = Some out \<and> read_file (out_file out) = Some (transmitted ?evs, Inr ())" if "sim_outputFile o' \<noteq> None"
    using that open_capture_ok [OF capt] eff f
    by (auto simp: sim_effect_def capture_adds_def same read_file_iff Replay.capture_def split: option.splits)
  show "\<exists>s. sim_out st = Some s \<and> datagrams s = transmitted ?evs" if "sim_transport o' = Some Udp"
    using that sock eff f by (auto simp: sim_effect_def socket_adds_def same open_socket_def split: option.splits)
  show "\<exists>s. sim_out st = Some s \<and> stream_out s = concat (transmitted ?evs)" if "sim_transport o' = Some Tcp"
    using that sock eff f by (auto simp: sim_effect_def socket_adds_def same open_socket_def split: option.splits)
qed

lemma accepted_intact: "list_all event_ok evs \<Longrightarrow> accepted (map decoded (transmitted evs)) = intact evs"
proof (induction evs)
  case (Cons ev evs)
  obtain f b where ev: "ev = (f, b)" by fastforce
  show ?case
  proof (cases b)
    case None
    with Cons ev show ?thesis by simp
  next
    case (Some bs)
    with Cons.prems ev have "frame_valid f" "bs = frame_bytes f \<or> (\<exists>e. decodeFrame bs = Some (Inl e))"
      by (simp_all add: event_ok_def)
    moreover have "decodeFrame (frame_bytes f) = Some (Inr f)" using decode_encode calculation(1) .
    ultimately show ?thesis using Cons ev Some by (auto simp: decoded_def)
  qed
qed simp

lemma accepted_mem: "Inr f \<in> set rs \<Longrightarrow> f \<in> set (accepted rs)"
  by (induction rs rule: accepted.induct) auto

text \<open>An undamaged TCP stream is cut into the frames that were sent, whatever the segmentation.\<close>

lemma intact_encoded:
  assumes "list_all event_ok evs" "length (intact evs) = length (transmitted evs)"
  shows "list_all2 (\<lambda>f bs. encodeFrame f = Inr bs) (intact evs) (transmitted evs)"
  using assms
proof (induction evs)
  case (Cons ev evs)
  have le: "length (intact evs) \<le> length (transmitted evs)" for evs :: "(TelemetryFrame \<times> ByteVector option) list"
    by (induction evs) (auto simp: transmitted_def List.map_filter_simps split: option.split)
  obtain f b where ev: "ev = (f, b)" by fastforce
  show ?case
  proof (cases b)
    case (Some bs)
    with Cons.prems(2) ev le [of evs] have "bs = frame_bytes f" by (auto split: if_splits)
    with Cons ev Some show ?thesis by (simp add: event_ok_def encodeFrame_eq)
  qed (use Cons ev in simp)
qed simp

section \<open>Properties\<close>

text \<open>C35: With accepted options a run of the simulator fails while it builds a frame in one way only: in signal mode,
  when a noise value drawn for the frame is not finite or, added to the amplitude, leaves the range of
  \<open>float\<close>; the exception is then the encoder's. Every other frame of the run
  is built and encoded, decodes to itself, carries the satellite's number, and its payload means to
  the receiver what the mode says (the message with the frame's number, or a signal block that
  starts at the right absolute sample). This asks of the other distributions only values in their ranges.\<close>

theorem simulator_fails_only_on_overflow:
  assumes "sim_parseArgs inet_pton random_seed args = Inr (Some o')" and "random_ok lib" and "trig_bounded lm"
    and "i < sim_count o'"
  shows "case makeFrame lib lm clock o' i g of
      Inr (f, g') \<Rightarrow> (\<exists>bytes. encodeFrame f = Inr bytes \<and> decodeFrame bytes = Some (Inr f)) \<and>
        satelliteId f = sim_satelliteId o' \<and> payload_of_mode o' i (payload f)
    | Inl e \<Rightarrow> e = invalid_argument ''signal samples must all be finite'' \<and> payloadMode o' = Mode_Signal \<and>
        (\<exists>v \<in> set (noise_draws lib (noiseStddev o') (signalSamples o') (normal_init lib) (payload_rng lib g)).
           \<not> isfinite v \<or> FloatMax < f32_value (signalAmplitude o') + \<bar>f32_value v\<bar>)"
proof -
  from sim_parseArgs_facts [OF assms(1)] have ok: "sim_values_ok o'" "payload_ready o'" by simp_all
  consider (made) f g' where "makeFrame lib lm clock o' i g = Inr (f, g')" "frame_valid f" "satelliteId f = sim_satelliteId o'"
      "payload_of_mode o' i (payload f)"
    | (overflow) "makeFrame lib lm clock o' i g = Inl (invalid_argument ''signal samples must all be finite'')"
      "noise_overflows lib o' (payload_rng lib g)"
    by (rule makeFrame_cases [OF ok assms(4,3,2)])
  then show ?thesis
  proof cases
    case (made f g')
    then show ?thesis by (simp add: encodeFrame_eq decode_encode)
  next
    case overflow
    then show ?thesis by (auto simp: noise_overflows_def noise_fits_def list_all_iff not_le)
  qed
qed

text \<open>C34: Simulator and ground station agree. A capture that the simulator completed reads back
  without error. Let a session replay it in a \<open>good_environment\<close> (writing succeeds), let no stop request cut the replay
  short (one that comes when everything was submitted does no harm), and let no
  frame carry a signal sample above \<open>2 ^ 125\<close> in sine-projection mode (only such a frame can stop the station). Then the
  session, once finished, has ended without an exception and exported exactly the frames that were neither lost
  nor damaged, in order; it rejects as many frames as the simulator counts as corrupted and exports
  the rest of those it counts as produced, which with the dropped ones make the requested number.\<close>

theorem simulated_session_matches:
  assumes "random_ok (sim_random env)" and "sim_run env o' = Some (Inr sim)" and "sim_capture sim = Some out"
    and "sim_outputFile o' \<noteq> None" and "sim_count o' < 2 ^ 64"
    and "read_file (out_file out) = Some (frames, r)"
    and "good_environment senv" and "\<forall>f \<in> set (intact (run_events env o')). tame senv f"
    and "Station_start senv can_open = Inr st0"
    and "stoppable (process_item senv) (finish_station senv) (station_pipeline senv st0 frames) s"
    and "todo s = []" and "main_thread s = M_done e"
  shows "r = Inr () \<and> e = None \<and>
    out_file (out_stream (st_output (station s))) = doc_bytes (document (session_format senv) (intact (run_events env o'))) \<and>
    unat (st_rejected (station s)) = corrupted sim \<and>
    unat (st_written (station s)) + unat (st_rejected (station s)) = produced sim \<and>
    produced sim + dropped sim = sim_count o'"
proof -
  let ?evs = "run_events env o'"
  note run = sim_run_effect [OF assms(1,2)]
  from run(6) [OF assms(4)] assms(3,6) have frames: "frames = transmitted ?evs" "r = Inr ()" by auto
  have acc: "accepted (map decoded frames) = intact ?evs" using accepted_intact [OF run(2)] frames by simp
  have l: "length frames < 2 ^ 64" using run(3,4) assms(5) frames by simp
  from assms(8) acc have tame: "\<forall>f \<in> set (accepted (map decoded frames)). tame senv f" by simp
  obtain st where st: "e = None" "process_all (process_item senv) st0 0 (map decoded frames) = (st, None)"
    "finish_station senv st = (station s, None)"
    using session_succeeds [OF assms(7,9,10,11) l tame assms(12)] .
  have "length (map decoded frames) < 2 ^ 64" using l by simp
  note res = session_result [OF assms(9) this st(2,3)]
  from res acc run(3-5) frames st(1) show ?thesis by simp
qed

text \<open>Over TCP, when no frame was damaged, every segmentation of what the simulator sent is cut by
  the station's extractor into exactly the frames that were not lost, in order, with nothing left
  over; so interruptions and partial sends lose and duplicate nothing.\<close>

theorem simulated_tcp_stream:
  assumes "random_ok (sim_random env)" and "sim_run env o' = Some (Inr sim)" and "sim_transport o' = Some Tcp"
    and "corrupted sim = 0" and "sim_out sim = Some sk" and "concat chunks = stream_out sk"
  shows "\<exists>bss. feed_all empty_extractor chunks = Some (empty_extractor, bss) \<and>
    map decodeFrame bss = map (\<lambda>f. Some (Inr f)) (intact (run_events env o')) \<and> length bss = produced sim"
proof -
  note run = sim_run_effect [OF assms(1,2)]
  have "length (intact (run_events env o')) = length (transmitted (run_events env o'))" using run(3,5) assms(4) by simp
  note enc = intact_encoded [OF run(2) this]
  have "concat chunks = concat (transmitted (run_events env o'))" using run(8) [OF assms(3)] assms(5,6) by auto
  from feed_all_encoded [OF enc this] run(3) show ?thesis by (intro exI [of _ "transmitted (run_events env o')"]) simp
qed

section \<open>A concrete run\<close>

text \<open>Distributions that return the mean and the lower bound; the second pair of probabilities is small.\<close>

definition sample_random :: "(nat, unit) random_lib" where
  "sample_random = \<lparr>mt_seed = (\<lambda>_. 0), normal_init = (), normal_draw = (\<lambda>mean stddev d g. (mean, (), g)),
     discrete_draw = (\<lambda>ws g. (0, g)), uniform_int = (\<lambda>lo hi g. (lo, g)),
     uniform_real = (\<lambda>lo hi g. (if g < 2 then Fin (1 / 2) else lo, g + 1))\<rparr>"

lemma sample_random_ok: "random_ok sample_random"
  by (simp add: random_ok_def sample_random_def SimulationTemperatureMeanC_def isfinite_def f32_exponent_def)

lemma sample_noise: "v \<in> set (noise_draws sample_random sd n d g) \<Longrightarrow> v = 0"
  by (induction n arbitrary: d g) (auto simp: sample_random_def)

lemma sample_signal_args: "sim_parseArgs (\<lambda>_. None) 7 [''--tcp'', ''--signal''] =
    Inr (Some ((default_SimOptions 7)\<lparr>sim_transport := Some Tcp, payloadMode := Mode_Signal, sim_count := 5\<rparr>))"
proof -
  define q where "q = (default_SimOptions 7)\<lparr>sim_transport := Some Tcp, payloadMode := Mode_Signal\<rparr>"
  define p where "p = q\<lparr>sim_count := 5\<rparr>"
  have facts: "payloadMode p = Mode_Signal" "sim_count p = 5" "signalSamples p = 256" "payloadMode q = Mode_Signal"
    "sim_transport q = Some Tcp" "discoverPorts q = None" "countExplicit q = False"
    by (simp_all add: p_def q_def default_SimOptions_def)
  have loop: "sim_args_loop [''--tcp'', ''--signal''] \<lparr>sim_opts = default_SimOptions 7, portExplicit = False,
      payloadSizeExplicit = False, messageSelected = False, signalSelected = False\<rparr> =
    Inr (Some \<lparr>sim_opts = q, portExplicit = False, payloadSizeExplicit = False, messageSelected = False, signalSelected = True\<rparr>)"
    by (simp add: sim_option_step_def sim_selectTransport_def bind_r_def edit_opts_def default_SimOptions_def q_def)
  have "encodeSignalBlockPayload (signal_probe p) = Inr (signal_bytes (signal_probe p))"
    unfolding encodeSignal_eq
    by (simp add: signal_valid_def signal_probe_def p_def q_def default_SimOptions_def validSignalMetadata_def isfinite_def
        f32_exponent_def f32_greater_def f32_less_def f32_ge_def isnan_def f32_scaled_def f32_magnitude_def f32_fraction_def
        f32_negative_def list_all_length)
  then have probe: "probe_payload p = Inr ()" by (simp add: probe_payload_def facts bind_r_def)
  have check: "check_signal_values q = Inr ()"
    by (simp add: q_def check_signal_values_def default_SimOptions_def f32_less_def f32_le_def f32_ge_def isnan_def
        f32_exponent_def f32_scaled_def f32_magnitude_def f32_fraction_def f32_negative_def)
  have count: "default_count q = p" by (simp add: default_count_def facts p_def DefaultSignalFrameCount_def)
  show ?thesis
    unfolding sim_parseArgs_def loop sum.case option.case
    by (simp add: sim_cross_check_def facts check_discovery_def check count probe bind_r_def) (simp add: p_def q_def)
qed

theorem simulator_fails_only_on_overflow_witness:
  "\<exists>f g'. makeFrame sample_random sample_libm (\<lambda>_. 1000)
      ((default_SimOptions 7)\<lparr>sim_transport := Some Tcp, payloadMode := Mode_Signal, sim_count := 5\<rparr>) 4 0 = Inr (f, g') \<and>
     (\<exists>s. decodeApplicationPayload (payload f) = Some (Signal_payload s) \<and> startSampleIndex s = 1024)"
proof -
  let ?o = "(default_SimOptions 7)\<lparr>sim_transport := Some Tcp, payloadMode := Mode_Signal, sim_count := 5\<rparr>"
  have lm: "trig_bounded sample_libm" by (simp add: sample_libm_def trig_bounded_def unit_range_def)
  have "f32_value (signalAmplitude ?o) + 0 \<le> FloatMax" "isfinite 0" "f32_value 0 = 0"
    by (simp_all add: default_SimOptions_def f32_value_def f32_scaled_def f32_magnitude_def f32_exponent_def f32_fraction_def
        f32_negative_def FloatMax_def isfinite_def)
  then have quiet: "\<not> (\<exists>v \<in> set (noise_draws sample_random sd n d g). \<not> isfinite v \<or> FloatMax < f32_value (signalAmplitude ?o) + \<bar>f32_value v\<bar>)"
    for sd n d g using sample_noise by fastforce
  have "4 < sim_count ?o" by simp
  from simulator_fails_only_on_overflow [OF sample_signal_args sample_random_ok lm this, where clock = "\<lambda>_. 1000" and g = 0] quiet
  obtain f g' where f: "makeFrame sample_random sample_libm (\<lambda>_. 1000) ?o 4 0 = Inr (f, g')" and "payload_of_mode ?o 4 (payload f)"
    by (auto split: sum.split_asm)
  then have "\<exists>s. decodeApplicationPayload (payload f) = Some (Signal_payload s) \<and> startSampleIndex s = 1024"
    by (auto simp: payload_of_mode_def default_SimOptions_def)
  with f show ?thesis by blast
qed

text \<open>Two frames without payload, the second one damaged, recorded into a capture and sent over TCP in
  two pieces each.\<close>

definition sample_sim_options :: "double \<Rightarrow> SimOptions" where
  "sample_sim_options c = (default_SimOptions 7)\<lparr>sim_transport := Some Tcp, sim_outputFile := Some ''c.stgf'', sim_count := 2,
     payloadSize := 0, corruptProbability := c\<rparr>"

definition sample_sim_env :: "(nat, unit) sim_env" where
  "sample_sim_env = \<lparr>sim_random = sample_random, sim_libm = sample_libm, sim_clock = (\<lambda>_. 1000), capture_can_open = True,
     capture_device = lazy_device, capture_flush = True, sim_scan = (\<lambda>_ _ _. Inr []), connect_error = None,
     send_answers = [Sent 10, Interrupted, Sent 17, Sent 20, Sent 7]\<rparr>"

definition sample_sim_frame :: "nat \<Rightarrow> TelemetryFrame" where
  "sample_sim_frame i = \<lparr>version = ProtocolVersion, satelliteId = 42, timestampMs = 1000, temperatureC = SimulationTemperatureMeanC,
     batteryPercent = of_nat (100 - i mod 101), status = 0, payload = []\<rparr>"

lemma sample_makeFrame:
  "makeFrame sample_random sample_libm (\<lambda>_. 1000) (sample_sim_options c) i g = Inr (sample_sim_frame i, g)"
  by (simp add: makeFrame_def sample_random_def randomStatus_def makePayload_def makeRandomPayload_def sample_sim_options_def
      default_SimOptions_def bind_r_def sample_sim_frame_def SimulationBatteryCycleLength_def MaxBatteryPercent_def)

lemma sample_sim_valid: "frame_valid (sample_sim_frame i)"
  using battery_bounds [of i]
  by (simp add: frame_valid_def sample_sim_frame_def SimulationTemperatureMeanC_def isfinite_def f32_exponent_def
      SimulationBatteryCycleLength_def MaxBatteryPercent_def)

lemma sample_sim_encode: "encodeFrame (sample_sim_frame i) = Inr (frame_bytes (sample_sim_frame i))"
  by (simp add: encodeFrame_eq sample_sim_valid)

lemma sample_sim_length [simp]: "length (frame_bytes (sample_sim_frame i)) = 27"
  by (simp add: length_frame_bytes sample_sim_frame_def)

lemma send_pieces:
  assumes "length bs = n + m" "0 < n" "0 < m"
  shows "send_loop bs (Sent n # Sent m # as) wire = Some (as, wire @ bs, Inr ())"
    "send_loop bs (Sent n # Interrupted # Sent m # as) wire = Some (as, wire @ bs, Inr ())"
proof -
  obtain b bs1 where bs: "bs = b # bs1" using assms by (cases bs) auto
  obtain c bs2 where c: "drop n bs = c # bs2" using assms by (cases "drop n bs") auto
  have d: "drop m (drop n bs) = []" "take m (drop n bs) = drop n bs" using assms(1) by simp_all
  have "send_loop bs (Sent n # as') wire = send_loop (c # bs2) as' (wire @ take n bs)" for as'
    using assms(2) unfolding c [symmetric] bs by (simp del: take_Cons drop_Cons)
  moreover have "send_loop (c # bs2) (Sent m # as) (wire @ take n bs) = Some (as, wire @ bs, Inr ())"
    using assms(3) d unfolding c [symmetric]
    by (simp add: c del: take_Cons drop_Cons) (simp add: c [symmetric])
  ultimately show "send_loop bs (Sent n # Sent m # as) wire = Some (as, wire @ bs, Inr ())"
    "send_loop bs (Sent n # Interrupted # Sent m # as) wire = Some (as, wire @ bs, Inr ())" by simp_all
qed

lemma sample_sim_facts:
  "sim_random sample_sim_env = sample_random" "sim_libm sample_sim_env = sample_libm" "sim_clock sample_sim_env = (\<lambda>_. 1000)"
  "capture_can_open sample_sim_env" "capture_device sample_sim_env = lazy_device" "capture_flush sample_sim_env"
  "connect_error sample_sim_env = None" "send_answers sample_sim_env = [Sent 10, Interrupted, Sent 17, Sent 20, Sent 7]"
  "sim_transport (sample_sim_options c) = Some Tcp" "sim_outputFile (sample_sim_options c) = Some ''c.stgf''"
  "sim_count (sample_sim_options c) = Suc (Suc 0)" "corruptProbability (sample_sim_options c) = c"
  "lossProbability (sample_sim_options c) = Fin 0" "discoverPorts (sample_sim_options c) = None"
  "mt_seed sample_random seed = 0" "uniform_int sample_random lo hi g = (lo, g)"
  "uniform_real sample_random (Fin 0) (Fin 1) g = (if g < 2 then Fin (1 / 2) else Fin 0, g + 1)"
  by (simp_all add: sample_sim_env_def sample_sim_options_def default_SimOptions_def sample_random_def)

lemma sample_corrupt:
  "maybeCorrupt sample_random (frame_bytes (sample_sim_frame i)) g =
   ((frame_bytes (sample_sim_frame i))[0 := xor (frame_bytes (sample_sim_frame i) ! 0) CorruptionXorMask], g)"
proof -
  have "frame_bytes (sample_sim_frame i) \<noteq> []" using sample_sim_length [of i] by fastforce
  then show ?thesis by (simp add: maybeCorrupt_def sample_sim_facts)
qed

lemma sample_sim_run:
  assumes "c = Fin 0 \<or> c = Fin (1 / 4)"
  shows "\<exists>sim. sim_run sample_sim_env (sample_sim_options c) = Some (Inr sim) \<and> corrupted sim = (if c = Fin 0 then 0 else 1)"
  using assms send_pieces(1) [of _ 20 7] send_pieces(2) [of _ 10 17]
  by (auto simp: sim_run_def discoverPort_def open_capture_def open_socket_def sample_sim_facts sample_makeFrame sample_sim_encode
      sim_step_def transmit_def sendAll_def record_frame_def writeFrame_def
      FrameFileWriter_ctor_def ostream_write_def lazy_device_def move_bytes_def fresh_ofstream_def finish_capture_def flush_def bind_r_def sample_corrupt wire_simps)

lemma sample_payload: "(f, b) \<in> set (sim_events sample_random sample_libm (\<lambda>_. 1000) (sample_sim_options c) i n g) \<Longrightarrow> payload f = []"
  by (induction n arbitrary: i g) (auto simp: sample_makeFrame Let_def sample_sim_frame_def split: prod.splits if_splits)

theorem simulated_session_matches_witness:
  "\<exists>s sim. sim_run sample_sim_env (sample_sim_options (Fin (1 / 4))) = Some (Inr sim) \<and>
     main_thread (s :: Station GroundStationPipeline) = M_done None \<and> unat (st_rejected (station s)) = 1 \<and>
     unat (st_written (station s)) + 1 = produced sim"
proof -
  let ?o = "sample_sim_options (Fin (1 / 4))"
  obtain sim where sim: "sim_run sample_sim_env ?o = Some (Inr sim)" "corrupted sim = 1"
    using sample_sim_run [of "Fin (1 / 4)"] by auto
  have lib: "random_ok (sim_random sample_sim_env)" by (simp add: sample_sim_facts sample_random_ok)
  note run = sim_run_effect [OF lib sim(1)]
  let ?frames = "transmitted (run_events sample_sim_env ?o)"
  from run(6) obtain out where out: "sim_capture sim = Some out" "read_file (out_file out) = Some (?frames, Inr ())"
    by (auto simp: sample_sim_facts)
  have tame: "\<forall>f \<in> set (intact (run_events sample_sim_env ?o)). tame sample_env f"
  proof
    fix f assume "f \<in> set (intact (run_events sample_sim_env ?o))"
    then obtain b where "(f, b) \<in> set (run_events sample_sim_env ?o)" by (auto simp: intact_def)
    then have "payload f = []" unfolding run_events_def sample_sim_facts by (rule sample_payload)
    then show "tame sample_env f" by (rule no_payload_tame)
  qed
  have "length ?frames < 2 ^ 64" using run(3,4) by (simp add: sample_sim_facts)
  then obtain st0 s e where s: "Station_start sample_env True = Inr st0"
    "stoppable (process_item sample_env) (finish_station sample_env) (station_pipeline sample_env st0 ?frames) s"
    "todo s = []" "main_thread s = M_done e" by (rule sample_session_ends [OF _ tame [folded accepted_intact [OF run(2)]]])
  have "sim_outputFile ?o \<noteq> None" "sim_count ?o < 2 ^ 64" by (simp_all add: sample_sim_facts)
  from simulated_session_matches [OF lib sim(1) out(1) this out(2) sample_env_good tame s] sim s(4)
  show ?thesis by (intro exI [of _ s] exI [of _ sim]) simp
qed

theorem simulated_tcp_stream_witness:
  "\<exists>sim sk. sim_run sample_sim_env (sample_sim_options (Fin 0)) = Some (Inr sim) \<and> sim_out sim = Some sk \<and>
     (\<exists>bss. feed_all empty_extractor [take 5 (stream_out sk), drop 5 (stream_out sk)] = Some (empty_extractor, bss) \<and>
        length bss = produced sim)"
proof -
  let ?o = "sample_sim_options (Fin 0)"
  obtain sim where sim: "sim_run sample_sim_env ?o = Some (Inr sim)" "corrupted sim = 0"
    using sample_sim_run [of "Fin 0"] by auto
  have lib: "random_ok (sim_random sample_sim_env)" by (simp add: sample_sim_facts sample_random_ok)
  from sim_run_effect(8) [OF lib sim(1)] obtain sk where sk: "sim_out sim = Some sk" by (auto simp: sample_sim_facts)
  have "concat [take 5 (stream_out sk), drop 5 (stream_out sk)] = stream_out sk" by simp
  from simulated_tcp_stream [OF lib sim(1) _ sim(2) sk this] sim sk show ?thesis
    by (auto simp: sample_sim_facts)
qed

end
