(* ===== verification/Network_Server.thy ===== *)
theory Network_Server
  imports Stream_Extractor Ground_Options
begin

text \<open>
  Model of \<open>include/stgs/NetworkServer.hpp\<close>, \<open>src/NetworkServer.cpp\<close>, \<open>NetworkServerTcp.cpp\<close> and
  \<open>NetworkServerUdp.cpp\<close>: the reception of frames over TCP from several clients and over UDP.

  What the system answers to the calls of one turn of a receiving loop is a value (\<open>tcp_round\<close>,
  \<open>udp_round\<close>), and a run is given the list of its turns: behind the last one the loop sees the
  request to stop. A list of answers that is used up stands for \<open>EAGAIN\<close>, since the sockets do not
  block. An access outside a vector
  is the value \<open>None\<close>. The callback is any function on a state of its own that may raise an
  exception. The state keeps what was opened, closed, received and handed over, as a history. In this history a connection
  is named by its number among the descriptors opened (\<open>client_conn\<close>), not by its descriptor, since the system gives the
  number of a closed descriptor out again; no step of the code depends on it.
\<close>

section \<open>Configuration\<close>

definition DefaultNetworkPollTimeoutMs :: int where "DefaultNetworkPollTimeoutMs = 250"

record NetworkConfig =
  net_transport :: Transport
  net_bindAddress :: string
  net_port :: nat
  pollTimeoutMs :: int

definition NetworkServer_ctor :: "NetworkConfig \<Rightarrow> NetworkConfig result" where
  "NetworkServer_ctor cfg =
     (if net_port cfg = 0 then Inl (invalid_argument ''network port must be in the 1..65535 range'')
      else if pollTimeoutMs cfg \<le> 0 then Inl (invalid_argument ''network poll timeout must be greater than zero'')
      else Inr cfg)"

fun transportToString :: "Transport \<Rightarrow> string" where
  "transportToString Udp = ''udp''"
| "transportToString Tcp = ''tcp''"

section \<open>Errors of the system and the state of a run\<close>

datatype errno = EINTR | EAGAIN | E_other string

fun strerror :: "errno \<Rightarrow> string" where
  "strerror EINTR = ''Interrupted system call''"
| "strerror EAGAIN = ''Resource temporarily unavailable''"
| "strerror (E_other m) = m"

type_synonym 's frame_callback = "'s \<Rightarrow> ByteVector \<Rightarrow> 's \<times> exn option"

record 's net_state =
  cb_state :: 's
  net_log :: "(LogLevel \<times> string) list"
  opened_fds :: "nat list"
  closed_fds :: "nat list"
  heard :: "(nat \<times> ByteVector) list"
  handed :: "(nat \<times> ByteVector) list"

definition net_info :: "string \<Rightarrow> 's net_state \<Rightarrow> 's net_state" where
  "net_info m st = st\<lparr>net_log := net_log st @ [(Info, m)]\<rparr>"

definition net_warning :: "string \<Rightarrow> 's net_state \<Rightarrow> 's net_state" where
  "net_warning m st = st\<lparr>net_log := net_log st @ [(Warning, m)]\<rparr>"

definition open_fd :: "nat \<Rightarrow> 's net_state \<Rightarrow> 's net_state" where
  "open_fd fd st = st\<lparr>opened_fds := opened_fds st @ [fd]\<rparr>"

definition closeFd :: "nat \<Rightarrow> 's net_state \<Rightarrow> 's net_state" where
  "closeFd fd st = st\<lparr>closed_fds := closed_fds st @ [fd]\<rparr>"

text \<open>Giving one frame of a connection to the callback.\<close>

definition call_back :: "'s frame_callback \<Rightarrow> nat \<Rightarrow> ByteVector \<Rightarrow> 's net_state \<Rightarrow> 's net_state \<times> exn option" where
  "call_back cb conn frame st =
     (let (s, e) = cb (cb_state st) frame in (st\<lparr>cb_state := s, handed := handed st @ [(conn, frame)]\<rparr>, e))"

section \<open>The server socket\<close>

record server_sys =
  sys_socket :: "errno + nat"
  sys_reuse :: "errno option"
  sys_inet_pton :: "string \<Rightarrow> u32 option"
  sys_bind :: "errno option"
  sys_nonblock :: "exn option"
  sys_listen :: "errno option"

definition createBoundSocket :: "server_sys \<Rightarrow> NetworkConfig \<Rightarrow> 's net_state \<Rightarrow> 's net_state \<times> nat result" where
  "createBoundSocket sys cfg st =
     (case sys_socket sys of
        Inl e \<Rightarrow> (st, Inl (runtime_error (''socket() failed: '' @ strerror e)))
      | Inr fd \<Rightarrow>
          (let st = open_fd fd st
           in case sys_reuse sys of
                Some e \<Rightarrow> (closeFd fd st, Inl (runtime_error (''setsockopt(SO_REUSEADDR) failed: '' @ strerror e)))
              | None \<Rightarrow>
                  if sys_inet_pton sys (net_bindAddress cfg) = None
                  then (closeFd fd st, Inl (runtime_error (''invalid IPv4 bind address: '' @ net_bindAddress cfg)))
                  else case sys_bind sys of
                      Some e \<Rightarrow> (closeFd fd st, Inl (runtime_error (''bind() failed on '' @ net_bindAddress cfg @ '':'' @
                                   show_nat (net_port cfg) @ '': '' @ strerror e)))
                    | None \<Rightarrow> (st, Inr fd)))"

section \<open>Draining a client\<close>

definition TcpReadBufferSize :: nat where "TcpReadBufferSize = 8192"

record TcpClient =
  client_fd :: nat
  client_conn :: nat
  extractor :: StreamFrameExtractor

datatype recv_answer = Recv_data ByteVector | Recv_error errno

fun hand_over :: "'s frame_callback \<Rightarrow> nat \<Rightarrow> ByteVector list \<Rightarrow> 's net_state \<Rightarrow> 's net_state \<times> exn option" where
  "hand_over cb conn [] st = (st, None)"
| "hand_over cb conn (frame # frames) st =
     (case call_back cb conn frame st of
        (st, Some e) \<Rightarrow> (st, Some e)
      | (st, None) \<Rightarrow> hand_over cb conn frames st)"

text \<open>The loop around \<open>recv\<close>: the extractor, whether the client is to be removed, and the
  exception if any. The call stores at most as many bytes as the buffer has; no bytes mean that the
  peer has closed the connection.\<close>

fun drain_client ::
    "'s frame_callback \<Rightarrow> nat \<Rightarrow> recv_answer list \<Rightarrow> StreamFrameExtractor \<Rightarrow> 's net_state \<Rightarrow>
     (StreamFrameExtractor \<times> bool \<times> exn option \<times> 's net_state) option" where
  "drain_client cb conn [] ex st = Some (ex, False, None, st)"
| "drain_client cb conn (Recv_data data # as) ex st =
     (let bytes = take TcpReadBufferSize data
      in if bytes = [] then Some (ex, True, None, st)
         else case feed ex bytes of
             None \<Rightarrow> None
           | Some (ex, frames) \<Rightarrow>
               (case hand_over cb conn frames (st\<lparr>heard := heard st @ [(conn, bytes)]\<rparr>) of
                  (st, Some e) \<Rightarrow> Some (ex, False, Some e, st)
                | (st, None) \<Rightarrow> drain_client cb conn as ex st))"
| "drain_client cb conn (Recv_error e # as) ex st =
     (case e of
        EINTR \<Rightarrow> drain_client cb conn as ex st
      | EAGAIN \<Rightarrow> Some (ex, False, None, st)
      | E_other m \<Rightarrow> Some (ex, True, None, net_warning (''recv() failed: '' @ strerror e) st))"

section \<open>One turn of the TCP loop\<close>

record revents =
  ev_in :: bool
  ev_hup :: bool
  ev_err :: bool
  ev_nval :: bool

definition no_events :: "revents \<Rightarrow> bool" where
  "no_events r \<longleftrightarrow> \<not> ev_in r \<and> \<not> ev_hup r \<and> \<not> ev_err r \<and> \<not> ev_nval r"

definition service_client ::
    "'s frame_callback \<Rightarrow> revents \<Rightarrow> recv_answer list \<Rightarrow> nat \<Rightarrow> TcpClient list \<Rightarrow> 's net_state \<Rightarrow>
     (TcpClient list \<times> 's net_state \<times> exn option) option" where
  "service_client cb revents recvs clientIndex clients st =
     (if no_events revents then Some (clients, st, None)
      else case at_ub clients clientIndex of
          None \<Rightarrow> None
        | Some client \<Rightarrow>
            (case (if ev_in revents \<or> ev_hup revents then drain_client cb (client_conn client) recvs (extractor client) st
                   else Some (extractor client, False, None, st)) of
               None \<Rightarrow> None
             | Some (ex, closing, Some e, st) \<Rightarrow> Some (clients[clientIndex := client\<lparr>extractor := ex\<rparr>], st, Some e)
             | Some (ex, closing, None, st) \<Rightarrow>
                 if ev_err revents \<or> ev_nval revents \<or> closing \<or> ev_hup revents
                 then Some (take clientIndex clients @ drop (clientIndex + 1) clients,
                            closeFd (client_fd client) (net_info ''TCP client disconnected'' st), None)
                 else Some (clients[clientIndex := client\<lparr>extractor := ex\<rparr>], st, None)))"

text \<open>The clients of the snapshot from number \<open>snapshotIndex\<close> down to 1.\<close>

fun service_clients ::
    "'s frame_callback \<Rightarrow> revents list \<Rightarrow> (nat \<Rightarrow> recv_answer list) \<Rightarrow> nat \<Rightarrow> TcpClient list \<Rightarrow> 's net_state \<Rightarrow>
     (TcpClient list \<times> 's net_state \<times> exn option) option" where
  "service_clients cb pfds recvs 0 clients st = Some (clients, st, None)"
| "service_clients cb pfds recvs (Suc clientIndex) clients st =
     (case at_ub pfds (Suc clientIndex) of
        None \<Rightarrow> None
      | Some revents \<Rightarrow>
          (case service_client cb revents (recvs clientIndex) clientIndex clients st of
             None \<Rightarrow> None
           | Some (clients, st, Some e) \<Rightarrow> Some (clients, st, Some e)
           | Some (clients, st, None) \<Rightarrow> service_clients cb pfds recvs clientIndex clients st))"

text \<open>An accepted descriptor with what making it non-blocking raises.\<close>

datatype accept_answer = Accepted nat "exn option" | Accept_error errno

fun accept_loop ::
    "accept_answer list \<Rightarrow> TcpClient list \<Rightarrow> 's net_state \<Rightarrow> TcpClient list \<times> 's net_state \<times> exn option" where
  "accept_loop [] clients st = (clients, st, None)"
| "accept_loop (Accepted fd failed # as) clients st =
     (case failed of
        Some e \<Rightarrow> (clients, closeFd fd (open_fd fd st), Some e)
      | None \<Rightarrow> accept_loop as (clients @ [\<lparr>client_fd = fd, client_conn = length (opened_fds st), extractor = empty_extractor\<rparr>])
                  (net_info ''TCP client connected'' (open_fd fd st)))"
| "accept_loop (Accept_error e # as) clients st =
     (case e of
        EAGAIN \<Rightarrow> (clients, st, None)
      | EINTR \<Rightarrow> accept_loop as clients st
      | E_other m \<Rightarrow> (clients, net_warning (''accept() failed: '' @ strerror e) st, None))"

text \<open>The answer to \<open>poll\<close>; for descriptors that are ready, the events of each entry and what the
  calls that follow return.\<close>

datatype tcp_round =
  Poll_error errno
| Poll_timeout
| Poll_ready "nat \<Rightarrow> revents" "nat \<Rightarrow> recv_answer list" "accept_answer list"

definition tcp_turn ::
    "'s frame_callback \<Rightarrow> tcp_round \<Rightarrow> TcpClient list \<Rightarrow> 's net_state \<Rightarrow> (TcpClient list \<times> 's net_state \<times> exn option) option" where
  "tcp_turn cb answer clients st =
     (case answer of
        Poll_error e \<Rightarrow>
          Some (clients, st, if e = EINTR then None else Some (runtime_error (''poll() failed: '' @ strerror e)))
      | Poll_timeout \<Rightarrow> Some (clients, st, None)
      | Poll_ready events recvs accepts \<Rightarrow>
          (let polledClientCount = length clients;
               pfds = map events [0..<polledClientCount + 1]
           in case service_clients cb pfds recvs polledClientCount clients st of
                None \<Rightarrow> None
              | Some (clients, st, Some e) \<Rightarrow> Some (clients, st, Some e)
              | Some (clients, st, None) \<Rightarrow>
                  (case at_ub pfds 0 of
                     None \<Rightarrow> None
                   | Some front \<Rightarrow> Some (if ev_in front then accept_loop accepts clients st else (clients, st, None)))))"

fun tcp_loop ::
    "'s frame_callback \<Rightarrow> tcp_round list \<Rightarrow> TcpClient list \<Rightarrow> 's net_state \<Rightarrow> (TcpClient list \<times> 's net_state \<times> exn option) option" where
  "tcp_loop cb [] clients st = Some (clients, st, None)"
| "tcp_loop cb (answer # rounds) clients st =
     (case tcp_turn cb answer clients st of
        None \<Rightarrow> None
      | Some (clients, st, Some e) \<Rightarrow> Some (clients, st, Some e)
      | Some (clients, st, None) \<Rightarrow> tcp_loop cb rounds clients st)"

text \<open>Destroying the clients closes their descriptors; the server socket is closed by \<open>runTcp\<close> or,
  after an exception, by \<open>run\<close>.\<close>

definition listening :: "string \<Rightarrow> NetworkConfig \<Rightarrow> string" where
  "listening what cfg = what @ '' receiver listening on '' @ net_bindAddress cfg @ '':'' @ show_nat (net_port cfg)"

definition runTcp ::
    "server_sys \<Rightarrow> NetworkConfig \<Rightarrow> 's frame_callback \<Rightarrow> tcp_round list \<Rightarrow> 's net_state \<Rightarrow> ('s net_state \<times> exn option) option" where
  "runTcp sys cfg cb rounds st =
     (case createBoundSocket sys cfg st of
        (st, Inl e) \<Rightarrow> Some (st, Some e)
      | (st, Inr serverFd) \<Rightarrow>
          (case sys_nonblock sys of
             Some e \<Rightarrow> Some (closeFd serverFd st, Some e)
           | None \<Rightarrow>
               (case sys_listen sys of
                  Some e \<Rightarrow> Some (closeFd serverFd st, Some (runtime_error (''listen() failed: '' @ strerror e)))
                | None \<Rightarrow>
                    (case tcp_loop cb rounds [] (net_info (listening ''TCP'' cfg) st) of
                       None \<Rightarrow> None
                     | Some (clients, st, failed) \<Rightarrow>
                         let st = closeFd serverFd (fold (\<lambda>c. closeFd (client_fd c)) clients st)
                         in Some (if failed = None then net_info ''TCP receiver stopped'' st else st, failed)))))"

section \<open>UDP\<close>

datatype udp_round = Udp_poll_error errno | Udp_timeout | Udp_not_readable | Udp_datagram ByteVector | Udp_recv_error errno

text \<open>With \<open>MSG_TRUNC\<close> the call returns the size of the datagram and stores what fits into the buffer.\<close>

fun udp_loop ::
    "'s frame_callback \<Rightarrow> nat \<Rightarrow> udp_round list \<Rightarrow> ByteVector \<Rightarrow> 's net_state \<Rightarrow> 's net_state \<times> exn option" where
  "udp_loop cb conn [] buf st = (st, None)"
| "udp_loop cb conn (Udp_poll_error e # rs) buf st =
     (if e = EINTR then udp_loop cb conn rs buf st else (st, Some (runtime_error (''poll() failed: '' @ strerror e))))"
| "udp_loop cb conn (Udp_timeout # rs) buf st = udp_loop cb conn rs buf st"
| "udp_loop cb conn (Udp_not_readable # rs) buf st = udp_loop cb conn rs buf st"
| "udp_loop cb conn (Udp_recv_error e # rs) buf st =
     (if e = EINTR \<or> e = EAGAIN then udp_loop cb conn rs buf st
      else udp_loop cb conn rs buf (net_warning (''recvfrom() failed: '' @ strerror e) st))"
| "udp_loop cb conn (Udp_datagram datagram # rs) buf st =
     (let buf' = take (length buf) datagram @ drop (length datagram) buf;
          receivedSize = length datagram;
          st = st\<lparr>heard := heard st @ [(conn, datagram)]\<rparr>
      in if receivedSize > length buf'
         then udp_loop cb conn rs buf'
                (net_warning ''UDP datagram larger than MaxFrameSize was dropped without truncation processing'' st)
         else case call_back cb conn (take receivedSize buf') st of
             (st, Some e) \<Rightarrow> (st, Some e)
           | (st, None) \<Rightarrow> udp_loop cb conn rs buf' st)"

definition runUdp ::
    "server_sys \<Rightarrow> NetworkConfig \<Rightarrow> 's frame_callback \<Rightarrow> udp_round list \<Rightarrow> 's net_state \<Rightarrow> 's net_state \<times> exn option" where
  "runUdp sys cfg cb rounds st =
     (case createBoundSocket sys cfg st of
        (st, Inl e) \<Rightarrow> (st, Some e)
      | (st, Inr serverFd) \<Rightarrow>
          (let (st, failed) = udp_loop cb (length (opened_fds st) - 1) rounds (replicate MaxFrameSize 0) (net_info (listening ''UDP'' cfg) st);
               st = closeFd serverFd st
           in (if failed = None then net_info ''UDP receiver stopped'' st else st, failed)))"

definition NetworkServer_run ::
    "server_sys \<Rightarrow> NetworkConfig \<Rightarrow> 's frame_callback \<Rightarrow> udp_round list \<Rightarrow> tcp_round list \<Rightarrow> 's net_state \<Rightarrow>
     ('s net_state \<times> exn option) option" where
  "NetworkServer_run sys cfg cb udp_rounds tcp_rounds st =
     (if net_transport cfg = Udp then Some (runUdp sys cfg cb udp_rounds st)
      else runTcp sys cfg cb tcp_rounds st)"

end
