(* ===== verification/Network_Correct.thy ===== *)
theory Network_Correct
  imports Network_Server "HOL-Library.Multiset"
begin

text \<open>
  The receiving loops: no access outside a vector, every descriptor closed exactly once, and every
  connection extracted as if it were alone.
\<close>

lemmas net_simps = net_info_def net_warning_def open_fd_def closeFd_def

section \<open>Histories\<close>

text \<open>The chunks or frames of one connection.\<close>

definition of_conn :: "nat \<Rightarrow> (nat \<times> 'a) list \<Rightarrow> 'a list" where
  "of_conn c xs = map snd (filter (\<lambda>x. fst x = c) xs)"

lemma of_conn_simps [simp]:
  "of_conn c [] = []" "of_conn c ((d, x) # xs) = (if d = c then x # of_conn c xs else of_conn c xs)"
  "of_conn c (xs @ ys) = of_conn c xs @ of_conn c ys"
  by (simp_all add: of_conn_def)

lemma of_conn_same: "of_conn c (map (Pair d) xs) = (if d = c then xs else [])"
  by (induction xs) auto

lemma feed_total: "\<exists>ex frames. feed e bytes = Some (ex, frames)"
  using feed_loop_defined [of "buffer e @ bytes" "[]"] by (auto simp: feed_def)

lemma feed_all_snoc:
  "feed_all e cs = Some (e1, fs) \<Longrightarrow> feed e1 c = Some (e2, gs) \<Longrightarrow> feed_all e (cs @ [c]) = Some (e2, fs @ gs)"
proof (induction cs arbitrary: e fs)
  case (Cons d cs)
  from Cons.prems(1) obtain e' f1 f2 where e': "feed e d = Some (e', f1)" "feed_all e' cs = Some (e1, f2)" "fs = f1 @ f2"
    by (auto split: Option.bind_splits)
  from Cons.IH [OF e'(2) Cons.prems(2)] e' show ?case by simp
qed simp

section \<open>Handing over\<close>

text \<open>What the callback has seen: its state is the result of the calls in order.\<close>

definition calls :: "'s frame_callback \<Rightarrow> 's \<Rightarrow> ByteVector list \<Rightarrow> 's" where
  "calls cb s frames = foldl (\<lambda>s f. fst (cb s f)) s frames"

lemma hand_over_effect:
  assumes "hand_over cb fd frames st = (st', e)"
  shows "\<exists>k. st' = st\<lparr>cb_state := calls cb (cb_state st) (take k frames), handed := handed st @ map (Pair fd) (take k frames)\<rparr> \<and>
    (e = None \<longrightarrow> take k frames = frames)"
  using assms
proof (induction frames arbitrary: st)
  case Nil
  then show ?case by (simp add: calls_def)
next
  case (Cons f fs)
  obtain s e1 where s: "cb (cb_state st) f = (s, e1)" by fastforce
  let ?st = "st\<lparr>cb_state := s, handed := handed st @ [(fd, f)]\<rparr>"
  show ?case
  proof (cases e1)
    case (Some x)
    then have "st' = ?st" "e = Some x" using Cons.prems s by (simp_all add: call_back_def)
    then show ?thesis using s by (intro exI [of _ 1]) (simp add: calls_def)
  next
    case None
    then have "hand_over cb fd fs ?st = (st', e)" using Cons.prems s by (simp add: call_back_def)
    from Cons.IH [OF this] obtain k where "st' = ?st\<lparr>cb_state := calls cb s (take k fs), handed := handed ?st @ map (Pair fd) (take k fs)\<rparr>"
      "e = None \<longrightarrow> take k fs = fs" by auto
    then show ?thesis using s by (intro exI [of _ "Suc k"]) (simp add: calls_def)
  qed
qed

section \<open>Draining\<close>

text \<open>What a step of the loop keeps: descriptors, and the state of the callback as the result of the
  frames handed over.\<close>

definition same_fds :: "'s net_state \<Rightarrow> 's net_state \<Rightarrow> bool" where
  "same_fds st st' \<longleftrightarrow> opened_fds st' = opened_fds st \<and> closed_fds st' = closed_fds st"

definition called :: "'s frame_callback \<Rightarrow> 's \<Rightarrow> 's net_state \<Rightarrow> bool" where
  "called cb s0 st \<longleftrightarrow> cb_state st = calls cb s0 (map snd (handed st))"

text \<open>The state of the stream of a connection.\<close>

definition stream_ok :: "'s net_state \<Rightarrow> nat \<Rightarrow> StreamFrameExtractor \<Rightarrow> bool" where
  "stream_ok st c ex \<longleftrightarrow> feed_all empty_extractor (of_conn c (heard st)) = Some (ex, of_conn c (handed st))"

lemma stream_ok_log [simp]:
  "stream_ok (net_info m st) = stream_ok st" "stream_ok (net_warning m st) = stream_ok st" "stream_ok (closeFd fd st) = stream_ok st"
  "stream_ok (open_fd fd st) = stream_ok st"
  by (simp_all add: stream_ok_def fun_eq_iff net_simps)

text \<open>Draining one connection: the others are left alone, and its own stream goes on.\<close>

definition drained :: "'s frame_callback \<Rightarrow> nat \<Rightarrow> 's net_state \<Rightarrow> 's net_state \<Rightarrow> bool" where
  "drained cb fd st st' \<longleftrightarrow> same_fds st st' \<and> (\<forall>s0. called cb s0 st \<longrightarrow> called cb s0 st') \<and>
     (\<forall>c. c \<noteq> fd \<longrightarrow> of_conn c (heard st') = of_conn c (heard st) \<and> of_conn c (handed st') = of_conn c (handed st))"

lemma drained_refl: "drained cb fd st st"
  by (simp add: drained_def same_fds_def)

lemma drained_trans: "drained cb fd st st1 \<Longrightarrow> drained cb fd st1 st2 \<Longrightarrow> drained cb fd st st2"
  by (auto simp: drained_def same_fds_def)

lemma drained_warning: "drained cb fd st (net_warning m st)"
  by (auto simp: drained_def same_fds_def called_def net_simps)

lemma drained_hand_over:
  assumes "hand_over cb fd frames (st\<lparr>heard := heard st @ [(fd, bytes)]\<rparr>) = (st', e)"
  shows "drained cb fd st st' \<and> heard st' = heard st @ [(fd, bytes)] \<and> (e = None \<longrightarrow> handed st' = handed st @ map (Pair fd) frames)"
proof -
  from hand_over_effect [OF assms] obtain k where k: "st' = st\<lparr>heard := heard st @ [(fd, bytes)],
      cb_state := calls cb (cb_state st) (take k frames), handed := handed st @ map (Pair fd) (take k frames)\<rparr>"
    "e = None \<longrightarrow> take k frames = frames" by auto
  then show ?thesis by (auto simp: drained_def same_fds_def called_def calls_def of_conn_same comp_def)
qed

lemma drain_client_effect:
  "\<exists>ex' closing e st'. drain_client cb fd as ex st = Some (ex', closing, e, st') \<and> drained cb fd st st' \<and>
     (e = None \<longrightarrow> stream_ok st fd ex \<longrightarrow> stream_ok st' fd ex')"
proof (induction cb fd as ex st rule: drain_client.induct)
  case (2 cb fd data as ex st)
  let ?bytes = "take TcpReadBufferSize data"
  show ?case
  proof (cases "?bytes = []")
    case True
    then show ?thesis by (auto simp: drained_refl)
  next
    case False
    obtain ex1 frames where f: "feed ex ?bytes = Some (ex1, frames)" using feed_total by blast
    obtain st1 e where h: "hand_over cb fd frames (st\<lparr>heard := heard st @ [(fd, ?bytes)]\<rparr>) = (st1, e)" by fastforce
    note d = drained_hand_over [OF h]
    have s: "e = None \<Longrightarrow> stream_ok st fd ex \<Longrightarrow> stream_ok st1 fd ex1"
      using d feed_all_snoc [OF _ f] by (auto simp: stream_ok_def of_conn_same)
    show ?thesis
    proof (cases e)
      case (Some x)
      with False f h d show ?thesis by auto
    next
      case None
      have "\<exists>ex' closing e st'. drain_client cb fd as ex1 st1 = Some (ex', closing, e, st') \<and> drained cb fd st1 st' \<and>
          (e = None \<longrightarrow> stream_ok st1 fd ex1 \<longrightarrow> stream_ok st' fd ex')"
        by (rule 2) (use False f h None in auto)
      then obtain ex' closing e' st' where "drain_client cb fd as ex1 st1 = Some (ex', closing, e', st')" "drained cb fd st1 st'"
        "e' = None \<longrightarrow> stream_ok st1 fd ex1 \<longrightarrow> stream_ok st' fd ex'" by auto
      with False f h None d s drained_trans show ?thesis by (auto simp del: take_eq_Nil) blast
    qed
  qed
next
  case (3 cb fd e as ex st)
  then show ?case by (cases e) (auto simp: drained_refl drained_warning)
qed (auto simp: drained_refl)

section \<open>The invariant of the TCP loop\<close>

text \<open>Every open connection is in the list once, everything heard comes from a connection that was
  opened, and the streams of open and of former connections are those of an extractor of their own.\<close>

definition streams_ok :: "TcpClient list \<Rightarrow> 's net_state \<Rightarrow> bool" where
  "streams_ok clients st \<longleftrightarrow>
     (\<forall>cl \<in> set clients. stream_ok st (client_conn cl) (extractor cl)) \<and>
     (\<forall>c. \<exists>ex. stream_ok st c ex) \<and>
     distinct (map client_conn clients) \<and> (\<forall>c. of_conn c (heard st) \<noteq> [] \<longrightarrow> c < length (opened_fds st))"

text \<open>Every descriptor that was opened is a client's, the server's or closed.\<close>

definition fds_ok :: "nat multiset \<Rightarrow> TcpClient list \<Rightarrow> 's net_state \<Rightarrow> bool" where
  "fds_ok others clients st \<longleftrightarrow> mset (opened_fds st) = others + mset (map client_fd clients) + mset (closed_fds st)"

abbreviation erase :: "nat \<Rightarrow> 'a list \<Rightarrow> 'a list" where
  "erase k xs \<equiv> take k xs @ drop (k + 1) xs"

lemma split_at: "k < length xs \<Longrightarrow> xs = take k xs @ xs ! k # drop (k + 1) xs"
  by (simp add: id_take_nth_drop)

lemma mset_erase: "k < length xs \<Longrightarrow> mset xs = add_mset (xs ! k) (mset (erase k xs))"
proof -
  assume "k < length xs"
  then have "mset xs = mset (take k xs @ xs ! k # drop (k + 1) xs)" by (rule arg_cong [OF split_at])
  then show ?thesis by (rule trans) simp
qed

lemma distinct_erase: "k < length xs \<Longrightarrow> distinct xs \<Longrightarrow> distinct (erase k xs) \<and> xs ! k \<notin> set (erase k xs)"
proof -
  assume "k < length xs" "distinct xs"
  then have "distinct (take k xs @ xs ! k # drop (k + 1) xs)" by (metis split_at)
  then show ?thesis by auto
qed

lemma map_erase: "map f (erase k xs) = erase k (map f xs)"
  by (simp add: take_map drop_map)

lemma set_erase: "set (erase k xs) \<subseteq> set xs"
  using set_take_subset [of k xs] set_drop_subset [of "k + 1" xs] by auto

lemma others_erase:
  assumes "k < length clients" "distinct (map client_conn clients)" "cl \<in> set (erase k clients)"
  shows "cl \<in> set clients \<and> client_conn cl \<noteq> client_conn (clients ! k)"
proof -
  have "client_conn cl \<in> set (map client_conn (erase k clients))" unfolding set_map using assms(3) by (rule imageI)
  moreover have "client_conn (clients ! k) \<notin> set (map client_conn (erase k clients))"
    using distinct_erase [of k "map client_conn clients"] assms(1,2) unfolding map_erase length_map nth_map [OF assms(1)] by blast
  ultimately have "client_conn cl \<noteq> client_conn (clients ! k)" by metis
  then show ?thesis using subsetD [OF set_erase assms(3)] by simp
qed

lemma others_update:
  assumes "k < length clients" "distinct (map client_conn clients)" "cl \<in> set (clients[k := x])" "cl \<noteq> x"
  shows "cl \<in> set clients \<and> client_conn cl \<noteq> client_conn (clients ! k)"
proof -
  have "cl \<in> set (erase k clients)" using assms(1,3,4) by (auto simp: upd_conv_take_nth_drop)
  with others_erase [OF assms(1,2)] show ?thesis .
qed

lemma map_fd_update:
  "map client_fd (clients[k := (clients ! k)\<lparr>extractor := ex\<rparr>]) = map client_fd clients"
  "map client_conn (clients[k := (clients ! k)\<lparr>extractor := ex\<rparr>]) = map client_conn clients"
  by (cases "k < length clients"; simp add: map_update list_update_same_conv list_update_beyond)+

section \<open>A turn of a client\<close>

text \<open>What a turn of the client number \<open>k\<close> may rely on for the streams.\<close>

definition fds_known :: "TcpClient list \<Rightarrow> 's net_state \<Rightarrow> bool" where
  "fds_known clients st \<longleftrightarrow> client_conn ` set clients \<subseteq> {..<length (opened_fds st)}"

lemma drained_streams:
  assumes "streams_ok clients st" "fds_known clients st" "k < length clients" "drained cb (client_conn (clients ! k)) st st1"
    and own: "stream_ok st1 (client_conn (clients ! k)) ex"
  shows "streams_ok (clients[k := (clients ! k)\<lparr>extractor := ex\<rparr>]) st1" "streams_ok (erase k clients) st1"
proof -
  let ?fd = "client_conn (clients ! k)"
  have dis: "distinct (map client_conn clients)" using assms(1) by (simp add: streams_ok_def)
  have other: "stream_ok st1 c x \<longleftrightarrow> stream_ok st c x" if "c \<noteq> ?fd" for c x
    using assms(4) that by (simp add: drained_def stream_ok_def)
  have rest: "\<exists>ex. stream_ok st1 c ex" for c
    using own other assms(1) by (cases "c = ?fd") (auto simp: streams_ok_def)
  have "?fd < length (opened_fds st)" using assms(2) nth_mem [OF assms(3)] by (auto simp: fds_known_def image_subset_iff)
  then have heard: "c < length (opened_fds st1)" if "of_conn c (heard st1) \<noteq> []" for c
    using assms(1,4) that by (cases "c = ?fd") (auto simp: streams_ok_def drained_def same_fds_def)
  have old: "stream_ok st1 (client_conn cl) (extractor cl)" if "cl \<in> set clients" "client_conn cl \<noteq> ?fd" for cl
    using assms(1) other that by (simp add: streams_ok_def)
  have "stream_ok st1 (client_conn cl) (extractor cl)" if "cl \<in> set (clients[k := (clients ! k)\<lparr>extractor := ex\<rparr>])" for cl
  proof (cases "cl = (clients ! k)\<lparr>extractor := ex\<rparr>")
    case True
    then show ?thesis using own by simp
  next
    case False
    then show ?thesis using others_update [OF assms(3) dis that] old by blast
  qed
  then show "streams_ok (clients[k := (clients ! k)\<lparr>extractor := ex\<rparr>]) st1"
    using rest heard dis by (simp add: streams_ok_def map_fd_update)
  have "stream_ok st1 (client_conn cl) (extractor cl)" if "cl \<in> set (erase k clients)" for cl
    using others_erase [OF assms(3) dis that] old by blast
  then show "streams_ok (erase k clients) st1"
    unfolding streams_ok_def map_erase using rest heard distinct_erase [OF _ dis, of k] assms(3) by auto
qed

lemma streams_ok_log [simp]:
  "streams_ok clients (net_info m st) = streams_ok clients st" "streams_ok clients (net_warning m st) = streams_ok clients st"
  "streams_ok clients (closeFd fd st) = streams_ok clients st"
  by (simp_all add: streams_ok_def stream_ok_def net_simps)

definition turn_ok :: "'s frame_callback \<Rightarrow> nat \<Rightarrow> TcpClient list \<Rightarrow> 's net_state \<Rightarrow> TcpClient list \<times> 's net_state \<times> exn option \<Rightarrow> bool" where
  "turn_ok cb k clients st res = (case res of (clients', st', e) \<Rightarrow> k \<le> length clients' \<and>
     (\<forall>others. fds_ok others clients st \<longrightarrow> fds_ok others clients' st') \<and>
     (\<forall>s0. called cb s0 st \<longrightarrow> called cb s0 st') \<and> prefix (opened_fds st) (opened_fds st') \<and>
     (fds_known clients st \<longrightarrow> fds_known clients' st' \<and>
        (e = None \<longrightarrow> streams_ok clients st \<longrightarrow> streams_ok clients' st')))"

lemma service_client_ok:
  assumes k: "k < length clients"
  shows "\<exists>res. service_client cb r recvs k clients st = Some res \<and> turn_ok cb k clients st res"
proof (cases "no_events r")
  case True
  with k show ?thesis by (simp add: service_client_def turn_ok_def)
next
  case False
  let ?cl = "clients ! k" and ?fd = "client_fd (clients ! k)" and ?c = "client_conn (clients ! k)"
  let ?d = "if ev_in r \<or> ev_hup r then drain_client cb ?c recvs (extractor ?cl) st else Some (extractor ?cl, False, None, st)"
  have "\<exists>ex closing e st1. ?d = Some (ex, closing, e, st1) \<and> drained cb ?c st st1 \<and>
     (e = None \<longrightarrow> stream_ok st ?c (extractor ?cl) \<longrightarrow> stream_ok st1 ?c ex)"
    using drain_client_effect [of cb ?c recvs "extractor ?cl" st] drained_refl [of cb ?c st] by auto
  then obtain ex closing e st1 where d: "?d = Some (ex, closing, e, st1)" and dr: "drained cb ?c st st1"
    and own: "e = None \<Longrightarrow> stream_ok st ?c (extractor ?cl) \<Longrightarrow> stream_ok st1 ?c ex" by blast
  let ?upd = "clients[k := ?cl\<lparr>extractor := ex\<rparr>]"
  have fds: "opened_fds st1 = opened_fds st" "closed_fds st1 = closed_fds st" using dr by (simp_all add: drained_def same_fds_def)
  have str: "streams_ok ?upd st1 \<and> streams_ok (erase k clients) st1" if "e = None" "streams_ok clients st" "fds_known clients st"
    using drained_streams [OF that(2,3) k dr] own that k by (simp add: streams_ok_def)
  show ?thesis
  proof (cases "e = None \<and> (ev_err r \<or> ev_nval r \<or> closing \<or> ev_hup r)")
    case True
    let ?st' = "closeFd ?fd (net_info ''TCP client disconnected'' st1)"
    have "service_client cb r recvs k clients st = Some (erase k clients, ?st', None)"
      using False True d k by (auto simp: service_client_def)
    moreover have "fds_ok others (erase k clients) ?st'" if "fds_ok others clients st" for others
      using that fds mset_erase [of k "map client_fd clients"] k unfolding fds_ok_def map_erase
      by (simp add: net_simps)
    moreover have "called cb s0 ?st'" if "called cb s0 st" for s0
      using that dr by (simp add: drained_def called_def net_simps)
    moreover have "fds_known (erase k clients) ?st'" if "fds_known clients st"
      using that fds set_erase [of k clients] by (auto simp: fds_known_def net_simps)
    moreover have "opened_fds ?st' = opened_fds st" using fds by (simp add: net_simps)
    moreover have "k \<le> length (erase k clients)" using k by simp
    ultimately show ?thesis using str True by (simp add: turn_ok_def)
  next
    case keep: False
    have "service_client cb r recvs k clients st = Some (?upd, st1, e)"
      using False keep d k by (auto simp: service_client_def split: option.split)
    moreover have "fds_ok others ?upd st1" if "fds_ok others clients st" for others
      using that fds by (simp add: fds_ok_def map_fd_update)
    moreover have "client_conn ` set ?upd = client_conn ` set clients"
      using arg_cong [OF map_fd_update(2) [of clients k ex], of set] by simp
    then have "fds_known ?upd st1" if "fds_known clients st" using that fds by (simp add: fds_known_def)
    ultimately show ?thesis using str dr k fds by (simp add: turn_ok_def drained_def)
  qed
qed

section \<open>The TCP loop\<close>

lemma turn_ok_refl: "turn_ok cb 0 clients st (clients, st, e)"
  by (simp add: turn_ok_def)

lemma turn_ok_trans:
  assumes "turn_ok cb k clients st (clients', st', None)" "turn_ok cb 0 clients' st' res"
  shows "turn_ok cb 0 clients st res"
proof -
  obtain clients'' st'' e where res: "res = (clients'', st'', e)" by (cases res)
  with assms show ?thesis unfolding turn_ok_def res prod.case
    by (blast intro: prefix_order.trans)
qed

lemma turn_ok_weaken: "turn_ok cb k clients st res \<Longrightarrow> turn_ok cb 0 clients st res"
  by (auto simp: turn_ok_def split: prod.splits)

lemma service_clients_ok:
  "k \<le> length clients \<Longrightarrow> k < length pfds \<Longrightarrow>
   \<exists>res. service_clients cb pfds recvs k clients st = Some res \<and> turn_ok cb 0 clients st res"
proof (induction k arbitrary: clients st)
  case 0
  show ?case by (simp add: turn_ok_refl)
next
  case (Suc k)
  then have "k < length clients" by simp
  then obtain res where res: "service_client cb (pfds ! Suc k) (recvs k) k clients st = Some res" "turn_ok cb k clients st res"
    using service_client_ok by blast
  obtain clients' st' e where r: "res = (clients', st', e)" by (cases res)
  show ?case
  proof (cases e)
    case (Some x)
    with res r Suc.prems turn_ok_weaken show ?thesis by simp
  next
    case None
    have "k \<le> length clients'" using res(2) r by (simp add: turn_ok_def)
    from Suc.IH [OF this Suc_lessD [OF Suc.prems(2)]] obtain res' where
      "service_clients cb pfds recvs k clients' st' = Some res'" "turn_ok cb 0 clients' st' res'" by blast
    with res r None Suc.prems(2) turn_ok_trans show ?thesis by simp blast
  qed
qed

lemma accepted_ok:
  "turn_ok cb 0 clients st (clients @ [\<lparr>client_fd = fd, client_conn = length (opened_fds st), extractor = empty_extractor\<rparr>],
     net_info m (open_fd fd st), None)"
proof -
  let ?st' = "net_info m (open_fd fd st)" and ?c = "length (opened_fds st)"
  let ?new = "\<lparr>client_fd = fd, client_conn = ?c, extractor = empty_extractor\<rparr>"
  have "streams_ok (clients @ [?new]) ?st'" if known: "fds_known clients st" and ok: "streams_ok clients st"
  proof -
    have none: "of_conn ?c (heard st) = []" using ok by (auto simp: streams_ok_def)
    obtain ex where "stream_ok st ?c ex" using ok unfolding streams_ok_def by blast
    with none have "stream_ok st ?c empty_extractor" by (simp add: stream_ok_def)
    moreover have "?c \<notin> client_conn ` set clients" using known by (auto simp: fds_known_def)
    ultimately show ?thesis using ok by (auto simp: streams_ok_def net_simps stream_ok_def less_SucI)
  qed
  then show ?thesis
    by (auto simp: turn_ok_def fds_ok_def called_def fds_known_def net_simps)
qed

lemma accept_loop_ok: "turn_ok cb 0 clients st (accept_loop as clients st)"
proof (induction as clients st rule: accept_loop.induct)
  case (2 fd failed as clients st)
  show ?case
  proof (cases failed)
    case None
    then show ?thesis using turn_ok_trans [OF accepted_ok 2] by simp
  next
    case (Some e)
    have "turn_ok cb 0 clients st (clients, closeFd fd (open_fd fd st), Some e)"
      by (auto simp: turn_ok_def fds_ok_def called_def fds_known_def net_simps)
    with Some show ?thesis by simp
  qed
next
  case (3 e as clients st)
  have "turn_ok cb 0 clients st (clients, net_warning m st, None)" for m
    by (simp add: turn_ok_def fds_ok_def called_def fds_known_def) (simp add: net_simps)
  with 3 show ?case by (cases e) (simp_all add: turn_ok_refl)
qed (simp add: turn_ok_refl)

lemma tcp_turn_ok: "\<exists>res. tcp_turn cb answer clients st = Some res \<and> turn_ok cb 0 clients st res"
proof (cases answer)
  case (Poll_ready events recvs accepts)
  let ?pfds = "map events [0..<length clients + 1]"
  obtain res where res: "service_clients cb ?pfds recvs (length clients) clients st = Some res" "turn_ok cb 0 clients st res"
    using service_clients_ok [of "length clients" clients ?pfds cb recvs st] by (auto simp del: upt_Suc) 
  obtain clients' st' e where r: "res = (clients', st', e)" by (cases res)
  show ?thesis
  proof (cases e)
    case (Some x)
    with res r Poll_ready show ?thesis by (simp add: tcp_turn_def Let_def)
  next
    case None
    have "at_ub ?pfds 0 = Some (events 0)" by (subst at_ub_in) (simp_all del: upt_Suc)
    then have "tcp_turn cb answer clients st =
        Some (if ev_in (events 0) then accept_loop accepts clients' st' else (clients', st', None))"
      using res(1) r None Poll_ready by (simp add: tcp_turn_def Let_def)
    then show ?thesis using turn_ok_trans [OF res(2) [unfolded r None] accept_loop_ok] res(2) r None by auto
  qed
qed (simp_all add: tcp_turn_def turn_ok_refl)

lemma tcp_loop_ok: "\<exists>res. tcp_loop cb answers clients st = Some res \<and> turn_ok cb 0 clients st res"
proof (induction answers arbitrary: clients st)
  case (Cons answer answers)
  obtain res where res: "tcp_turn cb answer clients st = Some res" "turn_ok cb 0 clients st res" using tcp_turn_ok by blast
  obtain clients' st' e where r: "res = (clients', st', e)" by (cases res)
  show ?case
  proof (cases e)
    case None
    obtain res' where "tcp_loop cb answers clients' st' = Some res'" "turn_ok cb 0 clients' st' res'" using Cons.IH by blast
    with res r None turn_ok_trans show ?thesis by simp blast
  qed (use res r in simp)
qed (simp add: turn_ok_refl)

section \<open>Whole runs\<close>

definition fresh_net :: "'s \<Rightarrow> 's net_state" where
  "fresh_net s = \<lparr>cb_state = s, net_log = [], opened_fds = [], closed_fds = [], heard = [], handed = []\<rparr>"

lemma fresh_net_simps [simp]:
  "cb_state (fresh_net s) = s" "opened_fds (fresh_net s) = []" "closed_fds (fresh_net s) = []" "heard (fresh_net s) = []"
  "handed (fresh_net s) = []"
  by (simp_all add: fresh_net_def)

lemma net_fields [simp]:
  "heard (net_info m st) = heard st" "handed (net_info m st) = handed st" "cb_state (net_info m st) = cb_state st"
  "opened_fds (net_info m st) = opened_fds st" "closed_fds (net_info m st) = closed_fds st"
  "heard (net_warning m st) = heard st" "handed (net_warning m st) = handed st" "cb_state (net_warning m st) = cb_state st"
  "opened_fds (net_warning m st) = opened_fds st" "closed_fds (net_warning m st) = closed_fds st"
  "heard (closeFd fd st) = heard st" "handed (closeFd fd st) = handed st" "cb_state (closeFd fd st) = cb_state st"
  "opened_fds (closeFd fd st) = opened_fds st" "closed_fds (closeFd fd st) = closed_fds st @ [fd]"
  "heard (open_fd fd st) = heard st" "handed (open_fd fd st) = handed st" "cb_state (open_fd fd st) = cb_state st"
  "opened_fds (open_fd fd st) = opened_fds st @ [fd]" "closed_fds (open_fd fd st) = closed_fds st"
  by (simp_all add: net_simps)

lemma close_clients:
  "closed_fds (fold (\<lambda>c. closeFd (client_fd c)) clients st) = closed_fds st @ map client_fd clients"
  "opened_fds (fold (\<lambda>c. closeFd (client_fd c)) clients st) = opened_fds st"
  "heard (fold (\<lambda>c. closeFd (client_fd c)) clients st) = heard st"
  "handed (fold (\<lambda>c. closeFd (client_fd c)) clients st) = handed st"
  "cb_state (fold (\<lambda>c. closeFd (client_fd c)) clients st) = cb_state st"
  by (induction clients arbitrary: st) simp_all

text \<open>Making the server socket: either it is open and nothing else has changed, or it is closed again.\<close>

lemma createBoundSocket_cases:
  assumes "createBoundSocket sys cfg st = (st', r)"
  shows "heard st' = heard st \<and> handed st' = handed st \<and> cb_state st' = cb_state st \<and>
    (case r of Inr fd \<Rightarrow> opened_fds st' = opened_fds st @ [fd] \<and> closed_fds st' = closed_fds st
     | Inl e \<Rightarrow> \<exists>fds. opened_fds st' = opened_fds st @ fds \<and> closed_fds st' = closed_fds st @ fds)"
  using assms by (auto simp: createBoundSocket_def Let_def split: sum.splits option.splits if_splits)

lemma listening_start:
  assumes "createBoundSocket sys cfg (fresh_net s) = (st, Inr fd)"
  shows "fds_ok {#fd#} [] (net_info m st)" "called cb s (net_info m st)" "fds_known [] st" "streams_ok [] (net_info m st)"
proof -
  note c = createBoundSocket_cases [OF assms]
  show "fds_ok {#fd#} [] (net_info m st)" "called cb s (net_info m st)" "fds_known [] st"
    using c by (simp_all add: fds_ok_def called_def calls_def fds_known_def)
  show "streams_ok [] (net_info m st)" using c by (simp add: streams_ok_def stream_ok_def)
qed

lemma runTcp_ok:
  "\<exists>st' e. runTcp sys cfg cb answers (fresh_net s) = Some (st', e) \<and> mset (closed_fds st') = mset (opened_fds st') \<and>
    called cb s st' \<and> (e = None \<longrightarrow> (\<forall>c. \<exists>ex. stream_ok st' c ex))"
proof -
  obtain st r where st: "createBoundSocket sys cfg (fresh_net s) = (st, r)" by fastforce
  note c = createBoundSocket_cases [OF st]
  show ?thesis
  proof (cases r)
    case (Inl e)
    with st c show ?thesis by (auto simp: runTcp_def called_def calls_def)
  next
    case (Inr fd)
    show ?thesis
    proof (cases "sys_nonblock sys = None \<and> sys_listen sys = None")
      case False
      with st Inr c show ?thesis by (cases "sys_nonblock sys") (auto simp: runTcp_def called_def calls_def)
    next
      case True
      note start = listening_start [OF st [unfolded Inr]]
      let ?st = "net_info (listening ''TCP'' cfg) st"
      obtain clients st1 e where loop: "tcp_loop cb answers [] ?st = Some (clients, st1, e)" "turn_ok cb 0 [] ?st (clients, st1, e)"
        using tcp_loop_ok [of cb answers "[]" ?st] by auto
      have "fds_known [] ?st" using start(3) by (simp add: fds_known_def)
      with loop(2) start have l: "fds_ok {#fd#} clients st1" "called cb s st1"
        "e = None \<Longrightarrow> streams_ok clients st1" by (simp_all add: turn_ok_def)
      define st2 where "st2 = closeFd fd (fold (\<lambda>c. closeFd (client_fd c)) clients st1)"
      have st2: "heard st2 = heard st1" "handed st2 = handed st1" "cb_state st2 = cb_state st1" "opened_fds st2 = opened_fds st1"
        "mset (closed_fds st2) = mset (opened_fds st1)"
        using l(1) by (simp_all add: st2_def close_clients fds_ok_def)
      have "runTcp sys cfg cb answers (fresh_net s) = Some (if e = None then net_info ''TCP receiver stopped'' st2 else st2, e)"
        using st Inr True loop(1) by (simp add: runTcp_def st2_def Let_def)
      moreover have "called cb s st2" using l(2) st2 by (simp add: called_def)
      moreover have "\<forall>c. \<exists>ex. stream_ok st2 c ex" if "e = None"
        using l(3) [OF that] st2 by (simp add: streams_ok_def stream_ok_def)
      ultimately show ?thesis using st2 by (auto simp: called_def)
    qed
  qed
qed

section \<open>UDP\<close>

definition udp_datagrams :: "udp_round list \<Rightarrow> ByteVector list" where
  "udp_datagrams rs = List.map_filter (\<lambda>r. case r of Udp_datagram d \<Rightarrow> Some d | _ \<Rightarrow> None) rs"

lemma udp_datagrams_simps [simp]:
  "udp_datagrams [] = []"
  "udp_datagrams (r # rs) = (case r of Udp_datagram d \<Rightarrow> d # udp_datagrams rs | _ \<Rightarrow> udp_datagrams rs)"
  by (simp_all add: udp_datagrams_def List.map_filter_simps split: udp_round.split)

lemma udp_datagrams_map: "udp_datagrams (map Udp_datagram ds) = ds"
  by (induction ds) simp_all

lemma udp_buffer:
  "length (take (length buf) d @ drop (length d) buf) = length buf"
  "length d \<le> length buf \<Longrightarrow> take (length d) (take (length buf) d @ drop (length d) buf) = d"
  by (simp_all add: min_def)

lemma udp_loop_effect:
  assumes "udp_loop cb fd rs buf st = (st', e)"
  shows "same_fds st st' \<and> (\<forall>s0. called cb s0 st \<longrightarrow> called cb s0 st') \<and>
    (\<exists>ds. map snd (handed st') = map snd (handed st) @ ds \<and> prefix ds (filter (\<lambda>d. length d \<le> length buf) (udp_datagrams rs)) \<and>
      (e = None \<longrightarrow> ds = filter (\<lambda>d. length d \<le> length buf) (udp_datagrams rs)))"
  using assms
proof (induction rs arbitrary: buf st)
  case Nil
  then show ?case by (simp add: same_fds_def)
next
  case (Cons r rs)
  show ?case
  proof (cases r)
    case (Udp_datagram d)
    let ?buf = "take (length buf) d @ drop (length d) buf" and ?st = "st\<lparr>heard := heard st @ [(fd, d)]\<rparr>"
    show ?thesis
    proof (cases "length d > length buf")
      case True
      with Cons.prems Udp_datagram have "udp_loop cb fd rs ?buf
          (net_warning ''UDP datagram larger than MaxFrameSize was dropped without truncation processing'' ?st) = (st', e)"
        by (simp only: udp_loop.simps Let_def udp_buffer if_True)
      from Cons.IH [OF this] True Udp_datagram show ?thesis
        by (auto simp: udp_buffer same_fds_def called_def net_simps)
    next
      case False
      then have d: "take (length d) ?buf = d" "length ?buf = length buf" by (simp_all only: udp_buffer not_less)
      obtain s x where cb: "cb (cb_state st) d = (s, x)" by fastforce
      let ?st1 = "?st\<lparr>cb_state := s, handed := handed st @ [(fd, d)]\<rparr>"
      have called: "called cb s0 ?st1" if "called cb s0 st" for s0
        using that cb by (simp add: called_def calls_def)
      have step: "udp_loop cb fd (r # rs) buf st = (case x of Some e \<Rightarrow> (?st1, Some e) | None \<Rightarrow> udp_loop cb fd rs ?buf ?st1)"
        using False cb by (simp add: Udp_datagram Let_def call_back_def split: option.split)
      show ?thesis
      proof (cases x)
        case (Some y)
        with step Cons.prems have "st' = ?st1" "e = Some y" by simp_all
        with called False Udp_datagram show ?thesis by (auto simp: same_fds_def)
      next
        case None
        with step Cons.prems have "udp_loop cb fd rs ?buf ?st1 = (st', e)" by simp
        from Cons.IH [OF this] called False Udp_datagram d(2) show ?thesis by (auto simp: same_fds_def)
      qed
    qed
  next
    case (Udp_recv_error x)
    define st1 where "st1 = (if x = EINTR \<or> x = EAGAIN then st else net_warning (''recvfrom() failed: '' @ strerror x) st)"
    have "udp_loop cb fd rs buf st1 = (st', e)" using Cons.prems by (auto simp: Udp_recv_error st1_def split: if_splits)
    moreover have "same_fds st st1" "handed st1 = handed st" "cb_state st1 = cb_state st"
      by (simp_all add: st1_def same_fds_def net_simps)
    ultimately show ?thesis using Cons.IH [of buf st1] Udp_recv_error by (simp add: same_fds_def called_def)
  qed (use Cons in \<open>auto simp: same_fds_def split: if_splits\<close>)
qed

lemma runUdp_ok:
  assumes "runUdp sys cfg cb rs (fresh_net s) = (st', e)"
  shows "mset (closed_fds st') = mset (opened_fds st') \<and> called cb s st' \<and>
    prefix (map snd (handed st')) (filter (\<lambda>d. length d \<le> MaxFrameSize) (udp_datagrams rs)) \<and>
    (e = None \<longrightarrow> map snd (handed st') = filter (\<lambda>d. length d \<le> MaxFrameSize) (udp_datagrams rs))"
proof -
  obtain st r where st: "createBoundSocket sys cfg (fresh_net s) = (st, r)" by fastforce
  note c = createBoundSocket_cases [OF st]
  show ?thesis
  proof (cases r)
    case (Inl x)
    with st c assms show ?thesis by (auto simp: runUdp_def called_def calls_def)
  next
    case (Inr fd)
    let ?st = "net_info (listening ''UDP'' cfg) st"
    obtain st1 x where loop: "udp_loop cb (length (opened_fds st) - 1) rs (replicate MaxFrameSize 0) ?st = (st1, x)" by fastforce
    have "st' = (if x = None then net_info ''UDP receiver stopped'' (closeFd fd st1) else closeFd fd st1)" "e = x"
      using assms st Inr loop by (auto simp: runUdp_def Let_def)
    moreover have "called cb s ?st" using c Inr by (simp add: called_def calls_def)
    ultimately show ?thesis using udp_loop_effect [OF loop] c Inr by (auto simp: same_fds_def called_def)
  qed
qed

section \<open>The guarantees of the server\<close>

lemma NetworkServer_run_cases:
  "\<exists>st' e. NetworkServer_run sys cfg cb us ts (fresh_net s) = Some (st', e) \<and> mset (closed_fds st') = mset (opened_fds st') \<and>
    called cb s st'"
proof (cases "net_transport cfg = Udp")
  case True
  obtain st' e where "runUdp sys cfg cb us (fresh_net s) = (st', e)" by fastforce
  with runUdp_ok [OF this] True show ?thesis by (auto simp: NetworkServer_run_def)
next
  case False
  with runTcp_ok [of sys cfg cb ts s] show ?thesis by (auto simp: NetworkServer_run_def)
qed

text \<open>C5: whatever the system answers, whatever the peers send and whether or not the callback raises,
  a run of the server makes no access outside a vector although clients are erased and accepted while
  the snapshot of \<open>poll\<close> is worked off; at its end every descriptor it has opened has been closed
  exactly once, and the state of the callback is the result of the frames handed over, in order.\<close>

theorem server_releases_descriptors:
  "\<exists>st' e. NetworkServer_run sys cfg cb udp_rounds tcp_rounds (fresh_net s) = Some (st', e) \<and>
     mset (closed_fds st') = mset (opened_fds st') \<and>
     cb_state st' = foldl (\<lambda>s frame. fst (cb s frame)) s (map snd (handed st'))"
  using NetworkServer_run_cases by (auto simp: called_def calls_def)

text \<open>C6: in a run that ends on request, each TCP connection is extracted as if it were alone, however its fragments are
  interleaved with those of other clients and with clients that come and go, also when descriptors are used
  again: the frames handed over for it are what
  one extractor finds in all the bytes received on it; if these bytes are encoded frames, exactly those frames are handed over, and they decode to what was
  encoded. (A run that ends with an exception of the callback or of \<open>poll\<close> may keep back the last frames it extracted.)\<close>

theorem tcp_clients_independent:
  assumes "net_transport cfg = Tcp"
    and "NetworkServer_run sys cfg cb udp_rounds tcp_rounds (fresh_net s) = Some (st', None)"
  shows "(\<exists>ex. feed empty_extractor (concat (of_conn c (heard st'))) = Some (ex, of_conn c (handed st'))) \<and>
    (\<forall>fs bss. list_all2 (\<lambda>f bs. encodeFrame f = Inr bs) fs bss \<longrightarrow> concat (of_conn c (heard st')) = concat bss \<longrightarrow>
      of_conn c (handed st') = bss \<and> map decodeFrame (of_conn c (handed st')) = map (\<lambda>f. Some (Inr f)) fs)"
proof -
  from assms runTcp_ok [of sys cfg cb tcp_rounds s]
  obtain ex where ex: "feed_all empty_extractor (of_conn c (heard st')) = Some (ex, of_conn c (handed st'))"
    by (auto simp: NetworkServer_run_def stream_ok_def)
  moreover have "of_conn c (handed st') = bss \<and> map decodeFrame bss = map (\<lambda>f. Some (Inr f)) fs"
    if "list_all2 (\<lambda>f bs. encodeFrame f = Inr bs) fs bss" "concat (of_conn c (heard st')) = concat bss" for fs bss
    using feed_all_encoded [OF that] ex by simp
  ultimately show ?thesis by (auto simp: feed_all_empty)
qed

text \<open>A run with three clients: two connect, both send a frame, the second hangs up with the other's data pending; the
  third gets the descriptor of the second and sends a frame.\<close>

definition sample_sys :: server_sys where
  "sample_sys = \<lparr>sys_socket = Inr 3, sys_reuse = None, sys_inet_pton = (\<lambda>_. Some 0), sys_bind = None,
     sys_nonblock = None, sys_listen = None\<rparr>"

definition sample_cfg :: "Transport \<Rightarrow> NetworkConfig" where
  "sample_cfg t = \<lparr>net_transport = t, net_bindAddress = ''0.0.0.0'', net_port = 9000, pollTimeoutMs = 250\<rparr>"

definition keep_frames :: "ByteVector list frame_callback" where
  "keep_frames s frame = (s @ [frame], None)"

definition sample_rounds :: "tcp_round list" where
  "sample_rounds =
     [Poll_ready (\<lambda>_. \<lparr>ev_in = True, ev_hup = False, ev_err = False, ev_nval = False\<rparr>) (\<lambda>_. []) [Accepted 4 None, Accepted 5 None],
      Poll_timeout,
      Poll_ready (\<lambda>i. \<lparr>ev_in = (i > 0), ev_hup = (i = 2), ev_err = False, ev_nval = False\<rparr>)
        (\<lambda>_. [Recv_data (frame_bytes sample_frame), Recv_error EAGAIN]) [],
      Poll_ready (\<lambda>i. \<lparr>ev_in = (i = 0), ev_hup = False, ev_err = False, ev_nval = False\<rparr>) (\<lambda>_. []) [Accepted 5 None],
      Poll_ready (\<lambda>i. \<lparr>ev_in = (i = 2), ev_hup = False, ev_err = False, ev_nval = False\<rparr>)
        (\<lambda>_. [Recv_data (frame_bytes sample_frame), Recv_error EAGAIN]) []]"

lemma sample_feed: "feed empty_extractor (frame_bytes sample_frame) = Some (empty_extractor, [frame_bytes sample_frame])"
  using feed_all_encoded [of "[sample_frame]" "[frame_bytes sample_frame]" "[frame_bytes sample_frame]"]
  by (auto simp: encodeFrame_eq sample_frame_valid split: Option.bind_splits)

lemma sample_frame_length: "length (frame_bytes sample_frame) \<le> 200" "frame_bytes sample_frame \<noteq> []"
proof -
  show "length (frame_bytes sample_frame) \<le> 200" by (simp add: length_frame_bytes sample_frame_def)
  have "length (frame_bytes sample_frame) > 0" by (simp add: length_frame_bytes)
  then show "frame_bytes sample_frame \<noteq> []" by auto
qed

definition sample_end :: "ByteVector list net_state" where
  "sample_end = \<lparr>cb_state = [frame_bytes sample_frame, frame_bytes sample_frame, frame_bytes sample_frame],
     net_log = [(Info, listening ''TCP'' (sample_cfg Tcp)), (Info, ''TCP client connected''), (Info, ''TCP client connected''),
       (Info, ''TCP client disconnected''), (Info, ''TCP client connected''), (Info, ''TCP receiver stopped'')],
     opened_fds = [3, 4, 5, 5], closed_fds = [5, 4, 5, 3],
     heard = [(2, frame_bytes sample_frame), (1, frame_bytes sample_frame), (3, frame_bytes sample_frame)],
     handed = [(2, frame_bytes sample_frame), (1, frame_bytes sample_frame), (3, frame_bytes sample_frame)]\<rparr>"

lemma sample_net_run:
  "NetworkServer_run sample_sys (sample_cfg Tcp) keep_frames [] sample_rounds (fresh_net []) = Some (sample_end, None)"
  using sample_frame_length
  by (simp add: NetworkServer_run_def sample_cfg_def runTcp_def createBoundSocket_def sample_sys_def sample_rounds_def tcp_turn_def
      service_client_def no_events_def at_ub_def TcpReadBufferSize_def sample_feed call_back_def keep_frames_def net_simps fresh_net_def
      listening_def sample_end_def Let_def numeral_2_eq_2)

theorem tcp_clients_independent_witness:
  "(\<exists>ex. feed empty_extractor (concat (of_conn 3 (heard sample_end))) = Some (ex, of_conn 3 (handed sample_end))) \<and>
   of_conn 3 (handed sample_end) = [frame_bytes sample_frame] \<and>
   map decodeFrame (of_conn 3 (handed sample_end)) = map (\<lambda>f. Some (Inr f)) [sample_frame] \<and>
   opened_fds sample_end ! 2 = opened_fds sample_end ! 3"
proof -
  have "list_all2 (\<lambda>f bs. encodeFrame f = Inr bs) [sample_frame] [frame_bytes sample_frame]"
    by (simp add: encodeFrame_eq sample_frame_valid)
  moreover have "concat (of_conn 3 (heard sample_end)) = concat [frame_bytes sample_frame]" by (simp add: sample_end_def)
  moreover have "net_transport (sample_cfg Tcp) = Tcp" by (simp add: sample_cfg_def)
  moreover have "opened_fds sample_end ! 2 = opened_fds sample_end ! 3" by (simp add: sample_end_def)
  ultimately show ?thesis using tcp_clients_independent [OF _ sample_net_run, of 3] by blast
qed

lemma udp_loop_quiet:
  assumes "\<And>s f. snd (cb s f) = None"
  shows "(\<forall>e. Udp_poll_error e \<notin> set rs) \<Longrightarrow> snd (udp_loop cb fd rs buf st) = None"
proof (induction rs arbitrary: buf st)
  case (Cons r rs)
  have "snd (call_back cb fd f st) = None" for f st using assms [of "cb_state st" f] by (auto simp: call_back_def split: prod.split)
  then have "call_back cb fd f st = (fst (call_back cb fd f st), None)" for f st by (metis prod.collapse)
  then have "(case call_back cb fd f st of (st, None) \<Rightarrow> k st | (st, Some e) \<Rightarrow> (st, Some e)) = k (fst (call_back cb fd f st))" for f st k
    by (metis (no_types, lifting) case_prod_conv option.simps(4))
  with Cons show ?case by (cases r) (auto simp: Let_def)
qed simp

lemma sample_udp_run:
  assumes "\<forall>e. Udp_poll_error e \<notin> set rs"
  shows "\<exists>st'. NetworkServer_run sample_sys (sample_cfg Udp) keep_frames rs [] (fresh_net []) = Some (st', None)"
proof -
  have "snd (udp_loop keep_frames c rs buf st) = None" for c buf and st
    by (rule udp_loop_quiet) (simp_all add: keep_frames_def assms)
  then have "snd (runUdp sample_sys (sample_cfg Udp) keep_frames rs (fresh_net [])) = None"
    by (simp add: sample_cfg_def runUdp_def createBoundSocket_def sample_sys_def split_beta Let_def)
  then show ?thesis by (metis NetworkServer_run_def NetworkConfig.select_convs(1) prod.collapse sample_cfg_def)
qed

text \<open>A UDP run hands over exactly the datagrams received of at most \<open>MaxFrameSize\<close> bytes, each
  unchanged and in order, and drops the larger ones whole; if the callback or \<open>poll\<close> fails it has
  handed over a prefix of these.\<close>

theorem udp_datagrams_exact:
  assumes "net_transport cfg = Udp"
    and "NetworkServer_run sys cfg cb udp_rounds tcp_rounds (fresh_net s) = Some (st', e)"
  shows "prefix (map snd (handed st')) (filter (\<lambda>d. length d \<le> MaxFrameSize) (udp_datagrams udp_rounds)) \<and>
    (e = None \<longrightarrow> map snd (handed st') = filter (\<lambda>d. length d \<le> MaxFrameSize) (udp_datagrams udp_rounds))"
  using assms runUdp_ok [of sys cfg cb udp_rounds s st' e] by (simp add: NetworkServer_run_def)

theorem udp_datagrams_exact_witness:
  "\<exists>st'. NetworkServer_run sample_sys (sample_cfg Udp) keep_frames [Udp_timeout, Udp_datagram [1, 2], Udp_datagram (replicate 5000 0), Udp_datagram [3]]
      [] (fresh_net []) = Some (st', None) \<and> map snd (handed st') = [[1, 2], [3]]"
proof -
  define large :: ByteVector where "large = replicate 5000 0"
  let ?us = "[Udp_timeout, Udp_datagram [1, 2], Udp_datagram large, Udp_datagram [3]]"
  have "length large = 5000" by (simp only: large_def length_replicate)
  note large = this
  have size: "MaxFrameSize < 5000" "2 \<le> MaxFrameSize" by (simp_all add: wire_simps)
  obtain st' where st': "NetworkServer_run sample_sys (sample_cfg Udp) keep_frames ?us [] (fresh_net []) = Some (st', None)"
    using sample_udp_run [of ?us] by auto
  have "net_transport (sample_cfg Udp) = Udp" by (simp add: sample_cfg_def)
  from udp_datagrams_exact [OF this st'] large size
  have "map snd (handed st') = [[1, 2], [3]]" by simp
  then show ?thesis using st' [unfolded large_def] by (intro exI [of _ st'] conjI)
qed

end
