(* ===== verification/Port_Diagnostics.thy ===== *)
theory Port_Diagnostics
  imports Simulator Network_Server
begin

text \<open>
  Model of \<open>include/stgs/PortDiagnostics.hpp\<close>, \<open>src/PortDiagnostics.cpp\<close> and \<open>apps/port_check.cpp\<close>, and
  of their clients \<open>selectAutomaticPort\<close> (\<open>GroundStationApp.cpp\<close>) and \<open>discoverPort\<close>
  (\<open>SimulatorApp.cpp\<close>). What the system answers for a port is a value; the text of an error number is
  part of the answer. Ports are natural numbers, with the cast to 16 bits written out.
\<close>

section \<open>Data\<close>

datatype PortTransport = Port_Tcp | Port_Udp

record TcpPortProbeResult =
  probe_port :: nat
  probe_state :: TcpPortState
  latencyMs :: double
  probe_detail :: string

record LocalPortAvailability =
  local_port :: nat
  available :: bool
  local_detail :: string

fun tcpPortStateToString :: "TcpPortState \<Rightarrow> string" where
  "tcpPortStateToString Port_Open = ''OPEN''"
| "tcpPortStateToString Port_Closed = ''CLOSED''"
| "tcpPortStateToString Port_Timeout = ''TIMEOUT''"
| "tcpPortStateToString Port_Error = ''ERROR''"

fun exn_what :: "exn \<Rightarrow> string" where
  "exn_what (invalid_argument m) = m"
| "exn_what (runtime_error m) = m"
| "exn_what (system_error m) = m"

section \<open>Answers of the system\<close>

datatype so_error = So_none | So_refused | So_other string
datatype pollout_answer = Pollout_timeout | Pollout_failed string | Pollout_ready "string + so_error"
datatype connect_answer = Connected | In_progress pollout_answer | Refused | Connect_failed string

record probe_sys =
  probe_socket :: "string option"
  probe_nonblocking :: bool
  probe_connect :: connect_answer
  probe_elapsed :: double

datatype bind_answer = Bound | Address_in_use | Bind_failed string

record bind_sys =
  bind_socket :: "string option"
  bind_result :: bind_answer

section \<open>Validation\<close>

definition makeAddress :: "(string \<Rightarrow> u32 option) \<Rightarrow> string \<Rightarrow> nat \<Rightarrow> (u32 \<times> nat) result" where
  "makeAddress inet_pton address prt =
     (case inet_pton address of None \<Rightarrow> Inl (runtime_error (''invalid IPv4 address: '' @ address))
      | Some a \<Rightarrow> Inr (a, prt))"

definition makeNonBlocking :: "probe_sys \<Rightarrow> unit result" where
  "makeNonBlocking sys =
     (if probe_nonblocking sys then Inr () else Inl (runtime_error ''failed to configure non-blocking probe socket''))"

definition validateDiagnosticPort :: "nat \<Rightarrow> unit result" where
  "validateDiagnosticPort prt =
     (if prt < MinimumNetworkPort then Inl (invalid_argument ''diagnostic port must be in the user network-port range'')
      else Inr ())"

definition validateDiagnosticRange :: "PortRange \<Rightarrow> unit result" where
  "validateDiagnosticRange r =
     (if range_first r < MinimumNetworkPort \<or> range_last r < MinimumNetworkPort \<or> range_first r > range_last r
      then Inl (invalid_argument ''diagnostic port range is invalid'')
      else if range_count r > MaxDiagnosticPortCount
      then Inl (invalid_argument ''port diagnostic range exceeds MaxDiagnosticPortCount'')
      else Inr ())"

section \<open>Probing TCP ports\<close>

fun classify_poll :: "pollout_answer \<Rightarrow> TcpPortState \<times> string" where
  "classify_poll Pollout_timeout = (Port_Timeout, ''connection attempt timed out'')"
| "classify_poll (Pollout_failed m) = (Port_Error, ''poll(): '' @ m)"
| "classify_poll (Pollout_ready (Inl m)) = (Port_Error, ''getsockopt(SO_ERROR): '' @ m)"
| "classify_poll (Pollout_ready (Inr So_none)) = (Port_Open, ''TCP listener accepted the connection'')"
| "classify_poll (Pollout_ready (Inr So_refused)) = (Port_Closed, ''connection refused'')"
| "classify_poll (Pollout_ready (Inr (So_other m))) = (Port_Error, m)"

fun classify_connect :: "connect_answer \<Rightarrow> TcpPortState \<times> string" where
  "classify_connect Connected = (Port_Open, ''TCP listener accepted the connection'')"
| "classify_connect (In_progress p) = classify_poll p"
| "classify_connect Refused = (Port_Closed, ''connection refused'')"
| "classify_connect (Connect_failed m) = (Port_Error, m)"

definition probeTcpPort ::
    "(string \<Rightarrow> u32 option) \<Rightarrow> (nat \<Rightarrow> probe_sys) \<Rightarrow> string \<Rightarrow> nat \<Rightarrow> nat \<Rightarrow> TcpPortProbeResult result" where
  "probeTcpPort inet_pton sys host prt timeout =
     (if \<not> isLoopbackIpv4 inet_pton host
      then Inl (invalid_argument ''port diagnostics are intentionally restricted to IPv4 loopback'')
      else bind_r (validateDiagnosticPort prt) (\<lambda>_.
        if timeout = 0 \<or> timeout > MaximumPortProbeTimeout
        then Inl (invalid_argument ''port probe timeout must be in the 1..60000 ms range'')
        else
          let normalizedHost = (if host = ''localhost'' then ''127.0.0.1'' else host)
          in case probe_socket (sys prt) of
               Some m \<Rightarrow> Inr \<lparr>probe_port = prt, probe_state = Port_Error, latencyMs = Fin 0, probe_detail = ''socket(): '' @ m\<rparr>
             | None \<Rightarrow>
                 let (st, d) = (case bind_r (makeNonBlocking (sys prt)) (\<lambda>_. makeAddress inet_pton normalizedHost prt) of
                                  Inl e \<Rightarrow> (Port_Error, exn_what e)
                                | Inr _ \<Rightarrow> classify_connect (probe_connect (sys prt)))
                 in Inr \<lparr>probe_port = prt, probe_state = st, latencyMs = probe_elapsed (sys prt), probe_detail = d\<rparr>))"

text \<open>The loop variable has 32 bits, so it passes the largest port.\<close>

function scan_loop ::
    "(string \<Rightarrow> u32 option) \<Rightarrow> (nat \<Rightarrow> probe_sys) \<Rightarrow> string \<Rightarrow> nat \<Rightarrow> nat \<Rightarrow> nat \<Rightarrow> TcpPortProbeResult list \<Rightarrow>
     TcpPortProbeResult list result" where
  "scan_loop inet_pton sys host lst timeout prt results =
     (if prt \<le> lst
      then case probeTcpPort inet_pton sys host (prt mod 2 ^ 16) timeout of
          Inl e \<Rightarrow> Inl e
        | Inr r \<Rightarrow> scan_loop inet_pton sys host lst timeout (prt + 1) (results @ [r])
      else Inr results)"
  by pat_completeness auto
termination by (relation "measure (\<lambda>(_, _, _, lst, _, prt, _). lst + 1 - prt)") auto

declare scan_loop.simps [simp del]

definition scanTcpPorts ::
    "(string \<Rightarrow> u32 option) \<Rightarrow> (nat \<Rightarrow> probe_sys) \<Rightarrow> string \<Rightarrow> PortRange \<Rightarrow> nat \<Rightarrow> TcpPortProbeResult list result" where
  "scanTcpPorts inet_pton sys host r timeout =
     (if \<not> isLoopbackIpv4 inet_pton host
      then Inl (invalid_argument ''port scan is intentionally restricted to IPv4 loopback'')
      else bind_r (validateDiagnosticRange r)
        (\<lambda>_. scan_loop inet_pton sys host (range_last r) timeout (range_first r) []))"

text \<open>The scanner in the form the simulator uses it.\<close>

definition simulator_scan :: "(string \<Rightarrow> u32 option) \<Rightarrow> (nat \<Rightarrow> probe_sys) \<Rightarrow> port_scan" where
  "simulator_scan inet_pton sys host r timeout =
     bind_r (scanTcpPorts inet_pton sys host r timeout) (\<lambda>rs. Inr (map (\<lambda>p. (probe_port p, probe_state p)) rs))"

section \<open>Looking for a free port\<close>

definition checkLocalPortAvailability ::
    "(string \<Rightarrow> u32 option) \<Rightarrow> (PortTransport \<Rightarrow> nat \<Rightarrow> bind_sys) \<Rightarrow> string \<Rightarrow> nat \<Rightarrow> PortTransport \<Rightarrow>
     LocalPortAvailability result" where
  "checkLocalPortAvailability inet_pton sys address prt tr =
     bind_r (validateDiagnosticPort prt) (\<lambda>_.
       let result = \<lparr>local_port = prt, available = False, local_detail = ''''\<rparr>
       in Inr (case bind_socket (sys tr prt) of
                 Some m \<Rightarrow> result\<lparr>local_detail := ''socket(): '' @ m\<rparr>
               | None \<Rightarrow>
                   (case makeAddress inet_pton address prt of
                      Inl e \<Rightarrow> result\<lparr>local_detail := exn_what e\<rparr>
                    | Inr _ \<Rightarrow>
                        (case bind_result (sys tr prt) of
                           Bound \<Rightarrow> result\<lparr>available := True, local_detail := ''available for bind''\<rparr>
                         | Address_in_use \<Rightarrow> result\<lparr>local_detail := ''already in use''\<rparr>
                         | Bind_failed m \<Rightarrow> result\<lparr>local_detail := ''bind(): '' @ m\<rparr>))))"

function find_loop ::
    "(string \<Rightarrow> u32 option) \<Rightarrow> (PortTransport \<Rightarrow> nat \<Rightarrow> bind_sys) \<Rightarrow> string \<Rightarrow> PortTransport \<Rightarrow> nat \<Rightarrow> nat \<Rightarrow>
     LocalPortAvailability list \<Rightarrow> (nat option \<times> LocalPortAvailability list) result" where
  "find_loop inet_pton sys address tr lst prt report =
     (if prt \<le> lst
      then case checkLocalPortAvailability inet_pton sys address (prt mod 2 ^ 16) tr of
          Inl e \<Rightarrow> Inl e
        | Inr result \<Rightarrow>
            if available result then Inr (Some (prt mod 2 ^ 16), report @ [result])
            else find_loop inet_pton sys address tr lst (prt + 1) (report @ [result])
      else Inr (None, report))"
  by pat_completeness auto
termination by (relation "measure (\<lambda>(_, _, _, _, lst, prt, _). lst + 1 - prt)") auto

declare find_loop.simps [simp del]

definition findFirstAvailableLocalPort ::
    "(string \<Rightarrow> u32 option) \<Rightarrow> (PortTransport \<Rightarrow> nat \<Rightarrow> bind_sys) \<Rightarrow> string \<Rightarrow> PortRange \<Rightarrow> PortTransport \<Rightarrow>
     (nat option \<times> LocalPortAvailability list) result" where
  "findFirstAvailableLocalPort inet_pton sys address r tr =
     bind_r (validateDiagnosticRange r) (\<lambda>_. find_loop inet_pton sys address tr (range_last r) (range_first r) [])"

section \<open>The terminal\<close>

datatype TerminalStatus = Term_Info | Term_Success | Term_Warning | Term_Error

datatype ui_call = Ui_section string | Ui_keyValue string string | Ui_statusLine TerminalStatus string string

section \<open>Choosing the port of the station\<close>

definition report_entry :: "LocalPortAvailability \<Rightarrow> ui_call" where
  "report_entry e = Ui_keyValue (''port '' @ show_nat (local_port e))
     ((if available e then ''AVAILABLE'' else ''BUSY/ERROR'') @ '' / '' @ local_detail e)"

definition selectAutomaticPort ::
    "(string \<Rightarrow> u32 option) \<Rightarrow> (PortTransport \<Rightarrow> nat \<Rightarrow> bind_sys) \<Rightarrow> Options \<Rightarrow> ui_call list \<times> Options result" where
  "selectAutomaticPort inet_pton sys o' =
     (case autoPortRange o' of
        None \<Rightarrow> ([], Inr o')
      | Some r \<Rightarrow>
          (let ui = [Ui_section ''LOCAL PORT SELECTION'']
           in case findFirstAvailableLocalPort inet_pton sys (bindAddress o') r Port_Tcp of
                Inl e \<Rightarrow> (ui, Inl e)
              | Inr (selected, report) \<Rightarrow>
                  (let ui = ui @ map report_entry report
                   in case selected of
                        None \<Rightarrow> (ui, Inl (runtime_error ''no bindable port found in --auto-port range''))
                      | Some p \<Rightarrow> (ui @ [Ui_keyValue ''selected'' (show_nat p)], Inr (o'\<lparr>port := p\<rparr>)))))"

text \<open>The server \<open>receiveNetwork\<close> makes from the options.\<close>

definition receiveNetwork_config :: "Options \<Rightarrow> NetworkConfig result" where
  "receiveNetwork_config o' =
     NetworkServer_ctor \<lparr>net_transport = the (transport o'), net_bindAddress = bindAddress o', net_port = port o',
       pollTimeoutMs = DefaultNetworkPollTimeoutMs\<rparr>"

section \<open>The program \<open>stgs_port_check\<close>\<close>

definition DefaultDiagnosticFirstPort :: nat where "DefaultDiagnosticFirstPort = 9000"
definition DefaultDiagnosticLastPort :: nat where "DefaultDiagnosticLastPort = 9010"

record CheckOptions =
  check_host :: string
  check_ports :: PortRange
  check_timeout :: nat
  check_color :: bool

definition default_CheckOptions :: CheckOptions where
  "default_CheckOptions = \<lparr>check_host = ''127.0.0.1'',
     check_ports = \<lparr>range_first = DefaultDiagnosticFirstPort, range_last = DefaultDiagnosticLastPort\<rparr>,
     check_timeout = DefaultPortProbeTimeout, check_color = True\<rparr>"

definition check_step :: "string \<Rightarrow> string list \<Rightarrow> CheckOptions \<Rightarrow> (CheckOptions \<times> string list) result" where
  "check_step arg rest o' =
     (if arg = ''--host'' then take_value arg rest Inr (\<lambda>v. o'\<lparr>check_host := v\<rparr>)
      else if arg = ''--ports'' then take_value arg rest (\<lambda>v. parsePortRange v ''--ports'') (\<lambda>v. o'\<lparr>check_ports := v\<rparr>)
      else if arg = ''--timeout-ms''
      then take_value arg rest (\<lambda>v. parseUnsigned 4294967295 v ''--timeout-ms'' 1 MaximumPortProbeTimeout) (\<lambda>v. o'\<lparr>check_timeout := v\<rparr>)
      else if arg = ''--no-color'' then Inr (o'\<lparr>check_color := False\<rparr>, rest)
      else Inl (runtime_error (''unknown option: '' @ arg)))"

lemma check_step_shorter: "check_step arg rest o' = Inr (p, rest') \<Longrightarrow> length rest' \<le> length rest"
  by (auto simp: check_step_def split: if_split_asm dest: take_value_shorter less_imp_le)

function check_args_loop :: "string list \<Rightarrow> CheckOptions \<Rightarrow> CheckOptions option result" where
  "check_args_loop [] o' = Inr (Some o')"
| "check_args_loop (arg # rest) o' =
     (if arg = ''--help'' \<or> arg = ''-h'' then Inr None
      else case check_step arg rest o' of Inl e \<Rightarrow> Inl e | Inr (p, rest') \<Rightarrow> check_args_loop rest' p)"
  by pat_completeness auto
termination by (relation "measure (\<lambda>(args, _). length args)") (auto dest: check_step_shorter)

definition check_parseArgs :: "(string \<Rightarrow> u32 option) \<Rightarrow> string list \<Rightarrow> CheckOptions option result" where
  "check_parseArgs inet_pton args =
     (case check_args_loop args default_CheckOptions of
        Inl e \<Rightarrow> Inl e
      | Inr None \<Rightarrow> Inr None
      | Inr (Some o') \<Rightarrow>
          if \<not> isLoopbackIpv4 inet_pton (check_host o')
          then Inl (runtime_error ''--host is intentionally restricted to IPv4 loopback'')
          else if range_count (check_ports o') > MaxDiagnosticPortCount
          then Inl (runtime_error ''--ports exceeds MaxDiagnosticPortCount'')
          else Inr (Some o'))"

fun visual_status :: "TcpPortState \<Rightarrow> TerminalStatus" where
  "visual_status Port_Open = Term_Success"
| "visual_status Port_Closed = Term_Info"
| "visual_status Port_Timeout = Term_Warning"
| "visual_status Port_Error = Term_Error"

text \<open>\<open>main\<close>: what it shows, the line on the error stream, and the exit code; \<open>fixed2\<close> prints a latency
  with two decimals. \<open>--help\<close> shows the usage text, left out, and exits with 0.\<close>

definition check_line :: "(double \<Rightarrow> string) \<Rightarrow> TcpPortProbeResult \<Rightarrow> ui_call" where
  "check_line fixed2 r = Ui_statusLine (visual_status (probe_state r))
     (''port '' @ show_nat (probe_port r) @ '' / '' @ tcpPortStateToString (probe_state r))
     (fixed2 (latencyMs r) @ '' ms'' @ '' / '' @ probe_detail r)"

definition check_main ::
    "(string \<Rightarrow> u32 option) \<Rightarrow> (nat \<Rightarrow> probe_sys) \<Rightarrow> (double \<Rightarrow> string) \<Rightarrow> string list \<Rightarrow> ui_call list \<times> string \<times> nat" where
  "check_main inet_pton sys fixed2 args =
     (case check_parseArgs inet_pton args of
        Inl e \<Rightarrow> ([], ''error: '' @ exn_what e @ [CHR 0x0A], 1)
      | Inr None \<Rightarrow> ([], '''', 0)
      | Inr (Some o') \<Rightarrow>
          (let ui = [Ui_section ''STGS PORT CHECK'', Ui_keyValue ''target'' (check_host o'),
                     Ui_keyValue ''range'' (show_nat (range_first (check_ports o')) @ '':'' @ show_nat (range_last (check_ports o'))),
                     Ui_keyValue ''timeout'' (show_nat (check_timeout o') @ '' ms / port'')]
           in case scanTcpPorts inet_pton sys (check_host o') (check_ports o') (check_timeout o') of
                Inl e \<Rightarrow> (ui, ''error: '' @ exn_what e @ [CHR 0x0A], 1)
              | Inr results \<Rightarrow>
                  (let openCount = length (filter (\<lambda>r. probe_state r = Port_Open) results)
                   in (ui @ [Ui_section ''REPORT''] @ map (check_line fixed2) results @
                       [Ui_section ''SUMMARY'', Ui_keyValue ''ports tested'' (show_nat (length results)),
                        Ui_keyValue ''TCP listeners'' (show_nat openCount),
                        Ui_keyValue ''interpretation'' ''OPEN = TCP listener reachable; service identity is not inferred''],
                       '''', 0))))"

end
