(* ===== verification/Port_Correct.thy ===== *)
theory Port_Correct
  imports Port_Diagnostics
begin

text \<open>
  The port diagnostics: scans report every port of the range once, the search for a free port returns
  the lowest one, and options accepted by the command lines never make them refuse.
\<close>

section \<open>Single ports\<close>

text \<open>What the answers of the system mean: a listener was reached, or the port could be bound.\<close>

definition listener_at :: "(string \<Rightarrow> u32 option) \<Rightarrow> (nat \<Rightarrow> probe_sys) \<Rightarrow> string \<Rightarrow> nat \<Rightarrow> bool" where
  "listener_at inet_pton sys host p \<longleftrightarrow> probe_socket (sys p) = None \<and> probe_nonblocking (sys p) \<and>
     inet_pton (if host = ''localhost'' then ''127.0.0.1'' else host) \<noteq> None \<and>
     probe_connect (sys p) \<in> {Connected, In_progress (Pollout_ready (Inr So_none))}"

definition bindable :: "(string \<Rightarrow> u32 option) \<Rightarrow> (PortTransport \<Rightarrow> nat \<Rightarrow> bind_sys) \<Rightarrow> string \<Rightarrow> PortTransport \<Rightarrow> nat \<Rightarrow> bool" where
  "bindable inet_pton sys address tr p \<longleftrightarrow>
     bind_socket (sys tr p) = None \<and> inet_pton address \<noteq> None \<and> bind_result (sys tr p) = Bound"

abbreviation ports_of :: "PortRange \<Rightarrow> nat list" where
  "ports_of r \<equiv> [range_first r..<range_last r + 1]"

lemma open_iff:
  "fst (classify_connect c) = Port_Open \<longleftrightarrow> c \<in> {Connected, In_progress (Pollout_ready (Inr So_none))}"
  by (cases c rule: classify_connect.cases; simp; rename_tac q; case_tac q rule: classify_poll.cases) simp_all

lemma probe_result:
  assumes "isLoopbackIpv4 inet_pton host" and "1 \<le> p" and "1 \<le> t" and "t \<le> 60000"
  shows "\<exists>r. probeTcpPort inet_pton sys host p t = Inr r \<and> probe_port r = p \<and>
    (probe_state r = Port_Open \<longleftrightarrow> listener_at inet_pton sys host p)"
proof -
  obtain st d where c: "classify_connect (probe_connect (sys p)) = (st, d)" by fastforce
  with open_iff [of "probe_connect (sys p)"] have
    "st = Port_Open \<longleftrightarrow> probe_connect (sys p) \<in> {Connected, In_progress (Pollout_ready (Inr So_none))}" by simp
  with c assms show ?thesis
    by (auto simp: probeTcpPort_def validateDiagnosticPort_def MinimumNetworkPort_def MaximumPortProbeTimeout_def bind_r_def
        makeNonBlocking_def makeAddress_def listener_at_def Let_def split: option.split)
qed

lemma availability_result:
  assumes "1 \<le> p"
  shows "\<exists>r. checkLocalPortAvailability inet_pton sys address p tr = Inr r \<and> local_port r = p \<and>
    (available r \<longleftrightarrow> bindable inet_pton sys address tr p)"
  using assms by (auto simp: checkLocalPortAvailability_def validateDiagnosticPort_def MinimumNetworkPort_def bind_r_def
      makeAddress_def bindable_def Let_def split: option.split bind_answer.split)

section \<open>Ranges\<close>

lemma range_accepted:
  assumes "range_valid r" and "range_count r \<le> 256"
  shows "validateDiagnosticRange r = Inr ()"
  using assms by (simp add: validateDiagnosticRange_def range_valid_def MaxDiagnosticPortCount_def)

lemma scan_loop_result:
  assumes "isLoopbackIpv4 inet_pton host" and "1 \<le> t" and "t \<le> 60000" and "lst < 2 ^ 16"
  shows "1 \<le> p \<Longrightarrow> \<exists>rs. scan_loop inet_pton sys host lst t p results = Inr (results @ rs) \<and> map probe_port rs = [p..<lst + 1] \<and>
    list_all (\<lambda>r. probe_state r = Port_Open \<longleftrightarrow> listener_at inet_pton sys host (probe_port r)) rs"
proof (induction "lst + 1 - p" arbitrary: p results)
  case 0
  then show ?case by (subst scan_loop.simps) auto
next
  case (Suc n)
  then have p: "p \<le> lst" "p mod 2 ^ 16 = p" using assms(4) by simp_all
  obtain r where r: "probeTcpPort inet_pton sys host p t = Inr r" "probe_port r = p"
    "probe_state r = Port_Open \<longleftrightarrow> listener_at inet_pton sys host p"
    using probe_result [OF assms(1) Suc.prems assms(2,3)] by blast
  have "n = lst + 1 - (p + 1)" "1 \<le> p + 1" using Suc.hyps(2) by simp_all
  from Suc.hyps(1) [OF this, of "results @ [r]"] obtain rs where rs:
    "scan_loop inet_pton sys host lst t (p + 1) (results @ [r]) = Inr (results @ r # rs)" "map probe_port rs = [p + 1..<lst + 1]"
    "list_all (\<lambda>r. probe_state r = Port_Open \<longleftrightarrow> listener_at inet_pton sys host (probe_port r)) rs" by auto
  have "[p..<lst + 1] = p # [p + 1..<lst + 1]" using p(1) by (simp add: upt_conv_Cons)
  then have "map probe_port (r # rs) = [p..<lst + 1]" using rs(2) r(2) by simp
  moreover have "scan_loop inet_pton sys host lst t p results = Inr (results @ r # rs)"
    using p r(1) rs(1) by (subst scan_loop.simps) simp
  ultimately show ?case using r rs(3) by (intro exI [of _ "r # rs"]) simp
qed

lemma scan_result:
  assumes "isLoopbackIpv4 inet_pton host" and "1 \<le> t" and "t \<le> 60000"
    and "range_valid r" and "range_count r \<le> 256" and "range_last r \<le> 65535"
  shows "\<exists>rs. scanTcpPorts inet_pton sys host r t = Inr rs \<and> map probe_port rs = ports_of r \<and>
    list_all (\<lambda>r. probe_state r = Port_Open \<longleftrightarrow> listener_at inet_pton sys host (probe_port r)) rs"
  using scan_loop_result [OF assms(1-3), of "range_last r" "range_first r" sys "[]"] assms
  by (simp add: scanTcpPorts_def bind_r_def range_accepted range_valid_def MinimumNetworkPort_def)

lemma find_loop_result:
  assumes "lst < 2 ^ 16"
  shows "1 \<le> p \<Longrightarrow> \<exists>es. find_loop inet_pton sys address tr lst p report =
      Inr (find (bindable inet_pton sys address tr) [p..<lst + 1], report @ es) \<and>
    prefix (map local_port es) [p..<lst + 1] \<and> list_all (\<lambda>e. available e \<longleftrightarrow> bindable inet_pton sys address tr (local_port e)) es"
proof (induction "lst + 1 - p" arbitrary: p report)
  case 0
  then show ?case by (subst find_loop.simps) auto
next
  case (Suc n)
  then have p: "p \<le> lst" "p mod 2 ^ 16 = p" using assms by simp_all
  have ports: "[p..<lst + 1] = p # [p + 1..<lst + 1]" using p(1) by (simp add: upt_conv_Cons)
  obtain r where r: "checkLocalPortAvailability inet_pton sys address p tr = Inr r" "local_port r = p"
    "available r \<longleftrightarrow> bindable inet_pton sys address tr p"
    using availability_result [OF Suc.prems] by blast
  show ?case
  proof (cases "available r")
    case True
    then show ?thesis using p r unfolding ports
      by (intro exI [of _ "[r]"]) (subst find_loop.simps, simp)
  next
    case False
    have "n = lst + 1 - (p + 1)" "1 \<le> p + 1" using Suc.hyps(2) by simp_all
    from Suc.hyps(1) [OF this, of "report @ [r]"] obtain es where es:
      "find_loop inet_pton sys address tr lst (p + 1) (report @ [r]) =
         Inr (find (bindable inet_pton sys address tr) [p + 1..<lst + 1], report @ r # es)"
      "prefix (map local_port es) [p + 1..<lst + 1]"
      "list_all (\<lambda>e. available e \<longleftrightarrow> bindable inet_pton sys address tr (local_port e)) es" by auto
    have "find_loop inet_pton sys address tr lst p report =
        Inr (find (bindable inet_pton sys address tr) (p # [p + 1..<lst + 1]), report @ r # es)"
      using p r False es(1) by (subst find_loop.simps) simp
    then show ?thesis using r es(2,3) unfolding ports by (intro exI [of _ "r # es"]) simp
  qed
qed

lemma find_result:
  assumes "range_valid r" and "range_count r \<le> 256" and "range_last r \<le> 65535"
  shows "\<exists>es. findFirstAvailableLocalPort inet_pton sys address r tr =
      Inr (find (bindable inet_pton sys address tr) (ports_of r), es) \<and> prefix (map local_port es) (ports_of r)"
  using find_loop_result [of "range_last r" "range_first r" inet_pton sys address tr "[]"] assms
  by (auto simp: findFirstAvailableLocalPort_def bind_r_def range_accepted range_valid_def MinimumNetworkPort_def)

section \<open>The programs\<close>

lemma find_mapped: "find P (map f xs) = map_option f (find (P \<circ> f) xs)"
  by (induction xs) auto

lemma find_cong_all: "list_all (\<lambda>x. P x \<longleftrightarrow> Q x) xs \<Longrightarrow> find P xs = find Q xs"
  by (induction xs) auto

text \<open>What a scan finds for the simulator.\<close>

lemma discovery_result:
  assumes "sim_values_ok o'" and "discoverPorts o' = Some r" and "isLoopbackIpv4 inet_pton (sim_host o')" and "range_count r \<le> 256"
  shows "discoverPort (simulator_scan inet_pton sys) o' =
    (case find (listener_at inet_pton sys (sim_host o')) (ports_of r) of
       None \<Rightarrow> Inl (runtime_error ''no OPEN TCP listener found in --discover-ports range'')
     | Some p \<Rightarrow> Inr (o'\<lparr>sim_port := p\<rparr>))"
proof -
  let ?l = "listener_at inet_pton sys (sim_host o')"
  from assms have "1 \<le> discoveryTimeout o'" "discoveryTimeout o' \<le> 60000" "range_valid r" "range_last r \<le> 65535"
    by (simp_all add: sim_values_ok_def)
  from scan_result [OF assms(3) this(1-3) assms(4) this(4), of sys]
  obtain rs where rs: "scanTcpPorts inet_pton sys (sim_host o') r (discoveryTimeout o') = Inr rs"
    "map probe_port rs = ports_of r" "list_all (\<lambda>r. (probe_state r = Port_Open) = ?l (probe_port r)) rs" by blast
  have "find ?l (ports_of r) = map_option probe_port (find (\<lambda>r. probe_state r = Port_Open) rs)"
    unfolding rs(2) [symmetric] find_mapped using find_cong_all [OF rs(3)] by (simp add: comp_def)
  then show ?thesis
    by (simp add: discoverPort_def assms(2) simulator_scan_def rs(1) bind_r_def find_mapped comp_def
        split: option.split)
qed

text \<open>C26: with options that the command line of the station accepts, the choice of an automatic port never
  refuses its range: it takes the lowest port of the range that can be bound, reports an error only
  if there is none, terminates also for a range that ends with the largest port, and the network
  server accepts the configuration that results.\<close>

theorem automatic_port_starts_server:
  assumes "parseArgs args = Inr (Some o')" and "selectAutomaticPort inet_pton sys o' = (ui, res)"
  shows "(autoPortRange o' = None \<longrightarrow> res = Inr o') \<and>
    (\<forall>r. autoPortRange o' = Some r \<longrightarrow> res =
      (case find (bindable inet_pton sys (bindAddress o') Port_Tcp) (ports_of r) of
         None \<Rightarrow> Inl (runtime_error ''no bindable port found in --auto-port range'')
       | Some p \<Rightarrow> Inr (o'\<lparr>port := p\<rparr>))) \<and>
    (\<forall>q. res = Inr q \<longrightarrow> (\<exists>cfg. receiveNetwork_config q = Inr cfg \<and> net_port cfg = port q))"
proof -
  from parseArgs_facts [OF assms(1)] have ok: "values_ok o'"
    "autoPortRange o' \<noteq> None \<Longrightarrow> range_count (the (autoPortRange o')) \<le> 256" by simp_all
  show ?thesis
  proof (cases "autoPortRange o'")
    case None
    then show ?thesis using assms(2) ok(1)
      by (auto simp: selectAutomaticPort_def receiveNetwork_config_def NetworkServer_ctor_def DefaultNetworkPollTimeoutMs_def values_ok_def)
  next
    case (Some r)
    with ok have r: "range_valid r" "range_count r \<le> 256" "range_last r \<le> 65535" by (simp_all add: values_ok_def)
    let ?found = "find (bindable inet_pton sys (bindAddress o') Port_Tcp) (ports_of r)"
    obtain es where "findFirstAvailableLocalPort inet_pton sys (bindAddress o') r Port_Tcp = Inr (?found, es)"
      using find_result [OF r] by blast
    with assms(2) Some have res: "res = (case ?found of None \<Rightarrow> Inl (runtime_error ''no bindable port found in --auto-port range'')
        | Some p \<Rightarrow> Inr (o'\<lparr>port := p\<rparr>))"
      by (auto simp: selectAutomaticPort_def Let_def simp del: upt_Suc split: option.splits)
    have "p \<noteq> 0" if "?found = Some p" for p
      using that r(1) by (auto simp: find_Some_iff range_valid_def MinimumNetworkPort_def simp del: upt_Suc)
    then have "\<exists>cfg. receiveNetwork_config q = Inr cfg \<and> net_port cfg = port q" if "res = Inr q" for q
      using that unfolding res
      by (auto simp: receiveNetwork_config_def NetworkServer_ctor_def DefaultNetworkPollTimeoutMs_def split: option.splits)
    with res Some show ?thesis by simp
  qed
qed

text \<open>A simulator whose accepted options ask for port discovery connects to the lowest port of the
  range on which a TCP listener was reached, and fails only if there is none: the scan refuses neither
  the host nor the range nor the time limit.\<close>

theorem discovery_finds_listener:
  assumes "sim_parseArgs inet_pton seed args = Inr (Some o')" and "discoverPorts o' = Some r"
  shows "discoverPort (simulator_scan inet_pton sys) o' =
    (case find (listener_at inet_pton sys (sim_host o')) (ports_of r) of
       None \<Rightarrow> Inl (runtime_error ''no OPEN TCP listener found in --discover-ports range'')
     | Some p \<Rightarrow> Inr (o'\<lparr>sim_port := p\<rparr>))"
  using sim_parseArgs_facts [OF assms(1)] assms(2) by (intro discovery_result) auto

section \<open>The port check\<close>

definition check_values_ok :: "CheckOptions \<Rightarrow> bool" where
  "check_values_ok o' \<longleftrightarrow> range_valid (check_ports o') \<and> range_last (check_ports o') \<le> 65535 \<and>
     1 \<le> check_timeout o' \<and> check_timeout o' \<le> 60000"

lemma check_step_values: "check_step arg rest o' = Inr (p, rest') \<Longrightarrow> check_values_ok o' \<Longrightarrow> check_values_ok p"
  by (auto simp: check_step_def take_value_Inr check_values_ok_def parseUnsigned_Inr MaximumPortProbeTimeout_def
      range_valid_def MinimumNetworkPort_def split: if_split_asm dest: parsePortRange_Inr)

lemma check_args_values: "check_args_loop args o' = Inr (Some p) \<Longrightarrow> check_values_ok o' \<Longrightarrow> check_values_ok p"
  by (induction args o' rule: check_args_loop.induct) (auto split: if_split_asm sum.split_asm dest: check_step_values)

lemma check_parseArgs_facts:
  assumes "check_parseArgs inet_pton args = Inr (Some o')"
  shows "check_values_ok o' \<and> isLoopbackIpv4 inet_pton (check_host o') \<and> range_count (check_ports o') \<le> 256"
proof -
  have "check_values_ok default_CheckOptions"
    by (simp add: check_values_ok_def default_CheckOptions_def range_valid_def MinimumNetworkPort_def
        DefaultDiagnosticFirstPort_def DefaultDiagnosticLastPort_def DefaultPortProbeTimeout_def)
  with assms show ?thesis
    by (auto simp: check_parseArgs_def MaxDiagnosticPortCount_def split: sum.split_asm option.split_asm if_split_asm
        dest: check_args_values)
qed

text \<open>C27: the port check, once its command line is accepted, probes only the loopback, probes every port of
  the range once and in order, at most 256 of them, shows a line for each, counts the listeners that
  were reached, and exits with 0; a command line it refuses makes it exit with 1 before any probe.\<close>

theorem port_check_reports:
  assumes "check_parseArgs inet_pton args = Inr (Some o')"
  shows "\<exists>results ui1 ui2. check_main inet_pton sys fixed2 args = (ui1 @ map (check_line fixed2) results @ ui2, '''', 0) \<and>
    isLoopbackIpv4 inet_pton (check_host o') \<and>
    map probe_port results = ports_of (check_ports o') \<and> length results \<le> 256 \<and>
    Ui_keyValue ''TCP listeners'' (show_nat (length (filter (listener_at inet_pton sys (check_host o')) (ports_of (check_ports o'))))) \<in> set ui2"
proof -
  let ?l = "listener_at inet_pton sys (check_host o')"
  from check_parseArgs_facts [OF assms] have ok: "isLoopbackIpv4 inet_pton (check_host o')" "1 \<le> check_timeout o'"
    "check_timeout o' \<le> 60000" "range_valid (check_ports o')" "range_count (check_ports o') \<le> 256" "range_last (check_ports o') \<le> 65535"
    by (simp_all add: check_values_ok_def)
  from scan_result [OF this, of sys]
  obtain rs where rs: "scanTcpPorts inet_pton sys (check_host o') (check_ports o') (check_timeout o') = Inr rs"
    "map probe_port rs = ports_of (check_ports o')" "list_all (\<lambda>r. (probe_state r = Port_Open) = ?l (probe_port r)) rs" by blast
  have "length rs = length (map probe_port rs)" by simp
  also have "\<dots> \<le> 256" using ok(4,5) by (simp add: rs(2) range_count_def)
  finally have "length rs \<le> 256" .
  moreover have "length (filter (\<lambda>r. probe_state r = Port_Open) rs) = length (filter ?l (ports_of (check_ports o')))"
    unfolding rs(2) [symmetric] filter_map length_map using rs(3) by (simp add: list_all_iff comp_def cong: filter_cong)
  moreover obtain ui1 where "check_main inet_pton sys fixed2 args = (ui1 @ map (check_line fixed2) rs @
      [Ui_section ''SUMMARY'', Ui_keyValue ''ports tested'' (show_nat (length rs)),
       Ui_keyValue ''TCP listeners'' (show_nat (length (filter (\<lambda>r. probe_state r = Port_Open) rs))),
       Ui_keyValue ''interpretation'' ''OPEN = TCP listener reachable; service identity is not inferred''], '''', 0)"
    unfolding check_main_def assms sum.case option.case Let_def rs(1) append_assoc [symmetric] by fast
  ultimately show ?thesis using ok(1) rs(2)
    by (intro exI conjI) (assumption, simp_all del: upt_Suc)
qed

section \<open>Concrete cases\<close>

definition some_address :: "string \<Rightarrow> u32 option" where
  "some_address _ = Some 0x7F000001"

text \<open>Port 9000 is taken, by a program that listens on it.\<close>

definition taken_bind :: "PortTransport \<Rightarrow> nat \<Rightarrow> bind_sys" where
  "taken_bind tr p = \<lparr>bind_socket = None, bind_result = (if p = 9000 then Address_in_use else Bound)\<rparr>"

definition taken_probe :: "nat \<Rightarrow> probe_sys" where
  "taken_probe p = \<lparr>probe_socket = None, probe_nonblocking = True,
     probe_connect = (if p = 9000 then Connected else In_progress (Pollout_ready (Inr So_refused))), probe_elapsed = Fin 0\<rparr>"

abbreviation sample_range :: PortRange where
  "sample_range \<equiv> \<lparr>range_first = 9000, range_last = 9001\<rparr>"

lemma loopback_some: "isLoopbackIpv4 some_address host"
  by (simp add: isLoopbackIpv4_def some_address_def Ipv4LoopbackMask_def Ipv4LoopbackPrefix_def)

lemma sample_range_parsed: "parsePortRange (show_nat 9000 @ CHR '':'' # show_nat 9001) name = Inr sample_range"
  using parsePortRange_exact [of 9000 9001 name] by simp

lemma sample_ports: "ports_of sample_range = [9000, 9001]"
  by (simp add: upt_conv_Cons)

lemma sample_auto_args: "parseArgs [''--tcp'', ''--auto-port'', show_nat 9000 @ CHR '':'' # show_nat 9001] =
    Inr (Some (default_Options\<lparr>transport := Some Tcp, autoPortRange := Some sample_range\<rparr>))"
  using sample_range_parsed
  by (simp add: parseArgs_def option_step_def take_value_def bind_r_def requireValue_def selectTransport_def cross_check_def
      default_Options_def default_StationHealthConfig_def range_count_def MaxDiagnosticPortCount_def)

theorem automatic_port_starts_server_witness:
  "snd (selectAutomaticPort some_address taken_bind (default_Options\<lparr>transport := Some Tcp, autoPortRange := Some sample_range\<rparr>)) =
     Inr (default_Options\<lparr>transport := Some Tcp, autoPortRange := Some sample_range, port := 9001\<rparr>)"
proof -
  let ?o = "default_Options\<lparr>transport := Some Tcp, autoPortRange := Some sample_range\<rparr>"
  have found: "find (bindable some_address taken_bind (bindAddress ?o) Port_Tcp) (ports_of sample_range) = Some 9001"
    unfolding sample_ports by (simp add: bindable_def taken_bind_def some_address_def)
  obtain ui res where sel: "selectAutomaticPort some_address taken_bind ?o = (ui, res)" by fastforce
  have "autoPortRange ?o = Some sample_range" by simp
  with automatic_port_starts_server [OF sample_auto_args sel] found have "res = Inr (?o\<lparr>port := 9001\<rparr>)" by (simp del: upt_Suc)
  then show ?thesis by (simp add: sel)
qed

lemma sample_discovery_args: "sim_parseArgs some_address 7 [''--tcp'', ''--discover-ports'', show_nat 9000 @ CHR '':'' # show_nat 9001] =
    Inr (Some ((default_SimOptions 7)\<lparr>sim_transport := Some Tcp, discoverPorts := Some sample_range\<rparr>))"
proof -
  define q where "q = (default_SimOptions 7)\<lparr>sim_transport := Some Tcp, discoverPorts := Some sample_range\<rparr>"
  have facts: "payloadMode q = Mode_RandomBytes" "sim_transport q = Some Tcp" "discoverPorts q = Some sample_range" "countExplicit q = False"
    by (simp_all add: q_def default_SimOptions_def)
  have loop: "sim_args_loop [''--tcp'', ''--discover-ports'', show_nat 9000 @ CHR '':'' # show_nat 9001]
      \<lparr>sim_opts = default_SimOptions 7, portExplicit = False, payloadSizeExplicit = False, messageSelected = False, signalSelected = False\<rparr> =
    Inr (Some \<lparr>sim_opts = q, portExplicit = False, payloadSizeExplicit = False, messageSelected = False, signalSelected = False\<rparr>)"
    using sample_range_parsed
    by (simp add: sim_option_step_def sim_selectTransport_def bind_r_def edit_opts_def default_SimOptions_def q_def take_value_def
        requireValue_def)
  have check: "check_signal_values q = Inr ()"
    by (simp add: q_def check_signal_values_def default_SimOptions_def f32_less_def f32_le_def f32_ge_def isnan_def
        f32_exponent_def f32_scaled_def f32_magnitude_def f32_fraction_def f32_negative_def)
  have count: "default_count q = q" by (simp add: default_count_def facts)
  show ?thesis
    unfolding sim_parseArgs_def loop sum.case option.case
    by (simp add: sim_cross_check_def facts check_discovery_def check count bind_r_def loopback_some range_count_def
        MaxDiagnosticPortCount_def probe_payload_def) (simp add: q_def)
qed

theorem discovery_finds_listener_witness:
  "discoverPort (simulator_scan some_address taken_probe) ((default_SimOptions 7)\<lparr>sim_transport := Some Tcp, discoverPorts := Some sample_range\<rparr>) =
     Inr ((default_SimOptions 7)\<lparr>sim_transport := Some Tcp, discoverPorts := Some sample_range, sim_port := 9000\<rparr>)"
proof -
  let ?o = "(default_SimOptions 7)\<lparr>sim_transport := Some Tcp, discoverPorts := Some sample_range\<rparr>"
  have found: "find (listener_at some_address taken_probe (sim_host ?o)) (ports_of sample_range) = Some 9000"
    unfolding sample_ports by (simp add: listener_at_def taken_probe_def some_address_def)
  from discovery_finds_listener [OF sample_discovery_args, of sample_range taken_probe] found show ?thesis by (simp del: upt_Suc)
qed

theorem port_check_reports_witness:
  "\<exists>results ui1 ui2. check_main some_address taken_probe (\<lambda>_. ''0.00'') [] = (ui1 @ map (check_line (\<lambda>_. ''0.00'')) results @ ui2, '''', 0) \<and>
     map probe_port results = [9000..<9011] \<and> length results \<le> 256"
proof -
  have "check_parseArgs some_address [] = Inr (Some default_CheckOptions)"
    by (simp add: check_parseArgs_def loopback_some default_CheckOptions_def range_count_def MaxDiagnosticPortCount_def
        DefaultDiagnosticFirstPort_def DefaultDiagnosticLastPort_def)
  note reports = port_check_reports [OF this, of taken_probe "\<lambda>_. ''0.00''"]
  have "ports_of (check_ports default_CheckOptions) = [9000..<9011]"
    by (simp add: default_CheckOptions_def DefaultDiagnosticFirstPort_def DefaultDiagnosticLastPort_def del: upt_Suc)
  with reports show ?thesis by metis
qed

end
