(* ===== verification/System.thy ===== *)
theory System
  imports Simulator_Correct Network_Correct Port_Correct
begin

text \<open>
  The whole system: transmitters, the network server, the concurrent pipeline and the export.
\<close>

section \<open>Several TCP clients\<close>

lemma of_conn_map: "of_conn c (map (apsnd g) xs) = map g (of_conn c xs)"
  by (induction xs) auto

lemma of_conn_mem: "(c, x) \<in> set xs \<Longrightarrow> x \<in> set (of_conn c xs)"
  by (force simp: of_conn_def)

text \<open>What the server hands over when every client sends encoded frames: an interleaving of these.\<close>

lemma clients_interleaved:
  assumes enc: "\<And>c. list_all2 (\<lambda>f bs. encodeFrame f = Inr bs) (sent c) (wire c)"
    and wire: "\<And>c. of_conn c hs = wire c"
  shows "\<exists>tagged. map decoded (map snd hs) = map Inr (map snd tagged) \<and> (\<forall>c. of_conn c tagged = sent c)"
proof -
  define g where "g bs = (case decoded bs of Inr f \<Rightarrow> f)" for bs
  have dec: "map decoded (wire c) = map Inr (sent c)" for c
    using enc [of c] by (induction rule: list_all2_induct) (simp_all add: decoded_def encodeFrame_eq decode_encode)
  have "of_conn c (map (apsnd g) hs) = sent c" for c
  proof -
    have "map g (wire c) = map (\<lambda>r. case r of Inr f \<Rightarrow> f) (map decoded (wire c))" by (simp add: g_def)
    then show ?thesis by (simp add: of_conn_map wire dec comp_def)
  qed
  moreover have "decoded bs = Inr (g bs)" if "(c, bs) \<in> set hs" for c bs
  proof -
    have "decoded bs \<in> set (map decoded (wire c))" using of_conn_mem [OF that] by (simp add: wire)
    then show ?thesis unfolding dec by (auto simp: g_def)
  qed
  then have "map decoded (map snd hs) = map Inr (map snd (map (apsnd g) hs))" by (auto simp: comp_def)
  ultimately show ?thesis by blast
qed

text \<open>C4: several transmitters at once, each with a connection of its own (the connections are numbered in the
  order of their acceptance, whatever descriptors they get): let every TCP connection carry encoded
  frames and all its bytes be received, however the segments are cut and interleaved, in a server run that ends
  without an exception. A session to which the server has submitted what it received, stopped or not, in a
  \<open>good_environment\<close> (writing succeeds) and without a signal sample above \<open>2 ^ 125\<close> in
  sine-projection mode, has ended without an exception once it is finished, and has exported the
  frames of all clients, those of each client complete and in the order in which it sent them, and
  rejected none.\<close>

theorem concurrent_clients_exported:
  assumes "net_transport cfg = Tcp"
    and "NetworkServer_run sys cfg cb udp_rounds tcp_rounds (fresh_net cs) = Some (net, None)"
    and "\<And>c. list_all2 (\<lambda>f bs. encodeFrame f = Inr bs) (sent c) (wire c)"
    and "\<And>c. concat (of_conn c (heard net)) = concat (wire c)"
    and "length (handed net) < 2 ^ 64"
    and "good_environment env" and "\<forall>c. \<forall>f \<in> set (sent c). tame env f"
    and "Station_start env can_open = Inr st0"
    and "stoppable (process_item env) (finish_station env) (station_pipeline env st0 (map snd (handed net))) s"
    and "todo s = []" and "main_thread s = M_done e"
  shows "e = None \<and> (\<exists>tagged. (\<forall>c. of_conn c tagged = sent c) \<and>
    out_file (out_stream (st_output (station s))) = doc_bytes (document (session_format env) (map snd tagged)) \<and>
    unat (st_written (station s)) = length tagged \<and> unat (st_rejected (station s)) = 0)"
proof -
  have "of_conn c (handed net) = wire c" for c
  proof -
    from assms(1,2) runTcp_ok [of sys cfg cb tcp_rounds cs]
    obtain ex where "feed_all empty_extractor (of_conn c (heard net)) = Some (ex, of_conn c (handed net))"
      by (auto simp: NetworkServer_run_def stream_ok_def)
    with feed_all_encoded [OF assms(3,4) [of c]] show ?thesis by simp
  qed
  from clients_interleaved [OF assms(3) this] obtain tagged where tagged:
    "map decoded (map snd (handed net)) = map Inr (map snd tagged)" "\<forall>c. of_conn c tagged = sent c" by blast
  have l: "length (map snd (handed net)) < 2 ^ 64" using assms(5) by simp
  have "tame env f" if "(c, f) \<in> set tagged" for c f using of_conn_mem [OF that] tagged(2) assms(7) by simp
  then have tame: "\<forall>f \<in> set (accepted (map decoded (map snd (handed net)))). tame env f"
    unfolding tagged(1) accepted_Inr by auto
  obtain st where st: "e = None" "process_all (process_item env) st0 0 (map decoded (map snd (handed net))) = (st, None)"
    "finish_station env st = (station s, None)"
    using session_succeeds [OF assms(6,8,9,10) l tame assms(11)] .
  have "length (map decoded (map snd (handed net))) < 2 ^ 64" using l by simp
  from session_result [OF assms(8) this st(2,3), unfolded tagged(1) accepted_Inr] tagged(2) st(1) show ?thesis by auto
qed

section \<open>A simulator that sends over UDP\<close>

lemma maybeCorrupt_length: "length (fst (maybeCorrupt lib bs g)) = length bs"
  by (auto simp: maybeCorrupt_def split: prod.split)

lemma transmitted_size: "list_all event_ok (sim_events lib lm clock o' i n g) \<Longrightarrow>
    list_all (\<lambda>bs. length bs \<le> MaxFrameSize) (transmitted (sim_events lib lm clock o' i n g))"
proof (induction n arbitrary: i g)
  case (Suc n)
  have len: "length (frame_bytes f) \<le> MaxFrameSize" if "frame_valid f" for f
    using that by (simp add: length_frame_bytes frame_valid_def wire_simps)
  have "length bs = length (frame_bytes f)" if "maybeCorrupt lib (frame_bytes f) g = (bs, g')" for f g g' bs
    using maybeCorrupt_length [of lib "frame_bytes f" g] that by simp
  with Suc len show ?case
    by (auto simp: Let_def event_ok_def split: sum.split prod.split if_splits)
qed simp

lemma accepted_length: "length (accepted rs) \<le> length rs"
  by (induction rs rule: accepted.induct) simp_all

text \<open>Datagrams that a simulator transmitted are those of some of its events, one for each.\<close>

lemma datagram_events:
  assumes "set ds \<subseteq> set (transmitted evs)"
  shows "\<exists>arrived. set arrived \<subseteq> set evs \<and> transmitted arrived = ds"
  using assms
proof (induction ds)
  case (Cons d ds)
  then obtain arrived where arrived: "set arrived \<subseteq> set evs" "transmitted arrived = ds" by auto
  from Cons.prems obtain f where "(f, Some d) \<in> set evs" by (auto simp: transmitted_def List.map_filter_def)
  with arrived show ?case by (intro exI [of _ "(f, Some d) # arrived"]) (simp add: transmitted_def List.map_filter_simps)
qed (simp add: exI [of _ "[]"] transmitted_def List.map_filter_simps)

text \<open>C25: a simulator sends over UDP to the station and nobody else does; the network may lose, double and reorder
  its datagrams. A session to which the server, in a run without an exception, has submitted what arrived, stopped or
  not, in a \<open>good_environment\<close> (writing succeeds) and
  without a signal sample above \<open>2 ^ 125\<close> in sine-projection mode, has ended without an
  exception once it is finished. Each datagram that arrived was made for a frame of the simulator; the session
  exports the frames of the undamaged ones in the order of arrival, as often as they arrived, and rejects exactly the
  damaged ones. If everything arrives, once and in order, it exports exactly the undamaged frames
  and rejects as many as the simulator counts as corrupted.\<close>

theorem udp_link_exports:
  assumes "random_ok (sim_random env)" and "sim_run env o' = Some (Inr sim)" and "sim_transport o' = Some Udp"
    and "sim_out sim = Some sk" and "set (udp_datagrams udp_rounds) \<subseteq> set (datagrams sk)"
    and "length (udp_datagrams udp_rounds) < 2 ^ 64"
    and "net_transport cfg = Udp"
    and "NetworkServer_run sys cfg cb udp_rounds tcp_rounds (fresh_net cs) = Some (net, None)"
    and "good_environment senv" and "\<forall>f \<in> set (intact (run_events env o')). tame senv f"
    and "Station_start senv can_open = Inr st0"
    and "stoppable (process_item senv) (finish_station senv) (station_pipeline senv st0 (map snd (handed net))) s"
    and "todo s = []" and "main_thread s = M_done e"
  shows "e = None \<and> (\<exists>arrived. set arrived \<subseteq> set (run_events env o') \<and> transmitted arrived = udp_datagrams udp_rounds \<and>
      out_file (out_stream (st_output (station s))) = doc_bytes (document (session_format senv) (intact arrived)) \<and>
      unat (st_written (station s)) = length (intact arrived) \<and>
      unat (st_rejected (station s)) + length (intact arrived) = length (udp_datagrams udp_rounds)) \<and>
    (udp_datagrams udp_rounds = datagrams sk \<longrightarrow>
      out_file (out_stream (st_output (station s))) = doc_bytes (document (session_format senv) (intact (run_events env o'))) \<and>
      unat (st_rejected (station s)) = corrupted sim)"
proof -
  let ?ds = "udp_datagrams udp_rounds" and ?evs = "run_events env o'"
  note run = sim_run_effect [OF assms(1,2)]
  have sk: "datagrams sk = transmitted ?evs" using run(7) [OF assms(3)] assms(4) by auto
  have "list_all (\<lambda>bs. length bs \<le> MaxFrameSize) (transmitted ?evs)"
    unfolding run_events_def by (rule transmitted_size [OF run(2) [unfolded run_events_def]])
  then have "filter (\<lambda>d. length d \<le> MaxFrameSize) ?ds = ?ds"
    using assms(5) by (auto simp: sk list_all_iff filter_id_conv)
  then have handed: "map snd (handed net) = ?ds"
    using assms(7,8) runUdp_ok [of sys cfg cb udp_rounds cs net None] by (simp add: NetworkServer_run_def)
  obtain arrived where arrived: "set arrived \<subseteq> set ?evs" "transmitted arrived = ?ds"
    using datagram_events [OF assms(5) [unfolded sk]] by blast
  have "list_all event_ok arrived" using run(2) arrived(1) by (auto simp: list_all_iff)
  then have acc: "accepted (map decoded ?ds) = intact arrived" using accepted_intact [of arrived] arrived(2) by simp
  have "set (intact arrived) \<subseteq> set (intact ?evs)" using arrived(1) by (auto simp: intact_def)
  with assms(10) acc have tame: "\<forall>f \<in> set (accepted (map decoded ?ds)). tame senv f" by auto
  obtain st where st: "e = None" "process_all (process_item senv) st0 0 (map decoded ?ds) = (st, None)"
    "finish_station senv st = (station s, None)"
    using session_succeeds [OF assms(9,11) assms(12) [unfolded handed] assms(13,6) tame assms(14)] .
  have "length (map decoded ?ds) < 2 ^ 64" using assms(6) by simp
  note res = session_result [OF assms(11) this st(2,3)]
  have "length (accepted (map decoded ?ds)) \<le> length ?ds" using accepted_length [of "map decoded ?ds"] by simp
  moreover have "intact arrived = intact ?evs \<and> length ?ds - length (intact arrived) = corrupted sim" if "?ds = datagrams sk"
    using that acc accepted_intact [OF run(2)] run(3,5) by (simp add: sk)
  ultimately show ?thesis using res st(1) arrived by (intro conjI exI [of _ arrived]) (auto simp: acc)
qed

section \<open>Concrete systems\<close>

theorem concurrent_clients_exported_witness:
  "\<exists>(s :: Station GroundStationPipeline) tagged. main_thread s = M_done None \<and>
     of_conn 1 tagged = [sample_frame] \<and> of_conn 2 tagged = [sample_frame] \<and> of_conn 3 tagged = [sample_frame] \<and>
     out_file (out_stream (st_output (station s))) = doc_bytes (document Fmt_Csv (map snd tagged))"
proof -
  define sent where "sent c = (if c = 1 \<or> c = 2 \<or> c = 3 then [sample_frame] else [])" for c :: nat
  define wire where "wire c = (if c = 1 \<or> c = 2 \<or> c = 3 then [frame_bytes sample_frame] else [])" for c :: nat
  have len: "length (map snd (handed sample_end)) < 2 ^ 64" "length (handed sample_end) < 2 ^ 64" by (simp_all add: sample_end_def)
  have wire: "list_all2 (\<lambda>f bs. encodeFrame f = Inr bs) (sent c) (wire c)" "concat (of_conn c (heard sample_end)) = concat (wire c)" for c
    by (simp_all add: sent_def wire_def encodeFrame_eq sample_frame_valid sample_end_def)
  have tame: "\<forall>c. \<forall>f \<in> set (sent c). tame sample_env f" using opaque_tame [OF opaque_sample] by (simp add: sent_def)
  have good: "\<forall>f \<in> set (accepted (map decoded (map snd (handed sample_end)))). tame sample_env f"
    using opaque_tame [OF opaque_sample] by (simp add: sample_end_def decoded_def decode_encode sample_frame_valid)
  obtain st0 s r where s: "Station_start sample_env True = Inr st0"
    "stoppable (process_item sample_env) (finish_station sample_env) (station_pipeline sample_env st0 (map snd (handed sample_end))) s"
    "todo s = []" "main_thread s = M_done r" by (rule sample_session_ends [OF len(1) good])
  have "net_transport (sample_cfg Tcp) = Tcp" by (simp add: sample_cfg_def)
  from concurrent_clients_exported [OF this sample_net_run wire len(2) sample_env_good tame s]
  obtain tagged where tagged: "r = None" "\<forall>c. of_conn c tagged = sent c"
    "out_file (out_stream (st_output (station s))) = doc_bytes (document Fmt_Csv (map snd tagged))" by (auto simp: sample_env_simps(3))
  have "of_conn 1 tagged = [sample_frame]" "of_conn 2 tagged = [sample_frame]" "of_conn 3 tagged = [sample_frame]"
    using tagged(2) by (simp_all add: sent_def)
  with tagged(1,3) s(4) show ?thesis by blast
qed

text \<open>Two frames over UDP, the second one damaged. They arrive in the opposite order, and the damaged one a second time.\<close>

definition sample_udp_options :: SimOptions where
  "sample_udp_options = (sample_sim_options (Fin (1 / 4)))\<lparr>sim_transport := Some Udp, sim_outputFile := None\<rparr>"

definition sample_udp_env :: "(nat, unit) sim_env" where
  "sample_udp_env = sample_sim_env\<lparr>send_answers := [Sent 27, Sent 27]\<rparr>"

lemma sample_udp_makeFrame:
  "makeFrame sample_random sample_libm (\<lambda>_. 1000) sample_udp_options i g = Inr (sample_sim_frame i, g)"
  using sample_makeFrame [of "Fin (1 / 4)" i g]
  by (simp add: makeFrame_def makePayload_def makeRandomPayload_def sample_udp_options_def sample_sim_options_def default_SimOptions_def)

lemma sample_udp_facts:
  "sim_random sample_udp_env = sample_random" "sim_libm sample_udp_env = sample_libm" "sim_clock sample_udp_env = (\<lambda>_. 1000)"
  "connect_error sample_udp_env = None" "send_answers sample_udp_env = [Sent 27, Sent 27]"
  "sim_transport sample_udp_options = Some Udp" "sim_outputFile sample_udp_options = None"
  "sim_count sample_udp_options = Suc (Suc 0)" "corruptProbability sample_udp_options = Fin (1 / 4)"
  "lossProbability sample_udp_options = Fin 0" "discoverPorts sample_udp_options = None"
  by (simp_all add: sample_udp_env_def sample_udp_options_def sample_sim_facts)

lemma sample_udp_sim: "\<exists>sim. sim_run sample_udp_env sample_udp_options = Some (Inr sim) \<and> corrupted sim = 1 \<and> produced sim = 2"
  by (simp add: sim_run_def discoverPort_def open_capture_def open_socket_def sample_udp_facts sample_sim_facts sample_udp_makeFrame
      sample_sim_encode sim_step_def transmit_def sendUdpFrame_def record_frame_def finish_capture_def sample_corrupt)

lemma sample_udp_payload:
  "(f, b) \<in> set (sim_events sample_random sample_libm (\<lambda>_. 1000) sample_udp_options i n g) \<Longrightarrow> payload f = []"
  by (induction n arbitrary: i g) (auto simp: sample_udp_makeFrame Let_def sample_sim_frame_def split: prod.splits if_splits)

lemma sample_udp_tame: "\<forall>f \<in> set (intact (run_events sample_udp_env sample_udp_options)). tame sample_env f"
proof
  fix f assume "f \<in> set (intact (run_events sample_udp_env sample_udp_options))"
  then obtain b where "(f, b) \<in> set (run_events sample_udp_env sample_udp_options)" by (auto simp: intact_def)
  then have "payload f = []" unfolding run_events_def sample_udp_facts by (rule sample_udp_payload)
  then show "tame sample_env f" by (rule no_payload_tame)
qed

theorem udp_link_exports_witness:
  "\<exists>sim (s :: Station GroundStationPipeline) arrived. sim_run sample_udp_env sample_udp_options = Some (Inr sim) \<and>
     main_thread s = M_done None \<and> length (transmitted arrived) = 3 \<and>
     unat (st_rejected (station s)) + length (intact arrived) = 3 \<and>
     out_file (out_stream (st_output (station s))) = doc_bytes (document Fmt_Csv (intact arrived))"
proof -
  obtain sim where sim: "sim_run sample_udp_env sample_udp_options = Some (Inr sim)" "produced sim = 2" using sample_udp_sim by blast
  have lib: "random_ok (sim_random sample_udp_env)" by (simp add: sample_udp_facts sample_random_ok)
  note run = sim_run_effect [OF lib sim(1)]
  let ?evs = "run_events sample_udp_env sample_udp_options"
  obtain sk where sk: "sim_out sim = Some sk" "datagrams sk = transmitted ?evs" using run(7) by (auto simp: sample_udp_facts)
  have "length (transmitted ?evs) = 2" using run(3) sim(2) by simp
  then obtain d1 d2 where ds: "transmitted ?evs = [d1, d2]" by (auto simp: numeral_2_eq_2 length_Suc_conv)
  let ?us = "map Udp_datagram [d2, d1, d2]"
  have us: "udp_datagrams ?us = [d2, d1, d2]" by (rule udp_datagrams_map)
  obtain net where net: "NetworkServer_run sample_sys (sample_cfg Udp) keep_frames ?us [] (fresh_net []) = Some (net, None)"
    using sample_udp_run [of ?us] by auto
  have cfg: "net_transport (sample_cfg Udp) = Udp" by (simp add: sample_cfg_def)
  have "list_all (\<lambda>bs. length bs \<le> MaxFrameSize) (transmitted ?evs)"
    unfolding run_events_def by (rule transmitted_size [OF run(2) [unfolded run_events_def]])
  then have handed: "map snd (handed net) = [d2, d1, d2]"
    using net cfg runUdp_ok [of sample_sys "sample_cfg Udp" keep_frames ?us "[]" net None] by (simp add: NetworkServer_run_def us ds)
  have "set (accepted (map decoded [d2, d1, d2])) \<subseteq> set (accepted (map decoded (transmitted ?evs)))"
    by (simp add: ds split: sum.split) (cases "decoded d1"; cases "decoded d2"; simp)
  then have "set (accepted (map decoded (map snd (handed net)))) \<subseteq> set (intact ?evs)"
    unfolding handed using accepted_intact [OF run(2)] by simp
  with sample_udp_tame have "\<forall>f \<in> set (accepted (map decoded (map snd (handed net)))). tame sample_env f" by blast
  moreover have "length (map snd (handed net)) < 2 ^ 64" by (simp add: handed)
  ultimately obtain st0 s r where s: "Station_start sample_env True = Inr st0"
    "stoppable (process_item sample_env) (finish_station sample_env) (station_pipeline sample_env st0 (map snd (handed net))) s"
    "todo s = []" "main_thread s = M_done r" using sample_session_ends by metis
  have arrive: "sim_transport sample_udp_options = Some Udp" "set (udp_datagrams ?us) \<subseteq> set (datagrams sk)" "length (udp_datagrams ?us) < 2 ^ 64"
    by (simp_all add: sample_udp_facts us sk(2) ds)
  from udp_link_exports [OF lib sim(1) arrive(1) sk(1) arrive(2,3) cfg net sample_env_good sample_udp_tame s]
  obtain arrived where "r = None" "transmitted arrived = [d2, d1, d2]"
    "out_file (out_stream (st_output (station s))) = doc_bytes (document Fmt_Csv (intact arrived))"
    "unat (st_rejected (station s)) + length (intact arrived) = 3" by (auto simp: us sample_env_simps(3))
  with sim(1) s(4) show ?thesis by (intro exI [of _ sim] exI [of _ s] exI [of _ arrived]) simp
qed

end
