(* ===== verification/Terminal.thy ===== *)
theory Terminal
  imports Station Port_Diagnostics
begin

text \<open>
  Model of \<open>include/stgs/TerminalUi.hpp\<close> and \<open>src/TerminalUi.cpp\<close>: what the two programs write to
  the standard output, the sparklines of received signals included. The environment variables, whether the output is a
  terminal and its width are parameters. Strings are bytes; the blocks of a sparkline are their
  UTF-8 bytes. An access outside an array, and the conversion of a number that is not finite to an
  integer, are \<open>None\<close>. A NaN is printed without a sign, and so is a
  zero: the model's doubles have no negative zero. \<open>min_element\<close> and \<open>max_element\<close> are those of samples that are not NaN, which is
  what decoded signals hold.
\<close>

section \<open>Settings\<close>

definition FallbackTerminalWidth :: nat where "FallbackTerminalWidth = 100"
definition SectionDecorationReserve :: nat where "SectionDecorationReserve = 12"
definition MinimumSectionRuleLength :: nat where "MinimumSectionRuleLength = 20"
definition MaximumSectionRuleLength :: nat where "MaximumSectionRuleLength = 72"
definition SignalLabelReserve :: nat where "SignalLabelReserve = 28"
definition SignalFallbackColumns :: nat where "SignalFallbackColumns = 40"
definition MinimumSignalColumns :: nat where "MinimumSignalColumns = 24"
definition MaximumSignalColumns :: nat where "MaximumSignalColumns = 96"
definition SparklineLevelCount :: nat where "SparklineLevelCount = 8"
definition FlatSignalNormalizedLevel :: double where "FlatSignalNormalizedLevel = Fin (1 / 2)"
definition DefaultMetricPrecision :: nat where "DefaultMetricPrecision = 3"
definition SignalMetadataPrecision :: nat where "SignalMetadataPrecision = 2"

record terminal_env =
  getenv :: "string \<Rightarrow> string option"
  stdout_tty :: bool
  window_columns :: "nat option"

record TerminalUi =
  interactive :: bool
  colorsEnabled :: bool
  unicodeEnabled :: bool

fun contains :: "string \<Rightarrow> string \<Rightarrow> bool" where
  "contains p [] \<longleftrightarrow> p = []"
| "contains p (c # s) \<longleftrightarrow> take (length p) (c # s) = p \<or> contains p s"

definition terminalLooksUnicodeCapable :: "terminal_env \<Rightarrow> bool" where
  "terminalLooksUnicodeCapable te =
     (let loc = getenv te ''LC_ALL'';
          loc = (if loc = None \<or> loc = Some [] then getenv te ''LC_CTYPE'' else loc);
          loc = (if loc = None \<or> loc = Some [] then getenv te ''LANG'' else loc)
      in case loc of None \<Rightarrow> True
         | Some v \<Rightarrow> contains ''UTF-8'' v \<or> contains ''utf8'' v \<or> contains ''UTF8'' v)"

definition TerminalUi_ctor :: "terminal_env \<Rightarrow> bool \<Rightarrow> TerminalUi" where
  "TerminalUi_ctor te allowColor =
     (let tty = stdout_tty te;
          dumbTerminal = (getenv te ''TERM'' = Some ''dumb'');
          noColor = (getenv te ''NO_COLOR'' \<noteq> None)
      in \<lparr>interactive = tty, colorsEnabled = tty \<and> allowColor \<and> \<not> dumbTerminal \<and> \<not> noColor,
          unicodeEnabled = tty \<and> terminalLooksUnicodeCapable te\<rparr>)"

definition width :: "terminal_env \<Rightarrow> TerminalUi \<Rightarrow> nat" where
  "width te ui = (case window_columns te of
     Some n \<Rightarrow> if interactive ui \<and> n > 0 then n else FallbackTerminalWidth
   | None \<Rightarrow> FallbackTerminalWidth)"

section \<open>Lines\<close>

abbreviation newline :: string where "newline \<equiv> [CHR 0x0A]"

definition ui_section :: "terminal_env \<Rightarrow> TerminalUi \<Rightarrow> string \<Rightarrow> string" where
  "ui_section te ui title =
     (let w = width te ui;
          columns = (if w > SectionDecorationReserve then w - SectionDecorationReserve else MinimumSectionRuleLength);
          ruleLength = min columns MaximumSectionRuleLength
      in newline @ ui_style (colorsEnabled ui) (''[ '' @ title @ '' ]'') ''1'' @ newline @
         ui_style (colorsEnabled ui) (replicate ruleLength (CHR ''-'')) ''2'' @ newline)"

definition ui_keyValue :: "TerminalUi \<Rightarrow> string \<Rightarrow> string \<Rightarrow> string" where
  "ui_keyValue ui key value = ''  '' @ ui_style (colorsEnabled ui) key ''36'' @ '': '' @ value @ newline"

fun status_label :: "TerminalStatus \<Rightarrow> string \<times> string" where
  "status_label Term_Info = (''INFO'', ''36'')"
| "status_label Term_Success = (''OK'', ''32'')"
| "status_label Term_Warning = (''WARN'', ''33'')"
| "status_label Term_Error = (''ERR'', ''31'')"

definition ui_statusLine :: "TerminalUi \<Rightarrow> TerminalStatus \<Rightarrow> string \<Rightarrow> string \<Rightarrow> string" where
  "ui_statusLine ui severity subject detail =
     (let (label, color) = status_label severity
      in ''  '' @ ui_style (colorsEnabled ui) (''['' @ label @ '']'') color @ '' '' @ subject @
         (if detail = [] then '''' else '' - '' @ detail) @ newline)"

fun render_call :: "terminal_env \<Rightarrow> TerminalUi \<Rightarrow> ui_call \<Rightarrow> string" where
  "render_call te ui (Ui_section title) = ui_section te ui title"
| "render_call te ui (Ui_keyValue key value) = ui_keyValue ui key value"
| "render_call te ui (Ui_statusLine severity subject detail) = ui_statusLine ui severity subject detail"

section \<open>Numbers\<close>

definition show_fixed_double :: "nat \<Rightarrow> rat \<Rightarrow> string" where
  "show_fixed_double p q =
     (let n = round_rat (\<bar>q\<bar> * 10 ^ p)
      in (if q < 0 then ''-'' else '''') @ show_nat (n div 10 ^ p) @
         (if p = 0 then '''' else ''.'' @ pad_left p (CHR ''0'') (show_nat (n mod 10 ^ p))))"

fun formatNumber :: "double \<Rightarrow> nat \<Rightarrow> string" where
  "formatNumber PosInf p = ''+inf''"
| "formatNumber NegInf p = ''-inf''"
| "formatNumber NaN p = ''nan''"
| "formatNumber (Fin q) p = show_fixed_double p q"

section \<open>Sparklines\<close>

definition f32_lt :: "float32 \<Rightarrow> float32 \<Rightarrow> bool" where
  "f32_lt a b \<longleftrightarrow> \<not> isnan a \<and> \<not> isnan b \<and> f32_scaled a < f32_scaled b"

text \<open>\<open>std::minmax_element\<close>: the first smallest and the last largest element.\<close>

definition min_element :: "float32 list \<Rightarrow> float32" where
  "min_element xs = foldl (\<lambda>m x. if f32_lt x m then x else m) (hd xs) (tl xs)"

definition max_element :: "float32 list \<Rightarrow> float32" where
  "max_element xs = foldl (\<lambda>m x. if f32_lt x m then m else x) (hd xs) (tl xs)"

definition clamp_unit :: "double \<Rightarrow> double" where
  "clamp_unit v = (if d_less v (Fin 0) then Fin 0 else if d_less (Fin 1) v then Fin 1 else v)"

text \<open>\<open>static_cast<std::size_t>(std::lround(v))\<close> for a value that is not negative.\<close>

definition lround_size :: "double \<Rightarrow> nat option" where
  "lround_size v = (case v of Fin q \<Rightarrow> if q < 0 then None else Some (nat \<lfloor>q + 1 / 2\<rfloor>) | _ \<Rightarrow> None)"

definition DoubleEpsilon :: double where
  "DoubleEpsilon = Fin (1 / 2 ^ 52)"

definition column_level :: "float32 list \<Rightarrow> double \<Rightarrow> double \<Rightarrow> nat \<Rightarrow> nat \<Rightarrow> nat option" where
  "column_level xs minimum extent outputColumns column =
     (let from_i = column * length xs div outputColumns;
          to_i = max (from_i + 1) ((column + 1) * length xs div outputColumns)
      in case range_ub xs from_i to_i of None \<Rightarrow> None
         | Some chunk \<Rightarrow>
             (let average = d_div (foldl (\<lambda>acc s. d_add acc (f32_to_double s)) (Fin 0) chunk) (d_of_nat (to_i - from_i));
                  normalized = (if d_le extent DoubleEpsilon then FlatSignalNormalizedLevel
                                else clamp_unit (d_div (d_sub average minimum) extent))
              in lround_size (d_mul normalized (d_of_nat (SparklineLevelCount - 1)))))"

definition unicodeLevels :: "string list" where
  "unicodeLevels = map (\<lambda>k. [CHR 0xE2, CHR 0x96, char_of (0x81 + k :: nat)]) [0..<SparklineLevelCount]"

definition asciiLevels :: "string list" where
  "asciiLevels = map (\<lambda>c. [c]) ''._-~=+*#''"

fun sparkline_loop :: "(nat \<Rightarrow> nat option) \<Rightarrow> string list \<Rightarrow> nat list \<Rightarrow> string \<Rightarrow> string option" where
  "sparkline_loop level levels [] out = Some out"
| "sparkline_loop level levels (column # cs) out =
     (case level column of None \<Rightarrow> None
      | Some k \<Rightarrow> (case at_ub levels k of None \<Rightarrow> None | Some glyph \<Rightarrow> sparkline_loop level levels cs (out @ glyph)))"

definition sparkline :: "float32 list \<Rightarrow> nat \<Rightarrow> bool \<Rightarrow> string option" where
  "sparkline xs columns unicode =
     (if xs = [] \<or> columns = 0 then Some ''''
      else
        let minimum = f32_to_double (min_element xs);
            maximum = f32_to_double (max_element xs);
            extent = d_sub maximum minimum;
            outputColumns = min columns (length xs)
        in sparkline_loop (column_level xs minimum extent outputColumns)
             (if unicode then unicodeLevels else asciiLevels) [0..<outputColumns] '''')"

section \<open>Received signals\<close>

definition signal_columns :: "terminal_env \<Rightarrow> TerminalUi \<Rightarrow> nat" where
  "signal_columns te ui =
     (let w = width te ui;
          columns = (if w > SignalLabelReserve then w - SignalLabelReserve else SignalFallbackColumns)
      in if columns < MinimumSignalColumns then MinimumSignalColumns
         else if MaximumSignalColumns < columns then MaximumSignalColumns else columns)"

definition receivedSignal ::
    "terminal_env \<Rightarrow> TerminalUi \<Rightarrow> u16 \<Rightarrow> u16 \<Rightarrow> float32 \<Rightarrow> float32 \<Rightarrow> float32 list \<Rightarrow> float32 list \<Rightarrow> SignalMetrics \<Rightarrow>
     SignalFilterMode \<Rightarrow> string option" where
  "receivedSignal te ui satellite rate frequency amplitude raw filtered metrics mode =
     (let columns = signal_columns te ui
      in case (sparkline raw columns (unicodeEnabled ui), sparkline filtered columns (unicodeEnabled ui)) of
           (Some rawLine, Some filteredLine) \<Rightarrow>
             Some (ui_style (colorsEnabled ui) ''[SIGNAL]'' ''33'' @ '' sat='' @ show_nat (unat satellite) @
               '' samples='' @ show_nat (length raw) @ '' fs='' @ show_nat (unat rate) @ ''Hz'' @
               '' f='' @ formatNumber (f32_to_double frequency) SignalMetadataPrecision @ ''Hz'' @
               '' nominal_amp='' @ formatNumber (f32_to_double amplitude) SignalMetadataPrecision @
               '' filter='' @ signalFilterModeToString mode @ newline @
               ''  '' @ ui_style (colorsEnabled ui) ''raw     '' ''2'' @ rawLine @ newline @
               ''  '' @ ui_style (colorsEnabled ui) ''filtered'' ''32'' @ '' '' @ filteredLine @ newline @
               ''  metrics: raw_rms='' @ formatNumber (rawRms metrics) DefaultMetricPrecision @
               '' filtered_rms='' @ formatNumber (filteredRms metrics) DefaultMetricPrecision @
               '' residual_noise_rms='' @ formatNumber (residualNoiseRms metrics) DefaultMetricPrecision @
               '' est_amp='' @ formatNumber (estimatedAmplitude metrics) DefaultMetricPrecision @
               '' est_snr_db='' @ formatNumber (estimatedSnrDb metrics) SignalMetadataPrecision @ newline)
         | _ \<Rightarrow> None)"

fun render_event :: "terminal_env \<Rightarrow> TerminalUi \<Rightarrow> ui_event \<Rightarrow> string option" where
  "render_event te ui (Ui_line line) = Some line"
| "render_event te ui (Ui_signal satellite rate frequency amplitude raw filtered metrics mode) =
     receivedSignal te ui satellite rate frequency amplitude raw filtered metrics mode"

end
