(* ===== verification/Terminal_Correct.thy ===== *)
theory Terminal_Correct
  imports Terminal Station_Robust
begin

text \<open>
  What remote data can do to the terminal: drawing a signal never leaves the table of levels, whatever
  the samples, and nothing a satellite sends becomes a control character.
\<close>

section \<open>Levels\<close>

lemma extreme_elements:
  assumes "xs \<noteq> []"
  shows "min_element xs \<in> set xs" "max_element xs \<in> set xs"
proof -
  have "foldl (\<lambda>m x. if f32_lt x m then x else m) a ys \<in> insert a (set ys)" for a ys
    by (induction ys arbitrary: a) auto
  moreover have "foldl (\<lambda>m x. if f32_lt x m then m else x) a ys \<in> insert a (set ys)" for a ys
    by (induction ys arbitrary: a) auto
  moreover have "set xs = insert (hd xs) (set (tl xs))" using assms by (cases xs) simp_all
  ultimately show "min_element xs \<in> set xs" "max_element xs \<in> set xs" by (simp_all only: min_element_def max_element_def)
qed

lemma round_double_not_nan: "round_double q \<noteq> NaN"
  by (simp add: round_double_def Let_def)

lemma clamp_unit_in: "v \<noteq> NaN \<Longrightarrow> d_in 0 1 (clamp_unit v)"
  by (cases v) (auto simp: clamp_unit_def d_in_def)

lemma level_in_table:
  assumes "d_in 0 1 v"
  shows "\<exists>k < SparklineLevelCount. lround_size (d_mul v (d_of_nat (SparklineLevelCount - 1))) = Some k"
proof -
  obtain q where q: "v = Fin q" "0 \<le> q" "q \<le> 1" using assms by (auto simp: d_in_def)
  have "d_repr 0" "d_repr 7" using d_repr_pow [of 0 0] d_repr_pow [of 7 0] by simp_all
  from round_double_between [OF this, of "q * 7"] q obtain r where r: "round_double (q * 7) = Fin r" "0 \<le> r" "r \<le> 7" by auto
  have "d_mul v (d_of_nat (SparklineLevelCount - 1)) = Fin r"
    using q(1) r(1) d_of_nat_small [of 7] by (simp add: SparklineLevelCount_def)
  moreover have "nat \<lfloor>r + 1 / 2\<rfloor> < 8" using r(2,3) by linarith
  ultimately show ?thesis using r(2) by (simp add: lround_size_def SparklineLevelCount_def)
qed

text \<open>Groups of samples are not empty and lie inside the signal.\<close>

lemma column_group:
  fixes column oc n :: nat
  assumes "column < oc" and "oc \<le> n" and "from_i = column * n div oc" and "to_i = max (from_i + 1) ((column + 1) * n div oc)"
  shows "from_i < to_i \<and> to_i \<le> n"
proof -
  have "column * n div oc \<le> (oc - 1) * n div oc" using assms(1) by (intro div_le_mono mult_le_mono1) simp
  moreover have "(oc - 1) * n div oc < n"
  proof -
    have "(oc - 1) * n < n * oc" using assms(1,2) by (cases oc) simp_all
    then show ?thesis by (rule less_mult_imp_div_less)
  qed
  moreover have "(column + 1) * n div oc \<le> n"
  proof -
    have "(column + 1) * n \<le> oc * n" using assms(1) by (intro mult_le_mono1) simp
    then have "(column + 1) * n div oc \<le> oc * n div oc" by (rule div_le_mono)
    with assms(1) show ?thesis by simp
  qed
  ultimately show ?thesis using assms(3,4) by simp
qed

lemma group_average:
  assumes "list_all isfinite ys" and "ys \<noteq> []" and "length ys < 2 ^ 29"
  shows "\<exists>q. d_div (foldl (\<lambda>acc s. d_add acc (f32_to_double s)) (Fin 0) ys) (d_of_nat (length ys)) = Fin q"
proof -
  obtain lo hi where b: "lo < length ys" "hi < length ys"
    "\<forall>y\<in>set ys. f32_value (ys ! lo) \<le> f32_value y \<and> f32_value y \<le> f32_value (ys ! hi)" by (rule window_bounds [OF assms(2)])
  have fin: "isfinite (ys ! lo)" "isfinite (ys ! hi)" "\<forall>y\<in>set ys. isfinite y" using b assms(1) by (simp_all add: list_all_iff)
  let ?a = "f32_value (ys ! lo)" and ?b = "f32_value (ys ! hi)" and ?n = "length ys"
  have "d_in (of_nat ?n * ?a) (of_nat ?n * ?b) (foldl (\<lambda>acc s. d_add acc (f32_to_double s)) (Fin 0) ys)"
    using sum_between [OF fin(1,2), of ys 0 "Fin 0"] b(3) fin(3) assms(3) by (simp add: d_in_def)
  from d_in_div [OF this _ _] d_repr_multiple [OF fin(1), of 1] d_repr_multiple [OF fin(2), of 1] assms(2)
  have "d_in ?a ?b (d_div (foldl (\<lambda>acc s. d_add acc (f32_to_double s)) (Fin 0) ys) (Fin (of_nat ?n)))" by simp
  then show ?thesis using assms(3) d_of_nat_small [of ?n] by (auto simp: d_in_def)
qed

lemma range_number:
  assumes "isfinite a" and "isfinite b"
  shows "\<exists>q. d_sub (f32_to_double a) (f32_to_double b) = Fin q"
proof -
  have "d_repr (2 ^ 129)" using d_repr_pow [of 1 129] by simp
  moreover from this have "d_repr (- (2 ^ 129))" by (simp add: d_repr_def)
  moreover have "- (2 ^ 129) \<le> f32_value a - f32_value b" "f32_value a - f32_value b \<le> 2 ^ 129"
    using f32_value_less [OF assms(1)] f32_value_less [OF assms(2)] by (simp_all add: abs_less_iff)
  ultimately obtain r where "round_double (f32_value a - f32_value b) = Fin r" using round_double_between by blast
  then show ?thesis using assms by (simp add: d_sub_def f32_to_double_finite)
qed

lemma column_level_in_table:
  assumes "list_all isfinite xs" and "length xs < 2 ^ 29" and "column < oc" and "oc \<le> length xs"
    and "isfinite a" and "isfinite b"
  shows "\<exists>k < SparklineLevelCount.
    column_level xs (f32_to_double a) (d_sub (f32_to_double b) (f32_to_double a)) oc column = Some k"
proof -
  define from_i where "from_i = column * length xs div oc"
  define to_i where "to_i = max (from_i + 1) ((column + 1) * length xs div oc)"
  note g = column_group [OF assms(3,4) from_i_def to_i_def]
  define ys where "ys = take (to_i - from_i) (drop from_i xs)"
  have len: "length ys = to_i - from_i" using g by (auto simp: ys_def)
  have ys: "list_all isfinite ys" "ys \<noteq> []" "length ys < 2 ^ 29"
    using assms(1,2) g len by (auto simp: ys_def list_all_iff dest: in_set_takeD in_set_dropD)
  from group_average [OF ys] obtain q where
    q: "d_div (foldl (\<lambda>acc s. d_add acc (f32_to_double s)) (Fin 0) ys) (d_of_nat (to_i - from_i)) = Fin q" unfolding len by blast
  obtain r where r: "d_sub (f32_to_double b) (f32_to_double a) = Fin r" using range_number [OF assms(6,5)] by blast
  have "d_in 0 1 (if d_le (Fin r) DoubleEpsilon then FlatSignalNormalizedLevel
      else clamp_unit (d_div (d_sub (Fin q) (f32_to_double a)) (Fin r)))"
  proof (cases "d_le (Fin r) DoubleEpsilon")
    case True
    with d_inI [of 0 "1 / 2" 1] show ?thesis by (simp add: FlatSignalNormalizedLevel_def)
  next
    case False
    then have "0 < r" by (simp add: DoubleEpsilon_def)
    have "d_sub (Fin q) (f32_to_double a) = round_double (q - f32_value a)" using assms(5) by (simp add: d_sub_def f32_to_double_finite)
    then have "d_div (d_sub (Fin q) (f32_to_double a)) (Fin r) \<noteq> NaN"
      using \<open>0 < r\<close> round_double_not_nan [of "q - f32_value a"] round_double_not_nan
      by (cases "round_double (q - f32_value a)") (simp_all add: inf_of_def d_sign_def)
    with False clamp_unit_in show ?thesis by simp
  qed
  note lv = level_in_table [OF this]
  have chunk: "range_ub xs from_i to_i = Some ys" using g by (simp add: range_ub_def ys_def)
  show ?thesis
    unfolding column_level_def Let_def from_i_def [symmetric] to_i_def [symmetric] chunk option.case q r by (rule lv)
qed

section \<open>Sparklines\<close>

lemma level_tables: "length unicodeLevels = SparklineLevelCount" "length asciiLevels = SparklineLevelCount"
  by (simp_all add: unicodeLevels_def asciiLevels_def SparklineLevelCount_def)

lemma sparkline_loop_result:
  assumes "\<And>c. c \<in> set cs \<Longrightarrow> \<exists>k < length levels. level c = Some k"
  shows "\<exists>gs. sparkline_loop level levels cs out = Some (out @ concat gs) \<and> length gs = length cs \<and> set gs \<subseteq> set levels"
  using assms
proof (induction cs arbitrary: out)
  case (Cons c cs)
  obtain k where k: "level c = Some k" "k < length levels" using Cons.prems [of c] by auto
  obtain gs where "sparkline_loop level levels cs (out @ levels ! k) = Some ((out @ levels ! k) @ concat gs)"
    "length gs = length cs" "set gs \<subseteq> set levels" using Cons.IH [of "out @ levels ! k"] Cons.prems by auto
  with k show ?case by (intro exI [of _ "levels ! k # gs"]) simp
qed simp

lemma sparkline_glyphs:
  assumes "list_all isfinite xs" and "length xs < 2 ^ 29"
  shows "\<exists>gs. sparkline xs columns unicode = Some (concat gs) \<and> length gs = min columns (length xs) \<and>
    set gs \<subseteq> set (if unicode then unicodeLevels else asciiLevels)"
proof (cases "xs = [] \<or> columns = 0")
  case True
  then show ?thesis by (intro exI [of _ "[]"]) (auto simp: sparkline_def)
next
  case False
  let ?oc = "min columns (length xs)" and ?levels = "if unicode then unicodeLevels else asciiLevels"
  have ends: "isfinite (min_element xs)" "isfinite (max_element xs)"
    using extreme_elements [of xs] False assms(1) by (simp_all add: list_all_iff)
  have levels: "length ?levels = SparklineLevelCount" by (simp add: level_tables)
  define level where "level = column_level xs (f32_to_double (min_element xs))
      (d_sub (f32_to_double (max_element xs)) (f32_to_double (min_element xs))) ?oc"
  have "\<exists>k < length ?levels. level c = Some k" if "c \<in> set [0..<?oc]" for c
    using column_level_in_table [OF assms _ _ ends, of c ?oc] that unfolding levels level_def by simp
  note loop = sparkline_loop_result [of "[0..<?oc]" ?levels level "[]", OF this]
  have "sparkline xs columns unicode = sparkline_loop level ?levels [0..<?oc] []"
    using False by (simp add: sparkline_def level_def Let_def)
  with loop show ?thesis by simp
qed

section \<open>What lines are made of\<close>

text \<open>A line feed, or a byte that no terminal interprets.\<close>

definition plain :: "char \<Rightarrow> bool" where
  "plain c \<longleftrightarrow> c = CHR 0x0A \<or> inert c"

lemma plain_inert: "list_all inert s \<Longrightarrow> list_all plain s"
  by (auto simp: plain_def list_all_iff)

lemma plain_digits [simp]: "list_all plain (show_nat n)"
proof -
  have "plain c" if "is_digit c" for c
  proof -
    have "c \<noteq> CHR 0x7F" using that by (auto simp: is_digit_def)
    with that show ?thesis by (simp add: is_digit_def plain_def inert_def)
  qed
  then show ?thesis using show_nat_decimal [of n] by (auto simp: list_all_iff)
qed

lemma plain_literal [simp]: "plain (CHR ''0'')" "plain (CHR ''-'')" "plain (CHR ''.'')" "plain (CHR 0x0A)"
  by (simp_all add: plain_def inert_def)

lemma plain_pad [simp]: "list_all plain s \<Longrightarrow> list_all plain (pad_left n (CHR ''0'') s)"
  by (auto simp: pad_left_def list_all_iff)

lemma plain_number [simp]: "list_all plain (formatNumber v p)"
  by (cases v) (simp_all add: show_fixed_double_def Let_def plain_def inert_def)

lemma plain_mode [simp]: "list_all plain (signalFilterModeToString mode)"
  by (cases mode) (simp_all add: plain_def inert_def)

lemma plain_sanitized [simp]: "list_all plain (sanitizeRemoteText v)"
  by (rule plain_inert) (induction v, simp_all add: sanitizeRemoteText_def sanitize_char_inert)

lemma plain_tables: "list_all (list_all plain) unicodeLevels" "list_all (list_all plain) asciiLevels"
  by (simp_all add: unicodeLevels_def asciiLevels_def SparklineLevelCount_def upt_rec plain_def inert_def char_of_def bit_0)

lemma plain_levels: "gl \<in> set (if unicode then unicodeLevels else asciiLevels) \<Longrightarrow> list_all plain gl"
  using plain_tables by (auto simp: list_all_iff split: if_splits)

lemma sparkline_plain:
  assumes "list_all isfinite xs" and "length xs < 2 ^ 29"
  shows "\<exists>row. sparkline xs columns unicode = Some row \<and> list_all plain row"
proof -
  obtain gs where gs: "sparkline xs columns unicode = Some (concat gs)"
    "set gs \<subseteq> set (if unicode then unicodeLevels else asciiLevels)" using sparkline_glyphs [OF assms] by blast
  have "list_all plain g" if "g \<in> set gs" for g
    using gs(2) that plain_levels [of g unicode] by blast
  then have "list_all plain (concat gs)" by (auto simp: list_all_iff)
  with gs(1) show ?thesis by blast
qed

definition harmless :: "ui_event \<Rightarrow> bool" where
  "harmless ev \<longleftrightarrow> (\<forall>te ui. \<not> colorsEnabled ui \<longrightarrow> (\<exists>row. render_event te ui ev = Some row \<and> list_all plain row))"

lemma signal_harmless:
  assumes "list_all isfinite raw" "length raw < 2 ^ 29" "list_all isfinite out" "length out = length raw"
  shows "harmless (Ui_signal sat rate f a raw out metrics mode)"
  unfolding harmless_def
proof (intro allI impI)
  fix te :: terminal_env and ui :: TerminalUi
  assume plain_ui: "\<not> colorsEnabled ui"
  obtain r1 r2 where "sparkline raw (signal_columns te ui) (unicodeEnabled ui) = Some r1" "list_all plain r1"
    "sparkline out (signal_columns te ui) (unicodeEnabled ui) = Some r2" "list_all plain r2"
    using sparkline_plain [OF assms(1,2)] sparkline_plain [OF assms(3)] assms(2,4) by metis
  then have "\<exists>row. receivedSignal te ui sat rate f a raw out metrics mode = Some row \<and> list_all plain row"
    by (simp only: receivedSignal_def Let_def option.case prod.case ui_style_def plain_ui not_False_eq_True if_True
        option.inject simp_thms list_all_append plain_digits plain_number plain_mode list.pred_inject)
      (simp add: plain_def inert_def)
  then show "\<exists>row. render_event te ui (Ui_signal sat rate f a raw out metrics mode) = Some row \<and> list_all plain row" by simp
qed

lemma message_harmless: "harmless (receivedMessage False sat sq body)"
proof -
  have "\<exists>row. receivedMessage False sat sq body = Ui_line row \<and> list_all plain row"
    by (simp only: receivedMessage_def ui_style_def not_False_eq_True if_True ui_event.inject simp_thms
        list_all_append plain_digits plain_sanitized list.pred_inject)
      (simp add: plain_def inert_def)
  then show ?thesis by (auto simp: harmless_def)
qed

section \<open>What one result adds to the terminal\<close>

lemma payload_ui:
  assumes "processApplicationPayload env frame st = (st', r)" and "\<not> env_colors env"
  shows "\<exists>evs. st_ui st' = st_ui st @ evs \<and> list_all harmless evs"
proof (cases "st_ui st' = st_ui st")
  case True
  then show ?thesis by (intro exI [of _ "[]"]) simp_all
next
  case False
  then have "(\<exists>sat sq body. st_ui st' = st_ui st @ [receivedMessage (env_colors env) sat sq body]) \<or>
    (\<exists>sig. decodeApplicationPayload (payload frame) = Some (Signal_payload sig) \<and> process_signal env frame sig st = (st', r))"
    using assms by (auto simp: processApplicationPayload_def split: option.splits ApplicationPayloadParseResult.splits)
      (intro exI, rule refl)
  then consider sat sq body where "st_ui st' = st_ui st @ [receivedMessage (env_colors env) sat sq body]"
    | sig where "decodeApplicationPayload (payload frame) = Some (Signal_payload sig)" "process_signal env frame sig st = (st', r)"
    by blast
  then show ?thesis
  proof cases
    case 1
    with assms(2) message_harmless show ?thesis by (intro exI [of _ "[receivedMessage False sat sq body]"]) simp
  next
    case 2
    then obtain out metrics where out: "computeSignalMetrics (env_libm env) (samples sig) out (sampleRateHz sig) (frequencyHz sig)
        (startSampleIndex sig) = Inr metrics" and ui: "st_ui st' = st_ui st @ [Ui_signal (satelliteId frame) (sampleRateHz sig)
        (frequencyHz sig) (nominalAmplitude sig) (samples sig) out metrics (signalFilter (env_options env))]"
      using False by (auto simp: process_signal_def split: sum.splits)
    have "list_all isfinite out" "length out = length (samples sig)"
      using out validateFinite_Inr [of out] by (auto simp: computeSignalMetrics_def split: if_splits sum.splits)
    with decoded_signal_facts(2,3) [OF 2(1)] signal_harmless ui show ?thesis by simp
  qed
qed

lemma item_ui:
  assumes "process_item env st i r = (st', e)" and "\<not> env_colors env"
  shows "\<exists>evs. st_ui st' = st_ui st @ evs \<and> list_all harmless evs"
proof (cases r)
  case (Inl err)
  then have "st_ui st' = st_ui st" using assms by (auto simp: process_item_def process_rejected_def Let_def split: prod.splits)
  then show ?thesis by (intro exI [of _ "[]"]) simp_all
next
  case (Inr frame)
  obtain h tr where h: "recordDecoded (st_health st) frame = (h, tr)" by fastforce
  let ?st1 = "logTransition tr (st\<lparr>st_decoded := st_decoded st + 1, st_health := h\<rparr>)"
  obtain st2 r2 where p: "processApplicationPayload env frame ?st1 = (st2, r2)" by fastforce
  have "st_ui st' = st_ui st2"
    using assms by (auto simp: process_item_def Inr process_decoded_def Let_def h p split: option.splits prod.splits if_splits)
  with payload_ui [OF p assms(2)] show ?thesis by simp
qed

lemma no_colors:
  assumes "\<not> stdout_tty te \<or> \<not> allowColor \<or> getenv te ''TERM'' = Some ''dumb'' \<or> getenv te ''NO_COLOR'' \<noteq> None"
  shows "\<not> colorsEnabled (TerminalUi_ctor te allowColor)"
  using assms by (auto simp: TerminalUi_ctor_def Let_def)

section \<open>Property\<close>

text \<open>C38: When the output is not a terminal, or colours are refused (\<open>NO_COLOR\<close>, a dumb terminal, the
  caller), no received frame can act on the display: whatever one result of the decoder makes the writer
  show, every event is drawn without leaving the table of the sparkline levels, and the bytes written are
  line feeds and bytes that are neither below 0x20 nor DEL.\<close>

theorem received_data_cannot_control_terminal:
  assumes "process_item env st i r = (st', e)"
    and "env_colors env = colorsEnabled (TerminalUi_ctor te allowColor)"
    and "\<not> stdout_tty te \<or> \<not> allowColor \<or> getenv te ''TERM'' = Some ''dumb'' \<or> getenv te ''NO_COLOR'' \<noteq> None"
  shows "\<exists>evs. st_ui st' = st_ui st @ evs \<and>
    (\<forall>ev \<in> set evs. \<exists>row. render_event te (TerminalUi_ctor te allowColor) ev = Some row \<and>
       (\<forall>c \<in> set row. c = CHR 0x0A \<or> (0x20 \<le> (of_char c :: nat) \<and> c \<noteq> CHR 0x7F)))"
proof -
  have plain_ui: "\<not> colorsEnabled (TerminalUi_ctor te allowColor)" by (rule no_colors [OF assms(3)])
  with item_ui [OF assms(1)] assms(2) obtain evs where evs: "st_ui st' = st_ui st @ evs" "list_all harmless evs" by auto
  have "\<exists>row. render_event te (TerminalUi_ctor te allowColor) ev = Some row \<and>
      (\<forall>c \<in> set row. c = CHR 0x0A \<or> (0x20 \<le> (of_char c :: nat) \<and> c \<noteq> CHR 0x7F))" if "ev \<in> set evs" for ev
    using evs(2) that plain_ui unfolding harmless_def list_all_iff plain_def inert_def by blast
  with evs(1) show ?thesis by blast
qed

text \<open>A message that would clear the screen.\<close>

definition hostile_frame :: TelemetryFrame where
  "hostile_frame = sample_frame\<lparr>payload := text_bytes \<lparr>sequence = 1, message_text = CHR 0x1B # ''[2J''\<rparr>\<rparr>"

definition pipe_env :: terminal_env where
  "pipe_env = \<lparr>getenv = (\<lambda>_. None), stdout_tty = False, window_columns = None\<rparr>"

theorem received_data_cannot_control_terminal_witness:
  "\<exists>st0 st' e row. Station_start sample_env True = Inr st0 \<and> process_item sample_env st0 0 (Inr hostile_frame) = (st', e) \<and>
     map (render_event pipe_env (TerminalUi_ctor pipe_env True)) (st_ui st') = [Some row] \<and> CHR 0x1B \<notin> set row"
proof -
  obtain st0 :: Station where st0: "Station_start sample_env True = Inr st0" using sample_start by blast
  then have empty: "st_ui st0 = []" by (auto simp: Station_start_def Let_def split: sum.splits)
  obtain st' e where item: "process_item sample_env st0 0 (Inr hostile_frame) = (st', e)" by fastforce
  have "decodeApplicationPayload (payload hostile_frame) = Some (Text_payload \<lparr>sequence = 1, message_text = CHR 0x1B # ''[2J''\<rparr>)"
    unfolding decode_text_iff by (simp add: hostile_frame_def)
  then have one: "\<exists>ev. st_ui st' = [ev]"
    using item empty by (auto simp: process_item_def process_decoded_def processApplicationPayload_def Let_def
        split: option.splits prod.splits if_splits)
  have conditions: "env_colors sample_env = colorsEnabled (TerminalUi_ctor pipe_env True)" "\<not> stdout_tty pipe_env"
    by (simp_all add: sample_env_def pipe_env_def TerminalUi_ctor_def Let_def)
  from received_data_cannot_control_terminal [OF item conditions(1) disjI1, OF conditions(2)] one empty
  obtain ev row where "st_ui st' = [ev]" "render_event pipe_env (TerminalUi_ctor pipe_env True) ev = Some row"
    "\<forall>c \<in> set row. c = CHR 0x0A \<or> (0x20 \<le> (of_char c :: nat) \<and> c \<noteq> CHR 0x7F)" by auto
  moreover from this(3) have "CHR 0x1B \<notin> set row" by force
  ultimately show ?thesis using st0 item by auto
qed

end
