(* ===== verification/Dom.thy ===== *)
theory Dom
  imports Prelude "HOL-Library.Multiset" "HOL-Library.Sublist"
begin

text \<open>
  The part of the browser the generated documentation scripts use: JavaScript strings as lists
  of UTF-16 code units, a document as a tree of elements with addresses, and the lookups and
  updates of the DOM. An operation that dereferences \<open>null\<close> or \<open>undefined\<close> returns
  \<open>None\<close> (an uncaught \<open>TypeError\<close>).
\<close>

section \<open>Strings\<close>

type_synonym jsstring = "u16 list"

definition js :: "string \<Rightarrow> jsstring" where
  "js s = map (\<lambda>c. of_nat (of_char c)) s"

definition js_int :: "int \<Rightarrow> jsstring" where
  "js_int i = js (if i < 0 then CHR ''-'' # show_nat (nat (- i)) else show_nat (nat i))"

definition js_hex :: "nat \<Rightarrow> jsstring" where
  "js_hex n = js (show_hex n)"

abbreviation space :: u16 where
  "space \<equiv> 0x20"

text \<open>\<open>s.replace(/ +/g, "")\<close>, \<open>s.replace(/^ +/, "")\<close> and \<open>s.replace(/ +$/, "")\<close>.\<close>

definition strip_all :: "jsstring \<Rightarrow> jsstring" where
  "strip_all s = filter (\<lambda>c. c \<noteq> space) s"

definition strip_leading :: "jsstring \<Rightarrow> jsstring" where
  "strip_leading s = dropWhile (\<lambda>c. c = space) s"

definition strip_trailing :: "jsstring \<Rightarrow> jsstring" where
  "strip_trailing s = rev (dropWhile (\<lambda>c. c = space) (rev s))"

section \<open>Elements\<close>

record Style =
  display :: jsstring
  style_left :: jsstring
  style_top :: jsstring
  style_width :: jsstring
  style_height :: jsstring

record Elem =
  nodeName :: jsstring
  attributes :: "(jsstring \<times> jsstring) list"
  style :: Style
  innerHTML :: jsstring
  field_value :: jsstring
  offsetLeft :: int
  offsetTop :: int
  offsetWidth :: int
  offsetHeight :: int
  offsetParent :: "nat option"
  tabIndex :: int

datatype dnode = DNode (addr: nat) (elem: Elem) (kids: "dnode list")

definition no_style :: Style where
  "no_style = \<lparr>display = [], style_left = [], style_top = [], style_width = [], style_height = []\<rparr>"

text \<open>\<open>document.createElement(tag)\<close> (tag names are kept in lower case).\<close>

definition new_elem :: "jsstring \<Rightarrow> Elem" where
  "new_elem tag = \<lparr>nodeName = tag, attributes = [], style = no_style, innerHTML = [], field_value = [],
     offsetLeft = 0, offsetTop = 0, offsetWidth = 0, offsetHeight = 0, offsetParent = None, tabIndex = 0\<rparr>"

definition setAttribute :: "jsstring \<Rightarrow> jsstring \<Rightarrow> Elem \<Rightarrow> Elem" where
  "setAttribute a v e = e\<lparr>attributes := (a, v) # filter (\<lambda>(b, _). b \<noteq> a) (attributes e)\<rparr>"

definition getAttribute :: "jsstring \<Rightarrow> Elem \<Rightarrow> jsstring" where
  "getAttribute a e = (case map_of (attributes e) a of None \<Rightarrow> [] | Some v \<Rightarrow> v)"

abbreviation elem_id :: "Elem \<Rightarrow> jsstring" where
  "elem_id e \<equiv> getAttribute (js ''id'') e"

abbreviation className :: "Elem \<Rightarrow> jsstring" where
  "className e \<equiv> getAttribute (js ''class'') e"

definition set_display :: "jsstring \<Rightarrow> Elem \<Rightarrow> Elem" where
  "set_display v e = e\<lparr>style := (style e)\<lparr>display := v\<rparr>\<rparr>"

section \<open>Documents\<close>

text \<open>Document order.\<close>

fun all_nodes :: "dnode \<Rightarrow> dnode list" where
  "all_nodes (DNode a e ks) = DNode a e ks # concat (map all_nodes ks)"

definition find_addr :: "nat \<Rightarrow> dnode \<Rightarrow> dnode option" where
  "find_addr a t = find (\<lambda>n. addr n = a) (all_nodes t)"

definition getElementById :: "jsstring \<Rightarrow> dnode \<Rightarrow> dnode option" where
  "getElementById i t = find (\<lambda>n. elem_id (elem n) = i) (all_nodes t)"

definition getElementsByTagName :: "jsstring \<Rightarrow> dnode \<Rightarrow> dnode list" where
  "getElementsByTagName tag t = filter (\<lambda>n. nodeName (elem n) = tag) (all_nodes t)"

text \<open>Updating the element, or the children, at an address.\<close>

fun update_elem :: "nat \<Rightarrow> (Elem \<Rightarrow> Elem) \<Rightarrow> dnode \<Rightarrow> dnode" where
  "update_elem a f (DNode b e ks) = DNode b (if a = b then f e else e) (map (update_elem a f) ks)"

fun update_kids :: "nat \<Rightarrow> (dnode list \<Rightarrow> dnode list) \<Rightarrow> dnode \<Rightarrow> dnode" where
  "update_kids a f (DNode b e ks) =
     DNode b e (if a = b then f (map (update_kids a f) ks) else map (update_kids a f) ks)"

text \<open>\<open>node.parentNode\<close>.\<close>

definition parentNode :: "nat \<Rightarrow> dnode \<Rightarrow> dnode option" where
  "parentNode a t = find (\<lambda>n. a \<in> set (map addr (kids n))) (all_nodes t)"

text \<open>\<open>node.firstChild\<close> and \<open>node.nextSibling\<close>.\<close>

definition firstChild :: "dnode \<Rightarrow> dnode option" where
  "firstChild n = (case kids n of [] \<Rightarrow> None | k # _ \<Rightarrow> Some k)"

fun sibling_after :: "nat \<Rightarrow> dnode list \<Rightarrow> dnode option" where
  "sibling_after a [] = None"
| "sibling_after a (n # ns) =
     (if addr n = a then (case ns of [] \<Rightarrow> None | m # _ \<Rightarrow> Some m) else sibling_after a ns)"

definition nextSibling :: "nat \<Rightarrow> dnode \<Rightarrow> dnode option" where
  "nextSibling a t = (case parentNode a t of None \<Rightarrow> None | Some p \<Rightarrow> sibling_after a (kids p))"

text \<open>\<open>parent.appendChild(node)\<close> and \<open>parent.innerHTML = ""\<close>.\<close>

definition appendChild :: "nat \<Rightarrow> dnode \<Rightarrow> dnode \<Rightarrow> dnode" where
  "appendChild a n t = update_kids a (\<lambda>ks. ks @ [n]) t"

definition clear_children :: "nat \<Rightarrow> dnode \<Rightarrow> dnode" where
  "clear_children a t = update_kids a (\<lambda>_. []) t"

section \<open>Lemmas\<close>

lemma length_js [simp]: "length (js s) = length s"
  by (simp add: js_def)

lemma js_Cons: "js (c # s) = of_nat (of_char c) # js s"
  by (simp add: js_def)

lemma js_Nil [simp]: "js [] = []"
  by (simp add: js_def)

lemma js_append: "js (s @ t) = js s @ js t"
  by (simp add: js_def)

lemma of_char_less: "of_char c < (256 :: nat)"
  by (metis char_of_char mod_less_divisor of_char_of zero_less_numeral)

lemma js_char_inject: "(of_nat (of_char c) :: u16) = of_nat (of_char d) \<longleftrightarrow> c = d"
proof
  assume "(of_nat (of_char c) :: u16) = of_nat (of_char d)"
  then have "unat (of_nat (of_char c) :: u16) = unat (of_nat (of_char d) :: u16)" by simp
  then have "(of_char c :: nat) = of_char d"
    using of_char_less [of c] of_char_less [of d] by (simp add: unat_of_nat)
  then show "c = d" by (simp only: of_char_eq_iff)
qed simp

lemma js_inject: "js s = js t \<longleftrightarrow> s = t"
  unfolding js_def by (rule inj_map_eq_map) (auto intro!: injI simp only: js_char_inject)

lemma getAttribute_set [simp]:
  "getAttribute a (setAttribute b v e) = (if a = b then v else getAttribute a e)"
proof -
  have "map_of (filter (\<lambda>(c, _). c \<noteq> b) xs) a = map_of xs a" if "a \<noteq> b" for xs :: "(jsstring \<times> jsstring) list"
    using that by (induction xs) auto
  then show ?thesis by (simp add: getAttribute_def setAttribute_def)
qed

lemma getAttribute_set_display [simp]: "getAttribute a (set_display v e) = getAttribute a e"
  by (simp add: getAttribute_def set_display_def)

lemma nodeName_set_display [simp]: "nodeName (set_display v e) = nodeName e"
  by (simp add: set_display_def)

lemma display_set_display [simp]: "display (style (set_display v e)) = v"
  by (simp add: set_display_def)

lemma new_elem_facts [simp]:
  "getAttribute a (new_elem t) = []" "nodeName (new_elem t) = t" "style (new_elem t) = no_style" "display no_style = []"
  by (simp_all add: new_elem_def no_style_def getAttribute_def)

lemma setAttribute_facts [simp]:
  "nodeName (setAttribute a v e) = nodeName e" "style (setAttribute a v e) = style e"
  "field_value (setAttribute a v e) = field_value e"
  by (simp_all add: setAttribute_def)

lemma js_empty [simp]: "js s = [] \<longleftrightarrow> s = []" "[] = js s \<longleftrightarrow> s = []"
  by (auto simp: js_def)

lemma elem_id_plain [simp]: "elem_id (e\<lparr>field_value := v\<rparr>) = elem_id e" "elem_id (e\<lparr>innerHTML := h\<rparr>) = elem_id e"
  "className (e\<lparr>innerHTML := h\<rparr>) = className e"
  by (simp_all add: getAttribute_def)

text \<open>The shape of the document, what an update of one element keeps.\<close>

lemma addr_update_elem [simp]: "addr (update_elem a f t) = addr t"
  by (cases t) simp

lemma kids_update_elem: "kids (update_elem a f t) = map (update_elem a f) (kids t)"
  by (cases t) simp

lemma elem_update_elem: "elem (update_elem a f t) = (if addr t = a then f (elem t) else elem t)"
  by (cases t) simp

lemma all_nodes_update: "all_nodes (update_elem a f t) = map (update_elem a f) (all_nodes t)"
proof (induction t)
  case (DNode b e ks)
  then have "concat (map all_nodes (map (update_elem a f) ks)) = concat (map (map (update_elem a f)) (map all_nodes ks))"
    by (intro arg_cong [of _ _ concat]) auto
  then show ?case by (simp add: map_concat)
qed

definition unique_addrs :: "dnode \<Rightarrow> bool" where
  "unique_addrs t \<longleftrightarrow> distinct (map addr (all_nodes t))"

lemma unique_addrs_update [simp]: "unique_addrs (update_elem a f t) = unique_addrs t"
  by (simp add: unique_addrs_def all_nodes_update comp_def)

text \<open>Lookups by a criterion that the update does not change.\<close>

lemma find_update:
  assumes "\<And>n. P (update_elem a f n) = P n"
  shows "find P (map (update_elem a f) ns) = map_option (update_elem a f) (find P ns)"
  by (induction ns) (auto simp: assms)

lemma getElementById_update:
  assumes "\<And>e. elem_id (f e) = elem_id e"
  shows "getElementById i (update_elem a f t) = map_option (update_elem a f) (getElementById i t)"
  unfolding getElementById_def all_nodes_update
  by (rule find_update) (simp add: elem_update_elem assms)

lemma find_addr_update: "find_addr b (update_elem a f t) = map_option (update_elem a f) (find_addr b t)"
  unfolding find_addr_def all_nodes_update by (rule find_update) simp

lemma find_SomeD: "find P xs = Some x \<Longrightarrow> x \<in> set xs \<and> P x"
  by (auto simp: find_Some_iff)

section \<open>Maps over a document\<close>

fun map_elems :: "(nat \<Rightarrow> Elem \<Rightarrow> Elem) \<Rightarrow> dnode \<Rightarrow> dnode" where
  "map_elems F (DNode b e ks) = DNode b (F b e) (map (map_elems F) ks)"

lemma update_elem_map: "update_elem a f t = map_elems (\<lambda>b e. if b = a then f e else e) t"
  by (induction t) auto

lemma map_elems_comp: "map_elems G (map_elems F t) = map_elems (\<lambda>b e. G b (F b e)) t"
  by (induction t) auto

lemma map_elems_id: "map_elems (\<lambda>b e. e) t = t"
  by (induction t) (auto intro: map_idI)

lemma map_elems_cong:
  "(\<And>n. n \<in> set (all_nodes t) \<Longrightarrow> F (addr n) (elem n) = G (addr n) (elem n)) \<Longrightarrow> map_elems F t = map_elems G t"
  by (induction t) force

lemma addr_map_elems [simp]: "addr (map_elems F t) = addr t"
  by (cases t) simp

lemma elem_map_elems [simp]: "elem (map_elems F t) = F (addr t) (elem t)"
  by (cases t) simp

lemma kids_map_elems [simp]: "kids (map_elems F t) = map (map_elems F) (kids t)"
  by (cases t) simp

lemma all_nodes_map_elems: "all_nodes (map_elems F t) = map (map_elems F) (all_nodes t)"
proof (induction t)
  case (DNode b e ks)
  then have "map all_nodes (map (map_elems F) ks) = map (map (map_elems F)) (map all_nodes ks)" by simp
  then show ?case by (auto simp: map_concat intro!: arg_cong [of _ _ concat])
qed

lemma unique_addrs_map_elems [simp]: "unique_addrs (map_elems F t) = unique_addrs t"
  by (simp add: unique_addrs_def all_nodes_map_elems comp_def)

lemma find_map: "find P (map f xs) = map_option f (find (P \<circ> f) xs)"
  by (induction xs) auto

lemma getElementById_map_elems:
  assumes "\<And>b e. elem_id (F b e) = elem_id e"
  shows "getElementById i (map_elems F t) = map_option (map_elems F) (getElementById i t)"
  by (simp add: getElementById_def all_nodes_map_elems find_map comp_def assms)

lemma self_in_all_nodes [simp]: "t \<in> set (all_nodes t)"
  by (cases t) simp

lemma kids_in_all_nodes: "k \<in> set (kids t) \<Longrightarrow> set (all_nodes k) \<subseteq> set (all_nodes t)"
  by (cases t) auto

section \<open>Changing children\<close>

lemma addr_update_kids [simp]: "addr (update_kids a f t) = addr t"
  by (cases t) simp

lemma elem_update_kids [simp]: "elem (update_kids a f t) = elem t"
  by (cases t) simp

lemma update_kids_other: "a \<notin> addr ` set (all_nodes t) \<Longrightarrow> update_kids a f t = t"
  by (induction t) (auto intro!: map_idI)

lemma unique_addrs_kid: "unique_addrs (DNode b e ks) \<Longrightarrow> k \<in> set ks \<Longrightarrow> unique_addrs k"
  by (auto simp: unique_addrs_def map_concat comp_def distinct_concat_iff)

lemma unique_addrs_kids_other:
  assumes "unique_addrs (DNode b e ks)" and "k \<in> set ks"
  shows "b \<notin> addr ` set (all_nodes k)"
  using assms by (auto simp: unique_addrs_def)

lemma update_kids_root:
  assumes "unique_addrs t"
  shows "update_kids (addr t) f t = DNode (addr t) (elem t) (f (kids t))"
proof (cases t)
  case (DNode b e ks)
  with assms have "map (update_kids b f) ks = ks"
    by (intro map_idI) (simp add: update_kids_other unique_addrs_kids_other)
  with DNode show ?thesis by simp
qed

lemma unique_addrs_tail:
  assumes "distinct (map addr (concat (map all_nodes (k # ks))))"
  shows "distinct (map addr (concat (map all_nodes ks)))"
    and "addr ` set (all_nodes k) \<inter> addr ` (\<Union>x\<in>set ks. set (all_nodes x)) = {}"
  using assms by (simp_all only: list.map concat.simps map_append distinct_append set_append set_map set_concat image_image)

lemma find_update_kids_list:
  assumes "\<forall>k\<in>set ks. unique_addrs k \<longrightarrow> find P (all_nodes k) = Some r \<longrightarrow>
                 find P (all_nodes (update_kids (addr r) f k)) = Some (update_kids (addr r) f r)"
    and "find P (concat (map all_nodes ks)) = Some r"
    and "distinct (map addr (concat (map all_nodes ks)))"
  shows "find P (concat (map all_nodes (map (update_kids (addr r) f) ks))) = Some (update_kids (addr r) f r)"
  using assms
proof (induction ks)
  case (Cons k ks)
  have find_append: "find P (xs @ ys) = (case find P xs of None \<Rightarrow> find P ys | Some x \<Rightarrow> Some x)" for xs ys
    by (induction xs) auto
  show ?case
  proof (cases "find P (all_nodes k)")
    case None
    with Cons.prems(2) have later: "find P (concat (map all_nodes ks)) = Some r" by (simp add: find_append)
    have "r \<in> (\<Union>x\<in>set ks. set (all_nodes x))" using find_SomeD [OF later] by simp
    then have "addr r \<in> addr ` (\<Union>x\<in>set ks. set (all_nodes x))" by (rule imageI)
    with unique_addrs_tail(2) [OF Cons.prems(3)] have "addr r \<notin> addr ` set (all_nodes k)"
      by (simp only: disjoint_iff) iprover
    then have "update_kids (addr r) f k = k" by (rule update_kids_other)
    moreover have "find P (concat (map all_nodes (map (update_kids (addr r) f) ks))) = Some (update_kids (addr r) f r)"
      using Cons.IH [OF _ later unique_addrs_tail(1) [OF Cons.prems(3)]] Cons.prems(1) by simp
    ultimately show ?thesis using None by (simp add: find_append)
  next
    case (Some r')
    with Cons.prems(2) have "r' = r" by (simp add: find_append)
    moreover have "unique_addrs k" using Cons.prems(3) by (simp add: unique_addrs_def)
    ultimately have "find P (all_nodes (update_kids (addr r) f k)) = Some (update_kids (addr r) f r)"
      using Some Cons.prems(1) by simp
    then show ?thesis by (simp add: find_append)
  qed
qed simp

lemma find_update_kids:
  assumes "\<And>n. P (update_kids (addr r) f n) = P n"
  shows "unique_addrs t \<Longrightarrow> find P (all_nodes t) = Some r \<Longrightarrow>
    find P (all_nodes (update_kids (addr r) f t)) = Some (update_kids (addr r) f r)"
proof (induction t)
  case (DNode b e ks)
  show ?case
  proof (cases "P (DNode b e ks)")
    case True
    with DNode.prems(2) have r: "r = DNode b e ks" by simp
    with True assms [of "DNode b e ks"] show ?thesis by (simp add: r)
  next
    case False
    with DNode.prems(2) have later: "find P (concat (map all_nodes ks)) = Some r" by simp
    then have "r \<in> (\<Union>x\<in>set ks. set (all_nodes x))" by (auto dest!: find_SomeD)
    with unique_addrs_kids_other [OF DNode.prems(1)] have ne: "addr r \<noteq> b" by auto
    have "find P (concat (map all_nodes (map (update_kids (addr r) f) ks))) = Some (update_kids (addr r) f r)"
      by (rule find_update_kids_list [OF _ later]) (use DNode in \<open>auto simp: unique_addrs_def\<close>)
    moreover have "\<not> P (update_kids (addr r) f (DNode b e ks))" using False assms by metis
    ultimately show ?thesis using ne by simp
  qed
qed

text \<open>The node with a given id after its children were changed.\<close>

lemma getElementById_update_kids:
  assumes "unique_addrs t" and "getElementById i t = Some r" and "unique_addrs r"
  shows "getElementById i (update_kids (addr r) f t) = Some (DNode (addr r) (elem r) (f (kids r)))"
  using find_update_kids [of "\<lambda>n. elem_id (elem n) = i" r f t] assms
  unfolding getElementById_def by (simp add: update_kids_root)


definition node_addrs :: "dnode \<Rightarrow> nat multiset" where
  "node_addrs t = mset (map addr (all_nodes t))"

definition addrs :: "dnode list \<Rightarrow> nat multiset" where
  "addrs ks = sum_list (map node_addrs ks)"

lemma addrs_simps [simp]:
  "addrs [] = {#}" "addrs (k # ks) = node_addrs k + addrs ks" "addrs (ks @ ls) = addrs ks + addrs ls"
  by (simp_all add: addrs_def)

lemma addrs_concat: "mset (map addr (concat (map all_nodes ks))) = addrs ks"
  by (induction ks) (simp_all add: node_addrs_def)

lemma node_addrs_node [simp]: "node_addrs (DNode b e ks) = {#b#} + addrs ks"
  using addrs_concat [of ks] by (simp add: node_addrs_def)

lemma unique_addrs_append:
  assumes "node_addrs t' = node_addrs t + addrs ns"
  shows "unique_addrs t' \<longleftrightarrow> unique_addrs t \<and> distinct (map addr (concat (map all_nodes ns))) \<and>
           set_mset (node_addrs t) \<inter> set_mset (addrs ns) = {}"
proof -
  have "mset (map addr (all_nodes t')) = mset (map addr (all_nodes t) @ map addr (concat (map all_nodes ns)))"
    using assms by (simp add: node_addrs_def flip: addrs_concat)
  from mset_eq_imp_distinct_iff [OF this] show ?thesis
    by (simp add: unique_addrs_def node_addrs_def flip: addrs_concat)
qed

lemma addrs_update_kids_other:
  "addr r \<notin> addr ` (\<Union>k\<in>set ks. set (all_nodes k)) \<Longrightarrow> map (update_kids (addr r) f) ks = ks"
  by (intro map_idI update_kids_other) auto

lemma addrs_update_kids:
  "unique_addrs t \<Longrightarrow> r \<in> set (all_nodes t) \<Longrightarrow>
   node_addrs (update_kids (addr r) f t) + addrs (kids r) = node_addrs t + addrs (f (kids r))"
proof (induction t)
  case (DNode b e ks)
  show ?case
  proof (cases "r = DNode b e ks")
    case True
    with update_kids_root [OF DNode.prems(1), of f] show ?thesis by simp
  next
    case False
    with DNode.prems(2) obtain k where k: "k \<in> set ks" "r \<in> set (all_nodes k)" by auto
    then obtain ks1 ks2 where ks: "ks = ks1 @ k # ks2" by (meson split_list)
    from k unique_addrs_kids_other [OF DNode.prems(1)] have ne: "addr r \<noteq> b" by auto
    from k(2) have inr: "addr r \<in> addr ` set (all_nodes k)" by (rule imageI)
    have "addr ` set (all_nodes k) \<inter> addr ` (\<Union>k\<in>set ks2. set (all_nodes k)) = {}"
      "addr ` (\<Union>k\<in>set ks1. set (all_nodes k)) \<inter>
         (addr ` set (all_nodes k) \<union> addr ` (\<Union>k\<in>set ks2. set (all_nodes k))) = {}"
      using DNode.prems(1) unfolding ks unique_addrs_def by simp_all
    with inr have "addr r \<notin> addr ` (\<Union>k\<in>set ks1. set (all_nodes k))"
      and "addr r \<notin> addr ` (\<Union>k\<in>set ks2. set (all_nodes k))"
      by (metis IntI UnCI empty_iff)+
    then have "map (update_kids (addr r) f) ks = ks1 @ update_kids (addr r) f k # ks2"
      unfolding ks by (simp add: addrs_update_kids_other del: set_map)
    moreover have "node_addrs (update_kids (addr r) f k) + addrs (kids r) = node_addrs k + addrs (f (kids r))"
      using DNode.IH [OF k(1)] k unique_addrs_kid [OF DNode.prems(1)] by blast
    ultimately show ?thesis using ne unfolding ks
      by (simp add: add.assoc add.left_commute)
  qed
qed

lemma unique_addrs_node: "unique_addrs t \<Longrightarrow> n \<in> set (all_nodes t) \<Longrightarrow> unique_addrs n"
proof (induction t)
  case (DNode b e ks)
  then show ?case using unique_addrs_kid [OF DNode.prems(1)] by auto
qed

lemma all_nodes_trans: "m \<in> set (all_nodes t) \<Longrightarrow> set (all_nodes m) \<subseteq> set (all_nodes t)"
  by (induction t) auto

lemma unique_addrs_eq:
  "unique_addrs t \<Longrightarrow> m \<in> set (all_nodes t) \<Longrightarrow> n \<in> set (all_nodes t) \<Longrightarrow> addr m = addr n \<Longrightarrow> m = n"
  by (auto simp: unique_addrs_def distinct_map dest: inj_onD)

section \<open>Parents and siblings\<close>

lemma kid_is_proper: "q \<in> set (all_nodes t) \<Longrightarrow> n \<in> set (kids q) \<Longrightarrow> n \<in> (\<Union>k\<in>set (kids t). set (all_nodes k))"
proof (induction t)
  case (DNode b e ks)
  show ?case
  proof (cases "q = DNode b e ks")
    case True
    with DNode.prems(2) show ?thesis by (auto intro: self_in_all_nodes)
  next
    case False
    with DNode.prems(1) obtain k where k: "k \<in> set ks" "q \<in> set (all_nodes k)" by auto
    with DNode.IH [OF k DNode.prems(2)] kids_in_all_nodes [of _ k] show ?thesis by auto
  qed
qed

lemma root_addr_proper: "unique_addrs t \<Longrightarrow> n \<in> (\<Union>k\<in>set (kids t). set (all_nodes k)) \<Longrightarrow> addr n \<noteq> addr t"
  by (cases t) (auto simp: unique_addrs_def)

lemma distinct_disjoint:
  assumes "distinct (map addr (concat (map all_nodes ks)))" and "k \<in> set ks" and "l \<in> set ks"
    and "n \<in> set (all_nodes k)" and "n \<in> set (all_nodes l)"
  shows "k = l"
  using assms
proof (induction ks)
  case (Cons x ks)
  have n: "addr n \<in> addr ` set (all_nodes y)" if "n \<in> set (all_nodes y)" for y using that by simp
  have "addr ` set (all_nodes x) \<inter> addr ` (\<Union>y\<in>set ks. set (all_nodes y)) = {}"
    by (rule unique_addrs_tail(2) [OF Cons.prems(1)])
  then have "n \<notin> set (all_nodes y)" if "n \<in> set (all_nodes x)" "y \<in> set ks" for y
    using that by (auto simp: disjoint_iff)
  then show ?case using Cons.IH [OF unique_addrs_tail(1) [OF Cons.prems(1)]] Cons.prems(2-5) by auto
qed simp

lemma unique_addrs_disjoint:
  assumes "unique_addrs (DNode b e ks)" and "k \<in> set ks" and "l \<in> set ks" and "n \<in> set (all_nodes k)" and "n \<in> set (all_nodes l)"
  shows "k = l"
  using assms by (intro distinct_disjoint [of ks k l n]) (simp_all add: unique_addrs_def)

lemma parent_unique:
  "unique_addrs t \<Longrightarrow> q \<in> set (all_nodes t) \<Longrightarrow> m \<in> set (all_nodes t) \<Longrightarrow>
   n \<in> set (kids q) \<Longrightarrow> n \<in> set (kids m) \<Longrightarrow> q = m"
proof (induction t)
  case (DNode b e ks)
  note u = unique_addrs_kid [OF DNode.prems(1)]
  have top: "x = DNode b e ks" if "y = DNode b e ks" "n \<in> set (kids y)" "x \<in> set (all_nodes (DNode b e ks))" "n \<in> set (kids x)" for x y
  proof (rule ccontr)
    assume "x \<noteq> DNode b e ks"
    with that(3) obtain k where k: "k \<in> set ks" "x \<in> set (all_nodes k)" by auto
    from kid_is_proper [OF k(2) that(4)] have pr: "n \<in> (\<Union>l\<in>set (kids k). set (all_nodes l))" .
    then have "n \<in> set (all_nodes k)" by (cases k) auto
    then have "n = k" using that(1,2) k(1) unique_addrs_disjoint [OF DNode.prems(1), of k n n] by auto
    with root_addr_proper [OF u [OF k(1)] pr] show False by simp
  qed
  show ?case
  proof (cases "q = DNode b e ks \<or> m = DNode b e ks")
    case True
    then show ?thesis using top DNode.prems by metis
  next
    case False
    with DNode.prems obtain k l where k: "k \<in> set ks" "q \<in> set (all_nodes k)" and l: "l \<in> set ks" "m \<in> set (all_nodes l)" by auto
    then have "n \<in> set (all_nodes k)" "n \<in> set (all_nodes l)"
      using DNode.prems(4,5) kids_in_all_nodes all_nodes_trans self_in_all_nodes by blast+
    with k l have "k = l" using unique_addrs_disjoint [OF DNode.prems(1)] by blast
    with DNode.IH [OF k(1) u [OF k(1)] k(2)] l DNode.prems show ?thesis by blast
  qed
qed

lemma in_kids: "q \<in> set (all_nodes t) \<Longrightarrow> n \<in> set (kids q) \<Longrightarrow> n \<in> set (all_nodes t)"
  using kids_in_all_nodes all_nodes_trans self_in_all_nodes by blast

lemma parentNode_kid:
  assumes u: "unique_addrs t" and q: "q \<in> set (all_nodes t)" and n: "n \<in> set (kids q)"
  shows "parentNode (addr n) t = Some q"
proof (cases "parentNode (addr n) t")
  case None
  with q n show ?thesis by (auto simp: parentNode_def find_None_iff)
next
  case (Some m)
  then obtain n' where m: "m \<in> set (all_nodes t)" "n' \<in> set (kids m)" "addr n' = addr n"
    unfolding parentNode_def by (auto dest!: find_SomeD)
  then have "n' = n" using unique_addrs_eq [OF u in_kids [OF m(1,2)] in_kids [OF q n]] by simp
  with parent_unique [OF u m(1) q] m n Some show ?thesis by simp
qed

lemma sibling_after_kid:
  assumes "distinct (map addr (pre @ n # post))"
  shows "sibling_after (addr n) (pre @ n # post) = (case post of [] \<Rightarrow> None | m # _ \<Rightarrow> Some m)"
  using assms by (induction pre) (auto split: list.splits)

lemma distinct_kids: "unique_addrs q \<Longrightarrow> distinct (map addr (kids q))"
proof (cases q)
  case (DNode b e ks)
  assume "unique_addrs q"
  then have "distinct (map addr (concat (map all_nodes ks)))" by (simp add: DNode unique_addrs_def)
  moreover have "distinct (map addr (concat (map all_nodes ks))) \<Longrightarrow> distinct (map addr ks)"
    by (induction ks) (auto, metis IntI UN_I empty_iff imageI self_in_all_nodes)
  ultimately show ?thesis by (simp add: DNode)
qed

lemma nextSibling_kid:
  assumes "unique_addrs t" and "q \<in> set (all_nodes t)" and "kids q = pre @ n # post"
  shows "nextSibling (addr n) t = (case post of [] \<Rightarrow> None | m # _ \<Rightarrow> Some m)"
proof -
  have "parentNode (addr n) t = Some q" by (rule parentNode_kid [OF assms(1,2)]) (simp add: assms(3))
  moreover have "distinct (map addr (pre @ n # post))"
    using distinct_kids [OF unique_addrs_node [OF assms(1,2)]] by (simp only: assms(3))
  ultimately show ?thesis by (simp only: nextSibling_def option.case assms(3) sibling_after_kid)
qed

end
