(* ===== verification/Search_World.thy ===== *)
theory Search_World
  imports Dom Float64 "HOL-Library.Monad_Syntax"
begin

text \<open>
  The state the search scripts of the generated documentation work on: the page, its timers and
  pending script loads, and the two script objects \<open>searchBox\<close> and \<open>searchResults\<close> of
  \<^verbatim>\<open>search.js\<close>; the index tables of \<^verbatim>\<open>searchdata.js\<close>; the string helpers
  the scripts use. The Unicode case mapping \<open>String.prototype.toLowerCase\<close> is the parameter
  \<open>lower\<close> of the definitions that use it.
\<close>

section \<open>State\<close>

record SearchBox =
  box_name :: jsstring
  resultsPath :: jsstring
  keyTimeout :: nat
  keyTimeoutLength :: nat
  closeSelectionTimeout :: nat
  lastSearchValue :: jsstring
  lastResultsPage :: jsstring
  hideTimeout :: nat
  searchIndex :: int
  searchActive :: bool
  extension :: jsstring

record SearchResults =
  lastMatchCount :: nat
  lastKey :: int
  repeatOn :: bool

text \<open>The elements of \<open>searchData\<close>: the id, the label and the targets (link, flag, scope).\<close>

record search_target =
  target_href :: jsstring
  target_flag :: int
  target_scope :: jsstring

record search_entry =
  entry_id :: jsstring
  entry_label :: jsstring
  entry_targets :: "search_target list"

datatype callback = CB_Search | CB_CloseSelectionWindow

text \<open>The variables that the closure \<open>handleResults\<close> captures.\<close>

record load_closure =
  cl_file :: bool
  cl_searchValue :: jsstring
  cl_resultsPath :: jsstring
  cl_window :: "nat option"
  cl_box :: "nat option"
  cl_results :: "nat option"
  cl_close :: "nat option"

record World =
  doc :: dnode
  next_addr :: nat
  body_addr :: nat
  clientWidth :: int
  clientHeight :: int
  location_search :: jsstring
  focused :: "nat option"
  timers :: "(nat \<times> callback \<times> nat) list"
  next_timer :: nat
  loads :: "(jsstring \<times> load_closure) list"
  searchData :: "search_entry list option"
  searchBox :: SearchBox
  searchResults :: SearchResults
  propagation_stopped :: bool

datatype event_type = Keydown | Keypress | Keyup | Other_event

record key_event =
  ev_type :: event_type
  keyCode :: int
  shiftKey :: bool

section \<open>Page operations\<close>

definition by_id :: "string \<Rightarrow> World \<Rightarrow> dnode option" where
  "by_id i w = getElementById (js i) (doc w)"

definition edit_node :: "nat \<Rightarrow> (Elem \<Rightarrow> Elem) \<Rightarrow> World \<Rightarrow> World" where
  "edit_node a f w = w\<lparr>doc := update_elem a f (doc w)\<rparr>"

text \<open>\<open>document.getElementById(i).style.display = v\<close>.\<close>

definition display_by_id :: "string \<Rightarrow> string \<Rightarrow> World \<Rightarrow> World option" where
  "display_by_id i v w = do { n \<leftarrow> by_id i w; Some (edit_node (addr n) (set_display (js v)) w) }"

definition edit_box :: "(SearchBox \<Rightarrow> SearchBox) \<Rightarrow> World \<Rightarrow> World" where
  "edit_box f w = w\<lparr>searchBox := f (searchBox w)\<rparr>"

definition edit_results :: "(SearchResults \<Rightarrow> SearchResults) \<Rightarrow> World \<Rightarrow> World" where
  "edit_results f w = w\<lparr>searchResults := f (searchResults w)\<rparr>"

definition stop_propagation :: "World \<Rightarrow> World" where
  "stop_propagation w = w\<lparr>propagation_stopped := True\<rparr>"

text \<open>\<open>setTimeout\<close> (a positive timer number) and \<open>clearTimeout\<close>.\<close>

definition setTimeout :: "callback \<Rightarrow> nat \<Rightarrow> World \<Rightarrow> nat \<times> World" where
  "setTimeout cb ms w =
     (next_timer w, w\<lparr>timers := timers w @ [(next_timer w, cb, ms)], next_timer := next_timer w + 1\<rparr>)"

definition clearTimeout :: "nat \<Rightarrow> World \<Rightarrow> World" where
  "clearTimeout i w = w\<lparr>timers := filter (\<lambda>(j, _). j \<noteq> i) (timers w)\<rparr>"

section \<open>String helpers\<close>

text \<open>The conversion of a search string into an id (\<open>convertToId\<close>): a code unit outside
  \<open>[a-z0-9\u0080-\uFFFF]\<close> is written as an underscore and its code in hexadecimal, with a
  leading zero below 16.\<close>

definition id_plain :: "u16 \<Rightarrow> bool" where
  "id_plain c \<longleftrightarrow> 0x61 \<le> c \<and> c \<le> 0x7A \<or> 0x30 \<le> c \<and> c \<le> 0x39 \<or> 0x80 \<le> c"

definition id_code :: "u16 \<Rightarrow> jsstring" where
  "id_code c = (if id_plain c then [c]
     else if unat c < 16 then js ''_0'' @ js_hex (unat c)
     else js ''_'' @ js_hex (unat c))"

definition convertToId :: "jsstring \<Rightarrow> jsstring" where
  "convertToId s = concat (map id_code s)"

text \<open>\<open>unescape\<close>.\<close>

definition hex_digit :: "u16 \<Rightarrow> nat option" where
  "hex_digit c = (if 0x30 \<le> c \<and> c \<le> 0x39 then Some (unat c - 0x30)
     else if 0x61 \<le> c \<and> c \<le> 0x66 then Some (unat c - 0x61 + 10)
     else if 0x41 \<le> c \<and> c \<le> 0x46 then Some (unat c - 0x41 + 10) else None)"

fun hex_value :: "nat \<Rightarrow> jsstring \<Rightarrow> nat option" where
  "hex_value acc [] = Some acc"
| "hex_value acc (c # cs) = (case hex_digit c of None \<Rightarrow> None | Some d \<Rightarrow> hex_value (16 * acc + d) cs)"

definition hex_unit :: "nat \<Rightarrow> jsstring \<Rightarrow> u16 option" where
  "hex_unit n s = (if length s < n then None else map_option of_nat (hex_value 0 (take n s)))"

function unescape :: "jsstring \<Rightarrow> jsstring" where
  "unescape [] = []"
| "unescape (c # s) =
     (if c \<noteq> 0x25 then c # unescape s
      else case (if s \<noteq> [] \<and> hd s = 0x75 then hex_unit 4 (tl s) else None) of
             Some u \<Rightarrow> u # unescape (drop 5 s)
           | None \<Rightarrow> (case hex_unit 2 s of
                 Some u \<Rightarrow> u # unescape (drop 2 s)
               | None \<Rightarrow> c # unescape s))"
  by pat_completeness auto
termination by (relation "measure length") auto

text \<open>\<open>name.replace(/^sr\d*_/, '')\<close>.\<close>

definition strip_sr :: "jsstring \<Rightarrow> jsstring" where
  "strip_sr s = (if take 2 s = js ''sr''
     then (case dropWhile (\<lambda>c. 0x30 \<le> c \<and> c \<le> 0x39) (drop 2 s) of
             c # r \<Rightarrow> if c = 0x5F then r else s | [] \<Rightarrow> s)
     else s)"

text \<open>\<open>s.indexOf(t)\<close>.\<close>

fun indexOf_from :: "int \<Rightarrow> jsstring \<Rightarrow> jsstring \<Rightarrow> int" where
  "indexOf_from i t [] = (if t = [] then i else - 1)"
| "indexOf_from i t (c # s) = (if take (length t) (c # s) = t then i else indexOf_from (i + 1) t s)"

definition indexOf :: "jsstring \<Rightarrow> jsstring \<Rightarrow> int" where
  "indexOf s t = indexOf_from 0 t s"

text \<open>The number a string is converted to when it is compared with a number
  (\<open>StringToNumber\<close>), before rounding; the comparison \<open>s > 1\<close> rounds to nearest, so
  it needs more than half a unit in the last place above 1.\<close>

definition js_whitespace :: "u16 \<Rightarrow> bool" where
  "js_whitespace c \<longleftrightarrow> 9 \<le> c \<and> c \<le> 13 \<or> c = 0x20 \<or> c = 0xA0 \<or> c = 0x1680 \<or> 0x2000 \<le> c \<and> c \<le> 0x200A
     \<or> c = 0x2028 \<or> c = 0x2029 \<or> c = 0x202F \<or> c = 0x205F \<or> c = 0x3000 \<or> c = 0xFEFF"

definition js_trim :: "jsstring \<Rightarrow> jsstring" where
  "js_trim s = rev (dropWhile js_whitespace (rev (dropWhile js_whitespace s)))"

definition js_digit :: "u16 \<Rightarrow> bool" where
  "js_digit c \<longleftrightarrow> 0x30 \<le> c \<and> c \<le> 0x39"

definition digits_value :: "jsstring \<Rightarrow> nat" where
  "digits_value s = foldl (\<lambda>v c. 10 * v + (unat c - 0x30)) 0 s"

definition js_exponent :: "jsstring \<Rightarrow> int option" where
  "js_exponent r = (case r of [] \<Rightarrow> Some 0
     | c # r' \<Rightarrow> (if c \<noteq> 0x65 \<and> c \<noteq> 0x45 then None
         else (let neg = (r' \<noteq> [] \<and> hd r' = 0x2D);
                   ds = (if r' \<noteq> [] \<and> (hd r' = 0x2D \<or> hd r' = 0x2B) then tl r' else r')
               in if ds = [] \<or> \<not> list_all js_digit ds then None
                  else Some (if neg then - int (digits_value ds) else int (digits_value ds)))))"

definition js_decimal :: "jsstring \<Rightarrow> double" where
  "js_decimal s = (if s = js ''Infinity'' then PosInf else
     let whole = takeWhile js_digit s; r = dropWhile js_digit s;
         frac = (if r \<noteq> [] \<and> hd r = 0x2E then takeWhile js_digit (tl r) else []);
         rest = (if r \<noteq> [] \<and> hd r = 0x2E then dropWhile js_digit (tl r) else r)
     in if whole = [] \<and> frac = [] then NaN
        else (case js_exponent rest of None \<Rightarrow> NaN
          | Some e \<Rightarrow> Fin (of_nat (digits_value (whole @ frac)) * 10 powi (e - int (length frac)))))"

fun radix_value :: "nat \<Rightarrow> nat \<Rightarrow> jsstring \<Rightarrow> nat option" where
  "radix_value b acc [] = Some acc"
| "radix_value b acc (c # cs) = (case hex_digit c of
     Some d \<Rightarrow> if d < b then radix_value b (b * acc + d) cs else None | None \<Rightarrow> None)"

definition js_radix :: "nat \<Rightarrow> jsstring \<Rightarrow> double" where
  "js_radix b s = (if s = [] then NaN else
     case radix_value b 0 s of None \<Rightarrow> NaN | Some v \<Rightarrow> Fin (of_nat v))"

definition string_to_number :: "jsstring \<Rightarrow> double" where
  "string_to_number s = (let t = js_trim s in
     if t = [] then Fin 0
     else if take 2 t \<in> {js ''0x'', js ''0X''} then js_radix 16 (drop 2 t)
     else if take 2 t \<in> {js ''0o'', js ''0O''} then js_radix 8 (drop 2 t)
     else if take 2 t \<in> {js ''0b'', js ''0B''} then js_radix 2 (drop 2 t)
     else if hd t = 0x2B then js_decimal (tl t)
     else if hd t = 0x2D then (case js_decimal (tl t) of
         NaN \<Rightarrow> NaN | PosInf \<Rightarrow> NegInf | NegInf \<Rightarrow> PosInf | Fin q \<Rightarrow> Fin (- q))
     else js_decimal t)"

definition greater_than_1 :: "jsstring \<Rightarrow> bool" where
  "greater_than_1 s = (case string_to_number s of
     NaN \<Rightarrow> False | PosInf \<Rightarrow> True | NegInf \<Rightarrow> False | Fin q \<Rightarrow> q > 1 + 1 / 2 ^ 53)"

section \<open>The index tables\<close>

definition indexSectionsWithContent :: "(int \<times> jsstring) list" where
  "indexSectionsWithContent =
    [(0, js ''123456789abcdefghijklmnopqrstuvw~'' @ [0x2014]),
     (1, js ''abdfglnoprst''),
     (2, js ''s''),
     (3, js ''abcfglnprstv''),
     (4, js ''abcdefgiklmnoprstvw~''),
     (5, js ''abcdefhlmnopqrstuvw''),
     (6, js ''abft''),
     (7, js ''aflopst''),
     (8, js ''abcdeijlmnoprstuw''),
     (9, js ''a''),
     (10, js ''cdegprstv'' @ [0x2014])]"

definition indexSectionNames :: "(int \<times> jsstring) list" where
  "indexSectionNames =
    [(0, js ''all''),
     (1, js ''classes''),
     (2, js ''namespaces''),
     (3, js ''files''),
     (4, js ''functions''),
     (5, js ''variables''),
     (6, js ''typedefs''),
     (7, js ''enums''),
     (8, js ''enumvalues''),
     (9, js ''defines''),
     (10, js ''pages'')]"

definition indexSectionLabels :: "(int \<times> jsstring) list" where
  "indexSectionLabels =
    [(0, js ''All''),
     (1, js ''Classes''),
     (2, js ''Namespaces''),
     (3, js ''Files''),
     (4, js ''Functions''),
     (5, js ''Variables''),
     (6, js ''Typedefs''),
     (7, js ''Enumerations''),
     (8, js ''Enumerator''),
     (9, js ''Macros''),
     (10, js ''Pages'')]"

section \<open>Positions\<close>

text \<open>\<open>getXPos\<close> and \<open>getYPos\<close> add the offsets along the \<open>offsetParent\<close> chain
  up to the body.\<close>

partial_function (option) offset_walk ::
  "(Elem \<Rightarrow> int) \<Rightarrow> World \<Rightarrow> nat option \<Rightarrow> int \<Rightarrow> int option" where
  "offset_walk pos w item x = (case item of None \<Rightarrow> Some x
     | Some a \<Rightarrow> if a = body_addr w then Some x
         else (case find_addr a (doc w) of None \<Rightarrow> Some x
           | Some n \<Rightarrow> offset_walk pos w (offsetParent (elem n)) (x + pos (elem n))))"

definition getXPos :: "World \<Rightarrow> dnode \<Rightarrow> int option" where
  "getXPos w item = (if offsetWidth (elem item) \<noteq> 0 then offset_walk offsetLeft w (Some (addr item)) 0 else Some 0)"

definition getYPos :: "World \<Rightarrow> dnode \<Rightarrow> int option" where
  "getYPos w item = (if offsetWidth (elem item) \<noteq> 0 then offset_walk offsetTop w (Some (addr item)) 0 else Some 0)"

end
