(* ===== verification/Search_Index.thy ===== *)
theory Search_Index
  imports Search_World
begin

text \<open>
  The search index of the code symbols as it is shipped: the arrays \<open>searchData\<close> of the files
  \<^verbatim>\<open>search/<section>_<number>.js\<close> for the sections files, functions, variables, typedefs, enums,
  enumvalues and defines, one definition per file, in the order of the file. The number of a file
  (hexadecimal in its name) is the position of the first character of its entries in
  \<open>indexSectionsWithContent\<close>. The flag of every target is 1.
\<close>

definition search_symbol :: "string \<times> string \<times> (string \<times> string) list \<Rightarrow> search_entry" where
  "search_symbol = (\<lambda>(i, label, targets).
     \<lparr>entry_id = js i, entry_label = js label,
      entry_targets = map (\<lambda>(href, scope). \<lparr>target_href = js href, target_flag = 1, target_scope = js scope\<rparr>) targets\<rparr>)"

definition files_0 :: "search_entry list" where
  "files_0 = map search_symbol
    [(''applicationpayload_2ecpp_0'', ''ApplicationPayload.cpp'', [(''../ApplicationPayload_8cpp.html'', '''')]),
     (''applicationpayload_2ehpp_1'', ''ApplicationPayload.hpp'', [(''../ApplicationPayload_8hpp.html'', '''')])]"

definition files_1 :: "search_entry list" where
  "files_1 = map search_symbol
    [(''benchmark_5fdecode_2ecpp_0'', ''benchmark_decode.cpp'', [(''../benchmark__decode_8cpp.html'', '''')]),
     (''blockingqueue_2ehpp_1'', ''BlockingQueue.hpp'', [(''../BlockingQueue_8hpp.html'', '''')]),
     (''byteutils_2ehpp_2'', ''ByteUtils.hpp'', [(''../ByteUtils_8hpp.html'', '''')])]"

definition files_2 :: "search_entry list" where
  "files_2 = map search_symbol
    [(''cliparsing_2ehpp_0'', ''CliParsing.hpp'', [(''../CliParsing_8hpp.html'', '''')]),
     (''crc32_2ecpp_1'', ''Crc32.cpp'', [(''../Crc32_8cpp.html'', '''')]),
     (''crc32_2ehpp_2'', ''Crc32.hpp'', [(''../Crc32_8hpp.html'', '''')])]"

definition files_3 :: "search_entry list" where
  "files_3 = map search_symbol
    [(''framecodec_2ecpp_0'', ''FrameCodec.cpp'', [(''../FrameCodec_8cpp.html'', '''')]),
     (''framecodec_2ehpp_1'', ''FrameCodec.hpp'', [(''../FrameCodec_8hpp.html'', '''')])]"

definition files_4 :: "search_entry list" where
  "files_4 = map search_symbol
    [(''ground_5fstation_2ecpp_0'', ''ground_station.cpp'', [(''../ground__station_8cpp.html'', '''')]),
     (''groundstationapp_2ecpp_1'', ''GroundStationApp.cpp'', [(''../GroundStationApp_8cpp.html'', '''')]),
     (''groundstationapp_2ehpp_2'', ''GroundStationApp.hpp'', [(''../GroundStationApp_8hpp.html'', '''')]),
     (''groundstationinput_2ecpp_3'', ''GroundStationInput.cpp'', [(''../GroundStationInput_8cpp.html'', '''')]),
     (''groundstationoptions_2ecpp_4'', ''GroundStationOptions.cpp'', [(''../GroundStationOptions_8cpp.html'', '''')]),
     (''groundstationoptions_2ehpp_5'', ''GroundStationOptions.hpp'', [(''../GroundStationOptions_8hpp.html'', '''')]),
     (''groundstationpipeline_2ecpp_6'', ''GroundStationPipeline.cpp'', [(''../GroundStationPipeline_8cpp.html'', '''')]),
     (''groundstationpipeline_2ehpp_7'', ''GroundStationPipeline.hpp'', [(''../GroundStationPipeline_8hpp.html'', '''')]),
     (''groundstationprocessing_2ecpp_8'', ''GroundStationProcessing.cpp'', [(''../GroundStationProcessing_8cpp.html'', '''')]),
     (''groundstationprocessing_2ehpp_9'', ''GroundStationProcessing.hpp'', [(''../GroundStationProcessing_8hpp.html'', '''')]),
     (''groundstationusage_2ecpp_10'', ''GroundStationUsage.cpp'', [(''../GroundStationUsage_8cpp.html'', '''')]),
     (''groundstationworkers_2ecpp_11'', ''GroundStationWorkers.cpp'', [(''../GroundStationWorkers_8cpp.html'', '''')])]"

definition files_5 :: "search_entry list" where
  "files_5 = map search_symbol
    [(''logger_2ecpp_0'', ''Logger.cpp'', [(''../Logger_8cpp.html'', '''')]),
     (''logger_2ehpp_1'', ''Logger.hpp'', [(''../Logger_8hpp.html'', '''')])]"

definition files_6 :: "search_entry list" where
  "files_6 = map search_symbol
    [(''networkserver_2ecpp_0'', ''NetworkServer.cpp'', [(''../NetworkServer_8cpp.html'', '''')]),
     (''networkserver_2ehpp_1'', ''NetworkServer.hpp'', [(''../NetworkServer_8hpp.html'', '''')]),
     (''networkservertcp_2ecpp_2'', ''NetworkServerTcp.cpp'', [(''../NetworkServerTcp_8cpp.html'', '''')]),
     (''networkserverudp_2ecpp_3'', ''NetworkServerUdp.cpp'', [(''../NetworkServerUdp_8cpp.html'', '''')])]"

definition files_7 :: "search_entry list" where
  "files_7 = map search_symbol
    [(''performance_5freport_2emd_0'', ''PERFORMANCE_REPORT.md'', [(''../PERFORMANCE__REPORT_8md.html'', '''')]),
     (''port_5fcheck_2ecpp_1'', ''port_check.cpp'', [(''../port__check_8cpp.html'', '''')]),
     (''portdiagnostics_2ecpp_2'', ''PortDiagnostics.cpp'', [(''../PortDiagnostics_8cpp.html'', '''')]),
     (''portdiagnostics_2ehpp_3'', ''PortDiagnostics.hpp'', [(''../PortDiagnostics_8hpp.html'', '''')]),
     (''posixsignalstopcontroller_2ecpp_4'', ''PosixSignalStopController.cpp'', [(''../PosixSignalStopController_8cpp.html'', '''')]),
     (''posixsignalstopcontroller_2ehpp_5'', ''PosixSignalStopController.hpp'', [(''../PosixSignalStopController_8hpp.html'', '''')])]"

definition files_8 :: "search_entry list" where
  "files_8 = map search_symbol
    [(''readme_2emd_0'', ''README.md'', [(''../README_8md.html'', '''')]),
     (''readme_5fdocumentation_2emd_1'', ''README_DOCUMENTATION.md'', [(''../README__DOCUMENTATION_8md.html'', '''')]),
     (''replay_2ecpp_2'', ''Replay.cpp'', [(''../Replay_8cpp.html'', '''')]),
     (''replay_2ehpp_3'', ''Replay.hpp'', [(''../Replay_8hpp.html'', '''')])]"

definition files_9 :: "search_entry list" where
  "files_9 = map search_symbol
    [(''satellite_5fsimulator_2ecpp_0'', ''satellite_simulator.cpp'', [(''../satellite__simulator_8cpp.html'', '''')]),
     (''showcase_5fguide_2emd_1'', ''SHOWCASE_GUIDE.md'', [(''../SHOWCASE__GUIDE_8md.html'', '''')]),
     (''signalprocessing_2ecpp_2'', ''SignalProcessing.cpp'', [(''../SignalProcessing_8cpp.html'', '''')]),
     (''signalprocessing_2ehpp_3'', ''SignalProcessing.hpp'', [(''../SignalProcessing_8hpp.html'', '''')]),
     (''simulatorapp_2ecpp_4'', ''SimulatorApp.cpp'', [(''../SimulatorApp_8cpp.html'', '''')]),
     (''simulatorapp_2ehpp_5'', ''SimulatorApp.hpp'', [(''../SimulatorApp_8hpp.html'', '''')]),
     (''simulatorframefactory_2ecpp_6'', ''SimulatorFrameFactory.cpp'', [(''../SimulatorFrameFactory_8cpp.html'', '''')]),
     (''simulatorframefactory_2ehpp_7'', ''SimulatorFrameFactory.hpp'', [(''../SimulatorFrameFactory_8hpp.html'', '''')]),
     (''simulatoroptions_2ecpp_8'', ''SimulatorOptions.cpp'', [(''../SimulatorOptions_8cpp.html'', '''')]),
     (''simulatoroptions_2ehpp_9'', ''SimulatorOptions.hpp'', [(''../SimulatorOptions_8hpp.html'', '''')]),
     (''simulatorsocket_2ecpp_10'', ''SimulatorSocket.cpp'', [(''../SimulatorSocket_8cpp.html'', '''')]),
     (''simulatorsocket_2ehpp_11'', ''SimulatorSocket.hpp'', [(''../SimulatorSocket_8hpp.html'', '''')]),
     (''simulatorusage_2ecpp_12'', ''SimulatorUsage.cpp'', [(''../SimulatorUsage_8cpp.html'', '''')]),
     (''stationhealth_2ecpp_13'', ''StationHealth.cpp'', [(''../StationHealth_8cpp.html'', '''')]),
     (''stationhealth_2ehpp_14'', ''StationHealth.hpp'', [(''../StationHealth_8hpp.html'', '''')])]"

definition files_a :: "search_entry list" where
  "files_a = map search_symbol
    [(''technical_5fdesign_2emd_0'', ''TECHNICAL_DESIGN.md'', [(''../TECHNICAL__DESIGN_8md.html'', '''')]),
     (''telemetryframe_2ehpp_1'', ''TelemetryFrame.hpp'', [(''../TelemetryFrame_8hpp.html'', '''')]),
     (''telemetryoutput_2ecpp_2'', ''TelemetryOutput.cpp'', [(''../TelemetryOutput_8cpp.html'', '''')]),
     (''telemetryoutput_2ehpp_3'', ''TelemetryOutput.hpp'', [(''../TelemetryOutput_8hpp.html'', '''')]),
     (''terminalui_2ecpp_4'', ''TerminalUi.cpp'', [(''../TerminalUi_8cpp.html'', '''')]),
     (''terminalui_2ehpp_5'', ''TerminalUi.hpp'', [(''../TerminalUi_8hpp.html'', '''')]),
     (''test_5fapplication_5fsignal_2ecpp_6'', ''test_application_signal.cpp'', [(''../test__application__signal_8cpp.html'', '''')]),
     (''test_5fcodec_2ecpp_7'', ''test_codec.cpp'', [(''../test__codec_8cpp.html'', '''')]),
     (''test_5fmain_2ecpp_8'', ''test_main.cpp'', [(''../test__main_8cpp.html'', '''')]),
     (''test_5fnetwork_2ecpp_9'', ''test_network.cpp'', [(''../test__network_8cpp.html'', '''')]),
     (''test_5freplay_5fhealth_2ecpp_10'', ''test_replay_health.cpp'', [(''../test__replay__health_8cpp.html'', '''')]),
     (''testsupport_2ecpp_11'', ''TestSupport.cpp'', [(''../TestSupport_8cpp.html'', '''')]),
     (''testsupport_2ehpp_12'', ''TestSupport.hpp'', [(''../TestSupport_8hpp.html'', '''')])]"

definition files_b :: "search_entry list" where
  "files_b = map search_symbol
    [(''verification_5freport_2emd_0'', ''VERIFICATION_REPORT.md'', [(''../VERIFICATION__REPORT_8md.html'', '''')])]"

definition functions_0 :: "search_entry list" where
  "functions_0 = map search_symbol
    [(''appendfloatbe_0'', ''appendFloatBE'', [(''../namespacestgs_1_1detail.html#aaa3c420d8f0978f8552479c0ad1ec915'', ''stgs::detail'')]),
     (''appendu16be_1'', ''appendU16BE'', [(''../namespacestgs_1_1detail.html#a3562b4e5b96b0bda2897b0f5825781b9'', ''stgs::detail'')]),
     (''appendu32be_2'', ''appendU32BE'', [(''../namespacestgs_1_1detail.html#a423df63e483c463ac6f72b4bb82bd2ca'', ''stgs::detail'')]),
     (''appendu64be_3'', ''appendU64BE'', [(''../namespacestgs_1_1detail.html#a000ee99a480982ea130c1d18ec722c27'', ''stgs::detail'')]),
     (''appendu8_4'', ''appendU8'', [(''../namespacestgs_1_1detail.html#a536b35bbdc62402256e05df0084dd249'', ''stgs::detail'')]),
     (''applicationpayloaderrortostring_5'', ''applicationPayloadErrorToString'', [(''../namespacestgs.html#a45a2c8095b5dbfef861d3de94fa3e602'', ''stgs'')]),
     (''applicationpayloadkindtostring_6'', ''applicationPayloadKindToString'', [(''../namespacestgs.html#a2e4fd8961dc20cc4ae5ae5380ff0c844'', ''stgs'')]),
     (''assertnear_7'', ''assertNear'', [(''../namespacestgs_1_1test.html#a62f6702850246418454bd7aa025ded9a'', ''stgs::test'')]),
     (''assertthrows_8'', ''assertThrows'', [(''../namespacestgs_1_1test.html#ad1656bd9c6bdcbc93e9b8f369a4ffe65'', ''stgs::test'')])]"

definition functions_1 :: "search_entry list" where
  "functions_1 = map search_symbol
    [(''blockingqueue_0'', ''blockingqueue'', [(''../classstgs_1_1BlockingQueue.html#a338b6b942f4ccf56cf64e754433e76fc'', ''stgs::BlockingQueue::BlockingQueue(std::size_t capacity=0U)''), (''../classstgs_1_1BlockingQueue.html#acc6b8fc0643c9a0056a9c289a6b9bcba'', ''stgs::BlockingQueue::BlockingQueue(const BlockingQueue &amp;)=delete'')]),
     (''bufferedbytes_1'', ''bufferedBytes'', [(''../classstgs_1_1StreamFrameExtractor.html#a4c8db84b6856dc01b744e7fce8c8df14'', ''stgs::StreamFrameExtractor'')])]"

definition functions_2 :: "search_entry list" where
  "functions_2 = map search_symbol
    [(''capacity_0'', ''capacity'', [(''../classstgs_1_1BlockingQueue.html#a4d54b73a85423f1b7a0b0b698cc376da'', ''stgs::BlockingQueue'')]),
     (''capture_1'', ''capture'', [(''../classstgs_1_1app_1_1ground__station_1_1AsyncFailure.html#ab1b3fc6da1eb73cbd36e1c04889e1007'', ''stgs::app::ground_station::AsyncFailure'')]),
     (''checklocalportavailability_2'', ''checkLocalPortAvailability'', [(''../namespacestgs.html#a9e3558ccc5cda76fa7ac8e5cf36b8fa8'', ''stgs'')]),
     (''clear_3'', ''clear'', [(''../classstgs_1_1StreamFrameExtractor.html#a7c82f4ef262914570a4348018fc4c682'', ''stgs::StreamFrameExtractor'')]),
     (''close_4'', ''close'', [(''../classstgs_1_1BlockingQueue.html#a0ce71abdabe34acee62faab0c9dafdb7'', ''stgs::BlockingQueue'')]),
     (''closed_5'', ''closed'', [(''../classstgs_1_1BlockingQueue.html#a98ce70a8b9c95832b02a124c2a1eb15a'', ''stgs::BlockingQueue'')]),
     (''colorsenabled_6'', ''colorsEnabled'', [(''../classstgs_1_1TerminalUi.html#afbe82d671c9e48c048bb990312e1eb76'', ''stgs::TerminalUi'')]),
     (''computesignalmetrics_7'', ''computeSignalMetrics'', [(''../namespacestgs.html#a28ae1709832b8407892d8d3b767cae0d'', ''stgs'')]),
     (''connectloopback_8'', ''connectLoopback'', [(''../namespacestgs_1_1test.html#adf387066d23f3f075e40f1a1911172ea'', ''stgs::test'')]),
     (''count_9'', ''count'', [(''../structstgs_1_1PortRange.html#a7cfeaa08040db1b19a5906537fb263e2'', ''stgs::PortRange'')]),
     (''crc32_10'', ''crc32'', [(''../namespacestgs.html#a6b24ed28e7cb67e90a0d801ea9602534'', ''stgs::crc32(std::span&lt; const std::uint8_t &gt; bytes) noexcept''), (''../namespacestgs.html#a0dfeb4a19f1b73b44a2b0bb9ea498e88'', ''stgs::crc32(std::string_view text) noexcept'')]),
     (''createsocket_11'', ''createSocket'', [(''../namespacestgs_1_1app_1_1simulator.html#a52d860dedba944beac4909c45084bbad'', ''stgs::app::simulator'')])]"

definition functions_3 :: "search_entry list" where
  "functions_3 = map search_symbol
    [(''debug_0'', ''debug'', [(''../classstgs_1_1Logger.html#a7b1647059e095774d43512bd0ade1000'', ''stgs::Logger'')]),
     (''decodeapplicationpayload_1'', ''decodeApplicationPayload'', [(''../namespacestgs.html#af8f13007bacb6d468b61280260ae8daf'', ''stgs'')]),
     (''decodeframe_2'', ''decodeFrame'', [(''../namespacestgs.html#abfa6635744db7019364480e2614afb32'', ''stgs'')]),
     (''destination_3'', ''destination'', [(''../namespacestgs_1_1app_1_1simulator.html#aecdeae718bd6bbeba8838e5dcbe016f8'', ''stgs::app::simulator'')])]"

definition functions_4 :: "search_entry list" where
  "functions_4 = map search_symbol
    [(''encodeframe_0'', ''encodeFrame'', [(''../namespacestgs.html#a96d420ce35d29e8fbcfb4228464169aa'', ''stgs'')]),
     (''encodesignalblockpayload_1'', ''encodeSignalBlockPayload'', [(''../namespacestgs.html#a6df02cb32efc818d349522c29ef2197d'', ''stgs'')]),
     (''encodetextmessagepayload_2'', ''encodeTextMessagePayload'', [(''../namespacestgs.html#a91ad6444414562d0dcf977c6e8fc5ab7'', ''stgs'')]),
     (''ephemeralport_3'', ''ephemeralPort'', [(''../namespacestgs_1_1test.html#a662fb280ee6865e992ad292c7eb966e3'', ''stgs::test'')]),
     (''error_4'', ''error'', [(''../classstgs_1_1Logger.html#a714e363fcba209c745f8fb22eb220d60'', ''stgs::Logger'')]),
     (''errorcodetostring_5'', ''errorCodeToString'', [(''../namespacestgs.html#a6790660a2b914bf45160cc8d38973a28'', ''stgs'')])]"

definition functions_5 :: "search_entry list" where
  "functions_5 = map search_symbol
    [(''feed_0'', ''feed'', [(''../classstgs_1_1StreamFrameExtractor.html#a7d3def59de4dc549e05c33eb5e80e1a4'', ''stgs::StreamFrameExtractor'')]),
     (''findfirstavailablelocalport_1'', ''findFirstAvailableLocalPort'', [(''../namespacestgs.html#a3711847fc7f4844d7ff12f7835d8a8fd'', ''stgs'')]),
     (''finish_2'', ''finish'', [(''../classstgs_1_1app_1_1ground__station_1_1PosixSignalStopController.html#a6e65c3fb986b905596a254439d8f252a'', ''stgs::app::ground_station::PosixSignalStopController::finish()''), (''../classstgs_1_1app_1_1ground__station_1_1TelemetryOutput.html#ab31b4fba12a683f1505951d406717776'', ''stgs::app::ground_station::TelemetryOutput::finish()'')]),
     (''flush_3'', ''flush'', [(''../classstgs_1_1FrameFileWriter.html#abbf59bb86fa348f352879a01beaf9586'', ''stgs::FrameFileWriter'')]),
     (''framefilereader_4'', ''framefilereader'', [(''../classstgs_1_1FrameFileReader.html#ad2ba5c80795b399b144122b666d8d184'', ''stgs::FrameFileReader::FrameFileReader(const std::filesystem::path &amp;path)''), (''../classstgs_1_1FrameFileReader.html#ac91f1a5de928bef5d277a829a8a41cd8'', ''stgs::FrameFileReader::FrameFileReader(const FrameFileReader &amp;)=delete'')]),
     (''framefilewriter_5'', ''framefilewriter'', [(''../classstgs_1_1FrameFileWriter.html#a6a98b7bef36f40e1e3e2e1ba0fb473e9'', ''stgs::FrameFileWriter::FrameFileWriter(const std::filesystem::path &amp;path)''), (''../classstgs_1_1FrameFileWriter.html#afd0202fe0483bd7ccebe184db6f0d15f'', ''stgs::FrameFileWriter::FrameFileWriter(const FrameFileWriter &amp;)=delete'')])]"

definition functions_6 :: "search_entry list" where
  "functions_6 = map search_symbol
    [(''get_0'', ''get'', [(''../classstgs_1_1app_1_1simulator_1_1SocketFd.html#acfa85dbb116f87c1c17bc6cb18c9f690'', ''stgs::app::simulator::SocketFd'')]),
     (''groundstationpipeline_1'', ''GroundStationPipeline'', [(''../classstgs_1_1app_1_1ground__station_1_1GroundStationPipeline.html#a44539f7f9ecd25fe739fc3d9b9c8e304'', ''stgs::app::ground_station::GroundStationPipeline'')])]"

definition functions_7 :: "search_entry list" where
  "functions_7 = map search_symbol
    [(''info_0'', ''info'', [(''../classstgs_1_1Logger.html#a259da3304341bbf21616732231939265'', ''stgs::Logger'')]),
     (''interactive_1'', ''interactive'', [(''../classstgs_1_1TerminalUi.html#ae050f8d992bfae035bab289ff6d00499'', ''stgs::TerminalUi'')]),
     (''isloopbackipv4_2'', ''isLoopbackIpv4'', [(''../namespacestgs.html#a7adda113b45c802e2582cd09d38b31e0'', ''stgs'')])]"

definition functions_8 :: "search_entry list" where
  "functions_8 = map search_symbol
    [(''keyvalue_0'', ''keyValue'', [(''../classstgs_1_1TerminalUi.html#abca15310e22fe982ba94d3b7f44b843b'', ''stgs::TerminalUi'')])]"

definition functions_9 :: "search_entry list" where
  "functions_9 = map search_symbol
    [(''log_0'', ''log'', [(''../classstgs_1_1Logger.html#ad62b4fe2573d0fbc245bc8499072132e'', ''stgs::Logger'')]),
     (''logger_1'', ''logger'', [(''../classstgs_1_1Logger.html#aa47f826e89b7d939d7c2989379d5cd6a'', ''stgs::Logger::Logger(std::optional&lt; std::filesystem::path &gt; filePath=std::nullopt, LogLevel minLevel=LogLevel::Info)''), (''../classstgs_1_1Logger.html#ab57feb2db1362d1cab97d3fcaba73063'', ''stgs::Logger::Logger(const Logger &amp;)=delete'')]),
     (''logleveltostring_2'', ''logLevelToString'', [(''../namespacestgs.html#accc0b6ac907948c066bcc504da10d3cf'', ''stgs'')]),
     (''logtransition_3'', ''logTransition'', [(''../namespacestgs_1_1app_1_1ground__station.html#a78082cb7155ab90735f365ccd62a3846'', ''stgs::app::ground_station'')])]"

definition functions_a :: "search_entry list" where
  "functions_a = map search_symbol
    [(''main_0'', ''main'', [(''../ground__station_8cpp.html#a3c04138a5bfe5d72780bb7e82a18e627'', ''main(int argc, char **argv):&#160;ground_station.cpp''), (''../port__check_8cpp.html#a3c04138a5bfe5d72780bb7e82a18e627'', ''main(int argc, char **argv):&#160;port_check.cpp''), (''../satellite__simulator_8cpp.html#a3c04138a5bfe5d72780bb7e82a18e627'', ''main(int argc, char **argv):&#160;satellite_simulator.cpp''), (''../benchmark__decode_8cpp.html#a3c04138a5bfe5d72780bb7e82a18e627'', ''main(int argc, char **argv):&#160;benchmark_decode.cpp''), (''../test__main_8cpp.html#ae66f6b31b5ad750f1fe042a706a4e3d4'', ''main():&#160;test_main.cpp'')]),
     (''makeframe_1'', ''makeFrame'', [(''../namespacestgs_1_1app_1_1simulator.html#a3a1a7a1c5f19e37e5663378b5dafec76'', ''stgs::app::simulator'')]),
     (''maybecorrupt_2'', ''maybeCorrupt'', [(''../namespacestgs_1_1app_1_1simulator.html#a1570394fb5fc99051ce0874461046420'', ''stgs::app::simulator'')]),
     (''movingaveragefilter_3'', ''movingAverageFilter'', [(''../namespacestgs.html#ab457496c4c0e42e80f6799eeca183c62'', ''stgs'')])]"

definition functions_b :: "search_entry list" where
  "functions_b = map search_symbol
    [(''networkserver_0'', ''networkserver'', [(''../classstgs_1_1NetworkServer.html#a040e057f504e4a87d455afa9945c1a91'', ''stgs::NetworkServer::NetworkServer(NetworkConfig config, Logger &amp;logger)''), (''../classstgs_1_1NetworkServer.html#ab09894d06d7d697cfea64b997fcc67a6'', ''stgs::NetworkServer::NetworkServer(const NetworkServer &amp;)=delete'')]),
     (''nowiso8601_1'', ''nowIso8601'', [(''../namespacestgs.html#a13a8b54e63f390f2fc7dab36ab707743'', ''stgs'')])]"

definition functions_c :: "search_entry list" where
  "functions_c = map search_symbol
    [(''operator_3d_0'', ''operator='', [(''../classstgs_1_1app_1_1ground__station_1_1PosixSignalStopController.html#a2c95eeb061c8dbc9d0f203dabc2308cb'', ''stgs::app::ground_station::PosixSignalStopController::operator=()''), (''../classstgs_1_1app_1_1simulator_1_1SocketFd.html#aa94c44574c1380ab4d448e50b7a3bb59'', ''stgs::app::simulator::SocketFd::operator=(const SocketFd &amp;)=delete''), (''../classstgs_1_1app_1_1simulator_1_1SocketFd.html#a14fc650fec4dbfb8b75a5e4f184233cc'', ''stgs::app::simulator::SocketFd::operator=(SocketFd &amp;&amp;other) noexcept''), (''../classstgs_1_1BlockingQueue.html#adc149752576b540c84cad0354c77f5ab'', ''stgs::BlockingQueue::operator=()''), (''../classstgs_1_1Logger.html#a15c2c176e8a116dc321e6b994ee0890b'', ''stgs::Logger::operator=()''), (''../classstgs_1_1NetworkServer.html#a9c3d5ff114ff70a4ea45e821bbb3c2e2'', ''stgs::NetworkServer::operator=()''), (''../classstgs_1_1FrameFileWriter.html#a1268da0afe7f54565be83425ebd519b4'', ''stgs::FrameFileWriter::operator=()''), (''../classstgs_1_1FrameFileReader.html#a7f54cc817433632bc57c39085f888494'', ''stgs::FrameFileReader::operator=()''), (''../classstgs_1_1StationHealthMonitor.html#aec2f8d4a305fbebc45301c8694ba8959'', ''stgs::StationHealthMonitor::operator=()'')])]"

definition functions_d :: "search_entry list" where
  "functions_d = map search_symbol
    [(''parseargs_0'', ''parseargs'', [(''../namespacestgs_1_1app_1_1ground__station.html#a310e8ff89b553d737d7d1ccdc9e91491'', ''stgs::app::ground_station::parseArgs()''), (''../namespacestgs_1_1app_1_1simulator.html#adae5380ec0cd339bc25c7008d3f97b84'', ''stgs::app::simulator::parseArgs()'')]),
     (''parsefinitedouble_1'', ''parseFiniteDouble'', [(''../namespacestgs.html#a9ccb3a36865cfcbbe10e28f57c0f6d75'', ''stgs'')]),
     (''parseloglevel_2'', ''parseLogLevel'', [(''../namespacestgs.html#ac58de0b5c818c56849a53133a7cf668f'', ''stgs'')]),
     (''parseportrange_3'', ''parsePortRange'', [(''../namespacestgs.html#a28244a59e980c9510ee6f8bc1e69809b'', ''stgs'')]),
     (''parseprobability_4'', ''parseProbability'', [(''../namespacestgs.html#a8bfe5e03446c5b8d5b62144ac66a6c5c'', ''stgs'')]),
     (''parseunsigned_5'', ''parseUnsigned'', [(''../namespacestgs.html#a31a7ad15af4ad9bb1401e9dcfd3e4bf7'', ''stgs'')]),
     (''payloadmodename_6'', ''payloadModeName'', [(''../namespacestgs_1_1app_1_1simulator.html#aaa9d86b8b866d56f0454ad257bdd804c'', ''stgs::app::simulator'')]),
     (''payloadtohex_7'', ''payloadToHex'', [(''../namespacestgs.html#a0a370d2a47008f84d40e430ccfa8b2f6'', ''stgs'')]),
     (''pop_8'', ''pop'', [(''../classstgs_1_1BlockingQueue.html#ac5bf4983522afa1caddc7e98571b9328'', ''stgs::BlockingQueue'')]),
     (''posixsignalstopcontroller_9'', ''posixsignalstopcontroller'', [(''../classstgs_1_1app_1_1ground__station_1_1PosixSignalStopController.html#ad5283ce2802135308bca0bb1904a8842'', ''stgs::app::ground_station::PosixSignalStopController::PosixSignalStopController(std::atomic_bool &amp;running)''), (''../classstgs_1_1app_1_1ground__station_1_1PosixSignalStopController.html#a580a72d1ab6060cec674e190273c78a9'', ''stgs::app::ground_station::PosixSignalStopController::PosixSignalStopController(const PosixSignalStopController &amp;)=delete'')]),
     (''printusage_10'', ''printusage'', [(''../namespacestgs_1_1app_1_1ground__station.html#a42ae5cdfc32ceb72f4337d6f3bd641ef'', ''stgs::app::ground_station::printUsage()''), (''../namespacestgs_1_1app_1_1simulator.html#ac8da0b08da8261007c889cf3cd00dc22'', ''stgs::app::simulator::printUsage()'')]),
     (''probetcpport_11'', ''probeTcpPort'', [(''../namespacestgs.html#a31f0fdd245489f09a743aa8df55707df'', ''stgs'')]),
     (''processapplicationpayload_12'', ''processApplicationPayload'', [(''../namespacestgs_1_1app_1_1ground__station.html#a0d507efe3c231057079de3c7ca8c07ee'', ''stgs::app::ground_station'')]),
     (''push_13'', ''push'', [(''../classstgs_1_1BlockingQueue.html#a814165c535141ce4b63eedac3f42ea35'', ''stgs::BlockingQueue'')])]"

definition functions_e :: "search_entry list" where
  "functions_e = map search_symbol
    [(''readfloatbe_0'', ''readFloatBE'', [(''../namespacestgs_1_1detail.html#a43b10e016ab984cb5800e62c8e8eac0f'', ''stgs::detail'')]),
     (''readnext_1'', ''readNext'', [(''../classstgs_1_1FrameFileReader.html#ad50184679157d2609da98924b7d0d3ec'', ''stgs::FrameFileReader'')]),
     (''readu16be_2'', ''readU16BE'', [(''../namespacestgs_1_1detail.html#a5348b159392823cfed94d84a1632e3c0'', ''stgs::detail'')]),
     (''readu32be_3'', ''readU32BE'', [(''../namespacestgs_1_1detail.html#acf588485290204c5dbe14e3e3ca09da5'', ''stgs::detail'')]),
     (''readu64be_4'', ''readU64BE'', [(''../namespacestgs_1_1detail.html#aab1552667811a653b12c4bd02ddae7e9'', ''stgs::detail'')]),
     (''receivedmessage_5'', ''receivedMessage'', [(''../classstgs_1_1TerminalUi.html#a473df2d3fd1b2c88e11ff4e7cb09fcbd'', ''stgs::TerminalUi'')]),
     (''receivedsignal_6'', ''receivedSignal'', [(''../classstgs_1_1TerminalUi.html#ada2090e90ddbbfb3c414946682a62fd9'', ''stgs::TerminalUi'')]),
     (''recorddecoded_7'', ''recordDecoded'', [(''../classstgs_1_1StationHealthMonitor.html#a65cdc482ed61ecf137f9c1342359ee25'', ''stgs::StationHealthMonitor'')]),
     (''recordrejected_8'', ''recordRejected'', [(''../classstgs_1_1StationHealthMonitor.html#a0badd5e3d5c3368675151eb1bdd9f675'', ''stgs::StationHealthMonitor'')]),
     (''registerapplicationsignaltests_9'', ''registerApplicationSignalTests'', [(''../namespacestgs_1_1test.html#ac15836adf0f202565f19897f825e9459'', ''stgs::test'')]),
     (''registercodectests_10'', ''registerCodecTests'', [(''../namespacestgs_1_1test.html#a37925dfe5c629b8fb952a494927cb8e4'', ''stgs::test'')]),
     (''registernetworktests_11'', ''registerNetworkTests'', [(''../namespacestgs_1_1test.html#a6510cc8d707db0a73764a7b5da0f4afa'', ''stgs::test'')]),
     (''registerreplayhealthtests_12'', ''registerReplayHealthTests'', [(''../namespacestgs_1_1test.html#a41d470c6ed582556e1b0bc2667babddb'', ''stgs::test'')]),
     (''resolveoutputformat_13'', ''resolveOutputFormat'', [(''../namespacestgs_1_1app_1_1ground__station.html#affad379af8c3fc0ea84ac38d73164582'', ''stgs::app::ground_station'')]),
     (''rethrowifpresent_14'', ''rethrowIfPresent'', [(''../classstgs_1_1app_1_1ground__station_1_1AsyncFailure.html#a954e8aad79cb6da0637af5f80f50695a'', ''stgs::app::ground_station::AsyncFailure'')]),
     (''rethrowthreaderror_15'', ''rethrowThreadError'', [(''../namespacestgs_1_1test.html#a1895bfde0ed8a5447448e60603f5ea07'', ''stgs::test'')]),
     (''run_16'', ''run'', [(''../classstgs_1_1app_1_1ground__station_1_1GroundStationPipeline.html#a26cb67946ac332611a4ca64dd1fbcea3'', ''stgs::app::ground_station::GroundStationPipeline::run()''), (''../classstgs_1_1NetworkServer.html#a6acf0bea7fe9249345e6f096ccffa347'', ''stgs::NetworkServer::run()''), (''../namespacestgs_1_1app_1_1ground__station.html#a0a2153806b7da8fb962bffb9f7ce5d88'', ''stgs::app::ground_station::run()''), (''../namespacestgs_1_1app_1_1simulator.html#abd617338ab0f74c5f58570eff7308cb4'', ''stgs::app::simulator::run()'')])]"

definition functions_f :: "search_entry list" where
  "functions_f = map search_symbol
    [(''sampleframe_0'', ''sampleFrame'', [(''../namespacestgs_1_1test.html#ae0b7a89f66739b8818b8cb70a43847a0'', ''stgs::test'')]),
     (''sanitizeremotetext_1'', ''sanitizeRemoteText'', [(''../classstgs_1_1TerminalUi.html#a2d3f47e6d3f62d5650686d67b6bfeef9'', ''stgs::TerminalUi'')]),
     (''scantcpports_2'', ''scanTcpPorts'', [(''../namespacestgs.html#a53f008098655c7495554541d87b0872e'', ''stgs'')]),
     (''section_3'', ''section'', [(''../classstgs_1_1TerminalUi.html#a47273df409944d53f44113a0b6953a22'', ''stgs::TerminalUi'')]),
     (''sendall_4'', ''sendAll'', [(''../namespacestgs_1_1app_1_1simulator.html#a416941f121efdd1b7eee966bde5c0ad4'', ''stgs::app::simulator'')]),
     (''sendexact_5'', ''sendExact'', [(''../namespacestgs_1_1test.html#a679c47ac3889440f2332b350e2fe6dcf'', ''stgs::test'')]),
     (''setminlevel_6'', ''setMinLevel'', [(''../classstgs_1_1Logger.html#a7fdc082b00eb8327ed015b4478df616b'', ''stgs::Logger'')]),
     (''signalfiltermodetostring_7'', ''signalFilterModeToString'', [(''../namespacestgs.html#a50f2f8ec0839574a23fbf2fa3a7e2778'', ''stgs'')]),
     (''sineprojectionfilter_8'', ''sineProjectionFilter'', [(''../namespacestgs.html#a56200a6087e716885d56efa37b538687'', ''stgs'')]),
     (''size_9'', ''size'', [(''../classstgs_1_1BlockingQueue.html#a7bc22def269faad2dbaf661bf628991e'', ''stgs::BlockingQueue'')]),
     (''snapshot_10'', ''snapshot'', [(''../classstgs_1_1StationHealthMonitor.html#aad7088b2d36134d9fe303dfae3b4b585'', ''stgs::StationHealthMonitor'')]),
     (''socketfd_11'', ''socketfd'', [(''../classstgs_1_1app_1_1simulator_1_1SocketFd.html#a2819ea4c0dbcc30d0833df100c821fc6'', ''stgs::app::simulator::SocketFd::SocketFd(int fd=-1) noexcept''), (''../classstgs_1_1app_1_1simulator_1_1SocketFd.html#a1f57a7e1382c7f71f7626e609d06d64d'', ''stgs::app::simulator::SocketFd::SocketFd(const SocketFd &amp;)=delete''), (''../classstgs_1_1app_1_1simulator_1_1SocketFd.html#a48a21e47a4456827842bfb7caf2e872f'', ''stgs::app::simulator::SocketFd::SocketFd(SocketFd &amp;&amp;other) noexcept'')]),
     (''sparkline_12'', ''sparkline'', [(''../classstgs_1_1TerminalUi.html#aab7aa21c7536c3803bfac9d7ac70ef16'', ''stgs::TerminalUi'')]),
     (''state_13'', ''state'', [(''../classstgs_1_1StationHealthMonitor.html#a2a6580a4fd3ae5885e1503d56ba19c8c'', ''stgs::StationHealthMonitor'')]),
     (''stationhealthmonitor_14'', ''stationhealthmonitor'', [(''../classstgs_1_1StationHealthMonitor.html#adfccc996d2c348fc662491e15e7e9094'', ''stgs::StationHealthMonitor::StationHealthMonitor(const StationHealthMonitor &amp;)=delete''), (''../classstgs_1_1StationHealthMonitor.html#a5b331b0d4c6ef23f6b5539ef7acd86de'', ''stgs::StationHealthMonitor::StationHealthMonitor(StationHealthConfig config={})'')]),
     (''stationstatetostring_15'', ''stationStateToString'', [(''../namespacestgs.html#aab97099af93b31681943b81e22a072f9'', ''stgs'')]),
     (''stats_16'', ''stats'', [(''../classstgs_1_1app_1_1ground__station_1_1GroundStationPipeline.html#a0ccdbc02e3cf4550017e0bc3cb7843eb'', ''stgs::app::ground_station::GroundStationPipeline'')]),
     (''statusline_17'', ''statusLine'', [(''../classstgs_1_1TerminalUi.html#ad63a28060f9eab714bcdbd1a7b1e925a'', ''stgs::TerminalUi'')]),
     (''statustostring_18'', ''statusToString'', [(''../namespacestgs.html#ab4e19b7617cb12defb08493a6b3cdaff'', ''stgs'')]),
     (''stop_19'', ''stop'', [(''../classstgs_1_1NetworkServer.html#ad09bd13117e7641f80e89553a56af016'', ''stgs::NetworkServer'')])]"

definition functions_10 :: "search_entry list" where
  "functions_10 = map search_symbol
    [(''tcpportstatetostring_0'', ''tcpPortStateToString'', [(''../namespacestgs.html#a076b443733c851d7d25ccbfb195d5771'', ''stgs'')]),
     (''telemetryoutput_1'', ''TelemetryOutput'', [(''../classstgs_1_1app_1_1ground__station_1_1TelemetryOutput.html#af291968b2673d360296e1a7d9d162e41'', ''stgs::app::ground_station::TelemetryOutput'')]),
     (''terminalui_2'', ''TerminalUi'', [(''../classstgs_1_1TerminalUi.html#a0a67851409e5b8bfd80e6106ad908152'', ''stgs::TerminalUi'')]),
     (''tostring_3'', ''toString'', [(''../namespacestgs.html#a8f567dceabc386f4dc5d2f139fae69ac'', ''stgs'')]),
     (''trace_4'', ''trace'', [(''../classstgs_1_1Logger.html#af61fa84f5e582f599b428efd3c283879'', ''stgs::Logger'')]),
     (''transporttostring_5'', ''transportToString'', [(''../namespacestgs.html#a5c6b2b1538926a6420d12849fb22ff90'', ''stgs'')])]"

definition functions_11 :: "search_entry list" where
  "functions_11 = map search_symbol
    [(''valid_0'', ''valid'', [(''../structstgs_1_1PortRange.html#a88a5c45197a3c12512d3421d91595005'', ''stgs::PortRange'')])]"

definition functions_12 :: "search_entry list" where
  "functions_12 = map search_symbol
    [(''warning_0'', ''warning'', [(''../classstgs_1_1Logger.html#a4263b13735c24e070fc838460b83706e'', ''stgs::Logger'')]),
     (''width_1'', ''width'', [(''../classstgs_1_1TerminalUi.html#afc01eb85687a08fdd054b43ddb1d4aaf'', ''stgs::TerminalUi'')]),
     (''write_2'', ''write'', [(''../classstgs_1_1app_1_1ground__station_1_1TelemetryOutput.html#a2200f5da81f2729c086e7d23d04dc17c'', ''stgs::app::ground_station::TelemetryOutput'')]),
     (''writeframe_3'', ''writeFrame'', [(''../classstgs_1_1FrameFileWriter.html#a425eebf56934d2040d25e97e4927376b'', ''stgs::FrameFileWriter'')])]"

definition functions_13 :: "search_entry list" where
  "functions_13 = map search_symbol
    [(''_7eframefilewriter_0'', ''~FrameFileWriter'', [(''../classstgs_1_1FrameFileWriter.html#a18792af70da7ee23ef2b0c1f5be048ef'', ''stgs::FrameFileWriter'')]),
     (''_7elogger_1'', ''~Logger'', [(''../classstgs_1_1Logger.html#a8923e46f2e833497f0d0f2a0840ecb28'', ''stgs::Logger'')]),
     (''_7enetworkserver_2'', ''~NetworkServer'', [(''../classstgs_1_1NetworkServer.html#a2302471470abe37838539a0bf3483787'', ''stgs::NetworkServer'')]),
     (''_7eposixsignalstopcontroller_3'', ''~PosixSignalStopController'', [(''../classstgs_1_1app_1_1ground__station_1_1PosixSignalStopController.html#a08a5c6ee97beb43756078229139dd571'', ''stgs::app::ground_station::PosixSignalStopController'')]),
     (''_7esocketfd_4'', ''~SocketFd'', [(''../classstgs_1_1app_1_1simulator_1_1SocketFd.html#af03e179687fc4e5ca2b29c07b6fa70eb'', ''stgs::app::simulator::SocketFd'')])]"

definition variables_0 :: "search_entry list" where
  "variables_0 = map search_symbol
    [(''applicationcommonheadersize_0'', ''ApplicationCommonHeaderSize'', [(''../namespacestgs.html#a2e3dc2924fb8e0de0ae5b67bda4c38d3'', ''stgs'')]),
     (''applicationerrors_1'', ''applicationErrors'', [(''../structstgs_1_1app_1_1ground__station_1_1PipelineStats.html#a1567030b61f851fb3ef04cd92e408df9'', ''stgs::app::ground_station::PipelineStats'')]),
     (''applicationpayloadmagic_2'', ''ApplicationPayloadMagic'', [(''../namespacestgs.html#aeb984907d57236b459c47b678da2e3d1'', ''stgs'')]),
     (''applicationpayloadversion_3'', ''ApplicationPayloadVersion'', [(''../namespacestgs.html#a3c4b724804004d0cbbfa346f7fb312fb'', ''stgs'')]),
     (''autoportrange_4'', ''autoPortRange'', [(''../structstgs_1_1app_1_1ground__station_1_1Options.html#a587544c291359aad7f39477a4c9e2bf6'', ''stgs::app::ground_station::Options'')]),
     (''available_5'', ''available'', [(''../structstgs_1_1LocalPortAvailability.html#a67e52677b66d8d2712ea79ad89cf86fa'', ''stgs::LocalPortAvailability'')])]"

definition variables_1 :: "search_entry list" where
  "variables_1 = map search_symbol
    [(''batteryoffset_0'', ''BatteryOffset'', [(''../namespacestgs.html#aceda3f1abf5c9b9a85133a4566b455c1'', ''stgs'')]),
     (''batterypercent_1'', ''batteryPercent'', [(''../structstgs_1_1TelemetryFrame.html#a02c7ba32d96eb0fea578eefac2cc8d6f'', ''stgs::TelemetryFrame'')]),
     (''bindaddress_2'', ''bindaddress'', [(''../structstgs_1_1app_1_1ground__station_1_1Options.html#a69dadf7f1603c0332a2b4a210ab8332d'', ''stgs::app::ground_station::Options::bindAddress''), (''../structstgs_1_1NetworkConfig.html#af526151af5d29d05947a1ed99f781749'', ''stgs::NetworkConfig::bindAddress'')]),
     (''bytemask_3'', ''ByteMask'', [(''../namespacestgs_1_1detail.html#aa375565c0fc4c92865ea298dba3b6691'', ''stgs::detail'')]),
     (''bytes_4'', ''bytes'', [(''../structstgs_1_1app_1_1ground__station_1_1RawWorkItem.html#a32c01440dff1d6c5d5f1bdd55f3905c9'', ''stgs::app::ground_station::RawWorkItem'')])]"

definition variables_2 :: "search_entry list" where
  "variables_2 = map search_symbol
    [(''code_0'', ''code'', [(''../structstgs_1_1FrameError.html#adbf564bd743a3e37a6585723874e0574'', ''stgs::FrameError::code''), (''../structstgs_1_1ApplicationPayloadError.html#a181d2c642bbe9366301b8952c4ef9390'', ''stgs::ApplicationPayloadError::code'')]),
     (''color_1'', ''color'', [(''../structstgs_1_1app_1_1ground__station_1_1Options.html#a5da80e2a4b6aec6fd1af71cf827a571d'', ''stgs::app::ground_station::Options::color''), (''../structstgs_1_1app_1_1simulator_1_1Options.html#a6a007eb396ee2c2901b30fc51e541fc2'', ''stgs::app::simulator::Options::color'')]),
     (''corruptprobability_2'', ''corruptProbability'', [(''../structstgs_1_1app_1_1simulator_1_1Options.html#a4a5522996fbd3380b527ce02d8ed9e19'', ''stgs::app::simulator::Options'')]),
     (''coscoefficient_3'', ''cosCoefficient'', [(''../SignalProcessing_8cpp.html#a0ca6c78a79e2c23159b81c2c23da827a'', ''SignalProcessing.cpp'')]),
     (''count_4'', ''count'', [(''../structstgs_1_1app_1_1simulator_1_1Options.html#a21d2ca0623d70e2e050c951144724d60'', ''stgs::app::simulator::Options'')]),
     (''countexplicit_5'', ''countExplicit'', [(''../structstgs_1_1app_1_1simulator_1_1Options.html#aaf5366a0d3e7f8cff0c9104efbd45018'', ''stgs::app::simulator::Options'')]),
     (''crc32check123456789_6'', ''Crc32Check123456789'', [(''../namespacestgs.html#a5594cb785adddb5af16c0f7f298a6225'', ''stgs'')]),
     (''crc32finalxor_7'', ''Crc32FinalXor'', [(''../namespacestgs.html#a0a35ad0fca0eff1e50c4b551a823720d'', ''stgs'')]),
     (''crc32initialvalue_8'', ''Crc32InitialValue'', [(''../namespacestgs.html#a74c109e159b49bd03f8ebeb529bf1226'', ''stgs'')]),
     (''crc32polynomial_9'', ''Crc32Polynomial'', [(''../namespacestgs.html#a4c3cf84a665a74aca60d79d2720cdd44'', ''stgs'')]),
     (''crc32reflectedpolynomial_10'', ''Crc32ReflectedPolynomial'', [(''../namespacestgs.html#ad872c0cffd61ccff234a327a86d8aebb'', ''stgs'')]),
     (''crcsize_11'', ''CrcSize'', [(''../namespacestgs.html#a2af9dce4ca0370f9f2df450a9aa03ef4'', ''stgs'')]),
     (''critical_12'', ''critical'', [(''../structstgs_1_1StationHealthSnapshot.html#ad809a3e3dda1d2320dff3c1286ff3dc0'', ''stgs::StationHealthSnapshot'')]),
     (''criticalframesfordegraded_13'', ''criticalFramesForDegraded'', [(''../structstgs_1_1StationHealthConfig.html#a3bf12ea3a9fa4e94146270086722405b'', ''stgs::StationHealthConfig'')]),
     (''criticalframesforrecovery_14'', ''criticalFramesForRecovery'', [(''../structstgs_1_1StationHealthConfig.html#aa17b2f19b81f73f2176aec8d2f4e0fe2'', ''stgs::StationHealthConfig'')])]"

definition variables_3 :: "search_entry list" where
  "variables_3 = map search_symbol
    [(''dc_0'', ''dc'', [(''../SignalProcessing_8cpp.html#af198a5882da491a016df14cac18b2856'', ''SignalProcessing.cpp'')]),
     (''decoded_1'', ''decoded'', [(''../structstgs_1_1app_1_1ground__station_1_1PipelineStats.html#a7feafbe2ebe0825cca6774b1844b1338'', ''stgs::app::ground_station::PipelineStats'')]),
     (''decoderthreads_2'', ''decoderThreads'', [(''../structstgs_1_1app_1_1ground__station_1_1Options.html#aacf3f4c2c1eeafe942e76470baea35c8'', ''stgs::app::ground_station::Options'')]),
     (''defaultnetworkpolltimeoutms_3'', ''DefaultNetworkPollTimeoutMs'', [(''../namespacestgs.html#a9b83d5fba556317dfed190570a657a15'', ''stgs'')]),
     (''defaultpayloadpreviewbytes_4'', ''DefaultPayloadPreviewBytes'', [(''../namespacestgs.html#a15a874151f361a28fc4b701a20b936cb'', ''stgs'')]),
     (''defaultportprobetimeout_5'', ''DefaultPortProbeTimeout'', [(''../namespacestgs.html#a769fad3e0dd24b61146242b3beabfe49'', ''stgs'')]),
     (''defaulttelemetryport_6'', ''DefaultTelemetryPort'', [(''../namespacestgs.html#ab3eaa01404f6ebd84c9265bc3413a187'', ''stgs'')]),
     (''degradedrejectionrate_7'', ''degradedRejectionRate'', [(''../structstgs_1_1StationHealthConfig.html#af2ecfc6647a66641e7d7a2093b6c0eda'', ''stgs::StationHealthConfig'')]),
     (''detail_8'', ''detail'', [(''../structstgs_1_1TcpPortProbeResult.html#a7cf3ee74524e2f032e4175bc06fdaf12'', ''stgs::TcpPortProbeResult::detail''), (''../structstgs_1_1LocalPortAvailability.html#a287ac57266c891190db1f8f0099ec0af'', ''stgs::LocalPortAvailability::detail'')]),
     (''discoverports_9'', ''discoverPorts'', [(''../structstgs_1_1app_1_1simulator_1_1Options.html#a5f8fc46a9b3247d0960468628f940773'', ''stgs::app::simulator::Options'')]),
     (''discoverytimeout_10'', ''discoveryTimeout'', [(''../structstgs_1_1app_1_1simulator_1_1Options.html#afe849eac827386775d6c9b1291e2f9be'', ''stgs::app::simulator::Options'')])]"

definition variables_4 :: "search_entry list" where
  "variables_4 = map search_symbol
    [(''enabled_0'', ''enabled'', [(''../structstgs_1_1StationHealthConfig.html#a5fd0e373f0212ce8279c70df516926fd'', ''stgs::StationHealthConfig'')]),
     (''estimatedamplitude_1'', ''estimatedAmplitude'', [(''../structstgs_1_1SignalMetrics.html#af44f54028722447a767727eca27078d6'', ''stgs::SignalMetrics'')]),
     (''estimatedsnrdb_2'', ''estimatedSnrDb'', [(''../structstgs_1_1SignalMetrics.html#ab74d5d03f557f542c746ef6c9e05bb5b'', ''stgs::SignalMetrics'')]),
     (''extractor_3'', ''extractor'', [(''../NetworkServerTcp_8cpp.html#a89e98f35eb5391c805f03de688d94270'', ''NetworkServerTcp.cpp'')])]"

definition variables_5 :: "search_entry list" where
  "variables_5 = map search_symbol
    [(''fd_0'', ''fd'', [(''../NetworkServerTcp_8cpp.html#a6f8059414f0228f0256115e024eeed4b'', ''NetworkServerTcp.cpp'')]),
     (''filteredrms_1'', ''filteredRms'', [(''../structstgs_1_1SignalMetrics.html#aa2d9ad888f22cb619a4e17cd73803133'', ''stgs::SignalMetrics'')]),
     (''first_2'', ''first'', [(''../structstgs_1_1PortRange.html#a5974ad2a5dff722fc5fd7c646cce679d'', ''stgs::PortRange'')]),
     (''float32wiresize_3'', ''Float32WireSize'', [(''../namespacestgs.html#ad30888b452380949c566d434784bba70'', ''stgs'')]),
     (''framemagic_4'', ''FrameMagic'', [(''../namespacestgs.html#a0e4be2b427b7e545711791601cd0d394'', ''stgs'')]),
     (''frequencyhz_5'', ''frequencyHz'', [(''../structstgs_1_1SignalBlockPayload.html#a7119d2eca398e407971983d71051fb9e'', ''stgs::SignalBlockPayload'')]),
     (''from_6'', ''from'', [(''../structstgs_1_1StationStateTransition.html#a9f85cfbfc0332168e30dbb69094463d7'', ''stgs::StationStateTransition'')])]"

definition variables_6 :: "search_entry list" where
  "variables_6 = map search_symbol
    [(''headersize_0'', ''HeaderSize'', [(''../namespacestgs.html#abf8a7bd45da6596dc9997fd46c4eb096'', ''stgs'')]),
     (''healthconfig_1'', ''healthConfig'', [(''../structstgs_1_1app_1_1ground__station_1_1Options.html#a162aeb5eeaca2e0d1c8d64258bb07d8d'', ''stgs::app::ground_station::Options'')]),
     (''host_2'', ''host'', [(''../structstgs_1_1app_1_1simulator_1_1Options.html#a6709401e926dd4896c6c9620d8e00f21'', ''stgs::app::simulator::Options'')])]"

definition variables_7 :: "search_entry list" where
  "variables_7 = map search_symbol
    [(''last_0'', ''last'', [(''../structstgs_1_1PortRange.html#a23ae79afc9384a569e6de733f9a972ba'', ''stgs::PortRange'')]),
     (''latencyms_1'', ''latencyMs'', [(''../structstgs_1_1TcpPortProbeResult.html#a777d1834bbd051ecce69df18c371e711'', ''stgs::TcpPortProbeResult'')]),
     (''logfile_2'', ''logFile'', [(''../structstgs_1_1app_1_1ground__station_1_1Options.html#aab0afe12f93a9cb1d5fbd63f48baabfb'', ''stgs::app::ground_station::Options'')]),
     (''loglevel_3'', ''logLevel'', [(''../structstgs_1_1app_1_1ground__station_1_1Options.html#a3ac5b50d75e9f27157c8ecda7c902501'', ''stgs::app::ground_station::Options'')]),
     (''lossprobability_4'', ''lossProbability'', [(''../structstgs_1_1app_1_1simulator_1_1Options.html#af28305ade385c9c587b2870b3007feb2'', ''stgs::app::simulator::Options'')])]"

definition variables_8 :: "search_entry list" where
  "variables_8 = map search_symbol
    [(''magicoffset_0'', ''MagicOffset'', [(''../namespacestgs.html#a757b95ce3270c71e7dc8f14b9bf2fb09'', ''stgs'')]),
     (''magicsize_1'', ''MagicSize'', [(''../namespacestgs.html#a611696a65d9982545b6c8f4a7ad52a7c'', ''stgs'')]),
     (''maxbatterypercent_2'', ''MaxBatteryPercent'', [(''../namespacestgs.html#aba4b69ba4fe228503afb9c70ac612014'', ''stgs'')]),
     (''maxdiagnosticportcount_3'', ''MaxDiagnosticPortCount'', [(''../namespacestgs.html#a3dae02625f8dcb392c6bdf2306f6708d'', ''stgs'')]),
     (''maxframesize_4'', ''MaxFrameSize'', [(''../namespacestgs.html#a16a992cbf9d7868da731e2c18db66d24'', ''stgs'')]),
     (''maximumnetworkport_5'', ''MaximumNetworkPort'', [(''../namespacestgs.html#a1df74eaa09da8b0d50bef1ea4d74575e'', ''stgs'')]),
     (''maximumportprobetimeout_6'', ''MaximumPortProbeTimeout'', [(''../namespacestgs.html#a1b13b828d8af37cb4d2b6e73d75fd096'', ''stgs'')]),
     (''maxpayloadsize_7'', ''MaxPayloadSize'', [(''../namespacestgs.html#a1af66b07a9f7e74447c61aa3d7719faa'', ''stgs'')]),
     (''maxsignalsamplesperpayload_8'', ''MaxSignalSamplesPerPayload'', [(''../namespacestgs.html#a29dc97fc78e89f1df44cd02919053489'', ''stgs'')]),
     (''maxtextmessagebytes_9'', ''MaxTextMessageBytes'', [(''../namespacestgs.html#a69bb77b6f23499a8d166dc42b041819e'', ''stgs'')]),
     (''message_10'', ''message'', [(''../structstgs_1_1ApplicationPayloadError.html#a3f1a12bf18d116b6f0830f5ca14e23c9'', ''stgs::ApplicationPayloadError::message''), (''../structstgs_1_1FrameError.html#a1f6ef01ba7fe3979cc982adcfc9c1355'', ''stgs::FrameError::message''), (''../structstgs_1_1app_1_1simulator_1_1Options.html#a1d3c0c149798567a3db304d45c5b0156'', ''stgs::app::simulator::Options::message'')]),
     (''minframesize_11'', ''MinFrameSize'', [(''../namespacestgs.html#a8f70fc40ffc48a7269a7857135f6cd4b'', ''stgs'')]),
     (''minimumnetworkport_12'', ''MinimumNetworkPort'', [(''../namespacestgs.html#adc7a80912cd2e5324b630ac75b38f029'', ''stgs'')]),
     (''minsamples_13'', ''minSamples'', [(''../structstgs_1_1StationHealthConfig.html#aafa650fc61e9527fac8895a14a223502'', ''stgs::StationHealthConfig'')]),
     (''movingaveragewindow_14'', ''movingAverageWindow'', [(''../structstgs_1_1app_1_1ground__station_1_1Options.html#a7ece7909b32c1156eb3147d09f52b5da'', ''stgs::app::ground_station::Options'')])]"

definition variables_9 :: "search_entry list" where
  "variables_9 = map search_symbol
    [(''noisestddev_0'', ''noiseStddev'', [(''../structstgs_1_1app_1_1simulator_1_1Options.html#aa4289ca08f488ca35e7686bc3f0fdea7'', ''stgs::app::simulator::Options'')]),
     (''nominalamplitude_1'', ''nominalAmplitude'', [(''../structstgs_1_1SignalBlockPayload.html#ac47517beadc3128501e6f61f048d2476'', ''stgs::SignalBlockPayload'')])]"

definition variables_a :: "search_entry list" where
  "variables_a = map search_symbol
    [(''outputfile_0'', ''outputfile'', [(''../structstgs_1_1app_1_1ground__station_1_1Options.html#abd7f6e880ed55cccc524d39ae6e9aaa0'', ''stgs::app::ground_station::Options::outputFile''), (''../structstgs_1_1app_1_1simulator_1_1Options.html#aa8fdfd2781ad76a9005dc4903005b5a2'', ''stgs::app::simulator::Options::outputFile'')]),
     (''outputformat_1'', ''outputFormat'', [(''../structstgs_1_1app_1_1ground__station_1_1Options.html#a117854d5ce0bd879e9574414e1e3a035'', ''stgs::app::ground_station::Options'')])]"

definition variables_b :: "search_entry list" where
  "variables_b = map search_symbol
    [(''payload_0'', ''payload'', [(''../structstgs_1_1TelemetryFrame.html#ad99064aad90f23a38c05cb6b2ca1307d'', ''stgs::TelemetryFrame'')]),
     (''payloadlengthoffset_1'', ''PayloadLengthOffset'', [(''../namespacestgs.html#a7a1768985c5683684967a231e347713f'', ''stgs'')]),
     (''payloadmode_2'', ''payloadMode'', [(''../structstgs_1_1app_1_1simulator_1_1Options.html#ab26b6b865425beca7aba61b486977675'', ''stgs::app::simulator::Options'')]),
     (''payloadsize_3'', ''payloadSize'', [(''../structstgs_1_1app_1_1simulator_1_1Options.html#a23bf245219b5f8010eea0121a7a08168'', ''stgs::app::simulator::Options'')]),
     (''polltimeoutms_4'', ''pollTimeoutMs'', [(''../structstgs_1_1NetworkConfig.html#a679bc0335261b5c100972c157cda0e89'', ''stgs::NetworkConfig'')]),
     (''port_5'', ''port'', [(''../structstgs_1_1app_1_1ground__station_1_1Options.html#af08e109d95e6b719ad2cb035b65dbc92'', ''stgs::app::ground_station::Options::port''), (''../structstgs_1_1app_1_1simulator_1_1Options.html#a7951170891c7cded1e481725cc6e83bb'', ''stgs::app::simulator::Options::port''), (''../structstgs_1_1NetworkConfig.html#ab7712921094db7ea02cd277895ac7ed5'', ''stgs::NetworkConfig::port''), (''../structstgs_1_1TcpPortProbeResult.html#aae24c39ee295cb28ddb49140150e0926'', ''stgs::TcpPortProbeResult::port''), (''../structstgs_1_1LocalPortAvailability.html#aaff1cb6f990bc5512b391372cf62f7a6'', ''stgs::LocalPortAvailability::port'')]),
     (''protocolversion_6'', ''ProtocolVersion'', [(''../namespacestgs.html#a0d1e17892d860b10402bb02f014038cb'', ''stgs'')])]"

definition variables_c :: "search_entry list" where
  "variables_c = map search_symbol
    [(''queuecapacity_0'', ''queueCapacity'', [(''../structstgs_1_1app_1_1ground__station_1_1Options.html#af4f4569cdd6e2ef65014f23ab009a256'', ''stgs::app::ground_station::Options'')])]"

definition variables_d :: "search_entry list" where
  "variables_d = map search_symbol
    [(''rate_0'', ''rate'', [(''../structstgs_1_1app_1_1simulator_1_1Options.html#ad3d50e6da6ce383be89c4db416e787de'', ''stgs::app::simulator::Options'')]),
     (''rawrms_1'', ''rawRms'', [(''../structstgs_1_1SignalMetrics.html#a940db4bf6f9b1d67d3dee2dadde2c2aa'', ''stgs::SignalMetrics'')]),
     (''reason_2'', ''reason'', [(''../structstgs_1_1StationStateTransition.html#a3b9521ff26d6bb0277fd692a8585660e'', ''stgs::StationStateTransition'')]),
     (''received_3'', ''received'', [(''../structstgs_1_1app_1_1ground__station_1_1PipelineStats.html#a6bbf8a74c6e79decbbb0a40753524b8c'', ''stgs::app::ground_station::PipelineStats'')]),
     (''recoveryrejectionrate_4'', ''recoveryRejectionRate'', [(''../structstgs_1_1StationHealthConfig.html#a215d90fab1a3b094c89447b95931b05c'', ''stgs::StationHealthConfig'')]),
     (''rejected_5'', ''rejected'', [(''../structstgs_1_1app_1_1ground__station_1_1PipelineStats.html#af20c52495ea4e9557834bb188761a541'', ''stgs::app::ground_station::PipelineStats::rejected''), (''../structstgs_1_1StationHealthSnapshot.html#aa162466ca72e25fa9388591a5816191b'', ''stgs::StationHealthSnapshot::rejected'')]),
     (''rejectionrate_6'', ''rejectionRate'', [(''../structstgs_1_1StationHealthSnapshot.html#a531393faf1e6b8670a9d458564e20447'', ''stgs::StationHealthSnapshot'')]),
     (''replayfile_7'', ''replayFile'', [(''../structstgs_1_1app_1_1ground__station_1_1Options.html#a109bbdd00184c8802f0ce2b084ff35ac'', ''stgs::app::ground_station::Options'')]),
     (''replayrate_8'', ''replayRate'', [(''../structstgs_1_1app_1_1ground__station_1_1Options.html#a9f159bf68cd950a84943d26e6dfc7bed'', ''stgs::app::ground_station::Options'')]),
     (''residualnoiserms_9'', ''residualNoiseRms'', [(''../structstgs_1_1SignalMetrics.html#ac9d4ed617c5141ac515a160a9dcaaf8e'', ''stgs::SignalMetrics'')]),
     (''result_10'', ''result'', [(''../structstgs_1_1app_1_1ground__station_1_1DecodedWorkItem.html#a8cba3f9f7ba930fe5ae722b4d953fce8'', ''stgs::app::ground_station::DecodedWorkItem'')])]"

definition variables_e :: "search_entry list" where
  "variables_e = map search_symbol
    [(''sampleratehz_0'', ''sampleratehz'', [(''../structstgs_1_1SignalBlockPayload.html#ac4c8789330f8ad372a3fca1334bd1c23'', ''stgs::SignalBlockPayload::sampleRateHz''), (''../structstgs_1_1app_1_1simulator_1_1Options.html#a31f7c4dc336360f800ac4f4b553e00a5'', ''stgs::app::simulator::Options::sampleRateHz'')]),
     (''samples_1'', ''samples'', [(''../structstgs_1_1SignalBlockPayload.html#acc005fc6b49bb551b8af112c85fe9a4f'', ''stgs::SignalBlockPayload::samples''), (''../structstgs_1_1StationHealthSnapshot.html#ac076771cb4b6b4382f3de6640f7ce96d'', ''stgs::StationHealthSnapshot::samples'')]),
     (''satelliteid_2'', ''satelliteid'', [(''../structstgs_1_1app_1_1simulator_1_1Options.html#afa7f9572268bc6705bae9331624e9f6c'', ''stgs::app::simulator::Options::satelliteId''), (''../structstgs_1_1TelemetryFrame.html#a7f471964a23c24e508e48ea1466ac4c9'', ''stgs::TelemetryFrame::satelliteId'')]),
     (''satelliteidoffset_3'', ''SatelliteIdOffset'', [(''../namespacestgs.html#aa8866bb9f2fbb06067d64f767c57f05c'', ''stgs'')]),
     (''seed_4'', ''seed'', [(''../structstgs_1_1app_1_1simulator_1_1Options.html#a1a94dde0d2e6935b0bc83208e5326993'', ''stgs::app::simulator::Options'')]),
     (''sequence_5'', ''sequence'', [(''../structstgs_1_1app_1_1ground__station_1_1RawWorkItem.html#afdd80733f6b0f098459da24c7cd82f81'', ''stgs::app::ground_station::RawWorkItem::sequence''), (''../structstgs_1_1app_1_1ground__station_1_1DecodedWorkItem.html#acc367717ff78c1d60024cb03205157d4'', ''stgs::app::ground_station::DecodedWorkItem::sequence''), (''../structstgs_1_1TextMessagePayload.html#a74eb74e7d9d01d2335926dbd227d17f8'', ''stgs::TextMessagePayload::sequence'')]),
     (''signalamplitude_6'', ''signalAmplitude'', [(''../structstgs_1_1app_1_1simulator_1_1Options.html#aa3dfb2846769581622dfb17c2f9b0945'', ''stgs::app::simulator::Options'')]),
     (''signalblockfixedwiresize_7'', ''SignalBlockFixedWireSize'', [(''../namespacestgs.html#a5be2a744a7b57928b157df2f4b6babc3'', ''stgs'')]),
     (''signalfilter_8'', ''signalFilter'', [(''../structstgs_1_1app_1_1ground__station_1_1Options.html#ad5f9bcb7d6564a7b7f3e54e14d0eaf92'', ''stgs::app::ground_station::Options'')]),
     (''signalfrequencyhz_9'', ''signalFrequencyHz'', [(''../structstgs_1_1app_1_1simulator_1_1Options.html#a4d3951ffa0baa81bd61f96a269009dd4'', ''stgs::app::simulator::Options'')]),
     (''signalsamples_10'', ''signalSamples'', [(''../structstgs_1_1app_1_1simulator_1_1Options.html#a46df4ae2374ceb30b18b559a064fbfcb'', ''stgs::app::simulator::Options'')]),
     (''signalsamplewiresize_11'', ''SignalSampleWireSize'', [(''../namespacestgs.html#a254c9e97079925357922b1b95e69d74f'', ''stgs'')]),
     (''sincoefficient_12'', ''sinCoefficient'', [(''../SignalProcessing_8cpp.html#ab3e66d17e811e3952f9f74cc9f759bcf'', ''SignalProcessing.cpp'')]),
     (''snapshot_13'', ''snapshot'', [(''../structstgs_1_1StationStateTransition.html#a1248dc626d4b84c6867b0325bee95a24'', ''stgs::StationStateTransition'')]),
     (''startsampleindex_14'', ''startSampleIndex'', [(''../structstgs_1_1SignalBlockPayload.html#a53686760a63a50567c62cb70bb6fe5d6'', ''stgs::SignalBlockPayload'')]),
     (''state_15'', ''state'', [(''../structstgs_1_1TcpPortProbeResult.html#a4ad18ed976e1f6df94ec358f40d32256'', ''stgs::TcpPortProbeResult::state''), (''../structstgs_1_1StationHealthSnapshot.html#a61fd8b5b83ce472ef2e205931c1b9f83'', ''stgs::StationHealthSnapshot::state'')]),
     (''status_16'', ''status'', [(''../structstgs_1_1TelemetryFrame.html#a823f07b9cf54cab10219ca4491c20435'', ''stgs::TelemetryFrame'')]),
     (''statusoffset_17'', ''StatusOffset'', [(''../namespacestgs.html#aec51795d1382632f3af398d04dfc7599'', ''stgs'')])]"

definition variables_f :: "search_entry list" where
  "variables_f = map search_symbol
    [(''temperaturec_0'', ''temperatureC'', [(''../structstgs_1_1TelemetryFrame.html#ad9b76aa85f3c942dca16992a0e3359a6'', ''stgs::TelemetryFrame'')]),
     (''temperatureoffset_1'', ''TemperatureOffset'', [(''../namespacestgs.html#a6bf948dc56fd22c752bee7833ba8669b'', ''stgs'')]),
     (''text_2'', ''text'', [(''../structstgs_1_1TextMessagePayload.html#aeb61a98826eced0f2e3708c7f9f40245'', ''stgs::TextMessagePayload'')]),
     (''textmessagefixedwiresize_3'', ''TextMessageFixedWireSize'', [(''../namespacestgs.html#ac10ffae257f2baf0aa6002c88dd1a4dc'', ''stgs'')]),
     (''timestampms_4'', ''timestampMs'', [(''../structstgs_1_1TelemetryFrame.html#a6081ce170d96c1e13eaa8c4ca7160dd4'', ''stgs::TelemetryFrame'')]),
     (''timestampoffset_5'', ''TimestampOffset'', [(''../namespacestgs.html#a867f27d9ee6a3a3d335df03d00f13cd7'', ''stgs'')]),
     (''to_6'', ''to'', [(''../structstgs_1_1StationStateTransition.html#aa9cb317dd2dad860e2abc60e80e5c28f'', ''stgs::StationStateTransition'')]),
     (''transport_7'', ''transport'', [(''../structstgs_1_1app_1_1ground__station_1_1Options.html#a8363f2a4b199c5aac9eaee4ea56943c4'', ''stgs::app::ground_station::Options::transport''), (''../structstgs_1_1app_1_1simulator_1_1Options.html#ab17bc535171a0866e18711806b92c286'', ''stgs::app::simulator::Options::transport''), (''../structstgs_1_1NetworkConfig.html#aabf99168958ae5f00024382e0e089aff'', ''stgs::NetworkConfig::transport'')])]"

definition variables_10 :: "search_entry list" where
  "variables_10 = map search_symbol
    [(''u16wiresize_0'', ''U16WireSize'', [(''../namespacestgs.html#af2586a68e7d836e1815c183ffd22bde5'', ''stgs'')]),
     (''u32wiresize_1'', ''U32WireSize'', [(''../namespacestgs.html#a07a576431ae9ee72b588a1f8bcf07b90'', ''stgs'')]),
     (''u64wiresize_2'', ''U64WireSize'', [(''../namespacestgs.html#a42fa9eaff75bb80aaa74602e62a4e280'', ''stgs'')]),
     (''u8wiresize_3'', ''U8WireSize'', [(''../namespacestgs.html#a417e7de760f578b8de7e6a218852157b'', ''stgs'')])]"

definition variables_11 :: "search_entry list" where
  "variables_11 = map search_symbol
    [(''verbose_0'', ''verbose'', [(''../structstgs_1_1app_1_1ground__station_1_1Options.html#a95e20adab063bb991e0c9600a51cdcf6'', ''stgs::app::ground_station::Options'')]),
     (''version_1'', ''version'', [(''../structstgs_1_1TelemetryFrame.html#a84fa6dd941a4f0b48aba59cee10db1eb'', ''stgs::TelemetryFrame'')]),
     (''versionoffset_2'', ''VersionOffset'', [(''../namespacestgs.html#a240e53eeabfe4e74494c85545996e589'', ''stgs'')])]"

definition variables_12 :: "search_entry list" where
  "variables_12 = map search_symbol
    [(''windowsize_0'', ''windowSize'', [(''../structstgs_1_1StationHealthConfig.html#a108f344fdd31a19251f1f61175473aa2'', ''stgs::StationHealthConfig'')]),
     (''written_1'', ''written'', [(''../structstgs_1_1app_1_1ground__station_1_1PipelineStats.html#a9f92711ffde274ded4201f9ec3280dc4'', ''stgs::app::ground_station::PipelineStats'')])]"

definition typedefs_0 :: "search_entry list" where
  "typedefs_0 = map search_symbol
    [(''applicationpayloadparseresult_0'', ''ApplicationPayloadParseResult'', [(''../namespacestgs.html#af72d489e108e26381191465a90440b38'', ''stgs'')])]"

definition typedefs_1 :: "search_entry list" where
  "typedefs_1 = map search_symbol
    [(''bytevector_0'', ''ByteVector'', [(''../namespacestgs.html#ad5ffad61c84bc02fa03a4d2c7f7e8305'', ''stgs'')])]"

definition typedefs_2 :: "search_entry list" where
  "typedefs_2 = map search_symbol
    [(''framecallback_0'', ''FrameCallback'', [(''../classstgs_1_1NetworkServer.html#ac504eb1e38628a5ba4cec43d9af0b51e'', ''stgs::NetworkServer'')]),
     (''frameparseresult_1'', ''FrameParseResult'', [(''../namespacestgs.html#a6f51df7d9b7e75ff18a4bae663ff262f'', ''stgs'')])]"

definition typedefs_3 :: "search_entry list" where
  "typedefs_3 = map search_symbol
    [(''testregistry_0'', ''TestRegistry'', [(''../namespacestgs_1_1test.html#af97d6ca686906b09206be3256f2dd619'', ''stgs::test'')])]"

definition enums_0 :: "search_entry list" where
  "enums_0 = map search_symbol
    [(''applicationpayloaderrorcode_0'', ''ApplicationPayloadErrorCode'', [(''../namespacestgs.html#a2aa48089627d210628f45038315de28a'', ''stgs'')]),
     (''applicationpayloadkind_1'', ''ApplicationPayloadKind'', [(''../namespacestgs.html#a9bdca5c4652fbfd0ea0d649134cc5e2b'', ''stgs'')])]"

definition enums_1 :: "search_entry list" where
  "enums_1 = map search_symbol
    [(''frameerrorcode_0'', ''FrameErrorCode'', [(''../namespacestgs.html#a6c3c97c875363adab257eb270bb20f14'', ''stgs'')])]"

definition enums_2 :: "search_entry list" where
  "enums_2 = map search_symbol
    [(''loglevel_0'', ''LogLevel'', [(''../namespacestgs.html#a2b4a335983593d5d8d599d58cd7ee203'', ''stgs'')])]"

definition enums_3 :: "search_entry list" where
  "enums_3 = map search_symbol
    [(''outputformat_0'', ''OutputFormat'', [(''../namespacestgs_1_1app_1_1ground__station.html#a674f76aa6255d0fb1ffec19ffc6be19d'', ''stgs::app::ground_station'')])]"

definition enums_4 :: "search_entry list" where
  "enums_4 = map search_symbol
    [(''payloadmode_0'', ''PayloadMode'', [(''../namespacestgs_1_1app_1_1simulator.html#a9bc7b0135556745522ad9ee19f291609'', ''stgs::app::simulator'')]),
     (''porttransport_1'', ''PortTransport'', [(''../namespacestgs.html#ab99ad0f4a1a1fb197aab95d7286a9a7e'', ''stgs'')])]"

definition enums_5 :: "search_entry list" where
  "enums_5 = map search_symbol
    [(''signalfiltermode_0'', ''SignalFilterMode'', [(''../namespacestgs.html#ad6d6eb8010ca5d7fa98b1ab91ee2792c'', ''stgs'')]),
     (''stationstate_1'', ''StationState'', [(''../namespacestgs.html#af145a1e8f5e0f55d9178bafa1faacb7e'', ''stgs'')]),
     (''status_2'', ''Status'', [(''../namespacestgs.html#a61ca9382bebac8640e15d2338a9eb8af'', ''stgs'')])]"

definition enums_6 :: "search_entry list" where
  "enums_6 = map search_symbol
    [(''tcpportstate_0'', ''TcpPortState'', [(''../namespacestgs.html#ab73dc2ebbed2d6799b14a329f2e691cc'', ''stgs'')]),
     (''terminalstatus_1'', ''TerminalStatus'', [(''../namespacestgs.html#aed082ae37dc19f30579b2d7981342c1e'', ''stgs'')]),
     (''transport_2'', ''Transport'', [(''../namespacestgs.html#adbb66f14d66c3f994511b242f7cdfbe6'', ''stgs'')])]"

definition enumvalues_0 :: "search_entry list" where
  "enumvalues_0 = map search_symbol
    [(''auto_0'', ''Auto'', [(''../namespacestgs_1_1app_1_1ground__station.html#a674f76aa6255d0fb1ffec19ffc6be19da06b9281e396db002010bde1de57262eb'', ''stgs::app::ground_station'')])]"

definition enumvalues_1 :: "search_entry list" where
  "enumvalues_1 = map search_symbol
    [(''badcrc_0'', ''BadCrc'', [(''../namespacestgs.html#a6c3c97c875363adab257eb270bb20f14a63afce0aa4ad8e31dbdfc57d15771a1c'', ''stgs'')]),
     (''badmagic_1'', ''BadMagic'', [(''../namespacestgs.html#a6c3c97c875363adab257eb270bb20f14ac87c2d41af62cc035e76f90e0f889e4f'', ''stgs'')])]"

definition enumvalues_2 :: "search_entry list" where
  "enumvalues_2 = map search_symbol
    [(''closed_0'', ''Closed'', [(''../namespacestgs.html#ab73dc2ebbed2d6799b14a329f2e691cca03f4a47830f97377a35321051685071e'', ''stgs'')]),
     (''critical_1'', ''Critical'', [(''../namespacestgs.html#a61ca9382bebac8640e15d2338a9eb8afa278d01e5af56273bae1bb99a98b370cd'', ''stgs'')]),
     (''csv_2'', ''Csv'', [(''../namespacestgs_1_1app_1_1ground__station.html#a674f76aa6255d0fb1ffec19ffc6be19dab20daea8bfacec3891fcf5b7be4adca0'', ''stgs::app::ground_station'')])]"

definition enumvalues_3 :: "search_entry list" where
  "enumvalues_3 = map search_symbol
    [(''debug_0'', ''Debug'', [(''../namespacestgs.html#a2b4a335983593d5d8d599d58cd7ee203aa603905470e2a5b8c13e96b579ef0dba'', ''stgs'')]),
     (''degraded_1'', ''Degraded'', [(''../namespacestgs.html#af145a1e8f5e0f55d9178bafa1faacb7eaaa95669cd5732a57e8f6467705f06642'', ''stgs'')])]"

definition enumvalues_4 :: "search_entry list" where
  "enumvalues_4 = map search_symbol
    [(''error_0'', ''error'', [(''../namespacestgs.html#a2b4a335983593d5d8d599d58cd7ee203a902b0d55fddef6f8d651fe1035b7d4bd'', ''stgs::Error''), (''../namespacestgs.html#ab73dc2ebbed2d6799b14a329f2e691cca902b0d55fddef6f8d651fe1035b7d4bd'', ''stgs::Error''), (''../namespacestgs.html#aed082ae37dc19f30579b2d7981342c1ea902b0d55fddef6f8d651fe1035b7d4bd'', ''stgs::Error'')])]"

definition enumvalues_5 :: "search_entry list" where
  "enumvalues_5 = map search_symbol
    [(''info_0'', ''info'', [(''../namespacestgs.html#a2b4a335983593d5d8d599d58cd7ee203a4059b0251f66a18cb56f544728796875'', ''stgs::Info''), (''../namespacestgs.html#aed082ae37dc19f30579b2d7981342c1ea4059b0251f66a18cb56f544728796875'', ''stgs::Info'')]),
     (''invalidbattery_1'', ''InvalidBattery'', [(''../namespacestgs.html#a6c3c97c875363adab257eb270bb20f14a70f7b6f0a881c8b3bf8d1a45c253fd2f'', ''stgs'')]),
     (''invalidlength_2'', ''InvalidLength'', [(''../namespacestgs.html#a2aa48089627d210628f45038315de28aa7410e53743c7518114372aa891b76615'', ''stgs'')]),
     (''invalidsignalmetadata_3'', ''InvalidSignalMetadata'', [(''../namespacestgs.html#a2aa48089627d210628f45038315de28aa1dd0acdf372fcd74a2acd532ddc4dac3'', ''stgs'')]),
     (''invalidstatus_4'', ''InvalidStatus'', [(''../namespacestgs.html#a6c3c97c875363adab257eb270bb20f14a1afaa3ef1f35311510464f49903aa6ae'', ''stgs'')]),
     (''invalidtemperature_5'', ''InvalidTemperature'', [(''../namespacestgs.html#a6c3c97c875363adab257eb270bb20f14ab0044d334987fcc475292bf23af8de41'', ''stgs'')])]"

definition enumvalues_6 :: "search_entry list" where
  "enumvalues_6 = map search_symbol
    [(''json_0'', ''Json'', [(''../namespacestgs_1_1app_1_1ground__station.html#a674f76aa6255d0fb1ffec19ffc6be19daeed8d85b888a6c015834240885ee6333'', ''stgs::app::ground_station'')])]"

definition enumvalues_7 :: "search_entry list" where
  "enumvalues_7 = map search_symbol
    [(''lengthmismatch_0'', ''LengthMismatch'', [(''../namespacestgs.html#a6c3c97c875363adab257eb270bb20f14aefe3ddb6bb6a51712447485fd452d87d'', ''stgs'')])]"

definition enumvalues_8 :: "search_entry list" where
  "enumvalues_8 = map search_symbol
    [(''movingaverage_0'', ''MovingAverage'', [(''../namespacestgs.html#ad6d6eb8010ca5d7fa98b1ab91ee2792cabba5c82c942bc0851f96137de06cac0d'', ''stgs'')])]"

definition enumvalues_9 :: "search_entry list" where
  "enumvalues_9 = map search_symbol
    [(''nominal_0'', ''nominal'', [(''../namespacestgs.html#af145a1e8f5e0f55d9178bafa1faacb7ea8c28d7c312116b8a46e2f466cb33d5b4'', ''stgs::Nominal''), (''../namespacestgs.html#a61ca9382bebac8640e15d2338a9eb8afa8c28d7c312116b8a46e2f466cb33d5b4'', ''stgs::Nominal'')]),
     (''none_1'', ''None'', [(''../namespacestgs.html#ad6d6eb8010ca5d7fa98b1ab91ee2792ca6adf97f83acf6453d4a6a4b1070f3754'', ''stgs'')])]"

definition enumvalues_a :: "search_entry list" where
  "enumvalues_a = map search_symbol
    [(''open_0'', ''Open'', [(''../namespacestgs.html#ab73dc2ebbed2d6799b14a329f2e691ccac3bf447eabe632720a3aa1a7ce401274'', ''stgs'')])]"

definition enumvalues_b :: "search_entry list" where
  "enumvalues_b = map search_symbol
    [(''payloadtoolarge_0'', ''PayloadTooLarge'', [(''../namespacestgs.html#a6c3c97c875363adab257eb270bb20f14a0234a767e9c5c06cdaf290cc9b690b34'', ''stgs'')])]"

definition enumvalues_c :: "search_entry list" where
  "enumvalues_c = map search_symbol
    [(''randombytes_0'', ''RandomBytes'', [(''../namespacestgs_1_1app_1_1simulator.html#a9bc7b0135556745522ad9ee19f291609aa2a9f0580597d09e92901548fc0ae105'', ''stgs::app::simulator'')])]"

definition enumvalues_d :: "search_entry list" where
  "enumvalues_d = map search_symbol
    [(''safemode_0'', ''SafeMode'', [(''../namespacestgs.html#a61ca9382bebac8640e15d2338a9eb8afabe9942a71fc5150a76b9f61f281de1b9'', ''stgs'')]),
     (''signal_1'', ''Signal'', [(''../namespacestgs_1_1app_1_1simulator.html#a9bc7b0135556745522ad9ee19f291609a085fea7abdc5d904fe69a3081efd7398'', ''stgs::app::simulator'')]),
     (''signalblock_2'', ''SignalBlock'', [(''../namespacestgs.html#a9bdca5c4652fbfd0ea0d649134cc5e2ba2c22e731a28aff373ce68863d2628abc'', ''stgs'')]),
     (''sineprojection_3'', ''SineProjection'', [(''../namespacestgs.html#ad6d6eb8010ca5d7fa98b1ab91ee2792ca99d4f47a09480d4ead93b264ce3532bb'', ''stgs'')]),
     (''success_4'', ''Success'', [(''../namespacestgs.html#aed082ae37dc19f30579b2d7981342c1ea505a83f220c02df2f85c3810cd9ceb38'', ''stgs'')])]"

definition enumvalues_e :: "search_entry list" where
  "enumvalues_e = map search_symbol
    [(''tcp_0'', ''tcp'', [(''../namespacestgs.html#adbb66f14d66c3f994511b242f7cdfbe6a30b7fdeebc36988717d0e274cc2e7520'', ''stgs::Tcp''), (''../namespacestgs.html#ab99ad0f4a1a1fb197aab95d7286a9a7ea30b7fdeebc36988717d0e274cc2e7520'', ''stgs::Tcp'')]),
     (''textmessage_1'', ''textmessage'', [(''../namespacestgs_1_1app_1_1simulator.html#a9bc7b0135556745522ad9ee19f291609a7c6780205e72574bf2c46ce408ad9144'', ''stgs::app::simulator::TextMessage''), (''../namespacestgs.html#a9bdca5c4652fbfd0ea0d649134cc5e2ba7c6780205e72574bf2c46ce408ad9144'', ''stgs::TextMessage'')]),
     (''timeout_2'', ''Timeout'', [(''../namespacestgs.html#ab73dc2ebbed2d6799b14a329f2e691ccac85a251cc457840f1e032f1b733e9398'', ''stgs'')]),
     (''tooshort_3'', ''TooShort'', [(''../namespacestgs.html#a6c3c97c875363adab257eb270bb20f14a6eee5d8d5a91916f53b80d55d9f9c83f'', ''stgs'')]),
     (''trace_4'', ''Trace'', [(''../namespacestgs.html#a2b4a335983593d5d8d599d58cd7ee203add4ec0ac4e58f7c32a01244ae91150b1'', ''stgs'')]),
     (''truncatedheader_5'', ''TruncatedHeader'', [(''../namespacestgs.html#a2aa48089627d210628f45038315de28aa5e63b9f767a2252ca59af743ed2121e0'', ''stgs'')])]"

definition enumvalues_f :: "search_entry list" where
  "enumvalues_f = map search_symbol
    [(''udp_0'', ''udp'', [(''../namespacestgs.html#adbb66f14d66c3f994511b242f7cdfbe6a81baba40274ccb30f9fdfa2c73cf0482'', ''stgs::Udp''), (''../namespacestgs.html#ab99ad0f4a1a1fb197aab95d7286a9a7ea81baba40274ccb30f9fdfa2c73cf0482'', ''stgs::Udp'')]),
     (''unknownkind_1'', ''UnknownKind'', [(''../namespacestgs.html#a2aa48089627d210628f45038315de28aa8da24985f13f84c15af0130f7decf4fd'', ''stgs'')]),
     (''unsupportedversion_2'', ''unsupportedversion'', [(''../namespacestgs.html#a2aa48089627d210628f45038315de28aa0f89bc98e9b12bdeda0604e57bdc0518'', ''stgs::UnsupportedVersion''), (''../namespacestgs.html#a6c3c97c875363adab257eb270bb20f14a0f89bc98e9b12bdeda0604e57bdc0518'', ''stgs::UnsupportedVersion'')])]"

definition enumvalues_10 :: "search_entry list" where
  "enumvalues_10 = map search_symbol
    [(''warning_0'', ''warning'', [(''../namespacestgs.html#a2b4a335983593d5d8d599d58cd7ee203a0eaadb4fcb48a0a0ed7bc9868be9fbaa'', ''stgs::Warning''), (''../namespacestgs.html#a61ca9382bebac8640e15d2338a9eb8afa0eaadb4fcb48a0a0ed7bc9868be9fbaa'', ''stgs::Warning''), (''../namespacestgs.html#aed082ae37dc19f30579b2d7981342c1ea0eaadb4fcb48a0a0ed7bc9868be9fbaa'', ''stgs::Warning'')])]"

definition defines_0 :: "search_entry list" where
  "defines_0 = map search_symbol
    [(''assert_5feq_0'', ''ASSERT_EQ'', [(''../TestSupport_8hpp.html#a9cc34fd87cb865c77439a5d39b3b111b'', ''TestSupport.hpp'')]),
     (''assert_5ftrue_1'', ''ASSERT_TRUE'', [(''../TestSupport_8hpp.html#a305a7326a1f4f59bbcafcb3e35a732c7'', ''TestSupport.hpp'')])]"

definition symbol_index :: "(int \<times> search_entry list list) list" where
  "symbol_index =
    [(3, [files_0, files_1, files_2, files_3, files_4, files_5, files_6, files_7, files_8, files_9, files_a, files_b]),
     (4, [functions_0, functions_1, functions_2, functions_3, functions_4, functions_5, functions_6, functions_7, functions_8, functions_9, functions_a, functions_b, functions_c, functions_d, functions_e, functions_f, functions_10, functions_11, functions_12, functions_13]),
     (5, [variables_0, variables_1, variables_2, variables_3, variables_4, variables_5, variables_6, variables_7, variables_8, variables_9, variables_a, variables_b, variables_c, variables_d, variables_e, variables_f, variables_10, variables_11, variables_12]),
     (6, [typedefs_0, typedefs_1, typedefs_2, typedefs_3]),
     (7, [enums_0, enums_1, enums_2, enums_3, enums_4, enums_5, enums_6]),
     (8, [enumvalues_0, enumvalues_1, enumvalues_2, enumvalues_3, enumvalues_4, enumvalues_5, enumvalues_6, enumvalues_7, enumvalues_8, enumvalues_9, enumvalues_a, enumvalues_b, enumvalues_c, enumvalues_d, enumvalues_e, enumvalues_f, enumvalues_10]),
     (9, [defines_0])]"

end
