(* ===== verification/Search_Results.thy ===== *)
theory Search_Results
  imports Search_World
begin

text \<open>
  The class \<open>SearchResults\<close> of \<^verbatim>\<open>search.js\<close>: filtering the result rows by a
  search string and keyboard navigation through them; and the construction of the rows from the
  loaded \<open>searchData\<close> (\<open>createResults\<close>). The methods of \<open>SearchBox\<close> that the
  navigation calls (\<open>Activate\<close>, \<open>CloseResultsWindow\<close>) are here too.
\<close>

section \<open>Activation and focus\<close>

text \<open>\<open>Activate\<close> of \<open>SearchBox\<close>: opens the panel, or resets it when the results
  window is closed.\<close>

definition Activate :: "bool \<Rightarrow> World \<Rightarrow> World option" where
  "Activate isActive w = do {
     shown \<leftarrow> (if isActive then Some True
               else do { n \<leftarrow> by_id ''MSearchResultsWindow'' w; Some (display (style (elem n)) = js ''block'') });
     box \<leftarrow> by_id ''MSearchBox'' w;
     if shown
     then Some (edit_box (\<lambda>b. b\<lparr>searchActive := True\<rparr>)
                 (edit_node (addr box) (setAttribute (js ''class'') (js ''MSearchBoxActive'')) w))
     else do {
       let w1 = edit_box (\<lambda>b. b\<lparr>searchActive := False, lastSearchValue := [], lastResultsPage := []\<rparr>)
                  (edit_node (addr box) (setAttribute (js ''class'') (js ''MSearchBoxInactive'')) w);
       field \<leftarrow> by_id ''MSearchField'' w1;
       Some (edit_node (addr field) (\<lambda>e. e\<lparr>field_value := []\<rparr>) w1)
     }
   }"

definition OnSearchFieldFocus :: "bool \<Rightarrow> World \<Rightarrow> World option" where
  "OnSearchFieldFocus isActive w = Activate isActive w"

text \<open>Focus changes run the inline handlers \<open>onblur\<close> and \<open>onfocus\<close> of the elements; an
  exception in a handler does not reach the caller.\<close>

definition inline_handler :: "jsstring \<Rightarrow> World \<Rightarrow> World" where
  "inline_handler action w =
     (if action = js ''searchBox.OnSearchFieldFocus(true)''
      then (case OnSearchFieldFocus True w of Some w' \<Rightarrow> w' | None \<Rightarrow> w)
      else if action = js ''searchBox.OnSearchFieldFocus(false)''
      then (case OnSearchFieldFocus False w of Some w' \<Rightarrow> w' | None \<Rightarrow> w)
      else w)"

definition node_attribute :: "string \<Rightarrow> nat \<Rightarrow> World \<Rightarrow> jsstring" where
  "node_attribute name a w =
     (case find_addr a (doc w) of None \<Rightarrow> [] | Some n \<Rightarrow> getAttribute (js name) (elem n))"

definition blur_node :: "nat \<Rightarrow> World \<Rightarrow> World" where
  "blur_node a w = (if focused w = Some a
     then inline_handler (node_attribute ''onblur'' a w) (w\<lparr>focused := None\<rparr>) else w)"

definition focus_node :: "nat \<Rightarrow> World \<Rightarrow> World" where
  "focus_node a w = (if focused w = Some a then w else
     let w1 = (case focused w of None \<Rightarrow> w | Some b \<Rightarrow> blur_node b w)
     in inline_handler (node_attribute ''onfocus'' a w1) (w1\<lparr>focused := Some a\<rparr>))"

definition CloseResultsWindow :: "World \<Rightarrow> World option" where
  "CloseResultsWindow w = do {
     w1 \<leftarrow> display_by_id ''MSearchResultsWindow'' ''none'' w;
     w2 \<leftarrow> display_by_id ''MSearchClose'' ''none'' w1;
     Activate False w2
   }"

section \<open>The results object\<close>

definition SearchResults_init :: SearchResults where
  "SearchResults_init = \<lparr>lastMatchCount = 0, lastKey = 0, repeatOn = False\<rparr>"

text \<open>\<open>FindChildElement\<close>: a walk over the descendants of an element with the pointers
  \<open>firstChild\<close>, \<open>nextSibling\<close> and \<open>parentNode\<close>.\<close>

definition is_SRChildren :: "dnode \<Rightarrow> bool" where
  "is_SRChildren n \<longleftrightarrow> nodeName (elem n) = js ''div'' \<and> className (elem n) = js ''SRChildren''"

partial_function (option) climb :: "dnode \<Rightarrow> nat \<Rightarrow> nat \<Rightarrow> dnode option option" where
  "climb t p a = (case parentNode a t of None \<Rightarrow> Some None
     | Some m \<Rightarrow> if addr m = p \<or> nextSibling (addr m) t \<noteq> None then Some (Some m) else climb t p (addr m))"

partial_function (option) find_child :: "dnode \<Rightarrow> nat \<Rightarrow> dnode option \<Rightarrow> dnode option option" where
  "find_child t p el = (case el of None \<Rightarrow> Some None
     | Some n \<Rightarrow>
       if addr n = p then Some None
       else if is_SRChildren n then Some (Some n)
       else if nodeName (elem n) = js ''div'' \<and> kids n \<noteq> [] then find_child t p (firstChild n)
       else (case nextSibling (addr n) t of
           Some m \<Rightarrow> find_child t p (Some m)
         | None \<Rightarrow> do {
             c \<leftarrow> climb t p (addr n);
             (case c of None \<Rightarrow> find_child t p None
              | Some m \<Rightarrow> if addr m = p then find_child t p (Some m)
                          else find_child t p (nextSibling (addr m) t))
           }))"

definition FindChildElement :: "jsstring \<Rightarrow> World \<Rightarrow> dnode option option" where
  "FindChildElement i w = do {
     parentElement \<leftarrow> getElementById i (doc w);
     find_child (doc w) (addr parentElement) (firstChild parentElement)
   }"

definition Toggle :: "jsstring \<Rightarrow> World \<Rightarrow> World option" where
  "Toggle i w = do {
     element \<leftarrow> FindChildElement i w;
     Some (case element of None \<Rightarrow> w
       | Some n \<Rightarrow> if display (style (elem n)) = js ''block''
           then edit_node (addr n) (set_display (js ''none'')) w
           else edit_node (addr n) (set_display (js ''block'')) w)
   }"

text \<open>\<open>Search\<close>: one pass over the \<open>div\<close> elements, showing the result rows whose
  name starts with the converted search string and counting them.\<close>

definition row_matches :: "(jsstring \<Rightarrow> jsstring) \<Rightarrow> jsstring \<Rightarrow> Elem \<Rightarrow> bool" where
  "row_matches lower key e = (let name = strip_sr (lower (elem_id e))
     in length key \<le> length name \<and> take (length key) name = key)"

fun search_rows :: "(jsstring \<Rightarrow> jsstring) \<Rightarrow> jsstring \<Rightarrow> dnode list \<Rightarrow> nat \<Rightarrow> World \<Rightarrow> nat \<times> World" where
  "search_rows lower key [] matches w = (matches, w)"
| "search_rows lower key (row # rows) matches w =
     (if className (elem row) = js ''SRResult''
      then if row_matches lower key (elem row)
           then search_rows lower key rows (matches + 1) (edit_node (addr row) (set_display (js ''block'')) w)
           else search_rows lower key rows matches (edit_node (addr row) (set_display (js ''none'')) w)
      else search_rows lower key rows matches w)"

definition search_key :: "(jsstring \<Rightarrow> jsstring) \<Rightarrow> jsstring \<Rightarrow> World \<Rightarrow> jsstring" where
  "search_key lower s w =
     (let s = (if s = [] then unescape (drop 1 (location_search w)) else s)
      in convertToId (lower (strip_trailing (strip_leading s))))"

definition SearchResults_Search :: "(jsstring \<Rightarrow> jsstring) \<Rightarrow> jsstring \<Rightarrow> World \<Rightarrow> World option" where
  "SearchResults_Search lower s w =
     (let (matches, w1) = search_rows lower (search_key lower s w)
                            (getElementsByTagName (js ''div'') (doc w)) 0 w
      in do {
        w2 \<leftarrow> display_by_id ''Searching'' ''none'' w1;
        w3 \<leftarrow> display_by_id ''NoMatches'' (if matches = 0 then ''block'' else ''none'') w2;
        Some (edit_results (\<lambda>r. r\<lparr>lastMatchCount := matches\<rparr>) w3)
      })"

section \<open>Keyboard navigation\<close>

definition item_id :: "int \<Rightarrow> jsstring" where
  "item_id i = js ''Item'' @ js_int i"

definition child_id :: "int \<Rightarrow> int \<Rightarrow> jsstring" where
  "child_id i c = item_id i @ js ''_c'' @ js_int c"

text \<open>\<open>node.parentNode.parentNode\<close>.\<close>

definition grandparent :: "dnode \<Rightarrow> World \<Rightarrow> dnode option" where
  "grandparent n w = do { p \<leftarrow> parentNode (addr n) (doc w); parentNode (addr p) (doc w) }"

partial_function (option) NavNext :: "World \<Rightarrow> int \<Rightarrow> dnode option option" where
  "NavNext w index = (case getElementById (item_id index) (doc w) of
     None \<Rightarrow> Some None
   | Some focusItem \<Rightarrow> do {
       g \<leftarrow> grandparent focusItem w;
       if display (style (elem g)) = js ''block'' then Some (Some focusItem) else NavNext w (index + 1)
     })"

partial_function (option) NavPrev :: "World \<Rightarrow> int \<Rightarrow> dnode option option" where
  "NavPrev w index = (case getElementById (item_id index) (doc w) of
     None \<Rightarrow> Some None
   | Some focusItem \<Rightarrow> do {
       g \<leftarrow> grandparent focusItem w;
       if display (style (elem g)) = js ''block'' then Some (Some focusItem) else NavPrev w (index - 1)
     })"

definition ProcessKeys :: "key_event \<Rightarrow> SearchResults \<Rightarrow> bool \<times> SearchResults" where
  "ProcessKeys e r =
     (if ev_type e = Keydown
      then (let r1 = r\<lparr>repeatOn := False, lastKey := keyCode e\<rparr> in (lastKey r1 \<noteq> 0, r1))
      else if ev_type e = Keypress
      then (if \<not> repeatOn r then (False, if lastKey r \<noteq> 0 then r\<lparr>repeatOn := True\<rparr> else r)
            else (lastKey r \<noteq> 0, r))
      else if ev_type e = Keyup
      then (let r1 = r\<lparr>lastKey := 0, repeatOn := False\<rparr> in (lastKey r1 \<noteq> 0, r1))
      else (lastKey r \<noteq> 0, r))"

text \<open>The loop of \<open>Nav\<close> that looks for the last child of an item.\<close>

partial_function (option) last_child :: "World \<Rightarrow> int \<Rightarrow> int \<Rightarrow> dnode \<Rightarrow> dnode option" where
  "last_child w i n focusItem = (case getElementById (child_id i n) (doc w) of
     Some tmpElem \<Rightarrow> last_child w i (n + 1) tmpElem | None \<Rightarrow> Some focusItem)"

text \<open>The element with the children of an item.\<close>

definition children_of_item :: "int \<Rightarrow> World \<Rightarrow> dnode option option" where
  "children_of_item itemIndex w = do {
     item \<leftarrow> getElementById (item_id itemIndex) (doc w);
     g \<leftarrow> grandparent item w;
     FindChildElement (elem_id (elem g)) w
   }"

definition shown :: "dnode option \<Rightarrow> bool" where
  "shown child = (case child of None \<Rightarrow> False | Some n \<Rightarrow> display (style (elem n)) = js ''block'')"

definition nav_up :: "int \<Rightarrow> World \<Rightarrow> World option" where
  "nav_up itemIndex w = do {
     let newIndex = itemIndex - 1;
     focusItem \<leftarrow> NavPrev w newIndex;
     focusItem \<leftarrow> (case focusItem of None \<Rightarrow> Some None
       | Some f \<Rightarrow> do {
           g \<leftarrow> grandparent f w;
           child \<leftarrow> FindChildElement (elem_id (elem g)) w;
           if shown child then map_option Some (last_child w newIndex 0 f) else Some (Some f)
         });
     (case focusItem of Some f \<Rightarrow> Some (focus_node (addr f) w)
      | None \<Rightarrow> do { field \<leftarrow> by_id ''MSearchField'' w; Some (focus_node (addr field) w) })
   }"

definition nav_down :: "int \<Rightarrow> World \<Rightarrow> World option" where
  "nav_down itemIndex w = do {
     child \<leftarrow> children_of_item itemIndex w;
     let first = (if shown child then getElementById (child_id itemIndex 0) (doc w) else None);
     focusItem \<leftarrow> (case first of Some f \<Rightarrow> Some (Some f) | None \<Rightarrow> NavNext w (itemIndex + 1));
     Some (case focusItem of None \<Rightarrow> w | Some f \<Rightarrow> focus_node (addr f) w)
   }"

definition nav_escape :: "World \<Rightarrow> World option" where
  "nav_escape w = do {
     w1 \<leftarrow> CloseResultsWindow (stop_propagation w);
     field \<leftarrow> by_id ''MSearchField'' w1;
     Some (focus_node (addr field) w1)
   }"

definition set_children_display :: "string \<Rightarrow> int \<Rightarrow> World \<Rightarrow> World option" where
  "set_children_display v itemIndex w = do {
     child \<leftarrow> children_of_item itemIndex w;
     Some (case child of None \<Rightarrow> w | Some n \<Rightarrow> edit_node (addr n) (set_display (js v)) w)
   }"

definition Nav :: "key_event \<Rightarrow> int \<Rightarrow> World \<Rightarrow> (bool \<times> World) option" where
  "Nav e itemIndex w =
     (if keyCode e = 13 then Some (True, w) else
      let (go, r) = ProcessKeys e (searchResults w); w1 = w\<lparr>searchResults := r\<rparr> in
      if \<not> go then Some (False, w1)
      else if lastKey r = 38 then map_option (Pair False) (nav_up itemIndex w1)
      else if lastKey r = 40 then map_option (Pair False) (nav_down itemIndex w1)
      else if lastKey r = 39 then map_option (Pair False) (set_children_display ''block'' itemIndex w1)
      else if lastKey r = 37 then map_option (Pair False) (set_children_display ''none'' itemIndex w1)
      else if lastKey r = 27 then map_option (Pair False) (nav_escape w1)
      else if lastKey r = 13 then Some (True, w1)
      else Some (False, w1))"

definition nav_child_up :: "int \<Rightarrow> int \<Rightarrow> World \<Rightarrow> World option" where
  "nav_child_up itemIndex childIndex w = do {
     n \<leftarrow> getElementById (if childIndex > 0 then child_id itemIndex (childIndex - 1) else item_id itemIndex) (doc w);
     Some (focus_node (addr n) w)
   }"

definition nav_child_down :: "int \<Rightarrow> int \<Rightarrow> World \<Rightarrow> World option" where
  "nav_child_down itemIndex childIndex w = do {
     el \<leftarrow> (case getElementById (child_id itemIndex (childIndex + 1)) (doc w) of
               Some n \<Rightarrow> Some (Some n) | None \<Rightarrow> NavNext w (itemIndex + 1));
     Some (case el of None \<Rightarrow> w | Some n \<Rightarrow> focus_node (addr n) w)
   }"

definition NavChild :: "key_event \<Rightarrow> int \<Rightarrow> int \<Rightarrow> World \<Rightarrow> (bool \<times> World) option" where
  "NavChild e itemIndex childIndex w =
     (if keyCode e = 13 then Some (True, w) else
      let (go, r) = ProcessKeys e (searchResults w); w1 = w\<lparr>searchResults := r\<rparr> in
      if \<not> go then Some (False, w1)
      else if lastKey r = 38 then map_option (Pair False) (nav_child_up itemIndex childIndex w1)
      else if lastKey r = 40 then map_option (Pair False) (nav_child_down itemIndex childIndex w1)
      else if lastKey r = 27 then map_option (Pair False) (nav_escape w1)
      else if lastKey r = 13 then Some (True, w1)
      else Some (False, w1))"

section \<open>Building the result rows\<close>

definition setKeyActions :: "jsstring \<Rightarrow> Elem \<Rightarrow> Elem" where
  "setKeyActions action e =
     setAttribute (js ''onkeyup'') action
       (setAttribute (js ''onkeypress'') action (setAttribute (js ''onkeydown'') action e))"

definition setClassAttr :: "string \<Rightarrow> Elem \<Rightarrow> Elem" where
  "setClassAttr attr e = setAttribute (js ''className'') (js attr) (setAttribute (js ''class'') (js attr) e)"

definition target_attr :: "search_target \<Rightarrow> jsstring" where
  "target_attr t = (if target_flag t \<noteq> 0 then js ''_parent'' else js ''_blank'')"

text \<open>The link of an entry, the scope of a single result, the links of several results.\<close>

definition srLink :: "jsstring \<Rightarrow> int \<Rightarrow> search_entry \<Rightarrow> Elem" where
  "srLink path e d =
     (let l = (setClassAttr ''SRSymbol''
          (setKeyActions (js ''return searchResults.Nav(event,'' @ js_int e @ js '')'')
            (setAttribute (js ''id'') (item_id e) (new_elem (js ''a'')))))\<lparr>innerHTML := entry_label d\<rparr>
      in if length (entry_targets d) = 1
         then setAttribute (js ''target'') (target_attr (entry_targets d ! 0))
                (setAttribute (js ''onclick'') (js ''searchBox.CloseResultsWindow()'')
                  (setAttribute (js ''href'') (path @ target_href (entry_targets d ! 0)) l))
         else setAttribute (js ''href'') (js ''javascript:searchResults.Toggle(\"SR_'' @ entry_id d @ js ''\")'') l)"

definition srScope :: "search_target \<Rightarrow> Elem" where
  "srScope t = (setClassAttr ''SRScope'' (new_elem (js ''span'')))\<lparr>innerHTML := target_scope t\<rparr>"

definition srChild :: "jsstring \<Rightarrow> int \<Rightarrow> nat \<Rightarrow> search_target \<Rightarrow> Elem" where
  "srChild path e c t =
     (setAttribute (js ''target'') (target_attr t)
       (setAttribute (js ''onclick'') (js ''searchBox.CloseResultsWindow()'')
         (setAttribute (js ''href'') (path @ target_href t)
           (setClassAttr ''SRScope''
             (setKeyActions (js ''return searchResults.NavChild(event,'' @ js_int e @ js '','' @ js_int (int c) @ js '')'')
               (setAttribute (js ''id'') (child_id e (int c)) (new_elem (js ''a''))))))))
     \<lparr>innerHTML := target_scope t\<rparr>"

text \<open>The row of one entry; its nodes are numbered from \<open>a\<close> on.\<close>

definition srResult :: "jsstring \<Rightarrow> nat \<Rightarrow> int \<Rightarrow> search_entry \<Rightarrow> dnode" where
  "srResult path a e d =
     DNode a (setClassAttr ''SRResult'' (setAttribute (js ''id'') (js ''SR_'' @ entry_id d) (new_elem (js ''div''))))
       [DNode (a + 1) (setClassAttr ''SREntry'' (new_elem (js ''div'')))
          (DNode (a + 2) (srLink path e d) [] #
           (if length (entry_targets d) = 1
            then [DNode (a + 3) (srScope (entry_targets d ! 0)) []]
            else [DNode (a + 3) (setClassAttr ''SRChildren'' (new_elem (js ''div'')))
                    (map (\<lambda>c. DNode (a + 4 + c) (srChild path e c (entry_targets d ! c)) [])
                      [0..<length (entry_targets d)])]))]"

definition row_size :: "search_entry \<Rightarrow> nat" where
  "row_size d = 4 + (if length (entry_targets d) = 1 then 0 else length (entry_targets d))"

fun create_rows :: "jsstring \<Rightarrow> nat \<Rightarrow> int \<Rightarrow> search_entry list \<Rightarrow> World \<Rightarrow> World" where
  "create_rows path results e [] w = w"
| "create_rows path results e (d # ds) w =
     create_rows path results (e + 1) ds
       (w\<lparr>doc := appendChild results (srResult path (next_addr w) e d) (doc w),
          next_addr := next_addr w + row_size d\<rparr>)"

definition createResults :: "jsstring \<Rightarrow> World \<Rightarrow> World option" where
  "createResults path w = do {
     results \<leftarrow> by_id ''SRResults'' w;
     data \<leftarrow> searchData w;
     Some (create_rows path (addr results) 0 data (w\<lparr>doc := clear_children (addr results) (doc w)\<rparr>))
   }"

end
