(* ===== verification/Search_Box.thy ===== *)
theory Search_Box
  imports Search_Results
begin

text \<open>
  The class \<open>SearchBox\<close> of \<^verbatim>\<open>search.js\<close>: the search field with its delayed
  search, the section selection popup, the loading of an index file and the display of its
  results; and \<open>init_search\<close>.
\<close>

section \<open>Construction\<close>

text \<open>The constructor; the first component tells whether it shows the alert about missing
  parameters.\<close>

definition new_SearchBox :: "jsstring \<Rightarrow> jsstring \<Rightarrow> jsstring \<Rightarrow> bool \<times> SearchBox" where
  "new_SearchBox name path ext =
     (name = [] \<or> path = [],
      \<lparr>box_name = name, resultsPath = path, keyTimeout = 0, keyTimeoutLength = 500,
       closeSelectionTimeout = 300, lastSearchValue = [], lastResultsPage = [], hideTimeout = 0,
       searchIndex = 0, searchActive = False, extension = (if ext = [] then js ''.html'' else ext)\<rparr>)"

section \<open>The selection popup\<close>

definition set_position :: "int \<Rightarrow> int \<Rightarrow> Elem \<Rightarrow> Elem" where
  "set_position left y_top e =
     e\<lparr>style := (style e)\<lparr>style_left := js_int left @ js ''px'', style_top := js_int y_top @ js ''px''\<rparr>\<rparr>"

definition OnSearchSelectShow :: "World \<Rightarrow> World option" where
  "OnSearchSelectShow w = do {
     let searchSelectWindow = by_id ''MSearchSelectWindow'' w;
     searchField \<leftarrow> by_id ''MSearchSelect'' w;
     left \<leftarrow> getXPos w searchField;
     y_top \<leftarrow> getYPos w searchField;
     win \<leftarrow> searchSelectWindow;
     let w1 = edit_node (addr win)
                (set_position left (y_top + offsetHeight (elem searchField)) \<circ> set_display (js ''block'')) w;
     Some (if hideTimeout (searchBox w1) \<noteq> 0
           then edit_box (\<lambda>b. b\<lparr>hideTimeout := 0\<rparr>) (clearTimeout (hideTimeout (searchBox w1)) w1)
           else w1)
   }"

definition OnSearchSelectHide :: "World \<Rightarrow> World" where
  "OnSearchSelectHide w =
     (let (t, w1) = setTimeout CB_CloseSelectionWindow (closeSelectionTimeout (searchBox w)) w
      in edit_box (\<lambda>b. b\<lparr>hideTimeout := t\<rparr>) w1)"

definition CloseSelectionWindow :: "World \<Rightarrow> World option" where
  "CloseSelectionWindow w = display_by_id ''MSearchSelectWindow'' ''none'' w"

definition is_SelectItem :: "dnode \<Rightarrow> bool" where
  "is_SelectItem n \<longleftrightarrow> className (elem n) = js ''SelectItem''"

definition SelectItemCount :: "World \<Rightarrow> int option" where
  "SelectItemCount w = do {
     win \<leftarrow> by_id ''MSearchSelectWindow'' w;
     Some (int (length (filter is_SelectItem (kids win))))
   }"

text \<open>The marks of the items: a bullet for the selected one, a blank for the others.\<close>

definition bullet :: jsstring where
  "bullet = js ''&#8226;''"

definition blank :: jsstring where
  "blank = js ''&#160;''"

fun mark_items :: "int \<Rightarrow> int \<Rightarrow> dnode list \<Rightarrow> World \<Rightarrow> World option" where
  "mark_items j i [] w = Some w"
| "mark_items j i (child # children) w =
     (if is_SelectItem child
      then do {
        node \<leftarrow> firstChild child;
        mark_items (j + 1) i children
          (edit_node (addr node) (\<lambda>e. e\<lparr>innerHTML := (if j = i then bullet else blank)\<rparr>) w)
      }
      else mark_items j i children w)"

definition SelectItemSet :: "int \<Rightarrow> World \<Rightarrow> World option" where
  "SelectItemSet i w = do {
     win \<leftarrow> by_id ''MSearchSelectWindow'' w;
     mark_items 0 i (kids win) w
   }"

section \<open>Searching\<close>

definition pixels :: "int \<Rightarrow> jsstring" where
  "pixels i = js_int i @ js ''px''"

definition popup_geometry :: "int \<Rightarrow> int \<Rightarrow> int \<Rightarrow> int \<Rightarrow> int \<times> int \<times> int \<times> int" where
  "popup_geometry left0 y_top maxWidth maxHeight =
     (let left = (if left0 < 10 then 10 else left0);
          width = (if 300 + left + 8 > maxWidth then maxWidth - left - 8 else 300);
          height = (if 400 + y_top + 8 > maxHeight then maxHeight - y_top - 8 else 400)
      in (left, y_top, width, height))"

definition set_geometry :: "int \<times> int \<times> int \<times> int \<Rightarrow> Elem \<Rightarrow> Elem" where
  "set_geometry g e = (case g of (left, y_top, width, height) \<Rightarrow>
     e\<lparr>style := (style e)\<lparr>style_top := pixels y_top, style_left := pixels left,
                          style_width := pixels width, style_height := pixels height\<rparr>\<rparr>)"

text \<open>An element that the closure captured when \<open>Search\<close> ran.\<close>

definition captured :: "nat option \<Rightarrow> World \<Rightarrow> dnode option" where
  "captured a w = do { b \<leftarrow> a; find_addr b (doc w) }"

definition show_results_window :: "load_closure \<Rightarrow> World \<Rightarrow> World option" where
  "show_results_window cl w = do {
     win \<leftarrow> captured (cl_window cl) w;
     if display (style (elem win)) = js ''block'' then Some w
     else do {
       close \<leftarrow> captured (cl_close cl) w;
       let w1 = edit_node (addr close) (set_display (js ''inline-block'')) w;
       box \<leftarrow> captured (cl_box cl) w1;
       x \<leftarrow> getXPos w1 box;
       y \<leftarrow> getYPos w1 box;
       let w2 = edit_node (addr win) (set_display (js ''block'')) w1;
       results \<leftarrow> captured (cl_results cl) w2;
       let left = x + 150 - offsetWidth (elem results);
       Some (edit_node (addr win)
               (set_geometry (popup_geometry left (y + 20) (clientWidth w2) (clientHeight w2))) w2)
     }
   }"

definition handleResults :: "(jsstring \<Rightarrow> jsstring) \<Rightarrow> load_closure \<Rightarrow> World \<Rightarrow> World option" where
  "handleResults lower cl w = do {
     w1 \<leftarrow> display_by_id ''Loading'' ''none'' w;
     w2 \<leftarrow> (if searchData w1 \<noteq> None
            then do { w' \<leftarrow> createResults (cl_resultsPath cl) w1; display_by_id ''NoMatches'' ''none'' w' }
            else Some w1);
     w3 \<leftarrow> SearchResults_Search lower (if cl_file cl then cl_searchValue cl else js ''===='') w2;
     show_results_window cl w3
   }"

definition loadJS :: "jsstring \<Rightarrow> load_closure \<Rightarrow> nat \<Rightarrow> World \<Rightarrow> World" where
  "loadJS url impl loc w =
     w\<lparr>doc := appendChild loc (DNode (next_addr w) (setAttribute (js ''src'') url (new_elem (js ''script''))) []) (doc w),
       next_addr := next_addr w + 1, loads := loads w @ [(url, impl)]\<rparr>"

text \<open>The first character that selects the index file; the test for a surrogate pair compares
  the string itself with 1.\<close>

definition index_char :: "(jsstring \<Rightarrow> jsstring) \<Rightarrow> jsstring \<Rightarrow> jsstring" where
  "index_char lower searchValue =
     (let code = lower searchValue in
      if code \<noteq> [] \<and> 0xD800 \<le> hd code \<and> hd code \<le> 0xDBFF \<and> greater_than_1 searchValue
      then take 2 searchValue else lower (take 1 searchValue))"

definition index_file :: "SearchBox \<Rightarrow> int \<Rightarrow> jsstring option" where
  "index_file b idx =
     (if idx \<noteq> - 1
      then Some (resultsPath b @ (case map_of indexSectionNames (searchIndex b) of Some n \<Rightarrow> n | None \<Rightarrow> js ''undefined'')
                 @ js ''_'' @ js_hex (nat idx) @ js ''.js'')
      else None)"

definition Search :: "(jsstring \<Rightarrow> jsstring) \<Rightarrow> World \<Rightarrow> World option" where
  "Search lower w0 = do {
     let w = edit_box (\<lambda>b. b\<lparr>keyTimeout := 0\<rparr>) w0;
     field \<leftarrow> by_id ''MSearchField'' w;
     let searchValue = strip_leading (field_value (elem field));
     section_chars \<leftarrow> map_of indexSectionsWithContent (searchIndex (searchBox w));
     let idx = indexOf section_chars (index_char lower searchValue);
     let jsFile = index_file (searchBox w) idx;
     let cl = \<lparr>cl_file = (idx \<noteq> - 1), cl_searchValue = searchValue, cl_resultsPath = resultsPath (searchBox w),
               cl_window = map_option addr (by_id ''MSearchResultsWindow'' w),
               cl_box = map_option addr (by_id ''MSearchBox'' w),
               cl_results = map_option addr (by_id ''MSearchResults'' w),
               cl_close = map_option addr (by_id ''MSearchClose'' w)\<rparr>;
     w1 \<leftarrow> (case jsFile of
          Some url \<Rightarrow> do { loc \<leftarrow> by_id ''MSearchResultsWindow'' w; Some (loadJS url cl (addr loc) w) }
        | None \<Rightarrow> handleResults lower cl w);
     Some (edit_box (\<lambda>b. b\<lparr>lastSearchValue := searchValue\<rparr>) w1)
   }"

definition OnSelectItem :: "(jsstring \<Rightarrow> jsstring) \<Rightarrow> int \<Rightarrow> World \<Rightarrow> World option" where
  "OnSelectItem lower i w = do {
     w1 \<leftarrow> SelectItemSet i (edit_box (\<lambda>b. b\<lparr>searchIndex := i\<rparr>) w);
     field \<leftarrow> by_id ''MSearchField'' w1;
     if strip_all (field_value (elem field)) \<noteq> [] \<and> searchActive (searchBox w1) then Search lower w1 else Some w1
   }"

definition OnSearchSelectKey :: "(jsstring \<Rightarrow> jsstring) \<Rightarrow> key_event \<Rightarrow> World \<Rightarrow> World option" where
  "OnSearchSelectKey lower e w = do {
     count \<leftarrow> (if keyCode e = 40 then SelectItemCount w else Some 0);
     let i = searchIndex (searchBox w);
     if keyCode e = 40 \<and> i < count then OnSelectItem lower (i + 1) w
     else if keyCode e = 38 \<and> i > 0 then OnSelectItem lower (i - 1) w
     else if keyCode e = 13 \<or> keyCode e = 27
     then do {
       w1 \<leftarrow> OnSelectItem lower i (stop_propagation w);
       w2 \<leftarrow> CloseSelectionWindow w1;
       field \<leftarrow> by_id ''MSearchField'' w2;
       Some (focus_node (addr field) w2)
     }
     else Some w
   }"

section \<open>The search field\<close>

text \<open>Shift with Down or Return: open the selection popup and focus its first item.\<close>

definition field_open_select :: "World \<Rightarrow> World option" where
  "field_open_select w = do {
     w1 \<leftarrow> OnSearchSelectShow w;
     win \<leftarrow> by_id ''MSearchSelectWindow'' w1;
     Some (case find is_SelectItem (kids win) of None \<Rightarrow> w1 | Some child \<Rightarrow> focus_node (addr child) w1)
   }"

definition field_escape :: "World \<Rightarrow> World option" where
  "field_escape w = do {
     let w0 = stop_propagation w;
     field \<leftarrow> by_id ''MSearchField'' w0;
     let w1 = blur_node (addr field) w0;
     w2 \<leftarrow> display_by_id ''MSearchResultsWindow'' ''none'' w1;
     w3 \<leftarrow> display_by_id ''MSearchClose'' ''none'' w2;
     Activate False (edit_box (\<lambda>b. b\<lparr>lastSearchValue := []\<rparr>) w3)
   }"

definition field_update :: "World \<Rightarrow> World option" where
  "field_update w = do {
     field \<leftarrow> by_id ''MSearchField'' w;
     let searchValue = strip_all (field_value (elem field));
     if searchValue = lastSearchValue (searchBox w) then Some w
     else if searchValue \<noteq> []
     then (let (t, w1) = setTimeout CB_Search (keyTimeoutLength (searchBox w)) w
           in Some (edit_box (\<lambda>b. b\<lparr>keyTimeout := t\<rparr>) w1))
     else do {
       w1 \<leftarrow> display_by_id ''MSearchResultsWindow'' ''none'' w;
       w2 \<leftarrow> display_by_id ''MSearchClose'' ''none'' w1;
       Some (edit_box (\<lambda>b. b\<lparr>lastSearchValue := []\<rparr>) w2)
     }
   }"

definition OnSearchFieldChange :: "key_event \<Rightarrow> World \<Rightarrow> World option" where
  "OnSearchFieldChange e w0 =
     (let w = (if keyTimeout (searchBox w0) \<noteq> 0
               then edit_box (\<lambda>b. b\<lparr>keyTimeout := 0\<rparr>) (clearTimeout (keyTimeout (searchBox w0)) w0)
               else w0)
      in if keyCode e = 40 \<or> keyCode e = 13
         then if shiftKey e then field_open_select w
              else do {
                el \<leftarrow> NavNext w 0;
                field_update (case el of None \<Rightarrow> w | Some n \<Rightarrow> focus_node (addr n) w)
              }
         else if keyCode e = 27 then field_escape w
         else field_update w)"

section \<open>Initialisation and browser events\<close>

definition select_item :: "nat \<Rightarrow> int \<Rightarrow> jsstring \<Rightarrow> dnode" where
  "select_item a key label =
     DNode a (setAttribute (js ''href'') (js ''javascript:void(0)'')
               (setAttribute (js ''onclick'') (js ''searchBox.OnSelectItem('' @ js_int key @ js '')'')
                 (setAttribute (js ''class'') (js ''SelectItem'') (new_elem (js ''a'')))))
       [DNode (a + 1) ((setAttribute (js ''class'') (js ''SelectionMark'') (new_elem (js ''span'')))\<lparr>innerHTML := blank\<rparr>) [],
        DNode (a + 2) ((new_elem (js ''#text''))\<lparr>innerHTML := label\<rparr>) []]"

fun add_select_items :: "nat \<Rightarrow> (int \<times> jsstring) list \<Rightarrow> World \<Rightarrow> World" where
  "add_select_items results [] w = w"
| "add_select_items results ((key, label) # labels) w =
     add_select_items results labels
       (w\<lparr>doc := appendChild results (select_item (next_addr w) key label) (doc w), next_addr := next_addr w + 3\<rparr>)"

definition init_search :: "(jsstring \<Rightarrow> jsstring) \<Rightarrow> World \<Rightarrow> World option" where
  "init_search lower w = do {
     results \<leftarrow> by_id ''MSearchSelectWindow'' w;
     let w1 = add_select_items (addr results) indexSectionLabels
                (edit_node (addr results) (\<lambda>e. e\<lparr>tabIndex := 0\<rparr>) w);
     w2 \<leftarrow> OnSelectItem lower 0 w1;
     input \<leftarrow> by_id ''MSearchSelect'' w2;
     Some (edit_node (addr input) (\<lambda>e. e\<lparr>tabIndex := 0\<rparr>) w2)
   }"

text \<open>The \<open>keydown\<close> listener that \<open>init_search\<close> installs on the selection icon.\<close>

definition select_keydown :: "key_event \<Rightarrow> World \<Rightarrow> World option" where
  "select_keydown e w =
     (if keyCode e = 13 \<or> keyCode e = 40
      then do {
        win \<leftarrow> by_id ''MSearchSelectWindow'' w;
        if display (style (elem win)) = js ''block'' then CloseSelectionWindow w
        else do {
          w1 \<leftarrow> OnSearchSelectShow w;
          win1 \<leftarrow> by_id ''MSearchSelectWindow'' w1;
          Some (focus_node (addr win1) w1)
        }
      }
      else Some w)"

text \<open>The browser's part: a timer fires, a script has been loaded and sets \<open>searchData\<close>.\<close>

definition timer_fires :: "(jsstring \<Rightarrow> jsstring) \<Rightarrow> nat \<Rightarrow> World \<Rightarrow> World option" where
  "timer_fires lower t w = (case map_of (timers w) t of
     None \<Rightarrow> Some w
   | Some (CB_Search, _) \<Rightarrow> Search lower (clearTimeout t w)
   | Some (CB_CloseSelectionWindow, _) \<Rightarrow> CloseSelectionWindow (clearTimeout t w))"

definition script_loaded :: "(jsstring \<Rightarrow> jsstring) \<Rightarrow> search_entry list \<Rightarrow> World \<Rightarrow> World option" where
  "script_loaded lower data w = (case loads w of
     [] \<Rightarrow> Some w
   | (_, cl) # rest \<Rightarrow> handleResults lower cl (w\<lparr>loads := rest, searchData := Some data\<rparr>))"

end
