(* ===== verification/Prefix_Code.thy ===== *)
theory Prefix_Code
  imports "HOL-Library.Sublist"
begin

text \<open>
  Encodings that write every symbol as a code word of a prefix-free code: encoded words are
  prefixes of each other exactly when the plain words are, and decoding is unambiguous.
\<close>

locale prefix_code =
  fixes code :: "'a \<Rightarrow> 'b list"
  assumes code_not_Nil: "code c \<noteq> []"
    and code_prefix_free: "code c @ xs = code d @ ys \<Longrightarrow> c = d"
begin

lemma encode_prefix: "prefix (concat (map code s)) (concat (map code t)) \<longleftrightarrow> prefix s t"
proof (induction s arbitrary: t)
  case (Cons c s)
  show ?case
  proof (cases t)
    case Nil
    with code_not_Nil [of c] show ?thesis by simp
  next
    case t: (Cons d t')
    show ?thesis
    proof (cases "c = d")
      case True
      with t Cons.IH show ?thesis by simp
    next
      case False
      have "\<not> prefix (code c @ concat (map code s)) (code d @ concat (map code t'))"
        using code_prefix_free False by (metis append.assoc prefix_def)
      with False t show ?thesis by simp
    qed
  qed
qed simp

lemma encode_inject: "concat (map code s) = concat (map code t) \<longleftrightarrow> s = t"
  by (metis encode_prefix prefix_order.antisym prefix_order.refl)

end

end
