(* ===== verification/Search_Correct.thy ===== *)
theory Search_Correct
  imports Search_Box Prefix_Code
begin

text \<open>
  Lemmas on the documentation search: the id encoding is a prefix-free code, the effect of a
  search on the page, the pointer walk \<open>FindChildElement\<close> as a recursive search, the
  keyboard navigation, the index file that a search requests, the marks of the section selection.
\<close>

section \<open>The id encoding\<close>

lemma show_hex_small: "n < 16 \<Longrightarrow> show_hex n = [digit_char n]"
  by (simp add: show_base.simps)

lemma show_hex_two: "16 \<le> n \<Longrightarrow> n < 256 \<Longrightarrow> show_hex n = [digit_char (n div 16), digit_char (n mod 16)]"
  by (simp add: show_base.simps [of _ n] show_hex_small less_mult_imp_div_less)

lemma not_plain_less: "\<not> id_plain c \<Longrightarrow> unat c < 128"
  by (auto simp: id_plain_def word_le_nat_alt)

lemma id_code_special:
  assumes "\<not> id_plain c"
  shows "id_code c = js [CHR ''_'', digit_char (unat c div 16), digit_char (unat c mod 16)]"
proof (cases "unat c < 16")
  case True
  have "digit_char 0 = CHR ''0''" by code_simp
  with True assms show ?thesis
    by (simp add: id_code_def js_hex_def show_hex_small js_Cons)
next
  case False
  with assms not_plain_less [OF assms] show ?thesis
    by (simp add: id_code_def js_hex_def show_hex_two js_Cons)
qed

lemma digit_char_inject: "m < 16 \<Longrightarrow> n < 16 \<Longrightarrow> digit_char m = digit_char n \<longleftrightarrow> m = n"
  by (auto simp: digit_char_def char_of_eq_iff take_bit_eq_mod split: if_splits)

lemma underscore_not_plain: "\<not> id_plain (of_nat (of_char CHR ''_''))"
  by (simp add: id_plain_def)

lemma id_code_prefix_free:
  assumes "id_code c @ xs = id_code d @ ys"
  shows "c = d \<and> xs = ys"
proof (cases "id_plain c"; cases "id_plain d")
  assume "id_plain c" "id_plain d"
  with assms show ?thesis by (simp add: id_code_def)
next
  assume np: "id_plain c" "\<not> id_plain d"
  then have "id_code c = [c]" by (simp add: id_code_def)
  with np assms underscore_not_plain show ?thesis by (auto simp: id_code_special js_Cons)
next
  assume np: "\<not> id_plain c" "id_plain d"
  then have "id_code d = [d]" by (simp add: id_code_def)
  with np assms underscore_not_plain show ?thesis by (auto simp: id_code_special js_Cons)
next
  assume np: "\<not> id_plain c" "\<not> id_plain d"
  with assms have "unat c div 16 = unat d div 16" "unat c mod 16 = unat d mod 16" and xs: "xs = ys"
    using not_plain_less [of c] not_plain_less [of d]
    by (simp_all add: id_code_special js_Cons js_char_inject digit_char_inject)
  then have "unat c = unat d" by (metis div_mult_mod_eq)
  with xs show ?thesis by (simp add: unsigned_word_eqI)
qed

lemma id_code_not_Nil: "id_code c \<noteq> []"
  by (simp add: id_code_def js_def)

interpretation ids: prefix_code id_code
  by unfold_locales (auto simp: id_code_not_Nil dest: id_code_prefix_free)

section \<open>The rows that \<open>createResults\<close> builds\<close>

lemma upt_row: "[a..<a + (4 + n)] = a # Suc a # Suc (Suc a) # Suc (Suc (Suc a)) # map (\<lambda>c. a + 4 + c) [0..<n]"
proof -
  have "[a..<a + (4 + n)] = [a..<a + 4] @ [a + 4..<a + 4 + n]"
    by (metis add.assoc le_add1 upt_add_eq_append)
  moreover have "[a..<a + 4] = [a, Suc a, Suc (Suc a), Suc (Suc (Suc a))]"
    by (simp add: upt_rec)
  moreover have "[a + 4..<a + 4 + n] = map (\<lambda>c. a + 4 + c) [0..<n]"
    using map_add_upt [of "a + 4" n] by (simp add: add.commute)
  ultimately show ?thesis by simp
qed

lemma addrs_srResult: "map addr (all_nodes (srResult path a e d)) = [a..<a + row_size d]"
proof -
  have "concat (map (\<lambda>c. [f c]) xs) = map f xs" for f :: "nat \<Rightarrow> dnode" and xs
    by (induction xs) auto
  then show ?thesis using upt_row [of a 0]
    by (simp add: srResult_def row_size_def comp_def upt_row)
qed

definition fresh_page :: "World \<Rightarrow> bool" where
  "fresh_page w \<longleftrightarrow> unique_addrs (doc w) \<and> (\<forall>n\<in>set (all_nodes (doc w)). addr n < next_addr w)"

fun result_rows :: "jsstring \<Rightarrow> nat \<Rightarrow> int \<Rightarrow> search_entry list \<Rightarrow> dnode list" where
  "result_rows path a e [] = []"
| "result_rows path a e (d # ds) = srResult path a e d # result_rows path (a + row_size d) (e + 1) ds"

lemma append_row:
  assumes "fresh_page w" and "getElementById i (doc w) = Some r"
    and "w' = w\<lparr>doc := appendChild (addr r) (srResult path (next_addr w) e d) (doc w), next_addr := next_addr w + row_size d\<rparr>"
  shows "fresh_page w'"
    and "getElementById i (doc w') = Some (DNode (addr r) (elem r) (kids r @ [srResult path (next_addr w) e d]))"
proof -
  let ?row = "srResult path (next_addr w) e d"
  from assms(1) have u: "unique_addrs (doc w)" by (simp add: fresh_page_def)
  from assms(2) have r: "r \<in> set (all_nodes (doc w))"
    unfolding getElementById_def by (auto dest: find_SomeD)
  have na: "node_addrs (doc w') = node_addrs (doc w) + addrs [?row]"
    using addrs_update_kids [OF u r, of "\<lambda>ks. ks @ [?row]"] assms(3) by (simp add: appendChild_def)
  have row: "addrs [?row] = mset [next_addr w..<next_addr w + row_size d]"
    using addrs_srResult [of path "next_addr w" e d] by (simp only: addrs_simps node_addrs_def add_0_right)
  have old: "set_mset (node_addrs (doc w)) \<subseteq> {..<next_addr w}"
    using assms(1) by (auto simp: fresh_page_def node_addrs_def)
  have "unique_addrs (doc w')"
    unfolding unique_addrs_append [OF na] using u row old
    by (auto simp: addrs_srResult)
  moreover have "set_mset (node_addrs (doc w')) \<subseteq> {..<next_addr w'}"
    using old row assms(3) unfolding na by auto
  ultimately show "fresh_page w'" by (auto simp: fresh_page_def node_addrs_def)
  show "getElementById i (doc w') = Some (DNode (addr r) (elem r) (kids r @ [?row]))"
    using getElementById_update_kids [OF u assms(2) unique_addrs_node [OF u r]] assms(3)
    by (simp add: appendChild_def)
qed

lemma create_rows_spec:
  assumes "fresh_page w" and "getElementById i (doc w) = Some r"
  shows "fresh_page (create_rows path (addr r) e ds w) \<and>
    getElementById i (doc (create_rows path (addr r) e ds w))
      = Some (DNode (addr r) (elem r) (kids r @ result_rows path (next_addr w) e ds)) \<and>
    location_search (create_rows path (addr r) e ds w) = location_search w"
  using assms
proof (induction ds arbitrary: w r e)
  case Nil
  then show ?case by (cases r) simp
next
  case (Cons d ds)
  let ?w = "w\<lparr>doc := appendChild (addr r) (srResult path (next_addr w) e d) (doc w), next_addr := next_addr w + row_size d\<rparr>"
  from Cons.IH [OF append_row [OF Cons.prems refl, where path = path and e = e and d = d]] show ?case by simp
qed

lemma createResults_spec:
  assumes "fresh_page w" and "createResults path w = Some w'"
  obtains r where "fresh_page w'" and "location_search w' = location_search w"
    and "getElementById (js ''SRResults'') (doc w') = Some r"
    and "kids r = result_rows path (next_addr w) 0 (the (searchData w))"
proof -
  from assms(2) obtain r data where r: "getElementById (js ''SRResults'') (doc w) = Some r" and data: "searchData w = Some data"
    and w': "w' = create_rows path (addr r) 0 data (w\<lparr>doc := clear_children (addr r) (doc w)\<rparr>)"
    by (auto simp: createResults_def by_id_def split: Option.bind_splits)
  from assms(1) have u: "unique_addrs (doc w)" by (simp add: fresh_page_def)
  from r have rin: "r \<in> set (all_nodes (doc w))"
    unfolding getElementById_def by (auto dest: find_SomeD)
  let ?c = "clear_children (addr r) (doc w)"
  have na: "node_addrs (doc w) = node_addrs ?c + addrs (kids r)"
    using addrs_update_kids [OF u rin, of "\<lambda>_. []"] by (simp add: clear_children_def)
  have "unique_addrs ?c" using u unfolding unique_addrs_append [OF na] by simp
  moreover have "set_mset (node_addrs ?c) \<subseteq> set_mset (node_addrs (doc w))" unfolding na by simp
  ultimately have fresh: "fresh_page (w\<lparr>doc := ?c\<rparr>)"
    using assms(1) by (auto simp: fresh_page_def node_addrs_def)
  have "getElementById (js ''SRResults'') ?c = Some (DNode (addr r) (elem r) [])"
    using getElementById_update_kids [OF u r unique_addrs_node [OF u rin], of "\<lambda>_. []"] by (simp add: clear_children_def)
  from create_rows_spec [OF fresh, of _ "DNode (addr r) (elem r) []" path 0 data] this
  have "fresh_page w' \<and> getElementById (js ''SRResults'') (doc w')
      = Some (DNode (addr r) (elem r) (result_rows path (next_addr w) 0 data)) \<and> location_search w' = location_search w"
    by (simp add: w')
  with data that show thesis by simp
qed

section \<open>The pass over the rows\<close>

definition row_view :: "(jsstring \<Rightarrow> jsstring) \<Rightarrow> jsstring \<Rightarrow> Elem \<Rightarrow> Elem" where
  "row_view lower key e = (if className e = js ''SRResult''
     then set_display (js (if row_matches lower key e then ''block'' else ''none'')) e else e)"

lemma set_display_twice [simp]: "set_display v (set_display u e) = set_display v e"
  by (simp add: set_display_def)

lemma set_display_row_view [simp]: "set_display v (row_view lower key e) = set_display v e"
  by (simp add: row_view_def)

lemma getAttribute_row_view [simp]: "getAttribute a (row_view lower key e) = getAttribute a e"
  by (simp add: row_view_def)

lemma doc_edit_node: "doc (edit_node a f w) = map_elems (\<lambda>b e. if b = a then f e else e) (doc w)"
  by (simp add: edit_node_def update_elem_map)

lemma search_rows_doc:
  assumes "unique_addrs t" and "set rows \<subseteq> set (all_nodes t)"
    and "doc w = map_elems (\<lambda>a e. if a \<in> S then row_view lower key e else e) t"
  shows "search_rows lower key rows m w =
     (m + length (filter (\<lambda>r. className (elem r) = js ''SRResult'' \<and> row_matches lower key (elem r)) rows),
      w\<lparr>doc := map_elems (\<lambda>a e. if a \<in> S \<union> addr ` set rows then row_view lower key e else e) t\<rparr>)"
  using assms(2,3)
proof (induction rows arbitrary: m w S)
  case (Cons row rows)
  let ?F = "\<lambda>S a e. if a \<in> S then row_view lower key e else e"
  let ?v = "if row_matches lower key (elem row) then ''block'' else ''none''"
  have same: "n = row" if "n \<in> set (all_nodes t)" "addr n = addr row" for n
    using unique_addrs_eq [OF assms(1)] that Cons.prems(1) by auto
  let ?w = "if className (elem row) = js ''SRResult'' then edit_node (addr row) (set_display (js ?v)) w else w"
  have doc: "doc ?w = map_elems (?F (insert (addr row) S)) t"
  proof (cases "className (elem row) = js ''SRResult''")
    case True
    then have "doc ?w = map_elems (\<lambda>b e. if b = addr row then set_display (js ?v) (?F S b e) else ?F S b e) t"
      by (simp add: doc_edit_node Cons.prems(2) map_elems_comp)
    also have "\<dots> = map_elems (?F (insert (addr row) S)) t"
      by (rule map_elems_cong) (use True same in \<open>auto simp: row_view_def\<close>)
    finally show ?thesis .
  next
    case False
    then have "doc ?w = map_elems (?F S) t" by (simp add: Cons.prems(2))
    also have "\<dots> = map_elems (?F (insert (addr row) S)) t"
      by (rule map_elems_cong) (use False same in \<open>auto simp: row_view_def\<close>)
    finally show ?thesis .
  qed
  have ext: "?w\<lparr>doc := d\<rparr> = w\<lparr>doc := d\<rparr>" for d by (simp add: edit_node_def)
  have sub: "set rows \<subseteq> set (all_nodes t)" using Cons.prems(1) by simp
  from Cons.IH [OF sub doc] show ?case unfolding ext
    by (cases "className (elem row) = js ''SRResult''"; cases "row_matches lower key (elem row)")
       (simp_all add: edit_node_def)
qed simp

definition is_div :: "Elem \<Rightarrow> bool" where
  "is_div e \<longleftrightarrow> nodeName e = js ''div''"

definition matching_rows :: "(jsstring \<Rightarrow> jsstring) \<Rightarrow> jsstring \<Rightarrow> dnode \<Rightarrow> dnode list" where
  "matching_rows lower key t = filter (\<lambda>n. is_div (elem n) \<and> className (elem n) = js ''SRResult'' \<and>
     row_matches lower key (elem n)) (all_nodes t)"

lemma search_pass:
  assumes "unique_addrs (doc w)"
  shows "search_rows lower key (getElementsByTagName (js ''div'') (doc w)) 0 w =
    (length (matching_rows lower key (doc w)),
     w\<lparr>doc := map_elems (\<lambda>a e. if is_div e then row_view lower key e else e) (doc w)\<rparr>)"
proof -
  let ?rows = "getElementsByTagName (js ''div'') (doc w)"
  have sub: "set ?rows \<subseteq> set (all_nodes (doc w))" by (auto simp: getElementsByTagName_def)
  have "addr n \<in> addr ` set ?rows \<longleftrightarrow> is_div (elem n)" if "n \<in> set (all_nodes (doc w))" for n
    using that unique_addrs_eq [OF assms that] by (auto simp: getElementsByTagName_def is_div_def)
  then have "map_elems (\<lambda>a e. if a \<in> {} \<union> addr ` set ?rows then row_view lower key e else e) (doc w) =
    map_elems (\<lambda>a e. if is_div e then row_view lower key e else e) (doc w)"
    by (intro map_elems_cong) auto
  moreover have "filter (\<lambda>r. className (elem r) = js ''SRResult'' \<and> row_matches lower key (elem r)) ?rows
      = matching_rows lower key (doc w)"
    unfolding getElementsByTagName_def matching_rows_def is_div_def by (auto intro: filter_cong)
  ultimately show ?thesis
    using search_rows_doc [OF assms sub, of w "{}" lower key 0] by (simp add: map_elems_id)
qed

definition status_view :: "nat \<Rightarrow> nat \<Rightarrow> bool \<Rightarrow> (Elem \<Rightarrow> Elem) \<Rightarrow> nat \<Rightarrow> Elem \<Rightarrow> Elem" where
  "status_view nomatch searching none row a e =
     (if a = nomatch then set_display (js (if none then ''block'' else ''none'')) e
      else if a = searching then set_display (js ''none'') e else row e)"

text \<open>The whole effect of a search on the page.\<close>

lemma search_effect:
  fixes lower s w
  assumes "unique_addrs (doc w)" and "by_id ''Searching'' w = Some sr" and "by_id ''NoMatches'' w = Some nm"
  defines "found \<equiv> length (matching_rows lower (search_key lower s w) (doc w))"
  shows "SearchResults_Search lower s w = Some (w\<lparr>
     doc := map_elems (status_view (addr nm) (addr sr) (found = 0)
              (\<lambda>e. if is_div e then row_view lower (search_key lower s w) e else e)) (doc w),
     searchResults := (searchResults w)\<lparr>lastMatchCount := found\<rparr>\<rparr>)"
proof -
  let ?key = "search_key lower s w"
  let ?R = "\<lambda>a e. if is_div e then row_view lower ?key e else e"
  let ?D = "js (if found = 0 then ''block'' else ''none'')"
  let ?w1 = "w\<lparr>doc := map_elems ?R (doc w)\<rparr>"
  have 1: "by_id ''Searching'' ?w1 = Some (map_elems ?R sr)"
    using assms(2) by (simp add: by_id_def getElementById_map_elems)
  have doc1: "doc ?w1 = map_elems ?R (doc w)" by simp
  let ?w2 = "edit_node (addr sr) (set_display (js ''none'')) ?w1"
  have 2: "by_id ''NoMatches'' ?w2 = Some (map_elems (\<lambda>b e. if b = addr sr then set_display (js ''none'') (?R b e) else ?R b e) nm)"
    using assms(3) by (simp add: by_id_def doc_edit_node map_elems_comp getElementById_map_elems)
  have doc3: "doc (edit_node (addr nm) (set_display ?D) ?w2) =
      map_elems (status_view (addr nm) (addr sr) (found = 0) (\<lambda>e. if is_div e then row_view lower ?key e else e)) (doc w)"
    unfolding doc_edit_node doc1 map_elems_comp
    by (rule map_elems_cong) (simp add: status_view_def)
  have "SearchResults_Search lower s w =
      Some (edit_results (\<lambda>r. r\<lparr>lastMatchCount := found\<rparr>) (edit_node (addr nm) (set_display ?D) ?w2))"
    unfolding SearchResults_Search_def search_pass [OF assms(1)] display_by_id_def
    using 1 2 by (simp add: found_def)
  also have "\<dots> = Some (w\<lparr>doc := doc (edit_node (addr nm) (set_display ?D) ?w2),
      searchResults := (searchResults w)\<lparr>lastMatchCount := found\<rparr>\<rparr>)"
    by (simp add: edit_results_def edit_node_def)
  finally show ?thesis unfolding doc3 .
qed

section \<open>Searching the loaded index\<close>

text \<open>The documented behaviour of \<open>toLowerCase\<close> the search relies on: it maps the prefix of
  a row id character by character.\<close>

definition lower_prefix :: "(jsstring \<Rightarrow> jsstring) \<Rightarrow> bool" where
  "lower_prefix lower \<longleftrightarrow> (\<forall>s. lower (js ''SR_'' @ s) = js ''sr_'' @ lower s)"

lemma strip_sr_prefix: "strip_sr (js ''sr_'' @ s) = s"
  by (simp add: strip_sr_def js_def)

lemma prefix_take: "prefix key t \<longleftrightarrow> length key \<le> length t \<and> take (length key) t = key"
  by (metis append_eq_conv_conj append_take_drop_id prefixE prefixI prefix_length_le)

lemma row_matches_prefix:
  assumes "lower_prefix lower" and "elem_id e = js ''SR_'' @ i"
  shows "row_matches lower key e \<longleftrightarrow> prefix key (lower i)"
  using assms by (simp add: row_matches_def lower_prefix_def strip_sr_prefix prefix_take Let_def)

definition row_elem :: "search_entry \<Rightarrow> Elem" where
  "row_elem d = setClassAttr ''SRResult'' (setAttribute (js ''id'') (js ''SR_'' @ entry_id d) (new_elem (js ''div'')))"

lemma elem_srResult: "elem (srResult path a e d) = row_elem d"
  by (simp add: srResult_def row_elem_def)

lemma row_elem_facts:
  "elem_id (row_elem d) = js ''SR_'' @ entry_id d" "className (row_elem d) = js ''SRResult''" "is_div (row_elem d)"
  by (simp_all add: row_elem_def setClassAttr_def js_inject is_div_def)

lemma map_result_rows:
  assumes "\<And>n d. n \<in> set (result_rows path a e ds) \<Longrightarrow> elem n = row_elem d \<Longrightarrow> f n = G d"
  shows "map f (result_rows path a e ds) = map G ds"
  using assms by (induction ds arbitrary: a e) (simp_all add: elem_srResult)

lemma kids_result_rows: "n \<in> set (result_rows path a e ds) \<Longrightarrow> \<exists>d. elem n = row_elem d"
  by (induction ds arbitrary: a e) (auto simp: elem_srResult)

lemma status_ids: "js ''Searching'' \<noteq> js ''SR_'' @ i" "js ''NoMatches'' \<noteq> js ''SR_'' @ i"
  by (simp_all add: js_def)

lemma by_id_found: "by_id i w = Some n \<Longrightarrow> n \<in> set (all_nodes (doc w)) \<and> elem_id (elem n) = js i"
  unfolding by_id_def getElementById_def by (auto dest: find_SomeD)

section \<open>\<open>FindChildElement\<close>\<close>

text \<open>The first list of children in document order, descending into \<open>div\<close> elements only.\<close>

function first_children :: "dnode list \<Rightarrow> dnode option" where
  "first_children [] = None"
| "first_children (n # ns) =
     (if is_SRChildren n then Some n
      else if nodeName (elem n) = js ''div'' \<and> kids n \<noteq> []
      then (case first_children (kids n) of Some m \<Rightarrow> Some m | None \<Rightarrow> first_children ns)
      else first_children ns)"
  by pat_completeness auto
termination
proof (relation "measure (size_list size)")
  show "(kids n, n # ns) \<in> measure (size_list size)" for n ns by (cases n) simp
qed simp_all

definition resume :: "dnode \<Rightarrow> nat \<Rightarrow> nat \<Rightarrow> dnode option option" where
  "resume t p a = do {
     c \<leftarrow> climb t p a;
     (case c of None \<Rightarrow> find_child t p None
      | Some m \<Rightarrow> if addr m = p then find_child t p (Some m) else find_child t p (nextSibling (addr m) t))
   }"

definition after_kids :: "dnode \<Rightarrow> nat \<Rightarrow> dnode \<Rightarrow> dnode option option" where
  "after_kids t p q = (if addr q = p then Some None
     else case nextSibling (addr q) t of Some m \<Rightarrow> find_child t p (Some m) | None \<Rightarrow> resume t p (addr q))"

lemma resume_parent:
  assumes "parentNode a t = Some q"
  shows "resume t p a = after_kids t p q"
  using assms unfolding resume_def after_kids_def
  by (simp add: climb.simps [of t p a] find_child.simps [of t p "Some q"] split: option.splits)

lemma find_child_step:
  "find_child t p (Some n) =
     (if addr n = p then Some None
      else if is_SRChildren n then Some (Some n)
      else if nodeName (elem n) = js ''div'' \<and> kids n \<noteq> [] then find_child t p (firstChild n)
      else (case nextSibling (addr n) t of Some m \<Rightarrow> find_child t p (Some m) | None \<Rightarrow> resume t p (addr n)))"
  unfolding resume_def by (subst find_child.simps) simp

lemma find_child_kids:
  assumes u: "unique_addrs t" and P: "P \<in> set (all_nodes t)"
  shows "q \<in> set (all_nodes P) \<Longrightarrow> kids q = pre @ n # post \<Longrightarrow>
    find_child t (addr P) (Some n) =
      (case first_children (n # post) of Some m \<Rightarrow> Some (Some m) | None \<Rightarrow> after_kids t (addr P) q)"
proof (induction "n # post" arbitrary: q pre n post rule: measure_induct_rule [where f = "size_list size"])
  case (less n post q pre)
  have qt: "q \<in> set (all_nodes t)" using less.prems(1) all_nodes_trans [OF P] by blast
  have nP: "n \<in> set (all_nodes P)" using in_kids [OF less.prems(1)] less.prems(2) by simp
  have "n \<in> (\<Union>k\<in>set (kids P). set (all_nodes k))"
    by (rule kid_is_proper [OF less.prems(1)]) (simp add: less.prems(2))
  then have np: "addr n \<noteq> addr P" by (rule root_addr_proper [OF unique_addrs_node [OF u P]])
  have sib: "nextSibling (addr n) t = (case post of [] \<Rightarrow> None | m # _ \<Rightarrow> Some m)"
    by (rule nextSibling_kid [OF u qt less.prems(2)])
  have res: "resume t (addr P) (addr n) = after_kids t (addr P) q"
    by (rule resume_parent, rule parentNode_kid [OF u qt]) (simp add: less.prems(2))
  have skip: "(case nextSibling (addr n) t of Some m \<Rightarrow> find_child t (addr P) (Some m) | None \<Rightarrow> resume t (addr P) (addr n))
      = (case first_children post of Some m \<Rightarrow> Some (Some m) | None \<Rightarrow> after_kids t (addr P) q)"
  proof (cases post)
    case Nil
    with sib res show ?thesis by simp
  next
    case (Cons m post')
    with sib less.hyps [of m post' q "pre @ [n]"] less.prems show ?thesis by simp
  qed
  show ?case
  proof (cases "is_SRChildren n \<or> \<not> (nodeName (elem n) = js ''div'' \<and> kids n \<noteq> [])")
    case True
    with np skip show ?thesis by (subst find_child_step) auto
  next
    case False
    then obtain k ks where ks: "kids n = k # ks" by (cases "kids n") auto
    have "size_list size (k # ks) < size_list size (n # post)" using ks by (cases n) simp
    with less.hyps [of k ks n "[]"] ks nP
    have "find_child t (addr P) (Some k) =
        (case first_children (k # ks) of Some m \<Rightarrow> Some (Some m) | None \<Rightarrow> after_kids t (addr P) n)" by simp
    moreover have "after_kids t (addr P) n =
        (case first_children post of Some m \<Rightarrow> Some (Some m) | None \<Rightarrow> after_kids t (addr P) q)"
      using np skip by (simp add: after_kids_def)
    ultimately show ?thesis using False np ks
      by (subst find_child_step) (auto simp: firstChild_def split: option.splits)
  qed
qed

section \<open>Keyboard navigation\<close>

definition item_shown :: "World \<Rightarrow> nat \<Rightarrow> bool" where
  "item_shown w k = (case getElementById (item_id (int k)) (doc w) of None \<Rightarrow> False
     | Some n \<Rightarrow> (case grandparent n w of None \<Rightarrow> False | Some g \<Rightarrow> display (style (elem g)) = js ''block''))"

definition items_present :: "World \<Rightarrow> nat \<Rightarrow> bool" where
  "items_present w n \<longleftrightarrow> getElementById (item_id (int n)) (doc w) = None \<and>
     list_all (\<lambda>k. case getElementById (item_id (int k)) (doc w) of None \<Rightarrow> False | Some i \<Rightarrow> grandparent i w \<noteq> None) [0..<n]"

lemma NavNext_find:
  assumes "items_present w n" and "i \<le> n"
  shows "NavNext w (int i) = Some (case find (item_shown w) [i..<n] of None \<Rightarrow> None
           | Some k \<Rightarrow> getElementById (item_id (int k)) (doc w))"
  using assms(2)
proof (induction "n - i" arbitrary: i)
  case 0
  with assms(1) show ?case by (simp add: NavNext.simps items_present_def)
next
  case (Suc d)
  then have i: "i < n" by simp
  with assms(1) obtain item g where item: "getElementById (item_id (int i)) (doc w) = Some item" "grandparent item w = Some g"
    by (fastforce simp: items_present_def list_all_iff split: option.splits)
  have "NavNext w (int i + 1) = Some (case find (item_shown w) [Suc i..<n] of None \<Rightarrow> None
      | Some k \<Rightarrow> getElementById (item_id (int k)) (doc w))"
    using Suc.hyps(1) [of "Suc i"] Suc.hyps(2) i by (simp add: add.commute)
  moreover have "item_shown w i \<longleftrightarrow> display (style (elem g)) = js ''block''"
    using item by (simp add: item_shown_def)
  ultimately show ?case using i item
    by (subst NavNext.simps) (simp add: upt_conv_Cons)
qed

lemma NavPrev_find:
  assumes "items_present w n" and "getElementById (item_id (- 1)) (doc w) = None" and "i \<le> n"
  shows "NavPrev w (int i - 1) = Some (case find (item_shown w) (rev [0..<i]) of None \<Rightarrow> None
           | Some k \<Rightarrow> getElementById (item_id (int k)) (doc w))"
  using assms(3)
proof (induction i)
  case 0
  with assms(2) show ?case by (simp add: NavPrev.simps)
next
  case (Suc i)
  then have i: "i < n" by simp
  with assms(1) obtain item g where item: "getElementById (item_id (int i)) (doc w) = Some item" "grandparent item w = Some g"
    by (fastforce simp: items_present_def list_all_iff split: option.splits)
  moreover from item have "item_shown w i \<longleftrightarrow> display (style (elem g)) = js ''block''"
    by (simp add: item_shown_def)
  ultimately show ?case using Suc i
    by (subst NavPrev.simps) simp
qed

section \<open>The requested index file\<close>

lemma index_tables_defined:
  assumes "0 \<le> i" and "i \<le> 10"
  obtains chars name where "map_of indexSectionsWithContent i = Some chars" and "map_of indexSectionNames i = Some name"
proof -
  from assms have "i \<in> set [0..10]" by simp
  moreover have "\<forall>i\<in>set [0..10]. map_of indexSectionsWithContent i \<noteq> None \<and> map_of indexSectionNames i \<noteq> None"
    by (simp add: upto.simps indexSectionsWithContent_def indexSectionNames_def)
  ultimately show thesis using that by blast
qed

lemma indexOf_from_char:
  "c \<in> set s \<Longrightarrow> \<exists>k < length s. indexOf_from i [c] s = i + int k \<and> s ! k = c"
proof (induction s arbitrary: i)
  case (Cons d s)
  show ?case
  proof (cases "d = c")
    case False
    with Cons.prems have "c \<in> set s" by simp
    from Cons.IH [OF this, of "i + 1"] obtain k where "k < length s" "indexOf_from (i + 1) [c] s = i + 1 + int k" "s ! k = c"
      by blast
    with False show ?thesis by (intro exI [of _ "Suc k"]) simp
  qed (auto intro: exI [of _ 0])
qed simp

lemma by_id_searchBox [simp]: "by_id i (w\<lparr>searchBox := b\<rparr>) = by_id i w"
  by (simp add: by_id_def)

lemma Search_loads:
  fixes w :: World and field win :: dnode
  assumes "map_of indexSectionsWithContent (searchIndex (searchBox w)) = Some chars"
    and "by_id ''MSearchField'' w = Some field" and "by_id ''MSearchResultsWindow'' w = Some win"
  defines "v \<equiv> strip_leading (field_value (elem field))"
  assumes "index_char lower v = [c]" and "c \<in> set chars"
  shows "\<exists>w' k. Search lower w = Some w' \<and> k < length chars \<and> chars ! k = c \<and>
    map fst (loads w') = map fst (loads w) @ [the (index_file (searchBox w) (int k))] \<and>
    lastSearchValue (searchBox w') = v \<and> keyTimeout (searchBox w') = 0"
proof -
  from indexOf_from_char [OF assms(6), of 0] obtain k where k: "k < length chars" "chars ! k = c"
    and idx: "indexOf chars [c] = int k" by (auto simp: indexOf_def)
  have "index_file ((searchBox w)\<lparr>keyTimeout := 0\<rparr>) (int k) = index_file (searchBox w) (int k)"
    by (simp add: index_file_def)
  moreover obtain url where "index_file (searchBox w) (int k) = Some url" by (simp add: index_file_def)
  ultimately show ?thesis using k assms(1,5) idx
    by (auto simp: Search_def edit_box_def assms(2,3) loadJS_def v_def [symmetric])
qed

section \<open>Surrogate pairs\<close>

lemma surrogate_facts:
  assumes "0xD800 \<le> c" and "c \<le> (0xDBFF :: u16)"
  shows "\<not> js_whitespace c" "\<not> js_digit c" "c \<notin> set (js ''0xXoObB+-.I'')"
  using assms by (auto simp: js_whitespace_def js_digit_def js_def word_le_nat_alt)

lemma js_trim_Cons: "\<not> js_whitespace c \<Longrightarrow> \<exists>t. js_trim (c # s) = c # t"
proof -
  assume c: "\<not> js_whitespace c"
  have "\<exists>t. dropWhile js_whitespace (rev s @ [c]) = t @ [c]"
    using c by (induction "rev s" arbitrary: s rule: list.induct) (auto simp: dropWhile_append)
  then obtain t where "dropWhile js_whitespace (rev s @ [c]) = t @ [c]" by blast
  with c have "js_trim (c # s) = c # rev t" by (simp add: js_trim_def)
  then show ?thesis by blast
qed

section \<open>The section selection\<close>

lemma mark_items_doc:
  "mark_items j i ns w = Some w' \<Longrightarrow> searchBox w' = searchBox w \<and>
     (\<exists>F. doc w' = map_elems F (doc w) \<and> (\<forall>b e. elem_id (F b e) = elem_id e \<and> field_value (F b e) = field_value e))"
proof (induction ns arbitrary: j w)
  case Nil
  then show ?case using map_elems_id by (metis mark_items.simps(1) option.inject)
next
  case (Cons n ns)
  show ?case
  proof (cases "is_SelectItem n")
    case True
    with Cons.prems obtain m where m: "firstChild n = Some m" by (auto split: Option.bind_splits)
    let ?f = "\<lambda>e. e\<lparr>innerHTML := (if j = i then bullet else blank)\<rparr>"
    let ?w = "edit_node (addr m) ?f w"
    from Cons.prems True m have "mark_items (j + 1) i ns ?w = Some w'" by simp
    from Cons.IH [OF this] obtain F where F: "searchBox w' = searchBox ?w" "doc w' = map_elems F (doc ?w)"
      "\<forall>b e. elem_id (F b e) = elem_id e \<and> field_value (F b e) = field_value e" by blast
    define G where "G = (\<lambda>b e. F b (if b = addr m then ?f e else e))"
    have "doc w' = map_elems G (doc w)"
      by (simp add: F(2) doc_edit_node map_elems_comp G_def)
    moreover have "elem_id (?f e) = elem_id e" for e by (simp add: getAttribute_def)
    then have "elem_id (G b e) = elem_id e \<and> field_value (G b e) = field_value e" for b e
      using F(3) by (simp add: G_def)
    ultimately show ?thesis using F(1) by (auto simp: edit_node_def)
  next
    case False
    with Cons show ?thesis by simp
  qed
qed


end
