(* ===== verification/Search_Properties.thy ===== *)
theory Search_Properties
  imports Search_Correct
begin

text \<open>
  The properties of the documentation search and a concrete page on which they are applied.
\<close>

text \<open>What a search leaves of the rows that \<open>createResults\<close> built.\<close>

lemma search_view:
  assumes "fresh_page w" and "lower_prefix lower" and "createResults path w = Some w1"
    and "by_id ''Searching'' w1 \<noteq> None" and "by_id ''NoMatches'' w1 \<noteq> None"
  shows "\<exists>w2 r. SearchResults_Search lower s w1 = Some w2 \<and> by_id ''SRResults'' w2 = Some r \<and>
     map (\<lambda>n. display (style (elem n))) (kids r) =
     map (\<lambda>d. js (if prefix (search_key lower s w) (lower (entry_id d)) then ''block'' else ''none''))
       (the (searchData w))"
proof -
  from assms(1,3) obtain r where fresh: "fresh_page w1" and loc: "location_search w1 = location_search w"
    and r: "getElementById (js ''SRResults'') (doc w1) = Some r"
    and rows: "kids r = result_rows path (next_addr w) 0 (the (searchData w))"
    by (rule createResults_spec)
  from assms(4,5) obtain sr nm where sr: "by_id ''Searching'' w1 = Some sr" and nm: "by_id ''NoMatches'' w1 = Some nm"
    by blast
  have u: "unique_addrs (doc w1)" using fresh by (simp add: fresh_page_def)
  have key: "search_key lower s w1 = search_key lower s w" by (simp add: search_key_def loc)
  define F where "F = status_view (addr nm) (addr sr) (length (matching_rows lower (search_key lower s w1) (doc w1)) = 0)
      (\<lambda>e. if is_div e then row_view lower (search_key lower s w1) e else e)"
  obtain w2 where w2: "SearchResults_Search lower s w1 = Some w2" and doc2: "doc w2 = map_elems F (doc w1)"
    using search_effect [OF u sr nm, of lower s] by (simp add: F_def)
  have id_F: "elem_id (F b e) = elem_id e" for b e by (simp add: F_def status_view_def)
  have "by_id ''SRResults'' w2 = Some (map_elems F r)"
    using r by (simp add: by_id_def doc2 getElementById_map_elems [OF id_F])
  moreover have "map (\<lambda>n. display (style (F (addr n) (elem n)))) (kids r) =
     map (\<lambda>d. js (if prefix (search_key lower s w) (lower (entry_id d)) then ''block'' else ''none'')) (the (searchData w))"
    unfolding rows
  proof (rule map_result_rows)
    fix n d assume n: "n \<in> set (result_rows path (next_addr w) 0 (the (searchData w)))" "elem n = row_elem d"
    with rows have "n \<in> set (kids r)" by simp
    moreover have "r \<in> set (all_nodes (doc w1))" using by_id_found [of "''SRResults''" w1 r] r by (simp add: by_id_def)
    ultimately have "n \<in> set (all_nodes (doc w1))" by (meson kids_in_all_nodes self_in_all_nodes subsetD all_nodes_trans)
    then have "addr n \<noteq> addr sr" "addr n \<noteq> addr nm"
      using unique_addrs_eq [OF u] by_id_found [OF sr] by_id_found [OF nm] n(2) status_ids row_elem_facts(1) by metis+
    then show "display (style (F (addr n) (elem n))) =
        js (if prefix (search_key lower s w) (lower (entry_id d)) then ''block'' else ''none'')"
      using row_matches_prefix [OF assms(2) row_elem_facts(1)]
      by (simp add: F_def status_view_def n(2) row_elem_facts row_view_def key)
  qed
  ultimately show ?thesis using w2 by (auto simp: comp_def)
qed

section \<open>Properties\<close>

text \<open>The id encoding of search strings keeps and reflects prefixes: a converted search string
  is a prefix of a converted name exactly when the search string is a prefix of the name.\<close>

theorem convertToId_prefix: "prefix (convertToId s) (convertToId t) \<longleftrightarrow> prefix s t"
  unfolding convertToId_def by (rule ids.encode_prefix)

text \<open>C20: After an index file is loaded into the result list, a search shows exactly the rows of
  the entries whose id starts with the converted search string, in the order of the file, and
  hides all others.\<close>

theorem search_shows_matching_entries:
  assumes "fresh_page w" and "lower_prefix lower" and "createResults path w = Some w1"
    and "by_id ''Searching'' w1 \<noteq> None" and "by_id ''NoMatches'' w1 \<noteq> None"
  shows "\<exists>w2 r. SearchResults_Search lower s w1 = Some w2 \<and> by_id ''SRResults'' w2 = Some r \<and>
     map (\<lambda>n. display (style (elem n))) (kids r) =
     map (\<lambda>d. js (if prefix (search_key lower s w) (lower (entry_id d)) then ''block'' else ''none''))
       (the (searchData w))"
  using search_view [OF assms] .

text \<open>C21: The pointer walk \<open>FindChildElement\<close> ends for every document and returns the first
  \<open>div\<close> of class \<open>SRChildren\<close> below the element in document order, the walk descending
  into \<open>div\<close> elements only.\<close>

theorem FindChildElement_correct:
  assumes "unique_addrs (doc w)" and "getElementById i (doc w) = Some parentElement"
  shows "FindChildElement i w = Some (first_children (kids parentElement))"
proof -
  have P: "parentElement \<in> set (all_nodes (doc w))"
    using assms(2) unfolding getElementById_def by (auto dest: find_SomeD)
  show ?thesis
  proof (cases "kids parentElement")
    case Nil
    then show ?thesis using assms(2) by (simp add: FindChildElement_def firstChild_def find_child.simps)
  next
    case (Cons k ks)
    from find_child_kids [OF assms(1) P self_in_all_nodes, of "[]" k ks] Cons
    show ?thesis using assms(2)
      by (simp add: FindChildElement_def firstChild_def after_kids_def split: option.splits)
  qed
qed

text \<open>C22: Keyboard navigation over the result items stops: Down from an item goes to the next item
  whose row is shown, Up to the previous one, and both report that there is none otherwise.\<close>

theorem navigation_finds_visible:
  assumes "items_present w n" and "getElementById (item_id (- 1)) (doc w) = None" and "i \<le> n"
  shows "NavNext w (int i) = Some (case find (item_shown w) [i..<n] of None \<Rightarrow> None
           | Some k \<Rightarrow> getElementById (item_id (int k)) (doc w)) \<and>
         NavPrev w (int i - 1) = Some (case find (item_shown w) (rev [0..<i]) of None \<Rightarrow> None
           | Some k \<Rightarrow> getElementById (item_id (int k)) (doc w))"
  using NavNext_find [OF assms(1,3)] NavPrev_find [OF assms] by blast

text \<open>A search whose first character occurs in the selected section requests exactly one index
  file, the one numbered by the position of that character in the section's table, and records the
  searched string.\<close>

theorem search_requests_index_file:
  assumes "map_of indexSectionsWithContent (searchIndex (searchBox w)) = Some chars"
    and "by_id ''MSearchField'' w = Some field" and "by_id ''MSearchResultsWindow'' w = Some win"
    and "index_char lower (strip_leading (field_value (elem field))) = [c]" and "c \<in> set chars"
  shows "\<exists>w' k. Search lower w = Some w' \<and> k < length chars \<and> chars ! k = c \<and>
    map fst (loads w') = map fst (loads w) @ [the (index_file (searchBox w) (int k))] \<and>
    lastSearchValue (searchBox w') = strip_leading (field_value (elem field)) \<and> keyTimeout (searchBox w') = 0"
  by (rule Search_loads [OF assms])

text \<open>The test for a surrogate pair in \<open>Search\<close> never succeeds: a string that starts with a
  high surrogate is not greater than the number 1, so the index character is the lower-cased first
  code unit alone.\<close>

theorem surrogate_branch_dead:
  assumes "0xD800 \<le> c" and "c \<le> (0xDBFF :: u16)"
  shows "index_char lower (c # s) = lower [c]"
proof -
  note facts = surrogate_facts [OF assms]
  obtain t where t: "js_trim (c # s) = c # t" using js_trim_Cons [OF facts(1)] by blast
  have "js_decimal (c # t) = NaN"
    using facts(2,3) by (simp add: js_decimal_def js_def)
  then have "string_to_number (c # s) = NaN"
    using facts(3) by (simp add: string_to_number_def t js_def)
  then show ?thesis by (simp add: index_char_def greater_than_1_def)
qed

text \<open>C29: Down on the last section of the selection popup while a search is active selects a section
  that does not exist, and the search it starts fails with a \<open>TypeError\<close>.\<close>

theorem select_key_overrun:
  assumes "keyCode e = 40" and "SelectItemCount w = Some 11" and "searchIndex (searchBox w) = 10"
    and "searchActive (searchBox w)" and "by_id ''MSearchField'' w = Some field"
    and "strip_all (field_value (elem field)) \<noteq> []"
  shows "OnSearchSelectKey lower e w = None"
proof -
  let ?w = "edit_box (\<lambda>b. b\<lparr>searchIndex := 11\<rparr>) w"
  have "OnSelectItem lower 11 w = None"
  proof (cases "SelectItemSet 11 ?w")
    case None
    then show ?thesis by (simp add: OnSelectItem_def)
  next
    case (Some w1)
    then obtain F where sb: "searchBox w1 = searchBox ?w" and doc: "doc w1 = map_elems F (doc ?w)"
      and F: "\<forall>b e. elem_id (F b e) = elem_id e \<and> field_value (F b e) = field_value e"
      unfolding SelectItemSet_def by (auto split: Option.bind_splits dest!: mark_items_doc)
    have field: "by_id ''MSearchField'' w1 = Some (map_elems F field)"
      using assms(5) F unfolding by_id_def doc by (subst getElementById_map_elems) (simp_all add: edit_box_def)
    have none: "map_of indexSectionsWithContent 11 = None"
      by (simp add: indexSectionsWithContent_def)
    have "Search lower w1 = None"
      using sb none by (auto simp: Search_def edit_box_def Let_def split: Option.bind_splits)
    with Some sb assms(4,6) F field show ?thesis
      by (simp add: OnSelectItem_def edit_box_def)
  qed
  with assms(1-3) show ?thesis by (simp add: OnSearchSelectKey_def)
qed

section \<open>A concrete page\<close>

definition page_node :: "nat \<Rightarrow> string \<Rightarrow> string \<Rightarrow> dnode list \<Rightarrow> dnode" where
  "page_node a tag i ks = DNode a (setAttribute (js ''id'') (js i) (new_elem (js tag))) ks"

definition sample_entries :: "search_entry list" where
  "sample_entries =
    [\<lparr>entry_id = js ''crc32_0'', entry_label = js ''crc32'',
      entry_targets = [\<lparr>target_href = js ''../crc.html'', target_flag = 1, target_scope = js ''stgs''\<rparr>]\<rparr>,
     \<lparr>entry_id = js ''decode_1'', entry_label = js ''decode'',
      entry_targets = [\<lparr>target_href = js ''../a.html'', target_flag = 1, target_scope = js ''stgs''\<rparr>,
                       \<lparr>target_href = js ''../b.html'', target_flag = 0, target_scope = js ''app''\<rparr>]\<rparr>]"

definition sample_field :: dnode where
  "sample_field = DNode 1 ((setAttribute (js ''id'') (js ''MSearchField'') (new_elem (js ''input'')))\<lparr>field_value := js '' crc''\<rparr>) []"

definition sample_page :: World where
  "sample_page =
    \<lparr>doc = DNode 0 (new_elem (js ''body''))
       [sample_field,
        page_node 2 ''div'' ''MSearchBox'' [],
        page_node 3 ''div'' ''MSearchSelectWindow''
          (map (\<lambda>k. select_item (20 + 3 * k) (int k) []) [0..<11]),
        page_node 4 ''div'' ''MSearchResultsWindow''
          [page_node 5 ''div'' ''MSearchResults''
             [page_node 6 ''div'' ''SRResults'' [],
              page_node 7 ''div'' ''Loading'' [],
              page_node 8 ''div'' ''Searching'' [],
              page_node 9 ''div'' ''NoMatches'' []]]],
     next_addr = 200, body_addr = 0, clientWidth = 1000, clientHeight = 800, location_search = [],
     focused = None, timers = [], next_timer = 1, loads = [], searchData = Some sample_entries,
     searchBox = (snd (new_SearchBox (js ''searchBox'') (js ''search/'') (js ''.html'')))
                   \<lparr>searchIndex := 10, searchActive := True\<rparr>,
     searchResults = SearchResults_init, propagation_stopped = False\<rparr>"

definition ascii_lower :: "jsstring \<Rightarrow> jsstring" where
  "ascii_lower s = map (\<lambda>c. if 0x41 \<le> c \<and> c \<le> 0x5A then c + 0x20 else c) s"

lemma show_digit: "n < 10 \<Longrightarrow> show_nat n = [digit_char n]"
  by (simp add: show_base.simps)

lemma js_append_eq: "js s @ js t = js (s @ t)"
  by (simp add: js_append)

lemmas sample_defs = sample_page_def sample_field_def sample_entries_def page_node_def select_item_def
  srResult_def srLink_def srScope_def srChild_def setClassAttr_def setKeyActions_def item_id_def child_id_def
  js_int_def js_append_eq js_inject show_digit digit_char_def target_attr_def

lemma sample_lookups:
  "by_id ''MSearchField'' sample_page = Some sample_field"
  "map_option addr (by_id ''MSearchResultsWindow'' sample_page) = Some 4"
  by (simp_all add: by_id_def getElementById_def sample_defs upt_rec)

lemma sample_fresh: "fresh_page sample_page"
  by (simp add: fresh_page_def unique_addrs_def sample_page_def sample_field_def page_node_def select_item_def
      srResult_def sample_entries_def upt_rec)

lemma sample_count: "SelectItemCount sample_page = Some 11"
  by (simp add: SelectItemCount_def by_id_def getElementById_def is_SelectItem_def sample_defs upt_rec)


definition results_page :: World where
  "results_page = sample_page\<lparr>doc := DNode 0 (new_elem (js ''body''))
     [page_node 8 ''div'' ''Searching'' [], page_node 9 ''div'' ''NoMatches'' [],
      page_node 6 ''div'' ''SRResults''
        [srResult [] 100 0 (sample_entries ! 0),
         update_elem 104 (set_display (js ''block'')) (srResult [] 104 1 (sample_entries ! 1))]]\<rparr>"

lemma results_fresh: "fresh_page results_page"
  by (simp add: fresh_page_def unique_addrs_def results_page_def sample_page_def page_node_def
      srResult_def sample_entries_def upt_rec)

lemma results_created:
  assumes "createResults [] results_page = Some w"
  shows "by_id ''Searching'' w \<noteq> None" "by_id ''NoMatches'' w \<noteq> None"
proof -
  let ?P = "page_node 8 ''div'' ''Searching'' []"
  show "by_id ''Searching'' w \<noteq> None" "by_id ''NoMatches'' w \<noteq> None"
  using assms by (auto simp: createResults_def by_id_def getElementById_def results_page_def sample_page_def
     page_node_def appendChild_def clear_children_def js_inject sample_entries_def)
qed


lemma row_ids [simp]:
  "elem_id (srLink path e d) = item_id e" "elem_id (srChild path e c t) = child_id e (int c)" "elem_id (srScope t) = []"
  "elem_id (setClassAttr a e') = elem_id e'"
  by (simp_all add: srLink_def srChild_def srScope_def setClassAttr_def setKeyActions_def js_inject Let_def)

lemma nodeName_srLink [simp]: "nodeName (srLink path e d) = js ''a''"
  by (simp add: srLink_def setClassAttr_def setKeyActions_def Let_def)

lemma results_ids:
  "item_id 0 = js ''Item0''" "item_id 1 = js ''Item1''" "item_id 2 = js ''Item2''" "item_id (- 1) = js ''Item-1''"
  "child_id 1 0 = js ''Item1_c0''" "child_id 1 1 = js ''Item1_c1''"
  by (simp_all add: item_id_def child_id_def js_int_def js_append_eq js_inject show_digit digit_char_def char_of_def bit_0)

lemmas results_defs = results_page_def sample_page_def page_node_def srResult_def sample_entries_def
  results_ids js_inject js_append_eq

lemma results_items: "items_present results_page 2"
  by (simp add: items_present_def getElementById_def grandparent_def parentNode_def results_defs upt_rec)

lemma results_no_minus: "getElementById (item_id (- 1)) (doc results_page) = None"
  by (simp add: getElementById_def results_defs)

lemma results_shown: "item_shown results_page 0 = False" "item_shown results_page 1 = True"
  by (simp_all add: item_shown_def getElementById_def grandparent_def parentNode_def results_defs setClassAttr_def)

lemma results_item1: "map_option addr (getElementById (item_id 1) (doc results_page)) = Some 106"
  by (simp add: getElementById_def results_defs)

lemma results_row: "map_option addr (getElementById (js ''SR_decode_1'') (doc results_page)) = Some 104"
  by (simp add: getElementById_def results_defs)

section \<open>Witnesses\<close>

lemma lower_prefix_ascii: "lower_prefix ascii_lower"
  by (simp add: lower_prefix_def ascii_lower_def js_def)

lemma results_created_some: "\<exists>w. createResults [] results_page = Some w"
  by (simp add: createResults_def by_id_def getElementById_def results_defs)

lemma results_key:
  "search_key ascii_lower (js '' CRC'') results_page = js ''crc''"
  by (simp add: search_key_def strip_leading_def strip_trailing_def convertToId_def id_code_def id_plain_def ascii_lower_def js_def)

theorem search_shows_matching_entries_witness:
  "\<exists>w1 w2 r. createResults [] results_page = Some w1 \<and> SearchResults_Search ascii_lower (js '' CRC'') w1 = Some w2 \<and>
     by_id ''SRResults'' w2 = Some r \<and> map (\<lambda>n. display (style (elem n))) (kids r) = [js ''block'', js ''none'']"
proof -
  obtain w1 where w1: "createResults [] results_page = Some w1" using results_created_some by blast
  have data: "the (searchData results_page) = sample_entries" by (simp add: results_page_def sample_page_def)
  have "prefix (js ''crc'') (ascii_lower (js ''crc32_0''))" "\<not> prefix (js ''crc'') (ascii_lower (js ''decode_1''))"
    by (simp_all add: ascii_lower_def js_def)
  with search_shows_matching_entries [OF results_fresh lower_prefix_ascii w1 results_created [OF w1], of "js '' CRC''"]
  show ?thesis using w1 unfolding data results_key by (auto simp: sample_entries_def)
qed

theorem FindChildElement_correct_witness:
  "map_option (map_option addr) (FindChildElement (js ''SR_decode_1'') results_page) = Some (Some 107)"
proof -
  obtain r where r: "getElementById (js ''SR_decode_1'') (doc results_page) = Some r"
    and kids: "map_option addr (first_children (kids r)) = Some 107"
    by (simp add: getElementById_def results_defs is_SRChildren_def setClassAttr_def)
  have "unique_addrs (doc results_page)" using results_fresh by (simp add: fresh_page_def)
  from FindChildElement_correct [OF this r] kids show ?thesis by simp
qed

theorem navigation_finds_visible_witness:
  "map_option (map_option addr) (NavNext results_page 0) = Some (Some 106) \<and> NavPrev results_page 0 = Some None"
  using navigation_finds_visible [OF results_items results_no_minus, of 0]
    navigation_finds_visible [OF results_items results_no_minus, of 1] results_shown results_item1
  by (auto simp: upt_rec)

theorem search_requests_index_file_witness:
  "\<exists>w'. Search ascii_lower sample_page = Some w' \<and> map fst (loads w') = [js ''search/pages_0.js'']"
proof -
  have v: "strip_leading (field_value (elem sample_field)) = js ''crc''"
    by (simp add: sample_field_def strip_leading_def js_def)
  have table: "map_of indexSectionsWithContent (searchIndex (searchBox sample_page)) = Some (js ''cdegprstv'' @ [0x2014])"
    by (simp add: sample_page_def indexSectionsWithContent_def)
  have char: "index_char ascii_lower (js ''crc'') = [0x63]"
    by (simp add: index_char_def ascii_lower_def js_def)
  obtain win where win: "by_id ''MSearchResultsWindow'' sample_page = Some win"
    using sample_lookups(2) by blast
  obtain w' k where w': "Search ascii_lower sample_page = Some w'" "k < length (js ''cdegprstv'' @ [0x2014])"
    "(js ''cdegprstv'' @ [0x2014]) ! k = 0x63"
    "map fst (loads w') = map fst (loads sample_page) @ [the (index_file (searchBox sample_page) (int k))]"
    using search_requests_index_file [OF table sample_lookups(1) win, unfolded v, OF char] by (auto simp: js_def)
  have "k = 0" using w'(2,3) by (auto simp: js_def less_Suc_eq)
  then have "the (index_file (searchBox sample_page) (int k)) = js ''search/pages_0.js''"
    by (simp add: index_file_def sample_page_def new_SearchBox_def indexSectionNames_def js_hex_def js_append_eq
        js_inject show_hex_small digit_char_def char_of_def bit_0)
  with w'(1,4) show ?thesis by (simp add: sample_page_def)
qed

theorem surrogate_branch_dead_witness: "index_char ascii_lower [0xD83D, 0xDE80] = [0xD83D]"
  using surrogate_branch_dead [of "0xD83D" ascii_lower "[0xDE80]"] by (simp add: ascii_lower_def)

theorem select_key_overrun_witness:
  "OnSearchSelectKey ascii_lower \<lparr>ev_type = Keydown, keyCode = 40, shiftKey = False\<rparr> sample_page = None"
  by (rule select_key_overrun [OF _ sample_count _ _ sample_lookups(1)])
     (simp_all add: sample_page_def sample_field_def strip_all_def js_def)

end
