(* ===== verification/Search_Index_Correct.thy ===== *)
theory Search_Index_Correct
  imports Search_Index Search_Properties
begin

text \<open>
  The shipped index fits the scripts: every entry is in the file that a search for its name
  requests, under an id that such a search shows.
\<close>

section \<open>Ids of ASCII names\<close>

definition js_char :: "char \<Rightarrow> u16" where
  "js_char c = of_nat (of_char c)"

definition lower16 :: "u16 \<Rightarrow> u16" where
  "lower16 c = (if 0x41 \<le> c \<and> c \<le> 0x5A then c + 0x20 else c)"

definition lower_letter :: "char \<Rightarrow> char" where
  "lower_letter c = (let n = of_char c :: nat in if 65 \<le> n \<and> n \<le> 90 then char_of (n + 32) else c)"

definition id_of_char :: "char \<Rightarrow> string" where
  "id_of_char c =
     (let m = of_char (lower_letter c) :: nat
      in if 97 \<le> m \<and> m \<le> 122 \<or> 48 \<le> m \<and> m \<le> 57 \<or> 128 \<le> m then [char_of m]
         else if m < 16 then ''_0'' @ show_hex m else ''_'' @ show_hex m)"

lemma js_Cons_char: "js (c # s) = js_char c # js s"
  by (simp add: js_def js_char_def)

lemma js_concat: "js (concat ss) = concat (map js ss)"
  by (induction ss) (simp_all add: js_append js_Nil)

lemma unat_js_char [simp]: "unat (js_char c) = of_char c"
proof -
  have "of_char c < (65536 :: nat)" using of_char_less [of c] by (rule less_trans) simp
  then show ?thesis by (simp add: js_char_def unat_of_nat)
qed

lemma of_char_lower_letter:
  "of_char (lower_letter c) = (let n = of_char c :: nat in if 65 \<le> n \<and> n \<le> 90 then n + 32 else n)"
  by (simp add: lower_letter_def Let_def of_char_of)

lemma lower16_js_char: "lower16 (js_char c) = js_char (lower_letter c)"
proof -
  have "js_char c + 0x20 = js_char (lower_letter c)" if "65 \<le> (of_char c :: nat)" "(of_char c :: nat) \<le> 90"
    using that by (simp add: js_char_def of_char_lower_letter)
  moreover have "lower_letter c = c" if "\<not> (65 \<le> (of_char c :: nat) \<and> (of_char c :: nat) \<le> 90)"
    using that by (auto simp: lower_letter_def Let_def)
  ultimately show ?thesis by (auto simp: lower16_def word_le_nat_alt)
qed

lemma ascii_lower_js: "ascii_lower (js s) = js (map lower_letter s)"
  unfolding ascii_lower_def lower16_def [symmetric] by (induction s) (simp_all add: js_Cons_char js_Nil lower16_js_char)

lemma id_code_js_char: "id_code (js_char (lower_letter c)) = js (id_of_char c)"
proof -
  define d where "d = lower_letter c"
  have "js [char_of (of_char d :: nat)] = [js_char d]" by (simp add: js_Cons_char js_Nil)
  then show ?thesis
    unfolding id_of_char_def d_def [symmetric] Let_def
    by (auto simp: id_code_def id_plain_def word_le_nat_alt js_hex_def simp flip: js_append)
qed

lemma convertToId_js: "convertToId (ascii_lower (js s)) = js (concat (map id_of_char s))"
  unfolding ascii_lower_js convertToId_def js_concat by (induction s) (simp_all add: js_Cons_char js_Nil id_code_js_char)

section \<open>Well-formed index files\<close>

text \<open>The entries from number \<open>k\<close> on of an index file for the character \<open>c\<close>: names in ASCII without
  spaces that begin with that character, each under its own id.\<close>

definition plain_name :: "jsstring \<Rightarrow> bool" where
  "plain_name s \<longleftrightarrow> s \<noteq> [] \<and> list_all (\<lambda>c. c < 0x80 \<and> c \<noteq> space) s"

fun well_indexed :: "u16 \<Rightarrow> nat \<Rightarrow> search_entry list \<Rightarrow> bool" where
  "well_indexed c k [] = True"
| "well_indexed c k (e # es) \<longleftrightarrow>
     plain_name (entry_label e) \<and> lower16 (hd (entry_label e)) = c \<and>
     entry_id e = convertToId (ascii_lower (entry_label e)) @ js (''_'' @ show_nat k) \<and> well_indexed c (k + 1) es"

text \<open>The same on the strings of the files.\<close>

definition char_facts :: "char \<Rightarrow> bool \<times> char \<times> string" where
  "char_facts c = ((of_char c :: nat) < 128 \<and> c \<noteq> CHR '' '', lower_letter c, id_of_char c)"

fun raw_indexed :: "char \<Rightarrow> nat \<Rightarrow> (string \<times> string \<times> (string \<times> string) list) list \<Rightarrow> bool" where
  "raw_indexed c k [] = True"
| "raw_indexed c k ((i, label, ts) # es) \<longleftrightarrow>
     label \<noteq> [] \<and> list_all (\<lambda>d. fst (char_facts d)) label \<and> fst (snd (char_facts (hd label))) = c \<and>
     i = concat (map (\<lambda>d. snd (snd (char_facts d))) label) @ ''_'' @ show_nat k \<and> raw_indexed c (k + 1) es"

lemma plain_js_char: "fst (char_facts c) \<Longrightarrow> js_char c < 0x80 \<and> js_char c \<noteq> space"
proof -
  assume "fst (char_facts c)"
  then have "(of_char c :: nat) < 128" "c \<noteq> CHR '' ''" by (simp_all add: char_facts_def)
  moreover have "js_char c = space \<Longrightarrow> c = CHR '' ''"
    using js_inject [of "[c]" "'' ''"] by (simp add: js_Cons_char js_Nil) (simp add: js_char_def)
  ultimately show ?thesis by (auto simp: word_less_nat_alt)
qed

lemma well_indexed_raw: "raw_indexed c k xs \<Longrightarrow> well_indexed (js_char c) k (map search_symbol xs)"
proof (induction c k xs rule: raw_indexed.induct)
  case (2 c k i label ts es)
  have "plain_name (js label)"
    using "2.prems" plain_js_char by (auto simp: plain_name_def js_def list_all_iff js_char_def)
  moreover have "lower16 (hd (js label)) = js_char c"
    using "2.prems" by (cases label) (simp_all add: js_Cons_char lower16_js_char char_facts_def)
  moreover have "js i = convertToId (ascii_lower (js label)) @ js (''_'' @ show_nat k)"
    using "2.prems" by (simp add: convertToId_js js_append char_facts_def)
  ultimately show ?case using 2 by (simp add: search_symbol_def)
qed simp

section \<open>The shipped files\<close>

text \<open>The characters that occur in names, and the numbers of entries.\<close>

lemma char_table:
  "char_facts (CHR ''.'') = (True, CHR ''.'', ''_2e'')" "char_facts (CHR ''0'') = (True, CHR ''0'', ''0'')"
  "char_facts (CHR ''1'') = (True, CHR ''1'', ''1'')" "char_facts (CHR ''2'') = (True, CHR ''2'', ''2'')"
  "char_facts (CHR ''3'') = (True, CHR ''3'', ''3'')" "char_facts (CHR ''4'') = (True, CHR ''4'', ''4'')"
  "char_facts (CHR ''5'') = (True, CHR ''5'', ''5'')" "char_facts (CHR ''6'') = (True, CHR ''6'', ''6'')"
  "char_facts (CHR ''7'') = (True, CHR ''7'', ''7'')" "char_facts (CHR ''8'') = (True, CHR ''8'', ''8'')"
  "char_facts (CHR ''9'') = (True, CHR ''9'', ''9'')" "char_facts (CHR ''='') = (True, CHR ''='', ''_3d'')"
  "char_facts (CHR ''A'') = (True, CHR ''a'', ''a'')" "char_facts (CHR ''B'') = (True, CHR ''b'', ''b'')"
  "char_facts (CHR ''C'') = (True, CHR ''c'', ''c'')" "char_facts (CHR ''D'') = (True, CHR ''d'', ''d'')"
  "char_facts (CHR ''E'') = (True, CHR ''e'', ''e'')" "char_facts (CHR ''F'') = (True, CHR ''f'', ''f'')"
  "char_facts (CHR ''G'') = (True, CHR ''g'', ''g'')" "char_facts (CHR ''H'') = (True, CHR ''h'', ''h'')"
  "char_facts (CHR ''I'') = (True, CHR ''i'', ''i'')" "char_facts (CHR ''J'') = (True, CHR ''j'', ''j'')"
  "char_facts (CHR ''K'') = (True, CHR ''k'', ''k'')" "char_facts (CHR ''L'') = (True, CHR ''l'', ''l'')"
  "char_facts (CHR ''M'') = (True, CHR ''m'', ''m'')" "char_facts (CHR ''N'') = (True, CHR ''n'', ''n'')"
  "char_facts (CHR ''O'') = (True, CHR ''o'', ''o'')" "char_facts (CHR ''P'') = (True, CHR ''p'', ''p'')"
  "char_facts (CHR ''Q'') = (True, CHR ''q'', ''q'')" "char_facts (CHR ''R'') = (True, CHR ''r'', ''r'')"
  "char_facts (CHR ''S'') = (True, CHR ''s'', ''s'')" "char_facts (CHR ''T'') = (True, CHR ''t'', ''t'')"
  "char_facts (CHR ''U'') = (True, CHR ''u'', ''u'')" "char_facts (CHR ''V'') = (True, CHR ''v'', ''v'')"
  "char_facts (CHR ''W'') = (True, CHR ''w'', ''w'')" "char_facts (CHR ''X'') = (True, CHR ''x'', ''x'')"
  "char_facts (CHR ''_'') = (True, CHR ''_'', ''_5f'')" "char_facts (CHR ''a'') = (True, CHR ''a'', ''a'')"
  "char_facts (CHR ''b'') = (True, CHR ''b'', ''b'')" "char_facts (CHR ''c'') = (True, CHR ''c'', ''c'')"
  "char_facts (CHR ''d'') = (True, CHR ''d'', ''d'')" "char_facts (CHR ''e'') = (True, CHR ''e'', ''e'')"
  "char_facts (CHR ''f'') = (True, CHR ''f'', ''f'')" "char_facts (CHR ''g'') = (True, CHR ''g'', ''g'')"
  "char_facts (CHR ''h'') = (True, CHR ''h'', ''h'')" "char_facts (CHR ''i'') = (True, CHR ''i'', ''i'')"
  "char_facts (CHR ''j'') = (True, CHR ''j'', ''j'')" "char_facts (CHR ''k'') = (True, CHR ''k'', ''k'')"
  "char_facts (CHR ''l'') = (True, CHR ''l'', ''l'')" "char_facts (CHR ''m'') = (True, CHR ''m'', ''m'')"
  "char_facts (CHR ''n'') = (True, CHR ''n'', ''n'')" "char_facts (CHR ''o'') = (True, CHR ''o'', ''o'')"
  "char_facts (CHR ''p'') = (True, CHR ''p'', ''p'')" "char_facts (CHR ''q'') = (True, CHR ''q'', ''q'')"
  "char_facts (CHR ''r'') = (True, CHR ''r'', ''r'')" "char_facts (CHR ''s'') = (True, CHR ''s'', ''s'')"
  "char_facts (CHR ''t'') = (True, CHR ''t'', ''t'')" "char_facts (CHR ''u'') = (True, CHR ''u'', ''u'')"
  "char_facts (CHR ''v'') = (True, CHR ''v'', ''v'')" "char_facts (CHR ''w'') = (True, CHR ''w'', ''w'')"
  "char_facts (CHR ''x'') = (True, CHR ''x'', ''x'')" "char_facts (CHR ''y'') = (True, CHR ''y'', ''y'')"
  "char_facts (CHR ''z'') = (True, CHR ''z'', ''z'')" "char_facts (CHR ''~'') = (True, CHR ''~'', ''_7e'')"
  by (simp_all add: char_facts_def id_of_char_def lower_letter_def show_base.simps digit_char_def Let_def char_of_def bit_0)

lemma number_table:
  "show_nat 0 = ''0''" "show_nat 1 = ''1''" "show_nat 2 = ''2''" "show_nat 3 = ''3''" "show_nat 4 = ''4''"
  "show_nat 5 = ''5''" "show_nat 6 = ''6''" "show_nat 7 = ''7''" "show_nat 8 = ''8''" "show_nat 9 = ''9''"
  "show_nat 10 = ''10''" "show_nat 11 = ''11''" "show_nat 12 = ''12''" "show_nat 13 = ''13''" "show_nat 14 = ''14''"
  "show_nat 15 = ''15''" "show_nat 16 = ''16''" "show_nat 17 = ''17''" "show_nat 18 = ''18''" "show_nat 19 = ''19''"
  by (simp_all add: show_base.simps digit_char_def char_of_def bit_0)

lemmas index_simps = raw_indexed.simps char_table number_table

lemma files_0_indexed: "well_indexed (js_char (CHR ''a'')) 0 files_0"
  unfolding files_0_def by (rule well_indexed_raw) (simp add: index_simps del: One_nat_def)

lemma files_1_indexed: "well_indexed (js_char (CHR ''b'')) 0 files_1"
  unfolding files_1_def by (rule well_indexed_raw) (simp add: index_simps del: One_nat_def)

lemma files_2_indexed: "well_indexed (js_char (CHR ''c'')) 0 files_2"
  unfolding files_2_def by (rule well_indexed_raw) (simp add: index_simps del: One_nat_def)

lemma files_3_indexed: "well_indexed (js_char (CHR ''f'')) 0 files_3"
  unfolding files_3_def by (rule well_indexed_raw) (simp add: index_simps del: One_nat_def)

lemma files_4_indexed: "well_indexed (js_char (CHR ''g'')) 0 files_4"
  unfolding files_4_def by (rule well_indexed_raw) (simp add: index_simps del: One_nat_def)

lemma files_5_indexed: "well_indexed (js_char (CHR ''l'')) 0 files_5"
  unfolding files_5_def by (rule well_indexed_raw) (simp add: index_simps del: One_nat_def)

lemma files_6_indexed: "well_indexed (js_char (CHR ''n'')) 0 files_6"
  unfolding files_6_def by (rule well_indexed_raw) (simp add: index_simps del: One_nat_def)

lemma files_7_indexed: "well_indexed (js_char (CHR ''p'')) 0 files_7"
  unfolding files_7_def by (rule well_indexed_raw) (simp add: index_simps del: One_nat_def)

lemma files_8_indexed: "well_indexed (js_char (CHR ''r'')) 0 files_8"
  unfolding files_8_def by (rule well_indexed_raw) (simp add: index_simps del: One_nat_def)

lemma files_9_indexed: "well_indexed (js_char (CHR ''s'')) 0 files_9"
  unfolding files_9_def by (rule well_indexed_raw) (simp add: index_simps del: One_nat_def)

lemma files_a_indexed: "well_indexed (js_char (CHR ''t'')) 0 files_a"
  unfolding files_a_def by (rule well_indexed_raw) (simp add: index_simps del: One_nat_def)

lemma files_b_indexed: "well_indexed (js_char (CHR ''v'')) 0 files_b"
  unfolding files_b_def by (rule well_indexed_raw) (simp add: index_simps del: One_nat_def)

lemma functions_0_indexed: "well_indexed (js_char (CHR ''a'')) 0 functions_0"
  unfolding functions_0_def by (rule well_indexed_raw) (simp add: index_simps del: One_nat_def)

lemma functions_1_indexed: "well_indexed (js_char (CHR ''b'')) 0 functions_1"
  unfolding functions_1_def by (rule well_indexed_raw) (simp add: index_simps del: One_nat_def)

lemma functions_2_indexed: "well_indexed (js_char (CHR ''c'')) 0 functions_2"
  unfolding functions_2_def by (rule well_indexed_raw) (simp add: index_simps del: One_nat_def)

lemma functions_3_indexed: "well_indexed (js_char (CHR ''d'')) 0 functions_3"
  unfolding functions_3_def by (rule well_indexed_raw) (simp add: index_simps del: One_nat_def)

lemma functions_4_indexed: "well_indexed (js_char (CHR ''e'')) 0 functions_4"
  unfolding functions_4_def by (rule well_indexed_raw) (simp add: index_simps del: One_nat_def)

lemma functions_5_indexed: "well_indexed (js_char (CHR ''f'')) 0 functions_5"
  unfolding functions_5_def by (rule well_indexed_raw) (simp add: index_simps del: One_nat_def)

lemma functions_6_indexed: "well_indexed (js_char (CHR ''g'')) 0 functions_6"
  unfolding functions_6_def by (rule well_indexed_raw) (simp add: index_simps del: One_nat_def)

lemma functions_7_indexed: "well_indexed (js_char (CHR ''i'')) 0 functions_7"
  unfolding functions_7_def by (rule well_indexed_raw) (simp add: index_simps del: One_nat_def)

lemma functions_8_indexed: "well_indexed (js_char (CHR ''k'')) 0 functions_8"
  unfolding functions_8_def by (rule well_indexed_raw) (simp add: index_simps del: One_nat_def)

lemma functions_9_indexed: "well_indexed (js_char (CHR ''l'')) 0 functions_9"
  unfolding functions_9_def by (rule well_indexed_raw) (simp add: index_simps del: One_nat_def)

lemma functions_a_indexed: "well_indexed (js_char (CHR ''m'')) 0 functions_a"
  unfolding functions_a_def by (rule well_indexed_raw) (simp add: index_simps del: One_nat_def)

lemma functions_b_indexed: "well_indexed (js_char (CHR ''n'')) 0 functions_b"
  unfolding functions_b_def by (rule well_indexed_raw) (simp add: index_simps del: One_nat_def)

lemma functions_c_indexed: "well_indexed (js_char (CHR ''o'')) 0 functions_c"
  unfolding functions_c_def by (rule well_indexed_raw) (simp add: index_simps del: One_nat_def)

lemma functions_d_indexed: "well_indexed (js_char (CHR ''p'')) 0 functions_d"
  unfolding functions_d_def by (rule well_indexed_raw) (simp add: index_simps del: One_nat_def)

lemma functions_e_indexed: "well_indexed (js_char (CHR ''r'')) 0 functions_e"
  unfolding functions_e_def by (rule well_indexed_raw) (simp add: index_simps del: One_nat_def)

lemma functions_f_indexed: "well_indexed (js_char (CHR ''s'')) 0 functions_f"
  unfolding functions_f_def by (rule well_indexed_raw) (simp add: index_simps del: One_nat_def)

lemma functions_10_indexed: "well_indexed (js_char (CHR ''t'')) 0 functions_10"
  unfolding functions_10_def by (rule well_indexed_raw) (simp add: index_simps del: One_nat_def)

lemma functions_11_indexed: "well_indexed (js_char (CHR ''v'')) 0 functions_11"
  unfolding functions_11_def by (rule well_indexed_raw) (simp add: index_simps del: One_nat_def)

lemma functions_12_indexed: "well_indexed (js_char (CHR ''w'')) 0 functions_12"
  unfolding functions_12_def by (rule well_indexed_raw) (simp add: index_simps del: One_nat_def)

lemma functions_13_indexed: "well_indexed (js_char (CHR ''~'')) 0 functions_13"
  unfolding functions_13_def by (rule well_indexed_raw) (simp add: index_simps del: One_nat_def)

lemma variables_0_indexed: "well_indexed (js_char (CHR ''a'')) 0 variables_0"
  unfolding variables_0_def by (rule well_indexed_raw) (simp add: index_simps del: One_nat_def)

lemma variables_1_indexed: "well_indexed (js_char (CHR ''b'')) 0 variables_1"
  unfolding variables_1_def by (rule well_indexed_raw) (simp add: index_simps del: One_nat_def)

lemma variables_2_indexed: "well_indexed (js_char (CHR ''c'')) 0 variables_2"
  unfolding variables_2_def by (rule well_indexed_raw) (simp add: index_simps del: One_nat_def)

lemma variables_3_indexed: "well_indexed (js_char (CHR ''d'')) 0 variables_3"
  unfolding variables_3_def by (rule well_indexed_raw) (simp add: index_simps del: One_nat_def)

lemma variables_4_indexed: "well_indexed (js_char (CHR ''e'')) 0 variables_4"
  unfolding variables_4_def by (rule well_indexed_raw) (simp add: index_simps del: One_nat_def)

lemma variables_5_indexed: "well_indexed (js_char (CHR ''f'')) 0 variables_5"
  unfolding variables_5_def by (rule well_indexed_raw) (simp add: index_simps del: One_nat_def)

lemma variables_6_indexed: "well_indexed (js_char (CHR ''h'')) 0 variables_6"
  unfolding variables_6_def by (rule well_indexed_raw) (simp add: index_simps del: One_nat_def)

lemma variables_7_indexed: "well_indexed (js_char (CHR ''l'')) 0 variables_7"
  unfolding variables_7_def by (rule well_indexed_raw) (simp add: index_simps del: One_nat_def)

lemma variables_8_indexed: "well_indexed (js_char (CHR ''m'')) 0 variables_8"
  unfolding variables_8_def by (rule well_indexed_raw) (simp add: index_simps del: One_nat_def)

lemma variables_9_indexed: "well_indexed (js_char (CHR ''n'')) 0 variables_9"
  unfolding variables_9_def by (rule well_indexed_raw) (simp add: index_simps del: One_nat_def)

lemma variables_a_indexed: "well_indexed (js_char (CHR ''o'')) 0 variables_a"
  unfolding variables_a_def by (rule well_indexed_raw) (simp add: index_simps del: One_nat_def)

lemma variables_b_indexed: "well_indexed (js_char (CHR ''p'')) 0 variables_b"
  unfolding variables_b_def by (rule well_indexed_raw) (simp add: index_simps del: One_nat_def)

lemma variables_c_indexed: "well_indexed (js_char (CHR ''q'')) 0 variables_c"
  unfolding variables_c_def by (rule well_indexed_raw) (simp add: index_simps del: One_nat_def)

lemma variables_d_indexed: "well_indexed (js_char (CHR ''r'')) 0 variables_d"
  unfolding variables_d_def by (rule well_indexed_raw) (simp add: index_simps del: One_nat_def)

lemma variables_e_indexed: "well_indexed (js_char (CHR ''s'')) 0 variables_e"
  unfolding variables_e_def by (rule well_indexed_raw) (simp add: index_simps del: One_nat_def)

lemma variables_f_indexed: "well_indexed (js_char (CHR ''t'')) 0 variables_f"
  unfolding variables_f_def by (rule well_indexed_raw) (simp add: index_simps del: One_nat_def)

lemma variables_10_indexed: "well_indexed (js_char (CHR ''u'')) 0 variables_10"
  unfolding variables_10_def by (rule well_indexed_raw) (simp add: index_simps del: One_nat_def)

lemma variables_11_indexed: "well_indexed (js_char (CHR ''v'')) 0 variables_11"
  unfolding variables_11_def by (rule well_indexed_raw) (simp add: index_simps del: One_nat_def)

lemma variables_12_indexed: "well_indexed (js_char (CHR ''w'')) 0 variables_12"
  unfolding variables_12_def by (rule well_indexed_raw) (simp add: index_simps del: One_nat_def)

lemma typedefs_0_indexed: "well_indexed (js_char (CHR ''a'')) 0 typedefs_0"
  unfolding typedefs_0_def by (rule well_indexed_raw) (simp add: index_simps del: One_nat_def)

lemma typedefs_1_indexed: "well_indexed (js_char (CHR ''b'')) 0 typedefs_1"
  unfolding typedefs_1_def by (rule well_indexed_raw) (simp add: index_simps del: One_nat_def)

lemma typedefs_2_indexed: "well_indexed (js_char (CHR ''f'')) 0 typedefs_2"
  unfolding typedefs_2_def by (rule well_indexed_raw) (simp add: index_simps del: One_nat_def)

lemma typedefs_3_indexed: "well_indexed (js_char (CHR ''t'')) 0 typedefs_3"
  unfolding typedefs_3_def by (rule well_indexed_raw) (simp add: index_simps del: One_nat_def)

lemma enums_0_indexed: "well_indexed (js_char (CHR ''a'')) 0 enums_0"
  unfolding enums_0_def by (rule well_indexed_raw) (simp add: index_simps del: One_nat_def)

lemma enums_1_indexed: "well_indexed (js_char (CHR ''f'')) 0 enums_1"
  unfolding enums_1_def by (rule well_indexed_raw) (simp add: index_simps del: One_nat_def)

lemma enums_2_indexed: "well_indexed (js_char (CHR ''l'')) 0 enums_2"
  unfolding enums_2_def by (rule well_indexed_raw) (simp add: index_simps del: One_nat_def)

lemma enums_3_indexed: "well_indexed (js_char (CHR ''o'')) 0 enums_3"
  unfolding enums_3_def by (rule well_indexed_raw) (simp add: index_simps del: One_nat_def)

lemma enums_4_indexed: "well_indexed (js_char (CHR ''p'')) 0 enums_4"
  unfolding enums_4_def by (rule well_indexed_raw) (simp add: index_simps del: One_nat_def)

lemma enums_5_indexed: "well_indexed (js_char (CHR ''s'')) 0 enums_5"
  unfolding enums_5_def by (rule well_indexed_raw) (simp add: index_simps del: One_nat_def)

lemma enums_6_indexed: "well_indexed (js_char (CHR ''t'')) 0 enums_6"
  unfolding enums_6_def by (rule well_indexed_raw) (simp add: index_simps del: One_nat_def)

lemma enumvalues_0_indexed: "well_indexed (js_char (CHR ''a'')) 0 enumvalues_0"
  unfolding enumvalues_0_def by (rule well_indexed_raw) (simp add: index_simps del: One_nat_def)

lemma enumvalues_1_indexed: "well_indexed (js_char (CHR ''b'')) 0 enumvalues_1"
  unfolding enumvalues_1_def by (rule well_indexed_raw) (simp add: index_simps del: One_nat_def)

lemma enumvalues_2_indexed: "well_indexed (js_char (CHR ''c'')) 0 enumvalues_2"
  unfolding enumvalues_2_def by (rule well_indexed_raw) (simp add: index_simps del: One_nat_def)

lemma enumvalues_3_indexed: "well_indexed (js_char (CHR ''d'')) 0 enumvalues_3"
  unfolding enumvalues_3_def by (rule well_indexed_raw) (simp add: index_simps del: One_nat_def)

lemma enumvalues_4_indexed: "well_indexed (js_char (CHR ''e'')) 0 enumvalues_4"
  unfolding enumvalues_4_def by (rule well_indexed_raw) (simp add: index_simps del: One_nat_def)

lemma enumvalues_5_indexed: "well_indexed (js_char (CHR ''i'')) 0 enumvalues_5"
  unfolding enumvalues_5_def by (rule well_indexed_raw) (simp add: index_simps del: One_nat_def)

lemma enumvalues_6_indexed: "well_indexed (js_char (CHR ''j'')) 0 enumvalues_6"
  unfolding enumvalues_6_def by (rule well_indexed_raw) (simp add: index_simps del: One_nat_def)

lemma enumvalues_7_indexed: "well_indexed (js_char (CHR ''l'')) 0 enumvalues_7"
  unfolding enumvalues_7_def by (rule well_indexed_raw) (simp add: index_simps del: One_nat_def)

lemma enumvalues_8_indexed: "well_indexed (js_char (CHR ''m'')) 0 enumvalues_8"
  unfolding enumvalues_8_def by (rule well_indexed_raw) (simp add: index_simps del: One_nat_def)

lemma enumvalues_9_indexed: "well_indexed (js_char (CHR ''n'')) 0 enumvalues_9"
  unfolding enumvalues_9_def by (rule well_indexed_raw) (simp add: index_simps del: One_nat_def)

lemma enumvalues_a_indexed: "well_indexed (js_char (CHR ''o'')) 0 enumvalues_a"
  unfolding enumvalues_a_def by (rule well_indexed_raw) (simp add: index_simps del: One_nat_def)

lemma enumvalues_b_indexed: "well_indexed (js_char (CHR ''p'')) 0 enumvalues_b"
  unfolding enumvalues_b_def by (rule well_indexed_raw) (simp add: index_simps del: One_nat_def)

lemma enumvalues_c_indexed: "well_indexed (js_char (CHR ''r'')) 0 enumvalues_c"
  unfolding enumvalues_c_def by (rule well_indexed_raw) (simp add: index_simps del: One_nat_def)

lemma enumvalues_d_indexed: "well_indexed (js_char (CHR ''s'')) 0 enumvalues_d"
  unfolding enumvalues_d_def by (rule well_indexed_raw) (simp add: index_simps del: One_nat_def)

lemma enumvalues_e_indexed: "well_indexed (js_char (CHR ''t'')) 0 enumvalues_e"
  unfolding enumvalues_e_def by (rule well_indexed_raw) (simp add: index_simps del: One_nat_def)

lemma enumvalues_f_indexed: "well_indexed (js_char (CHR ''u'')) 0 enumvalues_f"
  unfolding enumvalues_f_def by (rule well_indexed_raw) (simp add: index_simps del: One_nat_def)

lemma enumvalues_10_indexed: "well_indexed (js_char (CHR ''w'')) 0 enumvalues_10"
  unfolding enumvalues_10_def by (rule well_indexed_raw) (simp add: index_simps del: One_nat_def)

lemma defines_0_indexed: "well_indexed (js_char (CHR ''a'')) 0 defines_0"
  unfolding defines_0_def by (rule well_indexed_raw) (simp add: index_simps del: One_nat_def)

lemma well_indexed_nth:
  "well_indexed c k es \<Longrightarrow> i < length es \<Longrightarrow> plain_name (entry_label (es ! i)) \<and> lower16 (hd (entry_label (es ! i))) = c \<and>
     entry_id (es ! i) = convertToId (ascii_lower (entry_label (es ! i))) @ js (''_'' @ show_nat (k + i))"
proof (induction c k es arbitrary: i rule: well_indexed.induct)
  case (2 c k e es)
  then show ?case by (cases i) simp_all
qed simp

section \<open>Searching for a name\<close>

text \<open>What ECMAScript says of \<open>toLowerCase\<close> on ASCII strings.\<close>

definition lower_ascii :: "(jsstring \<Rightarrow> jsstring) \<Rightarrow> bool" where
  "lower_ascii lower \<longleftrightarrow> (\<forall>s. list_all (\<lambda>c. c < 0x80) s \<longrightarrow> lower s = ascii_lower s)"

lemma plain_ascii: "plain_name s \<Longrightarrow> list_all (\<lambda>c. c < 0x80) s"
  by (simp add: plain_name_def list_all_iff)

lemma plain_strip: "plain_name s \<Longrightarrow> strip_leading s = s" "plain_name s \<Longrightarrow> strip_trailing s = s"
proof -
  assume "plain_name s"
  then have s: "s \<noteq> []" "\<forall>c \<in> set s. c \<noteq> space" by (simp_all add: plain_name_def list_all_iff)
  then show "strip_leading s = s" by (cases s) (simp_all add: strip_leading_def)
  from s have "rev s \<noteq> []" "hd (rev s) \<noteq> space" by (simp_all add: hd_rev)
  then have "dropWhile (\<lambda>c. c = space) (rev s) = rev s" by (cases "rev s") simp_all
  then show "strip_trailing s = s" by (simp add: strip_trailing_def)
qed

lemma show_hex_chars:
  "c \<in> set (show_hex n) \<Longrightarrow> 48 \<le> (of_char c :: nat) \<and> (of_char c :: nat) \<le> 57 \<or> 97 \<le> (of_char c :: nat) \<and> (of_char c :: nat) \<le> 102"
proof (induction n rule: less_induct)
  case (less n)
  have digit: "48 \<le> (of_char (digit_char d) :: nat) \<and> (of_char (digit_char d) :: nat) \<le> 57 \<or>
      97 \<le> (of_char (digit_char d) :: nat) \<and> (of_char (digit_char d) :: nat) \<le> 102" if "d < 16" for d
    using that by (simp add: digit_char_def of_char_of)
  show ?case
  proof (cases "n < 16")
    case True
    with less.prems digit [of n] show ?thesis by (simp add: show_base.simps)
  next
    case False
    then have "show_hex n = show_hex (n div 16) @ [digit_char (n mod 16)]" by (subst show_base.simps) simp
    with less.prems less.IH [of "n div 16"] False digit [of "n mod 16"] show ?thesis by auto
  qed
qed

text \<open>Ids are ASCII and have no capital letters.\<close>

definition id_char :: "u16 \<Rightarrow> bool" where
  "id_char d \<longleftrightarrow> d < 0x80 \<and> \<not> (0x41 \<le> d \<and> d \<le> 0x5A)"

lemma id_char_js: "list_all (\<lambda>c. (of_char c :: nat) < 128 \<and> \<not> (65 \<le> (of_char c :: nat) \<and> (of_char c :: nat) \<le> 90)) s \<Longrightarrow> list_all id_char (js s)"
proof (induction s)
  case (Cons c s)
  then show ?case by (simp add: js_Cons_char id_char_def word_less_nat_alt word_le_nat_alt)
qed (simp add: js_Nil)

lemma id_char_code: "c < 0x80 \<Longrightarrow> list_all id_char (id_code (lower16 c))"
proof -
  assume c: "c < 0x80"
  have "list_all id_char (js (''_'' @ show_hex n))" "list_all id_char (js (''_0'' @ show_hex n))" for n
    using show_hex_chars [of _ n] by (intro id_char_js; fastforce simp: list_all_iff)+
  moreover have "id_char (lower16 c)"
    using c by (auto simp: id_char_def lower16_def word_le_nat_alt word_less_nat_alt unat_word_ariths)
  ultimately show ?thesis unfolding id_code_def js_hex_def js_append [symmetric] by simp
qed

lemma id_char_convert: "plain_name s \<Longrightarrow> list_all id_char (convertToId (ascii_lower s))"
  using plain_ascii [of s] id_char_code unfolding ascii_lower_def lower16_def [symmetric] convertToId_def
  by (auto simp: list_all_iff)

lemma id_char_lower: "list_all id_char s \<Longrightarrow> lower_ascii lower \<Longrightarrow> lower s = s"
proof -
  assume s: "list_all id_char s" and l: "lower_ascii lower"
  from s have "list_all (\<lambda>c. c < 0x80) s" by (simp add: list_all_iff id_char_def)
  with l have "lower s = ascii_lower s" by (simp add: lower_ascii_def)
  also have "\<dots> = s" using s by (auto simp: ascii_lower_def list_all_iff id_char_def intro!: map_idI)
  finally show ?thesis .
qed

lemma id_char_number: "list_all id_char (js (''_'' @ show_nat k))"
  using show_nat_decimal [of k] by (intro id_char_js) (fastforce simp: list_all_iff is_digit_def)

lemma entry_id_lower:
  assumes "well_indexed c k es" and "i < length es" and "lower_ascii lower"
  shows "lower (entry_id (es ! i)) = entry_id (es ! i)"
  using well_indexed_nth [OF assms(1,2)] id_char_convert id_char_number [of "k + i"]
  by (intro id_char_lower assms(3)) simp

lemma key_of_name: "plain_name s \<Longrightarrow> lower_ascii lower \<Longrightarrow> search_key lower s w = convertToId (ascii_lower s)"
  using plain_ascii [of s] by (simp add: search_key_def Let_def plain_strip lower_ascii_def) (simp add: plain_name_def)

lemma index_char_name:
  assumes "plain_name s" and "lower_ascii lower"
  shows "index_char lower s = [lower16 (hd s)]"
proof -
  from assms(1) obtain c t where s: "s = c # t" by (cases s) (auto simp: plain_name_def)
  have l: "lower s = ascii_lower s" "lower [c] = ascii_lower [c]"
    using assms by (simp_all add: lower_ascii_def plain_name_def list_all_iff s)
  have "c < 0x80" using assms(1) by (simp add: plain_name_def s)
  then have "\<not> 0xD800 \<le> lower16 c" by (auto simp: lower16_def word_le_nat_alt word_less_nat_alt unat_word_ariths)
  then show ?thesis using l by (simp add: index_char_def s ascii_lower_def lower16_def Let_def)
qed

section \<open>Sections\<close>

lemma files_section: "list_all2 (\<lambda>c. well_indexed (js_char c) 0) ''abcfglnprstv''
    [files_0, files_1, files_2, files_3, files_4, files_5, files_6, files_7, files_8, files_9, files_a, files_b]"
  by (simp add: files_0_indexed files_1_indexed files_2_indexed files_3_indexed files_4_indexed files_5_indexed files_6_indexed files_7_indexed files_8_indexed files_9_indexed files_a_indexed files_b_indexed)

lemma functions_section: "list_all2 (\<lambda>c. well_indexed (js_char c) 0) ''abcdefgiklmnoprstvw~''
    [functions_0, functions_1, functions_2, functions_3, functions_4, functions_5, functions_6, functions_7, functions_8, functions_9, functions_a, functions_b, functions_c, functions_d, functions_e, functions_f, functions_10, functions_11, functions_12, functions_13]"
  by (simp add: functions_0_indexed functions_1_indexed functions_2_indexed functions_3_indexed functions_4_indexed functions_5_indexed functions_6_indexed functions_7_indexed functions_8_indexed functions_9_indexed functions_a_indexed functions_b_indexed functions_c_indexed functions_d_indexed functions_e_indexed functions_f_indexed functions_10_indexed functions_11_indexed functions_12_indexed functions_13_indexed)

lemma variables_section: "list_all2 (\<lambda>c. well_indexed (js_char c) 0) ''abcdefhlmnopqrstuvw''
    [variables_0, variables_1, variables_2, variables_3, variables_4, variables_5, variables_6, variables_7, variables_8, variables_9, variables_a, variables_b, variables_c, variables_d, variables_e, variables_f, variables_10, variables_11, variables_12]"
  by (simp add: variables_0_indexed variables_1_indexed variables_2_indexed variables_3_indexed variables_4_indexed variables_5_indexed variables_6_indexed variables_7_indexed variables_8_indexed variables_9_indexed variables_a_indexed variables_b_indexed variables_c_indexed variables_d_indexed variables_e_indexed variables_f_indexed variables_10_indexed variables_11_indexed variables_12_indexed)

lemma typedefs_section: "list_all2 (\<lambda>c. well_indexed (js_char c) 0) ''abft''
    [typedefs_0, typedefs_1, typedefs_2, typedefs_3]"
  by (simp add: typedefs_0_indexed typedefs_1_indexed typedefs_2_indexed typedefs_3_indexed)

lemma enums_section: "list_all2 (\<lambda>c. well_indexed (js_char c) 0) ''aflopst''
    [enums_0, enums_1, enums_2, enums_3, enums_4, enums_5, enums_6]"
  by (simp add: enums_0_indexed enums_1_indexed enums_2_indexed enums_3_indexed enums_4_indexed enums_5_indexed enums_6_indexed)

lemma enumvalues_section: "list_all2 (\<lambda>c. well_indexed (js_char c) 0) ''abcdeijlmnoprstuw''
    [enumvalues_0, enumvalues_1, enumvalues_2, enumvalues_3, enumvalues_4, enumvalues_5, enumvalues_6, enumvalues_7, enumvalues_8, enumvalues_9, enumvalues_a, enumvalues_b, enumvalues_c, enumvalues_d, enumvalues_e, enumvalues_f, enumvalues_10]"
  by (simp add: enumvalues_0_indexed enumvalues_1_indexed enumvalues_2_indexed enumvalues_3_indexed enumvalues_4_indexed enumvalues_5_indexed enumvalues_6_indexed enumvalues_7_indexed enumvalues_8_indexed enumvalues_9_indexed enumvalues_a_indexed enumvalues_b_indexed enumvalues_c_indexed enumvalues_d_indexed enumvalues_e_indexed enumvalues_f_indexed enumvalues_10_indexed)

lemma defines_section: "list_all2 (\<lambda>c. well_indexed (js_char c) 0) ''a''
    [defines_0]"
  by (simp add: defines_0_indexed)

lemma symbol_section:
  assumes "(sec, fs) \<in> set symbol_index"
  shows "\<exists>cs. map_of indexSectionsWithContent sec = Some (js cs) \<and> distinct cs \<and> list_all2 (\<lambda>c. well_indexed (js_char c) 0) cs fs"
  using assms unfolding symbol_index_def
  by (auto simp: indexSectionsWithContent_def js_append [symmetric] intro!: exI files_section functions_section variables_section typedefs_section enums_section enumvalues_section defines_section)

lemma js_nth: "k < length s \<Longrightarrow> js s ! k = js_char (s ! k)"
  by (simp add: js_def js_char_def)

lemma distinct_js: "distinct (js s) \<longleftrightarrow> distinct s"
  unfolding js_def distinct_map by (auto intro!: inj_onI simp: js_char_inject)

section \<open>Properties\<close>

text \<open>C23: Every entry of the seven index sections of plain symbols (files, functions, variables, typedefs,
  enumerations, enumeration values, macros) is found by typing its name: with its section selected, the search requests the very index file that holds the
  entry, and once this file is loaded, the search for the name shows the entry's row. (The browser's
  \<open>toLowerCase\<close> lower-cases ASCII letters as the language defines it.)\<close>

theorem every_symbol_is_found:
  assumes index: "(sec, fs) \<in> set symbol_index" "k < length fs" "i < length (fs ! k)"
    and lower: "lower_ascii lower" "lower_prefix lower"
    and box: "searchIndex (searchBox w) = sec" "by_id ''MSearchField'' w = Some field"
      "by_id ''MSearchResultsWindow'' w = Some win" "strip_leading (field_value (elem field)) = entry_label (fs ! k ! i)"
    and results: "fresh_page v" "searchData v = Some (fs ! k)" "createResults path v = Some v1"
      "by_id ''Searching'' v1 \<noteq> None" "by_id ''NoMatches'' v1 \<noteq> None"
  shows "(\<exists>w'. Search lower w = Some w' \<and>
      map fst (loads w') = map fst (loads w) @ [the (index_file (searchBox w) (int k))]) \<and>
    (\<exists>v2 r. SearchResults_Search lower (entry_label (fs ! k ! i)) v1 = Some v2 \<and> by_id ''SRResults'' v2 = Some r \<and>
      length (kids r) = length (fs ! k) \<and> display (style (elem (kids r ! i))) = js ''block'')"
proof -
  let ?e = "fs ! k ! i"
  from symbol_section [OF index(1)] obtain cs where table: "map_of indexSectionsWithContent sec = Some (js cs)"
    and cs: "distinct cs" "list_all2 (\<lambda>c. well_indexed (js_char c) 0) cs fs" by blast
  have len: "length cs = length fs" by (rule list_all2_lengthD [OF cs(2)])
  have wi: "well_indexed (js_char (cs ! k)) 0 (fs ! k)" using list_all2_nthD2 [OF cs(2) index(2)] .
  note e = well_indexed_nth [OF wi index(3)]
  have name: "plain_name (entry_label ?e)" and first: "lower16 (hd (entry_label ?e)) = js_char (cs ! k)"
    and ident: "prefix (convertToId (ascii_lower (entry_label ?e))) (entry_id ?e)" using e by simp_all
  have "js_char (cs ! k) \<in> set (js cs)" using index(2) len js_nth [of k cs] nth_mem [of k "js cs"] by (simp add: js_def)
  note mem = this
  have ic: "index_char lower (strip_leading (field_value (elem field))) = [js_char (cs ! k)]"
    using index_char_name [OF name lower(1)] first box(4) by simp
  have "map_of indexSectionsWithContent (searchIndex (searchBox w)) = Some (js cs)" using table box(1) by simp
  from Search_loads [OF this box(2,3) ic mem]
  obtain w' j where w': "Search lower w = Some w'" "j < length (js cs)" "js cs ! j = js_char (cs ! k)"
    "map fst (loads w') = map fst (loads w) @ [the (index_file (searchBox w) (int j))]" by blast
  have "j = k"
  proof -
    have "js cs ! j = js cs ! k" using w'(3) js_nth [of k cs] index(2) len by simp
    moreover have "distinct (js cs)" using cs(1) by (simp add: distinct_js)
    ultimately show ?thesis using w'(2) index(2) len nth_eq_iff_index_eq [of "js cs" j k] by simp
  qed
  from search_view [OF results(1) lower(2) results(3-5), of "entry_label ?e"] obtain v2 r
    where v2: "SearchResults_Search lower (entry_label ?e) v1 = Some v2" "by_id ''SRResults'' v2 = Some r"
      and rows: "map (\<lambda>n. display (style (elem n))) (kids r) =
        map (\<lambda>d. js (if prefix (search_key lower (entry_label ?e) v) (lower (entry_id d)) then ''block'' else ''none'')) (fs ! k)"
    using results(2) by auto
  have n: "length (kids r) = length (fs ! k)" using rows by (metis length_map)
  have "display (style (elem (kids r ! i))) =
      js (if prefix (search_key lower (entry_label ?e) v) (lower (entry_id ?e)) then ''block'' else ''none'')"
    using rows n index(3) by (metis (no_types, lifting) nth_map)
  also have "\<dots> = js ''block''"
    using ident by (simp add: key_of_name [OF name lower(1)] entry_id_lower [OF wi index(3) lower(1)])
  finally show ?thesis using w' v2 n \<open>j = k\<close> by blast
qed

section \<open>Witness\<close>

text \<open>A page on which the name \<open>ASSERT_TRUE\<close> is typed with the section of macros selected, and the page of
  results into which \<open>defines_0.js\<close> was loaded.\<close>

definition macro_field :: dnode where
  "macro_field = DNode 1 ((setAttribute (js ''id'') (js ''MSearchField'') (new_elem (js ''input'')))\<lparr>field_value := js ''ASSERT_TRUE''\<rparr>) []"

definition macro_page :: World where
  "macro_page = sample_page\<lparr>doc := DNode 0 (new_elem (js ''body'')) [macro_field, page_node 4 ''div'' ''MSearchResultsWindow'' []],
     searchBox := (searchBox sample_page)\<lparr>searchIndex := 9\<rparr>\<rparr>"

definition macro_results :: World where
  "macro_results = results_page\<lparr>searchData := Some defines_0\<rparr>"

lemma lower_ascii_ascii: "lower_ascii ascii_lower"
  by (simp add: lower_ascii_def ascii_lower_def)

lemma macro_entry: "length defines_0 = 2" "entry_label (defines_0 ! 1) = js ''ASSERT_TRUE''"
  by (simp_all add: defines_0_def search_symbol_def)

lemma macro_page_facts:
  "searchIndex (searchBox macro_page) = 9" "by_id ''MSearchField'' macro_page = Some macro_field"
  "by_id ''MSearchResultsWindow'' macro_page = Some (page_node 4 ''div'' ''MSearchResultsWindow'' [])"
  "strip_leading (field_value (elem macro_field)) = js ''ASSERT_TRUE''" "loads macro_page = []"
  "the (index_file (searchBox macro_page) 0) = js ''search/defines_0.js''"
  by (simp_all add: macro_page_def macro_field_def by_id_def getElementById_def page_node_def js_inject sample_page_def
      strip_leading_def js_def [of "''ASSERT_TRUE''"] index_file_def new_SearchBox_def indexSectionNames_def js_hex_def js_append_eq
      show_hex_small digit_char_def char_of_def bit_0)

lemma macro_results_facts: "fresh_page macro_results" "searchData macro_results = Some defines_0"
  using results_fresh by (simp_all add: fresh_page_def macro_results_def)

lemma macro_created:
  "\<exists>v. createResults [] macro_results = Some v \<and> by_id ''Searching'' v \<noteq> None \<and> by_id ''NoMatches'' v \<noteq> None"
  by (simp add: createResults_def by_id_def getElementById_def macro_results_def results_page_def sample_page_def page_node_def
      appendChild_def clear_children_def js_inject defines_0_def search_symbol_def)

theorem every_symbol_is_found_witness:
  "(\<exists>w'. Search ascii_lower macro_page = Some w' \<and> map fst (loads w') = [js ''search/defines_0.js'']) \<and>
   (\<exists>v1 v2 r. createResults [] macro_results = Some v1 \<and> SearchResults_Search ascii_lower (js ''ASSERT_TRUE'') v1 = Some v2 \<and>
      by_id ''SRResults'' v2 = Some r \<and> length (kids r) = 2 \<and> display (style (elem (kids r ! 1))) = js ''block'')"
proof -
  obtain v1 where v1: "createResults [] macro_results = Some v1" "by_id ''Searching'' v1 \<noteq> None" "by_id ''NoMatches'' v1 \<noteq> None"
    using macro_created by blast
  have index: "(9, [defines_0]) \<in> set symbol_index" by (simp add: symbol_index_def)
  have "searchData macro_results = Some ([defines_0] ! 0)" by (simp add: macro_results_facts)
  moreover have "strip_leading (field_value (elem macro_field)) = entry_label ([defines_0] ! 0 ! 1)"
    by (simp add: macro_page_facts macro_entry del: One_nat_def)
  moreover have "1 < length ([defines_0] ! 0)" by (simp add: macro_entry)
  ultimately show ?thesis
    using every_symbol_is_found [OF index _ _ lower_ascii_ascii lower_prefix_ascii macro_page_facts(1-3) _ macro_results_facts(1) _ v1, of 0 1]
      v1(1) by (simp add: macro_entry macro_page_facts(5,6) del: One_nat_def)
qed

end
