(* ===== verification/Search_Index_All.thy ===== *)
theory Search_Index_All
  imports Search_Index
begin

text \<open>
  The rest of the shipped search index: the arrays \<open>searchData\<close> of the section \<open>all\<close>, which the
  search box uses unless another section is selected, and of the sections classes, namespaces and
  pages. The words of headings contain three characters outside ASCII; the literals below write them in the
  encoding Windows-1252, in which the dash (U+2014) is the character \<open>0x97\<close>.
\<close>

definition doc_char :: "char \<Rightarrow> u16" where
  "doc_char c = (if c = CHR 0x97 then 0x2014 else of_nat (of_char c))"

definition doc_js :: "string \<Rightarrow> jsstring" where
  "doc_js s = map doc_char s"

definition search_text :: "string \<times> string \<times> (string \<times> string) list \<Rightarrow> search_entry" where
  "search_text = (\<lambda>(i, label, targets).
     \<lparr>entry_id = doc_js i, entry_label = doc_js label,
      entry_targets = map (\<lambda>(href, scope). \<lparr>target_href = js href, target_flag = 1, target_scope = doc_js scope\<rparr>) targets\<rparr>)"

definition all_0 :: "search_entry list" where
  "all_0 = map search_text
    [(''1_20build_20confidence_20first_0'', ''1. Build confidence first'', [(''../md_docs_2SHOWCASE__GUIDE.html#autotoc_md15'', '''')]),
     (''1_20live_20tcp_20telemetry_1'', ''1. Live TCP telemetry'', [(''../md_README.html#autotoc_md57'', '''')]),
     (''1_20scope_2'', ''1. Scope'', [(''../md_docs_2PERFORMANCE__REPORT.html#autotoc_md1'', '''')]),
     (''1_20scope_20and_20intent_3'', ''1. Scope and intent'', [(''../md_docs_2TECHNICAL__DESIGN.html#autotoc_md24'', '''')]),
     (''10_20health_20monitoring_4'', ''10. Health monitoring'', [(''../md_README.html#autotoc_md67'', '''')]),
     (''10_20signal_20generation_20noise_20and_20filtering_5'', ''10. Signal generation, noise and filtering'', [(''../md_docs_2TECHNICAL__DESIGN.html#autotoc_md33'', '''')]),
     (''11_20port_20diagnostics_6'', ''11. Port diagnostics'', [(''../md_docs_2TECHNICAL__DESIGN.html#autotoc_md34'', '''')]),
     (''11_20testing_20and_20sanitizers_7'', ''11. Testing and sanitizers'', [(''../md_README.html#autotoc_md68'', '''')]),
     (''12_20benchmark_8'', ''12. Benchmark'', [(''../md_README.html#autotoc_md69'', '''')]),
     (''12_20terminal_20observability_9'', ''12. Terminal observability'', [(''../md_docs_2TECHNICAL__DESIGN.html#autotoc_md35'', '''')]),
     (''13_20health_20monitoring_20and_20hysteresis_10'', ''13. Health monitoring and hysteresis'', [(''../md_docs_2TECHNICAL__DESIGN.html#autotoc_md36'', '''')]),
     (''14_20stgf_20replay_11'', ''14. STGF replay'', [(''../md_docs_2TECHNICAL__DESIGN.html#autotoc_md37'', '''')]),
     (''15_20error_20model_12'', ''15. Error model'', [(''../md_docs_2TECHNICAL__DESIGN.html#autotoc_md38'', '''')]),
     (''16_20testing_20strategy_13'', ''16. Testing strategy'', [(''../md_docs_2TECHNICAL__DESIGN.html#autotoc_md39'', '''')]),
     (''17_20performance_20philosophy_14'', ''17. Performance philosophy'', [(''../md_docs_2TECHNICAL__DESIGN.html#autotoc_md40'', '''')]),
     (''18_20deliberate_20limitations_15'', ''18. Deliberate limitations'', [(''../md_docs_2TECHNICAL__DESIGN.html#autotoc_md41'', '''')])]"

definition all_1 :: "search_entry list" where
  "all_1 = map search_text
    [(''2_20automatic_20local_20port_20selection_20and_20diagnostics_0'', ''2. Automatic local port selection and diagnostics'', [(''../md_README.html#autotoc_md58'', '''')]),
     (''2_20benchmark_20command_1'', ''2. Benchmark command'', [(''../md_docs_2PERFORMANCE__REPORT.html#autotoc_md2'', '''')]),
     (''2_20layered_20architecture_2'', ''2. Layered architecture'', [(''../md_docs_2TECHNICAL__DESIGN.html#autotoc_md25'', '''')]),
     (''2_20start_20a_20station_20without_20manually_20choosing_20a_20port_3'', ''2. Start a station without manually choosing a port'', [(''../md_docs_2SHOWCASE__GUIDE.html#autotoc_md16'', '''')])]"

definition all_2 :: "search_entry list" where
  "all_2 = map search_text
    [(''3_20diagnose_20the_20local_20range_0'', ''3. Diagnose the local range'', [(''../md_docs_2SHOWCASE__GUIDE.html#autotoc_md17'', '''')]),
     (''3_20reference_20measurements_1'', ''3. Reference measurements'', [(''../md_docs_2PERFORMANCE__REPORT.html#autotoc_md3'', '''')]),
     (''3_20send_20and_20display_20a_20text_20message_2'', ''3. Send and display a text message'', [(''../md_README.html#autotoc_md59'', '''')]),
     (''3_20stgs_20v1_20wire_20format_3'', ''3. STGS v1 wire format'', [(''../md_docs_2TECHNICAL__DESIGN.html#autotoc_md26'', '''')]),
     (''32_20iso_20hdlc_4'', ''4. CRC-32/ISO-HDLC'', [(''../md_docs_2TECHNICAL__DESIGN.html#autotoc_md27'', '''')])]"

definition all_3 :: "search_entry list" where
  "all_3 = map search_text
    [(''4_20crc_2032_20iso_20hdlc_0'', ''4. CRC-32/ISO-HDLC'', [(''../md_docs_2TECHNICAL__DESIGN.html#autotoc_md27'', '''')]),
     (''4_20interpretation_1'', ''4. Interpretation'', [(''../md_docs_2PERFORMANCE__REPORT.html#autotoc_md4'', '''')]),
     (''4_20send_20a_20message_2'', ''4. Send a message'', [(''../md_docs_2SHOWCASE__GUIDE.html#autotoc_md18'', '''')]),
     (''4_20send_20a_20noisy_20wave_20and_20filter_20it_3'', ''4. Send a noisy wave and filter it'', [(''../md_README.html#autotoc_md60'', '''')])]"

definition all_4 :: "search_entry list" where
  "all_4 = map search_text
    [(''5_20frame_20decoding_20policy_0'', ''5. Frame decoding policy'', [(''../md_docs_2TECHNICAL__DESIGN.html#autotoc_md28'', '''')]),
     (''5_20reproducibility_20checklist_1'', ''5. Reproducibility checklist'', [(''../md_docs_2PERFORMANCE__REPORT.html#autotoc_md5'', '''')]),
     (''5_20send_20a_20noisy_20sampled_20wave_2'', ''5. Send a noisy sampled wave'', [(''../md_docs_2SHOWCASE__GUIDE.html#autotoc_md19'', '''')]),
     (''5_20udp_20telemetry_3'', ''5. UDP telemetry'', [(''../md_README.html#autotoc_md61'', '''')])]"

definition all_5 :: "search_entry list" where
  "all_5 = map search_text
    [(''6_20capture_20and_20replay_0'', ''6. Capture and replay'', [(''../md_README.html#autotoc_md62'', '''')]),
     (''6_20demonstrate_20deterministic_20concurrency_1'', ''6. Demonstrate deterministic concurrency'', [(''../md_docs_2SHOWCASE__GUIDE.html#autotoc_md20'', '''')]),
     (''6_20udp_20behavior_2'', ''6. UDP behavior'', [(''../md_docs_2TECHNICAL__DESIGN.html#autotoc_md29'', '''')])]"

definition all_6 :: "search_entry list" where
  "all_6 = map search_text
    [(''7_20deterministic_20multithreaded_20pipeline_0'', ''7. Deterministic multithreaded pipeline'', [(''../md_README.html#autotoc_md63'', '''')]),
     (''7_20tcp_20behavior_20and_20the_20poll_20snapshot_20invariant_1'', ''7. TCP behavior and the poll snapshot invariant'', [(''../md_docs_2TECHNICAL__DESIGN.html#autotoc_md30'', '''')]),
     (''7_20useful_20discussion_20points_2'', ''7. Useful discussion points'', [(''../md_docs_2SHOWCASE__GUIDE.html#autotoc_md21'', '''')])]"

definition all_7 :: "search_entry list" where
  "all_7 = map search_text
    [(''8_20binary_20protocol_3a_20stgs_20v1_0'', ''8. Binary protocol: STGS v1'', [(''../md_README.html#autotoc_md64'', '''')]),
     (''8_20bounded_20concurrent_20pipeline_20and_20deterministic_20output_1'', ''8. Bounded concurrent pipeline and deterministic output'', [(''../md_docs_2TECHNICAL__DESIGN.html#autotoc_md31'', '''')]),
     (''8_20scope_20statement_2'', ''8. Scope statement'', [(''../md_docs_2SHOWCASE__GUIDE.html#autotoc_md22'', '''')])]"

definition all_8 :: "search_entry list" where
  "all_8 = map search_text
    [(''9_20stga_20application_20payload_0'', ''9. STGA application payload'', [(''../md_docs_2TECHNICAL__DESIGN.html#autotoc_md32'', '''')]),
     (''9_20typed_20application_20payload_3a_20stga_20v1_1'', ''9. Typed application payload: STGA v1'', [(''../md_README.html#autotoc_md66'', '''')])]"

definition all_9 :: "search_entry list" where
  "all_9 = map search_text
    [(''a_20message_0'', ''4. Send a message'', [(''../md_docs_2SHOWCASE__GUIDE.html#autotoc_md18'', '''')]),
     (''a_20noisy_20sampled_20wave_1'', ''5. Send a noisy sampled wave'', [(''../md_docs_2SHOWCASE__GUIDE.html#autotoc_md19'', '''')]),
     (''a_20noisy_20wave_20and_20filter_20it_2'', ''4. Send a noisy wave and filter it'', [(''../md_README.html#autotoc_md60'', '''')]),
     (''a_20station_20without_20manually_20choosing_20a_20port_3'', ''2. Start a station without manually choosing a port'', [(''../md_docs_2SHOWCASE__GUIDE.html#autotoc_md16'', '''')]),
     (''a_20text_20message_4'', ''3. Send and display a text message'', [(''../md_README.html#autotoc_md59'', '''')]),
     ((''analyse_20statique_20compl'' @ [CHR 0xE9] @ ''mentaire_5''), (''Analyse statique compl'' @ [CHR 0xE9] @ ''mentaire''), [(''../md_docs_2VERIFICATION__REPORT.html#autotoc_md47'', '''')]),
     (''and_20deterministic_20output_6'', ''8. Bounded concurrent pipeline and deterministic output'', [(''../md_docs_2TECHNICAL__DESIGN.html#autotoc_md31'', '''')]),
     (''and_20diagnostics_7'', ''2. Automatic local port selection and diagnostics'', [(''../md_README.html#autotoc_md58'', '''')]),
     (''and_20display_20a_20text_20message_8'', ''3. Send and display a text message'', [(''../md_README.html#autotoc_md59'', '''')]),
     (''and_20filter_20it_9'', ''4. Send a noisy wave and filter it'', [(''../md_README.html#autotoc_md60'', '''')]),
     (''and_20filtering_10'', ''10. Signal generation, noise and filtering'', [(''../md_docs_2TECHNICAL__DESIGN.html#autotoc_md33'', '''')]),
     (''and_20hysteresis_11'', ''13. Health monitoring and hysteresis'', [(''../md_docs_2TECHNICAL__DESIGN.html#autotoc_md36'', '''')]),
     (''and_20intent_12'', ''1. Scope and intent'', [(''../md_docs_2TECHNICAL__DESIGN.html#autotoc_md24'', '''')]),
     (''and_20replay_13'', ''6. Capture and replay'', [(''../md_README.html#autotoc_md62'', '''')]),
     (''and_20sanitizers_14'', ''11. Testing and sanitizers'', [(''../md_README.html#autotoc_md68'', '''')]),
     (''and_20the_20poll_20snapshot_20invariant_15'', ''7. TCP behavior and the poll snapshot invariant'', [(''../md_docs_2TECHNICAL__DESIGN.html#autotoc_md30'', '''')]),
     (''appendfloatbe_16'', ''appendFloatBE'', [(''../namespacestgs_1_1detail.html#aaa3c420d8f0978f8552479c0ad1ec915'', ''stgs::detail'')]),
     (''appendu16be_17'', ''appendU16BE'', [(''../namespacestgs_1_1detail.html#a3562b4e5b96b0bda2897b0f5825781b9'', ''stgs::detail'')]),
     (''appendu32be_18'', ''appendU32BE'', [(''../namespacestgs_1_1detail.html#a423df63e483c463ac6f72b4bb82bd2ca'', ''stgs::detail'')]),
     (''appendu64be_19'', ''appendU64BE'', [(''../namespacestgs_1_1detail.html#a000ee99a480982ea130c1d18ec722c27'', ''stgs::detail'')]),
     (''appendu8_20'', ''appendU8'', [(''../namespacestgs_1_1detail.html#a536b35bbdc62402256e05df0084dd249'', ''stgs::detail'')]),
     (''application_20payload_21'', ''9. STGA application payload'', [(''../md_docs_2TECHNICAL__DESIGN.html#autotoc_md32'', '''')]),
     (''application_20payload_3a_20stga_20v1_22'', ''9. Typed application payload: STGA v1'', [(''../md_README.html#autotoc_md66'', '''')]),
     (''applicationcommonheadersize_23'', ''ApplicationCommonHeaderSize'', [(''../namespacestgs.html#a2e3dc2924fb8e0de0ae5b67bda4c38d3'', ''stgs'')]),
     (''applicationerrors_24'', ''applicationErrors'', [(''../structstgs_1_1app_1_1ground__station_1_1PipelineStats.html#a1567030b61f851fb3ef04cd92e408df9'', ''stgs::app::ground_station::PipelineStats'')]),
     (''applicationpayload_2ecpp_25'', ''ApplicationPayload.cpp'', [(''../ApplicationPayload_8cpp.html'', '''')]),
     (''applicationpayload_2ehpp_26'', ''ApplicationPayload.hpp'', [(''../ApplicationPayload_8hpp.html'', '''')]),
     (''applicationpayloaderror_27'', ''ApplicationPayloadError'', [(''../structstgs_1_1ApplicationPayloadError.html'', ''stgs'')]),
     (''applicationpayloaderrorcode_28'', ''ApplicationPayloadErrorCode'', [(''../namespacestgs.html#a2aa48089627d210628f45038315de28a'', ''stgs'')]),
     (''applicationpayloaderrortostring_29'', ''applicationPayloadErrorToString'', [(''../namespacestgs.html#a45a2c8095b5dbfef861d3de94fa3e602'', ''stgs'')]),
     (''applicationpayloadkind_30'', ''ApplicationPayloadKind'', [(''../namespacestgs.html#a9bdca5c4652fbfd0ea0d649134cc5e2b'', ''stgs'')]),
     (''applicationpayloadkindtostring_31'', ''applicationPayloadKindToString'', [(''../namespacestgs.html#a2e4fd8961dc20cc4ae5ae5380ff0c844'', ''stgs'')]),
     (''applicationpayloadmagic_32'', ''ApplicationPayloadMagic'', [(''../namespacestgs.html#aeb984907d57236b459c47b678da2e3d1'', ''stgs'')]),
     (''applicationpayloadparseresult_33'', ''ApplicationPayloadParseResult'', [(''../namespacestgs.html#af72d489e108e26381191465a90440b38'', ''stgs'')]),
     (''applicationpayloadversion_34'', ''ApplicationPayloadVersion'', [(''../namespacestgs.html#a3c4b724804004d0cbbfa346f7fb312fb'', ''stgs'')]),
     (''architecture_35'', ''2. Layered architecture'', [(''../md_docs_2TECHNICAL__DESIGN.html#autotoc_md25'', '''')]),
     (''assert_5feq_36'', ''ASSERT_EQ'', [(''../TestSupport_8hpp.html#a9cc34fd87cb865c77439a5d39b3b111b'', ''TestSupport.hpp'')]),
     (''assert_5ftrue_37'', ''ASSERT_TRUE'', [(''../TestSupport_8hpp.html#a305a7326a1f4f59bbcafcb3e35a732c7'', ''TestSupport.hpp'')]),
     (''assertnear_38'', ''assertNear'', [(''../namespacestgs_1_1test.html#a62f6702850246418454bd7aa025ded9a'', ''stgs::test'')]),
     (''assertthrows_39'', ''assertThrows'', [(''../namespacestgs_1_1test.html#ad1656bd9c6bdcbc93e9b8f369a4ffe65'', ''stgs::test'')]),
     ((''assum'' @ [CHR 0xE9] @ ''es_40''), (''Limites assum'' @ [CHR 0xE9] @ ''es''), [(''../md_docs_2VERIFICATION__REPORT.html#autotoc_md52'', '''')]),
     (''asyncfailure_41'', ''AsyncFailure'', [(''../classstgs_1_1app_1_1ground__station_1_1AsyncFailure.html'', ''stgs::app::ground_station'')]),
     (''auto_42'', ''Auto'', [(''../namespacestgs_1_1app_1_1ground__station.html#a674f76aa6255d0fb1ffec19ffc6be19da06b9281e396db002010bde1de57262eb'', ''stgs::app::ground_station'')]),
     (''automatic_20local_20port_20selection_20and_20diagnostics_43'', ''2. Automatic local port selection and diagnostics'', [(''../md_README.html#autotoc_md58'', '''')]),
     (''autoportrange_44'', ''autoPortRange'', [(''../structstgs_1_1app_1_1ground__station_1_1Options.html#a587544c291359aad7f39477a4c9e2bf6'', ''stgs::app::ground_station::Options'')]),
     (''available_45'', ''available'', [(''../structstgs_1_1LocalPortAvailability.html#a67e52677b66d8d2712ea79ad89cf86fa'', ''stgs::LocalPortAvailability'')])]"

definition all_a :: "search_entry list" where
  "all_a = map search_text
    [(''badcrc_0'', ''BadCrc'', [(''../namespacestgs.html#a6c3c97c875363adab257eb270bb20f14a63afce0aa4ad8e31dbdfc57d15771a1c'', ''stgs'')]),
     (''badmagic_1'', ''BadMagic'', [(''../namespacestgs.html#a6c3c97c875363adab257eb270bb20f14ac87c2d41af62cc035e76f90e0f889e4f'', ''stgs'')]),
     (''batteryoffset_2'', ''BatteryOffset'', [(''../namespacestgs.html#aceda3f1abf5c9b9a85133a4566b455c1'', ''stgs'')]),
     (''batterypercent_3'', ''batteryPercent'', [(''../structstgs_1_1TelemetryFrame.html#a02c7ba32d96eb0fea578eefac2cc8d6f'', ''stgs::TelemetryFrame'')]),
     (''behavior_4'', ''6. UDP behavior'', [(''../md_docs_2TECHNICAL__DESIGN.html#autotoc_md29'', '''')]),
     (''behavior_20and_20the_20poll_20snapshot_20invariant_5'', ''7. TCP behavior and the poll snapshot invariant'', [(''../md_docs_2TECHNICAL__DESIGN.html#autotoc_md30'', '''')]),
     (''benchmark_6'', ''benchmark'', [(''../md_README.html#autotoc_md69'', ''12. Benchmark''), (''../md_docs_2README__DOCUMENTATION.html#autotoc_md11'', ''Build, tests, diagnostic et benchmark'')]),
     (''benchmark_20command_7'', ''2. Benchmark command'', [(''../md_docs_2PERFORMANCE__REPORT.html#autotoc_md2'', '''')]),
     ((''benchmark_20de_20contr'' @ [CHR 0xF4] @ ''le_8''), (''Benchmark de contr'' @ [CHR 0xF4] @ ''le''), [(''../md_docs_2VERIFICATION__REPORT.html#autotoc_md51'', '''')]),
     (''benchmark_5fdecode_2ecpp_9'', ''benchmark_decode.cpp'', [(''../benchmark__decode_8cpp.html'', '''')]),
     (''binary_20protocol_3a_20stgs_20v1_10'', ''8. Binary protocol: STGS v1'', [(''../md_README.html#autotoc_md64'', '''')]),
     (''bindaddress_11'', ''bindaddress'', [(''../structstgs_1_1NetworkConfig.html#af526151af5d29d05947a1ed99f781749'', ''stgs::NetworkConfig::bindAddress''), (''../structstgs_1_1app_1_1ground__station_1_1Options.html#a69dadf7f1603c0332a2b4a210ab8332d'', ''stgs::app::ground_station::Options::bindAddress'')]),
     (''blockingqueue_12'', ''blockingqueue'', [(''../classstgs_1_1BlockingQueue.html#acc6b8fc0643c9a0056a9c289a6b9bcba'', ''stgs::BlockingQueue::BlockingQueue(const BlockingQueue &amp;)=delete''), (''../classstgs_1_1BlockingQueue.html#a338b6b942f4ccf56cf64e754433e76fc'', ''stgs::BlockingQueue::BlockingQueue(std::size_t capacity=0U)''), (''../classstgs_1_1BlockingQueue.html'', ''stgs::BlockingQueue&lt; T &gt;'')]),
     (''blockingqueue_2ehpp_13'', ''BlockingQueue.hpp'', [(''../BlockingQueue_8hpp.html'', '''')]),
     (''blockingqueue_3c_20stgs_3a_3aapp_3a_3aground_5fstation_3a_3adecodedworkitem_20_3e_14'', ''BlockingQueue&lt; stgs::app::ground_station::DecodedWorkItem &gt;'', [(''../classstgs_1_1BlockingQueue.html'', ''stgs'')]),
     (''blockingqueue_3c_20stgs_3a_3aapp_3a_3aground_5fstation_3a_3arawworkitem_20_3e_15'', ''BlockingQueue&lt; stgs::app::ground_station::RawWorkItem &gt;'', [(''../classstgs_1_1BlockingQueue.html'', ''stgs'')]),
     (''bounded_20concurrent_20pipeline_20and_20deterministic_20output_16'', ''8. Bounded concurrent pipeline and deterministic output'', [(''../md_docs_2TECHNICAL__DESIGN.html#autotoc_md31'', '''')]),
     (''bufferedbytes_17'', ''bufferedBytes'', [(''../classstgs_1_1StreamFrameExtractor.html#a4c8db84b6856dc01b744e7fce8c8df14'', ''stgs::StreamFrameExtractor'')]),
     (''build_18'', ''Build'', [(''../md_README.html#autotoc_md56'', '''')]),
     (''build_20confidence_20first_19'', ''1. Build confidence first'', [(''../md_docs_2SHOWCASE__GUIDE.html#autotoc_md15'', '''')]),
     (''build_20tests_20diagnostic_20et_20benchmark_20'', ''Build, tests, diagnostic et benchmark'', [(''../md_docs_2README__DOCUMENTATION.html#autotoc_md11'', '''')]),
     (''bytemask_21'', ''ByteMask'', [(''../namespacestgs_1_1detail.html#aa375565c0fc4c92865ea298dba3b6691'', ''stgs::detail'')]),
     (''bytes_22'', ''bytes'', [(''../structstgs_1_1app_1_1ground__station_1_1RawWorkItem.html#a32c01440dff1d6c5d5f1bdd55f3905c9'', ''stgs::app::ground_station::RawWorkItem'')]),
     (''byteutils_2ehpp_23'', ''ByteUtils.hpp'', [(''../ByteUtils_8hpp.html'', '''')]),
     (''bytevector_24'', ''ByteVector'', [(''../namespacestgs.html#ad5ffad61c84bc02fa03a4d2c7f7e8305'', ''stgs'')])]"

definition all_b :: "search_entry list" where
  "all_b = map search_text
    [(''c_20space_20telemetry_20ground_20station_0'', ''C++ Space Telemetry Ground Station'', [(''../md_README.html'', '''')]),
     (''capacity_1'', ''capacity'', [(''../classstgs_1_1BlockingQueue.html#a4d54b73a85423f1b7a0b0b698cc376da'', ''stgs::BlockingQueue'')]),
     (''capture_2'', ''capture'', [(''../classstgs_1_1app_1_1ground__station_1_1AsyncFailure.html#ab1b3fc6da1eb73cbd36e1c04889e1007'', ''stgs::app::ground_station::AsyncFailure'')]),
     (''capture_20and_20replay_3'', ''6. Capture and replay'', [(''../md_README.html#autotoc_md62'', '''')]),
     (''checklist_4'', ''5. Reproducibility checklist'', [(''../md_docs_2PERFORMANCE__REPORT.html#autotoc_md5'', '''')]),
     (''checklocalportavailability_5'', ''checkLocalPortAvailability'', [(''../namespacestgs.html#a9e3558ccc5cda76fa7ac8e5cf36b8fa8'', ''stgs'')]),
     (''choosing_20a_20port_6'', ''2. Start a station without manually choosing a port'', [(''../md_docs_2SHOWCASE__GUIDE.html#autotoc_md16'', '''')]),
     (''clear_7'', ''clear'', [(''../classstgs_1_1StreamFrameExtractor.html#a7c82f4ef262914570a4348018fc4c682'', ''stgs::StreamFrameExtractor'')]),
     (''cliparsing_2ehpp_8'', ''CliParsing.hpp'', [(''../CliParsing_8hpp.html'', '''')]),
     (''close_9'', ''close'', [(''../classstgs_1_1BlockingQueue.html#a0ce71abdabe34acee62faab0c9dafdb7'', ''stgs::BlockingQueue'')]),
     (''closed_10'', ''closed'', [(''../classstgs_1_1BlockingQueue.html#a98ce70a8b9c95832b02a124c2a1eb15a'', ''stgs::BlockingQueue::closed()''), (''../namespacestgs.html#ab73dc2ebbed2d6799b14a329f2e691cca03f4a47830f97377a35321051685071e'', ''stgs::Closed'')]),
     (''code_11'', ''code'', [(''../structstgs_1_1FrameError.html#adbf564bd743a3e37a6585723874e0574'', ''stgs::FrameError::code''), (''../structstgs_1_1ApplicationPayloadError.html#a181d2c642bbe9366301b8952c4ef9390'', ''stgs::ApplicationPayloadError::code''), (''../md_README.html#autotoc_md71'', ''Design principles visible in the code'')]),
     (''color_12'', ''color'', [(''../structstgs_1_1app_1_1simulator_1_1Options.html#a6a007eb396ee2c2901b30fc51e541fc2'', ''stgs::app::simulator::Options::color''), (''../structstgs_1_1app_1_1ground__station_1_1Options.html#a5da80e2a4b6aec6fd1af71cf827a571d'', ''stgs::app::ground_station::Options::color'')]),
     (''colorsenabled_13'', ''colorsEnabled'', [(''../classstgs_1_1TerminalUi.html#afbe82d671c9e48c048bb990312e1eb76'', ''stgs::TerminalUi'')]),
     (''command_14'', ''2. Benchmark command'', [(''../md_docs_2PERFORMANCE__REPORT.html#autotoc_md2'', '''')]),
     (''commandes_20principales_20couvertes_15'', ''Commandes principales couvertes'', [(''../md_docs_2README__DOCUMENTATION.html#autotoc_md8'', '''')]),
     (''compilation_20stricte_16'', ''Compilation stricte'', [(''../md_docs_2VERIFICATION__REPORT.html#autotoc_md44'', '''')]),
     ((''compl'' @ [CHR 0xE9] @ ''mentaire_17''), (''Analyse statique compl'' @ [CHR 0xE9] @ ''mentaire''), [(''../md_docs_2VERIFICATION__REPORT.html#autotoc_md47'', '''')]),
     (''computesignalmetrics_18'', ''computeSignalMetrics'', [(''../namespacestgs.html#a28ae1709832b8407892d8d3b767cae0d'', ''stgs'')]),
     (''concurrency_19'', ''6. Demonstrate deterministic concurrency'', [(''../md_docs_2SHOWCASE__GUIDE.html#autotoc_md20'', '''')]),
     (''concurrent_20pipeline_20and_20deterministic_20output_20'', ''8. Bounded concurrent pipeline and deterministic output'', [(''../md_docs_2TECHNICAL__DESIGN.html#autotoc_md31'', '''')]),
     (''confidence_20first_21'', ''1. Build confidence first'', [(''../md_docs_2SHOWCASE__GUIDE.html#autotoc_md15'', '''')]),
     (''connectloopback_22'', ''connectLoopback'', [(''../namespacestgs_1_1test.html#adf387066d23f3f075e40f1a1911172ea'', ''stgs::test'')]),
     ((''contr'' @ [CHR 0xF4] @ ''le_23''), (''contr'' @ [CHR 0xF4] @ ''le''), [(''../md_docs_2VERIFICATION__REPORT.html#autotoc_md51'', (''Benchmark de contr'' @ [CHR 0xF4] @ ''le'')), (''../md_docs_2VERIFICATION__REPORT.html#autotoc_md43'', (''Environnement de contr'' @ [CHR 0xF4] @ ''le''))]),
     (''corruptprobability_24'', ''corruptProbability'', [(''../structstgs_1_1app_1_1simulator_1_1Options.html#a4a5522996fbd3380b527ce02d8ed9e19'', ''stgs::app::simulator::Options'')]),
     (''coscoefficient_25'', ''cosCoefficient'', [(''../SignalProcessing_8cpp.html#a0ca6c78a79e2c23159b81c2c23da827a'', ''SignalProcessing.cpp'')]),
     (''count_26'', ''count'', [(''../structstgs_1_1PortRange.html#a7cfeaa08040db1b19a5906537fb263e2'', ''stgs::PortRange::count()''), (''../structstgs_1_1app_1_1simulator_1_1Options.html#a21d2ca0623d70e2e050c951144724d60'', ''stgs::app::simulator::Options::count'')]),
     (''countexplicit_27'', ''countExplicit'', [(''../structstgs_1_1app_1_1simulator_1_1Options.html#aaf5366a0d3e7f8cff0c9104efbd45018'', ''stgs::app::simulator::Options'')]),
     (''couvertes_28'', ''Commandes principales couvertes'', [(''../md_docs_2README__DOCUMENTATION.html#autotoc_md8'', '''')]),
     (''crc_2032_20iso_20hdlc_29'', ''4. CRC-32/ISO-HDLC'', [(''../md_docs_2TECHNICAL__DESIGN.html#autotoc_md27'', '''')]),
     (''crc_20parameters_30'', ''CRC parameters'', [(''../md_README.html#autotoc_md65'', '''')]),
     (''crc32_31'', ''crc32'', [(''../namespacestgs.html#a0dfeb4a19f1b73b44a2b0bb9ea498e88'', ''stgs::crc32(std::string_view text) noexcept''), (''../namespacestgs.html#a6b24ed28e7cb67e90a0d801ea9602534'', ''stgs::crc32(std::span&lt; const std::uint8_t &gt; bytes) noexcept'')]),
     (''crc32_2ecpp_32'', ''Crc32.cpp'', [(''../Crc32_8cpp.html'', '''')]),
     (''crc32_2ehpp_33'', ''Crc32.hpp'', [(''../Crc32_8hpp.html'', '''')]),
     (''crc32check123456789_34'', ''Crc32Check123456789'', [(''../namespacestgs.html#a5594cb785adddb5af16c0f7f298a6225'', ''stgs'')]),
     (''crc32finalxor_35'', ''Crc32FinalXor'', [(''../namespacestgs.html#a0a35ad0fca0eff1e50c4b551a823720d'', ''stgs'')]),
     (''crc32initialvalue_36'', ''Crc32InitialValue'', [(''../namespacestgs.html#a74c109e159b49bd03f8ebeb529bf1226'', ''stgs'')]),
     (''crc32polynomial_37'', ''Crc32Polynomial'', [(''../namespacestgs.html#a4c3cf84a665a74aca60d79d2720cdd44'', ''stgs'')]),
     (''crc32reflectedpolynomial_38'', ''Crc32ReflectedPolynomial'', [(''../namespacestgs.html#ad872c0cffd61ccff234a327a86d8aebb'', ''stgs'')]),
     (''crcsize_39'', ''CrcSize'', [(''../namespacestgs.html#a2af9dce4ca0370f9f2df450a9aa03ef4'', ''stgs'')]),
     (''createsocket_40'', ''createSocket'', [(''../namespacestgs_1_1app_1_1simulator.html#a52d860dedba944beac4909c45084bbad'', ''stgs::app::simulator'')]),
     (''critical_41'', ''critical'', [(''../namespacestgs.html#a61ca9382bebac8640e15d2338a9eb8afa278d01e5af56273bae1bb99a98b370cd'', ''stgs::Critical''), (''../structstgs_1_1StationHealthSnapshot.html#ad809a3e3dda1d2320dff3c1286ff3dc0'', ''stgs::StationHealthSnapshot::critical'')]),
     (''criticalframesfordegraded_42'', ''criticalFramesForDegraded'', [(''../structstgs_1_1StationHealthConfig.html#a3bf12ea3a9fa4e94146270086722405b'', ''stgs::StationHealthConfig'')]),
     (''criticalframesforrecovery_43'', ''criticalFramesForRecovery'', [(''../structstgs_1_1StationHealthConfig.html#aa17b2f19b81f73f2176aec8d2f4e0fe2'', ''stgs::StationHealthConfig'')]),
     (''csv_44'', ''Csv'', [(''../namespacestgs_1_1app_1_1ground__station.html#a674f76aa6255d0fb1ffec19ffc6be19dab20daea8bfacec3891fcf5b7be4adca0'', ''stgs::app::ground_station'')])]"

definition all_c :: "search_entry list" where
  "all_c = map search_text
    [((''d'' @ [CHR 0xE9] @ ''coupage_20modulaire_0''), (''D'' @ [CHR 0xE9] @ ''coupage modulaire''), [(''../md_docs_2VERIFICATION__REPORT.html#autotoc_md48'', '''')]),
     ((''d'' @ [CHR 0xE9] @ ''terminisme_20et_20formats_20de_20sortie_1''), (''D'' @ [CHR 0xE9] @ ''terminisme et formats de sortie''), [(''../md_docs_2VERIFICATION__REPORT.html#autotoc_md50'', '''')]),
     (''d_20execution_2'', ''STGS - Documentation d&apos;execution'', [(''../md_docs_2README__DOCUMENTATION.html'', '''')]),
     ((''d_20int'' @ [CHR 0xE9] @ ''gration_3''), (''Tests unitaires et d&apos;int'' @ [CHR 0xE9] @ ''gration''), [(''../md_docs_2VERIFICATION__REPORT.html#autotoc_md45'', '''')]),
     (''dc_4'', ''dc'', [(''../SignalProcessing_8cpp.html#af198a5882da491a016df14cac18b2856'', ''SignalProcessing.cpp'')]),
     ((''de_20contr'' @ [CHR 0xF4] @ ''le_5''), (''de contr'' @ [CHR 0xF4] @ ''le''), [(''../md_docs_2VERIFICATION__REPORT.html#autotoc_md51'', (''Benchmark de contr'' @ [CHR 0xF4] @ ''le'')), (''../md_docs_2VERIFICATION__REPORT.html#autotoc_md43'', (''Environnement de contr'' @ [CHR 0xF4] @ ''le''))]),
     (''de_20sortie_6'', (''D'' @ [CHR 0xE9] @ ''terminisme et formats de sortie''), [(''../md_docs_2VERIFICATION__REPORT.html#autotoc_md50'', '''')]),
     ((''de_20v'' @ [CHR 0xE9] @ ''rification_20stgs_20'' @ [CHR 0x97] @ ''_20version_20vitrine_7''), (''Rapport de v'' @ [CHR 0xE9] @ ''rification STGS '' @ [CHR 0x97] @ '' version vitrine''), [(''../md_docs_2VERIFICATION__REPORT.html'', '''')]),
     (''debug_8'', ''debug'', [(''../namespacestgs.html#a2b4a335983593d5d8d599d58cd7ee203aa603905470e2a5b8c13e96b579ef0dba'', ''stgs::Debug''), (''../classstgs_1_1Logger.html#a7b1647059e095774d43512bd0ade1000'', ''stgs::Logger::debug()'')]),
     (''decodeapplicationpayload_9'', ''decodeApplicationPayload'', [(''../namespacestgs.html#af8f13007bacb6d468b61280260ae8daf'', ''stgs'')]),
     (''decoded_10'', ''decoded'', [(''../structstgs_1_1app_1_1ground__station_1_1PipelineStats.html#a7feafbe2ebe0825cca6774b1844b1338'', ''stgs::app::ground_station::PipelineStats'')]),
     (''decodedworkitem_11'', ''DecodedWorkItem'', [(''../structstgs_1_1app_1_1ground__station_1_1DecodedWorkItem.html'', ''stgs::app::ground_station'')]),
     (''decodeframe_12'', ''decodeFrame'', [(''../namespacestgs.html#abfa6635744db7019364480e2614afb32'', ''stgs'')]),
     (''decoderthreads_13'', ''decoderThreads'', [(''../structstgs_1_1app_1_1ground__station_1_1Options.html#aacf3f4c2c1eeafe942e76470baea35c8'', ''stgs::app::ground_station::Options'')]),
     (''decoding_20policy_14'', ''5. Frame decoding policy'', [(''../md_docs_2TECHNICAL__DESIGN.html#autotoc_md28'', '''')]),
     (''defaultnetworkpolltimeoutms_15'', ''DefaultNetworkPollTimeoutMs'', [(''../namespacestgs.html#a9b83d5fba556317dfed190570a657a15'', ''stgs'')]),
     (''defaultpayloadpreviewbytes_16'', ''DefaultPayloadPreviewBytes'', [(''../namespacestgs.html#a15a874151f361a28fc4b701a20b936cb'', ''stgs'')]),
     (''defaultportprobetimeout_17'', ''DefaultPortProbeTimeout'', [(''../namespacestgs.html#a769fad3e0dd24b61146242b3beabfe49'', ''stgs'')]),
     (''defaulttelemetryport_18'', ''DefaultTelemetryPort'', [(''../namespacestgs.html#ab3eaa01404f6ebd84c9265bc3413a187'', ''stgs'')]),
     (''degraded_19'', ''Degraded'', [(''../namespacestgs.html#af145a1e8f5e0f55d9178bafa1faacb7eaaa95669cd5732a57e8f6467705f06642'', ''stgs'')]),
     (''degradedrejectionrate_20'', ''degradedRejectionRate'', [(''../structstgs_1_1StationHealthConfig.html#af2ecfc6647a66641e7d7a2093b6c0eda'', ''stgs::StationHealthConfig'')]),
     (''deliberate_20limitations_21'', ''18. Deliberate limitations'', [(''../md_docs_2TECHNICAL__DESIGN.html#autotoc_md41'', '''')]),
     (''demonstrate_20deterministic_20concurrency_22'', ''6. Demonstrate deterministic concurrency'', [(''../md_docs_2SHOWCASE__GUIDE.html#autotoc_md20'', '''')]),
     (''design_20principles_20visible_20in_20the_20code_23'', ''Design principles visible in the code'', [(''../md_README.html#autotoc_md71'', '''')]),
     (''design_3a_20space_20telemetry_20ground_20station_24'', ''Technical Design: Space Telemetry Ground Station'', [(''../md_docs_2TECHNICAL__DESIGN.html'', '''')]),
     (''destination_25'', ''destination'', [(''../namespacestgs_1_1app_1_1simulator.html#aecdeae718bd6bbeba8838e5dcbe016f8'', ''stgs::app::simulator'')]),
     (''detail_26'', ''detail'', [(''../structstgs_1_1TcpPortProbeResult.html#a7cf3ee74524e2f032e4175bc06fdaf12'', ''stgs::TcpPortProbeResult::detail''), (''../structstgs_1_1LocalPortAvailability.html#a287ac57266c891190db1f8f0099ec0af'', ''stgs::LocalPortAvailability::detail'')]),
     (''deterministic_20concurrency_27'', ''6. Demonstrate deterministic concurrency'', [(''../md_docs_2SHOWCASE__GUIDE.html#autotoc_md20'', '''')]),
     (''deterministic_20multithreaded_20pipeline_28'', ''7. Deterministic multithreaded pipeline'', [(''../md_README.html#autotoc_md63'', '''')]),
     (''deterministic_20output_29'', ''8. Bounded concurrent pipeline and deterministic output'', [(''../md_docs_2TECHNICAL__DESIGN.html#autotoc_md31'', '''')]),
     (''diagnose_20the_20local_20range_30'', ''3. Diagnose the local range'', [(''../md_docs_2SHOWCASE__GUIDE.html#autotoc_md17'', '''')]),
     (''diagnostic_20et_20benchmark_31'', ''Build, tests, diagnostic et benchmark'', [(''../md_docs_2README__DOCUMENTATION.html#autotoc_md11'', '''')]),
     (''diagnostics_32'', ''diagnostics'', [(''../md_docs_2TECHNICAL__DESIGN.html#autotoc_md34'', ''11. Port diagnostics''), (''../md_README.html#autotoc_md58'', ''2. Automatic local port selection and diagnostics'')]),
     (''discoverports_33'', ''discoverPorts'', [(''../structstgs_1_1app_1_1simulator_1_1Options.html#a5f8fc46a9b3247d0960468628f940773'', ''stgs::app::simulator::Options'')]),
     (''discoverytimeout_34'', ''discoveryTimeout'', [(''../structstgs_1_1app_1_1simulator_1_1Options.html#afe849eac827386775d6c9b1291e2f9be'', ''stgs::app::simulator::Options'')]),
     (''discussion_20points_35'', ''7. Useful discussion points'', [(''../md_docs_2SHOWCASE__GUIDE.html#autotoc_md21'', '''')]),
     (''display_20a_20text_20message_36'', ''3. Send and display a text message'', [(''../md_README.html#autotoc_md59'', '''')]),
     (''documentation_20d_20execution_37'', ''STGS - Documentation d&apos;execution'', [(''../md_docs_2README__DOCUMENTATION.html'', '''')]),
     (''documents_38'', ''Documents'', [(''../md_docs_2README__DOCUMENTATION.html#autotoc_md7'', '''')])]"

definition all_d :: "search_entry list" where
  "all_d = map search_text
    [(''enabled_0'', ''enabled'', [(''../structstgs_1_1StationHealthConfig.html#a5fd0e373f0212ce8279c70df516926fd'', ''stgs::StationHealthConfig'')]),
     (''encodeframe_1'', ''encodeFrame'', [(''../namespacestgs.html#a96d420ce35d29e8fbcfb4228464169aa'', ''stgs'')]),
     (''encodesignalblockpayload_2'', ''encodeSignalBlockPayload'', [(''../namespacestgs.html#a6df02cb32efc818d349522c29ef2197d'', ''stgs'')]),
     (''encodetextmessagepayload_3'', ''encodeTextMessagePayload'', [(''../namespacestgs.html#a91ad6444414562d0dcf977c6e8fc5ab7'', ''stgs'')]),
     ((''environnement_20de_20contr'' @ [CHR 0xF4] @ ''le_4''), (''Environnement de contr'' @ [CHR 0xF4] @ ''le''), [(''../md_docs_2VERIFICATION__REPORT.html#autotoc_md43'', '''')]),
     (''ephemeralport_5'', ''ephemeralPort'', [(''../namespacestgs_1_1test.html#a662fb280ee6865e992ad292c7eb966e3'', ''stgs::test'')]),
     (''error_6'', ''error'', [(''../classstgs_1_1Logger.html#a714e363fcba209c745f8fb22eb220d60'', ''stgs::Logger::error()''), (''../namespacestgs.html#aed082ae37dc19f30579b2d7981342c1ea902b0d55fddef6f8d651fe1035b7d4bd'', ''stgs::Error''), (''../namespacestgs.html#ab73dc2ebbed2d6799b14a329f2e691cca902b0d55fddef6f8d651fe1035b7d4bd'', ''stgs::Error''), (''../namespacestgs.html#a2b4a335983593d5d8d599d58cd7ee203a902b0d55fddef6f8d651fe1035b7d4bd'', ''stgs::Error'')]),
     (''error_20model_7'', ''15. Error model'', [(''../md_docs_2TECHNICAL__DESIGN.html#autotoc_md38'', '''')]),
     (''errorcodetostring_8'', ''errorCodeToString'', [(''../namespacestgs.html#a6790660a2b914bf45160cc8d38973a28'', ''stgs'')]),
     (''estimatedamplitude_9'', ''estimatedAmplitude'', [(''../structstgs_1_1SignalMetrics.html#af44f54028722447a767727eca27078d6'', ''stgs::SignalMetrics'')]),
     (''estimatedsnrdb_10'', ''estimatedSnrDb'', [(''../structstgs_1_1SignalMetrics.html#ab74d5d03f557f542c746ef6c9e05bb5b'', ''stgs::SignalMetrics'')]),
     (''et_20benchmark_11'', ''Build, tests, diagnostic et benchmark'', [(''../md_docs_2README__DOCUMENTATION.html#autotoc_md11'', '''')]),
     ((''et_20d_20int'' @ [CHR 0xE9] @ ''gration_12''), (''Tests unitaires et d&apos;int'' @ [CHR 0xE9] @ ''gration''), [(''../md_docs_2VERIFICATION__REPORT.html#autotoc_md45'', '''')]),
     (''et_20formats_20de_20sortie_13'', (''D'' @ [CHR 0xE9] @ ''terminisme et formats de sortie''), [(''../md_docs_2VERIFICATION__REPORT.html#autotoc_md50'', '''')]),
     (''execution_14'', ''STGS - Documentation d&apos;execution'', [(''../md_docs_2README__DOCUMENTATION.html'', '''')]),
     (''extractor_15'', ''extractor'', [(''../NetworkServerTcp_8cpp.html#a89e98f35eb5391c805f03de688d94270'', ''NetworkServerTcp.cpp'')])]"

definition all_e :: "search_entry list" where
  "all_e = map search_text
    [(''fd_0'', ''fd'', [(''../NetworkServerTcp_8cpp.html#a6f8059414f0228f0256115e024eeed4b'', ''NetworkServerTcp.cpp'')]),
     (''feed_1'', ''feed'', [(''../classstgs_1_1StreamFrameExtractor.html#a7d3def59de4dc549e05c33eb5e80e1a4'', ''stgs::StreamFrameExtractor'')]),
     (''filter_20it_2'', ''4. Send a noisy wave and filter it'', [(''../md_README.html#autotoc_md60'', '''')]),
     (''filteredrms_3'', ''filteredRms'', [(''../structstgs_1_1SignalMetrics.html#aa2d9ad888f22cb619a4e17cd73803133'', ''stgs::SignalMetrics'')]),
     (''filtering_4'', ''10. Signal generation, noise and filtering'', [(''../md_docs_2TECHNICAL__DESIGN.html#autotoc_md33'', '''')]),
     (''findfirstavailablelocalport_5'', ''findFirstAvailableLocalPort'', [(''../namespacestgs.html#a3711847fc7f4844d7ff12f7835d8a8fd'', ''stgs'')]),
     (''finish_6'', ''finish'', [(''../classstgs_1_1app_1_1ground__station_1_1PosixSignalStopController.html#a6e65c3fb986b905596a254439d8f252a'', ''stgs::app::ground_station::PosixSignalStopController::finish()''), (''../classstgs_1_1app_1_1ground__station_1_1TelemetryOutput.html#ab31b4fba12a683f1505951d406717776'', ''stgs::app::ground_station::TelemetryOutput::finish()'')]),
     (''first_7'', ''first'', [(''../md_docs_2SHOWCASE__GUIDE.html#autotoc_md15'', ''1. Build confidence first''), (''../structstgs_1_1PortRange.html#a5974ad2a5dff722fc5fd7c646cce679d'', ''stgs::PortRange::first'')]),
     (''float32wiresize_8'', ''Float32WireSize'', [(''../namespacestgs.html#ad30888b452380949c566d434784bba70'', ''stgs'')]),
     (''flush_9'', ''flush'', [(''../classstgs_1_1FrameFileWriter.html#abbf59bb86fa348f352879a01beaf9586'', ''stgs::FrameFileWriter'')]),
     (''format_10'', ''3. STGS v1 wire format'', [(''../md_docs_2TECHNICAL__DESIGN.html#autotoc_md26'', '''')]),
     (''formats_20de_20sortie_11'', (''D'' @ [CHR 0xE9] @ ''terminisme et formats de sortie''), [(''../md_docs_2VERIFICATION__REPORT.html#autotoc_md50'', '''')]),
     (''frame_20decoding_20policy_12'', ''5. Frame decoding policy'', [(''../md_docs_2TECHNICAL__DESIGN.html#autotoc_md28'', '''')]),
     (''framecallback_13'', ''FrameCallback'', [(''../classstgs_1_1NetworkServer.html#ac504eb1e38628a5ba4cec43d9af0b51e'', ''stgs::NetworkServer'')]),
     (''framecodec_2ecpp_14'', ''FrameCodec.cpp'', [(''../FrameCodec_8cpp.html'', '''')]),
     (''framecodec_2ehpp_15'', ''FrameCodec.hpp'', [(''../FrameCodec_8hpp.html'', '''')]),
     (''frameerror_16'', ''FrameError'', [(''../structstgs_1_1FrameError.html'', ''stgs'')]),
     (''frameerrorcode_17'', ''FrameErrorCode'', [(''../namespacestgs.html#a6c3c97c875363adab257eb270bb20f14'', ''stgs'')]),
     (''framefilereader_18'', ''framefilereader'', [(''../classstgs_1_1FrameFileReader.html'', ''stgs::FrameFileReader''), (''../classstgs_1_1FrameFileReader.html#ac91f1a5de928bef5d277a829a8a41cd8'', ''stgs::FrameFileReader::FrameFileReader(const FrameFileReader &amp;)=delete''), (''../classstgs_1_1FrameFileReader.html#ad2ba5c80795b399b144122b666d8d184'', ''stgs::FrameFileReader::FrameFileReader(const std::filesystem::path &amp;path)'')]),
     (''framefilewriter_19'', ''framefilewriter'', [(''../classstgs_1_1FrameFileWriter.html#afd0202fe0483bd7ccebe184db6f0d15f'', ''stgs::FrameFileWriter::FrameFileWriter(const FrameFileWriter &amp;)=delete''), (''../classstgs_1_1FrameFileWriter.html#a6a98b7bef36f40e1e3e2e1ba0fb473e9'', ''stgs::FrameFileWriter::FrameFileWriter(const std::filesystem::path &amp;path)''), (''../classstgs_1_1FrameFileWriter.html'', ''stgs::FrameFileWriter'')]),
     (''framemagic_20'', ''FrameMagic'', [(''../namespacestgs.html#a0e4be2b427b7e545711791601cd0d394'', ''stgs'')]),
     (''frameparseresult_21'', ''FrameParseResult'', [(''../namespacestgs.html#a6f51df7d9b7e75ff18a4bae663ff262f'', ''stgs'')]),
     (''frequencyhz_22'', ''frequencyHz'', [(''../structstgs_1_1SignalBlockPayload.html#a7119d2eca398e407971983d71051fb9e'', ''stgs::SignalBlockPayload'')]),
     (''from_23'', ''from'', [(''../structstgs_1_1StationStateTransition.html#a9f85cfbfc0332168e30dbb69094463d7'', ''stgs::StationStateTransition'')])]"

definition all_f :: "search_entry list" where
  "all_f = map search_text
    [(''generation_20noise_20and_20filtering_0'', ''10. Signal generation, noise and filtering'', [(''../md_docs_2TECHNICAL__DESIGN.html#autotoc_md33'', '''')]),
     (''get_1'', ''get'', [(''../classstgs_1_1app_1_1simulator_1_1SocketFd.html#acfa85dbb116f87c1c17bc6cb18c9f690'', ''stgs::app::simulator::SocketFd'')]),
     (''ground_20station_2'', ''ground station'', [(''../md_README.html'', ''C++ Space Telemetry Ground Station''), (''../md_docs_2PERFORMANCE__REPORT.html'', ''Performance Report: Space Telemetry Ground Station''), (''../md_docs_2TECHNICAL__DESIGN.html'', ''Technical Design: Space Telemetry Ground Station'')]),
     (''ground_5fstation_2ecpp_3'', ''ground_station.cpp'', [(''../ground__station_8cpp.html'', '''')]),
     (''groundstationapp_2ecpp_4'', ''GroundStationApp.cpp'', [(''../GroundStationApp_8cpp.html'', '''')]),
     (''groundstationapp_2ehpp_5'', ''GroundStationApp.hpp'', [(''../GroundStationApp_8hpp.html'', '''')]),
     (''groundstationinput_2ecpp_6'', ''GroundStationInput.cpp'', [(''../GroundStationInput_8cpp.html'', '''')]),
     (''groundstationoptions_2ecpp_7'', ''GroundStationOptions.cpp'', [(''../GroundStationOptions_8cpp.html'', '''')]),
     (''groundstationoptions_2ehpp_8'', ''GroundStationOptions.hpp'', [(''../GroundStationOptions_8hpp.html'', '''')]),
     (''groundstationpipeline_9'', ''groundstationpipeline'', [(''../classstgs_1_1app_1_1ground__station_1_1GroundStationPipeline.html#a44539f7f9ecd25fe739fc3d9b9c8e304'', ''stgs::app::ground_station::GroundStationPipeline::GroundStationPipeline()''), (''../classstgs_1_1app_1_1ground__station_1_1GroundStationPipeline.html'', ''stgs::app::ground_station::GroundStationPipeline'')]),
     (''groundstationpipeline_2ecpp_10'', ''GroundStationPipeline.cpp'', [(''../GroundStationPipeline_8cpp.html'', '''')]),
     (''groundstationpipeline_2ehpp_11'', ''GroundStationPipeline.hpp'', [(''../GroundStationPipeline_8hpp.html'', '''')]),
     (''groundstationprocessing_2ecpp_12'', ''GroundStationProcessing.cpp'', [(''../GroundStationProcessing_8cpp.html'', '''')]),
     (''groundstationprocessing_2ehpp_13'', ''GroundStationProcessing.hpp'', [(''../GroundStationProcessing_8hpp.html'', '''')]),
     (''groundstationusage_2ecpp_14'', ''GroundStationUsage.cpp'', [(''../GroundStationUsage_8cpp.html'', '''')]),
     (''groundstationworkers_2ecpp_15'', ''GroundStationWorkers.cpp'', [(''../GroundStationWorkers_8cpp.html'', '''')]),
     (''guide_16'', ''STGS Showcase Guide'', [(''../md_docs_2SHOWCASE__GUIDE.html'', '''')])]"

definition all_10 :: "search_entry list" where
  "all_10 = map search_text
    [(''hdlc_0'', ''4. CRC-32/ISO-HDLC'', [(''../md_docs_2TECHNICAL__DESIGN.html#autotoc_md27'', '''')]),
     (''headersize_1'', ''HeaderSize'', [(''../namespacestgs.html#abf8a7bd45da6596dc9997fd46c4eb096'', ''stgs'')]),
     (''health_20monitoring_2'', ''10. Health monitoring'', [(''../md_README.html#autotoc_md67'', '''')]),
     (''health_20monitoring_20and_20hysteresis_3'', ''13. Health monitoring and hysteresis'', [(''../md_docs_2TECHNICAL__DESIGN.html#autotoc_md36'', '''')]),
     (''healthconfig_4'', ''healthConfig'', [(''../structstgs_1_1app_1_1ground__station_1_1Options.html#a162aeb5eeaca2e0d1c8d64258bb07d8d'', ''stgs::app::ground_station::Options'')]),
     (''highlights_5'', ''Highlights'', [(''../md_README.html#autotoc_md54'', '''')]),
     (''host_6'', ''host'', [(''../structstgs_1_1app_1_1simulator_1_1Options.html#a6709401e926dd4896c6c9620d8e00f21'', ''stgs::app::simulator::Options'')]),
     (''hysteresis_7'', ''13. Health monitoring and hysteresis'', [(''../md_docs_2TECHNICAL__DESIGN.html#autotoc_md36'', '''')])]"

definition all_11 :: "search_entry list" where
  "all_11 = map search_text
    [(''important_20pour_20une_20revue_20technique_0'', ''Point important pour une revue technique'', [(''../md_docs_2README__DOCUMENTATION.html#autotoc_md13'', '''')]),
     (''in_20the_20code_1'', ''Design principles visible in the code'', [(''../md_README.html#autotoc_md71'', '''')]),
     (''info_2'', ''info'', [(''../classstgs_1_1Logger.html#a259da3304341bbf21616732231939265'', ''stgs::Logger::info()''), (''../namespacestgs.html#a2b4a335983593d5d8d599d58cd7ee203a4059b0251f66a18cb56f544728796875'', ''stgs::Info''), (''../namespacestgs.html#aed082ae37dc19f30579b2d7981342c1ea4059b0251f66a18cb56f544728796875'', ''stgs::Info'')]),
     ((''int'' @ [CHR 0xE9] @ ''gration_3''), (''Tests unitaires et d&apos;int'' @ [CHR 0xE9] @ ''gration''), [(''../md_docs_2VERIFICATION__REPORT.html#autotoc_md45'', '''')]),
     (''intent_4'', ''1. Scope and intent'', [(''../md_docs_2TECHNICAL__DESIGN.html#autotoc_md24'', '''')]),
     (''interactive_5'', ''interactive'', [(''../classstgs_1_1TerminalUi.html#ae050f8d992bfae035bab289ff6d00499'', ''stgs::TerminalUi'')]),
     (''interpretation_6'', ''4. Interpretation'', [(''../md_docs_2PERFORMANCE__REPORT.html#autotoc_md4'', '''')]),
     (''invalidbattery_7'', ''InvalidBattery'', [(''../namespacestgs.html#a6c3c97c875363adab257eb270bb20f14a70f7b6f0a881c8b3bf8d1a45c253fd2f'', ''stgs'')]),
     (''invalidlength_8'', ''InvalidLength'', [(''../namespacestgs.html#a2aa48089627d210628f45038315de28aa7410e53743c7518114372aa891b76615'', ''stgs'')]),
     (''invalidsignalmetadata_9'', ''InvalidSignalMetadata'', [(''../namespacestgs.html#a2aa48089627d210628f45038315de28aa1dd0acdf372fcd74a2acd532ddc4dac3'', ''stgs'')]),
     (''invalidstatus_10'', ''InvalidStatus'', [(''../namespacestgs.html#a6c3c97c875363adab257eb270bb20f14a1afaa3ef1f35311510464f49903aa6ae'', ''stgs'')]),
     (''invalidtemperature_11'', ''InvalidTemperature'', [(''../namespacestgs.html#a6c3c97c875363adab257eb270bb20f14ab0044d334987fcc475292bf23af8de41'', ''stgs'')]),
     (''invariant_12'', ''7. TCP behavior and the poll snapshot invariant'', [(''../md_docs_2TECHNICAL__DESIGN.html#autotoc_md30'', '''')]),
     (''isloopbackipv4_13'', ''isLoopbackIpv4'', [(''../namespacestgs.html#a7adda113b45c802e2582cd09d38b31e0'', ''stgs'')]),
     (''iso_20hdlc_14'', ''4. CRC-32/ISO-HDLC'', [(''../md_docs_2TECHNICAL__DESIGN.html#autotoc_md27'', '''')]),
     (''it_15'', ''4. Send a noisy wave and filter it'', [(''../md_README.html#autotoc_md60'', '''')])]"

definition all_12 :: "search_entry list" where
  "all_12 = map search_text
    [(''json_0'', ''Json'', [(''../namespacestgs_1_1app_1_1ground__station.html#a674f76aa6255d0fb1ffec19ffc6be19daeed8d85b888a6c015834240885ee6333'', ''stgs::app::ground_station'')])]"

definition all_13 :: "search_entry list" where
  "all_13 = map search_text
    [(''keyvalue_0'', ''keyValue'', [(''../classstgs_1_1TerminalUi.html#abca15310e22fe982ba94d3b7f44b843b'', ''stgs::TerminalUi'')])]"

definition all_14 :: "search_entry list" where
  "all_14 = map search_text
    [(''last_0'', ''last'', [(''../structstgs_1_1PortRange.html#a23ae79afc9384a569e6de733f9a972ba'', ''stgs::PortRange'')]),
     (''latencyms_1'', ''latencyMs'', [(''../structstgs_1_1TcpPortProbeResult.html#a777d1834bbd051ecce69df18c371e711'', ''stgs::TcpPortProbeResult'')]),
     (''latex_2'', ''Recompiler les sources LaTeX'', [(''../md_docs_2README__DOCUMENTATION.html#autotoc_md12'', '''')]),
     (''layered_20architecture_3'', ''2. Layered architecture'', [(''../md_docs_2TECHNICAL__DESIGN.html#autotoc_md25'', '''')]),
     (''layout_4'', ''Project layout'', [(''../md_README.html#autotoc_md70'', '''')]),
     (''lengthmismatch_5'', ''LengthMismatch'', [(''../namespacestgs.html#a6c3c97c875363adab257eb270bb20f14aefe3ddb6bb6a51712447485fd452d87d'', ''stgs'')]),
     (''les_20sources_20latex_6'', ''Recompiler les sources LaTeX'', [(''../md_docs_2README__DOCUMENTATION.html#autotoc_md12'', '''')]),
     (''license_7'', ''License'', [(''../md_README.html#autotoc_md72'', '''')]),
     (''limitations_8'', ''18. Deliberate limitations'', [(''../md_docs_2TECHNICAL__DESIGN.html#autotoc_md41'', '''')]),
     ((''limites_20assum'' @ [CHR 0xE9] @ ''es_9''), (''Limites assum'' @ [CHR 0xE9] @ ''es''), [(''../md_docs_2VERIFICATION__REPORT.html#autotoc_md52'', '''')]),
     (''live_20tcp_20telemetry_10'', ''1. Live TCP telemetry'', [(''../md_README.html#autotoc_md57'', '''')]),
     (''local_20port_20selection_20and_20diagnostics_11'', ''2. Automatic local port selection and diagnostics'', [(''../md_README.html#autotoc_md58'', '''')]),
     (''local_20range_12'', ''3. Diagnose the local range'', [(''../md_docs_2SHOWCASE__GUIDE.html#autotoc_md17'', '''')]),
     (''localportavailability_13'', ''LocalPortAvailability'', [(''../structstgs_1_1LocalPortAvailability.html'', ''stgs'')]),
     (''log_14'', ''log'', [(''../classstgs_1_1Logger.html#ad62b4fe2573d0fbc245bc8499072132e'', ''stgs::Logger'')]),
     (''logfile_15'', ''logFile'', [(''../structstgs_1_1app_1_1ground__station_1_1Options.html#aab0afe12f93a9cb1d5fbd63f48baabfb'', ''stgs::app::ground_station::Options'')]),
     (''logger_16'', ''logger'', [(''../classstgs_1_1Logger.html'', ''stgs::Logger''), (''../classstgs_1_1Logger.html#ab57feb2db1362d1cab97d3fcaba73063'', ''stgs::Logger::Logger(const Logger &amp;)=delete''), (''../classstgs_1_1Logger.html#aa47f826e89b7d939d7c2989379d5cd6a'', ''stgs::Logger::Logger(std::optional&lt; std::filesystem::path &gt; filePath=std::nullopt, LogLevel minLevel=LogLevel::Info)'')]),
     (''logger_2ecpp_17'', ''Logger.cpp'', [(''../Logger_8cpp.html'', '''')]),
     (''logger_2ehpp_18'', ''Logger.hpp'', [(''../Logger_8hpp.html'', '''')]),
     (''loglevel_19'', ''loglevel'', [(''../namespacestgs.html#a2b4a335983593d5d8d599d58cd7ee203'', ''stgs::LogLevel''), (''../structstgs_1_1app_1_1ground__station_1_1Options.html#a3ac5b50d75e9f27157c8ecda7c902501'', ''stgs::app::ground_station::Options::logLevel'')]),
     (''logleveltostring_20'', ''logLevelToString'', [(''../namespacestgs.html#accc0b6ac907948c066bcc504da10d3cf'', ''stgs'')]),
     (''logtransition_21'', ''logTransition'', [(''../namespacestgs_1_1app_1_1ground__station.html#a78082cb7155ab90735f365ccd62a3846'', ''stgs::app::ground_station'')]),
     (''lossprobability_22'', ''lossProbability'', [(''../structstgs_1_1app_1_1simulator_1_1Options.html#af28305ade385c9c587b2870b3007feb2'', ''stgs::app::simulator::Options'')])]"

definition all_15 :: "search_entry list" where
  "all_15 = map search_text
    [(''magicoffset_0'', ''MagicOffset'', [(''../namespacestgs.html#a757b95ce3270c71e7dc8f14b9bf2fb09'', ''stgs'')]),
     (''magicsize_1'', ''MagicSize'', [(''../namespacestgs.html#a611696a65d9982545b6c8f4a7ad52a7c'', ''stgs'')]),
     (''main_2'', ''main'', [(''../ground__station_8cpp.html#a3c04138a5bfe5d72780bb7e82a18e627'', ''main(int argc, char **argv):&#160;ground_station.cpp''), (''../port__check_8cpp.html#a3c04138a5bfe5d72780bb7e82a18e627'', ''main(int argc, char **argv):&#160;port_check.cpp''), (''../satellite__simulator_8cpp.html#a3c04138a5bfe5d72780bb7e82a18e627'', ''main(int argc, char **argv):&#160;satellite_simulator.cpp''), (''../benchmark__decode_8cpp.html#a3c04138a5bfe5d72780bb7e82a18e627'', ''main(int argc, char **argv):&#160;benchmark_decode.cpp''), (''../test__main_8cpp.html#ae66f6b31b5ad750f1fe042a706a4e3d4'', ''main():&#160;test_main.cpp'')]),
     (''makeframe_3'', ''makeFrame'', [(''../namespacestgs_1_1app_1_1simulator.html#a3a1a7a1c5f19e37e5663378b5dafec76'', ''stgs::app::simulator'')]),
     (''manually_20choosing_20a_20port_4'', ''2. Start a station without manually choosing a port'', [(''../md_docs_2SHOWCASE__GUIDE.html#autotoc_md16'', '''')]),
     (''maxbatterypercent_5'', ''MaxBatteryPercent'', [(''../namespacestgs.html#aba4b69ba4fe228503afb9c70ac612014'', ''stgs'')]),
     (''maxdiagnosticportcount_6'', ''MaxDiagnosticPortCount'', [(''../namespacestgs.html#a3dae02625f8dcb392c6bdf2306f6708d'', ''stgs'')]),
     (''maxframesize_7'', ''MaxFrameSize'', [(''../namespacestgs.html#a16a992cbf9d7868da731e2c18db66d24'', ''stgs'')]),
     (''maximumnetworkport_8'', ''MaximumNetworkPort'', [(''../namespacestgs.html#a1df74eaa09da8b0d50bef1ea4d74575e'', ''stgs'')]),
     (''maximumportprobetimeout_9'', ''MaximumPortProbeTimeout'', [(''../namespacestgs.html#a1b13b828d8af37cb4d2b6e73d75fd096'', ''stgs'')]),
     (''maxpayloadsize_10'', ''MaxPayloadSize'', [(''../namespacestgs.html#a1af66b07a9f7e74447c61aa3d7719faa'', ''stgs'')]),
     (''maxsignalsamplesperpayload_11'', ''MaxSignalSamplesPerPayload'', [(''../namespacestgs.html#a29dc97fc78e89f1df44cd02919053489'', ''stgs'')]),
     (''maxtextmessagebytes_12'', ''MaxTextMessageBytes'', [(''../namespacestgs.html#a69bb77b6f23499a8d166dc42b041819e'', ''stgs'')]),
     (''maybecorrupt_13'', ''maybeCorrupt'', [(''../namespacestgs_1_1app_1_1simulator.html#a1570394fb5fc99051ce0874461046420'', ''stgs::app::simulator'')]),
     (''measurements_14'', ''3. Reference measurements'', [(''../md_docs_2PERFORMANCE__REPORT.html#autotoc_md3'', '''')]),
     (''message_15'', ''message'', [(''../md_README.html#autotoc_md59'', ''3. Send and display a text message''), (''../md_docs_2SHOWCASE__GUIDE.html#autotoc_md18'', ''4. Send a message''), (''../structstgs_1_1ApplicationPayloadError.html#a3f1a12bf18d116b6f0830f5ca14e23c9'', ''stgs::ApplicationPayloadError::message''), (''../structstgs_1_1FrameError.html#a1f6ef01ba7fe3979cc982adcfc9c1355'', ''stgs::FrameError::message''), (''../structstgs_1_1app_1_1simulator_1_1Options.html#a1d3c0c149798567a3db304d45c5b0156'', ''stgs::app::simulator::Options::message'')]),
     (''minframesize_16'', ''MinFrameSize'', [(''../namespacestgs.html#a8f70fc40ffc48a7269a7857135f6cd4b'', ''stgs'')]),
     (''minimumnetworkport_17'', ''MinimumNetworkPort'', [(''../namespacestgs.html#adc7a80912cd2e5324b630ac75b38f029'', ''stgs'')]),
     (''minsamples_18'', ''minSamples'', [(''../structstgs_1_1StationHealthConfig.html#aafa650fc61e9527fac8895a14a223502'', ''stgs::StationHealthConfig'')]),
     (''model_19'', ''15. Error model'', [(''../md_docs_2TECHNICAL__DESIGN.html#autotoc_md38'', '''')]),
     (''modulaire_20'', (''D'' @ [CHR 0xE9] @ ''coupage modulaire''), [(''../md_docs_2VERIFICATION__REPORT.html#autotoc_md48'', '''')]),
     (''monitoring_21'', ''10. Health monitoring'', [(''../md_README.html#autotoc_md67'', '''')]),
     (''monitoring_20and_20hysteresis_22'', ''13. Health monitoring and hysteresis'', [(''../md_docs_2TECHNICAL__DESIGN.html#autotoc_md36'', '''')]),
     (''movingaverage_23'', ''MovingAverage'', [(''../namespacestgs.html#ad6d6eb8010ca5d7fa98b1ab91ee2792cabba5c82c942bc0851f96137de06cac0d'', ''stgs'')]),
     (''movingaveragefilter_24'', ''movingAverageFilter'', [(''../namespacestgs.html#ab457496c4c0e42e80f6799eeca183c62'', ''stgs'')]),
     (''movingaveragewindow_25'', ''movingAverageWindow'', [(''../structstgs_1_1app_1_1ground__station_1_1Options.html#a7ece7909b32c1156eb3147d09f52b5da'', ''stgs::app::ground_station::Options'')]),
     (''multithreaded_20pipeline_26'', ''7. Deterministic multithreaded pipeline'', [(''../md_README.html#autotoc_md63'', '''')])]"

definition all_16 :: "search_entry list" where
  "all_16 = map search_text
    [(''networkconfig_0'', ''NetworkConfig'', [(''../structstgs_1_1NetworkConfig.html'', ''stgs'')]),
     (''networkserver_1'', ''networkserver'', [(''../classstgs_1_1NetworkServer.html'', ''stgs::NetworkServer''), (''../classstgs_1_1NetworkServer.html#a040e057f504e4a87d455afa9945c1a91'', ''stgs::NetworkServer::NetworkServer(NetworkConfig config, Logger &amp;logger)''), (''../classstgs_1_1NetworkServer.html#ab09894d06d7d697cfea64b997fcc67a6'', ''stgs::NetworkServer::NetworkServer(const NetworkServer &amp;)=delete'')]),
     (''networkserver_2ecpp_2'', ''NetworkServer.cpp'', [(''../NetworkServer_8cpp.html'', '''')]),
     (''networkserver_2ehpp_3'', ''NetworkServer.hpp'', [(''../NetworkServer_8hpp.html'', '''')]),
     (''networkservertcp_2ecpp_4'', ''NetworkServerTcp.cpp'', [(''../NetworkServerTcp_8cpp.html'', '''')]),
     (''networkserverudp_2ecpp_5'', ''NetworkServerUdp.cpp'', [(''../NetworkServerUdp_8cpp.html'', '''')]),
     (''noise_20and_20filtering_6'', ''10. Signal generation, noise and filtering'', [(''../md_docs_2TECHNICAL__DESIGN.html#autotoc_md33'', '''')]),
     (''noisestddev_7'', ''noiseStddev'', [(''../structstgs_1_1app_1_1simulator_1_1Options.html#aa4289ca08f488ca35e7686bc3f0fdea7'', ''stgs::app::simulator::Options'')]),
     (''noisy_20sampled_20wave_8'', ''5. Send a noisy sampled wave'', [(''../md_docs_2SHOWCASE__GUIDE.html#autotoc_md19'', '''')]),
     (''noisy_20wave_20and_20filter_20it_9'', ''4. Send a noisy wave and filter it'', [(''../md_README.html#autotoc_md60'', '''')]),
     (''nominal_10'', ''nominal'', [(''../namespacestgs.html#af145a1e8f5e0f55d9178bafa1faacb7ea8c28d7c312116b8a46e2f466cb33d5b4'', ''stgs::Nominal''), (''../namespacestgs.html#a61ca9382bebac8640e15d2338a9eb8afa8c28d7c312116b8a46e2f466cb33d5b4'', ''stgs::Nominal'')]),
     (''nominalamplitude_11'', ''nominalAmplitude'', [(''../structstgs_1_1SignalBlockPayload.html#ac47517beadc3128501e6f61f048d2476'', ''stgs::SignalBlockPayload'')]),
     (''none_12'', ''None'', [(''../namespacestgs.html#ad6d6eb8010ca5d7fa98b1ab91ee2792ca6adf97f83acf6453d4a6a4b1070f3754'', ''stgs'')]),
     (''nowiso8601_13'', ''nowIso8601'', [(''../namespacestgs.html#a13a8b54e63f390f2fc7dab36ab707743'', ''stgs'')])]"

definition all_17 :: "search_entry list" where
  "all_17 = map search_text
    [(''observability_0'', ''12. Terminal observability'', [(''../md_docs_2TECHNICAL__DESIGN.html#autotoc_md35'', '''')]),
     (''open_1'', ''Open'', [(''../namespacestgs.html#ab73dc2ebbed2d6799b14a329f2e691ccac3bf447eabe632720a3aa1a7ce401274'', ''stgs'')]),
     (''operator_3d_2'', ''operator='', [(''../classstgs_1_1FrameFileReader.html#a7f54cc817433632bc57c39085f888494'', ''stgs::FrameFileReader::operator=()''), (''../classstgs_1_1StationHealthMonitor.html#aec2f8d4a305fbebc45301c8694ba8959'', ''stgs::StationHealthMonitor::operator=()''), (''../classstgs_1_1FrameFileWriter.html#a1268da0afe7f54565be83425ebd519b4'', ''stgs::FrameFileWriter::operator=()''), (''../classstgs_1_1NetworkServer.html#a9c3d5ff114ff70a4ea45e821bbb3c2e2'', ''stgs::NetworkServer::operator=()''), (''../classstgs_1_1Logger.html#a15c2c176e8a116dc321e6b994ee0890b'', ''stgs::Logger::operator=()''), (''../classstgs_1_1BlockingQueue.html#adc149752576b540c84cad0354c77f5ab'', ''stgs::BlockingQueue::operator=()''), (''../classstgs_1_1app_1_1simulator_1_1SocketFd.html#a14fc650fec4dbfb8b75a5e4f184233cc'', ''stgs::app::simulator::SocketFd::operator=(SocketFd &amp;&amp;other) noexcept''), (''../classstgs_1_1app_1_1simulator_1_1SocketFd.html#aa94c44574c1380ab4d448e50b7a3bb59'', ''stgs::app::simulator::SocketFd::operator=(const SocketFd &amp;)=delete''), (''../classstgs_1_1app_1_1ground__station_1_1PosixSignalStopController.html#a2c95eeb061c8dbc9d0f203dabc2308cb'', ''stgs::app::ground_station::PosixSignalStopController::operator=()'')]),
     (''options_3'', ''options'', [(''../structstgs_1_1app_1_1ground__station_1_1Options.html'', ''stgs::app::ground_station::Options''), (''../structstgs_1_1app_1_1simulator_1_1Options.html'', ''stgs::app::simulator::Options'')]),
     (''output_4'', ''8. Bounded concurrent pipeline and deterministic output'', [(''../md_docs_2TECHNICAL__DESIGN.html#autotoc_md31'', '''')]),
     (''outputfile_5'', ''outputfile'', [(''../structstgs_1_1app_1_1ground__station_1_1Options.html#abd7f6e880ed55cccc524d39ae6e9aaa0'', ''stgs::app::ground_station::Options::outputFile''), (''../structstgs_1_1app_1_1simulator_1_1Options.html#aa8fdfd2781ad76a9005dc4903005b5a2'', ''stgs::app::simulator::Options::outputFile'')]),
     (''outputformat_6'', ''outputformat'', [(''../structstgs_1_1app_1_1ground__station_1_1Options.html#a117854d5ce0bd879e9574414e1e3a035'', ''stgs::app::ground_station::Options::outputFormat''), (''../namespacestgs_1_1app_1_1ground__station.html#a674f76aa6255d0fb1ffec19ffc6be19d'', ''stgs::app::ground_station::OutputFormat'')])]"

definition all_18 :: "search_entry list" where
  "all_18 = map search_text
    [(''parameters_0'', ''CRC parameters'', [(''../md_README.html#autotoc_md65'', '''')]),
     (''parseargs_1'', ''parseargs'', [(''../namespacestgs_1_1app_1_1simulator.html#adae5380ec0cd339bc25c7008d3f97b84'', ''stgs::app::simulator::parseArgs()''), (''../namespacestgs_1_1app_1_1ground__station.html#a310e8ff89b553d737d7d1ccdc9e91491'', ''stgs::app::ground_station::parseArgs()'')]),
     (''parsefinitedouble_2'', ''parseFiniteDouble'', [(''../namespacestgs.html#a9ccb3a36865cfcbbe10e28f57c0f6d75'', ''stgs'')]),
     (''parseloglevel_3'', ''parseLogLevel'', [(''../namespacestgs.html#ac58de0b5c818c56849a53133a7cf668f'', ''stgs'')]),
     (''parseportrange_4'', ''parsePortRange'', [(''../namespacestgs.html#a28244a59e980c9510ee6f8bc1e69809b'', ''stgs'')]),
     (''parseprobability_5'', ''parseProbability'', [(''../namespacestgs.html#a8bfe5e03446c5b8d5b62144ac66a6c5c'', ''stgs'')]),
     (''parseunsigned_6'', ''parseUnsigned'', [(''../namespacestgs.html#a31a7ad15af4ad9bb1401e9dcfd3e4bf7'', ''stgs'')]),
     (''payload_7'', ''payload'', [(''../md_docs_2TECHNICAL__DESIGN.html#autotoc_md32'', ''9. STGA application payload''), (''../structstgs_1_1TelemetryFrame.html#ad99064aad90f23a38c05cb6b2ca1307d'', ''stgs::TelemetryFrame::payload'')]),
     (''payload_3a_20stga_20v1_8'', ''9. Typed application payload: STGA v1'', [(''../md_README.html#autotoc_md66'', '''')]),
     (''payloadlengthoffset_9'', ''PayloadLengthOffset'', [(''../namespacestgs.html#a7a1768985c5683684967a231e347713f'', ''stgs'')]),
     (''payloadmode_10'', ''payloadmode'', [(''../structstgs_1_1app_1_1simulator_1_1Options.html#ab26b6b865425beca7aba61b486977675'', ''stgs::app::simulator::Options::payloadMode''), (''../namespacestgs_1_1app_1_1simulator.html#a9bc7b0135556745522ad9ee19f291609'', ''stgs::app::simulator::PayloadMode'')]),
     (''payloadmodename_11'', ''payloadModeName'', [(''../namespacestgs_1_1app_1_1simulator.html#aaa9d86b8b866d56f0454ad257bdd804c'', ''stgs::app::simulator'')]),
     (''payloadsize_12'', ''payloadSize'', [(''../structstgs_1_1app_1_1simulator_1_1Options.html#a23bf245219b5f8010eea0121a7a08168'', ''stgs::app::simulator::Options'')]),
     (''payloadtohex_13'', ''payloadToHex'', [(''../namespacestgs.html#a0a370d2a47008f84d40e430ccfa8b2f6'', ''stgs'')]),
     (''payloadtoolarge_14'', ''PayloadTooLarge'', [(''../namespacestgs.html#a6c3c97c875363adab257eb270bb20f14a0234a767e9c5c06cdaf290cc9b690b34'', ''stgs'')]),
     (''performance_20philosophy_15'', ''17. Performance philosophy'', [(''../md_docs_2TECHNICAL__DESIGN.html#autotoc_md40'', '''')]),
     (''performance_20report_3a_20space_20telemetry_20ground_20station_16'', ''Performance Report: Space Telemetry Ground Station'', [(''../md_docs_2PERFORMANCE__REPORT.html'', '''')]),
     (''performance_5freport_2emd_17'', ''PERFORMANCE_REPORT.md'', [(''../PERFORMANCE__REPORT_8md.html'', '''')]),
     (''philosophy_18'', ''17. Performance philosophy'', [(''../md_docs_2TECHNICAL__DESIGN.html#autotoc_md40'', '''')]),
     (''pipeline_19'', ''7. Deterministic multithreaded pipeline'', [(''../md_README.html#autotoc_md63'', '''')]),
     (''pipeline_20and_20deterministic_20output_20'', ''8. Bounded concurrent pipeline and deterministic output'', [(''../md_docs_2TECHNICAL__DESIGN.html#autotoc_md31'', '''')]),
     (''pipelinestats_21'', ''PipelineStats'', [(''../structstgs_1_1app_1_1ground__station_1_1PipelineStats.html'', ''stgs::app::ground_station'')]),
     (''point_20important_20pour_20une_20revue_20technique_22'', ''Point important pour une revue technique'', [(''../md_docs_2README__DOCUMENTATION.html#autotoc_md13'', '''')]),
     (''points_23'', ''7. Useful discussion points'', [(''../md_docs_2SHOWCASE__GUIDE.html#autotoc_md21'', '''')]),
     (''policy_24'', ''5. Frame decoding policy'', [(''../md_docs_2TECHNICAL__DESIGN.html#autotoc_md28'', '''')]),
     (''poll_20snapshot_20invariant_25'', ''7. TCP behavior and the poll snapshot invariant'', [(''../md_docs_2TECHNICAL__DESIGN.html#autotoc_md30'', '''')]),
     (''polltimeoutms_26'', ''pollTimeoutMs'', [(''../structstgs_1_1NetworkConfig.html#a679bc0335261b5c100972c157cda0e89'', ''stgs::NetworkConfig'')]),
     (''pop_27'', ''pop'', [(''../classstgs_1_1BlockingQueue.html#ac5bf4983522afa1caddc7e98571b9328'', ''stgs::BlockingQueue'')]),
     (''port_28'', ''port'', [(''../md_docs_2SHOWCASE__GUIDE.html#autotoc_md16'', ''2. Start a station without manually choosing a port''), (''../structstgs_1_1LocalPortAvailability.html#aaff1cb6f990bc5512b391372cf62f7a6'', ''stgs::LocalPortAvailability::port''), (''../structstgs_1_1app_1_1ground__station_1_1Options.html#af08e109d95e6b719ad2cb035b65dbc92'', ''stgs::app::ground_station::Options::port''), (''../structstgs_1_1app_1_1simulator_1_1Options.html#a7951170891c7cded1e481725cc6e83bb'', ''stgs::app::simulator::Options::port''), (''../structstgs_1_1NetworkConfig.html#ab7712921094db7ea02cd277895ac7ed5'', ''stgs::NetworkConfig::port''), (''../structstgs_1_1TcpPortProbeResult.html#aae24c39ee295cb28ddb49140150e0926'', ''stgs::TcpPortProbeResult::port'')]),
     (''port_20diagnostics_29'', ''11. Port diagnostics'', [(''../md_docs_2TECHNICAL__DESIGN.html#autotoc_md34'', '''')]),
     (''port_20selection_20and_20diagnostics_30'', ''2. Automatic local port selection and diagnostics'', [(''../md_README.html#autotoc_md58'', '''')]),
     (''port_5fcheck_2ecpp_31'', ''port_check.cpp'', [(''../port__check_8cpp.html'', '''')]),
     (''portdiagnostics_2ecpp_32'', ''PortDiagnostics.cpp'', [(''../PortDiagnostics_8cpp.html'', '''')]),
     (''portdiagnostics_2ehpp_33'', ''PortDiagnostics.hpp'', [(''../PortDiagnostics_8hpp.html'', '''')]),
     (''portrange_34'', ''PortRange'', [(''../structstgs_1_1PortRange.html'', ''stgs'')]),
     (''porttransport_35'', ''PortTransport'', [(''../namespacestgs.html#ab99ad0f4a1a1fb197aab95d7286a9a7e'', ''stgs'')]),
     (''posixsignalstopcontroller_36'', ''posixsignalstopcontroller'', [(''../classstgs_1_1app_1_1ground__station_1_1PosixSignalStopController.html'', ''stgs::app::ground_station::PosixSignalStopController''), (''../classstgs_1_1app_1_1ground__station_1_1PosixSignalStopController.html#ad5283ce2802135308bca0bb1904a8842'', ''stgs::app::ground_station::PosixSignalStopController::PosixSignalStopController(std::atomic_bool &amp;running)''), (''../classstgs_1_1app_1_1ground__station_1_1PosixSignalStopController.html#a580a72d1ab6060cec674e190273c78a9'', ''stgs::app::ground_station::PosixSignalStopController::PosixSignalStopController(const PosixSignalStopController &amp;)=delete'')]),
     (''posixsignalstopcontroller_2ecpp_37'', ''PosixSignalStopController.cpp'', [(''../PosixSignalStopController_8cpp.html'', '''')]),
     (''posixsignalstopcontroller_2ehpp_38'', ''PosixSignalStopController.hpp'', [(''../PosixSignalStopController_8hpp.html'', '''')]),
     (''pour_20une_20revue_20technique_39'', ''Point important pour une revue technique'', [(''../md_docs_2README__DOCUMENTATION.html#autotoc_md13'', '''')]),
     (''principales_20couvertes_40'', ''Commandes principales couvertes'', [(''../md_docs_2README__DOCUMENTATION.html#autotoc_md8'', '''')]),
     (''principles_20visible_20in_20the_20code_41'', ''Design principles visible in the code'', [(''../md_README.html#autotoc_md71'', '''')]),
     (''printusage_42'', ''printusage'', [(''../namespacestgs_1_1app_1_1ground__station.html#a42ae5cdfc32ceb72f4337d6f3bd641ef'', ''stgs::app::ground_station::printUsage()''), (''../namespacestgs_1_1app_1_1simulator.html#ac8da0b08da8261007c889cf3cd00dc22'', ''stgs::app::simulator::printUsage()'')]),
     (''probetcpport_43'', ''probeTcpPort'', [(''../namespacestgs.html#a31f0fdd245489f09a743aa8df55707df'', ''stgs'')]),
     (''processapplicationpayload_44'', ''processApplicationPayload'', [(''../namespacestgs_1_1app_1_1ground__station.html#a0d507efe3c231057079de3c7ca8c07ee'', ''stgs::app::ground_station'')]),
     (''project_20layout_45'', ''Project layout'', [(''../md_README.html#autotoc_md70'', '''')]),
     (''protocol_3a_20stgs_20v1_46'', ''8. Binary protocol: STGS v1'', [(''../md_README.html#autotoc_md64'', '''')]),
     (''protocolversion_47'', ''ProtocolVersion'', [(''../namespacestgs.html#a0d1e17892d860b10402bb02f014038cb'', ''stgs'')]),
     (''push_48'', ''push'', [(''../classstgs_1_1BlockingQueue.html#a814165c535141ce4b63eedac3f42ea35'', ''stgs::BlockingQueue'')])]"

definition all_19 :: "search_entry list" where
  "all_19 = map search_text
    [(''queuecapacity_0'', ''queueCapacity'', [(''../structstgs_1_1app_1_1ground__station_1_1Options.html#af4f4569cdd6e2ef65014f23ab009a256'', ''stgs::app::ground_station::Options'')])]"

definition all_1a :: "search_entry list" where
  "all_1a = map search_text
    [((''r'' @ [CHR 0xE9] @ ''el_0''), (''Sc'' @ [CHR 0xE9] @ ''nario r'' @ [CHR 0xE9] @ ''seau r'' @ [CHR 0xE9] @ ''el''), [(''../md_docs_2VERIFICATION__REPORT.html#autotoc_md49'', '''')]),
     ((''r'' @ [CHR 0xE9] @ ''seau_20r'' @ [CHR 0xE9] @ ''el_1''), (''Sc'' @ [CHR 0xE9] @ ''nario r'' @ [CHR 0xE9] @ ''seau r'' @ [CHR 0xE9] @ ''el''), [(''../md_docs_2VERIFICATION__REPORT.html#autotoc_md49'', '''')]),
     (''randombytes_2'', ''RandomBytes'', [(''../namespacestgs_1_1app_1_1simulator.html#a9bc7b0135556745522ad9ee19f291609aa2a9f0580597d09e92901548fc0ae105'', ''stgs::app::simulator'')]),
     (''range_3'', ''3. Diagnose the local range'', [(''../md_docs_2SHOWCASE__GUIDE.html#autotoc_md17'', '''')]),
     ((''rapport_20de_20v'' @ [CHR 0xE9] @ ''rification_20stgs_20'' @ [CHR 0x97] @ ''_20version_20vitrine_4''), (''Rapport de v'' @ [CHR 0xE9] @ ''rification STGS '' @ [CHR 0x97] @ '' version vitrine''), [(''../md_docs_2VERIFICATION__REPORT.html'', '''')]),
     (''rate_5'', ''rate'', [(''../structstgs_1_1app_1_1simulator_1_1Options.html#ad3d50e6da6ce383be89c4db416e787de'', ''stgs::app::simulator::Options'')]),
     (''rawrms_6'', ''rawRms'', [(''../structstgs_1_1SignalMetrics.html#a940db4bf6f9b1d67d3dee2dadde2c2aa'', ''stgs::SignalMetrics'')]),
     (''rawworkitem_7'', ''RawWorkItem'', [(''../structstgs_1_1app_1_1ground__station_1_1RawWorkItem.html'', ''stgs::app::ground_station'')]),
     (''readfloatbe_8'', ''readFloatBE'', [(''../namespacestgs_1_1detail.html#a43b10e016ab984cb5800e62c8e8eac0f'', ''stgs::detail'')]),
     (''readme_2emd_9'', ''README.md'', [(''../README_8md.html'', '''')]),
     (''readme_5fdocumentation_2emd_10'', ''README_DOCUMENTATION.md'', [(''../README__DOCUMENTATION_8md.html'', '''')]),
     (''readnext_11'', ''readNext'', [(''../classstgs_1_1FrameFileReader.html#ad50184679157d2609da98924b7d0d3ec'', ''stgs::FrameFileReader'')]),
     (''readu16be_12'', ''readU16BE'', [(''../namespacestgs_1_1detail.html#a5348b159392823cfed94d84a1632e3c0'', ''stgs::detail'')]),
     (''readu32be_13'', ''readU32BE'', [(''../namespacestgs_1_1detail.html#acf588485290204c5dbe14e3e3ca09da5'', ''stgs::detail'')]),
     (''readu64be_14'', ''readU64BE'', [(''../namespacestgs_1_1detail.html#aab1552667811a653b12c4bd02ddae7e9'', ''stgs::detail'')]),
     (''reason_15'', ''reason'', [(''../structstgs_1_1StationStateTransition.html#a3b9521ff26d6bb0277fd692a8585660e'', ''stgs::StationStateTransition'')]),
     (''received_16'', ''received'', [(''../structstgs_1_1app_1_1ground__station_1_1PipelineStats.html#a6bbf8a74c6e79decbbb0a40753524b8c'', ''stgs::app::ground_station::PipelineStats'')]),
     (''receivedmessage_17'', ''receivedMessage'', [(''../classstgs_1_1TerminalUi.html#a473df2d3fd1b2c88e11ff4e7cb09fcbd'', ''stgs::TerminalUi'')]),
     (''receivedsignal_18'', ''receivedSignal'', [(''../classstgs_1_1TerminalUi.html#ada2090e90ddbbfb3c414946682a62fd9'', ''stgs::TerminalUi'')]),
     (''recompiler_20les_20sources_20latex_19'', ''Recompiler les sources LaTeX'', [(''../md_docs_2README__DOCUMENTATION.html#autotoc_md12'', '''')]),
     (''recorddecoded_20'', ''recordDecoded'', [(''../classstgs_1_1StationHealthMonitor.html#a65cdc482ed61ecf137f9c1342359ee25'', ''stgs::StationHealthMonitor'')]),
     (''recordrejected_21'', ''recordRejected'', [(''../classstgs_1_1StationHealthMonitor.html#a0badd5e3d5c3368675151eb1bdd9f675'', ''stgs::StationHealthMonitor'')]),
     (''recoveryrejectionrate_22'', ''recoveryRejectionRate'', [(''../structstgs_1_1StationHealthConfig.html#a215d90fab1a3b094c89447b95931b05c'', ''stgs::StationHealthConfig'')]),
     (''reference_20measurements_23'', ''3. Reference measurements'', [(''../md_docs_2PERFORMANCE__REPORT.html#autotoc_md3'', '''')]),
     (''registerapplicationsignaltests_24'', ''registerApplicationSignalTests'', [(''../namespacestgs_1_1test.html#ac15836adf0f202565f19897f825e9459'', ''stgs::test'')]),
     (''registercodectests_25'', ''registerCodecTests'', [(''../namespacestgs_1_1test.html#a37925dfe5c629b8fb952a494927cb8e4'', ''stgs::test'')]),
     (''registernetworktests_26'', ''registerNetworkTests'', [(''../namespacestgs_1_1test.html#a6510cc8d707db0a73764a7b5da0f4afa'', ''stgs::test'')]),
     (''registerreplayhealthtests_27'', ''registerReplayHealthTests'', [(''../namespacestgs_1_1test.html#a41d470c6ed582556e1b0bc2667babddb'', ''stgs::test'')]),
     (''rejected_28'', ''rejected'', [(''../structstgs_1_1app_1_1ground__station_1_1PipelineStats.html#af20c52495ea4e9557834bb188761a541'', ''stgs::app::ground_station::PipelineStats::rejected''), (''../structstgs_1_1StationHealthSnapshot.html#aa162466ca72e25fa9388591a5816191b'', ''stgs::StationHealthSnapshot::rejected'')]),
     (''rejectionrate_29'', ''rejectionRate'', [(''../structstgs_1_1StationHealthSnapshot.html#a531393faf1e6b8670a9d458564e20447'', ''stgs::StationHealthSnapshot'')]),
     (''replay_30'', ''replay'', [(''../md_docs_2TECHNICAL__DESIGN.html#autotoc_md37'', ''14. STGF replay''), (''../md_README.html#autotoc_md62'', ''6. Capture and replay'')]),
     (''replay_2ecpp_31'', ''Replay.cpp'', [(''../Replay_8cpp.html'', '''')]),
     (''replay_2ehpp_32'', ''Replay.hpp'', [(''../Replay_8hpp.html'', '''')]),
     (''replayfile_33'', ''replayFile'', [(''../structstgs_1_1app_1_1ground__station_1_1Options.html#a109bbdd00184c8802f0ce2b084ff35ac'', ''stgs::app::ground_station::Options'')]),
     (''replayrate_34'', ''replayRate'', [(''../structstgs_1_1app_1_1ground__station_1_1Options.html#a9f159bf68cd950a84943d26e6dfc7bed'', ''stgs::app::ground_station::Options'')]),
     (''report_3a_20space_20telemetry_20ground_20station_35'', ''Performance Report: Space Telemetry Ground Station'', [(''../md_docs_2PERFORMANCE__REPORT.html'', '''')]),
     (''reproducibility_20checklist_36'', ''5. Reproducibility checklist'', [(''../md_docs_2PERFORMANCE__REPORT.html#autotoc_md5'', '''')]),
     (''requirements_37'', ''Requirements'', [(''../md_README.html#autotoc_md55'', '''')]),
     (''residualnoiserms_38'', ''residualNoiseRms'', [(''../structstgs_1_1SignalMetrics.html#ac9d4ed617c5141ac515a160a9dcaaf8e'', ''stgs::SignalMetrics'')]),
     (''resolveoutputformat_39'', ''resolveOutputFormat'', [(''../namespacestgs_1_1app_1_1ground__station.html#affad379af8c3fc0ea84ac38d73164582'', ''stgs::app::ground_station'')]),
     (''result_40'', ''result'', [(''../structstgs_1_1app_1_1ground__station_1_1DecodedWorkItem.html#a8cba3f9f7ba930fe5ae722b4d953fce8'', ''stgs::app::ground_station::DecodedWorkItem'')]),
     (''rethrowifpresent_41'', ''rethrowIfPresent'', [(''../classstgs_1_1app_1_1ground__station_1_1AsyncFailure.html#a954e8aad79cb6da0637af5f80f50695a'', ''stgs::app::ground_station::AsyncFailure'')]),
     (''rethrowthreaderror_42'', ''rethrowThreadError'', [(''../namespacestgs_1_1test.html#a1895bfde0ed8a5447448e60603f5ea07'', ''stgs::test'')]),
     (''revue_20technique_43'', ''Point important pour une revue technique'', [(''../md_docs_2README__DOCUMENTATION.html#autotoc_md13'', '''')]),
     (''run_44'', ''run'', [(''../namespacestgs_1_1app_1_1simulator.html#abd617338ab0f74c5f58570eff7308cb4'', ''stgs::app::simulator::run()''), (''../classstgs_1_1NetworkServer.html#a6acf0bea7fe9249345e6f096ccffa347'', ''stgs::NetworkServer::run()''), (''../namespacestgs_1_1app_1_1ground__station.html#a0a2153806b7da8fb962bffb9f7ce5d88'', ''stgs::app::ground_station::run()''), (''../classstgs_1_1app_1_1ground__station_1_1GroundStationPipeline.html#a26cb67946ac332611a4ca64dd1fbcea3'', ''stgs::app::ground_station::GroundStationPipeline::run()'')])]"

definition all_1b :: "search_entry list" where
  "all_1b = map search_text
    [(''safemode_0'', ''SafeMode'', [(''../namespacestgs.html#a61ca9382bebac8640e15d2338a9eb8afabe9942a71fc5150a76b9f61f281de1b9'', ''stgs'')]),
     (''sampled_20wave_1'', ''5. Send a noisy sampled wave'', [(''../md_docs_2SHOWCASE__GUIDE.html#autotoc_md19'', '''')]),
     (''sampleframe_2'', ''sampleFrame'', [(''../namespacestgs_1_1test.html#ae0b7a89f66739b8818b8cb70a43847a0'', ''stgs::test'')]),
     (''sampleratehz_3'', ''sampleratehz'', [(''../structstgs_1_1app_1_1simulator_1_1Options.html#a31f7c4dc336360f800ac4f4b553e00a5'', ''stgs::app::simulator::Options::sampleRateHz''), (''../structstgs_1_1SignalBlockPayload.html#ac4c8789330f8ad372a3fca1334bd1c23'', ''stgs::SignalBlockPayload::sampleRateHz'')]),
     (''samples_4'', ''samples'', [(''../structstgs_1_1SignalBlockPayload.html#acc005fc6b49bb551b8af112c85fe9a4f'', ''stgs::SignalBlockPayload::samples''), (''../structstgs_1_1StationHealthSnapshot.html#ac076771cb4b6b4382f3de6640f7ce96d'', ''stgs::StationHealthSnapshot::samples'')]),
     (''sanitizeremotetext_5'', ''sanitizeRemoteText'', [(''../classstgs_1_1TerminalUi.html#a2d3f47e6d3f62d5650686d67b6bfeef9'', ''stgs::TerminalUi'')]),
     (''sanitizers_6'', ''sanitizers'', [(''../md_README.html#autotoc_md68'', ''11. Testing and sanitizers''), (''../md_docs_2VERIFICATION__REPORT.html#autotoc_md46'', ''Sanitizers'')]),
     (''satellite_5fsimulator_2ecpp_7'', ''satellite_simulator.cpp'', [(''../satellite__simulator_8cpp.html'', '''')]),
     (''satelliteid_8'', ''satelliteid'', [(''../structstgs_1_1app_1_1simulator_1_1Options.html#afa7f9572268bc6705bae9331624e9f6c'', ''stgs::app::simulator::Options::satelliteId''), (''../structstgs_1_1TelemetryFrame.html#a7f471964a23c24e508e48ea1466ac4c9'', ''stgs::TelemetryFrame::satelliteId'')]),
     (''satelliteidoffset_9'', ''SatelliteIdOffset'', [(''../namespacestgs.html#aa8866bb9f2fbb06067d64f767c57f05c'', ''stgs'')]),
     ((''sc'' @ [CHR 0xE9] @ ''nario_20r'' @ [CHR 0xE9] @ ''seau_20r'' @ [CHR 0xE9] @ ''el_10''), (''Sc'' @ [CHR 0xE9] @ ''nario r'' @ [CHR 0xE9] @ ''seau r'' @ [CHR 0xE9] @ ''el''), [(''../md_docs_2VERIFICATION__REPORT.html#autotoc_md49'', '''')]),
     (''scantcpports_11'', ''scanTcpPorts'', [(''../namespacestgs.html#a53f008098655c7495554541d87b0872e'', ''stgs'')]),
     (''scope_12'', ''1. Scope'', [(''../md_docs_2PERFORMANCE__REPORT.html#autotoc_md1'', '''')]),
     (''scope_20and_20intent_13'', ''1. Scope and intent'', [(''../md_docs_2TECHNICAL__DESIGN.html#autotoc_md24'', '''')]),
     (''scope_20statement_14'', ''8. Scope statement'', [(''../md_docs_2SHOWCASE__GUIDE.html#autotoc_md22'', '''')]),
     (''section_15'', ''section'', [(''../classstgs_1_1TerminalUi.html#a47273df409944d53f44113a0b6953a22'', ''stgs::TerminalUi'')]),
     (''seed_16'', ''seed'', [(''../structstgs_1_1app_1_1simulator_1_1Options.html#a1a94dde0d2e6935b0bc83208e5326993'', ''stgs::app::simulator::Options'')]),
     (''selection_20and_20diagnostics_17'', ''2. Automatic local port selection and diagnostics'', [(''../md_README.html#autotoc_md58'', '''')]),
     (''send_20a_20message_18'', ''4. Send a message'', [(''../md_docs_2SHOWCASE__GUIDE.html#autotoc_md18'', '''')]),
     (''send_20a_20noisy_20sampled_20wave_19'', ''5. Send a noisy sampled wave'', [(''../md_docs_2SHOWCASE__GUIDE.html#autotoc_md19'', '''')]),
     (''send_20a_20noisy_20wave_20and_20filter_20it_20'', ''4. Send a noisy wave and filter it'', [(''../md_README.html#autotoc_md60'', '''')]),
     (''send_20and_20display_20a_20text_20message_21'', ''3. Send and display a text message'', [(''../md_README.html#autotoc_md59'', '''')]),
     (''sendall_22'', ''sendAll'', [(''../namespacestgs_1_1app_1_1simulator.html#a416941f121efdd1b7eee966bde5c0ad4'', ''stgs::app::simulator'')]),
     (''sendexact_23'', ''sendExact'', [(''../namespacestgs_1_1test.html#a679c47ac3889440f2332b350e2fe6dcf'', ''stgs::test'')]),
     (''sequence_24'', ''sequence'', [(''../structstgs_1_1TextMessagePayload.html#a74eb74e7d9d01d2335926dbd227d17f8'', ''stgs::TextMessagePayload::sequence''), (''../structstgs_1_1app_1_1ground__station_1_1RawWorkItem.html#afdd80733f6b0f098459da24c7cd82f81'', ''stgs::app::ground_station::RawWorkItem::sequence''), (''../structstgs_1_1app_1_1ground__station_1_1DecodedWorkItem.html#acc367717ff78c1d60024cb03205157d4'', ''stgs::app::ground_station::DecodedWorkItem::sequence'')]),
     (''setminlevel_25'', ''setMinLevel'', [(''../classstgs_1_1Logger.html#a7fdc082b00eb8327ed015b4478df616b'', ''stgs::Logger'')]),
     (''showcase_20guide_26'', ''STGS Showcase Guide'', [(''../md_docs_2SHOWCASE__GUIDE.html'', '''')]),
     (''showcase_5fguide_2emd_27'', ''SHOWCASE_GUIDE.md'', [(''../SHOWCASE__GUIDE_8md.html'', '''')]),
     (''signal_28'', ''Signal'', [(''../namespacestgs_1_1app_1_1simulator.html#a9bc7b0135556745522ad9ee19f291609a085fea7abdc5d904fe69a3081efd7398'', ''stgs::app::simulator'')]),
     (''signal_20generation_20noise_20and_20filtering_29'', ''10. Signal generation, noise and filtering'', [(''../md_docs_2TECHNICAL__DESIGN.html#autotoc_md33'', '''')]),
     (''signalamplitude_30'', ''signalAmplitude'', [(''../structstgs_1_1app_1_1simulator_1_1Options.html#aa3dfb2846769581622dfb17c2f9b0945'', ''stgs::app::simulator::Options'')]),
     (''signalblock_31'', ''SignalBlock'', [(''../namespacestgs.html#a9bdca5c4652fbfd0ea0d649134cc5e2ba2c22e731a28aff373ce68863d2628abc'', ''stgs'')]),
     (''signalblockfixedwiresize_32'', ''SignalBlockFixedWireSize'', [(''../namespacestgs.html#a5be2a744a7b57928b157df2f4b6babc3'', ''stgs'')]),
     (''signalblockpayload_33'', ''SignalBlockPayload'', [(''../structstgs_1_1SignalBlockPayload.html'', ''stgs'')]),
     (''signalfilter_34'', ''signalFilter'', [(''../structstgs_1_1app_1_1ground__station_1_1Options.html#ad5f9bcb7d6564a7b7f3e54e14d0eaf92'', ''stgs::app::ground_station::Options'')]),
     (''signalfiltermode_35'', ''SignalFilterMode'', [(''../namespacestgs.html#ad6d6eb8010ca5d7fa98b1ab91ee2792c'', ''stgs'')]),
     (''signalfiltermodetostring_36'', ''signalFilterModeToString'', [(''../namespacestgs.html#a50f2f8ec0839574a23fbf2fa3a7e2778'', ''stgs'')]),
     (''signalfrequencyhz_37'', ''signalFrequencyHz'', [(''../structstgs_1_1app_1_1simulator_1_1Options.html#a4d3951ffa0baa81bd61f96a269009dd4'', ''stgs::app::simulator::Options'')]),
     (''signalmetrics_38'', ''SignalMetrics'', [(''../structstgs_1_1SignalMetrics.html'', ''stgs'')]),
     (''signalprocessing_2ecpp_39'', ''SignalProcessing.cpp'', [(''../SignalProcessing_8cpp.html'', '''')]),
     (''signalprocessing_2ehpp_40'', ''SignalProcessing.hpp'', [(''../SignalProcessing_8hpp.html'', '''')]),
     (''signalsamples_41'', ''signalSamples'', [(''../structstgs_1_1app_1_1simulator_1_1Options.html#a46df4ae2374ceb30b18b559a064fbfcb'', ''stgs::app::simulator::Options'')]),
     (''signalsamplewiresize_42'', ''SignalSampleWireSize'', [(''../namespacestgs.html#a254c9e97079925357922b1b95e69d74f'', ''stgs'')]),
     (''simulateur_43'', ''Simulateur'', [(''../md_docs_2README__DOCUMENTATION.html#autotoc_md10'', '''')]),
     (''simulatorapp_2ecpp_44'', ''SimulatorApp.cpp'', [(''../SimulatorApp_8cpp.html'', '''')]),
     (''simulatorapp_2ehpp_45'', ''SimulatorApp.hpp'', [(''../SimulatorApp_8hpp.html'', '''')]),
     (''simulatorframefactory_2ecpp_46'', ''SimulatorFrameFactory.cpp'', [(''../SimulatorFrameFactory_8cpp.html'', '''')]),
     (''simulatorframefactory_2ehpp_47'', ''SimulatorFrameFactory.hpp'', [(''../SimulatorFrameFactory_8hpp.html'', '''')]),
     (''simulatoroptions_2ecpp_48'', ''SimulatorOptions.cpp'', [(''../SimulatorOptions_8cpp.html'', '''')]),
     (''simulatoroptions_2ehpp_49'', ''SimulatorOptions.hpp'', [(''../SimulatorOptions_8hpp.html'', '''')]),
     (''simulatorsocket_2ecpp_50'', ''SimulatorSocket.cpp'', [(''../SimulatorSocket_8cpp.html'', '''')]),
     (''simulatorsocket_2ehpp_51'', ''SimulatorSocket.hpp'', [(''../SimulatorSocket_8hpp.html'', '''')]),
     (''simulatorusage_2ecpp_52'', ''SimulatorUsage.cpp'', [(''../SimulatorUsage_8cpp.html'', '''')]),
     (''sincoefficient_53'', ''sinCoefficient'', [(''../SignalProcessing_8cpp.html#ab3e66d17e811e3952f9f74cc9f759bcf'', ''SignalProcessing.cpp'')]),
     (''sineprojection_54'', ''SineProjection'', [(''../namespacestgs.html#ad6d6eb8010ca5d7fa98b1ab91ee2792ca99d4f47a09480d4ead93b264ce3532bb'', ''stgs'')]),
     (''sineprojectionfilter_55'', ''sineProjectionFilter'', [(''../namespacestgs.html#a56200a6087e716885d56efa37b538687'', ''stgs'')]),
     (''size_56'', ''size'', [(''../classstgs_1_1BlockingQueue.html#a7bc22def269faad2dbaf661bf628991e'', ''stgs::BlockingQueue'')]),
     (''snapshot_57'', ''snapshot'', [(''../classstgs_1_1StationHealthMonitor.html#aad7088b2d36134d9fe303dfae3b4b585'', ''stgs::StationHealthMonitor::snapshot()''), (''../structstgs_1_1StationStateTransition.html#a1248dc626d4b84c6867b0325bee95a24'', ''stgs::StationStateTransition::snapshot'')]),
     (''snapshot_20invariant_58'', ''7. TCP behavior and the poll snapshot invariant'', [(''../md_docs_2TECHNICAL__DESIGN.html#autotoc_md30'', '''')]),
     (''socketfd_59'', ''socketfd'', [(''../classstgs_1_1app_1_1simulator_1_1SocketFd.html'', ''stgs::app::simulator::SocketFd''), (''../classstgs_1_1app_1_1simulator_1_1SocketFd.html#a2819ea4c0dbcc30d0833df100c821fc6'', ''stgs::app::simulator::SocketFd::SocketFd(int fd=-1) noexcept''), (''../classstgs_1_1app_1_1simulator_1_1SocketFd.html#a1f57a7e1382c7f71f7626e609d06d64d'', ''stgs::app::simulator::SocketFd::SocketFd(const SocketFd &amp;)=delete''), (''../classstgs_1_1app_1_1simulator_1_1SocketFd.html#a48a21e47a4456827842bfb7caf2e872f'', ''stgs::app::simulator::SocketFd::SocketFd(SocketFd &amp;&amp;other) noexcept'')]),
     (''sol_60'', ''Station sol'', [(''../md_docs_2README__DOCUMENTATION.html#autotoc_md9'', '''')]),
     (''sortie_61'', (''D'' @ [CHR 0xE9] @ ''terminisme et formats de sortie''), [(''../md_docs_2VERIFICATION__REPORT.html#autotoc_md50'', '''')]),
     (''sources_20latex_62'', ''Recompiler les sources LaTeX'', [(''../md_docs_2README__DOCUMENTATION.html#autotoc_md12'', '''')]),
     (''space_20telemetry_20ground_20station_63'', ''space telemetry ground station'', [(''../md_README.html'', ''C++ Space Telemetry Ground Station''), (''../md_docs_2PERFORMANCE__REPORT.html'', ''Performance Report: Space Telemetry Ground Station''), (''../md_docs_2TECHNICAL__DESIGN.html'', ''Technical Design: Space Telemetry Ground Station'')]),
     (''sparkline_64'', ''sparkline'', [(''../classstgs_1_1TerminalUi.html#aab7aa21c7536c3803bfac9d7ac70ef16'', ''stgs::TerminalUi'')]),
     (''start_20a_20station_20without_20manually_20choosing_20a_20port_65'', ''2. Start a station without manually choosing a port'', [(''../md_docs_2SHOWCASE__GUIDE.html#autotoc_md16'', '''')]),
     (''startsampleindex_66'', ''startSampleIndex'', [(''../structstgs_1_1SignalBlockPayload.html#a53686760a63a50567c62cb70bb6fe5d6'', ''stgs::SignalBlockPayload'')]),
     (''state_67'', ''state'', [(''../structstgs_1_1TcpPortProbeResult.html#a4ad18ed976e1f6df94ec358f40d32256'', ''stgs::TcpPortProbeResult::state''), (''../structstgs_1_1StationHealthSnapshot.html#a61fd8b5b83ce472ef2e205931c1b9f83'', ''stgs::StationHealthSnapshot::state''), (''../classstgs_1_1StationHealthMonitor.html#a2a6580a4fd3ae5885e1503d56ba19c8c'', ''stgs::StationHealthMonitor::state()'')]),
     (''statement_68'', ''8. Scope statement'', [(''../md_docs_2SHOWCASE__GUIDE.html#autotoc_md22'', '''')]),
     (''station_69'', ''station'', [(''../md_README.html'', ''C++ Space Telemetry Ground Station''), (''../md_docs_2PERFORMANCE__REPORT.html'', ''Performance Report: Space Telemetry Ground Station''), (''../md_docs_2TECHNICAL__DESIGN.html'', ''Technical Design: Space Telemetry Ground Station'')]),
     (''station_20sol_70'', ''Station sol'', [(''../md_docs_2README__DOCUMENTATION.html#autotoc_md9'', '''')]),
     (''station_20without_20manually_20choosing_20a_20port_71'', ''2. Start a station without manually choosing a port'', [(''../md_docs_2SHOWCASE__GUIDE.html#autotoc_md16'', '''')]),
     (''stationhealth_2ecpp_72'', ''StationHealth.cpp'', [(''../StationHealth_8cpp.html'', '''')]),
     (''stationhealth_2ehpp_73'', ''StationHealth.hpp'', [(''../StationHealth_8hpp.html'', '''')]),
     (''stationhealthconfig_74'', ''StationHealthConfig'', [(''../structstgs_1_1StationHealthConfig.html'', ''stgs'')]),
     (''stationhealthmonitor_75'', ''stationhealthmonitor'', [(''../classstgs_1_1StationHealthMonitor.html'', ''stgs::StationHealthMonitor''), (''../classstgs_1_1StationHealthMonitor.html#a5b331b0d4c6ef23f6b5539ef7acd86de'', ''stgs::StationHealthMonitor::StationHealthMonitor(StationHealthConfig config={})''), (''../classstgs_1_1StationHealthMonitor.html#adfccc996d2c348fc662491e15e7e9094'', ''stgs::StationHealthMonitor::StationHealthMonitor(const StationHealthMonitor &amp;)=delete'')]),
     (''stationhealthsnapshot_76'', ''StationHealthSnapshot'', [(''../structstgs_1_1StationHealthSnapshot.html'', ''stgs'')]),
     (''stationstate_77'', ''StationState'', [(''../namespacestgs.html#af145a1e8f5e0f55d9178bafa1faacb7e'', ''stgs'')]),
     (''stationstatetostring_78'', ''stationStateToString'', [(''../namespacestgs.html#aab97099af93b31681943b81e22a072f9'', ''stgs'')]),
     (''stationstatetransition_79'', ''StationStateTransition'', [(''../structstgs_1_1StationStateTransition.html'', ''stgs'')]),
     ((''statique_20compl'' @ [CHR 0xE9] @ ''mentaire_80''), (''Analyse statique compl'' @ [CHR 0xE9] @ ''mentaire''), [(''../md_docs_2VERIFICATION__REPORT.html#autotoc_md47'', '''')]),
     (''stats_81'', ''stats'', [(''../classstgs_1_1app_1_1ground__station_1_1GroundStationPipeline.html#a0ccdbc02e3cf4550017e0bc3cb7843eb'', ''stgs::app::ground_station::GroundStationPipeline'')]),
     (''status_82'', ''status'', [(''../structstgs_1_1TelemetryFrame.html#a823f07b9cf54cab10219ca4491c20435'', ''stgs::TelemetryFrame::status''), (''../namespacestgs.html#a61ca9382bebac8640e15d2338a9eb8af'', ''stgs::Status'')]),
     (''statusline_83'', ''statusLine'', [(''../classstgs_1_1TerminalUi.html#ad63a28060f9eab714bcdbd1a7b1e925a'', ''stgs::TerminalUi'')]),
     (''statusoffset_84'', ''StatusOffset'', [(''../namespacestgs.html#aec51795d1382632f3af398d04dfc7599'', ''stgs'')]),
     (''statustostring_85'', ''statusToString'', [(''../namespacestgs.html#ab4e19b7617cb12defb08493a6b3cdaff'', ''stgs'')]),
     (''stga_20application_20payload_86'', ''9. STGA application payload'', [(''../md_docs_2TECHNICAL__DESIGN.html#autotoc_md32'', '''')]),
     (''stga_20v1_87'', ''9. Typed application payload: STGA v1'', [(''../md_README.html#autotoc_md66'', '''')]),
     (''stgf_20replay_88'', ''14. STGF replay'', [(''../md_docs_2TECHNICAL__DESIGN.html#autotoc_md37'', '''')]),
     (''stgs_89'', ''stgs'', [(''../namespacestgs.html'', '''')]),
     ((''stgs_20'' @ [CHR 0x97] @ ''_20version_20vitrine_90''), (''Rapport de v'' @ [CHR 0xE9] @ ''rification STGS '' @ [CHR 0x97] @ '' version vitrine''), [(''../md_docs_2VERIFICATION__REPORT.html'', '''')]),
     (''stgs_20documentation_20d_20execution_91'', ''STGS - Documentation d&apos;execution'', [(''../md_docs_2README__DOCUMENTATION.html'', '''')]),
     (''stgs_20showcase_20guide_92'', ''STGS Showcase Guide'', [(''../md_docs_2SHOWCASE__GUIDE.html'', '''')]),
     (''stgs_20v1_93'', ''8. Binary protocol: STGS v1'', [(''../md_README.html#autotoc_md64'', '''')]),
     (''stgs_20v1_20wire_20format_94'', ''3. STGS v1 wire format'', [(''../md_docs_2TECHNICAL__DESIGN.html#autotoc_md26'', '''')]),
     (''stgs_3a_3aapp_95'', ''app'', [(''../namespacestgs_1_1app.html'', ''stgs'')]),
     (''stgs_3a_3aapp_3a_3aground_5fstation_96'', ''ground_station'', [(''../namespacestgs_1_1app_1_1ground__station.html'', ''stgs::app'')]),
     (''stgs_3a_3aapp_3a_3asimulator_97'', ''simulator'', [(''../namespacestgs_1_1app_1_1simulator.html'', ''stgs::app'')]),
     (''stgs_3a_3adetail_98'', ''detail'', [(''../namespacestgs_1_1detail.html'', ''stgs'')]),
     (''stgs_3a_3atest_99'', ''test'', [(''../namespacestgs_1_1test.html'', ''stgs'')]),
     (''stop_100'', ''stop'', [(''../classstgs_1_1NetworkServer.html#ad09bd13117e7641f80e89553a56af016'', ''stgs::NetworkServer'')]),
     (''strategy_101'', ''16. Testing strategy'', [(''../md_docs_2TECHNICAL__DESIGN.html#autotoc_md39'', '''')]),
     (''streamframeextractor_102'', ''StreamFrameExtractor'', [(''../classstgs_1_1StreamFrameExtractor.html'', ''stgs'')]),
     (''stricte_103'', ''Compilation stricte'', [(''../md_docs_2VERIFICATION__REPORT.html#autotoc_md44'', '''')]),
     (''success_104'', ''Success'', [(''../namespacestgs.html#aed082ae37dc19f30579b2d7981342c1ea505a83f220c02df2f85c3810cd9ceb38'', ''stgs'')])]"

definition all_1c :: "search_entry list" where
  "all_1c = map search_text
    [(''tcp_0'', ''tcp'', [(''../namespacestgs.html#adbb66f14d66c3f994511b242f7cdfbe6a30b7fdeebc36988717d0e274cc2e7520'', ''stgs::Tcp''), (''../namespacestgs.html#ab99ad0f4a1a1fb197aab95d7286a9a7ea30b7fdeebc36988717d0e274cc2e7520'', ''stgs::Tcp'')]),
     (''tcp_20behavior_20and_20the_20poll_20snapshot_20invariant_1'', ''7. TCP behavior and the poll snapshot invariant'', [(''../md_docs_2TECHNICAL__DESIGN.html#autotoc_md30'', '''')]),
     (''tcp_20telemetry_2'', ''1. Live TCP telemetry'', [(''../md_README.html#autotoc_md57'', '''')]),
     (''tcpportproberesult_3'', ''TcpPortProbeResult'', [(''../structstgs_1_1TcpPortProbeResult.html'', ''stgs'')]),
     (''tcpportstate_4'', ''TcpPortState'', [(''../namespacestgs.html#ab73dc2ebbed2d6799b14a329f2e691cc'', ''stgs'')]),
     (''tcpportstatetostring_5'', ''tcpPortStateToString'', [(''../namespacestgs.html#a076b443733c851d7d25ccbfb195d5771'', ''stgs'')]),
     (''technical_20design_3a_20space_20telemetry_20ground_20station_6'', ''Technical Design: Space Telemetry Ground Station'', [(''../md_docs_2TECHNICAL__DESIGN.html'', '''')]),
     (''technical_5fdesign_2emd_7'', ''TECHNICAL_DESIGN.md'', [(''../TECHNICAL__DESIGN_8md.html'', '''')]),
     (''technique_8'', ''Point important pour une revue technique'', [(''../md_docs_2README__DOCUMENTATION.html#autotoc_md13'', '''')]),
     (''telemetry_9'', ''telemetry'', [(''../md_README.html#autotoc_md57'', ''1. Live TCP telemetry''), (''../md_README.html#autotoc_md61'', ''5. UDP telemetry'')]),
     (''telemetry_20ground_20station_10'', ''telemetry ground station'', [(''../md_README.html'', ''C++ Space Telemetry Ground Station''), (''../md_docs_2PERFORMANCE__REPORT.html'', ''Performance Report: Space Telemetry Ground Station''), (''../md_docs_2TECHNICAL__DESIGN.html'', ''Technical Design: Space Telemetry Ground Station'')]),
     (''telemetryframe_11'', ''TelemetryFrame'', [(''../structstgs_1_1TelemetryFrame.html'', ''stgs'')]),
     (''telemetryframe_2ehpp_12'', ''TelemetryFrame.hpp'', [(''../TelemetryFrame_8hpp.html'', '''')]),
     (''telemetryoutput_13'', ''telemetryoutput'', [(''../classstgs_1_1app_1_1ground__station_1_1TelemetryOutput.html#af291968b2673d360296e1a7d9d162e41'', ''stgs::app::ground_station::TelemetryOutput::TelemetryOutput()''), (''../classstgs_1_1app_1_1ground__station_1_1TelemetryOutput.html'', ''stgs::app::ground_station::TelemetryOutput'')]),
     (''telemetryoutput_2ecpp_14'', ''TelemetryOutput.cpp'', [(''../TelemetryOutput_8cpp.html'', '''')]),
     (''telemetryoutput_2ehpp_15'', ''TelemetryOutput.hpp'', [(''../TelemetryOutput_8hpp.html'', '''')]),
     (''temperaturec_16'', ''temperatureC'', [(''../structstgs_1_1TelemetryFrame.html#ad9b76aa85f3c942dca16992a0e3359a6'', ''stgs::TelemetryFrame'')]),
     (''temperatureoffset_17'', ''TemperatureOffset'', [(''../namespacestgs.html#a6bf948dc56fd22c752bee7833ba8669b'', ''stgs'')]),
     (''terminal_20observability_18'', ''12. Terminal observability'', [(''../md_docs_2TECHNICAL__DESIGN.html#autotoc_md35'', '''')]),
     (''terminalstatus_19'', ''TerminalStatus'', [(''../namespacestgs.html#aed082ae37dc19f30579b2d7981342c1e'', ''stgs'')]),
     (''terminalui_20'', ''terminalui'', [(''../classstgs_1_1TerminalUi.html'', ''stgs::TerminalUi''), (''../classstgs_1_1TerminalUi.html#a0a67851409e5b8bfd80e6106ad908152'', ''stgs::TerminalUi::TerminalUi()'')]),
     (''terminalui_2ecpp_21'', ''TerminalUi.cpp'', [(''../TerminalUi_8cpp.html'', '''')]),
     (''terminalui_2ehpp_22'', ''TerminalUi.hpp'', [(''../TerminalUi_8hpp.html'', '''')]),
     (''test_5fapplication_5fsignal_2ecpp_23'', ''test_application_signal.cpp'', [(''../test__application__signal_8cpp.html'', '''')]),
     (''test_5fcodec_2ecpp_24'', ''test_codec.cpp'', [(''../test__codec_8cpp.html'', '''')]),
     (''test_5fmain_2ecpp_25'', ''test_main.cpp'', [(''../test__main_8cpp.html'', '''')]),
     (''test_5fnetwork_2ecpp_26'', ''test_network.cpp'', [(''../test__network_8cpp.html'', '''')]),
     (''test_5freplay_5fhealth_2ecpp_27'', ''test_replay_health.cpp'', [(''../test__replay__health_8cpp.html'', '''')]),
     (''testing_20and_20sanitizers_28'', ''11. Testing and sanitizers'', [(''../md_README.html#autotoc_md68'', '''')]),
     (''testing_20strategy_29'', ''16. Testing strategy'', [(''../md_docs_2TECHNICAL__DESIGN.html#autotoc_md39'', '''')]),
     (''testregistry_30'', ''TestRegistry'', [(''../namespacestgs_1_1test.html#af97d6ca686906b09206be3256f2dd619'', ''stgs::test'')]),
     (''tests_20diagnostic_20et_20benchmark_31'', ''Build, tests, diagnostic et benchmark'', [(''../md_docs_2README__DOCUMENTATION.html#autotoc_md11'', '''')]),
     ((''tests_20unitaires_20et_20d_20int'' @ [CHR 0xE9] @ ''gration_32''), (''Tests unitaires et d&apos;int'' @ [CHR 0xE9] @ ''gration''), [(''../md_docs_2VERIFICATION__REPORT.html#autotoc_md45'', '''')]),
     (''testsupport_2ecpp_33'', ''TestSupport.cpp'', [(''../TestSupport_8cpp.html'', '''')]),
     (''testsupport_2ehpp_34'', ''TestSupport.hpp'', [(''../TestSupport_8hpp.html'', '''')]),
     (''text_35'', ''text'', [(''../structstgs_1_1TextMessagePayload.html#aeb61a98826eced0f2e3708c7f9f40245'', ''stgs::TextMessagePayload'')]),
     (''text_20message_36'', ''3. Send and display a text message'', [(''../md_README.html#autotoc_md59'', '''')]),
     (''textmessage_37'', ''textmessage'', [(''../namespacestgs.html#a9bdca5c4652fbfd0ea0d649134cc5e2ba7c6780205e72574bf2c46ce408ad9144'', ''stgs::TextMessage''), (''../namespacestgs_1_1app_1_1simulator.html#a9bc7b0135556745522ad9ee19f291609a7c6780205e72574bf2c46ce408ad9144'', ''stgs::app::simulator::TextMessage'')]),
     (''textmessagefixedwiresize_38'', ''TextMessageFixedWireSize'', [(''../namespacestgs.html#ac10ffae257f2baf0aa6002c88dd1a4dc'', ''stgs'')]),
     (''textmessagepayload_39'', ''TextMessagePayload'', [(''../structstgs_1_1TextMessagePayload.html'', ''stgs'')]),
     (''the_20code_40'', ''Design principles visible in the code'', [(''../md_README.html#autotoc_md71'', '''')]),
     (''the_20local_20range_41'', ''3. Diagnose the local range'', [(''../md_docs_2SHOWCASE__GUIDE.html#autotoc_md17'', '''')]),
     (''the_20poll_20snapshot_20invariant_42'', ''7. TCP behavior and the poll snapshot invariant'', [(''../md_docs_2TECHNICAL__DESIGN.html#autotoc_md30'', '''')]),
     (''timeout_43'', ''Timeout'', [(''../namespacestgs.html#ab73dc2ebbed2d6799b14a329f2e691ccac85a251cc457840f1e032f1b733e9398'', ''stgs'')]),
     (''timestampms_44'', ''timestampMs'', [(''../structstgs_1_1TelemetryFrame.html#a6081ce170d96c1e13eaa8c4ca7160dd4'', ''stgs::TelemetryFrame'')]),
     (''timestampoffset_45'', ''TimestampOffset'', [(''../namespacestgs.html#a867f27d9ee6a3a3d335df03d00f13cd7'', ''stgs'')]),
     (''to_46'', ''to'', [(''../structstgs_1_1StationStateTransition.html#aa9cb317dd2dad860e2abc60e80e5c28f'', ''stgs::StationStateTransition'')]),
     (''tooshort_47'', ''TooShort'', [(''../namespacestgs.html#a6c3c97c875363adab257eb270bb20f14a6eee5d8d5a91916f53b80d55d9f9c83f'', ''stgs'')]),
     (''tostring_48'', ''toString'', [(''../namespacestgs.html#a8f567dceabc386f4dc5d2f139fae69ac'', ''stgs'')]),
     (''trace_49'', ''trace'', [(''../classstgs_1_1Logger.html#af61fa84f5e582f599b428efd3c283879'', ''stgs::Logger::trace()''), (''../namespacestgs.html#a2b4a335983593d5d8d599d58cd7ee203add4ec0ac4e58f7c32a01244ae91150b1'', ''stgs::Trace'')]),
     (''transport_50'', ''transport'', [(''../namespacestgs.html#adbb66f14d66c3f994511b242f7cdfbe6'', ''stgs::Transport''), (''../structstgs_1_1NetworkConfig.html#aabf99168958ae5f00024382e0e089aff'', ''stgs::NetworkConfig::transport''), (''../structstgs_1_1app_1_1simulator_1_1Options.html#ab17bc535171a0866e18711806b92c286'', ''stgs::app::simulator::Options::transport''), (''../structstgs_1_1app_1_1ground__station_1_1Options.html#a8363f2a4b199c5aac9eaee4ea56943c4'', ''stgs::app::ground_station::Options::transport'')]),
     (''transporttostring_51'', ''transportToString'', [(''../namespacestgs.html#a5c6b2b1538926a6420d12849fb22ff90'', ''stgs'')]),
     (''truncatedheader_52'', ''TruncatedHeader'', [(''../namespacestgs.html#a2aa48089627d210628f45038315de28aa5e63b9f767a2252ca59af743ed2121e0'', ''stgs'')]),
     (''typed_20application_20payload_3a_20stga_20v1_53'', ''9. Typed application payload: STGA v1'', [(''../md_README.html#autotoc_md66'', '''')])]"

definition all_1d :: "search_entry list" where
  "all_1d = map search_text
    [(''u16wiresize_0'', ''U16WireSize'', [(''../namespacestgs.html#af2586a68e7d836e1815c183ffd22bde5'', ''stgs'')]),
     (''u32wiresize_1'', ''U32WireSize'', [(''../namespacestgs.html#a07a576431ae9ee72b588a1f8bcf07b90'', ''stgs'')]),
     (''u64wiresize_2'', ''U64WireSize'', [(''../namespacestgs.html#a42fa9eaff75bb80aaa74602e62a4e280'', ''stgs'')]),
     (''u8wiresize_3'', ''U8WireSize'', [(''../namespacestgs.html#a417e7de760f578b8de7e6a218852157b'', ''stgs'')]),
     (''udp_4'', ''udp'', [(''../namespacestgs.html#adbb66f14d66c3f994511b242f7cdfbe6a81baba40274ccb30f9fdfa2c73cf0482'', ''stgs::Udp''), (''../namespacestgs.html#ab99ad0f4a1a1fb197aab95d7286a9a7ea81baba40274ccb30f9fdfa2c73cf0482'', ''stgs::Udp'')]),
     (''udp_20behavior_5'', ''6. UDP behavior'', [(''../md_docs_2TECHNICAL__DESIGN.html#autotoc_md29'', '''')]),
     (''udp_20telemetry_6'', ''5. UDP telemetry'', [(''../md_README.html#autotoc_md61'', '''')]),
     (''une_20revue_20technique_7'', ''Point important pour une revue technique'', [(''../md_docs_2README__DOCUMENTATION.html#autotoc_md13'', '''')]),
     ((''unitaires_20et_20d_20int'' @ [CHR 0xE9] @ ''gration_8''), (''Tests unitaires et d&apos;int'' @ [CHR 0xE9] @ ''gration''), [(''../md_docs_2VERIFICATION__REPORT.html#autotoc_md45'', '''')]),
     (''unknownkind_9'', ''UnknownKind'', [(''../namespacestgs.html#a2aa48089627d210628f45038315de28aa8da24985f13f84c15af0130f7decf4fd'', ''stgs'')]),
     (''unsupportedversion_10'', ''unsupportedversion'', [(''../namespacestgs.html#a2aa48089627d210628f45038315de28aa0f89bc98e9b12bdeda0604e57bdc0518'', ''stgs::UnsupportedVersion''), (''../namespacestgs.html#a6c3c97c875363adab257eb270bb20f14a0f89bc98e9b12bdeda0604e57bdc0518'', ''stgs::UnsupportedVersion'')]),
     (''useful_20discussion_20points_11'', ''7. Useful discussion points'', [(''../md_docs_2SHOWCASE__GUIDE.html#autotoc_md21'', '''')])]"

definition all_1e :: "search_entry list" where
  "all_1e = map search_text
    [((''v'' @ [CHR 0xE9] @ ''rification_20stgs_20'' @ [CHR 0x97] @ ''_20version_20vitrine_0''), (''Rapport de v'' @ [CHR 0xE9] @ ''rification STGS '' @ [CHR 0x97] @ '' version vitrine''), [(''../md_docs_2VERIFICATION__REPORT.html'', '''')]),
     (''v1_1'', ''v1'', [(''../md_README.html#autotoc_md64'', ''8. Binary protocol: STGS v1''), (''../md_README.html#autotoc_md66'', ''9. Typed application payload: STGA v1'')]),
     (''v1_20wire_20format_2'', ''3. STGS v1 wire format'', [(''../md_docs_2TECHNICAL__DESIGN.html#autotoc_md26'', '''')]),
     (''valid_3'', ''valid'', [(''../structstgs_1_1PortRange.html#a88a5c45197a3c12512d3421d91595005'', ''stgs::PortRange'')]),
     (''verbose_4'', ''verbose'', [(''../structstgs_1_1app_1_1ground__station_1_1Options.html#a95e20adab063bb991e0c9600a51cdcf6'', ''stgs::app::ground_station::Options'')]),
     (''verification_5freport_2emd_5'', ''VERIFICATION_REPORT.md'', [(''../VERIFICATION__REPORT_8md.html'', '''')]),
     (''version_6'', ''version'', [(''../structstgs_1_1TelemetryFrame.html#a84fa6dd941a4f0b48aba59cee10db1eb'', ''stgs::TelemetryFrame'')]),
     (''version_20vitrine_7'', (''Rapport de v'' @ [CHR 0xE9] @ ''rification STGS '' @ [CHR 0x97] @ '' version vitrine''), [(''../md_docs_2VERIFICATION__REPORT.html'', '''')]),
     (''versionoffset_8'', ''VersionOffset'', [(''../namespacestgs.html#a240e53eeabfe4e74494c85545996e589'', ''stgs'')]),
     (''visible_20in_20the_20code_9'', ''Design principles visible in the code'', [(''../md_README.html#autotoc_md71'', '''')]),
     (''vitrine_10'', (''Rapport de v'' @ [CHR 0xE9] @ ''rification STGS '' @ [CHR 0x97] @ '' version vitrine''), [(''../md_docs_2VERIFICATION__REPORT.html'', '''')])]"

definition all_1f :: "search_entry list" where
  "all_1f = map search_text
    [(''warning_0'', ''warning'', [(''../classstgs_1_1Logger.html#a4263b13735c24e070fc838460b83706e'', ''stgs::Logger::warning()''), (''../namespacestgs.html#a2b4a335983593d5d8d599d58cd7ee203a0eaadb4fcb48a0a0ed7bc9868be9fbaa'', ''stgs::Warning''), (''../namespacestgs.html#a61ca9382bebac8640e15d2338a9eb8afa0eaadb4fcb48a0a0ed7bc9868be9fbaa'', ''stgs::Warning''), (''../namespacestgs.html#aed082ae37dc19f30579b2d7981342c1ea0eaadb4fcb48a0a0ed7bc9868be9fbaa'', ''stgs::Warning'')]),
     (''wave_1'', ''5. Send a noisy sampled wave'', [(''../md_docs_2SHOWCASE__GUIDE.html#autotoc_md19'', '''')]),
     (''wave_20and_20filter_20it_2'', ''4. Send a noisy wave and filter it'', [(''../md_README.html#autotoc_md60'', '''')]),
     (''width_3'', ''width'', [(''../classstgs_1_1TerminalUi.html#afc01eb85687a08fdd054b43ddb1d4aaf'', ''stgs::TerminalUi'')]),
     (''windowsize_4'', ''windowSize'', [(''../structstgs_1_1StationHealthConfig.html#a108f344fdd31a19251f1f61175473aa2'', ''stgs::StationHealthConfig'')]),
     (''wire_20format_5'', ''3. STGS v1 wire format'', [(''../md_docs_2TECHNICAL__DESIGN.html#autotoc_md26'', '''')]),
     (''without_20manually_20choosing_20a_20port_6'', ''2. Start a station without manually choosing a port'', [(''../md_docs_2SHOWCASE__GUIDE.html#autotoc_md16'', '''')]),
     (''write_7'', ''write'', [(''../classstgs_1_1app_1_1ground__station_1_1TelemetryOutput.html#a2200f5da81f2729c086e7d23d04dc17c'', ''stgs::app::ground_station::TelemetryOutput'')]),
     (''writeframe_8'', ''writeFrame'', [(''../classstgs_1_1FrameFileWriter.html#a425eebf56934d2040d25e97e4927376b'', ''stgs::FrameFileWriter'')]),
     (''written_9'', ''written'', [(''../structstgs_1_1app_1_1ground__station_1_1PipelineStats.html#a9f92711ffde274ded4201f9ec3280dc4'', ''stgs::app::ground_station::PipelineStats'')])]"

definition all_20 :: "search_entry list" where
  "all_20 = map search_text
    [(''_7eframefilewriter_0'', ''~FrameFileWriter'', [(''../classstgs_1_1FrameFileWriter.html#a18792af70da7ee23ef2b0c1f5be048ef'', ''stgs::FrameFileWriter'')]),
     (''_7elogger_1'', ''~Logger'', [(''../classstgs_1_1Logger.html#a8923e46f2e833497f0d0f2a0840ecb28'', ''stgs::Logger'')]),
     (''_7enetworkserver_2'', ''~NetworkServer'', [(''../classstgs_1_1NetworkServer.html#a2302471470abe37838539a0bf3483787'', ''stgs::NetworkServer'')]),
     (''_7eposixsignalstopcontroller_3'', ''~PosixSignalStopController'', [(''../classstgs_1_1app_1_1ground__station_1_1PosixSignalStopController.html#a08a5c6ee97beb43756078229139dd571'', ''stgs::app::ground_station::PosixSignalStopController'')]),
     (''_7esocketfd_4'', ''~SocketFd'', [(''../classstgs_1_1app_1_1simulator_1_1SocketFd.html#af03e179687fc4e5ca2b29c07b6fa70eb'', ''stgs::app::simulator::SocketFd'')])]"

definition all_21 :: "search_entry list" where
  "all_21 = map search_text
    [(([CHR 0x97] @ ''_20version_20vitrine_0''), (''Rapport de v'' @ [CHR 0xE9] @ ''rification STGS '' @ [CHR 0x97] @ '' version vitrine''), [(''../md_docs_2VERIFICATION__REPORT.html'', '''')])]"

definition classes_0 :: "search_entry list" where
  "classes_0 = map search_text
    [(''applicationpayloaderror_0'', ''ApplicationPayloadError'', [(''../structstgs_1_1ApplicationPayloadError.html'', ''stgs'')]),
     (''asyncfailure_1'', ''AsyncFailure'', [(''../classstgs_1_1app_1_1ground__station_1_1AsyncFailure.html'', ''stgs::app::ground_station'')])]"

definition classes_1 :: "search_entry list" where
  "classes_1 = map search_text
    [(''blockingqueue_0'', ''BlockingQueue'', [(''../classstgs_1_1BlockingQueue.html'', ''stgs'')]),
     (''blockingqueue_3c_20stgs_3a_3aapp_3a_3aground_5fstation_3a_3adecodedworkitem_20_3e_1'', ''BlockingQueue&lt; stgs::app::ground_station::DecodedWorkItem &gt;'', [(''../classstgs_1_1BlockingQueue.html'', ''stgs'')]),
     (''blockingqueue_3c_20stgs_3a_3aapp_3a_3aground_5fstation_3a_3arawworkitem_20_3e_2'', ''BlockingQueue&lt; stgs::app::ground_station::RawWorkItem &gt;'', [(''../classstgs_1_1BlockingQueue.html'', ''stgs'')])]"

definition classes_2 :: "search_entry list" where
  "classes_2 = map search_text
    [(''decodedworkitem_0'', ''DecodedWorkItem'', [(''../structstgs_1_1app_1_1ground__station_1_1DecodedWorkItem.html'', ''stgs::app::ground_station'')])]"

definition classes_3 :: "search_entry list" where
  "classes_3 = map search_text
    [(''frameerror_0'', ''FrameError'', [(''../structstgs_1_1FrameError.html'', ''stgs'')]),
     (''framefilereader_1'', ''FrameFileReader'', [(''../classstgs_1_1FrameFileReader.html'', ''stgs'')]),
     (''framefilewriter_2'', ''FrameFileWriter'', [(''../classstgs_1_1FrameFileWriter.html'', ''stgs'')])]"

definition classes_4 :: "search_entry list" where
  "classes_4 = map search_text
    [(''groundstationpipeline_0'', ''GroundStationPipeline'', [(''../classstgs_1_1app_1_1ground__station_1_1GroundStationPipeline.html'', ''stgs::app::ground_station'')])]"

definition classes_5 :: "search_entry list" where
  "classes_5 = map search_text
    [(''localportavailability_0'', ''LocalPortAvailability'', [(''../structstgs_1_1LocalPortAvailability.html'', ''stgs'')]),
     (''logger_1'', ''Logger'', [(''../classstgs_1_1Logger.html'', ''stgs'')])]"

definition classes_6 :: "search_entry list" where
  "classes_6 = map search_text
    [(''networkconfig_0'', ''NetworkConfig'', [(''../structstgs_1_1NetworkConfig.html'', ''stgs'')]),
     (''networkserver_1'', ''NetworkServer'', [(''../classstgs_1_1NetworkServer.html'', ''stgs'')])]"

definition classes_7 :: "search_entry list" where
  "classes_7 = map search_text
    [(''options_0'', ''options'', [(''../structstgs_1_1app_1_1ground__station_1_1Options.html'', ''stgs::app::ground_station::Options''), (''../structstgs_1_1app_1_1simulator_1_1Options.html'', ''stgs::app::simulator::Options'')])]"

definition classes_8 :: "search_entry list" where
  "classes_8 = map search_text
    [(''pipelinestats_0'', ''PipelineStats'', [(''../structstgs_1_1app_1_1ground__station_1_1PipelineStats.html'', ''stgs::app::ground_station'')]),
     (''portrange_1'', ''PortRange'', [(''../structstgs_1_1PortRange.html'', ''stgs'')]),
     (''posixsignalstopcontroller_2'', ''PosixSignalStopController'', [(''../classstgs_1_1app_1_1ground__station_1_1PosixSignalStopController.html'', ''stgs::app::ground_station'')])]"

definition classes_9 :: "search_entry list" where
  "classes_9 = map search_text
    [(''rawworkitem_0'', ''RawWorkItem'', [(''../structstgs_1_1app_1_1ground__station_1_1RawWorkItem.html'', ''stgs::app::ground_station'')])]"

definition classes_a :: "search_entry list" where
  "classes_a = map search_text
    [(''signalblockpayload_0'', ''SignalBlockPayload'', [(''../structstgs_1_1SignalBlockPayload.html'', ''stgs'')]),
     (''signalmetrics_1'', ''SignalMetrics'', [(''../structstgs_1_1SignalMetrics.html'', ''stgs'')]),
     (''socketfd_2'', ''SocketFd'', [(''../classstgs_1_1app_1_1simulator_1_1SocketFd.html'', ''stgs::app::simulator'')]),
     (''stationhealthconfig_3'', ''StationHealthConfig'', [(''../structstgs_1_1StationHealthConfig.html'', ''stgs'')]),
     (''stationhealthmonitor_4'', ''StationHealthMonitor'', [(''../classstgs_1_1StationHealthMonitor.html'', ''stgs'')]),
     (''stationhealthsnapshot_5'', ''StationHealthSnapshot'', [(''../structstgs_1_1StationHealthSnapshot.html'', ''stgs'')]),
     (''stationstatetransition_6'', ''StationStateTransition'', [(''../structstgs_1_1StationStateTransition.html'', ''stgs'')]),
     (''streamframeextractor_7'', ''StreamFrameExtractor'', [(''../classstgs_1_1StreamFrameExtractor.html'', ''stgs'')])]"

definition classes_b :: "search_entry list" where
  "classes_b = map search_text
    [(''tcpportproberesult_0'', ''TcpPortProbeResult'', [(''../structstgs_1_1TcpPortProbeResult.html'', ''stgs'')]),
     (''telemetryframe_1'', ''TelemetryFrame'', [(''../structstgs_1_1TelemetryFrame.html'', ''stgs'')]),
     (''telemetryoutput_2'', ''TelemetryOutput'', [(''../classstgs_1_1app_1_1ground__station_1_1TelemetryOutput.html'', ''stgs::app::ground_station'')]),
     (''terminalui_3'', ''TerminalUi'', [(''../classstgs_1_1TerminalUi.html'', ''stgs'')]),
     (''textmessagepayload_4'', ''TextMessagePayload'', [(''../structstgs_1_1TextMessagePayload.html'', ''stgs'')])]"

definition namespaces_0 :: "search_entry list" where
  "namespaces_0 = map search_text
    [(''stgs_0'', ''stgs'', [(''../namespacestgs.html'', '''')]),
     (''stgs_3a_3aapp_1'', ''app'', [(''../namespacestgs_1_1app.html'', ''stgs'')]),
     (''stgs_3a_3aapp_3a_3aground_5fstation_2'', ''ground_station'', [(''../namespacestgs_1_1app_1_1ground__station.html'', ''stgs::app'')]),
     (''stgs_3a_3aapp_3a_3asimulator_3'', ''simulator'', [(''../namespacestgs_1_1app_1_1simulator.html'', ''stgs::app'')]),
     (''stgs_3a_3adetail_4'', ''detail'', [(''../namespacestgs_1_1detail.html'', ''stgs'')]),
     (''stgs_3a_3atest_5'', ''test'', [(''../namespacestgs_1_1test.html'', ''stgs'')])]"

definition pages_0 :: "search_entry list" where
  "pages_0 = map search_text
    [(''c_20space_20telemetry_20ground_20station_0'', ''C++ Space Telemetry Ground Station'', [(''../md_README.html'', '''')])]"

definition pages_1 :: "search_entry list" where
  "pages_1 = map search_text
    [(''d_20execution_0'', ''STGS - Documentation d&apos;execution'', [(''../md_docs_2README__DOCUMENTATION.html'', '''')]),
     ((''de_20v'' @ [CHR 0xE9] @ ''rification_20stgs_20'' @ [CHR 0x97] @ ''_20version_20vitrine_1''), (''Rapport de v'' @ [CHR 0xE9] @ ''rification STGS '' @ [CHR 0x97] @ '' version vitrine''), [(''../md_docs_2VERIFICATION__REPORT.html'', '''')]),
     (''design_3a_20space_20telemetry_20ground_20station_2'', ''Technical Design: Space Telemetry Ground Station'', [(''../md_docs_2TECHNICAL__DESIGN.html'', '''')]),
     (''documentation_20d_20execution_3'', ''STGS - Documentation d&apos;execution'', [(''../md_docs_2README__DOCUMENTATION.html'', '''')])]"

definition pages_2 :: "search_entry list" where
  "pages_2 = map search_text
    [(''execution_0'', ''STGS - Documentation d&apos;execution'', [(''../md_docs_2README__DOCUMENTATION.html'', '''')])]"

definition pages_3 :: "search_entry list" where
  "pages_3 = map search_text
    [(''ground_20station_0'', ''ground station'', [(''../md_README.html'', ''C++ Space Telemetry Ground Station''), (''../md_docs_2PERFORMANCE__REPORT.html'', ''Performance Report: Space Telemetry Ground Station''), (''../md_docs_2TECHNICAL__DESIGN.html'', ''Technical Design: Space Telemetry Ground Station'')]),
     (''guide_1'', ''STGS Showcase Guide'', [(''../md_docs_2SHOWCASE__GUIDE.html'', '''')])]"

definition pages_4 :: "search_entry list" where
  "pages_4 = map search_text
    [(''performance_20report_3a_20space_20telemetry_20ground_20station_0'', ''Performance Report: Space Telemetry Ground Station'', [(''../md_docs_2PERFORMANCE__REPORT.html'', '''')])]"

definition pages_5 :: "search_entry list" where
  "pages_5 = map search_text
    [((''rapport_20de_20v'' @ [CHR 0xE9] @ ''rification_20stgs_20'' @ [CHR 0x97] @ ''_20version_20vitrine_0''), (''Rapport de v'' @ [CHR 0xE9] @ ''rification STGS '' @ [CHR 0x97] @ '' version vitrine''), [(''../md_docs_2VERIFICATION__REPORT.html'', '''')]),
     (''report_3a_20space_20telemetry_20ground_20station_1'', ''Performance Report: Space Telemetry Ground Station'', [(''../md_docs_2PERFORMANCE__REPORT.html'', '''')])]"

definition pages_6 :: "search_entry list" where
  "pages_6 = map search_text
    [(''showcase_20guide_0'', ''STGS Showcase Guide'', [(''../md_docs_2SHOWCASE__GUIDE.html'', '''')]),
     (''space_20telemetry_20ground_20station_1'', ''space telemetry ground station'', [(''../md_README.html'', ''C++ Space Telemetry Ground Station''), (''../md_docs_2PERFORMANCE__REPORT.html'', ''Performance Report: Space Telemetry Ground Station''), (''../md_docs_2TECHNICAL__DESIGN.html'', ''Technical Design: Space Telemetry Ground Station'')]),
     (''station_2'', ''station'', [(''../md_README.html'', ''C++ Space Telemetry Ground Station''), (''../md_docs_2PERFORMANCE__REPORT.html'', ''Performance Report: Space Telemetry Ground Station''), (''../md_docs_2TECHNICAL__DESIGN.html'', ''Technical Design: Space Telemetry Ground Station'')]),
     ((''stgs_20'' @ [CHR 0x97] @ ''_20version_20vitrine_3''), (''Rapport de v'' @ [CHR 0xE9] @ ''rification STGS '' @ [CHR 0x97] @ '' version vitrine''), [(''../md_docs_2VERIFICATION__REPORT.html'', '''')]),
     (''stgs_20documentation_20d_20execution_4'', ''STGS - Documentation d&apos;execution'', [(''../md_docs_2README__DOCUMENTATION.html'', '''')]),
     (''stgs_20showcase_20guide_5'', ''STGS Showcase Guide'', [(''../md_docs_2SHOWCASE__GUIDE.html'', '''')])]"

definition pages_7 :: "search_entry list" where
  "pages_7 = map search_text
    [(''technical_20design_3a_20space_20telemetry_20ground_20station_0'', ''Technical Design: Space Telemetry Ground Station'', [(''../md_docs_2TECHNICAL__DESIGN.html'', '''')]),
     (''telemetry_20ground_20station_1'', ''telemetry ground station'', [(''../md_README.html'', ''C++ Space Telemetry Ground Station''), (''../md_docs_2PERFORMANCE__REPORT.html'', ''Performance Report: Space Telemetry Ground Station''), (''../md_docs_2TECHNICAL__DESIGN.html'', ''Technical Design: Space Telemetry Ground Station'')])]"

definition pages_8 :: "search_entry list" where
  "pages_8 = map search_text
    [((''v'' @ [CHR 0xE9] @ ''rification_20stgs_20'' @ [CHR 0x97] @ ''_20version_20vitrine_0''), (''Rapport de v'' @ [CHR 0xE9] @ ''rification STGS '' @ [CHR 0x97] @ '' version vitrine''), [(''../md_docs_2VERIFICATION__REPORT.html'', '''')]),
     (''version_20vitrine_1'', (''Rapport de v'' @ [CHR 0xE9] @ ''rification STGS '' @ [CHR 0x97] @ '' version vitrine''), [(''../md_docs_2VERIFICATION__REPORT.html'', '''')]),
     (''vitrine_2'', (''Rapport de v'' @ [CHR 0xE9] @ ''rification STGS '' @ [CHR 0x97] @ '' version vitrine''), [(''../md_docs_2VERIFICATION__REPORT.html'', '''')])]"

definition pages_9 :: "search_entry list" where
  "pages_9 = map search_text
    [(([CHR 0x97] @ ''_20version_20vitrine_0''), (''Rapport de v'' @ [CHR 0xE9] @ ''rification STGS '' @ [CHR 0x97] @ '' version vitrine''), [(''../md_docs_2VERIFICATION__REPORT.html'', '''')])]"

definition text_index :: "(int \<times> search_entry list list) list" where
  "text_index =
    [(0, [all_0, all_1, all_2, all_3, all_4, all_5, all_6, all_7, all_8, all_9, all_a, all_b, all_c, all_d, all_e, all_f, 
       all_10, all_11, all_12, all_13, all_14, all_15, all_16, all_17, all_18, all_19, all_1a, all_1b, all_1c, all_1d, 
       all_1e, all_1f, all_20, all_21]),
     (1, [classes_0, classes_1, classes_2, classes_3, classes_4, classes_5, classes_6, classes_7, classes_8, classes_9, 
       classes_a, classes_b]),
     (2, [namespaces_0]),
     (10, [pages_0, pages_1, pages_2, pages_3, pages_4, pages_5, pages_6, pages_7, pages_8, pages_9])]"

end
