(* ===== verification/Search_Words.thy ===== *)
theory Search_Words
  imports Search_Index_Correct Search_Index_All
begin

text \<open>
  Words with spaces and the characters outside ASCII that occur in headings: what a search for them
  requests and shows, and how an index file is checked against the file of the section \<open>all\<close> for the
  same character.
\<close>

section \<open>Words\<close>

text \<open>The characters of words, and texts that can be typed as they are: no space at either end.\<close>

definition text_char :: "u16 \<Rightarrow> bool" where
  "text_char c \<longleftrightarrow> c < 0x80 \<or> c = 0xE9 \<or> c = 0xF4 \<or> c = 0x2014"

definition typable :: "jsstring \<Rightarrow> bool" where
  "typable s \<longleftrightarrow> s \<noteq> [] \<and> hd s \<noteq> space \<and> last s \<noteq> space \<and> list_all text_char s"

text \<open>What ECMAScript says of \<open>toLowerCase\<close> on such texts: the three characters outside ASCII have no capitals
  among them.\<close>

definition lower_text :: "(jsstring \<Rightarrow> jsstring) \<Rightarrow> bool" where
  "lower_text lower \<longleftrightarrow> (\<forall>s. list_all text_char s \<longrightarrow> lower s = ascii_lower s)"

lemma ascii_lower_map: "ascii_lower s = map lower16 s"
  by (simp add: ascii_lower_def lower16_def)

lemma lower16_space: "lower16 c = space \<longleftrightarrow> c = space"
proof -
  have "lower16 c \<noteq> space" if "0x41 \<le> c" "c \<le> 0x5A"
  proof -
    have "unat (c + 0x20) = unat c + 32" using that by (simp add: word_le_nat_alt unat_word_ariths)
    then have "unat (lower16 c) \<noteq> unat (space :: u16)" using that by (simp add: lower16_def word_le_nat_alt)
    then show ?thesis by auto
  qed
  moreover have "lower16 c = c" if "\<not> (0x41 \<le> c \<and> c \<le> 0x5A)" using that by (auto simp: lower16_def)
  moreover have "\<not> (0x41 \<le> (space :: u16) \<and> space \<le> (0x5A :: u16))" by simp
  ultimately show ?thesis by metis
qed

lemma lower16_text: "text_char (lower16 c) \<Longrightarrow> text_char c"
  by (auto simp: text_char_def lower16_def word_less_nat_alt word_le_nat_alt split: if_splits)

lemma typable_lower: "typable (ascii_lower s) \<Longrightarrow> typable s"
  unfolding typable_def ascii_lower_map
  by (auto simp: hd_map last_map lower16_space list_all_iff intro: lower16_text)

lemma typable_strip: "typable s \<Longrightarrow> strip_leading s = s" "typable s \<Longrightarrow> strip_trailing s = s"
proof -
  assume s: "typable s"
  then show "strip_leading s = s" by (cases s) (simp_all add: strip_leading_def typable_def)
  from s have "rev s \<noteq> []" "hd (rev s) \<noteq> space" by (simp_all add: typable_def hd_rev)
  then have "dropWhile (\<lambda>c. c = space) (rev s) = rev s" by (cases "rev s") simp_all
  then show "strip_trailing s = s" by (simp add: strip_trailing_def)
qed

lemma typed_key: "typable s \<Longrightarrow> lower_text lower \<Longrightarrow> search_key lower s w = convertToId (ascii_lower s)"
  by (simp add: search_key_def Let_def typable_strip lower_text_def) (simp add: typable_def)

lemma typed_index_char:
  assumes "typable s" and "lower_text lower"
  shows "index_char lower s = [lower16 (hd s)]"
proof -
  from assms(1) obtain c t where s: "s = c # t" by (cases s) (auto simp: typable_def)
  have l: "lower s = ascii_lower s" "lower [c] = ascii_lower [c]"
    using assms by (simp_all add: lower_text_def typable_def s)
  have "text_char c" using assms(1) by (simp add: typable_def s)
  then have "\<not> 0xD800 \<le> lower16 c"
    by (auto simp: text_char_def lower16_def word_le_nat_alt word_less_nat_alt unat_word_ariths)
  then show ?thesis using l by (simp add: index_char_def s ascii_lower_map Let_def)
qed

text \<open>Ids are left alone by \<open>toLowerCase\<close>.\<close>

lemma id_char_text: "id_char d \<Longrightarrow> text_char d \<and> lower16 d = d"
  unfolding id_char_def text_char_def lower16_def by (simp split: if_split)

lemma id_text_code:
  assumes "text_char c"
  shows "list_all (\<lambda>d. text_char d \<and> lower16 d = d) (id_code (lower16 c))"
proof (cases "c < 0x80")
  case True
  with id_char_code [OF True] show ?thesis unfolding list_all_iff using id_char_text by blast
next
  case False
  then consider "c = 0xE9" | "c = 0xF4" | "c = 0x2014" using assms by (auto simp: text_char_def)
  then show ?thesis by cases (simp_all add: lower16_def id_code_def id_plain_def text_char_def)
qed

lemma id_lower:
  assumes "list_all text_char s" and "lower_text lower"
  shows "lower (convertToId (ascii_lower s) @ js (''_'' @ show_nat k)) = convertToId (ascii_lower s) @ js (''_'' @ show_nat k)"
proof -
  let ?i = "convertToId (ascii_lower s) @ js (''_'' @ show_nat k)"
  have "list_all (\<lambda>d. text_char d \<and> lower16 d = d) (convertToId (ascii_lower s))"
    using assms(1) id_text_code by (auto simp: convertToId_def ascii_lower_map list_all_iff)
  moreover have "list_all (\<lambda>d. text_char d \<and> lower16 d = d) (js (''_'' @ show_nat k))"
    using id_char_number [of k] id_char_text unfolding list_all_iff by blast
  ultimately have i: "list_all (\<lambda>d. text_char d \<and> lower16 d = d) ?i" by simp
  then have "lower ?i = ascii_lower ?i" using assms(2) by (auto simp: lower_text_def list_all_iff)
  also have "\<dots> = ?i" using i unfolding ascii_lower_map list_all_iff by (intro map_idI) blast
  finally show ?thesis .
qed

section \<open>Searching for a word\<close>

text \<open>A search for the word of entry \<open>p\<close> of the file number \<open>j\<close> of a section.\<close>

lemma search_word:
  assumes table: "map_of indexSectionsWithContent (searchIndex (searchBox w)) = Some cs" "distinct cs" "j < length cs"
    and s: "typable s" "lower16 (hd s) = cs ! j" and lower: "lower_text lower"
    and box: "by_id ''MSearchField'' w = Some field" "by_id ''MSearchResultsWindow'' w = Some win"
      "strip_leading (field_value (elem field)) = s"
  shows "\<exists>w'. Search lower w = Some w' \<and> map fst (loads w') = map fst (loads w) @ [the (index_file (searchBox w) (int j))]"
proof -
  have ic: "index_char lower (strip_leading (field_value (elem field))) = [cs ! j]"
    using typed_index_char [OF s(1) lower] s(2) box(3) by simp
  from Search_loads [OF table(1) box(1,2) ic] table(3) obtain w' k where w': "Search lower w = Some w'" "k < length cs" "cs ! k = cs ! j"
    "map fst (loads w') = map fst (loads w) @ [the (index_file (searchBox w) (int k))]" by auto
  moreover have "k = j" using w'(2,3) table(2,3) nth_eq_iff_index_eq by blast
  ultimately show ?thesis by blast
qed

lemma word_shown:
  assumes "p < length es" and "entry_id (es ! p) = convertToId (ascii_lower s) @ js (''_'' @ show_nat n)"
    and "typable s" and "lower_text lower" "lower_prefix lower"
    and results: "fresh_page v" "searchData v = Some es" "createResults path v = Some v1"
      "by_id ''Searching'' v1 \<noteq> None" "by_id ''NoMatches'' v1 \<noteq> None"
  shows "\<exists>v2 r. SearchResults_Search lower s v1 = Some v2 \<and> by_id ''SRResults'' v2 = Some r \<and>
      length (kids r) = length es \<and> display (style (elem (kids r ! p))) = js ''block''"
proof -
  from search_view [OF results(1) assms(5) results(3-5), of s] obtain v2 r
    where v2: "SearchResults_Search lower s v1 = Some v2" "by_id ''SRResults'' v2 = Some r"
      and rows: "map (\<lambda>n. display (style (elem n))) (kids r) =
        map (\<lambda>d. js (if prefix (search_key lower s v) (lower (entry_id d)) then ''block'' else ''none'')) es"
    using results(2) by auto
  have n: "length (kids r) = length es" using rows by (metis length_map)
  have "display (style (elem (kids r ! p))) =
      js (if prefix (search_key lower s v) (lower (entry_id (es ! p))) then ''block'' else ''none'')"
    using rows n assms(1) by (metis (no_types, lifting) nth_map)
  also have "\<dots> = js ''block''"
  proof -
    have "list_all text_char s" using assms(3) by (simp add: typable_def)
    from id_lower [OF this assms(4), of n] show ?thesis by (simp add: typed_key [OF assms(3,4)] assms(2))
  qed
  finally show ?thesis using v2 n by blast
qed

section \<open>Checking the files\<close>

definition hrefs :: "search_entry \<Rightarrow> jsstring list" where
  "hrefs e = map target_href (entry_targets e)"

text \<open>Entry number \<open>n\<close> of a file for the character \<open>c\<close> has a word, and the file of the section \<open>all\<close> for
  this character has an entry with the same word and at least the same targets.\<close>

definition has_word :: "u16 \<Rightarrow> jsstring \<Rightarrow> nat \<Rightarrow> search_entry \<Rightarrow> bool" where
  "has_word c w n e \<longleftrightarrow> typable w \<and> ascii_lower w = w \<and> hd w = c \<and> entry_id e = convertToId w @ js (''_'' @ show_nat n)"

definition found_in_all :: "u16 \<Rightarrow> search_entry list \<Rightarrow> search_entry \<Rightarrow> nat \<Rightarrow> bool" where
  "found_in_all c as e n \<longleftrightarrow> (\<exists>w p. has_word c w n e \<and> p < length as \<and> has_word c w p (as ! p) \<and> set (hrefs e) \<subseteq> set (hrefs (as ! p)))"

text \<open>The same on the strings of the files. The word is given for every entry, and for every entry of \<open>all\<close>
  whether it is the next one that is looked for.\<close>

definition word_facts :: "char \<Rightarrow> bool \<times> bool \<times> string" where
  "word_facts d = (((of_char d :: nat) < 128 \<or> d = CHR 0xE9 \<or> d = CHR 0xF4 \<or> d = CHR 0x97) \<and> lower_letter d = d, d \<noteq> CHR '' '', id_of_char d)"

fun word_checked :: "char \<Rightarrow> string \<Rightarrow> bool" where
  "word_checked c [] \<longleftrightarrow> False"
| "word_checked c (d # w) \<longleftrightarrow> d = c \<and> fst (snd (word_facts d)) \<and> fst (snd (word_facts (last (d # w)))) \<and>
     list_all (\<lambda>d. fst (word_facts d)) (d # w)"

fun id_checked :: "string \<Rightarrow> nat \<Rightarrow> string \<Rightarrow> bool" where
  "id_checked w n i \<longleftrightarrow> i = concat (map (\<lambda>d. snd (snd (word_facts d))) w) @ ''_'' @ show_nat n"

fun raw_words :: "char \<Rightarrow> nat \<Rightarrow> string list \<Rightarrow> (string \<times> string list) list \<Rightarrow> bool" where
  "raw_words c k (w # ws) ((i, hs) # R) \<longleftrightarrow> word_checked c w \<and> id_checked w k i \<and> raw_words c (k + 1) ws R"
| "raw_words c k [] [] \<longleftrightarrow> True"
| "raw_words c k ws R \<longleftrightarrow> False"

fun raw_covers ::
    "char \<Rightarrow> nat \<Rightarrow> nat \<Rightarrow> bool list \<Rightarrow> string list \<Rightarrow> (string \<times> string list) list \<Rightarrow> (string \<times> string list) list \<Rightarrow> bool" where
  "raw_covers c k m bs [] [] A \<longleftrightarrow> True"
| "raw_covers c k m (False # bs) (w # ws) R (a # A) \<longleftrightarrow> raw_covers c k (m + 1) bs (w # ws) R A"
| "raw_covers c k m (True # bs) (w # ws) ((i, hs) # R) ((j, gs) # A) \<longleftrightarrow>
     word_checked c w \<and> id_checked w k i \<and> id_checked w m j \<and> list_all (\<lambda>h. h \<in> set gs) hs \<and>
     raw_covers c (k + 1) (m + 1) bs ws R A"
| "raw_covers c k m bs ws R A \<longleftrightarrow> False"

definition id_and_targets :: "string \<times> string \<times> (string \<times> string) list \<Rightarrow> string \<times> string list" where
  "id_and_targets = (\<lambda>(i, label, ts). (i, map fst ts))"

lemma doc_char_ascii: "c \<noteq> CHR 0x97 \<Longrightarrow> doc_char c = js_char c"
  by (simp add: doc_char_def js_char_def)

lemma doc_js_ascii: "CHR 0x97 \<notin> set s \<Longrightarrow> doc_js s = js s"
  by (induction s) (auto simp: doc_js_def js_Nil js_Cons_char doc_char_ascii)

lemma doc_js_append: "doc_js (s @ t) = doc_js s @ doc_js t"
  by (simp add: doc_js_def)

lemma number_js: "doc_js (''_'' @ show_nat n) = js (''_'' @ show_nat n)"
proof (rule doc_js_ascii)
  have "is_digit c \<Longrightarrow> c \<noteq> CHR 0x97" for c by (auto simp: is_digit_def)
  then have "CHR 0x97 \<notin> set (show_nat n)" using show_nat_decimal [of n] unfolding list_all_iff by blast
  then show "CHR 0x97 \<notin> set (''_'' @ show_nat n)" by simp
qed

lemma id_of_char_ascii:
  assumes "(of_char d :: nat) < 128" and "lower_letter d = d"
  shows "CHR 0x97 \<notin> set (id_of_char d)"
proof -
  have "CHR 0x97 \<notin> set (show_hex n)" for n using show_hex_chars [of "CHR 0x97" n] by auto
  moreover have "d \<noteq> CHR 0x97" using assms(1) by auto
  ultimately show ?thesis using assms by (auto simp: id_of_char_def Let_def)
qed

lemma word_char:
  assumes "fst (word_facts d)"
  shows "text_char (doc_char d) \<and> lower16 (doc_char d) = doc_char d \<and> id_code (doc_char d) = doc_js (id_of_char d)"
proof (cases "(of_char d :: nat) < 128")
  case True
  then have d: "d \<noteq> CHR 0x97" by auto
  have l: "lower_letter d = d" using assms by (simp add: word_facts_def)
  have "js_char d < 0x80" using True by (simp add: word_less_nat_alt)
  with lower16_js_char [of d] id_code_js_char [of d] d l doc_js_ascii [OF id_of_char_ascii [OF True l]] show ?thesis
    by (simp add: doc_char_ascii text_char_def)
next
  case False
  with assms consider "d = CHR 0xE9" | "d = CHR 0xF4" | "d = CHR 0x97" by (auto simp: word_facts_def)
  then show ?thesis
    by cases (simp_all add: doc_char_def text_char_def lower16_def id_code_def id_plain_def doc_js_def id_of_char_def lower_letter_def
        Let_def char_of_def bit_0)
qed

lemma space_char: "fst (word_facts d) \<Longrightarrow> doc_char d = space \<longleftrightarrow> d = CHR '' ''"
proof -
  have "d = CHR '' ''" if "doc_char d = space"
  proof -
    have d: "d \<noteq> CHR 0x97" using that by (auto simp: doc_char_def)
    then show ?thesis using that js_inject [of "[d]" "'' ''"] by (simp add: doc_char_ascii js_Cons_char js_Nil) (simp add: js_char_def)
  qed
  moreover have "doc_char (CHR '' '') = space" by (simp add: doc_char_def)
  ultimately show ?thesis by auto
qed

lemma checked_word:
  assumes "word_checked c w"
  shows "typable (doc_js w) \<and> ascii_lower (doc_js w) = doc_js w \<and> hd (doc_js w) = doc_char c \<and>
    convertToId (doc_js w) = doc_js (concat (map (\<lambda>d. snd (snd (word_facts d))) w))"
proof -
  have w: "w \<noteq> []" "hd w = c" "c \<noteq> CHR '' ''" "last w \<noteq> CHR '' ''" "\<forall>d \<in> set w. fst (word_facts d)"
    using assms by (cases w; simp add: list_all_iff word_facts_def)+
  have "hd (doc_js w) = doc_char c" "last (doc_js w) = doc_char (last w)" "doc_js w \<noteq> []"
    using w(1,2) by (simp_all add: doc_js_def hd_map last_map)
  moreover have "fst (word_facts c)" "fst (word_facts (last w))" using w(1,2,5) by (metis hd_in_set, metis last_in_set)
  moreover have "convertToId (doc_js w) = doc_js (concat (map (\<lambda>d. snd (snd (word_facts d))) w))"
    using w(5) word_char by (induction w) (simp_all add: convertToId_def doc_js_def word_facts_def)
  moreover have "list_all text_char (doc_js w)" "ascii_lower (doc_js w) = doc_js w"
    using w(5) word_char by (auto simp: doc_js_def list_all_iff ascii_lower_map)
  ultimately show ?thesis using w(3,4) by (simp add: typable_def space_char)
qed

lemma checked_id:
  assumes "word_checked c w" and "id_checked w n i" and "entry_id e = doc_js i"
  shows "has_word (doc_char c) (doc_js w) n e"
proof -
  have "doc_js i = doc_js (concat (map (\<lambda>d. snd (snd (word_facts d))) w)) @ js (''_'' @ show_nat n)"
    using assms(2) number_js [of n] doc_js_append by (metis id_checked.elims(2))
  with checked_word [OF assms(1)] assms(3) show ?thesis by (simp add: has_word_def)
qed


definition entry_of :: "string \<times> string list \<Rightarrow> search_entry \<Rightarrow> bool" where
  "entry_of x e \<longleftrightarrow> entry_id e = doc_js (fst x) \<and> hrefs e = map js (snd x)"

lemma entry_of_text: "entry_of (id_and_targets x) (search_text x)"
  by (cases x) (auto simp: entry_of_def id_and_targets_def search_text_def hrefs_def)

lemma entries_of_text: "list_all2 entry_of (map id_and_targets R) (map search_text R)"
  by (simp add: list_all2_map1 list_all2_map2 entry_of_text list.rel_refl)

lemma entries_of_symbols:
  assumes "well_indexed c k (map search_symbol R)"
  shows "list_all2 entry_of (map id_and_targets R) (map search_symbol R)"
  using assms
proof (induction R arbitrary: k)
  case (Cons x R)
  obtain i label ts where x: "x = (i, label, ts)" by (cases x) auto
  have "js i = convertToId (ascii_lower (js label)) @ js (''_'' @ show_nat k)" "plain_name (js label)"
    using Cons.prems by (simp_all add: x search_symbol_def)
  then have "list_all id_char (js i)" using id_char_convert id_char_number by simp
  then have "CHR 0x97 \<notin> set i" by (auto simp: list_all_iff js_def id_char_def)
  then have "entry_of (id_and_targets x) (search_symbol x)"
    by (auto simp: x entry_of_def id_and_targets_def search_symbol_def hrefs_def doc_js_ascii)
  with Cons.IH [of "k + 1"] Cons.prems show ?case by simp
qed simp

lemma words_found:
  assumes "raw_words c k ws xs" and "list_all2 entry_of xs es" and "i < length es"
  shows "\<exists>w. has_word (doc_char c) w (k + i) (es ! i)"
  using assms
proof (induction c k ws xs arbitrary: es i rule: raw_words.induct)
  case (1 c k w ws j hs R)
  obtain e es' where es: "es = e # es'" "entry_of (j, hs) e" "list_all2 entry_of R es'"
    using "1.prems"(2) by (auto simp: list_all2_Cons1)
  have w: "word_checked c w" "id_checked w k j" "raw_words c (k + 1) ws R" using "1.prems"(1) by (simp_all only: raw_words.simps)
  show ?case
  proof (cases i)
    case 0
    from checked_id [OF w(1,2)] es 0 show ?thesis by (auto simp: entry_of_def)
  next
    case (Suc n)
    from "1.IH" [OF w(3) es(3)] "1.prems"(3) Suc es(1) show ?thesis by simp
  qed
qed simp_all

lemma covered_found:
  assumes "raw_covers c k m bs ws xs (drop m as)" and "list_all2 entry_of xs es" and "list_all2 entry_of as ds" and "i < length es"
  shows "found_in_all (doc_char c) ds (es ! i) (k + i)"
  using assms(1,2,4)
proof (induction c k m bs ws xs "drop m as" arbitrary: es i rule: raw_covers.induct)
  case (2 c k m bs w ws R a A)
  have A: "A = drop (m + 1) as" using "2.hyps"(2) by (metis Suc_eq_plus1 drop_Suc list.sel(3) tl_drop)
  have "raw_covers c k (m + 1) bs (w # ws) R A"
    using "2.prems"(1) unfolding "2.hyps"(2) [symmetric] by (simp only: raw_covers.simps)
  from "2.hyps"(1) [OF A this [unfolded A] "2.prems"(2,3)] show ?case .
next
  case (3 c k m bs w ws x hs R j gs A)
  have A: "A = drop (m + 1) as" using "3.hyps"(2) by (metis Suc_eq_plus1 drop_Suc list.sel(3) tl_drop)
  obtain e es' where es: "es = e # es'" "entry_of (x, hs) e" "list_all2 entry_of R es'"
    using "3.prems"(2) by (auto simp: list_all2_Cons1)
  have c: "word_checked c w" "id_checked w k x" "id_checked w m j" "list_all (\<lambda>h. h \<in> set gs) hs"
    "raw_covers c (k + 1) (m + 1) bs ws R A" using "3.prems"(1) unfolding "3.hyps"(2) [symmetric] by (simp_all only: raw_covers.simps)
  show ?case
  proof (cases i)
    case 0
    have p: "m < length as" using "3.hyps"(2) by (metis drop_all leI list.distinct(1))
    then have "as ! m = (j, gs)" using "3.hyps"(2) by (metis hd_drop_conv_nth list.sel(1))
    with list_all2_nthD [OF assms(3) p] p have d: "m < length ds" "entry_of (j, gs) (ds ! m)"
      using list_all2_lengthD [OF assms(3)] by simp_all
    have "has_word (doc_char c) (doc_js w) k e" "has_word (doc_char c) (doc_js w) m (ds ! m)"
      using checked_id [OF c(1,2)] checked_id [OF c(1,3)] es(2) d(2) by (simp_all add: entry_of_def)
    moreover have "set (hrefs e) \<subseteq> set (hrefs (ds ! m))" using c(4) es(2) d(2) by (auto simp: entry_of_def list_all_iff)
    ultimately show ?thesis using d(1) 0 es(1) by (auto simp: found_in_all_def)
  next
    case (Suc n)
    from "3.hyps"(1) [OF A c(5) [unfolded A] es(3)] "3.prems"(3) Suc es(1) show ?thesis by simp
  qed
qed simp_all

text \<open>A whole file.\<close>

definition all_found :: "u16 \<Rightarrow> search_entry list \<Rightarrow> search_entry list \<Rightarrow> bool" where
  "all_found c as es \<longleftrightarrow> (\<forall>i < length es. found_in_all c as (es ! i) i)"

lemma own_found:
  assumes "raw_words c 0 ws (map id_and_targets R)"
  shows "all_found (doc_char c) (map search_text R) (map search_text R)"
  using words_found [OF assms entries_of_text] unfolding all_found_def found_in_all_def by force

lemma text_found:
  assumes "raw_covers c 0 0 bs ws (map id_and_targets R) (map id_and_targets A)"
  shows "all_found (doc_char c) (map search_text A) (map search_text R)"
  using covered_found [of c 0 0, OF _ entries_of_text entries_of_text] assms by (simp add: all_found_def)

lemma symbol_found:
  assumes "well_indexed d 0 (map search_symbol R)"
    and "raw_covers c 0 0 bs ws (map id_and_targets R) (map id_and_targets A)"
  shows "all_found (doc_char c) (map search_text A) (map search_symbol R)"
  using covered_found [of c 0 0, OF _ entries_of_symbols [OF assms(1)] entries_of_text] assms(2) by (simp add: all_found_def)

end
