(* ===== verification/Search_All_Files.thy ===== *)
theory Search_All_Files
  imports Search_Words
begin

text \<open>
  The checks of the shipped index, file by file: the words of the entries of every file, and for every
  entry whether it is the next one in the file of the section \<open>all\<close> for the same character.
\<close>

lemma word_table:
  "word_facts (CHR '' '') = (True, False, ''_20'')" "word_facts (CHR ''.'') = (True, True, ''_2e'')"
  "word_facts (CHR ''0'') = (True, True, ''0'')" "word_facts (CHR ''1'') = (True, True, ''1'')"
  "word_facts (CHR ''2'') = (True, True, ''2'')" "word_facts (CHR ''3'') = (True, True, ''3'')"
  "word_facts (CHR ''4'') = (True, True, ''4'')" "word_facts (CHR ''5'') = (True, True, ''5'')"
  "word_facts (CHR ''6'') = (True, True, ''6'')" "word_facts (CHR ''7'') = (True, True, ''7'')"
  "word_facts (CHR ''8'') = (True, True, ''8'')" "word_facts (CHR ''9'') = (True, True, ''9'')"
  "word_facts (CHR '':'') = (True, True, ''_3a'')" "word_facts (CHR ''<'') = (True, True, ''_3c'')"
  "word_facts (CHR ''='') = (True, True, ''_3d'')" "word_facts (CHR ''>'') = (True, True, ''_3e'')"
  "word_facts (CHR ''_'') = (True, True, ''_5f'')" "word_facts (CHR ''a'') = (True, True, ''a'')"
  "word_facts (CHR ''b'') = (True, True, ''b'')" "word_facts (CHR ''c'') = (True, True, ''c'')"
  "word_facts (CHR ''d'') = (True, True, ''d'')" "word_facts (CHR ''e'') = (True, True, ''e'')"
  "word_facts (CHR ''f'') = (True, True, ''f'')" "word_facts (CHR ''g'') = (True, True, ''g'')"
  "word_facts (CHR ''h'') = (True, True, ''h'')" "word_facts (CHR ''i'') = (True, True, ''i'')"
  "word_facts (CHR ''j'') = (True, True, ''j'')" "word_facts (CHR ''k'') = (True, True, ''k'')"
  "word_facts (CHR ''l'') = (True, True, ''l'')" "word_facts (CHR ''m'') = (True, True, ''m'')"
  "word_facts (CHR ''n'') = (True, True, ''n'')" "word_facts (CHR ''o'') = (True, True, ''o'')"
  "word_facts (CHR ''p'') = (True, True, ''p'')" "word_facts (CHR ''q'') = (True, True, ''q'')"
  "word_facts (CHR ''r'') = (True, True, ''r'')" "word_facts (CHR ''s'') = (True, True, ''s'')"
  "word_facts (CHR ''t'') = (True, True, ''t'')" "word_facts (CHR ''u'') = (True, True, ''u'')"
  "word_facts (CHR ''v'') = (True, True, ''v'')" "word_facts (CHR ''w'') = (True, True, ''w'')"
  "word_facts (CHR ''x'') = (True, True, ''x'')" "word_facts (CHR ''y'') = (True, True, ''y'')"
  "word_facts (CHR ''z'') = (True, True, ''z'')" "word_facts (CHR ''~'') = (True, True, ''_7e'')"
  "word_facts (CHR 0xE9) = (True, True, [CHR 0xE9])" "word_facts (CHR 0xF4) = (True, True, [CHR 0xF4])"
  "word_facts (CHR 0x97) = (True, True, [CHR 0x97])"
  by (simp_all add: word_facts_def id_of_char_def lower_letter_def show_base.simps digit_char_def Let_def char_of_def bit_0)

lemma more_numbers:
  "show_nat 20 = ''20''" "show_nat 21 = ''21''" "show_nat 22 = ''22''" "show_nat 23 = ''23''" "show_nat 24 = ''24''"
  "show_nat 25 = ''25''" "show_nat 26 = ''26''" "show_nat 27 = ''27''" "show_nat 28 = ''28''" "show_nat 29 = ''29''"
  "show_nat 30 = ''30''" "show_nat 31 = ''31''" "show_nat 32 = ''32''" "show_nat 33 = ''33''" "show_nat 34 = ''34''"
  "show_nat 35 = ''35''" "show_nat 36 = ''36''" "show_nat 37 = ''37''" "show_nat 38 = ''38''" "show_nat 39 = ''39''"
  "show_nat 40 = ''40''" "show_nat 41 = ''41''" "show_nat 42 = ''42''" "show_nat 43 = ''43''" "show_nat 44 = ''44''"
  "show_nat 45 = ''45''" "show_nat 46 = ''46''" "show_nat 47 = ''47''" "show_nat 48 = ''48''" "show_nat 49 = ''49''"
  "show_nat 50 = ''50''" "show_nat 51 = ''51''" "show_nat 52 = ''52''" "show_nat 53 = ''53''" "show_nat 54 = ''54''"
  "show_nat 55 = ''55''" "show_nat 56 = ''56''" "show_nat 57 = ''57''" "show_nat 58 = ''58''" "show_nat 59 = ''59''"
  "show_nat 60 = ''60''" "show_nat 61 = ''61''" "show_nat 62 = ''62''" "show_nat 63 = ''63''" "show_nat 64 = ''64''"
  "show_nat 65 = ''65''" "show_nat 66 = ''66''" "show_nat 67 = ''67''" "show_nat 68 = ''68''" "show_nat 69 = ''69''"
  "show_nat 70 = ''70''" "show_nat 71 = ''71''" "show_nat 72 = ''72''" "show_nat 73 = ''73''" "show_nat 74 = ''74''"
  "show_nat 75 = ''75''" "show_nat 76 = ''76''" "show_nat 77 = ''77''" "show_nat 78 = ''78''" "show_nat 79 = ''79''"
  "show_nat 80 = ''80''" "show_nat 81 = ''81''" "show_nat 82 = ''82''" "show_nat 83 = ''83''" "show_nat 84 = ''84''"
  "show_nat 85 = ''85''" "show_nat 86 = ''86''" "show_nat 87 = ''87''" "show_nat 88 = ''88''" "show_nat 89 = ''89''"
  "show_nat 90 = ''90''" "show_nat 91 = ''91''" "show_nat 92 = ''92''" "show_nat 93 = ''93''" "show_nat 94 = ''94''"
  "show_nat 95 = ''95''" "show_nat 96 = ''96''" "show_nat 97 = ''97''" "show_nat 98 = ''98''" "show_nat 99 = ''99''"
  "show_nat 100 = ''100''" "show_nat 101 = ''101''" "show_nat 102 = ''102''" "show_nat 103 = ''103''" "show_nat 104 = ''104''"
  "show_nat 105 = ''105''"
  by (simp_all add: show_base.simps digit_char_def char_of_def bit_0)

lemmas word_simps = raw_words.simps(1,2) raw_covers.simps(1-3) word_checked.simps(2) id_checked.simps id_and_targets_def
  word_table number_table more_numbers prod.case fst_conv snd_conv list.map concat.simps append.simps last.simps list.distinct
  if_False if_True list.pred_inject list.set insert_iff simp_thms one_add_one numeral_plus_one add_num_simps add_0

lemma all_0_found: "all_found (doc_char (CHR ''1'')) all_0 all_0"
  unfolding all_0_def
  by (rule own_found [where ws = "[''1 build confidence first'', ''1 live tcp telemetry'', ''1 scope'', ''1 scope and intent'', ''10 health monitoring'',
      ''10 signal generation noise and filtering'', ''11 port diagnostics'', ''11 testing and sanitizers'', ''12 benchmark'',
      ''12 terminal observability'', ''13 health monitoring and hysteresis'', ''14 stgf replay'', ''15 error model'',
      ''16 testing strategy'', ''17 performance philosophy'', ''18 deliberate limitations'']"])
    (simp only: word_simps)

lemma all_1_found: "all_found (doc_char (CHR ''2'')) all_1 all_1"
  unfolding all_1_def
  by (rule own_found [where ws = "[''2 automatic local port selection and diagnostics'', ''2 benchmark command'', ''2 layered architecture'',
      ''2 start a station without manually choosing a port'']"])
    (simp only: word_simps)

lemma all_2_found: "all_found (doc_char (CHR ''3'')) all_2 all_2"
  unfolding all_2_def
  by (rule own_found [where ws = "[''3 diagnose the local range'', ''3 reference measurements'', ''3 send and display a text message'',
      ''3 stgs v1 wire format'', ''32 iso hdlc'']"])
    (simp only: word_simps)

lemma all_3_found: "all_found (doc_char (CHR ''4'')) all_3 all_3"
  unfolding all_3_def
  by (rule own_found [where ws = "[''4 crc 32 iso hdlc'', ''4 interpretation'', ''4 send a message'', ''4 send a noisy wave and filter it'']"])
    (simp only: word_simps)

lemma all_4_found: "all_found (doc_char (CHR ''5'')) all_4 all_4"
  unfolding all_4_def
  by (rule own_found [where ws = "[''5 frame decoding policy'', ''5 reproducibility checklist'', ''5 send a noisy sampled wave'', ''5 udp telemetry'']"])
    (simp only: word_simps)

lemma all_5_found: "all_found (doc_char (CHR ''6'')) all_5 all_5"
  unfolding all_5_def
  by (rule own_found [where ws = "[''6 capture and replay'', ''6 demonstrate deterministic concurrency'', ''6 udp behavior'']"])
    (simp only: word_simps)

lemma all_6_found: "all_found (doc_char (CHR ''7'')) all_6 all_6"
  unfolding all_6_def
  by (rule own_found [where ws = "[''7 deterministic multithreaded pipeline'', ''7 tcp behavior and the poll snapshot invariant'',
      ''7 useful discussion points'']"])
    (simp only: word_simps)

lemma all_7_found: "all_found (doc_char (CHR ''8'')) all_7 all_7"
  unfolding all_7_def
  by (rule own_found [where ws = "[''8 binary protocol: stgs v1'', ''8 bounded concurrent pipeline and deterministic output'', ''8 scope statement'']"])
    (simp only: word_simps)

lemma all_8_found: "all_found (doc_char (CHR ''9'')) all_8 all_8"
  unfolding all_8_def
  by (rule own_found [where ws = "[''9 stga application payload'', ''9 typed application payload: stga v1'']"])
    (simp only: word_simps)

lemma all_9_found: "all_found (doc_char (CHR ''a'')) all_9 all_9"
  unfolding all_9_def
  by (rule own_found [where ws = "[''a message'', ''a noisy sampled wave'', ''a noisy wave and filter it'',
      ''a station without manually choosing a port'', ''a text message'',
      (''analyse statique compl'' @ [CHR 0xE9] @ ''mentaire''), ''and deterministic output'', ''and diagnostics'',
      ''and display a text message'', ''and filter it'', ''and filtering'', ''and hysteresis'', ''and intent'',
      ''and replay'', ''and sanitizers'', ''and the poll snapshot invariant'', ''appendfloatbe'', ''appendu16be'',
      ''appendu32be'', ''appendu64be'', ''appendu8'', ''application payload'', ''application payload: stga v1'',
      ''applicationcommonheadersize'', ''applicationerrors'', ''applicationpayload.cpp'', ''applicationpayload.hpp'',
      ''applicationpayloaderror'', ''applicationpayloaderrorcode'', ''applicationpayloaderrortostring'',
      ''applicationpayloadkind'', ''applicationpayloadkindtostring'', ''applicationpayloadmagic'',
      ''applicationpayloadparseresult'', ''applicationpayloadversion'', ''architecture'', ''assert_eq'', ''assert_true'',
      ''assertnear'', ''assertthrows'', (''assum'' @ [CHR 0xE9] @ ''es''), ''asyncfailure'', ''auto'',
      ''automatic local port selection and diagnostics'', ''autoportrange'', ''available'']"])
    (simp only: word_simps)

lemma all_a_found: "all_found (doc_char (CHR ''b'')) all_a all_a"
  unfolding all_a_def
  by (rule own_found [where ws = "[''badcrc'', ''badmagic'', ''batteryoffset'', ''batterypercent'', ''behavior'',
      ''behavior and the poll snapshot invariant'', ''benchmark'', ''benchmark command'',
      (''benchmark de contr'' @ [CHR 0xF4] @ ''le''), ''benchmark_decode.cpp'', ''binary protocol: stgs v1'',
      ''bindaddress'', ''blockingqueue'', ''blockingqueue.hpp'',
      ''blockingqueue< stgs::app::ground_station::decodedworkitem >'',
      ''blockingqueue< stgs::app::ground_station::rawworkitem >'', ''bounded concurrent pipeline and deterministic output'',
      ''bufferedbytes'', ''build'', ''build confidence first'', ''build tests diagnostic et benchmark'', ''bytemask'',
      ''bytes'', ''byteutils.hpp'', ''bytevector'']"])
    (simp only: word_simps)

lemma all_b_found: "all_found (doc_char (CHR ''c'')) all_b all_b"
  unfolding all_b_def
  by (rule own_found [where ws = "[''c space telemetry ground station'', ''capacity'', ''capture'', ''capture and replay'', ''checklist'',
      ''checklocalportavailability'', ''choosing a port'', ''clear'', ''cliparsing.hpp'', ''close'', ''closed'', ''code'',
      ''color'', ''colorsenabled'', ''command'', ''commandes principales couvertes'', ''compilation stricte'',
      (''compl'' @ [CHR 0xE9] @ ''mentaire''), ''computesignalmetrics'', ''concurrency'',
      ''concurrent pipeline and deterministic output'', ''confidence first'', ''connectloopback'',
      (''contr'' @ [CHR 0xF4] @ ''le''), ''corruptprobability'', ''coscoefficient'', ''count'', ''countexplicit'',
      ''couvertes'', ''crc 32 iso hdlc'', ''crc parameters'', ''crc32'', ''crc32.cpp'', ''crc32.hpp'',
      ''crc32check123456789'', ''crc32finalxor'', ''crc32initialvalue'', ''crc32polynomial'', ''crc32reflectedpolynomial'',
      ''crcsize'', ''createsocket'', ''critical'', ''criticalframesfordegraded'', ''criticalframesforrecovery'', ''csv'']"])
    (simp only: word_simps)

lemma all_c_found: "all_found (doc_char (CHR ''d'')) all_c all_c"
  unfolding all_c_def
  by (rule own_found [where ws = "[(''d'' @ [CHR 0xE9] @ ''coupage modulaire''), (''d'' @ [CHR 0xE9] @ ''terminisme et formats de sortie''),
      ''d execution'', (''d int'' @ [CHR 0xE9] @ ''gration''), ''dc'', (''de contr'' @ [CHR 0xF4] @ ''le''), ''de sortie'',
      (''de v'' @ [CHR 0xE9] @ ''rification stgs '' @ [CHR 0x97] @ '' version vitrine''), ''debug'',
      ''decodeapplicationpayload'', ''decoded'', ''decodedworkitem'', ''decodeframe'', ''decoderthreads'',
      ''decoding policy'', ''defaultnetworkpolltimeoutms'', ''defaultpayloadpreviewbytes'', ''defaultportprobetimeout'',
      ''defaulttelemetryport'', ''degraded'', ''degradedrejectionrate'', ''deliberate limitations'',
      ''demonstrate deterministic concurrency'', ''design principles visible in the code'',
      ''design: space telemetry ground station'', ''destination'', ''detail'', ''deterministic concurrency'',
      ''deterministic multithreaded pipeline'', ''deterministic output'', ''diagnose the local range'',
      ''diagnostic et benchmark'', ''diagnostics'', ''discoverports'', ''discoverytimeout'', ''discussion points'',
      ''display a text message'', ''documentation d execution'', ''documents'']"])
    (simp only: word_simps)

lemma all_d_found: "all_found (doc_char (CHR ''e'')) all_d all_d"
  unfolding all_d_def
  by (rule own_found [where ws = "[''enabled'', ''encodeframe'', ''encodesignalblockpayload'', ''encodetextmessagepayload'',
      (''environnement de contr'' @ [CHR 0xF4] @ ''le''), ''ephemeralport'', ''error'', ''error model'',
      ''errorcodetostring'', ''estimatedamplitude'', ''estimatedsnrdb'', ''et benchmark'',
      (''et d int'' @ [CHR 0xE9] @ ''gration''), ''et formats de sortie'', ''execution'', ''extractor'']"])
    (simp only: word_simps)

lemma all_e_found: "all_found (doc_char (CHR ''f'')) all_e all_e"
  unfolding all_e_def
  by (rule own_found [where ws = "[''fd'', ''feed'', ''filter it'', ''filteredrms'', ''filtering'', ''findfirstavailablelocalport'', ''finish'',
      ''first'', ''float32wiresize'', ''flush'', ''format'', ''formats de sortie'', ''frame decoding policy'',
      ''framecallback'', ''framecodec.cpp'', ''framecodec.hpp'', ''frameerror'', ''frameerrorcode'', ''framefilereader'',
      ''framefilewriter'', ''framemagic'', ''frameparseresult'', ''frequencyhz'', ''from'']"])
    (simp only: word_simps)

lemma all_f_found: "all_found (doc_char (CHR ''g'')) all_f all_f"
  unfolding all_f_def
  by (rule own_found [where ws = "[''generation noise and filtering'', ''get'', ''ground station'', ''ground_station.cpp'', ''groundstationapp.cpp'',
      ''groundstationapp.hpp'', ''groundstationinput.cpp'', ''groundstationoptions.cpp'', ''groundstationoptions.hpp'',
      ''groundstationpipeline'', ''groundstationpipeline.cpp'', ''groundstationpipeline.hpp'',
      ''groundstationprocessing.cpp'', ''groundstationprocessing.hpp'', ''groundstationusage.cpp'',
      ''groundstationworkers.cpp'', ''guide'']"])
    (simp only: word_simps)

lemma all_10_found: "all_found (doc_char (CHR ''h'')) all_10 all_10"
  unfolding all_10_def
  by (rule own_found [where ws = "[''hdlc'', ''headersize'', ''health monitoring'', ''health monitoring and hysteresis'', ''healthconfig'',
      ''highlights'', ''host'', ''hysteresis'']"])
    (simp only: word_simps)

lemma all_11_found: "all_found (doc_char (CHR ''i'')) all_11 all_11"
  unfolding all_11_def
  by (rule own_found [where ws = "[''important pour une revue technique'', ''in the code'', ''info'', (''int'' @ [CHR 0xE9] @ ''gration''), ''intent'',
      ''interactive'', ''interpretation'', ''invalidbattery'', ''invalidlength'', ''invalidsignalmetadata'',
      ''invalidstatus'', ''invalidtemperature'', ''invariant'', ''isloopbackipv4'', ''iso hdlc'', ''it'']"])
    (simp only: word_simps)

lemma all_12_found: "all_found (doc_char (CHR ''j'')) all_12 all_12"
  unfolding all_12_def
  by (rule own_found [where ws = "[''json'']"])
    (simp only: word_simps)

lemma all_13_found: "all_found (doc_char (CHR ''k'')) all_13 all_13"
  unfolding all_13_def
  by (rule own_found [where ws = "[''keyvalue'']"])
    (simp only: word_simps)

lemma all_14_found: "all_found (doc_char (CHR ''l'')) all_14 all_14"
  unfolding all_14_def
  by (rule own_found [where ws = "[''last'', ''latencyms'', ''latex'', ''layered architecture'', ''layout'', ''lengthmismatch'', ''les sources latex'',
      ''license'', ''limitations'', (''limites assum'' @ [CHR 0xE9] @ ''es''), ''live tcp telemetry'',
      ''local port selection and diagnostics'', ''local range'', ''localportavailability'', ''log'', ''logfile'', ''logger'',
      ''logger.cpp'', ''logger.hpp'', ''loglevel'', ''logleveltostring'', ''logtransition'', ''lossprobability'']"])
    (simp only: word_simps)

lemma all_15_found: "all_found (doc_char (CHR ''m'')) all_15 all_15"
  unfolding all_15_def
  by (rule own_found [where ws = "[''magicoffset'', ''magicsize'', ''main'', ''makeframe'', ''manually choosing a port'', ''maxbatterypercent'',
      ''maxdiagnosticportcount'', ''maxframesize'', ''maximumnetworkport'', ''maximumportprobetimeout'', ''maxpayloadsize'',
      ''maxsignalsamplesperpayload'', ''maxtextmessagebytes'', ''maybecorrupt'', ''measurements'', ''message'',
      ''minframesize'', ''minimumnetworkport'', ''minsamples'', ''model'', ''modulaire'', ''monitoring'',
      ''monitoring and hysteresis'', ''movingaverage'', ''movingaveragefilter'', ''movingaveragewindow'',
      ''multithreaded pipeline'']"])
    (simp only: word_simps)

lemma all_16_found: "all_found (doc_char (CHR ''n'')) all_16 all_16"
  unfolding all_16_def
  by (rule own_found [where ws = "[''networkconfig'', ''networkserver'', ''networkserver.cpp'', ''networkserver.hpp'', ''networkservertcp.cpp'',
      ''networkserverudp.cpp'', ''noise and filtering'', ''noisestddev'', ''noisy sampled wave'',
      ''noisy wave and filter it'', ''nominal'', ''nominalamplitude'', ''none'', ''nowiso8601'']"])
    (simp only: word_simps)

lemma all_17_found: "all_found (doc_char (CHR ''o'')) all_17 all_17"
  unfolding all_17_def
  by (rule own_found [where ws = "[''observability'', ''open'', ''operator='', ''options'', ''output'', ''outputfile'', ''outputformat'']"])
    (simp only: word_simps)

lemma all_18_found: "all_found (doc_char (CHR ''p'')) all_18 all_18"
  unfolding all_18_def
  by (rule own_found [where ws = "[''parameters'', ''parseargs'', ''parsefinitedouble'', ''parseloglevel'', ''parseportrange'', ''parseprobability'',
      ''parseunsigned'', ''payload'', ''payload: stga v1'', ''payloadlengthoffset'', ''payloadmode'', ''payloadmodename'',
      ''payloadsize'', ''payloadtohex'', ''payloadtoolarge'', ''performance philosophy'',
      ''performance report: space telemetry ground station'', ''performance_report.md'', ''philosophy'', ''pipeline'',
      ''pipeline and deterministic output'', ''pipelinestats'', ''point important pour une revue technique'', ''points'',
      ''policy'', ''poll snapshot invariant'', ''polltimeoutms'', ''pop'', ''port'', ''port diagnostics'',
      ''port selection and diagnostics'', ''port_check.cpp'', ''portdiagnostics.cpp'', ''portdiagnostics.hpp'',
      ''portrange'', ''porttransport'', ''posixsignalstopcontroller'', ''posixsignalstopcontroller.cpp'',
      ''posixsignalstopcontroller.hpp'', ''pour une revue technique'', ''principales couvertes'',
      ''principles visible in the code'', ''printusage'', ''probetcpport'', ''processapplicationpayload'',
      ''project layout'', ''protocol: stgs v1'', ''protocolversion'', ''push'']"])
    (simp only: word_simps)

lemma all_19_found: "all_found (doc_char (CHR ''q'')) all_19 all_19"
  unfolding all_19_def
  by (rule own_found [where ws = "[''queuecapacity'']"])
    (simp only: word_simps)

lemma all_1a_found: "all_found (doc_char (CHR ''r'')) all_1a all_1a"
  unfolding all_1a_def
  by (rule own_found [where ws = "[(''r'' @ [CHR 0xE9] @ ''el''), (''r'' @ [CHR 0xE9] @ ''seau r'' @ [CHR 0xE9] @ ''el''), ''randombytes'', ''range'',
      (''rapport de v'' @ [CHR 0xE9] @ ''rification stgs '' @ [CHR 0x97] @ '' version vitrine''), ''rate'', ''rawrms'',
      ''rawworkitem'', ''readfloatbe'', ''readme.md'', ''readme_documentation.md'', ''readnext'', ''readu16be'',
      ''readu32be'', ''readu64be'', ''reason'', ''received'', ''receivedmessage'', ''receivedsignal'',
      ''recompiler les sources latex'', ''recorddecoded'', ''recordrejected'', ''recoveryrejectionrate'',
      ''reference measurements'', ''registerapplicationsignaltests'', ''registercodectests'', ''registernetworktests'',
      ''registerreplayhealthtests'', ''rejected'', ''rejectionrate'', ''replay'', ''replay.cpp'', ''replay.hpp'',
      ''replayfile'', ''replayrate'', ''report: space telemetry ground station'', ''reproducibility checklist'',
      ''requirements'', ''residualnoiserms'', ''resolveoutputformat'', ''result'', ''rethrowifpresent'',
      ''rethrowthreaderror'', ''revue technique'', ''run'']"])
    (simp only: word_simps)

lemma all_1b_found: "all_found (doc_char (CHR ''s'')) all_1b all_1b"
  unfolding all_1b_def
  by (rule own_found [where ws = "[''safemode'', ''sampled wave'', ''sampleframe'', ''sampleratehz'', ''samples'', ''sanitizeremotetext'', ''sanitizers'',
      ''satellite_simulator.cpp'', ''satelliteid'', ''satelliteidoffset'',
      (''sc'' @ [CHR 0xE9] @ ''nario r'' @ [CHR 0xE9] @ ''seau r'' @ [CHR 0xE9] @ ''el''), ''scantcpports'', ''scope'',
      ''scope and intent'', ''scope statement'', ''section'', ''seed'', ''selection and diagnostics'', ''send a message'',
      ''send a noisy sampled wave'', ''send a noisy wave and filter it'', ''send and display a text message'', ''sendall'',
      ''sendexact'', ''sequence'', ''setminlevel'', ''showcase guide'', ''showcase_guide.md'', ''signal'',
      ''signal generation noise and filtering'', ''signalamplitude'', ''signalblock'', ''signalblockfixedwiresize'',
      ''signalblockpayload'', ''signalfilter'', ''signalfiltermode'', ''signalfiltermodetostring'', ''signalfrequencyhz'',
      ''signalmetrics'', ''signalprocessing.cpp'', ''signalprocessing.hpp'', ''signalsamples'', ''signalsamplewiresize'',
      ''simulateur'', ''simulatorapp.cpp'', ''simulatorapp.hpp'', ''simulatorframefactory.cpp'',
      ''simulatorframefactory.hpp'', ''simulatoroptions.cpp'', ''simulatoroptions.hpp'', ''simulatorsocket.cpp'',
      ''simulatorsocket.hpp'', ''simulatorusage.cpp'', ''sincoefficient'', ''sineprojection'', ''sineprojectionfilter'',
      ''size'', ''snapshot'', ''snapshot invariant'', ''socketfd'', ''sol'', ''sortie'', ''sources latex'',
      ''space telemetry ground station'', ''sparkline'', ''start a station without manually choosing a port'',
      ''startsampleindex'', ''state'', ''statement'', ''station'', ''station sol'',
      ''station without manually choosing a port'', ''stationhealth.cpp'', ''stationhealth.hpp'', ''stationhealthconfig'',
      ''stationhealthmonitor'', ''stationhealthsnapshot'', ''stationstate'', ''stationstatetostring'',
      ''stationstatetransition'', (''statique compl'' @ [CHR 0xE9] @ ''mentaire''), ''stats'', ''status'', ''statusline'',
      ''statusoffset'', ''statustostring'', ''stga application payload'', ''stga v1'', ''stgf replay'', ''stgs'',
      (''stgs '' @ [CHR 0x97] @ '' version vitrine''), ''stgs documentation d execution'', ''stgs showcase guide'',
      ''stgs v1'', ''stgs v1 wire format'', ''stgs::app'', ''stgs::app::ground_station'', ''stgs::app::simulator'',
      ''stgs::detail'', ''stgs::test'', ''stop'', ''strategy'', ''streamframeextractor'', ''stricte'', ''success'']"])
    (simp only: word_simps)

lemma all_1c_found: "all_found (doc_char (CHR ''t'')) all_1c all_1c"
  unfolding all_1c_def
  by (rule own_found [where ws = "[''tcp'', ''tcp behavior and the poll snapshot invariant'', ''tcp telemetry'', ''tcpportproberesult'', ''tcpportstate'',
      ''tcpportstatetostring'', ''technical design: space telemetry ground station'', ''technical_design.md'', ''technique'',
      ''telemetry'', ''telemetry ground station'', ''telemetryframe'', ''telemetryframe.hpp'', ''telemetryoutput'',
      ''telemetryoutput.cpp'', ''telemetryoutput.hpp'', ''temperaturec'', ''temperatureoffset'', ''terminal observability'',
      ''terminalstatus'', ''terminalui'', ''terminalui.cpp'', ''terminalui.hpp'', ''test_application_signal.cpp'',
      ''test_codec.cpp'', ''test_main.cpp'', ''test_network.cpp'', ''test_replay_health.cpp'', ''testing and sanitizers'',
      ''testing strategy'', ''testregistry'', ''tests diagnostic et benchmark'',
      (''tests unitaires et d int'' @ [CHR 0xE9] @ ''gration''), ''testsupport.cpp'', ''testsupport.hpp'', ''text'',
      ''text message'', ''textmessage'', ''textmessagefixedwiresize'', ''textmessagepayload'', ''the code'',
      ''the local range'', ''the poll snapshot invariant'', ''timeout'', ''timestampms'', ''timestampoffset'', ''to'',
      ''tooshort'', ''tostring'', ''trace'', ''transport'', ''transporttostring'', ''truncatedheader'',
      ''typed application payload: stga v1'']"])
    (simp only: word_simps)

lemma all_1d_found: "all_found (doc_char (CHR ''u'')) all_1d all_1d"
  unfolding all_1d_def
  by (rule own_found [where ws = "[''u16wiresize'', ''u32wiresize'', ''u64wiresize'', ''u8wiresize'', ''udp'', ''udp behavior'', ''udp telemetry'',
      ''une revue technique'', (''unitaires et d int'' @ [CHR 0xE9] @ ''gration''), ''unknownkind'', ''unsupportedversion'',
      ''useful discussion points'']"])
    (simp only: word_simps)

lemma all_1e_found: "all_found (doc_char (CHR ''v'')) all_1e all_1e"
  unfolding all_1e_def
  by (rule own_found [where ws = "[(''v'' @ [CHR 0xE9] @ ''rification stgs '' @ [CHR 0x97] @ '' version vitrine''), ''v1'', ''v1 wire format'', ''valid'',
      ''verbose'', ''verification_report.md'', ''version'', ''version vitrine'', ''versionoffset'', ''visible in the code'',
      ''vitrine'']"])
    (simp only: word_simps)

lemma all_1f_found: "all_found (doc_char (CHR ''w'')) all_1f all_1f"
  unfolding all_1f_def
  by (rule own_found [where ws = "[''warning'', ''wave'', ''wave and filter it'', ''width'', ''windowsize'', ''wire format'',
      ''without manually choosing a port'', ''write'', ''writeframe'', ''written'']"])
    (simp only: word_simps)

lemma all_20_found: "all_found (doc_char (CHR ''~'')) all_20 all_20"
  unfolding all_20_def
  by (rule own_found [where ws = "[''~framefilewriter'', ''~logger'', ''~networkserver'', ''~posixsignalstopcontroller'', ''~socketfd'']"])
    (simp only: word_simps)

lemma all_21_found: "all_found (doc_char (CHR 0x97)) all_21 all_21"
  unfolding all_21_def
  by (rule own_found [where ws = "[([CHR 0x97] @ '' version vitrine'')]"])
    (simp only: word_simps)

lemma classes_0_found: "all_found (doc_char (CHR ''a'')) all_9 classes_0"
  unfolding classes_0_def all_9_def
  by (rule text_found [where bs = "[False, False, False, False, False, False, False, False, False, False, False, False, False, False, False, False, False,
      False, False, False, False, False, False, False, False, False, False, True, False, False, False, False, False, False,
      False, False, False, False, False, False, False, True]"
      and ws = "[''applicationpayloaderror'', ''asyncfailure'']"])
    (simp only: word_simps)

lemma classes_1_found: "all_found (doc_char (CHR ''b'')) all_a classes_1"
  unfolding classes_1_def all_a_def
  by (rule text_found [where bs = "[False, False, False, False, False, False, False, False, False, False, False, False, True, False, True, True]"
      and ws = "[''blockingqueue'', ''blockingqueue< stgs::app::ground_station::decodedworkitem >'',
      ''blockingqueue< stgs::app::ground_station::rawworkitem >'']"])
    (simp only: word_simps)

lemma classes_2_found: "all_found (doc_char (CHR ''d'')) all_c classes_2"
  unfolding classes_2_def all_c_def
  by (rule text_found [where bs = "[False, False, False, False, False, False, False, False, False, False, False, True]"
      and ws = "[''decodedworkitem'']"])
    (simp only: word_simps)

lemma classes_3_found: "all_found (doc_char (CHR ''f'')) all_e classes_3"
  unfolding classes_3_def all_e_def
  by (rule text_found [where bs = "[False, False, False, False, False, False, False, False, False, False, False, False, False, False, False, False, True,
      False, True, True]"
      and ws = "[''frameerror'', ''framefilereader'', ''framefilewriter'']"])
    (simp only: word_simps)

lemma classes_4_found: "all_found (doc_char (CHR ''g'')) all_f classes_4"
  unfolding classes_4_def all_f_def
  by (rule text_found [where bs = "[False, False, False, False, False, False, False, False, False, True]"
      and ws = "[''groundstationpipeline'']"])
    (simp only: word_simps)

lemma classes_5_found: "all_found (doc_char (CHR ''l'')) all_14 classes_5"
  unfolding classes_5_def all_14_def
  by (rule text_found [where bs = "[False, False, False, False, False, False, False, False, False, False, False, False, False, True, False, False, True]"
      and ws = "[''localportavailability'', ''logger'']"])
    (simp only: word_simps)

lemma classes_6_found: "all_found (doc_char (CHR ''n'')) all_16 classes_6"
  unfolding classes_6_def all_16_def
  by (rule text_found [where bs = "[True, True]"
      and ws = "[''networkconfig'', ''networkserver'']"])
    (simp only: word_simps)

lemma classes_7_found: "all_found (doc_char (CHR ''o'')) all_17 classes_7"
  unfolding classes_7_def all_17_def
  by (rule text_found [where bs = "[False, False, False, True]"
      and ws = "[''options'']"])
    (simp only: word_simps)

lemma classes_8_found: "all_found (doc_char (CHR ''p'')) all_18 classes_8"
  unfolding classes_8_def all_18_def
  by (rule text_found [where bs = "[False, False, False, False, False, False, False, False, False, False, False, False, False, False, False, False, False,
      False, False, False, False, True, False, False, False, False, False, False, False, False, False, False, False, False,
      True, False, True]"
      and ws = "[''pipelinestats'', ''portrange'', ''posixsignalstopcontroller'']"])
    (simp only: word_simps)

lemma classes_9_found: "all_found (doc_char (CHR ''r'')) all_1a classes_9"
  unfolding classes_9_def all_1a_def
  by (rule text_found [where bs = "[False, False, False, False, False, False, False, True]"
      and ws = "[''rawworkitem'']"])
    (simp only: word_simps)

lemma classes_a_found: "all_found (doc_char (CHR ''s'')) all_1b classes_a"
  unfolding classes_a_def all_1b_def
  by (rule text_found [where bs = "[False, False, False, False, False, False, False, False, False, False, False, False, False, False, False, False, False,
      False, False, False, False, False, False, False, False, False, False, False, False, False, False, False, False, True,
      False, False, False, False, True, False, False, False, False, False, False, False, False, False, False, False, False,
      False, False, False, False, False, False, False, False, True, False, False, False, False, False, False, False, False,
      False, False, False, False, False, False, True, True, True, False, False, True, False, False, False, False, False,
      False, False, False, False, False, False, False, False, False, False, False, False, False, False, False, False, False,
      True]"
      and ws = "[''signalblockpayload'', ''signalmetrics'', ''socketfd'', ''stationhealthconfig'', ''stationhealthmonitor'',
      ''stationhealthsnapshot'', ''stationstatetransition'', ''streamframeextractor'']"])
    (simp only: word_simps)

lemma classes_b_found: "all_found (doc_char (CHR ''t'')) all_1c classes_b"
  unfolding classes_b_def all_1c_def
  by (rule text_found [where bs = "[False, False, False, True, False, False, False, False, False, False, False, True, False, True, False, False, False,
      False, False, False, True, False, False, False, False, False, False, False, False, False, False, False, False, False,
      False, False, False, False, False, True]"
      and ws = "[''tcpportproberesult'', ''telemetryframe'', ''telemetryoutput'', ''terminalui'', ''textmessagepayload'']"])
    (simp only: word_simps)

lemma namespaces_0_found: "all_found (doc_char (CHR ''s'')) all_1b namespaces_0"
  unfolding namespaces_0_def all_1b_def
  by (rule text_found [where bs = "[False, False, False, False, False, False, False, False, False, False, False, False, False, False, False, False, False,
      False, False, False, False, False, False, False, False, False, False, False, False, False, False, False, False, False,
      False, False, False, False, False, False, False, False, False, False, False, False, False, False, False, False, False,
      False, False, False, False, False, False, False, False, False, False, False, False, False, False, False, False, False,
      False, False, False, False, False, False, False, False, False, False, False, False, False, False, False, False, False,
      False, False, False, False, True, False, False, False, False, False, True, True, True, True, True]"
      and ws = "[''stgs'', ''stgs::app'', ''stgs::app::ground_station'', ''stgs::app::simulator'', ''stgs::detail'', ''stgs::test'']"])
    (simp only: word_simps)

lemma files_0_found: "all_found (doc_char (CHR ''a'')) all_9 files_0"
  unfolding files_0_def all_9_def
  by (rule symbol_found [OF files_0_indexed [unfolded files_0_def], where bs = "[False, False, False, False, False, False, False, False, False, False, False, False, False, False, False, False, False,
      False, False, False, False, False, False, False, False, True, True]"
      and ws = "[''applicationpayload.cpp'', ''applicationpayload.hpp'']"])
    (simp only: word_simps)

lemma files_1_found: "all_found (doc_char (CHR ''b'')) all_a files_1"
  unfolding files_1_def all_a_def
  by (rule symbol_found [OF files_1_indexed [unfolded files_1_def], where bs = "[False, False, False, False, False, False, False, False, False, True, False, False, False, True, False, False, False,
      False, False, False, False, False, False, True]"
      and ws = "[''benchmark_decode.cpp'', ''blockingqueue.hpp'', ''byteutils.hpp'']"])
    (simp only: word_simps)

lemma files_2_found: "all_found (doc_char (CHR ''c'')) all_b files_2"
  unfolding files_2_def all_b_def
  by (rule symbol_found [OF files_2_indexed [unfolded files_2_def], where bs = "[False, False, False, False, False, False, False, False, True, False, False, False, False, False, False, False, False,
      False, False, False, False, False, False, False, False, False, False, False, False, False, False, False, True, True]"
      and ws = "[''cliparsing.hpp'', ''crc32.cpp'', ''crc32.hpp'']"])
    (simp only: word_simps)

lemma files_3_found: "all_found (doc_char (CHR ''f'')) all_e files_3"
  unfolding files_3_def all_e_def
  by (rule symbol_found [OF files_3_indexed [unfolded files_3_def], where bs = "[False, False, False, False, False, False, False, False, False, False, False, False, False, False, True, True]"
      and ws = "[''framecodec.cpp'', ''framecodec.hpp'']"])
    (simp only: word_simps)

lemma files_4_found: "all_found (doc_char (CHR ''g'')) all_f files_4"
  unfolding files_4_def all_f_def
  by (rule symbol_found [OF files_4_indexed [unfolded files_4_def], where bs = "[False, False, False, True, True, True, True, True, True, False, True, True, True, True, True, True]"
      and ws = "[''ground_station.cpp'', ''groundstationapp.cpp'', ''groundstationapp.hpp'', ''groundstationinput.cpp'',
      ''groundstationoptions.cpp'', ''groundstationoptions.hpp'', ''groundstationpipeline.cpp'',
      ''groundstationpipeline.hpp'', ''groundstationprocessing.cpp'', ''groundstationprocessing.hpp'',
      ''groundstationusage.cpp'', ''groundstationworkers.cpp'']"])
    (simp only: word_simps)

lemma files_5_found: "all_found (doc_char (CHR ''l'')) all_14 files_5"
  unfolding files_5_def all_14_def
  by (rule symbol_found [OF files_5_indexed [unfolded files_5_def], where bs = "[False, False, False, False, False, False, False, False, False, False, False, False, False, False, False, False, False,
      True, True]"
      and ws = "[''logger.cpp'', ''logger.hpp'']"])
    (simp only: word_simps)

lemma files_6_found: "all_found (doc_char (CHR ''n'')) all_16 files_6"
  unfolding files_6_def all_16_def
  by (rule symbol_found [OF files_6_indexed [unfolded files_6_def], where bs = "[False, False, True, True, True, True]"
      and ws = "[''networkserver.cpp'', ''networkserver.hpp'', ''networkservertcp.cpp'', ''networkserverudp.cpp'']"])
    (simp only: word_simps)

lemma files_7_found: "all_found (doc_char (CHR ''p'')) all_18 files_7"
  unfolding files_7_def all_18_def
  by (rule symbol_found [OF files_7_indexed [unfolded files_7_def], where bs = "[False, False, False, False, False, False, False, False, False, False, False, False, False, False, False, False, False,
      True, False, False, False, False, False, False, False, False, False, False, False, False, False, True, True, True,
      False, False, False, True, True]"
      and ws = "[''performance_report.md'', ''port_check.cpp'', ''portdiagnostics.cpp'', ''portdiagnostics.hpp'',
      ''posixsignalstopcontroller.cpp'', ''posixsignalstopcontroller.hpp'']"])
    (simp only: word_simps)

lemma files_8_found: "all_found (doc_char (CHR ''r'')) all_1a files_8"
  unfolding files_8_def all_1a_def
  by (rule symbol_found [OF files_8_indexed [unfolded files_8_def], where bs = "[False, False, False, False, False, False, False, False, False, True, True, False, False, False, False, False, False,
      False, False, False, False, False, False, False, False, False, False, False, False, False, False, True, True]"
      and ws = "[''readme.md'', ''readme_documentation.md'', ''replay.cpp'', ''replay.hpp'']"])
    (simp only: word_simps)

lemma files_9_found: "all_found (doc_char (CHR ''s'')) all_1b files_9"
  unfolding files_9_def all_1b_def
  by (rule symbol_found [OF files_9_indexed [unfolded files_9_def], where bs = "[False, False, False, False, False, False, False, True, False, False, False, False, False, False, False, False, False,
      False, False, False, False, False, False, False, False, False, False, True, False, False, False, False, False, False,
      False, False, False, False, False, True, True, False, False, False, True, True, True, True, True, True, True, True,
      True, False, False, False, False, False, False, False, False, False, False, False, False, False, False, False, False,
      False, False, False, True, True]"
      and ws = "[''satellite_simulator.cpp'', ''showcase_guide.md'', ''signalprocessing.cpp'', ''signalprocessing.hpp'',
      ''simulatorapp.cpp'', ''simulatorapp.hpp'', ''simulatorframefactory.cpp'', ''simulatorframefactory.hpp'',
      ''simulatoroptions.cpp'', ''simulatoroptions.hpp'', ''simulatorsocket.cpp'', ''simulatorsocket.hpp'',
      ''simulatorusage.cpp'', ''stationhealth.cpp'', ''stationhealth.hpp'']"])
    (simp only: word_simps)

lemma files_a_found: "all_found (doc_char (CHR ''t'')) all_1c files_a"
  unfolding files_a_def all_1c_def
  by (rule symbol_found [OF files_a_indexed [unfolded files_a_def], where bs = "[False, False, False, False, False, False, False, True, False, False, False, False, True, False, True, True, False,
      False, False, False, False, True, True, True, True, True, True, True, False, False, False, False, False, True, True]"
      and ws = "[''technical_design.md'', ''telemetryframe.hpp'', ''telemetryoutput.cpp'', ''telemetryoutput.hpp'', ''terminalui.cpp'',
      ''terminalui.hpp'', ''test_application_signal.cpp'', ''test_codec.cpp'', ''test_main.cpp'', ''test_network.cpp'',
      ''test_replay_health.cpp'', ''testsupport.cpp'', ''testsupport.hpp'']"])
    (simp only: word_simps)

lemma files_b_found: "all_found (doc_char (CHR ''v'')) all_1e files_b"
  unfolding files_b_def all_1e_def
  by (rule symbol_found [OF files_b_indexed [unfolded files_b_def], where bs = "[False, False, False, False, False, True]"
      and ws = "[''verification_report.md'']"])
    (simp only: word_simps)

lemma functions_0_found: "all_found (doc_char (CHR ''a'')) all_9 functions_0"
  unfolding functions_0_def all_9_def
  by (rule symbol_found [OF functions_0_indexed [unfolded functions_0_def], where bs = "[False, False, False, False, False, False, False, False, False, False, False, False, False, False, False, False, True,
      True, True, True, True, False, False, False, False, False, False, False, False, True, False, True, False, False, False,
      False, False, False, True, True]"
      and ws = "[''appendfloatbe'', ''appendu16be'', ''appendu32be'', ''appendu64be'', ''appendu8'',
      ''applicationpayloaderrortostring'', ''applicationpayloadkindtostring'', ''assertnear'', ''assertthrows'']"])
    (simp only: word_simps)

lemma functions_1_found: "all_found (doc_char (CHR ''b'')) all_a functions_1"
  unfolding functions_1_def all_a_def
  by (rule symbol_found [OF functions_1_indexed [unfolded functions_1_def], where bs = "[False, False, False, False, False, False, False, False, False, False, False, False, True, False, False, False, False,
      True]"
      and ws = "[''blockingqueue'', ''bufferedbytes'']"])
    (simp only: word_simps)

lemma functions_2_found: "all_found (doc_char (CHR ''c'')) all_b functions_2"
  unfolding functions_2_def all_b_def
  by (rule symbol_found [OF functions_2_indexed [unfolded functions_2_def], where bs = "[False, True, True, False, False, True, False, True, False, True, True, False, False, True, False, False, False, False,
      True, False, False, False, True, False, False, False, True, False, False, False, False, True, False, False, False,
      False, False, False, False, False, True]"
      and ws = "[''capacity'', ''capture'', ''checklocalportavailability'', ''clear'', ''close'', ''closed'', ''colorsenabled'',
      ''computesignalmetrics'', ''connectloopback'', ''count'', ''crc32'', ''createsocket'']"])
    (simp only: word_simps)

lemma functions_3_found: "all_found (doc_char (CHR ''d'')) all_c functions_3"
  unfolding functions_3_def all_c_def
  by (rule symbol_found [OF functions_3_indexed [unfolded functions_3_def], where bs = "[False, False, False, False, False, False, False, False, True, True, False, False, True, False, False, False, False,
      False, False, False, False, False, False, False, False, True]"
      and ws = "[''debug'', ''decodeapplicationpayload'', ''decodeframe'', ''destination'']"])
    (simp only: word_simps)

lemma functions_4_found: "all_found (doc_char (CHR ''e'')) all_d functions_4"
  unfolding functions_4_def all_d_def
  by (rule symbol_found [OF functions_4_indexed [unfolded functions_4_def], where bs = "[False, True, True, True, False, True, True, False, True]"
      and ws = "[''encodeframe'', ''encodesignalblockpayload'', ''encodetextmessagepayload'', ''ephemeralport'', ''error'',
      ''errorcodetostring'']"])
    (simp only: word_simps)

lemma functions_5_found: "all_found (doc_char (CHR ''f'')) all_e functions_5"
  unfolding functions_5_def all_e_def
  by (rule symbol_found [OF functions_5_indexed [unfolded functions_5_def], where bs = "[False, True, False, False, False, True, True, False, False, True, False, False, False, False, False, False, False,
      False, True, True]"
      and ws = "[''feed'', ''findfirstavailablelocalport'', ''finish'', ''flush'', ''framefilereader'', ''framefilewriter'']"])
    (simp only: word_simps)

lemma functions_6_found: "all_found (doc_char (CHR ''g'')) all_f functions_6"
  unfolding functions_6_def all_f_def
  by (rule symbol_found [OF functions_6_indexed [unfolded functions_6_def], where bs = "[False, True, False, False, False, False, False, False, False, True]"
      and ws = "[''get'', ''groundstationpipeline'']"])
    (simp only: word_simps)

lemma functions_7_found: "all_found (doc_char (CHR ''i'')) all_11 functions_7"
  unfolding functions_7_def all_11_def
  by (rule symbol_found [OF functions_7_indexed [unfolded functions_7_def], where bs = "[False, False, True, False, False, True, False, False, False, False, False, False, False, True]"
      and ws = "[''info'', ''interactive'', ''isloopbackipv4'']"])
    (simp only: word_simps)

lemma functions_8_found: "all_found (doc_char (CHR ''k'')) all_13 functions_8"
  unfolding functions_8_def all_13_def
  by (rule symbol_found [OF functions_8_indexed [unfolded functions_8_def], where bs = "[True]"
      and ws = "[''keyvalue'']"])
    (simp only: word_simps)

lemma functions_9_found: "all_found (doc_char (CHR ''l'')) all_14 functions_9"
  unfolding functions_9_def all_14_def
  by (rule symbol_found [OF functions_9_indexed [unfolded functions_9_def], where bs = "[False, False, False, False, False, False, False, False, False, False, False, False, False, False, True, False, True,
      False, False, False, True, True]"
      and ws = "[''log'', ''logger'', ''logleveltostring'', ''logtransition'']"])
    (simp only: word_simps)

lemma functions_a_found: "all_found (doc_char (CHR ''m'')) all_15 functions_a"
  unfolding functions_a_def all_15_def
  by (rule symbol_found [OF functions_a_indexed [unfolded functions_a_def], where bs = "[False, False, True, True, False, False, False, False, False, False, False, False, False, True, False, False, False,
      False, False, False, False, False, False, False, True]"
      and ws = "[''main'', ''makeframe'', ''maybecorrupt'', ''movingaveragefilter'']"])
    (simp only: word_simps)

lemma functions_b_found: "all_found (doc_char (CHR ''n'')) all_16 functions_b"
  unfolding functions_b_def all_16_def
  by (rule symbol_found [OF functions_b_indexed [unfolded functions_b_def], where bs = "[False, True, False, False, False, False, False, False, False, False, False, False, False, True]"
      and ws = "[''networkserver'', ''nowiso8601'']"])
    (simp only: word_simps)

lemma functions_c_found: "all_found (doc_char (CHR ''o'')) all_17 functions_c"
  unfolding functions_c_def all_17_def
  by (rule symbol_found [OF functions_c_indexed [unfolded functions_c_def], where bs = "[False, False, True]"
      and ws = "[''operator='']"])
    (simp only: word_simps)

lemma functions_d_found: "all_found (doc_char (CHR ''p'')) all_18 functions_d"
  unfolding functions_d_def all_18_def
  by (rule symbol_found [OF functions_d_indexed [unfolded functions_d_def], where bs = "[False, True, True, True, True, True, True, False, False, False, False, True, False, True, False, False, False, False,
      False, False, False, False, False, False, False, False, False, True, False, False, False, False, False, False, False,
      False, True, False, False, False, False, False, True, True, True, False, False, False, True]"
      and ws = "[''parseargs'', ''parsefinitedouble'', ''parseloglevel'', ''parseportrange'', ''parseprobability'', ''parseunsigned'',
      ''payloadmodename'', ''payloadtohex'', ''pop'', ''posixsignalstopcontroller'', ''printusage'', ''probetcpport'',
      ''processapplicationpayload'', ''push'']"])
    (simp only: word_simps)

lemma functions_e_found: "all_found (doc_char (CHR ''r'')) all_1a functions_e"
  unfolding functions_e_def all_1a_def
  by (rule symbol_found [OF functions_e_indexed [unfolded functions_e_def], where bs = "[False, False, False, False, False, False, False, False, True, False, False, True, True, True, True, False, False, True,
      True, False, True, True, False, False, True, True, True, True, False, False, False, False, False, False, False, False,
      False, False, False, True, False, True, True, False, True]"
      and ws = "[''readfloatbe'', ''readnext'', ''readu16be'', ''readu32be'', ''readu64be'', ''receivedmessage'', ''receivedsignal'',
      ''recorddecoded'', ''recordrejected'', ''registerapplicationsignaltests'', ''registercodectests'',
      ''registernetworktests'', ''registerreplayhealthtests'', ''resolveoutputformat'', ''rethrowifpresent'',
      ''rethrowthreaderror'', ''run'']"])
    (simp only: word_simps)

lemma functions_f_found: "all_found (doc_char (CHR ''s'')) all_1b functions_f"
  unfolding functions_f_def all_1b_def
  by (rule symbol_found [OF functions_f_indexed [unfolded functions_f_def], where bs = "[False, False, True, False, False, True, False, False, False, False, False, True, False, False, False, True, False,
      False, False, False, False, False, True, True, False, True, False, False, False, False, False, False, False, False,
      False, False, True, False, False, False, False, False, False, False, False, False, False, False, False, False, False,
      False, False, False, False, True, True, True, False, True, False, False, False, False, True, False, False, True, False,
      False, False, False, False, False, False, True, False, False, True, False, False, True, False, True, False, True,
      False, False, False, False, False, False, False, False, False, False, False, False, False, False, True]"
      and ws = "[''sampleframe'', ''sanitizeremotetext'', ''scantcpports'', ''section'', ''sendall'', ''sendexact'', ''setminlevel'',
      ''signalfiltermodetostring'', ''sineprojectionfilter'', ''size'', ''snapshot'', ''socketfd'', ''sparkline'', ''state'',
      ''stationhealthmonitor'', ''stationstatetostring'', ''stats'', ''statusline'', ''statustostring'', ''stop'']"])
    (simp only: word_simps)

lemma functions_10_found: "all_found (doc_char (CHR ''t'')) all_1c functions_10"
  unfolding functions_10_def all_1c_def
  by (rule symbol_found [OF functions_10_indexed [unfolded functions_10_def], where bs = "[False, False, False, False, False, True, False, False, False, False, False, False, False, True, False, False, False,
      False, False, False, True, False, False, False, False, False, False, False, False, False, False, False, False, False,
      False, False, False, False, False, False, False, False, False, False, False, False, False, False, True, True, False,
      True]"
      and ws = "[''tcpportstatetostring'', ''telemetryoutput'', ''terminalui'', ''tostring'', ''trace'', ''transporttostring'']"])
    (simp only: word_simps)

lemma functions_11_found: "all_found (doc_char (CHR ''v'')) all_1e functions_11"
  unfolding functions_11_def all_1e_def
  by (rule symbol_found [OF functions_11_indexed [unfolded functions_11_def], where bs = "[False, False, False, True]"
      and ws = "[''valid'']"])
    (simp only: word_simps)

lemma functions_12_found: "all_found (doc_char (CHR ''w'')) all_1f functions_12"
  unfolding functions_12_def all_1f_def
  by (rule symbol_found [OF functions_12_indexed [unfolded functions_12_def], where bs = "[True, False, False, True, False, False, False, True, True]"
      and ws = "[''warning'', ''width'', ''write'', ''writeframe'']"])
    (simp only: word_simps)

lemma functions_13_found: "all_found (doc_char (CHR ''~'')) all_20 functions_13"
  unfolding functions_13_def all_20_def
  by (rule symbol_found [OF functions_13_indexed [unfolded functions_13_def], where bs = "[True, True, True, True, True]"
      and ws = "[''~framefilewriter'', ''~logger'', ''~networkserver'', ''~posixsignalstopcontroller'', ''~socketfd'']"])
    (simp only: word_simps)

lemma variables_0_found: "all_found (doc_char (CHR ''a'')) all_9 variables_0"
  unfolding variables_0_def all_9_def
  by (rule symbol_found [OF variables_0_indexed [unfolded variables_0_def], where bs = "[False, False, False, False, False, False, False, False, False, False, False, False, False, False, False, False, False,
      False, False, False, False, False, False, True, True, False, False, False, False, False, False, False, True, False,
      True, False, False, False, False, False, False, False, False, False, True, True]"
      and ws = "[''applicationcommonheadersize'', ''applicationerrors'', ''applicationpayloadmagic'', ''applicationpayloadversion'',
      ''autoportrange'', ''available'']"])
    (simp only: word_simps)

lemma variables_1_found: "all_found (doc_char (CHR ''b'')) all_a variables_1"
  unfolding variables_1_def all_a_def
  by (rule symbol_found [OF variables_1_indexed [unfolded variables_1_def], where bs = "[False, False, True, True, False, False, False, False, False, False, False, True, False, False, False, False, False,
      False, False, False, False, True, True]"
      and ws = "[''batteryoffset'', ''batterypercent'', ''bindaddress'', ''bytemask'', ''bytes'']"])
    (simp only: word_simps)

lemma variables_2_found: "all_found (doc_char (CHR ''c'')) all_b variables_2"
  unfolding variables_2_def all_b_def
  by (rule symbol_found [OF variables_2_indexed [unfolded variables_2_def], where bs = "[False, False, False, False, False, False, False, False, False, False, False, True, True, False, False, False, False,
      False, False, False, False, False, False, False, True, True, True, True, False, False, False, False, False, False,
      True, True, True, True, True, True, False, True, True, True]"
      and ws = "[''code'', ''color'', ''corruptprobability'', ''coscoefficient'', ''count'', ''countexplicit'', ''crc32check123456789'',
      ''crc32finalxor'', ''crc32initialvalue'', ''crc32polynomial'', ''crc32reflectedpolynomial'', ''crcsize'', ''critical'',
      ''criticalframesfordegraded'', ''criticalframesforrecovery'']"])
    (simp only: word_simps)

lemma variables_3_found: "all_found (doc_char (CHR ''d'')) all_c variables_3"
  unfolding variables_3_def all_c_def
  by (rule symbol_found [OF variables_3_indexed [unfolded variables_3_def], where bs = "[False, False, False, False, True, False, False, False, False, False, True, False, False, True, False, True, True, True,
      True, False, True, False, False, False, False, False, True, False, False, False, False, False, False, True, True]"
      and ws = "[''dc'', ''decoded'', ''decoderthreads'', ''defaultnetworkpolltimeoutms'', ''defaultpayloadpreviewbytes'',
      ''defaultportprobetimeout'', ''defaulttelemetryport'', ''degradedrejectionrate'', ''detail'', ''discoverports'',
      ''discoverytimeout'']"])
    (simp only: word_simps)

lemma variables_4_found: "all_found (doc_char (CHR ''e'')) all_d variables_4"
  unfolding variables_4_def all_d_def
  by (rule symbol_found [OF variables_4_indexed [unfolded variables_4_def], where bs = "[True, False, False, False, False, False, False, False, False, True, True, False, False, False, False, True]"
      and ws = "[''enabled'', ''estimatedamplitude'', ''estimatedsnrdb'', ''extractor'']"])
    (simp only: word_simps)

lemma variables_5_found: "all_found (doc_char (CHR ''f'')) all_e variables_5"
  unfolding variables_5_def all_e_def
  by (rule symbol_found [OF variables_5_indexed [unfolded variables_5_def], where bs = "[True, False, False, True, False, False, False, True, True, False, False, False, False, False, False, False, False,
      False, False, False, True, False, True, True]"
      and ws = "[''fd'', ''filteredrms'', ''first'', ''float32wiresize'', ''framemagic'', ''frequencyhz'', ''from'']"])
    (simp only: word_simps)

lemma variables_6_found: "all_found (doc_char (CHR ''h'')) all_10 variables_6"
  unfolding variables_6_def all_10_def
  by (rule symbol_found [OF variables_6_indexed [unfolded variables_6_def], where bs = "[False, True, False, False, True, False, True]"
      and ws = "[''headersize'', ''healthconfig'', ''host'']"])
    (simp only: word_simps)

lemma variables_7_found: "all_found (doc_char (CHR ''l'')) all_14 variables_7"
  unfolding variables_7_def all_14_def
  by (rule symbol_found [OF variables_7_indexed [unfolded variables_7_def], where bs = "[True, True, False, False, False, False, False, False, False, False, False, False, False, False, False, True, False,
      False, False, True, False, False, True]"
      and ws = "[''last'', ''latencyms'', ''logfile'', ''loglevel'', ''lossprobability'']"])
    (simp only: word_simps)

lemma variables_8_found: "all_found (doc_char (CHR ''m'')) all_15 variables_8"
  unfolding variables_8_def all_15_def
  by (rule symbol_found [OF variables_8_indexed [unfolded variables_8_def], where bs = "[True, True, False, False, False, True, True, True, True, True, True, True, True, False, False, True, True, True, True,
      False, False, False, False, False, False, True]"
      and ws = "[''magicoffset'', ''magicsize'', ''maxbatterypercent'', ''maxdiagnosticportcount'', ''maxframesize'',
      ''maximumnetworkport'', ''maximumportprobetimeout'', ''maxpayloadsize'', ''maxsignalsamplesperpayload'',
      ''maxtextmessagebytes'', ''message'', ''minframesize'', ''minimumnetworkport'', ''minsamples'', ''movingaveragewindow'']"])
    (simp only: word_simps)

lemma variables_9_found: "all_found (doc_char (CHR ''n'')) all_16 variables_9"
  unfolding variables_9_def all_16_def
  by (rule symbol_found [OF variables_9_indexed [unfolded variables_9_def], where bs = "[False, False, False, False, False, False, False, True, False, False, False, True]"
      and ws = "[''noisestddev'', ''nominalamplitude'']"])
    (simp only: word_simps)

lemma variables_a_found: "all_found (doc_char (CHR ''o'')) all_17 variables_a"
  unfolding variables_a_def all_17_def
  by (rule symbol_found [OF variables_a_indexed [unfolded variables_a_def], where bs = "[False, False, False, False, False, True, True]"
      and ws = "[''outputfile'', ''outputformat'']"])
    (simp only: word_simps)

lemma variables_b_found: "all_found (doc_char (CHR ''p'')) all_18 variables_b"
  unfolding variables_b_def all_18_def
  by (rule symbol_found [OF variables_b_indexed [unfolded variables_b_def], where bs = "[False, False, False, False, False, False, False, True, False, True, True, False, True, False, False, False, False,
      False, False, False, False, False, False, False, False, False, True, False, True, False, False, False, False, False,
      False, False, False, False, False, False, False, False, False, False, False, False, False, True]"
      and ws = "[''payload'', ''payloadlengthoffset'', ''payloadmode'', ''payloadsize'', ''polltimeoutms'', ''port'', ''protocolversion'']"])
    (simp only: word_simps)

lemma variables_c_found: "all_found (doc_char (CHR ''q'')) all_19 variables_c"
  unfolding variables_c_def all_19_def
  by (rule symbol_found [OF variables_c_indexed [unfolded variables_c_def], where bs = "[True]"
      and ws = "[''queuecapacity'']"])
    (simp only: word_simps)

lemma variables_d_found: "all_found (doc_char (CHR ''r'')) all_1a variables_d"
  unfolding variables_d_def all_1a_def
  by (rule symbol_found [OF variables_d_indexed [unfolded variables_d_def], where bs = "[False, False, False, False, False, True, True, False, False, False, False, False, False, False, False, True, True,
      False, False, False, False, False, True, False, False, False, False, False, True, True, False, False, False, True,
      True, False, False, False, True, False, True]"
      and ws = "[''rate'', ''rawrms'', ''reason'', ''received'', ''recoveryrejectionrate'', ''rejected'', ''rejectionrate'',
      ''replayfile'', ''replayrate'', ''residualnoiserms'', ''result'']"])
    (simp only: word_simps)

lemma variables_e_found: "all_found (doc_char (CHR ''s'')) all_1b variables_e"
  unfolding variables_e_def all_1b_def
  by (rule symbol_found [OF variables_e_indexed [unfolded variables_e_def], where bs = "[False, False, False, True, True, False, False, False, True, True, False, False, False, False, False, False, True,
      False, False, False, False, False, False, False, True, False, False, False, False, False, True, False, True, False,
      True, False, False, True, False, False, False, True, True, False, False, False, False, False, False, False, False,
      False, False, True, False, False, False, True, False, False, False, False, False, False, False, False, True, True,
      False, False, False, False, False, False, False, False, False, False, False, False, False, False, True, False, True]"
      and ws = "[''sampleratehz'', ''samples'', ''satelliteid'', ''satelliteidoffset'', ''seed'', ''sequence'', ''signalamplitude'',
      ''signalblockfixedwiresize'', ''signalfilter'', ''signalfrequencyhz'', ''signalsamples'', ''signalsamplewiresize'',
      ''sincoefficient'', ''snapshot'', ''startsampleindex'', ''state'', ''status'', ''statusoffset'']"])
    (simp only: word_simps)

lemma variables_f_found: "all_found (doc_char (CHR ''t'')) all_1c variables_f"
  unfolding variables_f_def all_1c_def
  by (rule symbol_found [OF variables_f_indexed [unfolded variables_f_def], where bs = "[False, False, False, False, False, False, False, False, False, False, False, False, False, False, False, False, True,
      True, False, False, False, False, False, False, False, False, False, False, False, False, False, False, False, False,
      False, True, False, False, True, False, False, False, False, False, True, True, True, False, False, False, True]"
      and ws = "[''temperaturec'', ''temperatureoffset'', ''text'', ''textmessagefixedwiresize'', ''timestampms'', ''timestampoffset'',
      ''to'', ''transport'']"])
    (simp only: word_simps)

lemma variables_10_found: "all_found (doc_char (CHR ''u'')) all_1d variables_10"
  unfolding variables_10_def all_1d_def
  by (rule symbol_found [OF variables_10_indexed [unfolded variables_10_def], where bs = "[True, True, True, True]"
      and ws = "[''u16wiresize'', ''u32wiresize'', ''u64wiresize'', ''u8wiresize'']"])
    (simp only: word_simps)

lemma variables_11_found: "all_found (doc_char (CHR ''v'')) all_1e variables_11"
  unfolding variables_11_def all_1e_def
  by (rule symbol_found [OF variables_11_indexed [unfolded variables_11_def], where bs = "[False, False, False, False, True, False, True, False, True]"
      and ws = "[''verbose'', ''version'', ''versionoffset'']"])
    (simp only: word_simps)

lemma variables_12_found: "all_found (doc_char (CHR ''w'')) all_1f variables_12"
  unfolding variables_12_def all_1f_def
  by (rule symbol_found [OF variables_12_indexed [unfolded variables_12_def], where bs = "[False, False, False, False, True, False, False, False, False, True]"
      and ws = "[''windowsize'', ''written'']"])
    (simp only: word_simps)

lemma typedefs_0_found: "all_found (doc_char (CHR ''a'')) all_9 typedefs_0"
  unfolding typedefs_0_def all_9_def
  by (rule symbol_found [OF typedefs_0_indexed [unfolded typedefs_0_def], where bs = "[False, False, False, False, False, False, False, False, False, False, False, False, False, False, False, False, False,
      False, False, False, False, False, False, False, False, False, False, False, False, False, False, False, False, True]"
      and ws = "[''applicationpayloadparseresult'']"])
    (simp only: word_simps)

lemma typedefs_1_found: "all_found (doc_char (CHR ''b'')) all_a typedefs_1"
  unfolding typedefs_1_def all_a_def
  by (rule symbol_found [OF typedefs_1_indexed [unfolded typedefs_1_def], where bs = "[False, False, False, False, False, False, False, False, False, False, False, False, False, False, False, False, False,
      False, False, False, False, False, False, False, True]"
      and ws = "[''bytevector'']"])
    (simp only: word_simps)

lemma typedefs_2_found: "all_found (doc_char (CHR ''f'')) all_e typedefs_2"
  unfolding typedefs_2_def all_e_def
  by (rule symbol_found [OF typedefs_2_indexed [unfolded typedefs_2_def], where bs = "[False, False, False, False, False, False, False, False, False, False, False, False, False, True, False, False, False,
      False, False, False, False, True]"
      and ws = "[''framecallback'', ''frameparseresult'']"])
    (simp only: word_simps)

lemma typedefs_3_found: "all_found (doc_char (CHR ''t'')) all_1c typedefs_3"
  unfolding typedefs_3_def all_1c_def
  by (rule symbol_found [OF typedefs_3_indexed [unfolded typedefs_3_def], where bs = "[False, False, False, False, False, False, False, False, False, False, False, False, False, False, False, False, False,
      False, False, False, False, False, False, False, False, False, False, False, False, False, True]"
      and ws = "[''testregistry'']"])
    (simp only: word_simps)

lemma enums_0_found: "all_found (doc_char (CHR ''a'')) all_9 enums_0"
  unfolding enums_0_def all_9_def
  by (rule symbol_found [OF enums_0_indexed [unfolded enums_0_def], where bs = "[False, False, False, False, False, False, False, False, False, False, False, False, False, False, False, False, False,
      False, False, False, False, False, False, False, False, False, False, False, True, False, True]"
      and ws = "[''applicationpayloaderrorcode'', ''applicationpayloadkind'']"])
    (simp only: word_simps)

lemma enums_1_found: "all_found (doc_char (CHR ''f'')) all_e enums_1"
  unfolding enums_1_def all_e_def
  by (rule symbol_found [OF enums_1_indexed [unfolded enums_1_def], where bs = "[False, False, False, False, False, False, False, False, False, False, False, False, False, False, False, False, False,
      True]"
      and ws = "[''frameerrorcode'']"])
    (simp only: word_simps)

lemma enums_2_found: "all_found (doc_char (CHR ''l'')) all_14 enums_2"
  unfolding enums_2_def all_14_def
  by (rule symbol_found [OF enums_2_indexed [unfolded enums_2_def], where bs = "[False, False, False, False, False, False, False, False, False, False, False, False, False, False, False, False, False,
      False, False, True]"
      and ws = "[''loglevel'']"])
    (simp only: word_simps)

lemma enums_3_found: "all_found (doc_char (CHR ''o'')) all_17 enums_3"
  unfolding enums_3_def all_17_def
  by (rule symbol_found [OF enums_3_indexed [unfolded enums_3_def], where bs = "[False, False, False, False, False, False, True]"
      and ws = "[''outputformat'']"])
    (simp only: word_simps)

lemma enums_4_found: "all_found (doc_char (CHR ''p'')) all_18 enums_4"
  unfolding enums_4_def all_18_def
  by (rule symbol_found [OF enums_4_indexed [unfolded enums_4_def], where bs = "[False, False, False, False, False, False, False, False, False, False, True, False, False, False, False, False, False,
      False, False, False, False, False, False, False, False, False, False, False, False, False, False, False, False, False,
      False, True]"
      and ws = "[''payloadmode'', ''porttransport'']"])
    (simp only: word_simps)

lemma enums_5_found: "all_found (doc_char (CHR ''s'')) all_1b enums_5"
  unfolding enums_5_def all_1b_def
  by (rule symbol_found [OF enums_5_indexed [unfolded enums_5_def], where bs = "[False, False, False, False, False, False, False, False, False, False, False, False, False, False, False, False, False,
      False, False, False, False, False, False, False, False, False, False, False, False, False, False, False, False, False,
      False, True, False, False, False, False, False, False, False, False, False, False, False, False, False, False, False,
      False, False, False, False, False, False, False, False, False, False, False, False, False, False, False, False, False,
      False, False, False, False, False, False, False, False, False, True, False, False, False, False, True]"
      and ws = "[''signalfiltermode'', ''stationstate'', ''status'']"])
    (simp only: word_simps)

lemma enums_6_found: "all_found (doc_char (CHR ''t'')) all_1c enums_6"
  unfolding enums_6_def all_1c_def
  by (rule symbol_found [OF enums_6_indexed [unfolded enums_6_def], where bs = "[False, False, False, False, True, False, False, False, False, False, False, False, False, False, False, False, False,
      False, False, True, False, False, False, False, False, False, False, False, False, False, False, False, False, False,
      False, False, False, False, False, False, False, False, False, False, False, False, False, False, False, False, True]"
      and ws = "[''tcpportstate'', ''terminalstatus'', ''transport'']"])
    (simp only: word_simps)

lemma enumvalues_0_found: "all_found (doc_char (CHR ''a'')) all_9 enumvalues_0"
  unfolding enumvalues_0_def all_9_def
  by (rule symbol_found [OF enumvalues_0_indexed [unfolded enumvalues_0_def], where bs = "[False, False, False, False, False, False, False, False, False, False, False, False, False, False, False, False, False,
      False, False, False, False, False, False, False, False, False, False, False, False, False, False, False, False, False,
      False, False, False, False, False, False, False, False, True]"
      and ws = "[''auto'']"])
    (simp only: word_simps)

lemma enumvalues_1_found: "all_found (doc_char (CHR ''b'')) all_a enumvalues_1"
  unfolding enumvalues_1_def all_a_def
  by (rule symbol_found [OF enumvalues_1_indexed [unfolded enumvalues_1_def], where bs = "[True, True]"
      and ws = "[''badcrc'', ''badmagic'']"])
    (simp only: word_simps)

lemma enumvalues_2_found: "all_found (doc_char (CHR ''c'')) all_b enumvalues_2"
  unfolding enumvalues_2_def all_b_def
  by (rule symbol_found [OF enumvalues_2_indexed [unfolded enumvalues_2_def], where bs = "[False, False, False, False, False, False, False, False, False, False, True, False, False, False, False, False, False,
      False, False, False, False, False, False, False, False, False, False, False, False, False, False, False, False, False,
      False, False, False, False, False, False, False, True, False, False, True]"
      and ws = "[''closed'', ''critical'', ''csv'']"])
    (simp only: word_simps)

lemma enumvalues_3_found: "all_found (doc_char (CHR ''d'')) all_c enumvalues_3"
  unfolding enumvalues_3_def all_c_def
  by (rule symbol_found [OF enumvalues_3_indexed [unfolded enumvalues_3_def], where bs = "[False, False, False, False, False, False, False, False, True, False, False, False, False, False, False, False, False,
      False, False, True]"
      and ws = "[''debug'', ''degraded'']"])
    (simp only: word_simps)

lemma enumvalues_4_found: "all_found (doc_char (CHR ''e'')) all_d enumvalues_4"
  unfolding enumvalues_4_def all_d_def
  by (rule symbol_found [OF enumvalues_4_indexed [unfolded enumvalues_4_def], where bs = "[False, False, False, False, False, False, True]"
      and ws = "[''error'']"])
    (simp only: word_simps)

lemma enumvalues_5_found: "all_found (doc_char (CHR ''i'')) all_11 enumvalues_5"
  unfolding enumvalues_5_def all_11_def
  by (rule symbol_found [OF enumvalues_5_indexed [unfolded enumvalues_5_def], where bs = "[False, False, True, False, False, False, False, True, True, True, True, True]"
      and ws = "[''info'', ''invalidbattery'', ''invalidlength'', ''invalidsignalmetadata'', ''invalidstatus'', ''invalidtemperature'']"])
    (simp only: word_simps)

lemma enumvalues_6_found: "all_found (doc_char (CHR ''j'')) all_12 enumvalues_6"
  unfolding enumvalues_6_def all_12_def
  by (rule symbol_found [OF enumvalues_6_indexed [unfolded enumvalues_6_def], where bs = "[True]"
      and ws = "[''json'']"])
    (simp only: word_simps)

lemma enumvalues_7_found: "all_found (doc_char (CHR ''l'')) all_14 enumvalues_7"
  unfolding enumvalues_7_def all_14_def
  by (rule symbol_found [OF enumvalues_7_indexed [unfolded enumvalues_7_def], where bs = "[False, False, False, False, False, True]"
      and ws = "[''lengthmismatch'']"])
    (simp only: word_simps)

lemma enumvalues_8_found: "all_found (doc_char (CHR ''m'')) all_15 enumvalues_8"
  unfolding enumvalues_8_def all_15_def
  by (rule symbol_found [OF enumvalues_8_indexed [unfolded enumvalues_8_def], where bs = "[False, False, False, False, False, False, False, False, False, False, False, False, False, False, False, False, False,
      False, False, False, False, False, False, True]"
      and ws = "[''movingaverage'']"])
    (simp only: word_simps)

lemma enumvalues_9_found: "all_found (doc_char (CHR ''n'')) all_16 enumvalues_9"
  unfolding enumvalues_9_def all_16_def
  by (rule symbol_found [OF enumvalues_9_indexed [unfolded enumvalues_9_def], where bs = "[False, False, False, False, False, False, False, False, False, False, True, False, True]"
      and ws = "[''nominal'', ''none'']"])
    (simp only: word_simps)

lemma enumvalues_a_found: "all_found (doc_char (CHR ''o'')) all_17 enumvalues_a"
  unfolding enumvalues_a_def all_17_def
  by (rule symbol_found [OF enumvalues_a_indexed [unfolded enumvalues_a_def], where bs = "[False, True]"
      and ws = "[''open'']"])
    (simp only: word_simps)

lemma enumvalues_b_found: "all_found (doc_char (CHR ''p'')) all_18 enumvalues_b"
  unfolding enumvalues_b_def all_18_def
  by (rule symbol_found [OF enumvalues_b_indexed [unfolded enumvalues_b_def], where bs = "[False, False, False, False, False, False, False, False, False, False, False, False, False, False, True]"
      and ws = "[''payloadtoolarge'']"])
    (simp only: word_simps)

lemma enumvalues_c_found: "all_found (doc_char (CHR ''r'')) all_1a enumvalues_c"
  unfolding enumvalues_c_def all_1a_def
  by (rule symbol_found [OF enumvalues_c_indexed [unfolded enumvalues_c_def], where bs = "[False, False, True]"
      and ws = "[''randombytes'']"])
    (simp only: word_simps)

lemma enumvalues_d_found: "all_found (doc_char (CHR ''s'')) all_1b enumvalues_d"
  unfolding enumvalues_d_def all_1b_def
  by (rule symbol_found [OF enumvalues_d_indexed [unfolded enumvalues_d_def], where bs = "[True, False, False, False, False, False, False, False, False, False, False, False, False, False, False, False, False,
      False, False, False, False, False, False, False, False, False, False, False, True, False, False, True, False, False,
      False, False, False, False, False, False, False, False, False, False, False, False, False, False, False, False, False,
      False, False, False, True, False, False, False, False, False, False, False, False, False, False, False, False, False,
      False, False, False, False, False, False, False, False, False, False, False, False, False, False, False, False, False,
      False, False, False, False, False, False, False, False, False, False, False, False, False, False, False, False, False,
      False, False, True]"
      and ws = "[''safemode'', ''signal'', ''signalblock'', ''sineprojection'', ''success'']"])
    (simp only: word_simps)

lemma enumvalues_e_found: "all_found (doc_char (CHR ''t'')) all_1c enumvalues_e"
  unfolding enumvalues_e_def all_1c_def
  by (rule symbol_found [OF enumvalues_e_indexed [unfolded enumvalues_e_def], where bs = "[True, False, False, False, False, False, False, False, False, False, False, False, False, False, False, False, False,
      False, False, False, False, False, False, False, False, False, False, False, False, False, False, False, False, False,
      False, False, False, True, False, False, False, False, False, True, False, False, False, True, False, True, False,
      False, True]"
      and ws = "[''tcp'', ''textmessage'', ''timeout'', ''tooshort'', ''trace'', ''truncatedheader'']"])
    (simp only: word_simps)

lemma enumvalues_f_found: "all_found (doc_char (CHR ''u'')) all_1d enumvalues_f"
  unfolding enumvalues_f_def all_1d_def
  by (rule symbol_found [OF enumvalues_f_indexed [unfolded enumvalues_f_def], where bs = "[False, False, False, False, True, False, False, False, False, True, True]"
      and ws = "[''udp'', ''unknownkind'', ''unsupportedversion'']"])
    (simp only: word_simps)

lemma enumvalues_10_found: "all_found (doc_char (CHR ''w'')) all_1f enumvalues_10"
  unfolding enumvalues_10_def all_1f_def
  by (rule symbol_found [OF enumvalues_10_indexed [unfolded enumvalues_10_def], where bs = "[True]"
      and ws = "[''warning'']"])
    (simp only: word_simps)

lemma defines_0_found: "all_found (doc_char (CHR ''a'')) all_9 defines_0"
  unfolding defines_0_def all_9_def
  by (rule symbol_found [OF defines_0_indexed [unfolded defines_0_def], where bs = "[False, False, False, False, False, False, False, False, False, False, False, False, False, False, False, False, False,
      False, False, False, False, False, False, False, False, False, False, False, False, False, False, False, False, False,
      False, False, True, True]"
      and ws = "[''assert_eq'', ''assert_true'']"])
    (simp only: word_simps)

lemma pages_0_found: "all_found (doc_char (CHR ''c'')) all_b pages_0"
  unfolding pages_0_def all_b_def
  by (rule text_found [where bs = "[True]"
      and ws = "[''c space telemetry ground station'']"])
    (simp only: word_simps)

lemma pages_1_found: "all_found (doc_char (CHR ''d'')) all_c pages_1"
  unfolding pages_1_def all_c_def
  by (rule text_found [where bs = "[False, False, True, False, False, False, False, True, False, False, False, False, False, False, False, False, False,
      False, False, False, False, False, False, False, True, False, False, False, False, False, False, False, False, False,
      False, False, False, True]"
      and ws = "[''d execution'', (''de v'' @ [CHR 0xE9] @ ''rification stgs '' @ [CHR 0x97] @ '' version vitrine''),
      ''design: space telemetry ground station'', ''documentation d execution'']"])
    (simp only: word_simps)

lemma pages_2_found: "all_found (doc_char (CHR ''e'')) all_d pages_2"
  unfolding pages_2_def all_d_def
  by (rule text_found [where bs = "[False, False, False, False, False, False, False, False, False, False, False, False, False, False, True]"
      and ws = "[''execution'']"])
    (simp only: word_simps)

lemma pages_3_found: "all_found (doc_char (CHR ''g'')) all_f pages_3"
  unfolding pages_3_def all_f_def
  by (rule text_found [where bs = "[False, False, True, False, False, False, False, False, False, False, False, False, False, False, False, False, True]"
      and ws = "[''ground station'', ''guide'']"])
    (simp only: word_simps)

lemma pages_4_found: "all_found (doc_char (CHR ''p'')) all_18 pages_4"
  unfolding pages_4_def all_18_def
  by (rule text_found [where bs = "[False, False, False, False, False, False, False, False, False, False, False, False, False, False, False, False, True]"
      and ws = "[''performance report: space telemetry ground station'']"])
    (simp only: word_simps)

lemma pages_5_found: "all_found (doc_char (CHR ''r'')) all_1a pages_5"
  unfolding pages_5_def all_1a_def
  by (rule text_found [where bs = "[False, False, False, False, True, False, False, False, False, False, False, False, False, False, False, False, False,
      False, False, False, False, False, False, False, False, False, False, False, False, False, False, False, False, False,
      False, True]"
      and ws = "[(''rapport de v'' @ [CHR 0xE9] @ ''rification stgs '' @ [CHR 0x97] @ '' version vitrine''),
      ''report: space telemetry ground station'']"])
    (simp only: word_simps)

lemma pages_6_found: "all_found (doc_char (CHR ''s'')) all_1b pages_6"
  unfolding pages_6_def all_1b_def
  by (rule text_found [where bs = "[False, False, False, False, False, False, False, False, False, False, False, False, False, False, False, False, False,
      False, False, False, False, False, False, False, False, False, True, False, False, False, False, False, False, False,
      False, False, False, False, False, False, False, False, False, False, False, False, False, False, False, False, False,
      False, False, False, False, False, False, False, False, False, False, False, False, True, False, False, False, False,
      False, True, False, False, False, False, False, False, False, False, False, False, False, False, False, False, False,
      False, False, False, False, False, True, True, True]"
      and ws = "[''showcase guide'', ''space telemetry ground station'', ''station'', (''stgs '' @ [CHR 0x97] @ '' version vitrine''),
      ''stgs documentation d execution'', ''stgs showcase guide'']"])
    (simp only: word_simps)

lemma pages_7_found: "all_found (doc_char (CHR ''t'')) all_1c pages_7"
  unfolding pages_7_def all_1c_def
  by (rule text_found [where bs = "[False, False, False, False, False, False, True, False, False, False, True]"
      and ws = "[''technical design: space telemetry ground station'', ''telemetry ground station'']"])
    (simp only: word_simps)

lemma pages_8_found: "all_found (doc_char (CHR ''v'')) all_1e pages_8"
  unfolding pages_8_def all_1e_def
  by (rule text_found [where bs = "[True, False, False, False, False, False, False, True, False, False, True]"
      and ws = "[(''v'' @ [CHR 0xE9] @ ''rification stgs '' @ [CHR 0x97] @ '' version vitrine''), ''version vitrine'', ''vitrine'']"])
    (simp only: word_simps)

lemma pages_9_found: "all_found (doc_char (CHR 0x97)) all_21 pages_9"
  unfolding pages_9_def all_21_def
  by (rule text_found [where bs = "[True]"
      and ws = "[([CHR 0x97] @ '' version vitrine'')]"])
    (simp only: word_simps)

end
