(* ===== verification/Search_All_Correct.thy ===== *)
theory Search_All_Correct
  imports Search_All_Files
begin

text \<open>
  The section \<open>all\<close> of the shipped index is complete: whatever the index lists in any section is found
  by typing its word with the section selected that the search box starts with.
\<close>

section \<open>The section \<open>all\<close>\<close>

definition all_files :: "search_entry list list" where
  "all_files =
    [all_0, all_1, all_2, all_3, all_4, all_5, all_6, all_7, all_8, all_9, all_a, all_b, all_c, all_d, all_e, all_f,
     all_10, all_11, all_12, all_13, all_14, all_15, all_16, all_17, all_18, all_19, all_1a, all_1b, all_1c, all_1d,
     all_1e, all_1f, all_20, all_21]"

definition all_chars :: jsstring where
  "all_chars = doc_js (''123456789abcdefghijklmnopqrstuvw~'' @ [CHR 0x97])"

definition in_all :: "search_entry list \<Rightarrow> bool" where
  "in_all es \<longleftrightarrow> (\<exists>(c, as) \<in> set (zip all_chars all_files). all_found c as es)"

lemma all_files_text: "(0, all_files) \<in> set text_index"
  by (simp add: text_index_def all_files_def)

lemma all_chars_table: "map_of indexSectionsWithContent 0 = Some all_chars"
  by (simp add: indexSectionsWithContent_def all_chars_def doc_js_def doc_char_def js_def)

lemma all_chars_distinct: "distinct all_chars" "length all_chars = length all_files"
  by (simp_all add: all_chars_def all_files_def doc_js_def doc_char_def)

lemma in_allI: "(c, as) \<in> set (zip all_chars all_files) \<Longrightarrow> all_found c as es \<Longrightarrow> in_all es"
  by (auto simp: in_all_def)

lemma all_in_all: "list_all in_all
    [all_0, all_1, all_2, all_3, all_4, all_5, all_6, all_7, all_8, all_9, all_a, all_b, all_c, all_d, all_e, all_f,
     all_10, all_11, all_12, all_13, all_14, all_15, all_16, all_17, all_18, all_19, all_1a, all_1b, all_1c, all_1d,
     all_1e, all_1f, all_20, all_21]"
  by (simp only: list.pred_inject simp_thms)
    (intro conjI in_allI [OF _ all_0_found] in_allI [OF _ all_1_found] in_allI [OF _ all_2_found] in_allI [OF _ all_3_found]
      in_allI [OF _ all_4_found] in_allI [OF _ all_5_found] in_allI [OF _ all_6_found] in_allI [OF _ all_7_found]
      in_allI [OF _ all_8_found] in_allI [OF _ all_9_found] in_allI [OF _ all_a_found] in_allI [OF _ all_b_found]
      in_allI [OF _ all_c_found] in_allI [OF _ all_d_found] in_allI [OF _ all_e_found] in_allI [OF _ all_f_found]
      in_allI [OF _ all_10_found] in_allI [OF _ all_11_found] in_allI [OF _ all_12_found]
      in_allI [OF _ all_13_found] in_allI [OF _ all_14_found] in_allI [OF _ all_15_found]
      in_allI [OF _ all_16_found] in_allI [OF _ all_17_found] in_allI [OF _ all_18_found]
      in_allI [OF _ all_19_found] in_allI [OF _ all_1a_found] in_allI [OF _ all_1b_found]
      in_allI [OF _ all_1c_found] in_allI [OF _ all_1d_found] in_allI [OF _ all_1e_found]
      in_allI [OF _ all_1f_found] in_allI [OF _ all_20_found] in_allI [OF _ all_21_found];
      simp add: all_chars_def all_files_def doc_js_def)

lemma classes_in_all: "list_all in_all
    [classes_0, classes_1, classes_2, classes_3, classes_4, classes_5, classes_6, classes_7, classes_8, classes_9,
     classes_a, classes_b]"
  by (simp only: list.pred_inject simp_thms)
    (intro conjI in_allI [OF _ classes_0_found] in_allI [OF _ classes_1_found] in_allI [OF _ classes_2_found]
      in_allI [OF _ classes_3_found] in_allI [OF _ classes_4_found] in_allI [OF _ classes_5_found]
      in_allI [OF _ classes_6_found] in_allI [OF _ classes_7_found] in_allI [OF _ classes_8_found]
      in_allI [OF _ classes_9_found] in_allI [OF _ classes_a_found] in_allI [OF _ classes_b_found];
      simp add: all_chars_def all_files_def doc_js_def)

lemma namespaces_in_all: "list_all in_all
    [namespaces_0]"
  by (simp only: list.pred_inject simp_thms)
    (intro conjI in_allI [OF _ namespaces_0_found];
      simp add: all_chars_def all_files_def doc_js_def)

lemma files_in_all: "list_all in_all
    [files_0, files_1, files_2, files_3, files_4, files_5, files_6, files_7, files_8, files_9, files_a, files_b]"
  by (simp only: list.pred_inject simp_thms)
    (intro conjI in_allI [OF _ files_0_found] in_allI [OF _ files_1_found] in_allI [OF _ files_2_found]
      in_allI [OF _ files_3_found] in_allI [OF _ files_4_found] in_allI [OF _ files_5_found]
      in_allI [OF _ files_6_found] in_allI [OF _ files_7_found] in_allI [OF _ files_8_found]
      in_allI [OF _ files_9_found] in_allI [OF _ files_a_found] in_allI [OF _ files_b_found];
      simp add: all_chars_def all_files_def doc_js_def)

lemma functions_in_all: "list_all in_all
    [functions_0, functions_1, functions_2, functions_3, functions_4, functions_5, functions_6, functions_7,
     functions_8, functions_9, functions_a, functions_b, functions_c, functions_d, functions_e, functions_f,
     functions_10, functions_11, functions_12, functions_13]"
  by (simp only: list.pred_inject simp_thms)
    (intro conjI in_allI [OF _ functions_0_found] in_allI [OF _ functions_1_found] in_allI [OF _ functions_2_found]
      in_allI [OF _ functions_3_found] in_allI [OF _ functions_4_found] in_allI [OF _ functions_5_found]
      in_allI [OF _ functions_6_found] in_allI [OF _ functions_7_found] in_allI [OF _ functions_8_found]
      in_allI [OF _ functions_9_found] in_allI [OF _ functions_a_found] in_allI [OF _ functions_b_found]
      in_allI [OF _ functions_c_found] in_allI [OF _ functions_d_found] in_allI [OF _ functions_e_found]
      in_allI [OF _ functions_f_found] in_allI [OF _ functions_10_found] in_allI [OF _ functions_11_found]
      in_allI [OF _ functions_12_found] in_allI [OF _ functions_13_found];
      simp add: all_chars_def all_files_def doc_js_def)

lemma variables_in_all: "list_all in_all
    [variables_0, variables_1, variables_2, variables_3, variables_4, variables_5, variables_6, variables_7,
     variables_8, variables_9, variables_a, variables_b, variables_c, variables_d, variables_e, variables_f,
     variables_10, variables_11, variables_12]"
  by (simp only: list.pred_inject simp_thms)
    (intro conjI in_allI [OF _ variables_0_found] in_allI [OF _ variables_1_found] in_allI [OF _ variables_2_found]
      in_allI [OF _ variables_3_found] in_allI [OF _ variables_4_found] in_allI [OF _ variables_5_found]
      in_allI [OF _ variables_6_found] in_allI [OF _ variables_7_found] in_allI [OF _ variables_8_found]
      in_allI [OF _ variables_9_found] in_allI [OF _ variables_a_found] in_allI [OF _ variables_b_found]
      in_allI [OF _ variables_c_found] in_allI [OF _ variables_d_found] in_allI [OF _ variables_e_found]
      in_allI [OF _ variables_f_found] in_allI [OF _ variables_10_found] in_allI [OF _ variables_11_found]
      in_allI [OF _ variables_12_found];
      simp add: all_chars_def all_files_def doc_js_def)

lemma typedefs_in_all: "list_all in_all
    [typedefs_0, typedefs_1, typedefs_2, typedefs_3]"
  by (simp only: list.pred_inject simp_thms)
    (intro conjI in_allI [OF _ typedefs_0_found] in_allI [OF _ typedefs_1_found] in_allI [OF _ typedefs_2_found]
      in_allI [OF _ typedefs_3_found];
      simp add: all_chars_def all_files_def doc_js_def)

lemma enums_in_all: "list_all in_all
    [enums_0, enums_1, enums_2, enums_3, enums_4, enums_5, enums_6]"
  by (simp only: list.pred_inject simp_thms)
    (intro conjI in_allI [OF _ enums_0_found] in_allI [OF _ enums_1_found] in_allI [OF _ enums_2_found]
      in_allI [OF _ enums_3_found] in_allI [OF _ enums_4_found] in_allI [OF _ enums_5_found]
      in_allI [OF _ enums_6_found];
      simp add: all_chars_def all_files_def doc_js_def)

lemma enumvalues_in_all: "list_all in_all
    [enumvalues_0, enumvalues_1, enumvalues_2, enumvalues_3, enumvalues_4, enumvalues_5, enumvalues_6, enumvalues_7,
     enumvalues_8, enumvalues_9, enumvalues_a, enumvalues_b, enumvalues_c, enumvalues_d, enumvalues_e, enumvalues_f,
     enumvalues_10]"
  by (simp only: list.pred_inject simp_thms)
    (intro conjI in_allI [OF _ enumvalues_0_found] in_allI [OF _ enumvalues_1_found] in_allI [OF _ enumvalues_2_found]
      in_allI [OF _ enumvalues_3_found] in_allI [OF _ enumvalues_4_found] in_allI [OF _ enumvalues_5_found]
      in_allI [OF _ enumvalues_6_found] in_allI [OF _ enumvalues_7_found] in_allI [OF _ enumvalues_8_found]
      in_allI [OF _ enumvalues_9_found] in_allI [OF _ enumvalues_a_found] in_allI [OF _ enumvalues_b_found]
      in_allI [OF _ enumvalues_c_found] in_allI [OF _ enumvalues_d_found] in_allI [OF _ enumvalues_e_found]
      in_allI [OF _ enumvalues_f_found] in_allI [OF _ enumvalues_10_found];
      simp add: all_chars_def all_files_def doc_js_def)

lemma defines_in_all: "list_all in_all
    [defines_0]"
  by (simp only: list.pred_inject simp_thms)
    (intro conjI in_allI [OF _ defines_0_found];
      simp add: all_chars_def all_files_def doc_js_def)

lemma pages_in_all: "list_all in_all
    [pages_0, pages_1, pages_2, pages_3, pages_4, pages_5, pages_6, pages_7, pages_8, pages_9]"
  by (simp only: list.pred_inject simp_thms)
    (intro conjI in_allI [OF _ pages_0_found] in_allI [OF _ pages_1_found] in_allI [OF _ pages_2_found]
      in_allI [OF _ pages_3_found] in_allI [OF _ pages_4_found] in_allI [OF _ pages_5_found]
      in_allI [OF _ pages_6_found] in_allI [OF _ pages_7_found] in_allI [OF _ pages_8_found]
      in_allI [OF _ pages_9_found];
      simp add: all_chars_def all_files_def doc_js_def)

lemma index_in_all: "(sec, fs) \<in> set (symbol_index @ text_index) \<Longrightarrow> list_all in_all fs"
  unfolding symbol_index_def text_index_def
  by (auto simp only: set_append Un_iff list.set insert_iff empty_iff prod.inject intro: files_in_all functions_in_all variables_in_all typedefs_in_all
      enums_in_all enumvalues_in_all defines_in_all all_in_all classes_in_all namespaces_in_all pages_in_all)

section \<open>Properties\<close>

text \<open>C7: Nothing in the shipped index is lost in the section that the search box starts with. Every
  entry of every section, headings with spaces and accents included, has a word; whoever types this word, in
  any capitals, with the section \<open>all\<close> selected, makes the search request one file of that section, and
  once this file is loaded, the search shows the row of an entry with the same word that links to every target of
  the entry.\<close>

theorem default_section_is_complete:
  assumes "(sec, fs) \<in> set (symbol_index @ text_index)" and "k < length fs" and "i < length (fs ! k)"
  shows "\<exists>word j p. typable word \<and> entry_id (fs ! k ! i) = convertToId word @ js (''_'' @ show_nat i) \<and>
    j < length all_files \<and> p < length (all_files ! j) \<and>
    set (hrefs (fs ! k ! i)) \<subseteq> set (hrefs (all_files ! j ! p)) \<and>
    (\<forall>lower s w field win. lower_text lower \<longrightarrow> ascii_lower s = word \<longrightarrow> searchIndex (searchBox w) = 0 \<longrightarrow>
      by_id ''MSearchField'' w = Some field \<longrightarrow> by_id ''MSearchResultsWindow'' w = Some win \<longrightarrow>
      strip_leading (field_value (elem field)) = s \<longrightarrow>
      (\<exists>w'. Search lower w = Some w' \<and>
        map fst (loads w') = map fst (loads w) @ [the (index_file (searchBox w) (int j))])) \<and>
    (\<forall>lower s v path v1. lower_text lower \<longrightarrow> lower_prefix lower \<longrightarrow> ascii_lower s = word \<longrightarrow>
      fresh_page v \<longrightarrow> searchData v = Some (all_files ! j) \<longrightarrow> createResults path v = Some v1 \<longrightarrow>
      by_id ''Searching'' v1 \<noteq> None \<longrightarrow> by_id ''NoMatches'' v1 \<noteq> None \<longrightarrow>
      (\<exists>v2 r. SearchResults_Search lower s v1 = Some v2 \<and> by_id ''SRResults'' v2 = Some r \<and>
        length (kids r) = length (all_files ! j) \<and> display (style (elem (kids r ! p))) = js ''block''))"
proof -
  let ?e = "fs ! k ! i"
  from index_in_all [OF assms(1)] assms(2) have "in_all (fs ! k)" by (simp add: list_all_length)
  then obtain c as where pair: "(c, as) \<in> set (zip all_chars all_files)" and found: "all_found c as (fs ! k)"
    by (auto simp: in_all_def)
  from pair obtain j where j: "j < length all_files" "all_chars ! j = c" "all_files ! j = as"
    using all_chars_distinct(2) by (auto simp: in_set_zip)
  from found assms(3) obtain word p where wp: "has_word c word i ?e" "p < length as" "has_word c word p (as ! p)"
    "set (hrefs ?e) \<subseteq> set (hrefs (as ! p))" by (auto simp: all_found_def found_in_all_def)
  note word = wp(1,3) [unfolded has_word_def]
  have typed: "typable s" "lower16 (hd s) = c" if "ascii_lower s = word" for s
  proof -
    show "typable s" using that word(1) typable_lower by simp
    then show "lower16 (hd s) = c" using that word(1) by (auto simp: ascii_lower_map typable_def hd_map)
  qed
  have search: "\<exists>w'. Search lower w = Some w' \<and> map fst (loads w') = map fst (loads w) @ [the (index_file (searchBox w) (int j))]"
    if "lower_text lower" "ascii_lower s = word" "searchIndex (searchBox w) = 0" "by_id ''MSearchField'' w = Some field"
      "by_id ''MSearchResultsWindow'' w = Some win" "strip_leading (field_value (elem field)) = s" for lower s w field win
  proof (rule search_word)
    show "map_of indexSectionsWithContent (searchIndex (searchBox w)) = Some all_chars" using that(3) all_chars_table by simp
    show "j < length all_chars" using j(1) all_chars_distinct(2) by simp
    show "lower16 (hd s) = all_chars ! j" using typed(2) [OF that(2)] j(2) by simp
  qed (use that typed all_chars_distinct in auto)
  have shown: "\<exists>v2 r. SearchResults_Search lower s v1 = Some v2 \<and> by_id ''SRResults'' v2 = Some r \<and>
        length (kids r) = length (all_files ! j) \<and> display (style (elem (kids r ! p))) = js ''block''"
    if "lower_text lower" "lower_prefix lower" "ascii_lower s = word" "fresh_page v" "searchData v = Some (all_files ! j)"
      "createResults path v = Some v1" "by_id ''Searching'' v1 \<noteq> None" "by_id ''NoMatches'' v1 \<noteq> None" for lower s v path v1
  proof (rule word_shown)
    show "entry_id (all_files ! j ! p) = convertToId (ascii_lower s) @ js (''_'' @ show_nat p)" using word(2) j(3) that(3) by simp
    show "typable s" using typed(1) [OF that(3)] .
  qed (use that wp(2) j(3) in simp_all)
  show ?thesis
    using word(1) j wp(2,4) search shown by (intro exI [of _ word] exI [of _ j] exI [of _ p] conjI) blast+
qed

section \<open>Witness\<close>

text \<open>The page on which \<open>ASSERT_TRUE\<close> is typed, with the section \<open>all\<close> selected.\<close>

definition all_page :: World where
  "all_page = macro_page\<lparr>searchBox := (searchBox macro_page)\<lparr>searchIndex := 0\<rparr>\<rparr>"

lemma all_page_facts:
  "searchIndex (searchBox all_page) = 0" "by_id ''MSearchField'' all_page = Some macro_field"
  "by_id ''MSearchResultsWindow'' all_page = Some (page_node 4 ''div'' ''MSearchResultsWindow'' [])" "loads all_page = []"
  using macro_page_facts(2,3,5) by (simp_all add: all_page_def by_id_def)

theorem default_section_is_complete_witness:
  "\<exists>j p w'. j < length all_files \<and> p < length (all_files ! j) \<and>
     set (hrefs (defines_0 ! 1)) \<subseteq> set (hrefs (all_files ! j ! p)) \<and>
     Search ascii_lower all_page = Some w' \<and> map fst (loads w') = [the (index_file (searchBox all_page) (int j))]"
proof -
  have index: "(9, [defines_0]) \<in> set (symbol_index @ text_index)" by (simp add: symbol_index_def)
  have len: "0 < length [defines_0]" "1 < length ([defines_0] ! 0)" by (simp_all add: macro_entry)
  from default_section_is_complete [OF index len] obtain word j p where
    word: "entry_id (defines_0 ! 1) = convertToId word @ js (''_'' @ show_nat 1)" and
    p: "j < length all_files" "p < length (all_files ! j)" "set (hrefs (defines_0 ! 1)) \<subseteq> set (hrefs (all_files ! j ! p))" and
    search: "\<And>lower s w field win. lower_text lower \<Longrightarrow> ascii_lower s = word \<Longrightarrow> searchIndex (searchBox w) = 0 \<Longrightarrow>
      by_id ''MSearchField'' w = Some field \<Longrightarrow> by_id ''MSearchResultsWindow'' w = Some win \<Longrightarrow>
      strip_leading (field_value (elem field)) = s \<Longrightarrow>
      (\<exists>w'. Search lower w = Some w' \<and> map fst (loads w') = map fst (loads w) @ [the (index_file (searchBox w) (int j))])"
    unfolding nth_Cons_0 by blast
  have "entry_id (defines_0 ! 1) = convertToId (ascii_lower (js ''ASSERT_TRUE'')) @ js (''_'' @ show_nat 1)"
    using well_indexed_nth [OF defines_0_indexed, of 1] macro_entry by simp
  with word have "convertToId (ascii_lower (js ''ASSERT_TRUE'')) = convertToId word" by (metis append_same_eq)
  then have "ascii_lower (js ''ASSERT_TRUE'') = word" unfolding convertToId_def by (simp only: ids.encode_inject)
  moreover have "lower_text ascii_lower" by (simp add: lower_text_def)
  ultimately obtain w' where "Search ascii_lower all_page = Some w'"
    "map fst (loads w') = map fst (loads all_page) @ [the (index_file (searchBox all_page) (int j))]"
    using search [OF _ _ all_page_facts(1-3) macro_page_facts(4)] by blast
  with p all_page_facts(4) show ?thesis by auto
qed

end
