(* ===== verification/Menu.thy ===== *)
theory Menu
  imports Search_Box
begin

text \<open>
  The menu of the generated documentation (\<^verbatim>\<open>menu.js\<close>) and its data
  (\<^verbatim>\<open>menudata.js\<close>): the nested list that \<open>makeTree\<close> builds, the markup of the
  search box, and where \<open>resetState\<close> puts the search box when the window changes its width.
  The jQuery calls of \<open>initMenu\<close> act on the state \<open>MenuState\<close>.
\<close>

section \<open>The menu tree\<close>

text \<open>An entry has the key \<open>children\<close> in the data exactly when its list of children is not
  empty.\<close>

datatype menu = Menu (menu_text: jsstring) (menu_url: jsstring) (menu_children: "menu list")

definition menu_link :: "jsstring \<Rightarrow> jsstring \<Rightarrow> jsstring" where
  "menu_link relPath link = (if take 1 link = js ''^'' then drop 1 link else relPath @ link)"

fun makeItem :: "jsstring \<Rightarrow> menu \<Rightarrow> jsstring" where
  "makeItem relPath (Menu t u cs) =
     js ''<li><a href=\"'' @ menu_link relPath u @ js ''\">'' @ t @ js ''</a>'' @
     (if cs = [] then [] else js ''<ul>'' @ concat (map (makeItem relPath) cs) @ js ''</ul>'') @ js ''</li>''"

definition makeTree :: "menu list \<Rightarrow> jsstring \<Rightarrow> jsstring" where
  "makeTree children relPath =
     (if children = [] then [] else js ''<ul>'' @ concat (map (makeItem relPath) children) @ js ''</ul>'')"

definition menudata :: "menu list" where
  "menudata =
    [
     Menu (js ''Main Page'') (js ''index.html'') [],
     Menu (js ''Related Pages'') (js ''pages.html'') [],
     Menu (js ''Namespaces'') (js ''namespaces.html'') [
      Menu (js ''Namespace List'') (js ''namespaces.html'') [],
      Menu (js ''Namespace Members'') (js ''namespacemembers.html'') [
       Menu (js ''All'') (js ''namespacemembers.html'') [
        Menu (js ''a'') (js ''namespacemembers.html#index_a'') [],
        Menu (js ''b'') (js ''namespacemembers.html#index_b'') [],
        Menu (js ''c'') (js ''namespacemembers.html#index_c'') [],
        Menu (js ''d'') (js ''namespacemembers.html#index_d'') [],
        Menu (js ''e'') (js ''namespacemembers.html#index_e'') [],
        Menu (js ''f'') (js ''namespacemembers.html#index_f'') [],
        Menu (js ''h'') (js ''namespacemembers.html#index_h'') [],
        Menu (js ''i'') (js ''namespacemembers.html#index_i'') [],
        Menu (js ''l'') (js ''namespacemembers.html#index_l'') [],
        Menu (js ''m'') (js ''namespacemembers.html#index_m'') [],
        Menu (js ''n'') (js ''namespacemembers.html#index_n'') [],
        Menu (js ''o'') (js ''namespacemembers.html#index_o'') [],
        Menu (js ''p'') (js ''namespacemembers.html#index_p'') [],
        Menu (js ''r'') (js ''namespacemembers.html#index_r'') [],
        Menu (js ''s'') (js ''namespacemembers.html#index_s'') [],
        Menu (js ''t'') (js ''namespacemembers.html#index_t'') [],
        Menu (js ''u'') (js ''namespacemembers.html#index_u'') [],
        Menu (js ''v'') (js ''namespacemembers.html#index_v'') []],
       Menu (js ''Functions'') (js ''namespacemembers_func.html'') [
        Menu (js ''a'') (js ''namespacemembers_func.html#index_a'') [],
        Menu (js ''c'') (js ''namespacemembers_func.html#index_c'') [],
        Menu (js ''d'') (js ''namespacemembers_func.html#index_d'') [],
        Menu (js ''e'') (js ''namespacemembers_func.html#index_e'') [],
        Menu (js ''f'') (js ''namespacemembers_func.html#index_f'') [],
        Menu (js ''i'') (js ''namespacemembers_func.html#index_i'') [],
        Menu (js ''l'') (js ''namespacemembers_func.html#index_l'') [],
        Menu (js ''m'') (js ''namespacemembers_func.html#index_m'') [],
        Menu (js ''n'') (js ''namespacemembers_func.html#index_n'') [],
        Menu (js ''p'') (js ''namespacemembers_func.html#index_p'') [],
        Menu (js ''r'') (js ''namespacemembers_func.html#index_r'') [],
        Menu (js ''s'') (js ''namespacemembers_func.html#index_s'') [],
        Menu (js ''t'') (js ''namespacemembers_func.html#index_t'') []],
       Menu (js ''Variables'') (js ''namespacemembers_vars.html'') [
        Menu (js ''a'') (js ''namespacemembers_vars.html#index_a'') [],
        Menu (js ''b'') (js ''namespacemembers_vars.html#index_b'') [],
        Menu (js ''c'') (js ''namespacemembers_vars.html#index_c'') [],
        Menu (js ''d'') (js ''namespacemembers_vars.html#index_d'') [],
        Menu (js ''f'') (js ''namespacemembers_vars.html#index_f'') [],
        Menu (js ''h'') (js ''namespacemembers_vars.html#index_h'') [],
        Menu (js ''m'') (js ''namespacemembers_vars.html#index_m'') [],
        Menu (js ''p'') (js ''namespacemembers_vars.html#index_p'') [],
        Menu (js ''s'') (js ''namespacemembers_vars.html#index_s'') [],
        Menu (js ''t'') (js ''namespacemembers_vars.html#index_t'') [],
        Menu (js ''u'') (js ''namespacemembers_vars.html#index_u'') [],
        Menu (js ''v'') (js ''namespacemembers_vars.html#index_v'') []],
       Menu (js ''Typedefs'') (js ''namespacemembers_type.html'') [],
       Menu (js ''Enumerations'') (js ''namespacemembers_enum.html'') []]],
     Menu (js ''Classes'') (js ''annotated.html'') [
      Menu (js ''Class List'') (js ''annotated.html'') [],
      Menu (js ''Class Index'') (js ''classes.html'') [],
      Menu (js ''Class Members'') (js ''functions.html'') [
       Menu (js ''All'') (js ''functions.html'') [
        Menu (js ''a'') (js ''functions.html#index_a'') [],
        Menu (js ''b'') (js ''functions.html#index_b'') [],
        Menu (js ''c'') (js ''functions.html#index_c'') [],
        Menu (js ''d'') (js ''functions.html#index_d'') [],
        Menu (js ''e'') (js ''functions.html#index_e'') [],
        Menu (js ''f'') (js ''functions.html#index_f'') [],
        Menu (js ''g'') (js ''functions.html#index_g'') [],
        Menu (js ''h'') (js ''functions.html#index_h'') [],
        Menu (js ''i'') (js ''functions.html#index_i'') [],
        Menu (js ''k'') (js ''functions.html#index_k'') [],
        Menu (js ''l'') (js ''functions.html#index_l'') [],
        Menu (js ''m'') (js ''functions.html#index_m'') [],
        Menu (js ''n'') (js ''functions.html#index_n'') [],
        Menu (js ''o'') (js ''functions.html#index_o'') [],
        Menu (js ''p'') (js ''functions.html#index_p'') [],
        Menu (js ''q'') (js ''functions.html#index_q'') [],
        Menu (js ''r'') (js ''functions.html#index_r'') [],
        Menu (js ''s'') (js ''functions.html#index_s'') [],
        Menu (js ''t'') (js ''functions.html#index_t'') [],
        Menu (js ''v'') (js ''functions.html#index_v'') [],
        Menu (js ''w'') (js ''functions.html#index_w'') [],
        Menu (js ''~'') (js ''functions.html#index__7E'') []],
       Menu (js ''Functions'') (js ''functions_func.html'') [
        Menu (js ''b'') (js ''functions_func.html#index_b'') [],
        Menu (js ''c'') (js ''functions_func.html#index_c'') [],
        Menu (js ''d'') (js ''functions_func.html#index_d'') [],
        Menu (js ''e'') (js ''functions_func.html#index_e'') [],
        Menu (js ''f'') (js ''functions_func.html#index_f'') [],
        Menu (js ''g'') (js ''functions_func.html#index_g'') [],
        Menu (js ''i'') (js ''functions_func.html#index_i'') [],
        Menu (js ''k'') (js ''functions_func.html#index_k'') [],
        Menu (js ''l'') (js ''functions_func.html#index_l'') [],
        Menu (js ''n'') (js ''functions_func.html#index_n'') [],
        Menu (js ''o'') (js ''functions_func.html#index_o'') [],
        Menu (js ''p'') (js ''functions_func.html#index_p'') [],
        Menu (js ''r'') (js ''functions_func.html#index_r'') [],
        Menu (js ''s'') (js ''functions_func.html#index_s'') [],
        Menu (js ''t'') (js ''functions_func.html#index_t'') [],
        Menu (js ''v'') (js ''functions_func.html#index_v'') [],
        Menu (js ''w'') (js ''functions_func.html#index_w'') [],
        Menu (js ''~'') (js ''functions_func.html#index__7E'') []],
       Menu (js ''Variables'') (js ''functions_vars.html'') [
        Menu (js ''a'') (js ''functions_vars.html#index_a'') [],
        Menu (js ''b'') (js ''functions_vars.html#index_b'') [],
        Menu (js ''c'') (js ''functions_vars.html#index_c'') [],
        Menu (js ''d'') (js ''functions_vars.html#index_d'') [],
        Menu (js ''e'') (js ''functions_vars.html#index_e'') [],
        Menu (js ''f'') (js ''functions_vars.html#index_f'') [],
        Menu (js ''h'') (js ''functions_vars.html#index_h'') [],
        Menu (js ''l'') (js ''functions_vars.html#index_l'') [],
        Menu (js ''m'') (js ''functions_vars.html#index_m'') [],
        Menu (js ''n'') (js ''functions_vars.html#index_n'') [],
        Menu (js ''o'') (js ''functions_vars.html#index_o'') [],
        Menu (js ''p'') (js ''functions_vars.html#index_p'') [],
        Menu (js ''q'') (js ''functions_vars.html#index_q'') [],
        Menu (js ''r'') (js ''functions_vars.html#index_r'') [],
        Menu (js ''s'') (js ''functions_vars.html#index_s'') [],
        Menu (js ''t'') (js ''functions_vars.html#index_t'') [],
        Menu (js ''v'') (js ''functions_vars.html#index_v'') [],
        Menu (js ''w'') (js ''functions_vars.html#index_w'') []],
       Menu (js ''Typedefs'') (js ''functions_type.html'') []]],
     Menu (js ''Files'') (js ''files.html'') [
      Menu (js ''File List'') (js ''files.html'') [],
      Menu (js ''File Members'') (js ''globals.html'') [
       Menu (js ''All'') (js ''globals.html'') [],
       Menu (js ''Functions'') (js ''globals_func.html'') [],
       Menu (js ''Variables'') (js ''globals_vars.html'') [],
       Menu (js ''Macros'') (js ''globals_defs.html'') []]]
    ]"

section \<open>The search box\<close>

definition searchBoxHtml :: "bool \<Rightarrow> bool \<Rightarrow> jsstring \<Rightarrow> jsstring \<Rightarrow> jsstring \<Rightarrow> jsstring option" where
  "searchBoxHtml searchEnabled serverSide relPath searchPage search_label =
     (if \<not> searchEnabled then None
      else if serverSide
      then Some (
        js ''<div id=\"MSearchBox\" class=\"MSearchBoxInactive\">'' @
        js ''<div class=\"left\">'' @
        js ''<form id=\"FSearchBox\" action=\"'' @ relPath @ searchPage @
        js ''\" method=\"get\"><span id=\"MSearchSelectExt\">&#160;</span>'' @
        js ''<input type=\"text\" id=\"MSearchField\" name=\"query\" value=\"\" placeholder=\"'' @ search_label @
        js ''\" size=\"20\" accesskey=\"S\" onfocus=\"searchBox.OnSearchFieldFocus(true)\"'' @
        js '' onblur=\"searchBox.OnSearchFieldFocus(false)\"/>'' @
        js ''</form>'' @
        js ''</div>'' @
        js ''<div class=\"right\"></div>'' @
        js ''</div>'')
      else Some (
        js ''<div id=\"MSearchBox\" class=\"MSearchBoxInactive\">'' @
        js ''<span class=\"left\">'' @
        js ''<span id=\"MSearchSelect\" onmouseover=\"return searchBox.OnSearchSelectShow()\"'' @
        js '' onmouseout=\"return searchBox.OnSearchSelectHide()\">&#160;</span>'' @
        js ''<input type=\"text\" id=\"MSearchField\" value=\"\" placeholder=\"'' @ search_label @
        js ''\" accesskey=\"S\" onfocus=\"searchBox.OnSearchFieldFocus(true)\" '' @
        js ''onblur=\"searchBox.OnSearchFieldFocus(false)\" '' @
        js ''onkeyup=\"searchBox.OnSearchFieldChange(event)\"/>'' @
        js ''</span>'' @
        js ''<span class=\"right\"><a id=\"MSearchClose\" '' @
        js ''href=\"javascript:searchBox.CloseResultsWindow()\">'' @
        js ''<img id=\"MSearchCloseImg\" border=\"0\" src=\"'' @ relPath @
        js ''search/close.svg\" alt=\"\"/></a>'' @
        js ''</span>'' @
        js ''</div>''))"

section \<open>The state of the menu\<close>

text \<open>The parts of the page that \<open>initMenu\<close> creates: the markup before and in
  \<open>#main-nav\<close>, the check box, the two places for the search box (in document order; the
  second exists only with a search box) and whether the menu and the second place are shown.\<close>

record MenuState =
  nav_before :: jsstring
  nav_html :: jsstring
  has_pos2 :: bool
  menu_checked :: bool
  menu_shown :: bool
  pos1 :: jsstring
  pos2 :: jsstring
  pos2_shown :: bool
  prevWidth :: int

definition menu_header :: jsstring where
  "menu_header =
     js ''<div class=\"sm sm-dox\"><input id=\"main-menu-state\" type=\"checkbox\"/>'' @
     js ''<label class=\"main-menu-btn\" for=\"main-menu-state\">'' @
     js ''<span class=\"main-menu-btn-icon\"></span> '' @
     js ''Toggle main menu visibility</label>'' @
     js ''<span id=\"searchBoxPos1\" style=\"position:absolute;right:8px;top:8px;height:36px;\"></span>'' @
     js ''</div>''"

text \<open>\<open>$(x).html(undefined)\<close> reads the markup and changes nothing; a set of elements that is
  empty ignores the call.\<close>

definition set_html :: "jsstring option \<Rightarrow> jsstring \<Rightarrow> jsstring" where
  "set_html h old = (case h of None \<Rightarrow> old | Some s \<Rightarrow> s)"

text \<open>The argument \<open>sb\<close> is the page with the global \<open>searchBox\<close>, when it exists;
  an exception of \<open>CloseResultsWindow\<close> leaves \<open>prevWidth\<close> as it was.\<close>

definition resetState :: "jsstring option \<Rightarrow> int \<Rightarrow> MenuState \<times> World option \<Rightarrow> MenuState \<times> World option" where
  "resetState html newWidth st = (case st of (m, sb) \<Rightarrow>
     if newWidth = prevWidth m then (m, sb) else
     let m1 = (if newWidth < 768
               then m\<lparr>menu_checked := False, menu_shown := False, pos1 := set_html html (pos1 m),
                      pos2_shown := False\<rparr>
               else m\<lparr>menu_shown := True, pos1 := [],
                      pos2 := (if has_pos2 m then set_html html (pos2 m) else pos2 m),
                      pos2_shown := has_pos2 m\<rparr>)
     in (case sb of None \<Rightarrow> (m1\<lparr>prevWidth := newWidth\<rparr>, None)
         | Some w \<Rightarrow> (case CloseResultsWindow w of
               None \<Rightarrow> (m1, Some w)
             | Some w' \<Rightarrow> (m1\<lparr>prevWidth := newWidth\<rparr>, Some w'))))"

text \<open>The \<open>change\<close> handler of the check box, at the end of its animation.\<close>

definition menu_state_change :: "bool \<Rightarrow> MenuState \<Rightarrow> MenuState" where
  "menu_state_change now_checked m = m\<lparr>menu_checked := now_checked, menu_shown := now_checked\<rparr>"

definition initMenu ::
    "jsstring \<Rightarrow> bool \<Rightarrow> bool \<Rightarrow> jsstring \<Rightarrow> jsstring \<Rightarrow> World option \<Rightarrow> int \<Rightarrow> MenuState \<times> World option" where
  "initMenu relPath searchEnabled serverSide searchPage search_label sb width =
     (let html = searchBoxHtml searchEnabled serverSide relPath searchPage search_label;
          m = \<lparr>nav_before = menu_header, nav_html = makeTree menudata relPath, has_pos2 = (html \<noteq> None),
               menu_checked = False, menu_shown = True, pos1 = [], pos2 = [], pos2_shown = (html \<noteq> None),
               prevWidth = 0\<rparr>
      in resetState html width (m, sb))"

section \<open>Where the search box is\<close>

text \<open>The page and the widths the window takes, one \<open>resize\<close> event each.\<close>

definition resize_all :: "jsstring option \<Rightarrow> int list \<Rightarrow> MenuState \<times> World option \<Rightarrow> MenuState \<times> World option" where
  "resize_all html widths st = foldl (\<lambda>st width. resetState html width st) st widths"

text \<open>The search box that the scripts find (the first one in document order) and whether it is
  in a visible place. The first place stands before \<open>#main-nav\<close> and is never hidden; the second one is an item of
  \<open>#main-menu\<close>, so it is visible only while the menu is shown, too.\<close>

definition first_box :: "MenuState \<Rightarrow> (jsstring \<times> bool) option" where
  "first_box m = (if pos1 m \<noteq> [] then Some (pos1 m, True)
     else if pos2 m \<noteq> [] then Some (pos2 m, pos2_shown m \<and> menu_shown m) else None)"

definition box_placed :: "jsstring \<Rightarrow> MenuState \<Rightarrow> bool" where
  "box_placed h m \<longleftrightarrow> has_pos2 m \<and> first_box m = Some (h, True) \<and> pos1 m \<in> {[], h} \<and> pos2 m \<in> {[], h}"

lemma resetState_box_placed:
  assumes "h \<noteq> []" and "box_placed h (fst st)"
  shows "box_placed h (fst (resetState (Some h) width st))"
  using assms unfolding resetState_def box_placed_def first_box_def set_html_def
  by (cases st) (auto simp: Let_def split: option.splits if_splits)

lemma resize_all_box_placed:
  assumes "h \<noteq> []" and "box_placed h (fst st)"
  shows "box_placed h (fst (resize_all (Some h) widths st))"
  using assms(2) unfolding resize_all_def
proof (induction widths arbitrary: st)
  case (Cons width widths)
  show ?case using Cons.IH [OF resetState_box_placed [OF assms(1) Cons.prems]] by simp
qed simp

lemma searchBoxHtml_not_empty: "searchBoxHtml e s r p l = Some h \<Longrightarrow> h \<noteq> []"
  by (auto simp: searchBoxHtml_def js_def split: if_splits)

text \<open>C28: With search enabled, after loading the page at any width and any sequence of window
  resizes, the search box that \<open>getElementById\<close> finds is the box built for this page and it stands
  in a visible place (above the menu, or in the menu with the menu shown), in whatever state the search panel is.\<close>

theorem search_box_visible:
  assumes "0 < width"
  shows "first_box (fst (resize_all (searchBoxHtml True serverSide relPath searchPage l) widths
             (initMenu relPath True serverSide searchPage l sb width)))
         = Some (the (searchBoxHtml True serverSide relPath searchPage l), True)"
proof -
  obtain h where h: "searchBoxHtml True serverSide relPath searchPage l = Some h"
    by (cases serverSide) (simp_all add: searchBoxHtml_def)
  note ne = searchBoxHtml_not_empty [OF h]
  have "box_placed h (fst (initMenu relPath True serverSide searchPage l sb width))"
    using assms ne unfolding initMenu_def h resetState_def box_placed_def first_box_def set_html_def
    by (auto simp: Let_def split: option.splits)
  from resize_all_box_placed [OF ne this, of widths] show ?thesis
    unfolding h by (simp add: box_placed_def)
qed

theorem search_box_visible_witness:
  "first_box (fst (resize_all (searchBoxHtml True False [] [] (js ''Search'')) [1024, 500, 500]
     (initMenu [] True False [] (js ''Search'') None 640)))
   = Some (the (searchBoxHtml True False [] [] (js ''Search'')), True)"
  using search_box_visible [of 640] by simp

end
