(* ===== verification/Dynsections.thy ===== *)
theory Dynsections
  imports Search_World Prefix_Code
begin

text \<open>
  Model of \<^verbatim>\<open>dynsections.js\<close>, the collapsible parts of the generated documentation:
  directory tables with their folders, levels and stripes, sections, inherited members and code
  folds. The jQuery calls act on records of what the page shows; a row or block counts as
  visible when its own \<open>display\<close> is not \<open>none\<close> (the tables themselves are always
  displayed). Building the closed form of a code fold from its first line (\<open>init_codefold\<close>) and
  the tooltips are not modelled.

  Row ids are paths (\<open>row_0_3_\<close>), and the encoding of paths is a prefix code: that is why
  selecting rows by the beginning of their id selects exactly what is inside a folder.
\<close>

section \<open>Rows of a directory table\<close>

record row_span =
  span_id :: jsstring
  span_classes :: "jsstring list"
  span_html :: jsstring

record dir_row =
  row_id :: jsstring
  row_shown :: bool
  row_classes :: "jsstring list"
  row_spans :: "row_span list"

definition addClass :: "jsstring \<Rightarrow> jsstring list \<Rightarrow> jsstring list" where
  "addClass c cs = (if c \<in> set cs then cs else cs @ [c])"

definition removeClass :: "jsstring \<Rightarrow> jsstring list \<Rightarrow> jsstring list" where
  "removeClass c cs = filter (\<lambda>x. x \<noteq> c) cs"

text \<open>\<open>&#9658;\<close> and \<open>&#9660;\<close>.\<close>

definition right_arrow :: jsstring where "right_arrow = [0x25BA]"

definition down_arrow :: jsstring where "down_arrow = [0x25BC]"

section \<open>Stripes\<close>

text \<open>Remove a class from all rows, then give it to every second visible row, from the first
  visible row on (\<open>:even\<close>) or from the second (\<open>:odd\<close>).\<close>

fun stripe :: "jsstring \<Rightarrow> bool \<Rightarrow> dir_row list \<Rightarrow> dir_row list" where
  "stripe c turn [] = []"
| "stripe c turn (r # rs) =
     (let cs = removeClass c (row_classes r)
      in if row_shown r
         then r\<lparr>row_classes := (if turn then addClass c cs else cs)\<rparr> # stripe c (\<not> turn) rs
         else r\<lparr>row_classes := cs\<rparr> # stripe c turn rs)"

definition updateStripes :: "dir_row list \<Rightarrow> dir_row list" where
  "updateStripes rows = stripe (js ''odd'') False (stripe (js ''even'') True rows)"

section \<open>Levels\<close>

text \<open>The first span of the page with a given id, if any, is changed.\<close>

fun edit_span_list :: "jsstring \<Rightarrow> (row_span \<Rightarrow> row_span) \<Rightarrow> row_span list \<Rightarrow> row_span list option" where
  "edit_span_list i f [] = None"
| "edit_span_list i f (s # ss) =
     (if span_id s = i then Some (f s # ss) else map_option (\<lambda>ss. s # ss) (edit_span_list i f ss))"

fun edit_span :: "jsstring \<Rightarrow> (row_span \<Rightarrow> row_span) \<Rightarrow> dir_row list \<Rightarrow> dir_row list" where
  "edit_span i f [] = []"
| "edit_span i f (r # rs) =
     (case edit_span_list i f (row_spans r) of
        Some ss \<Rightarrow> r\<lparr>row_spans := ss\<rparr> # rs
      | None \<Rightarrow> r # edit_span i f rs)"

definition set_icon :: "jsstring \<Rightarrow> row_span \<Rightarrow> row_span" where
  "set_icon c s = s\<lparr>span_classes := addClass c (removeClass (js ''iconfclosed'') (removeClass (js ''iconfopen'') (span_classes s)))\<rparr>"

definition set_html :: "jsstring \<Rightarrow> row_span \<Rightarrow> row_span" where
  "set_html h s = s\<lparr>span_html := h\<rparr>"

text \<open>\<open>id.split('_').length - 1\<close>\<close>

definition id_level :: "jsstring \<Rightarrow> int" where
  "id_level i = int (length (filter (\<lambda>c. c = 0x5F) i))"

definition level_row :: "int \<Rightarrow> nat \<Rightarrow> dir_row list \<Rightarrow> dir_row list" where
  "level_row level k rows =
     (let r = rows ! k; l = id_level (row_id r);
          i = js ''img'' @ drop 3 (row_id r); a = js ''arr'' @ drop 3 (row_id r)
      in if l < level + 1 then
           (let rows = edit_span a (set_html down_arrow) (edit_span i (set_icon (js ''iconfopen'')) rows)
            in rows[k := (rows ! k)\<lparr>row_shown := True\<rparr>])
         else if l = level + 1 then
           (let rows = edit_span a (set_html right_arrow) (edit_span i (set_icon (js ''iconfclosed'')) rows)
            in rows[k := (rows ! k)\<lparr>row_shown := True\<rparr>])
         else rows[k := (rows ! k)\<lparr>row_shown := False\<rparr>])"

definition toggleLevel :: "int \<Rightarrow> dir_row list \<Rightarrow> dir_row list" where
  "toggleLevel level rows = updateStripes (fold (level_row level) [0..<length rows] rows)"

section \<open>Folders\<close>

text \<open>The regular expression \<open>^row_<id>[0-9]+_$\<close> with flag \<open>i\<close>, for ids made of
  ASCII word characters.\<close>

definition canonicalize :: "u16 \<Rightarrow> u16" where
  "canonicalize c = (if 0x61 \<le> c \<and> c \<le> 0x7A then c - 0x20 else c)"

definition matches_child :: "jsstring \<Rightarrow> jsstring \<Rightarrow> bool" where
  "matches_child i rid =
     (let pre = js ''row_'' @ i; rest = drop (length pre) rid
      in map canonicalize (take (length pre) rid) = map canonicalize pre \<and>
         2 \<le> length rest \<and> last rest = 0x5F \<and> list_all js_digit (butlast rest))"

definition swap_icon :: "jsstring \<Rightarrow> jsstring \<Rightarrow> row_span \<Rightarrow> row_span" where
  "swap_icon c d s = (if c \<in> set (span_classes s) then s\<lparr>span_classes := addClass d (removeClass c (span_classes s))\<rparr> else s)"

definition set_arrow :: "jsstring \<Rightarrow> row_span \<Rightarrow> row_span" where
  "set_arrow h s = (if js ''arrow'' \<in> set (span_classes s) then s\<lparr>span_html := h\<rparr> else s)"

definition close_spans :: "dir_row \<Rightarrow> dir_row" where
  "close_spans r = r\<lparr>row_spans := map (set_arrow right_arrow \<circ> swap_icon (js ''iconfopen'') (js ''iconfclosed'')) (row_spans r)\<rparr>"

definition open_spans :: "dir_row \<Rightarrow> dir_row" where
  "open_spans r = r\<lparr>row_spans := map (set_arrow down_arrow \<circ> swap_icon (js ''iconfclosed'') (js ''iconfopen'')) (row_spans r)\<rparr>"

definition toggleFolder :: "jsstring \<Rightarrow> dir_row list \<Rightarrow> dir_row list" where
  "toggleFolder i rows =
     (let before = takeWhile (\<lambda>r. row_id r \<noteq> js ''row_'' @ i) rows
      in case dropWhile (\<lambda>r. row_id r \<noteq> js ''row_'' @ i) rows of
           [] \<Rightarrow> updateStripes rows
         | currentRow # after \<Rightarrow>
             (let childRows = filter (\<lambda>r. matches_child i (row_id r)) after
              in if childRows \<noteq> [] \<and> row_shown (hd childRows)
                 then updateStripes (before @ close_spans currentRow #
                        map (\<lambda>r. if prefix (js ''row_'' @ i) (row_id r) then r\<lparr>row_shown := False\<rparr> else r) after)
                 else updateStripes (before @ open_spans currentRow #
                        map (\<lambda>r. if matches_child i (row_id r) then (close_spans r)\<lparr>row_shown := True\<rparr> else r) after)))"

section \<open>Collapsible sections\<close>

record dyn_section =
  link_classes :: "jsstring list"
  summary_shown :: bool
  content_shown :: bool
  trigger_src :: "jsstring option"

text \<open>The name of an image without its last \<open>n\<close> characters, followed by another ending;
  \<open>substring\<close> clamps a negative length to 0.\<close>

definition swap_ending :: "nat \<Rightarrow> jsstring \<Rightarrow> jsstring \<Rightarrow> jsstring" where
  "swap_ending n ending src = take (length src - n) src @ ending"

definition toggleVisibility :: "dyn_section \<Rightarrow> dyn_section option" where
  "toggleVisibility s =
     (if content_shown s then
        map_option (\<lambda>src. s\<lparr>content_shown := False, summary_shown := True,
            link_classes := removeClass (js ''opened'') (addClass (js ''closed'') (link_classes s)),
            trigger_src := Some (swap_ending 8 (js ''closed.png'') src)\<rparr>) (trigger_src s)
      else
        map_option (\<lambda>src. s\<lparr>content_shown := True, summary_shown := False,
            link_classes := addClass (js ''opened'') (removeClass (js ''closed'') (link_classes s)),
            trigger_src := Some (swap_ending 10 (js ''open.png'') src)\<rparr>) (trigger_src s))"

section \<open>Inherited members\<close>

record inherit_group =
  inherit_rows :: "bool list"
  inherit_src :: "jsstring option"

definition toggleInherit :: "inherit_group \<Rightarrow> inherit_group option" where
  "toggleInherit g =
     (if inherit_rows g \<noteq> [] \<and> hd (inherit_rows g) then
        map_option (\<lambda>src. g\<lparr>inherit_rows := map (\<lambda>_. False) (inherit_rows g),
          inherit_src := Some (swap_ending 8 (js ''closed.png'') src)\<rparr>) (inherit_src g)
      else
        map_option (\<lambda>src. g\<lparr>inherit_rows := map (\<lambda>_. True) (inherit_rows g),
          inherit_src := Some (swap_ending 10 (js ''open.png'') src)\<rparr>) (inherit_src g))"

section \<open>Code folding\<close>

record code_fold =
  fold_id :: jsstring
  foldopen_shown :: bool
  foldclosed_shown :: bool

record fold_page =
  opened :: bool
  fold_all_image :: jsstring
  folds :: "code_fold list"

definition plusImg :: "jsstring list" where
  "plusImg = [js ''var(--fold-plus-image)'', js ''var(--fold-plus-image-relpath)'']"

definition minusImg :: "jsstring list" where
  "minusImg = [js ''var(--fold-minus-image)'', js ''var(--fold-minus-image-relpath)'']"

text \<open>An index outside the array is \<open>undefined\<close>; then \<open>css\<close> only reads.\<close>

definition set_fold_image :: "jsstring list \<Rightarrow> nat \<Rightarrow> fold_page \<Rightarrow> fold_page" where
  "set_fold_image imgs relPath p = (if relPath < length imgs then p\<lparr>fold_all_image := imgs ! relPath\<rparr> else p)"

definition codefold_toggle_all :: "nat \<Rightarrow> fold_page \<Rightarrow> fold_page" where
  "codefold_toggle_all relPath p =
     (let q = (if opened p
               then (set_fold_image plusImg relPath p)\<lparr>folds := map (\<lambda>f. f\<lparr>foldopen_shown := False, foldclosed_shown := True\<rparr>) (folds p)\<rparr>
               else (set_fold_image minusImg relPath p)\<lparr>folds := map (\<lambda>f. f\<lparr>foldopen_shown := True, foldclosed_shown := False\<rparr>) (folds p)\<rparr>)
      in q\<lparr>opened := \<not> opened p\<rparr>)"

text \<open>Only the first element with the id is toggled.\<close>

fun toggle_fold :: "jsstring \<Rightarrow> code_fold list \<Rightarrow> code_fold list" where
  "toggle_fold i [] = []"
| "toggle_fold i (f # fs) =
     (if fold_id f = i
      then f\<lparr>foldopen_shown := \<not> foldopen_shown f, foldclosed_shown := \<not> foldclosed_shown f\<rparr> # fs
      else f # toggle_fold i fs)"

definition codefold_toggle :: "jsstring \<Rightarrow> fold_page \<Rightarrow> fold_page" where
  "codefold_toggle i p = p\<lparr>folds := toggle_fold i (folds p)\<rparr>"

section \<open>Row ids are paths\<close>

definition seg :: "nat \<Rightarrow> jsstring" where
  "seg n = js (show_nat n) @ [0x5F]"

definition path_id :: "nat list \<Rightarrow> jsstring" where
  "path_id p = concat (map seg p)"

lemma js_digits: "c \<in> set (js (show_nat n)) \<Longrightarrow> js_digit c"
proof -
  assume "c \<in> set (js (show_nat n))"
  then obtain d where d: "d \<in> set (show_nat n)" "c = of_nat (of_char d)" by (auto simp: js_def)
  then have "is_digit d" using show_nat_decimal [of n] by (auto simp: list_all_iff)
  then have "48 \<le> (of_char d :: nat)" "(of_char d :: nat) \<le> 57" by (simp_all add: is_digit_def)
  then show ?thesis by (simp add: d(2) js_digit_def word_le_nat_alt unat_of_nat)
qed

lemma js_show_nat [simp]: "list_all js_digit (js (show_nat n))" "js (show_nat n) \<noteq> []"
  using js_digits show_nat_decimal [of n] by (auto simp: list_all_iff js_def)

lemma not_digit_underscore [simp]: "\<not> js_digit 0x5F"
  by (simp add: js_digit_def word_le_nat_alt)

lemma digits_of_seg: "takeWhile js_digit (seg a @ xs) = js (show_nat a)"
  using js_digits [of _ a] by (simp add: seg_def takeWhile_append2)

interpretation paths: prefix_code seg
proof
  show "seg c \<noteq> []" for c by (simp add: seg_def)
  show "c = d" if "seg c @ xs = seg d @ ys" for c d xs ys
    using digits_of_seg [of c xs] digits_of_seg [of d ys] that by (simp add: js_inject show_nat_inject)
qed

lemma path_id_prefix: "prefix (path_id p) (path_id q) \<longleftrightarrow> prefix p q"
  unfolding path_id_def by (rule paths.encode_prefix)

lemma path_id_inject: "path_id p = path_id q \<longleftrightarrow> p = q"
  unfolding path_id_def by (rule paths.encode_inject)

lemma path_id_simps [simp]: "path_id [] = []" "path_id (n # p) = seg n @ path_id p" "path_id (p @ q) = path_id p @ path_id q"
  by (simp_all add: path_id_def)

text \<open>Folding of letters does not touch the characters of a path.\<close>

lemma path_chars: "c \<in> set (path_id p) \<Longrightarrow> js_digit c \<or> c = 0x5F"
  using js_digits by (auto simp: path_id_def seg_def split: if_splits)

lemma canonicalize_path: "c \<in> set (path_id p) \<Longrightarrow> canonicalize c = c"
  using path_chars [of c p] by (auto simp: canonicalize_def js_digit_def word_le_nat_alt)

lemma map_canonicalize_path: "map canonicalize (path_id p) = path_id p"
  by (simp add: map_idI canonicalize_path)

lemma one_segment:
  "2 \<le> length (path_id r) \<and> last (path_id r) = 0x5F \<and> list_all js_digit (butlast (path_id r)) \<longleftrightarrow> (\<exists>n. r = [n])"
proof (cases r)
  case (Cons n s)
  show ?thesis
  proof (cases s)
    case Nil
    have "1 \<le> length (js (show_nat n))" using js_show_nat(2) [of n] by (cases "js (show_nat n)") simp_all
    with Cons Nil show ?thesis by (simp add: seg_def butlast_append)
  next
    case (Cons m u)
    then have "path_id s \<noteq> []" by (simp add: seg_def)
    with \<open>r = n # s\<close> Cons show ?thesis by (simp add: seg_def butlast_append)
  qed
qed simp

lemma matches_child_path: "matches_child (path_id p) (js ''row_'' @ path_id q) \<longleftrightarrow> (\<exists>n. q = p @ [n])"
proof -
  have "map canonicalize (take (length (path_id p)) (path_id q)) = map canonicalize (path_id p) \<longleftrightarrow> prefix (path_id p) (path_id q)"
    unfolding take_map [symmetric] map_canonicalize_path by (auto simp: prefix_def) (metis append_take_drop_id)
  then have pre: "map canonicalize (take (length (js ''row_'' @ path_id p)) (js ''row_'' @ path_id q)) =
      map canonicalize (js ''row_'' @ path_id p) \<longleftrightarrow> prefix p q"
    by (simp add: path_id_prefix)
  show ?thesis
  proof (cases "prefix p q")
    case True
    then obtain r where q: "q = p @ r" by (rule prefixE)
    have "drop (length (js ''row_'' @ path_id p)) (js ''row_'' @ path_id q) = path_id r" by (simp add: q)
    with True pre one_segment [of r] show ?thesis unfolding matches_child_def Let_def by (simp only: q) simp
  next
    case False
    with pre show ?thesis unfolding matches_child_def Let_def by auto
  qed
qed

lemma row_prefix_path: "prefix (js ''row_'' @ path_id p) (js ''row_'' @ path_id q) \<longleftrightarrow> prefix p q"
  by (simp add: path_id_prefix)

section \<open>What the operations keep\<close>

lemma stripe_ids [simp]: "map row_id (stripe c turn rows) = map row_id rows"
  and stripe_shown [simp]: "map row_shown (stripe c turn rows) = map row_shown rows"
  by (induction c turn rows rule: stripe.induct) (simp_all add: Let_def)

lemma updateStripes_ids [simp]: "map row_id (updateStripes rows) = map row_id rows"
  and updateStripes_shown [simp]: "map row_shown (updateStripes rows) = map row_shown rows"
  by (simp_all add: updateStripes_def)

lemma close_spans_simps [simp]: "row_id (close_spans r) = row_id r" "row_shown (close_spans r) = row_shown r"
  and open_spans_simps [simp]: "row_id (open_spans r) = row_id r" "row_shown (open_spans r) = row_shown r"
  by (simp_all add: close_spans_def open_spans_def)

section \<open>Trees\<close>

text \<open>The rows of a table with their paths; a folder comes before what it contains.\<close>

definition dir_table :: "nat list list \<Rightarrow> dir_row list \<Rightarrow> bool" where
  "dir_table ps rows \<longleftrightarrow> map row_id rows = map (\<lambda>p. js ''row_'' @ path_id p) ps \<and> distinct ps \<and>
     (\<forall>i < length ps. \<forall>j < length ps. strict_prefix (ps ! i) (ps ! j) \<longrightarrow> i < j)"

definition is_child :: "nat list \<Rightarrow> nat list \<Rightarrow> bool" where
  "is_child p q \<longleftrightarrow> q \<noteq> [] \<and> butlast q = p"

lemma is_child_iff: "is_child p q \<longleftrightarrow> (\<exists>n. q = p @ [n])"
  by (auto simp: is_child_def) (metis append_butlast_last_id)

text \<open>A folder is open when the first row below it is shown.\<close>

definition folder_open :: "nat list list \<Rightarrow> dir_row list \<Rightarrow> nat list \<Rightarrow> bool" where
  "folder_open ps rows p =
     (case filter (\<lambda>j. is_child p (ps ! j)) [0..<length ps] of [] \<Rightarrow> False | j # js' \<Rightarrow> row_shown (rows ! j))"

lemma dir_table_length: "dir_table ps rows \<Longrightarrow> length rows = length ps"
  unfolding dir_table_def by (metis length_map)

lemma dir_table_id: "dir_table ps rows \<Longrightarrow> j < length ps \<Longrightarrow> row_id (rows ! j) = js ''row_'' @ path_id (ps ! j)"
  using dir_table_length [of ps rows] nth_map [of j rows row_id] by (simp add: dir_table_def)

lemma filter_drop: "filter P (drop k xs) = map (\<lambda>j. xs ! j) (filter (\<lambda>j. P (xs ! j)) [k..<length xs])"
proof -
  have "drop k xs = map (\<lambda>j. xs ! j) [k..<length xs]" by (rule nth_equalityI) simp_all
  then show ?thesis by (simp add: filter_map comp_def)
qed

lemma toggleFolder_split:
  assumes t: "dir_table ps rows" and k: "k < length ps"
  shows "toggleFolder (path_id (ps ! k)) rows = updateStripes (take k rows @
    (if folder_open ps rows (ps ! k)
     then close_spans (rows ! k) # map (\<lambda>r. if prefix (js ''row_'' @ path_id (ps ! k)) (row_id r) then r\<lparr>row_shown := False\<rparr> else r) (drop (Suc k) rows)
     else open_spans (rows ! k) # map (\<lambda>r. if matches_child (path_id (ps ! k)) (row_id r) then (close_spans r)\<lparr>row_shown := True\<rparr> else r) (drop (Suc k) rows)))"
proof -
  let ?p = "ps ! k" let ?other = "\<lambda>r. row_id r \<noteq> js ''row_'' @ path_id ?p"
  have len: "length rows = length ps" by (rule dir_table_length [OF t])
  have d: "distinct ps" and ord: "\<forall>i < length ps. \<forall>j < length ps. strict_prefix (ps ! i) (ps ! j) \<longrightarrow> i < j"
    using t by (simp_all add: dir_table_def)
  have tw: "takeWhile ?other rows = take k rows"
    using k len d by (intro takeWhile_eq_take_P_nth) (auto simp: dir_table_id [OF t] path_id_inject nth_eq_iff_index_eq)
  have dw: "dropWhile ?other rows = rows ! k # drop (Suc k) rows"
    using tw k len by (simp add: dropWhile_eq_drop Cons_nth_drop_Suc)
  have child: "matches_child (path_id ?p) (row_id (rows ! j)) \<longleftrightarrow> is_child ?p (ps ! j)" if "j < length ps" for j
    using that by (simp add: dir_table_id [OF t] matches_child_path is_child_iff)
  have late: "k < j" if "is_child ?p (ps ! j)" "j < length ps" for j
    using that ord k by (auto simp: is_child_iff strict_prefix_def)
  have "filter (\<lambda>r. matches_child (path_id ?p) (row_id r)) (drop (Suc k) rows) =
      map (\<lambda>j. rows ! j) (filter (\<lambda>j. is_child ?p (ps ! j)) [Suc k..<length ps])"
    unfolding filter_drop len using child by (intro arg_cong [where f = "map _"] filter_cong) simp_all
  moreover have "filter (\<lambda>j. is_child ?p (ps ! j)) [0..<length ps] = filter (\<lambda>j. is_child ?p (ps ! j)) [Suc k..<length ps]"
  proof -
    have "filter (\<lambda>j. is_child ?p (ps ! j)) [0..<Suc k] = []" using late k by (fastforce simp: filter_empty_conv)
    moreover have "[0..<length ps] = [0..<Suc k] @ [Suc k..<length ps]" 
      using k upt_add_eq_append [of 0 "Suc k" "length ps - Suc k"]
      by (simp only: le_add_diff_inverse Suc_leI le0)
    ultimately show ?thesis by (simp del: upt_Suc)
  qed
  ultimately have "folder_open ps rows ?p \<longleftrightarrow>
      (let cs = filter (\<lambda>r. matches_child (path_id ?p) (row_id r)) (drop (Suc k) rows) in cs \<noteq> [] \<and> row_shown (hd cs))"
    by (simp add: folder_open_def Let_def split: list.split)
  then show ?thesis unfolding toggleFolder_def tw dw Let_def by simp
qed

lemma toggleFolder_ids:
  "dir_table ps rows \<Longrightarrow> k < length ps \<Longrightarrow> map row_id (toggleFolder (path_id (ps ! k)) rows) = map row_id rows"
proof -
  assume t: "dir_table ps rows" "k < length ps"
  have g: "map row_id (map (\<lambda>r. if P r then r\<lparr>row_shown := False\<rparr> else r) xs) = map row_id xs"
    and h: "map row_id (map (\<lambda>r. if P r then (close_spans r)\<lparr>row_shown := True\<rparr> else r) xs) = map row_id xs" for P xs
    by (simp_all cong: map_cong)
  have "take k (map row_id rows) @ row_id (rows ! k) # drop (Suc k) (map row_id rows) = map row_id rows"
    using t(2) dir_table_length [OF t(1)] id_take_nth_drop [of k "map row_id rows"] by simp
  then show ?thesis
    unfolding toggleFolder_split [OF t] updateStripes_ids by (simp only: map_append list.map g h close_spans_simps open_spans_simps take_map drop_map split: if_split) simp
qed

lemma dir_table_ids: "map row_id rows' = map row_id rows \<Longrightarrow> dir_table ps rows \<Longrightarrow> dir_table ps rows'"
  by (simp add: dir_table_def)

lemma nth_split:
  assumes "k < length xs"
  shows "(take k xs @ y # map g (drop (Suc k) xs)) ! j = (if j < k then xs ! j else if j = k then y else if j < length xs then g (xs ! j) else (take k xs @ y # map g (drop (Suc k) xs)) ! j)"
  using assms by (auto simp: nth_append nth_Cons split: nat.split intro!: arg_cong [where f = "\<lambda>i. g (xs ! i)"])

text \<open>Clicking a folder hides everything below it, or shows exactly the rows directly in it;
  no other row appears or disappears.\<close>

lemma toggleFolder_shown:
  assumes t: "dir_table ps rows" and k: "k < length ps" and j: "j < length ps"
  shows "row_shown (toggleFolder (path_id (ps ! k)) rows ! j) \<longleftrightarrow>
    (if folder_open ps rows (ps ! k) then row_shown (rows ! j) \<and> \<not> strict_prefix (ps ! k) (ps ! j)
     else row_shown (rows ! j) \<or> is_child (ps ! k) (ps ! j))"
proof -
  have len: "length rows = length ps" by (rule dir_table_length [OF t])
  have ord: "\<forall>i < length ps. \<forall>j < length ps. strict_prefix (ps ! i) (ps ! j) \<longrightarrow> i < j" and d: "distinct ps"
    using t by (simp_all add: dir_table_def)
  have shown: "row_shown (updateStripes xs ! j) = row_shown (xs ! j)" if "length xs = length ps" for xs
    using that j updateStripes_shown [of xs] by (metis length_map nth_map)
  have below: "strict_prefix (ps ! k) (ps ! j) \<longleftrightarrow> k < j \<and> prefix (ps ! k) (ps ! j)"
    using ord k j d by (auto simp: strict_prefix_def nth_eq_iff_index_eq)
  have child: "is_child (ps ! k) (ps ! j) \<Longrightarrow> k < j"
    using ord k j by (auto simp: is_child_iff strict_prefix_def)
  show ?thesis
    unfolding toggleFolder_split [OF t k] using k j len below child
    by (auto simp: shown nth_split dir_table_id [OF t] path_id_prefix matches_child_path is_child_iff simp del: nth_append)
qed

section \<open>What the level links show\<close>

lemma edit_span_rows [simp]:
  "map row_id (edit_span i f rows) = map row_id rows" "map row_shown (edit_span i f rows) = map row_shown rows"
  by (induction i f rows rule: edit_span.induct) (simp_all split: option.split)

lemma length_edit_span [simp]: "length (edit_span i f rows) = length rows"
  using edit_span_rows(1) [of i f rows] by (metis length_map)

text \<open>The ids and the visibility after the rows up to \<open>k\<close> are done.\<close>

lemma level_row_effect:
  assumes "k < length rows"
  shows "map row_id (level_row level k rows) = map row_id rows \<and>
    map row_shown (level_row level k rows) = (map row_shown rows)[k := id_level (row_id (rows ! k)) \<le> level + 1]"
proof -
  have upd: "map row_id (xs[k := (xs ! k)\<lparr>row_shown := b\<rparr>]) = map row_id xs"
    "map row_shown (xs[k := (xs ! k)\<lparr>row_shown := b\<rparr>]) = (map row_shown xs)[k := b]" if "length xs = length rows" for xs b
    using assms that by (simp_all add: map_update) (metis list_update_id nth_map)
  show ?thesis
    unfolding level_row_def Let_def by (auto simp: upd)
qed

lemma level_rows_effect:
  "n \<le> length rows \<Longrightarrow> map row_id (fold (level_row level) [0..<n] rows) = map row_id rows \<and>
    map row_shown (fold (level_row level) [0..<n] rows) =
      map (\<lambda>r. id_level (row_id r) \<le> level + 1) (take n rows) @ map row_shown (drop n rows)"
proof (induction n)
  case (Suc n)
  let ?rows = "fold (level_row level) [0..<n] rows"
  from Suc have ids: "map row_id ?rows = map row_id rows"
    and sh: "map row_shown ?rows = map (\<lambda>r. id_level (row_id r) \<le> level + 1) (take n rows) @ map row_shown (drop n rows)"
    by simp_all
  have len: "length ?rows = length rows" using ids by (metis length_map)
  have idn: "row_id (?rows ! n) = row_id (rows ! n)" using ids len Suc.prems by (metis Suc_le_lessD nth_map)
  have n: "n < length ?rows" using len Suc.prems by simp
  have "drop n rows = rows ! n # drop (Suc n) rows" using Suc.prems by (simp add: Cons_nth_drop_Suc)
  then have "(map row_shown ?rows)[n := id_level (row_id (rows ! n)) \<le> level + 1] =
      map (\<lambda>r. id_level (row_id r) \<le> level + 1) (take (Suc n) rows) @ map row_shown (drop (Suc n) rows)"
    using Suc.prems by (simp add: sh list_update_append take_Suc_conv_app_nth)
  with level_row_effect [OF n, of level] ids idn show ?case by simp
qed simp

lemma id_level_path: "id_level (js ''row_'' @ path_id p) = int (length p) + 1"
proof -
  have seg: "filter (\<lambda>c. c = 0x5F) (seg n) = [0x5F]" for n
  proof -
    have "\<forall>c \<in> set (js (show_nat n)). c \<noteq> 0x5F" using js_digits [of _ n] not_digit_underscore by blast
    then show ?thesis by (simp add: seg_def filter_empty_conv)
  qed
  have "length (filter (\<lambda>c. c = 0x5F) (path_id p)) = length p"
    by (induction p) (simp_all add: seg)
  moreover have "length (filter (\<lambda>c. c = 0x5F) (js ''row_'')) = 1" by (simp add: js_def)
  ultimately show ?thesis by (simp add: id_level_def)
qed

lemma toggleLevel_effect:
  assumes "dir_table ps rows"
  shows "dir_table ps (toggleLevel level rows)"
    "j < length ps \<Longrightarrow> row_shown (toggleLevel level rows ! j) \<longleftrightarrow> int (length (ps ! j)) \<le> level"
proof -
  let ?rows = "toggleLevel level rows"
  have len: "length rows = length ps" by (rule dir_table_length [OF assms])
  have eff: "map row_id ?rows = map row_id rows" "map row_shown ?rows = map (\<lambda>r. id_level (row_id r) \<le> level + 1) rows"
    using level_rows_effect [of "length rows" rows level] by (simp_all add: toggleLevel_def)
  show "dir_table ps ?rows" by (rule dir_table_ids [OF eff(1) assms])
  show "row_shown (?rows ! j) \<longleftrightarrow> int (length (ps ! j)) \<le> level" if "j < length ps"
  proof -
    have "row_shown (?rows ! j) = (id_level (row_id (rows ! j)) \<le> level + 1)"
      using eff(2) that len by (metis length_map nth_map)
    then show ?thesis by (simp add: dir_table_id [OF assms that] id_level_path)
  qed
qed

section \<open>No orphans\<close>

text \<open>Every shown row below the top level has its folder shown.\<close>

definition no_orphans :: "nat list list \<Rightarrow> dir_row list \<Rightarrow> bool" where
  "no_orphans ps rows \<longleftrightarrow> (\<forall>j < length ps. row_shown (rows ! j) \<longrightarrow> 1 < length (ps ! j) \<longrightarrow>
     (\<exists>i < length ps. is_child (ps ! i) (ps ! j) \<and> row_shown (rows ! i)))"

definition has_folders :: "nat list list \<Rightarrow> bool" where
  "has_folders ps \<longleftrightarrow> (\<forall>q \<in> set ps. 1 < length q \<longrightarrow> butlast q \<in> set ps)"

inductive dir_step :: "nat list list \<Rightarrow> dir_row list \<Rightarrow> dir_row list \<Rightarrow> bool" for ps where
  click_folder: "k < length ps \<Longrightarrow> row_shown (rows ! k) \<Longrightarrow> dir_step ps rows (toggleFolder (path_id (ps ! k)) rows)"
| click_level: "dir_step ps rows (toggleLevel level rows)"

lemma no_orphans_folder:
  assumes t: "dir_table ps rows" and k: "k < length ps" and vis: "row_shown (rows ! k)" and inv: "no_orphans ps rows"
  shows "no_orphans ps (toggleFolder (path_id (ps ! k)) rows)"
  unfolding no_orphans_def
proof (intro allI impI)
  fix j assume j: "j < length ps" and sh: "row_shown (toggleFolder (path_id (ps ! k)) rows ! j)" and deep: "1 < length (ps ! j)"
  note shown = toggleFolder_shown [OF t k]
  show "\<exists>i < length ps. is_child (ps ! i) (ps ! j) \<and> row_shown (toggleFolder (path_id (ps ! k)) rows ! i)"
  proof (cases "row_shown (rows ! j)")
    case True
    with inv j deep obtain i where i: "i < length ps" "is_child (ps ! i) (ps ! j)" "row_shown (rows ! i)"
      by (auto simp: no_orphans_def)
    have "strict_prefix (ps ! k) (ps ! i) \<Longrightarrow> strict_prefix (ps ! k) (ps ! j)"
      using i(2) by (auto simp: is_child_iff strict_prefix_def)
    with i sh shown [OF j] shown [OF i(1)] show ?thesis by (auto split: if_splits)
  next
    case False
    with sh shown [OF j] have "is_child (ps ! k) (ps ! j)" "\<not> folder_open ps rows (ps ! k)" by (auto split: if_splits)
    with k vis shown [OF k] show ?thesis by auto
  qed
qed

lemma no_orphans_level:
  assumes t: "dir_table ps rows" and f: "has_folders ps"
  shows "no_orphans ps (toggleLevel level rows)"
  unfolding no_orphans_def
proof (intro allI impI)
  fix j assume j: "j < length ps" and sh: "row_shown (toggleLevel level rows ! j)" and deep: "1 < length (ps ! j)"
  have "butlast (ps ! j) \<in> set ps" using f j deep by (simp add: has_folders_def)
  then obtain i where i: "i < length ps" "ps ! i = butlast (ps ! j)" by (auto simp: in_set_conv_nth)
  moreover have "is_child (ps ! i) (ps ! j)" using i deep by (auto simp: is_child_def)
  moreover have "row_shown (toggleLevel level rows ! i)"
    using sh i by (simp add: toggleLevel_effect(2) [OF t] j)
  ultimately show "\<exists>i < length ps. is_child (ps ! i) (ps ! j) \<and> row_shown (toggleLevel level rows ! i)" by blast
qed

section \<open>Alternating stripes\<close>

text \<open>The classes after \<open>updateStripes\<close>: the visible rows alternate, hidden rows have neither class.\<close>

fun striped :: "bool \<Rightarrow> dir_row list \<Rightarrow> bool" where
  "striped even_turn [] = True"
| "striped even_turn (r # rs) =
     (if row_shown r
      then (js ''even'' \<in> set (row_classes r) \<longleftrightarrow> even_turn) \<and> (js ''odd'' \<in> set (row_classes r) \<longleftrightarrow> \<not> even_turn) \<and>
           striped (\<not> even_turn) rs
      else js ''even'' \<notin> set (row_classes r) \<and> js ''odd'' \<notin> set (row_classes r) \<and> striped even_turn rs)"

lemma class_simps [simp]: "d \<in> set (addClass c cs) \<longleftrightarrow> d = c \<or> d \<in> set cs" "d \<in> set (removeClass c cs) \<longleftrightarrow> d \<noteq> c \<and> d \<in> set cs"
  by (auto simp: addClass_def removeClass_def)

lemma even_odd [simp]: "js ''even'' \<noteq> js ''odd''"
  by (simp add: js_inject)

lemma striped_stripes:
  "striped True (stripe (js ''odd'') False (stripe (js ''even'') True rows)) \<and>
   striped False (stripe (js ''odd'') True (stripe (js ''even'') False rows))"
  by (induction rows) (simp_all add: Let_def even_odd [symmetric])

lemma dir_step_striped: "dir_step ps rows rows' \<Longrightarrow> striped True rows'"
  using striped_stripes
  by (auto elim!: dir_step.cases simp: toggleFolder_def toggleLevel_def updateStripes_def Let_def split: list.split)

section \<open>Properties\<close>

text \<open>C24: On a table of folders and files, whatever sequence of folder arrows and level links the
  reader clicks (one can only click on rows that are shown), a row is never shown while the folder
  that contains it is hidden, the table keeps its rows, and the visible rows are striped
  alternately from the first one on.\<close>

theorem directory_consistent:
  assumes "(dir_step ps)\<^sup>*\<^sup>* rows0 rows" and "dir_table ps rows0" and "has_folders ps" and "no_orphans ps rows0"
  shows "dir_table ps rows \<and> no_orphans ps rows \<and> (rows = rows0 \<or> striped True rows)"
  using assms(1)
proof (induction rule: rtranclp_induct)
  case base
  then show ?case using assms by simp
next
  case (step rows rows')
  then have inv: "dir_table ps rows" "no_orphans ps rows" by simp_all
  from step.hyps(2) have "dir_table ps rows' \<and> no_orphans ps rows'"
  proof cases
    case (click_folder k)
    then show ?thesis
      using dir_table_ids [OF toggleFolder_ids [OF inv(1)] inv(1)] no_orphans_folder [OF inv(1) _ _ inv(2)] by blast
  next
    case (click_level level)
    then show ?thesis using toggleLevel_effect(1) [OF inv(1)] no_orphans_level [OF inv(1) assms(3)] by simp
  qed
  with dir_step_striped [OF step.hyps(2)] show ?case by blast
qed

text \<open>Clicking the arrow of a folder hides everything below it when it is open, and shows exactly
  the rows directly in it when it is closed; all other rows stay as they are, also those of
  folders with similar numbers (\<open>0_1_\<close> and \<open>0_10_\<close>).\<close>

theorem toggleFolder_exact:
  assumes "dir_table ps rows" and "k < length ps" and "j < length ps"
  shows "row_shown (toggleFolder (path_id (ps ! k)) rows ! j) \<longleftrightarrow>
    (if folder_open ps rows (ps ! k) then row_shown (rows ! j) \<and> \<not> strict_prefix (ps ! k) (ps ! j)
     else row_shown (rows ! j) \<or> is_child (ps ! k) (ps ! j))"
  using toggleFolder_shown [OF assms] .

definition sample_paths :: "nat list list" where
  "sample_paths = [[0], [0, 0], [0, 1], [1]]"

definition sample_rows :: "dir_row list" where
  "sample_rows = map (\<lambda>p. \<lparr>row_id = js ''row_'' @ path_id p, row_shown = True, row_classes = [], row_spans = []\<rparr>) sample_paths"

lemma sample_table: "dir_table sample_paths sample_rows" "has_folders sample_paths" "no_orphans sample_paths sample_rows"
  by (simp_all add: dir_table_def sample_rows_def sample_paths_def has_folders_def no_orphans_def All_less_Suc Ex_less_Suc
      is_child_def numeral_nat)

theorem directory_consistent_witness:
  "no_orphans sample_paths (toggleFolder (path_id (sample_paths ! 0)) sample_rows) \<and>
   \<not> row_shown (toggleFolder (path_id (sample_paths ! 0)) sample_rows ! 2)"
proof -
  have k: "0 < length sample_paths" "2 < length sample_paths" by (simp_all add: sample_paths_def)
  have "row_shown (sample_rows ! 0)" by (simp add: sample_rows_def sample_paths_def)
  then have "(dir_step sample_paths)\<^sup>*\<^sup>* sample_rows (toggleFolder (path_id (sample_paths ! 0)) sample_rows)"
    using click_folder [OF k(1)] by blast
  from directory_consistent [OF this sample_table] show ?thesis
    using toggleFolder_shown [OF sample_table(1) k]
    by (simp add: folder_open_def sample_paths_def sample_rows_def is_child_def numeral_nat)
qed

theorem toggleFolder_exact_witness:
  "row_shown (toggleFolder (path_id (sample_paths ! 0)) sample_rows ! 3)"
  using toggleFolder_exact [OF sample_table(1), of 0 3]
  by (simp add: folder_open_def sample_paths_def sample_rows_def is_child_def numeral_nat)

section \<open>Coherent folding\<close>

text \<open>A section whose picture, link and contents agree.\<close>

definition section_ok :: "jsstring \<Rightarrow> dyn_section \<Rightarrow> bool" where
  "section_ok base s \<longleftrightarrow> summary_shown s = (\<not> content_shown s) \<and>
     (js ''opened'' \<in> set (link_classes s) \<longleftrightarrow> content_shown s) \<and> (js ''closed'' \<in> set (link_classes s) \<longleftrightarrow> \<not> content_shown s) \<and>
     trigger_src s = Some (base @ js (if content_shown s then ''open.png'' else ''closed.png''))"

lemma swap_open: "swap_ending 8 e (base @ js ''open.png'') = base @ e"
  and swap_closed: "swap_ending 10 e (base @ js ''closed.png'') = base @ e"
  by (simp_all add: swap_ending_def)

lemma toggleVisibility_ok:
  assumes "section_ok base s"
  shows "\<exists>s'. toggleVisibility s = Some s' \<and> section_ok base s' \<and> content_shown s' = (\<not> content_shown s)"
proof (cases "content_shown s")
  case True
  with assms show ?thesis
    by (auto simp: section_ok_def toggleVisibility_def swap_open js_inject)
next
  case False
  with assms show ?thesis
    by (auto simp: section_ok_def toggleVisibility_def swap_closed js_inject)
qed

definition inherit_ok :: "jsstring \<Rightarrow> bool \<Rightarrow> inherit_group \<Rightarrow> bool" where
  "inherit_ok base b g \<longleftrightarrow> inherit_rows g \<noteq> [] \<and> set (inherit_rows g) = {b} \<and>
     inherit_src g = Some (base @ js (if b then ''open.png'' else ''closed.png''))"

lemma toggleInherit_ok:
  assumes "inherit_ok base b g" shows "\<exists>g'. toggleInherit g = Some g' \<and> inherit_ok base (\<not> b) g'"
proof -
  have "hd (inherit_rows g) = b" using assms by (cases "inherit_rows g") (auto simp: inherit_ok_def)
  with assms show ?thesis
    by (cases b) (auto simp: inherit_ok_def toggleInherit_def swap_open swap_closed)
qed

text \<open>Every fold shows exactly one of its two forms.\<close>

definition folds_exclusive :: "fold_page \<Rightarrow> bool" where
  "folds_exclusive p \<longleftrightarrow> list_all (\<lambda>f. foldopen_shown f = (\<not> foldclosed_shown f)) (folds p)"

inductive fold_step :: "fold_page \<Rightarrow> fold_page \<Rightarrow> bool" where
  fold_one: "fold_step p (codefold_toggle i p)"
| fold_every: "fold_step p (codefold_toggle_all relPath p)"

lemma folds_all [simp]: "folds (codefold_toggle_all relPath p) =
    map (\<lambda>f. f\<lparr>foldopen_shown := \<not> opened p, foldclosed_shown := opened p\<rparr>) (folds p)"
  by (simp add: codefold_toggle_all_def Let_def)

lemma toggle_fold_exclusive:
  "list_all (\<lambda>f. foldopen_shown f = (\<not> foldclosed_shown f)) fs \<Longrightarrow>
   list_all (\<lambda>f. foldopen_shown f = (\<not> foldclosed_shown f)) (toggle_fold i fs)"
  by (induction i fs rule: toggle_fold.induct) auto

lemma fold_step_exclusive: "fold_step p q \<Longrightarrow> folds_exclusive p \<Longrightarrow> folds_exclusive q"
proof (induction rule: fold_step.induct)
  case (fold_one p i)
  then show ?case by (simp add: folds_exclusive_def codefold_toggle_def toggle_fold_exclusive)
next
  case (fold_every p relPath)
  show ?case by (simp add: folds_exclusive_def list_all_iff)
qed

text \<open>The collapsible parts of a page stay coherent under any clicks: a section shows its contents
  or its summary, with the matching picture and link class, and each click swaps the two; the
  inherited members of a class are shown or hidden together with the matching picture; every code
  fold shows exactly one of its two forms, and after the button for all folds all of them agree
  with the flag \<open>opened\<close>, also when single folds had been toggled before.\<close>

theorem folding_consistent:
  assumes "section_ok base s" and "inherit_ok base2 b g" and "fold_step\<^sup>*\<^sup>* p0 p" and "folds_exclusive p0"
  shows "(\<exists>s'. toggleVisibility s = Some s' \<and> section_ok base s' \<and> content_shown s' = (\<not> content_shown s)) \<and>
    (\<exists>g'. toggleInherit g = Some g' \<and> inherit_ok base2 (\<not> b) g') \<and>
    folds_exclusive p \<and>
    list_all (\<lambda>f. foldopen_shown f = opened (codefold_toggle_all relPath p)) (folds (codefold_toggle_all relPath p))"
proof -
  have "folds_exclusive p" using assms(3,4) by (induction rule: rtranclp_induct) (auto intro: fold_step_exclusive)
  moreover have "opened (codefold_toggle_all relPath p) = (\<not> opened p)" by (simp add: codefold_toggle_all_def Let_def)
  ultimately show ?thesis using toggleVisibility_ok [OF assms(1)] toggleInherit_ok [OF assms(2)] by (simp add: list_all_iff)
qed

definition sample_section :: dyn_section where
  "sample_section = \<lparr>link_classes = [js ''closed''], summary_shown = True, content_shown = False, trigger_src = Some (js ''closed.png'')\<rparr>"

definition sample_group :: inherit_group where
  "sample_group = \<lparr>inherit_rows = [False, False], inherit_src = Some (js ''closed.png'')\<rparr>"

definition sample_folds :: fold_page where
  "sample_folds = \<lparr>opened = True, fold_all_image = [], folds = [\<lparr>fold_id = js ''00012'', foldopen_shown = True, foldclosed_shown = False\<rparr>]\<rparr>"

theorem folding_consistent_witness:
  "(\<exists>s'. toggleVisibility sample_section = Some s' \<and> content_shown s') \<and>
   (\<exists>g'. toggleInherit sample_group = Some g' \<and> inherit_ok [] True g') \<and>
   folds_exclusive (codefold_toggle (js ''00012'') sample_folds)"
proof -
  have s: "section_ok [] sample_section" by (simp add: section_ok_def sample_section_def js_inject)
  have g: "inherit_ok [] False sample_group" by (simp add: inherit_ok_def sample_group_def)
  have p: "fold_step\<^sup>*\<^sup>* sample_folds (codefold_toggle (js ''00012'') sample_folds)" by (blast intro: fold_one)
  have e: "folds_exclusive sample_folds" by (simp add: folds_exclusive_def sample_folds_def)
  from folding_consistent [OF s g p e] show ?thesis by (auto simp: sample_section_def)
qed

end
