(* ===== verification/Spec2Isabelle.thy ===== *)
theory Spec2Isabelle
  imports System Terminal_Correct Search_All_Correct Menu Dynsections
begin

text \<open>
  \<^bold>\<open>Space Telemetry Ground Station (STGS): verification development\<close>

  The repository holds two programs. The first is the ground station itself, in C++: it receives
  telemetry frames over UDP or TCP or from a replay file, validates them, watches the health of the
  station, shows application payloads and exports the frames; a simulator produces such frames. The second is the set of scripts of
  the generated documentation (\<^verbatim>\<open>docs/doxygen/html\<close>), in JavaScript: the symbol search with
  keyboard navigation, the menu and the collapsible parts of a page.

  \<^bold>\<open>Parts of the ground station and their theories\<close>

  \<^item> \<open>Prelude\<close>: generic lemmas on lists, options and words, decimal and hexadecimal output,
    error values (\<open>exn\<close>, \<open>result\<close>).
  \<^item> \<open>Byte_Utils\<close> (\<^verbatim>\<open>include/stgs/ByteUtils.hpp\<close>), \<open>Crc32\<close> (\<^verbatim>\<open>Crc32.hpp\<close>, \<^verbatim>\<open>Crc32.cpp\<close>):
    big-endian fields and the CRC. Reads outside a buffer are undefined behaviour and modelled as
    \<open>None\<close>; the readers are then shown never to do it.
  \<^item> \<open>Float32\<close>, \<open>Float64\<close>, \<open>Float_Arith\<close>, \<open>Float_Rounding\<close>: IEEE numbers. Single precision values
    are bit patterns with an exact value; \<open>double\<close> is a rational or one of the special values, and
    every operation rounds to nearest, ties to even, with overflow to infinity (zeros carry no
    sign, which nothing modelled observes). \<open>Float_Rounding\<close> shows that rounding never leaves an
    interval with representable ends.
  \<^item> \<open>Frame_Codec\<close> and \<open>Stream_Extractor\<close> (\<^verbatim>\<open>TelemetryFrame.hpp\<close>, \<^verbatim>\<open>FrameCodec.cpp\<close>): STGS frames,
    and the extraction of frames from a TCP stream with resynchronisation.
  \<^item> \<open>App_Payload\<close> (\<^verbatim>\<open>ApplicationPayload.cpp\<close>): text messages and signal blocks inside frames.
  \<^item> \<open>Replay\<close> (\<^verbatim>\<open>Replay.cpp\<close>): capture files, over explicit buffered streams whose device decides how many
    of the waiting bytes an operation moves to the file and whether it succeeds.
  \<^item> \<open>Station_Health\<close> (\<^verbatim>\<open>StationHealth.cpp\<close>): the sliding window and the two-state automaton.
  \<^item> \<open>Blocking_Queue\<close> (\<^verbatim>\<open>BlockingQueue.hpp\<close>): the bounded queue, with the locale \<open>fifo_channel\<close>
    for what the pipeline relies on.
  \<^item> \<open>Pipeline\<close>, \<open>Pipeline_Invariant\<close>, \<open>Pipeline_Correct\<close>, \<open>Pipeline_History\<close>
    (\<^verbatim>\<open>GroundStationPipeline.cpp\<close>, \<^verbatim>\<open>GroundStationWorkers.cpp\<close>): main thread, decoders and writer
    as state machines that interleave arbitrarily; a stop request and a failing input may happen at
    any time. What the writer does with a result is a parameter.
  \<^item> \<open>Text_Escape\<close>, \<open>Telemetry_Output\<close> (\<^verbatim>\<open>TelemetryOutput.cpp\<close>): CSV and JSON export.
  \<^item> \<open>Cli_Parsing\<close>, \<open>Logger\<close>, \<open>Ground_Options\<close> (\<^verbatim>\<open>CliParsing.hpp\<close>, \<^verbatim>\<open>Logger.cpp\<close>,
    \<^verbatim>\<open>GroundStationOptions.cpp\<close>): the command line, with \<open>from_chars\<close> and \<open>strtod\<close> written out.
  \<^item> \<open>Signal_Processing\<close>, \<open>Signal_Correct\<close> (\<^verbatim>\<open>SignalProcessing.cpp\<close>): filters and metrics.
  \<^item> \<open>Station\<close>, \<open>Station_Correct\<close>, \<open>Station_Robust\<close>, \<open>Station_Complete\<close> (\<^verbatim>\<open>GroundStationProcessing.cpp\<close>,
    \<^verbatim>\<open>GroundStationApp.cpp\<close>, the body of \<open>writerLoop\<close>): the writer's own
    processing, with which the pipeline is instantiated. \<open>Station_Complete\<close> has the sessions that cannot
    fail: \<open>good_environment\<close> (every write and the flush succeed) and \<open>tame\<close> frames (no signal sample
    above \<open>2 ^ 125\<close> in sine-projection mode).
  \<^item> \<open>Terminal\<close>, \<open>Terminal_Correct\<close> (\<^verbatim>\<open>TerminalUi.cpp\<close>): detection of the terminal's capabilities, lines,
    sparklines; the events of \<open>Station\<close> and the calls of \<open>Port_Diagnostics\<close> become the bytes written.

  \<^item> \<open>Simulator_Options\<close>, \<open>Simulator\<close>, \<open>Simulator_Correct\<close> (\<^verbatim>\<open>apps/satellite_simulator\<close>): the command
    line of the satellite simulator, its frame factory, the sending of frames and the transmission
    loop with losses, corruption and capture.
  \<^item> \<open>Network_Server\<close>, \<open>Network_Correct\<close> (\<^verbatim>\<open>NetworkServer.cpp\<close>, \<^verbatim>\<open>NetworkServerTcp.cpp\<close>,
    \<^verbatim>\<open>NetworkServerUdp.cpp\<close>): the server socket, the loop over several TCP clients and the UDP loop.
    A run is given what the system answers in each turn; a callback with a state of its own, which
    may raise, stands for \<open>submit\<close>.
  \<^item> \<open>Port_Diagnostics\<close>, \<open>Port_Correct\<close> (\<^verbatim>\<open>PortDiagnostics.cpp\<close>, \<^verbatim>\<open>apps/port_check.cpp\<close>): probes and
    scans of ports, the program that shows them, and the choice of a port by both applications.
  \<^item> \<open>System\<close>: transmitters, network server, pipeline and export together.

  \<^bold>\<open>Parts of the documentation scripts and their theories\<close>

  \<^item> \<open>Dom\<close>: strings as UTF-16 code units, the document as a tree with addresses, the DOM calls the
    scripts use; dereferencing \<open>null\<close> or \<open>undefined\<close> is \<open>None\<close>.
  \<^item> \<open>Search_World\<close>, \<open>Search_Results\<close>, \<open>Search_Box\<close> (\<^verbatim>\<open>search/search.js\<close>, \<^verbatim>\<open>search/searchdata.js\<close>):
    every function of the search, over the page, the pending timers, the scripts requested and the
    focus; \<open>Prefix_Code\<close> is the interface for the encoding of names into ids.
  \<^item> \<open>Search_Correct\<close>, \<open>Search_Properties\<close>: their lemmas and properties.
  \<^item> \<open>Search_Index\<close>, \<open>Search_Index_Correct\<close> (\<^verbatim>\<open>search/files_*.js\<close>, \<^verbatim>\<open>functions\<close>, \<^verbatim>\<open>variables\<close>,
    \<^verbatim>\<open>typedefs\<close>, \<^verbatim>\<open>enums\<close>, \<^verbatim>\<open>enumvalues\<close>, \<^verbatim>\<open>defines\<close>): the shipped index, and that it fits the scripts.
  \<^item> \<open>Search_Index_All\<close>, \<open>Search_Words\<close>, \<open>Search_All_Files\<close>, \<open>Search_All_Correct\<close> (\<^verbatim>\<open>search/all_*.js\<close>,
    \<^verbatim>\<open>classes\<close>, \<^verbatim>\<open>namespaces\<close>, \<^verbatim>\<open>pages\<close>): the rest of the shipped index, and that the section \<open>all\<close>, which the
    search box starts with, lacks nothing of the others.
  \<^item> \<open>Dynsections\<close> (\<^verbatim>\<open>dynsections.js\<close>): directory tables, sections, inherited members, code folds.
  \<^item> \<open>Menu\<close> (\<^verbatim>\<open>menu.js\<close>, \<^verbatim>\<open>menudata.js\<close>): the menu tree and the place of the search box.

  \<^bold>\<open>What is shown\<close>

  Codecs: encoder and decoder are inverse bijections between values and accepted bytes, for frames,
  application payloads and captures; any single changed byte is rejected; truncated captures give a
  prefix; the table-driven CRC equals the bit-serial one. Streams: any fragmentation of the TCP
  stream gives the same frames, within a bounded buffer, and noise in which, up to the next frame, the magic
  does not begin costs nothing that follows (a false header in it can swallow a frame, which is shown, too).
  Concurrency: for every interleaving, thread count and capacity the pipeline is free of deadlock,
  terminates, and a run that ends without error has the result of sequential processing; at every
  moment the work done is a prefix in order of reception. Station: a finished session has exported
  exactly the document of the frames that decode; a failing one a prefix; the only frames that can
  stop the station are signal blocks with enormous samples in sine-projection mode, and one such
  frame is exhibited; without these, and with writing that succeeds, a session ends without an exception, stopped or not. Terminal: without colours nothing a received frame makes the station show holds a
  control byte other than line feeds, and no sparkline leaves its table of levels. Simulator: with accepted options the building of a frame fails only when
  signal and noise overflow a \<open>float\<close> (nothing is asked of the noise, which for the default deviation 0 the standard does not even
  define), and in a session as above the station exports exactly what was sent undamaged and
  rejects what the simulator counts as corrupted. Network: for every sequence of answers of the system, also wrong
  ones, the server accesses no vector out of range and closes every descriptor exactly once; every TCP
  connection is extracted as if it were alone, so a session as above exports the frames of all clients, each
  client's in its order; over UDP, with loss, doubling and reordering, it exports the datagrams that arrive undamaged. Ports: the automatic port is the
  lowest that can be bound, scans report every port of the range once, and accepted options are never
  refused by them. Health: the monitor refines an automaton over the last samples. Command line:
  numbers and ranges are read exactly, accepted options satisfy all constraints that the parser is there to check, but
  not two that only the monitor checks: two accepted command lines that it refuses are exhibited. Documentation scripts: a search shows exactly the
  rows whose id starts with the encoded search string; the pointer walks and the keyboard
  navigation terminate and find what their recursive specifications say; the search box is
  always the visible one; every entry of the index sections files, functions, variables, typedefs, enumerations, enumeration
  values and macros is found under its name in its section, and
  every entry of every section by its word in the section \<open>all\<close>; the folders of
  a directory table stay consistent under all clicks; two defects of the search are proved.

  \<^bold>\<open>Bounds and termination\<close>

  Every loop is a total function with a measure, or structural; none uses fuel that can run out,
  except the walks over the document, which are \<open>partial_function\<close>s (\<open>None\<close> for a walk that does
  not end) with theorems that they return, and the search for the decimal exponent of a printed
  \<open>double\<close>, which stops after 400 steps: the exponents of finite values lie well inside. Sequence numbers and counters are 64-bit words; the
  pipeline theorems ask for fewer than \<open>2 ^ 64\<close> frames. Signals are shorter than \<open>2 ^ 29\<close> samples
  (a payload holds fewer than 65536).

  \<^bold>\<open>Parameters\<close>

  The output device and the answers of the file system, the time stamp text of the logger, the
  mathematics library (\<open>sin\<close> and \<open>cos\<close> bounded by one where needed), the engine and distributions
  of \<^verbatim>\<open><random>\<close>, the clock, the answers to \<open>socket\<close>, \<open>bind\<close>, \<open>connect\<close>, \<open>poll\<close>, \<open>accept\<close>, \<open>recv\<close>, \<open>send\<close> and
  \<open>inet_pton\<close>, the text of an error number, the environment variables, whether the output is a terminal and its width, the case mapping
  \<open>toLowerCase\<close> of the browser. Descriptor numbers are reused by the system: the connections are
  numbered by their acceptance (the field \<open>client_conn\<close>, which no code reads), and this number names them in the histories.

  \<^bold>\<open>Not modelled\<close>

  The kernel's side of the sockets (its answers are the input of the models) and POSIX signals (their
  effect, the request to stop, is a step of the pipeline); the periodic progress thread (it only
  reads counters), pacing of replay and simulator, usage texts, tests and benchmarks; of the
  scripts, \<open>init_codefold\<close> (it cuts up the HTML text of a listing) and the tooltips of
  \<^verbatim>\<open>dynsections.js\<close>, and the third-party library \<^verbatim>\<open>jquery.js\<close>.
\<close>

end
